(* ===== verification/GoBase.thy ===== *)
theory GoBase
  imports Main "HOL-Library.Sublist" "HOL-Library.AList" "HOL-Library.Finite_Map"
    "HOL-Library.Word"
begin

text \<open>
  The prelude: what the components use of the Go language and of its standard library.
  A Go string is a byte string, modelled as a HOL \<open>string\<close> (a list of 8-bit characters).
  The functions of package \<open>strings\<close> and \<open>strconv\<close> are written out on bytes. Where Go consults
  its Unicode tables for a string with a byte above 127 (\<open>ToLower\<close>, \<open>ToUpper\<close>,
  \<open>EqualFold\<close>, \<open>Quote\<close>) the tables are the fields of the record \<open>unicode\<close>, an argument of the
  definitions that reach them; ASCII input never reads them.
  A Go map that may be nil is \<open>('k, 'v) fmap option\<close>. An error is a value of type \<open>goerr\<close>: its
  text and the two facts the code asks of it with \<open>errors.Is\<close>.
\<close>

named_theorems go_defs \<open>definitions of the Go library functions\<close>
named_theorems model_defs \<open>definitions of the program's operations\<close>
named_theorems inv_intros \<open>preservation of the invariants\<close>

section \<open>Errors\<close>

datatype goerr = GoErr (err_text: string) (err_canceled: bool) (err_not_exist: bool)

type_synonym 'a result = "goerr + 'a"

definition new_error :: "string \<Rightarrow> goerr" where
  "new_error msg = GoErr msg False False"

text \<open>\<open>fmt.Errorf ("... %w ...", e)\<close>: a new text around an error that \<open>errors.Is\<close> still sees.\<close>

definition wrap_error :: "string \<Rightarrow> goerr \<Rightarrow> goerr" where
  "wrap_error msg e = GoErr (msg @ err_text e) (err_canceled e) (err_not_exist e)"

definition ctx_canceled :: goerr where
  "ctx_canceled = GoErr ''context canceled'' True False"

lemma new_error_simps [simp]:
  "err_text (new_error m) = m" "\<not> err_canceled (new_error m)" "\<not> err_not_exist (new_error m)"
  by (simp_all add: new_error_def)

lemma ctx_canceled_simps [simp]: "err_canceled ctx_canceled"
  by (simp add: ctx_canceled_def)

lemma wrap_error_simps [simp]:
  "err_text (wrap_error m e) = m @ err_text e"
  "err_canceled (wrap_error m e) = err_canceled e"
  by (simp_all add: wrap_error_def)

section \<open>Bytes and case\<close>

definition byte_of :: "char \<Rightarrow> nat" where
  "byte_of c = of_char c"

definition ascii_char :: "char \<Rightarrow> bool" where
  "ascii_char c \<longleftrightarrow> byte_of c < 128"

definition ascii :: "string \<Rightarrow> bool" where
  "ascii s \<longleftrightarrow> list_all ascii_char s"

definition lower_char :: "char \<Rightarrow> char" where
  "lower_char c = (if 65 \<le> byte_of c \<and> byte_of c \<le> 90 then char_of (byte_of c + 32) else c)"

definition upper_char :: "char \<Rightarrow> char" where
  "upper_char c = (if 97 \<le> byte_of c \<and> byte_of c \<le> 122 then char_of (byte_of c - 32) else c)"

record unicode =
  u_lower :: "string \<Rightarrow> string"
  u_upper :: "string \<Rightarrow> string"
  u_fold :: "string \<Rightarrow> string \<Rightarrow> bool"
  u_quote :: "string \<Rightarrow> string"

definition to_lower :: "unicode \<Rightarrow> string \<Rightarrow> string" where
  "to_lower u s = (if ascii s then map lower_char s else u_lower u s)"

definition to_upper :: "unicode \<Rightarrow> string \<Rightarrow> string" where
  "to_upper u s = (if ascii s then map upper_char s else u_upper u s)"

definition equal_fold :: "unicode \<Rightarrow> string \<Rightarrow> string \<Rightarrow> bool" where
  "equal_fold u s t =
     (if ascii s \<and> ascii t then map lower_char s = map lower_char t else u_fold u s t)"

text \<open>A table for evaluating examples: bytes above 127 have no case.\<close>

definition ascii_tables :: unicode where
  "ascii_tables = \<lparr>u_lower = map lower_char, u_upper = map upper_char,
     u_fold = (\<lambda>s t. map lower_char s = map lower_char t), u_quote = (\<lambda>s. s)\<rparr>"

definition hex_digit :: "nat \<Rightarrow> char" where
  "hex_digit n = (if n < 10 then char_of (48 + n) else char_of (87 + n))"

definition quote_char :: "char \<Rightarrow> string" where
  "quote_char c =
     (let b = byte_of c in
      if b = 34 \<or> b = 92 then [CHR 0x5C, c]
      else if 32 \<le> b \<and> b \<le> 126 then [c]
      else if b = 7 then [CHR 0x5C, CHR ''a''] else if b = 8 then [CHR 0x5C, CHR ''b'']
      else if b = 12 then [CHR 0x5C, CHR ''f''] else if b = 10 then [CHR 0x5C, CHR ''n'']
      else if b = 13 then [CHR 0x5C, CHR ''r''] else if b = 9 then [CHR 0x5C, CHR ''t'']
      else if b = 11 then [CHR 0x5C, CHR ''v'']
      else [CHR 0x5C, CHR ''x'', hex_digit (b div 16), hex_digit (b mod 16)])"

definition quote :: "unicode \<Rightarrow> string \<Rightarrow> string" where
  "quote u s =
     (if ascii s then [CHR 0x22] @ concat (map quote_char s) @ [CHR 0x22] else u_quote u s)"

section \<open>Trimming\<close>

text \<open>The UTF-8 encodings of the white-space code points that \<open>strings.TrimSpace\<close> removes.\<close>

definition space_seqs :: "string list" where
  "space_seqs =
     [[CHR 0x09], [CHR 0x0A], [CHR 0x0B], [CHR 0x0C], [CHR 0x0D], [CHR 0x20],
      [CHR 0xC2, CHR 0x85], [CHR 0xC2, CHR 0xA0], [CHR 0xE1, CHR 0x9A, CHR 0x80],
      [CHR 0xE2, CHR 0x80, CHR 0x80], [CHR 0xE2, CHR 0x80, CHR 0x81],
      [CHR 0xE2, CHR 0x80, CHR 0x82], [CHR 0xE2, CHR 0x80, CHR 0x83],
      [CHR 0xE2, CHR 0x80, CHR 0x84], [CHR 0xE2, CHR 0x80, CHR 0x85],
      [CHR 0xE2, CHR 0x80, CHR 0x86], [CHR 0xE2, CHR 0x80, CHR 0x87],
      [CHR 0xE2, CHR 0x80, CHR 0x88], [CHR 0xE2, CHR 0x80, CHR 0x89],
      [CHR 0xE2, CHR 0x80, CHR 0x8A], [CHR 0xE2, CHR 0x80, CHR 0xA8],
      [CHR 0xE2, CHR 0x80, CHR 0xA9], [CHR 0xE2, CHR 0x80, CHR 0xAF],
      [CHR 0xE2, CHR 0x81, CHR 0x9F], [CHR 0xE3, CHR 0x80, CHR 0x80]]"

text \<open>The length of the first sequence of \<open>ws\<close> that the string starts with, 0 for none.\<close>

fun lead_len :: "string list \<Rightarrow> string \<Rightarrow> nat" where
  "lead_len [] s = 0"
| "lead_len (w # ws) s = (if prefix w s then length w else lead_len ws s)"

function trim_lead :: "string list \<Rightarrow> string \<Rightarrow> string" where
  "trim_lead ws s =
     (if s = [] \<or> lead_len ws s = 0 then s else trim_lead ws (drop (lead_len ws s) s))"
  by pat_completeness auto
termination
  by (relation "measure (\<lambda>(ws, s). length s)") auto

declare trim_lead.simps [simp del]

definition trim_space :: "string \<Rightarrow> string" where
  "trim_space s = rev (trim_lead (map rev space_seqs) (rev (trim_lead space_seqs s)))"

text \<open>\<open>strings.Trim\<close>, \<open>TrimLeft\<close> and \<open>TrimRight\<close> with a cutset of ASCII characters.\<close>

definition trim_left :: "string \<Rightarrow> string \<Rightarrow> string" where
  "trim_left cs s = dropWhile (\<lambda>c. c \<in> set cs) s"

definition trim_right :: "string \<Rightarrow> string \<Rightarrow> string" where
  "trim_right cs s = rev (dropWhile (\<lambda>c. c \<in> set cs) (rev s))"

definition trim :: "string \<Rightarrow> string \<Rightarrow> string" where
  "trim cs s = trim_right cs (trim_left cs s)"

lemma lead_len_le: "lead_len ws s \<le> length s"
  by (induction ws) (auto simp: prefix_length_le)

lemma trim_lead_suffix: "suffix (trim_lead ws s) s"
proof (induction ws s rule: trim_lead.induct)
  case (1 ws s)
  show ?case
    by (subst trim_lead.simps) (use 1 in \<open>auto intro: suffix_order.trans suffix_drop\<close>)
qed

lemma trim_lead_Nil [simp]: "trim_lead ws [] = []"
  by (simp add: trim_lead.simps)

lemma set_trim_space: "set (trim_space s) \<subseteq> set s"
proof -
  have "set (trim_lead ws t) \<subseteq> set t" for ws t
    using trim_lead_suffix[of ws t] by (simp add: set_mono_suffix)
  then show ?thesis
    unfolding trim_space_def by (metis (no_types, opaque_lifting) dual_order.trans set_rev)
qed

lemma trim_space_Nil [simp]: "trim_space [] = []"
  by (simp add: trim_space_def)

lemma set_trim_right: "set (trim_right cs s) \<subseteq> set s"
  unfolding trim_right_def by (metis set_dropWhileD set_rev subsetI)

lemma set_trim: "set (trim cs s) \<subseteq> set s"
  unfolding trim_def trim_left_def using set_trim_right set_dropWhileD by fastforce

lemma trim_right_last: "trim_right cs s \<noteq> [] \<Longrightarrow> last (trim_right cs s) \<notin> set cs"
  unfolding trim_right_def
  by (metis (mono_tags, lifting) hd_dropWhile last_rev rev.simps(1))

lemma trim_left_hd: "trim_left cs s \<noteq> [] \<Longrightarrow> hd (trim_left cs s) \<notin> set cs"
  unfolding trim_left_def by (rule hd_dropWhile)

lemma trim_right_prefix: "prefix (trim_right cs s) s"
  unfolding trim_right_def
  by (metis rev_rev_ident suffix_dropWhile suffix_to_prefix)

lemma trim_hd: "trim cs s \<noteq> [] \<Longrightarrow> hd (trim cs s) \<notin> set cs"
proof -
  assume ne: "trim cs s \<noteq> []"
  have p: "prefix (trim cs s) (trim_left cs s)"
    by (simp add: trim_def trim_right_prefix)
  then have "hd (trim cs s) = hd (trim_left cs s)" "trim_left cs s \<noteq> []"
    using ne by (auto simp: prefix_def)
  then show ?thesis using trim_left_hd by metis
qed

lemma trim_last: "trim cs s \<noteq> [] \<Longrightarrow> last (trim cs s) \<notin> set cs"
  by (simp add: trim_def trim_right_last)

end
