(* ===== verification/GoStrings.thy ===== *)
theory GoStrings
  imports GoBase
begin

text \<open>
  Splitting, joining and number texts: \<open>strings.Index\<close>, \<open>Cut\<close>, \<open>Split\<close>, \<open>Join\<close>,
  \<open>Contains\<close>, \<open>FieldsFunc\<close>, \<open>Fields\<close>, and \<open>strconv\<close>'s decimal texts of signed 64-bit integers
  with their round trips.
\<close>

section \<open>Index, Cut, Contains, Replace\<close>

fun index_of :: "string \<Rightarrow> string \<Rightarrow> nat option" where
  "index_of sep [] = (if sep = [] then Some 0 else None)"
| "index_of sep (c # cs) =
     (if prefix sep (c # cs) then Some 0 else map_option Suc (index_of sep cs))"

definition contains_str :: "string \<Rightarrow> string \<Rightarrow> bool" where
  "contains_str s sep \<longleftrightarrow> index_of sep s \<noteq> None"

text \<open>\<open>strings.Cut\<close>: before, after, found.\<close>

definition cut_str :: "string \<Rightarrow> string \<Rightarrow> string \<times> string \<times> bool" where
  "cut_str s sep =
     (case index_of sep s of None \<Rightarrow> (s, [], False)
      | Some i \<Rightarrow> (take i s, drop (i + length sep) s, True))"

definition trim_prefix :: "string \<Rightarrow> string \<Rightarrow> string" where
  "trim_prefix s p = (if prefix p s then drop (length p) s else s)"

definition trim_suffix :: "string \<Rightarrow> string \<Rightarrow> string" where
  "trim_suffix s p = (if suffix p s then take (length s - length p) s else s)"

definition replace_char :: "char \<Rightarrow> char \<Rightarrow> string \<Rightarrow> string" where
  "replace_char a b s = map (\<lambda>c. if c = a then b else c) s"

lemma index_of_Some:
  "index_of sep s = Some i \<Longrightarrow> i + length sep \<le> length s \<and> take (length sep) (drop i s) = sep"
proof (induction sep s arbitrary: i rule: index_of.induct)
  case (1 sep)
  then show ?case by (auto split: if_splits)
next
  case (2 sep c cs)
  show ?case
  proof (cases "prefix sep (c # cs)")
    case True
    with 2 show ?thesis
      by (metis add_0 append_eq_conv_conj drop0 index_of.simps(2) option.inject prefix_def
          prefix_length_le)
  next
    case False
    with 2 show ?thesis by auto
  qed
qed

lemma cut_str_found:
  assumes "cut_str s sep = (b, a, True)"
  shows "s = b @ sep @ a"
proof -
  from assms obtain i where i: "index_of sep s = Some i" "b = take i s" "a = drop (i + length sep) s"
    by (auto simp: cut_str_def split: option.splits)
  from index_of_Some[OF i(1)] have "take (length sep) (drop i s) = sep" by simp
  then have "drop i s = sep @ drop (length sep) (drop i s)"
    by (metis append_take_drop_id)
  then show ?thesis using i by (metis append_take_drop_id drop_drop add.commute)
qed

lemma index_of_append_char:
  "d \<notin> set b \<Longrightarrow> index_of [d] (b @ d # a) = Some (length b)"
  by (induction b) auto

lemma index_of_char_None: "index_of [d] s = None \<longleftrightarrow> d \<notin> set s"
  by (induction s) auto

lemma cut_str_char [simp]: "d \<notin> set b \<Longrightarrow> cut_str (b @ d # a) [d] = (b, a, True)"
  by (simp add: cut_str_def index_of_append_char)

lemma cut_str_char_None [simp]: "d \<notin> set s \<Longrightarrow> cut_str s [d] = (s, [], False)"
  by (simp add: cut_str_def index_of_char_None[THEN iffD2])

section \<open>Split and Join\<close>

text \<open>\<open>strings.Split\<close> with a one-byte separator: always at least one piece.\<close>

fun split_on :: "char \<Rightarrow> string \<Rightarrow> string list" where
  "split_on d [] = [[]]"
| "split_on d (c # cs) =
     (if c = d then [] # split_on d cs
      else case split_on d cs of [] \<Rightarrow> [[c]] | w # ws \<Rightarrow> (c # w) # ws)"

fun join_with :: "string \<Rightarrow> string list \<Rightarrow> string" where
  "join_with d [] = []"
| "join_with d [w] = w"
| "join_with d (w # v # ws) = w @ d @ join_with d (v # ws)"

lemma split_on_not_Nil [simp]: "split_on d s \<noteq> []"
  by (induction s) (auto split: list.splits)

lemma split_on_no_sep: "w \<in> set (split_on d s) \<Longrightarrow> d \<notin> set w"
  by (induction s arbitrary: w) (auto split: list.splits if_splits)

lemma split_on_subset: "w \<in> set (split_on d s) \<Longrightarrow> set w \<subseteq> set s"
  by (induction s arbitrary: w) (fastforce split: list.splits if_splits)+

lemma join_with_Cons: "ws \<noteq> [] \<Longrightarrow> join_with d (w # ws) = w @ d @ join_with d ws"
  by (cases ws) auto

lemma join_split [simp]: "join_with [d] (split_on d s) = s"
proof (induction s)
  case (Cons c s)
  then show ?case
    by (cases "split_on d s"; cases "tl (split_on d s)") (auto simp: join_with_Cons)
qed simp

lemma split_on_append: "d \<notin> set w \<Longrightarrow> split_on d (w @ d # s) = w # split_on d s"
  by (induction w) auto

lemma split_on_plain: "d \<notin> set w \<Longrightarrow> split_on d w = [w]"
  by (induction w) auto

lemma split_join:
  "ws \<noteq> [] \<Longrightarrow> (\<And>w. w \<in> set ws \<Longrightarrow> d \<notin> set w) \<Longrightarrow> split_on d (join_with [d] ws) = ws"
proof (induction "[d]" ws rule: join_with.induct)
  case (3 w v ws)
  then show ?case by (auto simp: split_on_append)
qed (auto simp: split_on_plain)

lemma set_join_with: "set (join_with d ws) \<subseteq> set d \<union> \<Union> (set ` set ws)"
  by (induction d ws rule: join_with.induct) auto

lemma join_with_append:
  "xs \<noteq> [] \<Longrightarrow> ys \<noteq> [] \<Longrightarrow> join_with d (xs @ ys) = join_with d xs @ d @ join_with d ys"
proof (induction xs)
  case (Cons x xs)
  then show ?case by (cases "xs = []") (auto simp: join_with_Cons)
qed simp

text \<open>\<open>strings.FieldsFunc\<close>: the maximal non-empty runs of characters outside the predicate.\<close>

function fields_func :: "(char \<Rightarrow> bool) \<Rightarrow> string \<Rightarrow> string list" where
  "fields_func p [] = []"
| "fields_func p (c # cs) =
     (if p c then fields_func p cs
      else (c # takeWhile (\<lambda>x. \<not> p x) cs) # fields_func p (dropWhile (\<lambda>x. \<not> p x) cs))"
  by pat_completeness auto
termination
  by (relation "measure (\<lambda>(p, s). length s)") (auto simp: le_imp_less_Suc length_dropWhile_le)

declare fields_func.simps(2) [simp del]

lemma fields_func_clean: "w \<in> set (fields_func p s) \<Longrightarrow> w \<noteq> [] \<and> (\<forall>c\<in>set w. \<not> p c)"
proof (induction p s rule: fields_func.induct)
  case (1 p)
  then show ?case by simp
next
  case (2 p c cs)
  show ?case
  proof (cases "p c")
    case True
    with "2.prems" have "w \<in> set (fields_func p cs)" by (simp add: fields_func.simps(2)[of p c cs])
    with True show ?thesis by (rule "2.IH"(1))
  next
    case False
    with "2.prems" consider "w = c # takeWhile (\<lambda>x. \<not> p x) cs"
      | "w \<in> set (fields_func p (dropWhile (\<lambda>x. \<not> p x) cs))"
      by (auto simp only: fields_func.simps(2)[of p c cs] if_False list.set insert_iff)
    then show ?thesis
    proof cases
      case 1
      with False show ?thesis by (auto dest: set_takeWhileD)
    next
      case 2
      show ?thesis by (rule "2.IH"(2) [OF False 2])
    qed
  qed
qed

section \<open>Decimal texts\<close>

fun digits_of :: "nat \<Rightarrow> string" where
  "digits_of n =
     (if n < 10 then [char_of (48 + n)] else digits_of (n div 10) @ [char_of (48 + n mod 10)])"

declare digits_of.simps [simp del]

definition itoa :: "int \<Rightarrow> string" where
  "itoa n = (if n < 0 then CHR ''-'' # digits_of (nat (- n)) else digits_of (nat n))"

definition is_digit :: "char \<Rightarrow> bool" where
  "is_digit c \<longleftrightarrow> 48 \<le> byte_of c \<and> byte_of c \<le> 57"

definition digits_val :: "string \<Rightarrow> nat" where
  "digits_val s = foldl (\<lambda>n c. 10 * n + (byte_of c - 48)) 0 s"

definition max_int64 :: int where "max_int64 = 2 ^ 63 - 1"
definition min_int64 :: int where "min_int64 = - (2 ^ 63)"

definition int64 :: "int \<Rightarrow> bool" where
  "int64 n \<longleftrightarrow> min_int64 \<le> n \<and> n \<le> max_int64"

text \<open>\<open>time.Second\<close>.\<close>

definition second :: int where "second = 1000000000"

text \<open>The wrap-around of \<open>int64\<close>.\<close>

definition wrap64 :: "int \<Rightarrow> int" where
  "wrap64 x = (x + 2 ^ 63) mod 2 ^ 64 - 2 ^ 63"

lemma wrap64_id: "int64 n \<Longrightarrow> wrap64 n = n"
  by (simp add: int64_def wrap64_def min_int64_def max_int64_def)

text \<open>\<open>strconv.ParseInt (s, 10, 64)\<close> and, on a 64-bit platform, \<open>strconv.Atoi\<close>.\<close>

definition parse_int :: "string \<Rightarrow> int option" where
  "parse_int s =
     (let (neg, ds) = (case s of c # cs \<Rightarrow>
            if c = CHR ''-'' then (True, cs) else if c = CHR ''+'' then (False, cs) else (False, s)
          | [] \<Rightarrow> (False, [])) in
      if ds = [] \<or> \<not> list_all is_digit ds then None
      else let v = (if neg then - int (digits_val ds) else int (digits_val ds)) in
        if int64 v then Some v else None)"

lemma byte_of_char_of [simp]: "n < 256 \<Longrightarrow> byte_of (char_of n) = n"
  by (simp add: byte_of_def)

lemma byte_of_inj: "byte_of c = byte_of d \<longleftrightarrow> c = d"
  unfolding byte_of_def by (metis char_of_char)

lemma is_digit_char_of [simp]: "(n::nat) < 10 \<Longrightarrow> is_digit (char_of (48 + n))"
  by (simp add: is_digit_def)

lemma digits_of_digits: "list_all is_digit (digits_of n)"
proof (induction n rule: digits_of.induct)
  case (1 n)
  then show ?case by (subst digits_of.simps) auto
qed

lemma digits_of_not_Nil [simp]: "digits_of n \<noteq> []"
  by (subst digits_of.simps) simp

lemma digits_val_snoc: "digits_val (s @ [c]) = 10 * digits_val s + (byte_of c - 48)"
  by (simp add: digits_val_def)

lemma digits_val_of [simp]: "digits_val (digits_of n) = n"
proof (induction n rule: digits_of.induct)
  case (1 n)
  show ?case
  proof (cases "n < 10")
    case True
    then show ?thesis by (subst digits_of.simps) (simp add: digits_val_def)
  next
    case False
    with 1 show ?thesis
      by (subst digits_of.simps) (simp add: digits_val_snoc)
  qed
qed

lemma digits_of_hd: "\<not> (hd (digits_of n) = CHR ''-'' \<or> hd (digits_of n) = CHR ''+'')"
proof -
  have "is_digit (hd (digits_of n))"
    using digits_of_digits[of n] by (cases "digits_of n") (use digits_of_not_Nil in auto)
  then show ?thesis by (auto simp: is_digit_def byte_of_def)
qed

lemma parse_itoa: "int64 n \<Longrightarrow> parse_int (itoa n) = Some n"
proof (cases "n < 0")
  case True
  assume "int64 n"
  with True show ?thesis
    by (simp add: parse_int_def itoa_def digits_of_digits)
next
  case False
  assume "int64 n"
  with False show ?thesis
    using digits_of_hd[of "nat n"] digits_of_digits[of "nat n"] digits_val_of[of "nat n"]
    by (cases "digits_of (nat n)")
      (use digits_of_not_Nil[of "nat n"] in \<open>auto simp: parse_int_def itoa_def\<close>)
qed

lemma parse_int_int64: "parse_int s = Some n \<Longrightarrow> int64 n"
  by (auto simp: parse_int_def Let_def split: list.splits if_splits)

lemma itoa_chars: "c \<in> set (itoa n) \<Longrightarrow> is_digit c \<or> c = CHR ''-''"
  using digits_of_digits by (auto simp: itoa_def list_all_iff split: if_splits)

section \<open>Booleans and association lists\<close>

definition format_bool :: "bool \<Rightarrow> string" where
  "format_bool b = (if b then ''true'' else ''false'')"

text \<open>\<open>strconv.ParseBool\<close>.\<close>

definition parse_bool :: "string \<Rightarrow> bool option" where
  "parse_bool s =
     (if s \<in> set [''1'', ''t'', ''T'', ''true'', ''TRUE'', ''True''] then Some True
      else if s \<in> set [''0'', ''f'', ''F'', ''false'', ''FALSE'', ''False''] then Some False
      else None)"

lemma parse_format_bool [simp]: "parse_bool (format_bool b) = Some b"
  by (simp add: parse_bool_def format_bool_def)

lemma map_of_update [simp]: "map_of (AList.update k v m) = (map_of m)(k \<mapsto> v)"
  by (rule update_conv')

lemma map_of_delete [simp]: "map_of (AList.delete k m) = (map_of m)(k := None)"
  by (rule delete_conv')

lemma keys_update [simp]: "set (map fst (AList.update k v m)) = insert k (set (map fst m))"
  using dom_update[of k v m] by (simp add: dom_map_of_conv_image_fst)

end
