(* ===== verification/GoPath.thy ===== *)
theory GoPath
  imports GoStrings
begin

text \<open>
  Path texts. \<open>path.Clean\<close> and \<open>path.Base\<close> work on slash-separated names (FTP servers, URLs,
  torrent entries). Package \<open>filepath\<close> is modelled as built for Windows, the only target of the
  program: both slashes separate, a volume is a drive letter or a UNC prefix, \<open>Abs\<close> takes the
  process's current directory as an argument. Device paths (\<open>\\.\\\<close>, \<open>\\?\\\<close>) are read as UNC
  prefixes.
\<close>

section \<open>Cleaning a list of path elements\<close>

text \<open>The kept elements are a stack, the last one first.\<close>

definition clean_step :: "bool \<Rightarrow> string list \<Rightarrow> string \<Rightarrow> string list" where
  "clean_step rooted out c =
     (if c = [] \<or> c = ''.'' then out
      else if c = ''..'' then
        (case out of x # xs \<Rightarrow> if x \<noteq> ''..'' then xs else c # out
         | [] \<Rightarrow> if rooted then [] else [c])
      else c # out)"

definition clean_elems :: "bool \<Rightarrow> string list \<Rightarrow> string list" where
  "clean_elems rooted cs = rev (foldl (clean_step rooted) [] cs)"

text \<open>A cleaned list: no empty or dot element, and dot-dot only in front, never in a rooted one.\<close>

fun cleaned :: "bool \<Rightarrow> string list \<Rightarrow> bool" where
  "cleaned rooted [] = True"
| "cleaned rooted (c # cs) =
     (c \<noteq> [] \<and> c \<noteq> ''.'' \<and>
      (if c = ''..'' then \<not> rooted \<and> cleaned rooted cs else ''..'' \<notin> set cs \<and> cleaned True cs))"

definition stack_ok :: "bool \<Rightarrow> string list \<Rightarrow> bool" where
  "stack_ok rooted out \<longleftrightarrow>
     (\<exists>n ys. out = ys @ replicate n ''..'' \<and> (rooted \<longrightarrow> n = 0) \<and>
        (\<forall>y\<in>set ys. y \<noteq> [] \<and> y \<noteq> ''.'' \<and> y \<noteq> ''..''))"

lemma stack_okI:
  "(rooted \<Longrightarrow> n = 0) \<Longrightarrow> (\<And>y. y \<in> set ys \<Longrightarrow> y \<noteq> [] \<and> y \<noteq> ''.'' \<and> y \<noteq> ''..'') \<Longrightarrow>
   stack_ok rooted (ys @ replicate n ''..'')"
  unfolding stack_ok_def by blast

lemma clean_step_ok:
  assumes "stack_ok rooted out"
  shows "stack_ok rooted (clean_step rooted out c)"
proof -
  from assms obtain n ys where o: "out = ys @ replicate n ''..''" "rooted \<longrightarrow> n = 0"
    "\<forall>y\<in>set ys. y \<noteq> [] \<and> y \<noteq> ''.'' \<and> y \<noteq> ''..''"
    by (auto simp: stack_ok_def)
  show ?thesis
  proof (cases "c = [] \<or> c = ''.''")
    case True
    with assms show ?thesis by (auto simp: clean_step_def)
  next
    case False
    show ?thesis
    proof (cases "c = ''..''")
      case True
      show ?thesis
      proof (cases ys)
        case Nil
        have "clean_step rooted out c = [] @ replicate (if rooted then 0 else Suc n) ''..''"
          using True Nil o by (cases n) (auto simp: clean_step_def)
        then show ?thesis
          using stack_okI[of rooted "if rooted then 0 else Suc n" "[]"] by (simp split: if_splits)
      next
        case (Cons y zs)
        then have "clean_step rooted out c = zs @ replicate n ''..''"
          using True o by (auto simp: clean_step_def)
        then show ?thesis using o Cons stack_okI[of rooted n zs] by auto
      qed
    next
      case c: False
      then have "clean_step rooted out c = (c # ys) @ replicate n ''..''"
        using False o by (auto simp: clean_step_def)
      then show ?thesis using o c False stack_okI[of rooted n "c # ys"] by auto
    qed
  qed
qed

lemma stack_ok_foldl:
  "stack_ok rooted out \<Longrightarrow> stack_ok rooted (foldl (clean_step rooted) out cs)"
  by (induction cs arbitrary: out) (simp_all add: clean_step_ok)

lemma cleaned_plain:
  "(\<forall>y\<in>set ys. y \<noteq> [] \<and> y \<noteq> ''.'' \<and> y \<noteq> ''..'') \<Longrightarrow> cleaned rooted ys"
  by (induction ys arbitrary: rooted) auto

lemma cleaned_dots: "\<not> rooted \<Longrightarrow> cleaned rooted (replicate n ''..'' @ ys) = cleaned rooted ys"
  by (induction n) auto

lemma stack_ok_cleaned: "stack_ok rooted out \<Longrightarrow> cleaned rooted (rev out)"
proof -
  assume "stack_ok rooted out"
  then obtain n ys where o: "out = ys @ replicate n ''..''" "rooted \<longrightarrow> n = 0"
    "\<forall>y\<in>set ys. y \<noteq> [] \<and> y \<noteq> ''.'' \<and> y \<noteq> ''..''"
    unfolding stack_ok_def by blast
  have "cleaned rooted (rev ys)" using o(3) by (intro cleaned_plain) simp
  then show ?thesis using o by (cases rooted) (simp_all add: cleaned_dots)
qed

theorem clean_elems_cleaned: "cleaned rooted (clean_elems rooted cs)"
proof -
  have "stack_ok rooted []" using stack_okI[of rooted 0 "[]"] by simp
  then show ?thesis unfolding clean_elems_def by (intro stack_ok_cleaned stack_ok_foldl)
qed

lemma cleaned_elem: "cleaned rooted cs \<Longrightarrow> c \<in> set cs \<Longrightarrow> c \<noteq> [] \<and> c \<noteq> ''.''"
  by (induction rooted cs rule: cleaned.induct) (auto split: if_splits)

lemma cleaned_rooted_no_dotdot: "cleaned True cs \<Longrightarrow> ''..'' \<notin> set cs"
  by (induction cs) (auto split: if_splits)

lemma foldl_clean_plain:
  "''..'' \<notin> set cs \<Longrightarrow> (\<And>c. c \<in> set cs \<Longrightarrow> c \<noteq> [] \<and> c \<noteq> ''.'') \<Longrightarrow>
   foldl (clean_step rooted) out cs = rev cs @ out"
  by (induction cs arbitrary: out) (auto simp: clean_step_def)

lemma foldl_clean_cleaned:
  "cleaned rooted cs \<Longrightarrow> set out \<subseteq> {''..''} \<Longrightarrow> (rooted \<Longrightarrow> out = []) \<Longrightarrow>
   foldl (clean_step rooted) out cs = rev cs @ out"
proof (induction rooted cs arbitrary: out rule: cleaned.induct)
  case (2 rooted c cs)
  show ?case
  proof (cases "c = ''..''")
    case True
    with 2 have "clean_step rooted out c = c # out"
      by (cases out) (auto simp: clean_step_def)
    with True 2 show ?thesis by auto
  next
    case False
    with 2 have "clean_step rooted out c = c # out" by (auto simp: clean_step_def)
    with False 2 show ?thesis
      using foldl_clean_plain[of cs rooted "c # out"] cleaned_elem[of True cs] by auto
  qed
qed simp

lemma clean_elems_id: "cleaned rooted cs \<Longrightarrow> clean_elems rooted cs = cs"
  using foldl_clean_cleaned[of rooted cs "[]"] by (simp add: clean_elems_def)

lemma set_clean_elems: "set (clean_elems rooted cs) \<subseteq> set cs"
proof -
  have "set (foldl (clean_step rooted) out cs) \<subseteq> set out \<union> set cs" for out
  proof (induction cs arbitrary: out)
    case (Cons c cs)
    have "set (clean_step rooted out c) \<subseteq> insert c (set out)"
      by (auto simp: clean_step_def split: list.splits if_splits)
    with Cons[of "clean_step rooted out c"] show ?case by auto
  qed simp
  from this[of "[]"] show ?thesis by (simp add: clean_elems_def)
qed

section \<open>Package path: slash-separated names\<close>

definition slash :: char where "slash = CHR ''/''"
definition backslash :: char where "backslash = CHR 0x5C"

definition path_rooted :: "string \<Rightarrow> bool" where
  "path_rooted s \<longleftrightarrow> (case s of c # _ \<Rightarrow> c = slash | [] \<Rightarrow> False)"

definition path_elems :: "string \<Rightarrow> string list" where
  "path_elems s = clean_elems (path_rooted s) (split_on slash s)"

definition path_text :: "bool \<Rightarrow> string list \<Rightarrow> string" where
  "path_text rooted cs =
     (if rooted then slash # join_with [slash] cs
      else if cs = [] then ''.'' else join_with [slash] cs)"

definition path_clean :: "string \<Rightarrow> string" where
  "path_clean s = path_text (path_rooted s) (path_elems s)"

definition path_base :: "string \<Rightarrow> string" where
  "path_base s =
     (if s = [] then ''.''
      else let t = rev (dropWhile (\<lambda>c. c = slash) (rev s));
               b = rev (takeWhile (\<lambda>c. c \<noteq> slash) (rev t)) in
        if b = [] then [slash] else b)"

lemma path_elems_no_slash: "c \<in> set (path_elems s) \<Longrightarrow> slash \<notin> set c"
  unfolding path_elems_def using set_clean_elems split_on_no_sep by blast

lemma path_elems_text:
  assumes "cleaned rooted cs" and "\<And>c. c \<in> set cs \<Longrightarrow> slash \<notin> set c"
  shows "path_elems (path_text rooted cs) = cs" and "path_rooted (path_text rooted cs) = rooted"
proof -
  have plain: "split_on slash (join_with [slash] cs) = cs" if "cs \<noteq> []"
    using that assms(2) by (rule split_join)
  show r: "path_rooted (path_text rooted cs) = rooted"
  proof (cases cs)
    case Nil
    then show ?thesis by (simp add: path_rooted_def path_text_def slash_def)
  next
    case (Cons c ds)
    with assms(1) obtain x xs where x: "c = x # xs" by (cases c) auto
    with Cons assms(2)[of c] have "x \<noteq> slash" by auto
    note x this
    then show ?thesis
      using Cons by (cases ds) (simp_all add: path_rooted_def path_text_def)
  qed
  show "path_elems (path_text rooted cs) = cs"
  proof (cases "cs = []")
    case True
    then show ?thesis
      by (auto simp: path_elems_def r path_text_def clean_elems_def clean_step_def slash_def)
  next
    case False
    have "clean_elems rooted (split_on slash (path_text rooted cs)) = clean_elems rooted cs"
      using False plain
      by (simp add: path_text_def clean_elems_def clean_step_def)
    then show ?thesis
      using assms(1) by (simp add: path_elems_def r clean_elems_id)
  qed
qed

lemma path_clean_idem: "path_clean (path_clean s) = path_clean s"
proof -
  have c: "cleaned (path_rooted s) (path_elems s)"
    by (simp add: path_elems_def clean_elems_cleaned)
  show ?thesis
    unfolding path_clean_def
    using path_elems_text[OF c path_elems_no_slash] by (simp add: path_clean_def)
qed

end
