(* ===== verification/GoFilepath.thy ===== *)
theory GoFilepath
  imports GoPath
begin

text \<open>
  Package \<open>filepath\<close> on Windows: volumes, \<open>Clean\<close>, \<open>Join\<close>, \<open>Abs\<close>, \<open>Rel\<close>, \<open>Ext\<close>,
  \<open>ToSlash\<close>, and the law of \<open>Rel\<close> the ownership checks of the program rely on: a relative
  path that is neither a dot nor leads upwards means that the target lies strictly below the
  base. The law needs that case folding is compatible with concatenation (locale
  \<open>unicode_fold\<close>), which Go's simple folding, done code point by code point, is.
\<close>

section \<open>Volumes\<close>

definition is_sep :: "char \<Rightarrow> bool" where
  "is_sep c \<longleftrightarrow> c = slash \<or> c = backslash"

definition from_slash :: "string \<Rightarrow> string" where
  "from_slash s = replace_char slash backslash s"

definition to_slash :: "string \<Rightarrow> string" where
  "to_slash s = replace_char backslash slash s"

text \<open>The length of the text up to the second separator, or all of it.\<close>

fun unc_rest :: "nat \<Rightarrow> string \<Rightarrow> nat" where
  "unc_rest n [] = 0"
| "unc_rest n (c # cs) =
     (if is_sep c then (if n = 0 then 0 else Suc (unc_rest (n - 1) cs)) else Suc (unc_rest n cs))"

definition volume_len :: "string \<Rightarrow> nat" where
  "volume_len s =
     (case s of
        a # b # cs \<Rightarrow>
          if b = CHR '':'' then 2
          else if is_sep a \<and> is_sep b then 2 + unc_rest 1 cs else 0
      | _ \<Rightarrow> 0)"

definition volume_name :: "string \<Rightarrow> string" where
  "volume_name s = take (volume_len s) s"

definition after_volume :: "string \<Rightarrow> string" where
  "after_volume s = drop (volume_len s) s"

section \<open>Clean\<close>

definition fp_rooted :: "string \<Rightarrow> bool" where
  "fp_rooted s \<longleftrightarrow> (case after_volume s of c # _ \<Rightarrow> is_sep c | [] \<Rightarrow> False)"

definition fp_elems :: "string \<Rightarrow> string list" where
  "fp_elems s = clean_elems (fp_rooted s) (split_on backslash (from_slash (after_volume s)))"

definition fp_text :: "string \<Rightarrow> bool \<Rightarrow> string list \<Rightarrow> string" where
  "fp_text vol rooted cs =
     (if rooted then
        (if vol = [] \<and> cs \<noteq> [] \<and> prefix ''??'' (hd cs) then backslash # CHR ''.'' # [] else [])
          @ backslash # join_with [backslash] cs
      else if cs = [] then ''.''
      else (if vol = [] \<and> CHR '':'' \<in> set (hd cs) then CHR ''.'' # backslash # [] else [])
        @ join_with [backslash] cs)"

definition is_unc :: "string \<Rightarrow> bool" where
  "is_unc s \<longleftrightarrow> (case s of a # b # _ \<Rightarrow> is_sep a \<and> is_sep b | _ \<Rightarrow> False)"

definition fp_clean :: "string \<Rightarrow> string" where
  "fp_clean s =
     (if after_volume s = [] then (if is_unc s then from_slash s else s @ ''.'')
      else from_slash (volume_name s) @ fp_text (volume_name s) (fp_rooted s) (fp_elems s))"

section \<open>Join, Abs, Ext\<close>

definition join_raw :: "string \<Rightarrow> string \<Rightarrow> string" where
  "join_raw b e =
     (if b = [] then e
      else if is_sep (last b) then
        (let e' = dropWhile is_sep e in
         b @ (if length b = 1 \<and> prefix ''??'' e' \<and> (length e' = 2 \<or> is_sep (e' ! 2))
              then CHR ''.'' # backslash # [] else []) @ e')
      else if last b = CHR '':'' then b @ e
      else b @ backslash # e)"

definition fp_join :: "string list \<Rightarrow> string" where
  "fp_join es = (let b = foldl join_raw [] es in if b = [] then [] else fp_clean b)"

definition is_abs :: "string \<Rightarrow> bool" where
  "is_abs s \<longleftrightarrow> is_unc s \<or> (volume_len s > 0 \<and> fp_rooted s)"

text \<open>\<open>cwd\<close> is the current directory of the process, an absolute path with a volume.\<close>

definition fp_abs :: "string \<Rightarrow> string \<Rightarrow> string" where
  "fp_abs cwd s =
     (if is_abs s then fp_clean s
      else if volume_len s = 0 then
        (if fp_rooted s then fp_clean (volume_name cwd @ s) else fp_clean (cwd @ backslash # s))
      else if volume_name s = volume_name cwd then fp_clean (cwd @ backslash # after_volume s)
      else fp_clean (volume_name s @ backslash # after_volume s))"

definition fp_ext :: "string \<Rightarrow> string" where
  "fp_ext s =
     (let r = rev s; t = takeWhile (\<lambda>c. c \<noteq> CHR ''.'' \<and> \<not> is_sep c) r in
      if length t < length r \<and> r ! length t = CHR ''.'' then CHR ''.'' # rev t else [])"

definition fp_dir :: "string \<Rightarrow> string" where
  "fp_dir s =
     (let r = after_volume s; d = rev (dropWhile (\<lambda>c. \<not> is_sep c) (rev r)) in
      fp_clean (volume_name s @ (if d = [] then ''.'' else d)))"

definition fp_base :: "string \<Rightarrow> string" where
  "fp_base s =
     (if s = [] then ''.''
      else let t = rev (dropWhile is_sep (rev s));
               t = drop (volume_len t) t;
               b = rev (takeWhile (\<lambda>c. \<not> is_sep c) (rev t)) in
        if b = [] then [backslash] else b)"

section \<open>Rel\<close>

fun strip_common :: "unicode \<Rightarrow> string list \<Rightarrow> string list \<Rightarrow> string list \<times> string list" where
  "strip_common u (b # bs) (t # ts) =
     (if equal_fold u t b then strip_common u bs ts else (b # bs, t # ts))"
| "strip_common u bs ts = (bs, ts)"

definition rel_target :: "string \<Rightarrow> string list" where
  "rel_target t = (if \<not> fp_rooted t \<and> fp_elems t = [] then [''.''] else fp_elems t)"

definition fp_rel :: "unicode \<Rightarrow> string \<Rightarrow> string \<Rightarrow> string result" where
  "fp_rel u base targ =
     (let b = fp_clean base; t = fp_clean targ in
      if equal_fold u t b then Inr ''.''
      else if (fp_rooted b \<or> volume_len b > 2) \<noteq> fp_rooted t
              \<or> \<not> equal_fold u (volume_name b) (volume_name t)
        then Inl (new_error (''Rel: can't make '' @ targ @ '' relative to '' @ base))
      else
        (let (bs, ts) = strip_common u (fp_elems b) (rel_target t) in
         if bs \<noteq> [] \<and> hd bs = ''..''
           then Inl (new_error (''Rel: can't make '' @ targ @ '' relative to '' @ base))
         else Inr (join_with [backslash] (replicate (length bs) ''..'' @ ts))))"

locale unicode_fold =
  fixes u :: unicode
  assumes fold_refl: "equal_fold u a a"
    and fold_sym: "equal_fold u a b \<Longrightarrow> equal_fold u b a"
    and fold_append: "equal_fold u a b \<Longrightarrow> equal_fold u c d \<Longrightarrow> equal_fold u (a @ c) (b @ d)"
begin

lemma fold_join:
  "list_all2 (equal_fold u) ts bs \<Longrightarrow> equal_fold u (join_with d ts) (join_with d bs)"
proof (induction rule: list_all2_induct)
  case Nil
  show ?case by (simp add: fold_refl)
next
  case (Cons t ts b bs)
  show ?case
  proof (cases ts)
    case Nil
    with Cons show ?thesis by simp
  next
    case c: (Cons t' ts')
    with Cons(2) obtain b' bs' where "bs = b' # bs'" by (cases bs) auto
    with c Cons show ?thesis by (simp add: fold_append fold_refl)
  qed
qed

end

lemma equal_fold_ascii_tables:
  "equal_fold ascii_tables s t \<longleftrightarrow> map lower_char s = map lower_char t"
  by (simp add: equal_fold_def ascii_tables_def)

interpretation ascii_fold: unicode_fold ascii_tables
  by unfold_locales (simp_all add: equal_fold_ascii_tables)

lemma strip_common_prefix:
  "strip_common u bs ts = (bs', ts') \<Longrightarrow>
   \<exists>n. bs' = drop n bs \<and> ts' = drop n ts \<and> n \<le> length bs \<and> n \<le> length ts \<and>
     list_all2 (equal_fold u) (take n ts) (take n bs)"
proof (induction u bs ts rule: strip_common.induct)
  case (1 u b bs t ts)
  show ?case
  proof (cases "equal_fold u t b")
    case True
    with 1 obtain n where "bs' = drop n bs" "ts' = drop n ts" "n \<le> length bs" "n \<le> length ts"
      "list_all2 (equal_fold u) (take n ts) (take n bs)" by auto
    with True show ?thesis by (intro exI[of _ "Suc n"]) simp
  next
    case False
    with 1 show ?thesis by (intro exI[of _ 0]) simp
  qed
qed auto

text \<open>A relative path with an upward element is dot-dot or starts with it.\<close>

lemma join_up:
  "n > 0 \<Longrightarrow> join_with [backslash] (replicate n ''..'' @ ts) = ''..'' \<or>
     prefix (''..'' @ [backslash]) (join_with [backslash] (replicate n ''..'' @ ts))"
proof -
  assume "n > 0"
  then obtain m where "n = Suc m" by (cases n) auto
  then show ?thesis
    by (cases "replicate m ''..'' @ ts") auto
qed

text \<open>
  The law of \<open>Rel\<close>: unless the result is a dot or leads upwards, the base's elements are, up to
  case, a prefix of the target's, on the same volume.
\<close>

lemma fp_rel_below:
  assumes "fp_rel u base targ = Inr r"
    and "r \<noteq> ''.''" "r \<noteq> ''..''" "\<not> prefix (''..'' @ [backslash]) r"
  defines "b \<equiv> fp_clean base" and "t \<equiv> fp_clean targ"
  shows "\<exists>n. length (fp_elems b) = n \<and> n \<le> length (rel_target t) \<and>
     list_all2 (equal_fold u) (take n (rel_target t)) (fp_elems b) \<and>
     r = join_with [backslash] (drop n (rel_target t)) \<and>
     equal_fold u (volume_name b) (volume_name t) \<and> \<not> equal_fold u t b \<and>
     (fp_rooted b \<or> volume_len b > 2) = fp_rooted t"
proof -
  obtain bs ts where st: "strip_common u (fp_elems b) (rel_target t) = (bs, ts)"
    by fastforce
  have r: "r = join_with [backslash] (replicate (length bs) ''..'' @ ts)"
    and vol: "equal_fold u (volume_name b) (volume_name t)" "\<not> equal_fold u t b"
      "(fp_rooted b \<or> volume_len b > 2) = fp_rooted t"
    using assms(1,2) st by (auto simp: fp_rel_def b_def t_def Let_def split: if_splits)
  have "bs = []"
    using join_up[of "length bs" ts] assms(3,4) r by (cases bs) auto
  moreover obtain n where "bs = drop n (fp_elems b)" "ts = drop n (rel_target t)"
    "n \<le> length (fp_elems b)" "n \<le> length (rel_target t)"
    "list_all2 (equal_fold u) (take n (rel_target t)) (take n (fp_elems b))"
    using strip_common_prefix[OF st] by blast
  ultimately show ?thesis using r vol by auto
qed

lemma fp_elems_no_sep: "c \<in> set (fp_elems s) \<Longrightarrow> backslash \<notin> set c"
  unfolding fp_elems_def using set_clean_elems split_on_no_sep by blast

lemma fp_elems_cleaned: "cleaned (fp_rooted s) (fp_elems s)"
  by (simp add: fp_elems_def clean_elems_cleaned)

end
