(* ===== verification/CoreModel.thy ===== *)
theory CoreModel
  imports Complex_Main GoFilepath
begin

text \<open>
  The data model of \<open>internal/core/model.go\<close>: statuses, tasks and their stage, snapshots,
  progress updates, identifiers and the worker registry. A \<open>time.Time\<close> is its nanoseconds as an
  \<open>int\<close>, a \<open>float64\<close> that is only copied, compared with a constant or set to one is the rational
  it denotes (NaN and the infinities are never stored). String maps may be nil.
\<close>

section \<open>Tasks and stages\<close>

datatype task_status =
  StatusWaiting | StatusRunning | StatusSeeding | StatusPaused | StatusCompleted
| StatusFailed | StatusCanceled | StatusOther string

type_synonym strmap = "(string, string) fmap option"

record stage =
  stg_id :: string
  stg_index :: int
  stg_kind :: string
  stg_status :: task_status
  stg_progress :: rat
  stg_received :: int
  stg_speed :: int
  stg_error :: string
  stg_url :: string
  stg_file_size :: int
  stg_headers :: strmap
  stg_proxy_url :: string
  stg_block_num :: int
  stg_max_retries :: int
  stg_supports_range :: bool
  stg_state :: strmap

record task =
  tsk_id :: string
  tsk_pack_id :: string
  tsk_title :: string
  tsk_url :: string
  tsk_status :: task_status
  tsk_path :: string
  tsk_file_size :: int
  tsk_received :: int
  tsk_speed :: int
  tsk_progress :: rat
  tsk_detail :: string
  tsk_created_at :: int
  tsk_error :: string
  tsk_uses_slot :: bool
  tsk_stage :: stage

text \<open>Reading a Go map: a nil map and a missing key both read as the zero value.\<close>

definition map_get :: "strmap \<Rightarrow> string \<Rightarrow> string" where
  "map_get m k = (case m of None \<Rightarrow> [] | Some f \<Rightarrow> (case fmlookup f k of None \<Rightarrow> [] | Some v \<Rightarrow> v))"

definition map_has :: "strmap \<Rightarrow> string \<Rightarrow> bool" where
  "map_has m k = (case m of None \<Rightarrow> False | Some f \<Rightarrow> fmlookup f k \<noteq> None)"

definition map_set :: "strmap \<Rightarrow> string \<Rightarrow> string \<Rightarrow> strmap" where
  "map_set m k v = Some (fmupd k v (case m of None \<Rightarrow> fmempty | Some f \<Rightarrow> f))"

lemma map_get_set: "map_get (map_set m k v) k' = (if k' = k then v else map_get m k')"
  by (auto simp: map_get_def map_set_def split: option.splits)

definition clone_string_map :: "strmap \<Rightarrow> strmap" where
  "clone_string_map source =
     (case source of None \<Rightarrow> None | Some f \<Rightarrow> Some (fmap_of_list [] ++\<^sub>f f))"

lemma clone_string_map_id [simp]: "clone_string_map m = m"
  by (cases m) (simp_all add: clone_string_map_def)

definition clone_task :: "task \<Rightarrow> task" where
  "clone_task t = t\<lparr>tsk_stage := (tsk_stage t)
     \<lparr>stg_headers := clone_string_map (stg_headers (tsk_stage t)),
      stg_state := clone_string_map (stg_state (tsk_stage t))\<rparr>\<rparr>"

lemma clone_task_id [simp]: "clone_task t = t"
  by (simp add: clone_task_def)

text \<open>\<open>task.Status, task.Stage.Status = x, x\<close>, and the same with the speed cleared.\<close>

definition set_status :: "task_status \<Rightarrow> task \<Rightarrow> task" where
  "set_status x t = t\<lparr>tsk_status := x, tsk_stage := (tsk_stage t)\<lparr>stg_status := x\<rparr>\<rparr>"

definition clear_speed :: "task \<Rightarrow> task" where
  "clear_speed t = t\<lparr>tsk_speed := 0, tsk_stage := (tsk_stage t)\<lparr>stg_speed := 0\<rparr>\<rparr>"

definition pause_task :: "task \<Rightarrow> task" where
  "pause_task t = clear_speed (set_status StatusPaused t)"

lemma set_status_simps [simp]:
  "tsk_status (set_status x t) = x" "stg_status (tsk_stage (set_status x t)) = x"
  "tsk_id (set_status x t) = tsk_id t" "tsk_uses_slot (set_status x t) = tsk_uses_slot t"
  "tsk_pack_id (set_status x t) = tsk_pack_id t"
  "tsk_created_at (set_status x t) = tsk_created_at t"
  by (simp_all add: set_status_def)

lemma clear_speed_simps [simp]:
  "tsk_status (clear_speed t) = tsk_status t" "tsk_speed (clear_speed t) = 0"
  "tsk_id (clear_speed t) = tsk_id t" "tsk_uses_slot (clear_speed t) = tsk_uses_slot t"
  "stg_status (tsk_stage (clear_speed t)) = stg_status (tsk_stage t)"
  "tsk_pack_id (clear_speed t) = tsk_pack_id t"
  by (simp_all add: clear_speed_def)

lemma pause_task_simps [simp]:
  "tsk_status (pause_task t) = StatusPaused" "tsk_speed (pause_task t) = 0"
  "tsk_id (pause_task t) = tsk_id t" "tsk_uses_slot (pause_task t) = tsk_uses_slot t"
  "stg_status (tsk_stage (pause_task t)) = StatusPaused"
  "tsk_pack_id (pause_task t) = tsk_pack_id t"
  by (simp_all add: pause_task_def)

section \<open>Identifiers, new tasks, output file\<close>

definition hex_encode :: "nat list \<Rightarrow> string" where
  "hex_encode bs = concat (map (\<lambda>b. [hex_digit (b div 16), hex_digit (b mod 16)]) bs)"

text \<open>
  \<open>rnd\<close> is what the random source gave (16 bytes) or None when it failed; \<open>now\<close> is the time's
  text in the fallback layout.
\<close>

definition new_id :: "string \<Rightarrow> nat list option \<Rightarrow> string \<Rightarrow> string" where
  "new_id pre rnd now =
     (case rnd of
        None \<Rightarrow> pre @ ''_'' @ hex_encode (map byte_of now)
      | Some b \<Rightarrow> pre @ ''_'' @ hex_encode b)"

definition new_stage ::
  "string \<Rightarrow> string \<Rightarrow> string \<Rightarrow> int \<Rightarrow> int \<Rightarrow> int \<Rightarrow> bool \<Rightarrow> strmap \<Rightarrow> string \<Rightarrow> stage" where
  "new_stage sid kind url file_size block_num max_retries supports_range headers proxy =
     \<lparr>stg_id = sid, stg_index = 1, stg_kind = kind, stg_status = StatusWaiting,
      stg_progress = 0, stg_received = 0, stg_speed = 0, stg_error = [], stg_url = url,
      stg_file_size = file_size, stg_headers = headers, stg_proxy_url = proxy,
      stg_block_num = block_num,
      stg_max_retries = (if max_retries < 0 then 0 else max_retries),
      stg_supports_range = supports_range, stg_state = None\<rparr>"

definition new_task ::
  "string \<Rightarrow> int \<Rightarrow> string \<Rightarrow> string \<Rightarrow> string \<Rightarrow> string \<Rightarrow> int \<Rightarrow> stage \<Rightarrow> task" where
  "new_task tid now pack title url path file_size stage =
     \<lparr>tsk_id = tid, tsk_pack_id = pack, tsk_title = title, tsk_url = url,
      tsk_status = StatusWaiting, tsk_path = path, tsk_file_size = file_size,
      tsk_received = 0, tsk_speed = 0, tsk_progress = 0, tsk_detail = [],
      tsk_created_at = now, tsk_error = [], tsk_uses_slot = True, tsk_stage = stage\<rparr>"

definition ftp_directory_owner_marker :: string where
  "ftp_directory_owner_marker = ''.gd3_ftp_owner''"

definition ftp_directory_output_name_key :: string where
  "ftp_directory_output_name_key = ''directoryOutputName''"

definition is_ftp_directory :: "task \<Rightarrow> bool" where
  "is_ftp_directory t \<longleftrightarrow>
     tsk_pack_id t = ''ftp'' \<and> map_get (stg_state (tsk_stage t)) ''directory'' = ''true''"

definition output_file :: "task \<Rightarrow> string" where
  "output_file t =
     (let name = map_get (stg_state (tsk_stage t)) ftp_directory_output_name_key in
      if is_ftp_directory t \<and> name \<noteq> [] then fp_join [tsk_path t, name]
      else fp_join [tsk_path t, tsk_title t])"

section \<open>Snapshots, updates, events, registry\<close>

record task_snapshot =
  snp_id :: string
  snp_pack_id :: string
  snp_title :: string
  snp_url :: string
  snp_status :: task_status
  snp_path :: string
  snp_output_path :: string
  snp_file_size :: int
  snp_received :: int
  snp_speed :: int
  snp_progress :: rat
  snp_detail :: string
  snp_error :: string
  snp_created_at :: int

definition snapshot_of :: "task \<Rightarrow> task_snapshot" where
  "snapshot_of t =
     \<lparr>snp_id = tsk_id t, snp_pack_id = tsk_pack_id t, snp_title = tsk_title t,
      snp_url = tsk_url t, snp_status = tsk_status t, snp_path = tsk_path t,
      snp_output_path = output_file t, snp_file_size = tsk_file_size t,
      snp_received = tsk_received t, snp_speed = tsk_speed t, snp_progress = tsk_progress t,
      snp_detail = tsk_detail t, snp_error = tsk_error t, snp_created_at = tsk_created_at t\<rparr>"

text \<open>A status \<open>None\<close> is the empty text, a nil \<open>UsesSlot\<close> pointer is \<open>None\<close>.\<close>

record progress_update =
  upd_received :: int
  upd_file_size :: int
  upd_speed :: int
  upd_progress :: rat
  upd_detail :: string
  upd_status :: "task_status option"
  upd_stage_state :: strmap
  upd_uses_slot :: "bool option"

text \<open>The only event kind is \<open>EventTasksChanged\<close>; an event carries the snapshots.\<close>

datatype event = EventTasksChanged "task_snapshot list"

text \<open>
  The registry maps a pack to its worker; a worker is known by its name and by whether it
  implements \<open>TaskResetter\<close>.
\<close>

record worker =
  wrk_name :: string
  wrk_resets :: bool

type_synonym registry = "(string \<times> worker) list"

definition new_registry :: registry where "new_registry = []"

definition register :: "registry \<Rightarrow> string \<Rightarrow> worker \<Rightarrow> registry" where
  "register r pack w = AList.update pack w r"

definition registry_worker :: "registry \<Rightarrow> string \<Rightarrow> worker option" where
  "registry_worker r pack = map_of r pack"

lemma registry_worker_register:
  "registry_worker (register r p w) q = (if q = p then Some w else registry_worker r q)"
  by (simp add: registry_worker_def register_def)

lemma new_task_waiting [simp]:
  "tsk_status (new_task tid now pack title url path n s) = StatusWaiting"
  "tsk_uses_slot (new_task tid now pack title url path n s)"
  "tsk_id (new_task tid now pack title url path n s) = tid"
  by (simp_all add: new_task_def)

lemma byte_of_hex_digit:
  assumes "n < 16"
  shows "byte_of (hex_digit n) = (if n < 10 then 48 + n else 87 + n)"
proof -
  have b: "48 + n < 256" "87 + n < 256" using assms by linarith+
  show ?thesis
    unfolding hex_digit_def by (metis byte_of_char_of[OF b(1)] byte_of_char_of[OF b(2)])
qed

lemma hex_digit_inj:
  assumes "a < 16" "b < 16" "hex_digit a = hex_digit b"
  shows "a = b"
proof -
  have "(if a < 10 then 48 + a else 87 + a) = (if b < 10 then 48 + b else 87 + b)"
    using byte_of_hex_digit[OF assms(1)] byte_of_hex_digit[OF assms(2)] assms(3) by metis
  then show ?thesis using assms(1,2) by presburger
qed

end
