(* ===== verification/TaskFiles.thy ===== *)
theory TaskFiles
  imports CoreModel
begin

text \<open>
  The file operations of \<open>internal/core/model.go\<close>: ownership of paths and of FTP directories,
  the choice of an FTP directory task's output, and the removal of a task's files. The operating
  system's file tree is a map from absolute paths to nodes, with the current directory and the
  faults (a path on which every call fails with that error, without effect).
\<close>

section \<open>The file tree\<close>

datatype node = NFile string | NDir | NLink

record fsys =
  fs_nodes :: "string \<Rightarrow> node option"
  fs_cwd :: string
  fs_faults :: "string \<Rightarrow> goerr option"

definition not_exist :: goerr where
  "not_exist = GoErr ''file does not exist'' False True"

definition fs_key :: "fsys \<Rightarrow> string \<Rightarrow> string" where
  "fs_key fs p = fp_abs (fs_cwd fs) p"

definition os_lstat :: "fsys \<Rightarrow> string \<Rightarrow> node result" where
  "os_lstat fs p =
     (case fs_faults fs (fs_key fs p) of Some e \<Rightarrow> Inl e
      | None \<Rightarrow> (case fs_nodes fs (fs_key fs p) of None \<Rightarrow> Inl not_exist | Some n \<Rightarrow> Inr n))"

definition os_read_file :: "fsys \<Rightarrow> string \<Rightarrow> string result" where
  "os_read_file fs p =
     (case os_lstat fs p of Inl e \<Rightarrow> Inl e
      | Inr (NFile c) \<Rightarrow> Inr c
      | Inr _ \<Rightarrow> Inl (new_error ''not a regular file''))"

definition in_tree :: "string \<Rightarrow> string \<Rightarrow> bool" where
  "in_tree t q \<longleftrightarrow> q = t \<or> prefix (t @ [backslash]) q"

definition os_remove :: "fsys \<Rightarrow> string \<Rightarrow> goerr option \<times> fsys" where
  "os_remove fs p =
     (case os_lstat fs p of Inl e \<Rightarrow> (Some e, fs)
      | Inr _ \<Rightarrow> (None, fs\<lparr>fs_nodes := (fs_nodes fs)(fs_key fs p := None)\<rparr>))"

definition os_remove_all :: "fsys \<Rightarrow> string \<Rightarrow> goerr option \<times> fsys" where
  "os_remove_all fs p =
     (case fs_faults fs (fs_key fs p) of Some e \<Rightarrow> (Some e, fs)
      | None \<Rightarrow> (None, fs\<lparr>fs_nodes :=
          (\<lambda>q. if in_tree (fs_key fs p) q then None else fs_nodes fs q)\<rparr>))"

text \<open>\<open>if err := a; err != nil { return err }; b\<close>\<close>

definition and_then ::
  "goerr option \<times> fsys \<Rightarrow> (fsys \<Rightarrow> goerr option \<times> fsys) \<Rightarrow> goerr option \<times> fsys" where
  "and_then r f = (case r of (Some e, fs) \<Rightarrow> (Some e, fs) | (None, fs) \<Rightarrow> f fs)"

section \<open>Ownership of paths\<close>

definition task_owned_path :: "unicode \<Rightarrow> string \<Rightarrow> string \<Rightarrow> string \<Rightarrow> string result" where
  "task_owned_path u cwd base target =
     (let base = fp_abs cwd (fp_clean base); target = fp_abs cwd (fp_clean target) in
      case fp_rel u base target of
        Inl e \<Rightarrow> Inl e
      | Inr relative \<Rightarrow>
          if relative = ''.'' \<or> relative = ''..'' \<or> prefix (''..'' @ [backslash]) relative
          then Inl (new_error (''cleanup target '' @ quote u target
                 @ '' escapes task directory '' @ quote u base))
          else Inr target)"

definition output_path_reserved :: "unicode \<Rightarrow> string \<Rightarrow> string \<Rightarrow> string list \<Rightarrow> bool" where
  "output_path_reserved u cwd output reserved \<longleftrightarrow>
     list_ex (\<lambda>c. equal_fold u output (fp_abs cwd (fp_clean c))) reserved"

definition verify_ftp_directory_owner :: "unicode \<Rightarrow> fsys \<Rightarrow> string \<Rightarrow> string \<Rightarrow> goerr option" where
  "verify_ftp_directory_owner u fs dir task_id =
     (case os_lstat fs dir of
        Inl e \<Rightarrow> if err_not_exist e then None else Some e
      | Inr info \<Rightarrow>
          if info \<noteq> NDir
          then Some (new_error (''FTP directory '' @ quote u dir @ '' is not a task-owned directory''))
          else
            (let marker = fp_join [dir, ftp_directory_owner_marker] in
             case os_lstat fs marker of
               Inl e \<Rightarrow>
                 Some (wrap_error (''FTP directory '' @ quote u dir @ '' has no ownership marker: '') e)
             | Inr (NFile _) \<Rightarrow>
                 (case os_read_file fs marker of Inl e \<Rightarrow> Some e
                  | Inr owner \<Rightarrow>
                      if trim_space owner \<noteq> task_id
                      then Some (new_error (''FTP directory '' @ quote u dir
                             @ '' belongs to another task''))
                      else None)
             | Inr _ \<Rightarrow>
                 Some (new_error (''FTP directory '' @ quote u dir
                        @ '' has an invalid ownership marker''))))"

section \<open>The output of an FTP directory task\<close>

definition use_alternate :: "string \<Rightarrow> task \<Rightarrow> task" where
  "use_alternate name t =
     t\<lparr>tsk_status := StatusPaused, tsk_received := 0, tsk_progress := 0, tsk_speed := 0,
       tsk_error := [],
       tsk_stage := (tsk_stage t)\<lparr>
         stg_state := map_set (clone_string_map (stg_state (tsk_stage t)))
           ftp_directory_output_name_key name,
         stg_status := StatusPaused, stg_received := 0, stg_progress := 0, stg_speed := 0,
         stg_error := []\<rparr>\<rparr>"

definition alternate_output :: "unicode \<Rightarrow> fsys \<Rightarrow> task \<Rightarrow> string list \<Rightarrow> task result" where
  "alternate_output u fs t reserved =
     (let name = ''ftp-'' @ tsk_id t in
      case task_owned_path u (fs_cwd fs) (tsk_path t) (fp_join [tsk_path t, name]) of
        Inl e \<Rightarrow> Inl e
      | Inr alternate \<Rightarrow>
          if output_path_reserved u (fs_cwd fs) alternate reserved
          then Inl (new_error (''FTP task output '' @ quote u alternate @ '' is already reserved''))
          else
            (case os_lstat fs alternate of
               Inr _ \<Rightarrow>
                 (case verify_ftp_directory_owner u fs alternate (tsk_id t) of
                    Some e \<Rightarrow> Inl (wrap_error (''FTP task output '' @ quote u alternate
                                @ '' is already occupied: '') e)
                  | None \<Rightarrow> Inr (use_alternate name t))
             | Inl e \<Rightarrow>
                 if \<not> err_not_exist e then Inl e else Inr (use_alternate name t)))"

definition prepare_ftp_directory_output ::
  "unicode \<Rightarrow> fsys \<Rightarrow> task \<Rightarrow> string list \<Rightarrow> task result" where
  "prepare_ftp_directory_output u fs t reserved =
     (if \<not> is_ftp_directory t then Inr t
      else case task_owned_path u (fs_cwd fs) (tsk_path t) (output_file t) of
        Inl e \<Rightarrow> Inl e
      | Inr output \<Rightarrow>
          (let taken = output_path_reserved u (fs_cwd fs) output reserved;
               missing = (case os_lstat fs output of Inl e \<Rightarrow> err_not_exist e | Inr _ \<Rightarrow> False) in
           if missing \<and> \<not> taken then Inr t
           else case os_lstat fs output of
             Inl e \<Rightarrow>
               if \<not> err_not_exist e then Inl e
               else if map_get (stg_state (tsk_stage t)) ftp_directory_output_name_key \<noteq> []
               then Inl (new_error (''FTP task output '' @ quote u output
                      @ '' is not owned by task '' @ tsk_id t))
               else alternate_output u fs t reserved
           | Inr _ \<Rightarrow>
               if \<not> taken \<and> verify_ftp_directory_owner u fs output (tsk_id t) = None then Inr t
               else if map_get (stg_state (tsk_stage t)) ftp_directory_output_name_key \<noteq> []
               then Inl (new_error (''FTP task output '' @ quote u output
                      @ '' is not owned by task '' @ tsk_id t))
               else alternate_output u fs t reserved))"

section \<open>Removing a task's files\<close>

definition remove_if_exists :: "fsys \<Rightarrow> string \<Rightarrow> goerr option \<times> fsys" where
  "remove_if_exists fs p =
     (case os_remove fs p of
        (Some e, fs') \<Rightarrow> (if err_not_exist e then (None, fs') else (Some e, fs'))
      | (None, fs') \<Rightarrow> (None, fs'))"

definition remove_task_owned_path ::
  "unicode \<Rightarrow> string \<Rightarrow> string \<Rightarrow> fsys \<Rightarrow> goerr option \<times> fsys" where
  "remove_task_owned_path u base target fs =
     (case task_owned_path u (fs_cwd fs) base target of
        Inl e \<Rightarrow> (Some e, fs)
      | Inr t \<Rightarrow> os_remove_all fs t)"

definition cleanup_files :: "unicode \<Rightarrow> task \<Rightarrow> fsys \<Rightarrow> goerr option \<times> fsys" where
  "cleanup_files u t fs =
     (let out = output_file t in
      if tsk_pack_id t = ''bt'' then
        and_then (remove_task_owned_path u (tsk_path t) out fs) (\<lambda>fs.
        and_then (remove_task_owned_path u (tsk_path t) (out @ ''.part'') fs) (\<lambda>fs.
        and_then (remove_task_owned_path u (tsk_path t)
                    (fp_join [tsk_path t, ''.gd3_bt'', tsk_id t]) fs) (\<lambda>fs.
        remove_if_exists fs (out @ ''.torrent''))))
      else if is_ftp_directory t then
        (case task_owned_path u (fs_cwd fs) (tsk_path t) out of
           Inl e \<Rightarrow> (Some e, fs)
         | Inr owned_root \<Rightarrow>
             (case verify_ftp_directory_owner u fs owned_root (tsk_id t) of
                Some e \<Rightarrow> (Some e, fs)
              | None \<Rightarrow>
                  and_then (remove_task_owned_path u (tsk_path t) owned_root fs) (\<lambda>fs.
                  remove_task_owned_path u (tsk_path t)
                    (fp_join [tsk_path t, ''.gd3_ftp'', tsk_id t]) fs)))
      else
        and_then
          (if tsk_pack_id t = ''ftp'' then remove_if_exists fs (out @ ''.part'') else (None, fs))
          (\<lambda>fs. and_then (remove_if_exists fs out) (\<lambda>fs. remove_if_exists fs (out @ ''.ghd''))))"

end
