(* ===== verification/Scheduler.thy ===== *)
theory Scheduler
  imports TaskFiles
begin

text \<open>
  The scheduler of \<open>internal/core/scheduler.go\<close>: its state and every section of code it runs
  under its mutex, as functions on the state. A goroutine started by \<open>scheduleLocked\<close> is a
  numbered \<open>run\<close>; the pointer to a \<open>runningTask\<close> is that number, \<open>cancel\<close> sets the run's
  flag, the channel \<open>done\<close> is closed when the run is \<open>Finished\<close>. The store is its last saved
  list. Where an operation unlocks the mutex it is split: \<open>redownload_stop\<close>, \<open>redownload_copy\<close>,
  \<open>redownload_commit\<close>, \<open>edit_begin\<close>, \<open>edit_snapshot\<close>, \<open>edit_commit\<close>, \<open>stop_begin\<close>,
  \<open>stop_finish\<close>, \<open>run_begin\<close>, \<open>run_end\<close>.
\<close>

section \<open>State\<close>

datatype run_phase = Spawned | Working task | Finished

record run =
  run_task_id :: string
  run_worker :: worker
  run_canceled :: bool
  run_phase :: run_phase

record sched =
  sch_tasks :: "(string \<times> task) list"
  sch_order :: "string list"
  sch_running :: "(string \<times> nat) list"
  sch_registry :: registry
  sch_has_store :: bool
  sch_disk :: "task list option"
  sch_events :: "event list"
  sch_max_running :: int
  sch_save_armed :: bool
  sch_stopping :: bool
  sch_events_closed :: bool
  sch_load_failed :: bool
  sch_pause_epoch :: "64 word"
  sch_runs :: "run list"

definition events_cap :: nat where "events_cap = 16"

definition new_scheduler :: "registry \<Rightarrow> bool \<Rightarrow> int \<Rightarrow> sched" where
  "new_scheduler reg store max_running =
     \<lparr>sch_tasks = [], sch_order = [], sch_running = [], sch_registry = reg,
      sch_has_store = store, sch_disk = None, sch_events = [],
      sch_max_running = (if max_running \<le> 0 then 3 else max_running),
      sch_save_armed = False, sch_stopping = False, sch_events_closed = False,
      sch_load_failed = False, sch_pause_epoch = 0, sch_runs = []\<rparr>"

definition task_at :: "sched \<Rightarrow> string \<Rightarrow> task option" where
  "task_at s tid = map_of (sch_tasks s) tid"

definition running_at :: "sched \<Rightarrow> string \<Rightarrow> nat option" where
  "running_at s tid = map_of (sch_running s) tid"

definition put_task :: "string \<Rightarrow> task \<Rightarrow> sched \<Rightarrow> sched" where
  "put_task tid t s = s\<lparr>sch_tasks := AList.update tid t (sch_tasks s)\<rparr>"

definition map_tasks :: "(string \<Rightarrow> task \<Rightarrow> task) \<Rightarrow> sched \<Rightarrow> sched" where
  "map_tasks f s = s\<lparr>sch_tasks := map (\<lambda>(k, t). (k, f k t)) (sch_tasks s)\<rparr>"

definition cancel_run :: "nat \<Rightarrow> sched \<Rightarrow> sched" where
  "cancel_run n s =
     (if n < length (sch_runs s)
      then s\<lparr>sch_runs := (sch_runs s)[n := (sch_runs s ! n)\<lparr>run_canceled := True\<rparr>]\<rparr> else s)"

definition is_active :: "task \<Rightarrow> bool" where
  "is_active t \<longleftrightarrow> tsk_status t = StatusRunning \<or> tsk_status t = StatusSeeding"

section \<open>Snapshots, events, saving\<close>

definition order_tasks :: "sched \<Rightarrow> task list" where
  "order_tasks s = List.map_filter (task_at s) (sch_order s)"

text \<open>\<open>sort.SliceStable\<close> by creation time, newest first.\<close>

definition snapshot_locked :: "sched \<Rightarrow> task_snapshot list" where
  "snapshot_locked s = sort_key (\<lambda>x. - snp_created_at x) (map snapshot_of (order_tasks s))"

definition emit_locked :: "sched \<Rightarrow> sched" where
  "emit_locked s =
     (if sch_events_closed s then s
      else let ev = EventTasksChanged (snapshot_locked s) in
        if length (sch_events s) < events_cap then s\<lparr>sch_events := sch_events s @ [ev]\<rparr>
        else s\<lparr>sch_events := tl (sch_events s) @ [ev]\<rparr>)"

definition schedule_save_locked :: "sched \<Rightarrow> sched" where
  "schedule_save_locked s =
     (if \<not> sch_has_store s \<or> sch_stopping s \<or> sch_load_failed s then s
      else s\<lparr>sch_save_armed := True\<rparr>)"

text \<open>\<open>ok\<close>: whether the store's \<open>Save\<close> succeeded; a failure is only logged.\<close>

definition save_locked :: "bool \<Rightarrow> sched \<Rightarrow> sched" where
  "save_locked ok s =
     (if \<not> sch_has_store s \<or> sch_load_failed s then s
      else if ok then s\<lparr>sch_disk := Some (map clone_task (order_tasks s))\<rparr> else s)"

definition save_and_emit :: "sched \<Rightarrow> sched" where
  "save_and_emit s = emit_locked (schedule_save_locked s)"

definition save_timer_fired :: "bool \<Rightarrow> sched \<Rightarrow> sched" where
  "save_timer_fired ok s =
     (let s = s\<lparr>sch_save_armed := False\<rparr> in if sch_stopping s then s else save_locked ok s)"

definition receive_event :: "sched \<Rightarrow> event option \<times> sched" where
  "receive_event s =
     (case sch_events s of [] \<Rightarrow> (None, s) | e # es \<Rightarrow> (Some e, s\<lparr>sch_events := es\<rparr>))"

definition snapshot :: "sched \<Rightarrow> task_snapshot list" where
  "snapshot s = snapshot_locked s"

definition get_task :: "sched \<Rightarrow> string \<Rightarrow> task option" where
  "get_task s tid = map_option clone_task (task_at s tid)"

section \<open>Starting and bounding runs\<close>

definition running_slot_count :: "sched \<Rightarrow> int" where
  "running_slot_count s =
     int (length (filter (\<lambda>(tid, _). case task_at s tid of Some t \<Rightarrow> tsk_uses_slot t | None \<Rightarrow> False)
       (sch_running s)))"

definition start_run :: "string \<Rightarrow> task \<Rightarrow> worker \<Rightarrow> sched \<Rightarrow> sched" where
  "start_run tid t w s =
     (put_task tid (set_status StatusRunning t) s)
       \<lparr>sch_running := AList.update tid (length (sch_runs s)) (sch_running s),
        sch_runs := sch_runs s @ [\<lparr>run_task_id = tid, run_worker = w, run_canceled = False,
          run_phase = Spawned\<rparr>]\<rparr>"

definition schedule_locked :: "string \<Rightarrow> sched \<Rightarrow> sched" where
  "schedule_locked tid s =
     (if sch_stopping s then s
      else case task_at s tid of
        None \<Rightarrow> s
      | Some t \<Rightarrow>
          if running_at s tid \<noteq> None \<or> tsk_status t = StatusRunning
             \<or> tsk_status t = StatusSeeding \<or> tsk_status t = StatusCompleted then s
          else if tsk_uses_slot t \<and> running_slot_count s \<ge> sch_max_running s then s
          else (case registry_worker (sch_registry s) (tsk_pack_id t) of
              None \<Rightarrow> put_task tid (t\<lparr>tsk_status := StatusFailed,
                        tsk_error := ''worker not registered''\<rparr>) s
            | Some w \<Rightarrow> start_run tid t w s))"

fun enforce_loop :: "string list \<Rightarrow> int \<Rightarrow> sched \<Rightarrow> sched" where
  "enforce_loop [] kept s = s"
| "enforce_loop (tid # ids) kept s =
     (case running_at s tid of
        None \<Rightarrow> enforce_loop ids kept s
      | Some n \<Rightarrow>
          (case task_at s tid of
             None \<Rightarrow> enforce_loop ids kept s
           | Some t \<Rightarrow>
               if \<not> tsk_uses_slot t then enforce_loop ids kept s
               else if kept < sch_max_running s then enforce_loop ids (kept + 1) s
               else enforce_loop ids kept (cancel_run n (put_task tid (pause_task t) s))))"

definition enforce_max_running_locked :: "sched \<Rightarrow> sched" where
  "enforce_max_running_locked s =
     (if running_slot_count s \<le> sch_max_running s then s else enforce_loop (sch_order s) 0 s)"

definition schedule_if_waiting :: "string \<Rightarrow> sched \<Rightarrow> sched" where
  "schedule_if_waiting tid s =
     (case task_at s tid of
        Some t \<Rightarrow> if tsk_status t = StatusWaiting then schedule_locked tid s else s
      | None \<Rightarrow> s)"

definition schedule_waiting_locked :: "sched \<Rightarrow> sched" where
  "schedule_waiting_locked s = fold schedule_if_waiting (sch_order s) s"

section \<open>Loading, adding, removing\<close>

definition reserved_outputs_locked :: "sched \<Rightarrow> string list" where
  "reserved_outputs_locked s = map (output_file \<circ> snd) (sch_tasks s)"

definition insert_task :: "task \<Rightarrow> sched \<Rightarrow> sched" where
  "insert_task t s = (put_task (tsk_id t) t s)\<lparr>sch_order := sch_order s @ [tsk_id t]\<rparr>"

text \<open>The loop of \<open>Load\<close>: the error that stopped it, whether a task was migrated, the state.\<close>

fun load_loop ::
  "unicode \<Rightarrow> fsys \<Rightarrow> task list \<Rightarrow> bool \<Rightarrow> sched \<Rightarrow> goerr option \<times> bool \<times> sched" where
  "load_loop u fs [] migrated s = (None, migrated, s)"
| "load_loop u fs (t # ts) migrated s =
     (case prepare_ftp_directory_output u fs (clone_task t) (reserved_outputs_locked s) of
        Inl e \<Rightarrow> (Some e, migrated, s\<lparr>sch_load_failed := True\<rparr>)
      | Inr p \<Rightarrow>
          load_loop u fs ts (migrated \<or> output_file p \<noteq> output_file t)
            (insert_task (if is_active p then pause_task p else p) s))"

definition load :: "unicode \<Rightarrow> fsys \<Rightarrow> task list result \<Rightarrow> sched \<Rightarrow> goerr option \<times> sched" where
  "load u fs stored s =
     (if \<not> sch_has_store s then (None, s)
      else case stored of
        Inl e \<Rightarrow> (Some e, s\<lparr>sch_load_failed := True\<rparr>)
      | Inr tasks \<Rightarrow>
          (case load_loop u fs tasks False (s\<lparr>sch_load_failed := False\<rparr>) of
             (Some e, _, s') \<Rightarrow> (Some e, s')
           | (None, migrated, s') \<Rightarrow>
               (None, emit_locked (if migrated then schedule_save_locked s' else s'))))"

definition set_max_running :: "int \<Rightarrow> sched \<Rightarrow> sched" where
  "set_max_running m s =
     save_and_emit (schedule_waiting_locked (enforce_max_running_locked
       (s\<lparr>sch_max_running := (if m \<le> 0 then 1 else m)\<rparr>)))"

definition fail_task :: "goerr \<Rightarrow> task \<Rightarrow> task" where
  "fail_task e t = (set_status StatusFailed t)
     \<lparr>tsk_error := err_text e, tsk_stage := (tsk_stage (set_status StatusFailed t))
       \<lparr>stg_error := err_text e\<rparr>\<rparr>"

definition prepare_added :: "unicode \<Rightarrow> fsys \<Rightarrow> sched \<Rightarrow> task \<Rightarrow> goerr option \<times> task" where
  "prepare_added u fs s t =
     (case prepare_ftp_directory_output u fs (clone_task t) (reserved_outputs_locked s) of
        Inl e \<Rightarrow> (Some e, fail_task e (clone_task t))
      | Inr p \<Rightarrow>
          (None, if tsk_status t = StatusWaiting \<and> tsk_status p = StatusPaused
                 then set_status StatusWaiting p else p))"

definition add :: "unicode \<Rightarrow> fsys \<Rightarrow> task \<Rightarrow> sched \<Rightarrow> sched" where
  "add u fs t s =
     (case prepare_added u fs s t of
        (err, t') \<Rightarrow>
          (let s' = insert_task t' s in
           save_and_emit
             (if err = None \<and> tsk_status t' \<noteq> StatusPaused
              then schedule_locked (tsk_id t') s' else s')))"

text \<open>\<open>append (order[:i], order[i+1:]...)\<close> at the first occurrence.\<close>

definition remove_task :: "string \<Rightarrow> sched \<Rightarrow> goerr option \<times> sched" where
  "remove_task tid s =
     (case task_at s tid of
        None \<Rightarrow> (Some (new_error ''task not found''), s)
      | Some _ \<Rightarrow>
          (let s1 = (case running_at s tid of None \<Rightarrow> s | Some n \<Rightarrow> cancel_run n s);
               s2 = s1\<lparr>sch_tasks := AList.delete tid (sch_tasks s1),
                      sch_order := remove1 tid (sch_order s1)\<rparr> in
           (None, save_and_emit (schedule_waiting_locked s2))))"

end
