(* ===== verification/SchedulerOps.thy ===== *)
theory SchedulerOps
  imports Scheduler
begin

text \<open>
  The user's operations of \<open>internal/core/scheduler.go\<close> and the three sections of a run's
  goroutine: its start, its progress reports and its end.
\<close>

section \<open>Pausing and resuming\<close>

definition toggle_pause :: "string \<Rightarrow> sched \<Rightarrow> goerr option \<times> sched" where
  "toggle_pause tid s =
     (case task_at s tid of
        None \<Rightarrow> (Some (new_error ''task not found''), s)
      | Some t \<Rightarrow>
          if is_active t \<and> running_at s tid \<noteq> None then
            (None, save_and_emit (cancel_run (the (running_at s tid)) (put_task tid (pause_task t) s)))
          else if tsk_status t = StatusWaiting then
            (None, save_and_emit (put_task tid (pause_task t) s))
          else if tsk_status t = StatusCompleted then (Some (new_error ''task completed''), s)
          else (None, save_and_emit (schedule_locked tid
                 (put_task tid (set_status StatusWaiting t) s))))"

definition start_all :: "sched \<Rightarrow> sched" where
  "start_all s =
     save_and_emit (schedule_waiting_locked
       (map_tasks (\<lambda>tid t.
          if tid \<in> set (sch_order s) \<and> (tsk_status t = StatusPaused \<or> tsk_status t = StatusWaiting)
          then set_status StatusWaiting t else t) s))"

definition cancel_all :: "sched \<Rightarrow> sched" where
  "cancel_all s = fold (\<lambda>(_, n). cancel_run n) (sch_running s) s"

definition pause_all :: "sched \<Rightarrow> sched" where
  "pause_all s =
     (let s1 = s\<lparr>sch_pause_epoch := sch_pause_epoch s + 1\<rparr>;
          s2 = cancel_all (map_tasks (\<lambda>tid t.
                 if running_at s tid \<noteq> None then pause_task t else t) s1);
          s3 = map_tasks (\<lambda>_ t. if tsk_status t = StatusWaiting then pause_task t else t) s2 in
      save_and_emit s3)"

section \<open>Redownload, in three locked sections\<close>

text \<open>The result of the first section: the run to wait for, when one is running.\<close>

definition redownload_stop :: "string \<Rightarrow> sched \<Rightarrow> goerr + nat option \<times> sched" where
  "redownload_stop tid s =
     (case task_at s tid of
        None \<Rightarrow> Inl (new_error ''task not found'')
      | Some t \<Rightarrow>
          (case running_at s tid of
             None \<Rightarrow> Inr (None, s)
           | Some n \<Rightarrow> Inr (Some n, cancel_run n (put_task tid (set_status StatusPaused t) s))))"

definition redownload_copy :: "string \<Rightarrow> sched \<Rightarrow> goerr + task \<times> worker option" where
  "redownload_copy tid s =
     (case task_at s tid of
        None \<Rightarrow> Inl (new_error ''task not found'')
      | Some t \<Rightarrow> Inr (clone_task t, registry_worker (sch_registry s) (tsk_pack_id t)))"

text \<open>
  Between the locks: the task's files are removed and a worker that resets tasks is asked to;
  \<open>reset\<close> is that worker's answer.
\<close>

definition redownload_files ::
  "unicode \<Rightarrow> fsys \<Rightarrow> (task \<Rightarrow> task result) \<Rightarrow> task \<times> worker option \<Rightarrow> task result \<times> fsys" where
  "redownload_files u fs reset tw =
     (case cleanup_files u (fst tw) fs of
        (Some e, fs') \<Rightarrow> (Inl e, fs')
      | (None, fs') \<Rightarrow>
          (case snd tw of
             Some w \<Rightarrow> (if wrk_resets w then map_sum id clone_task (reset (fst tw)) else Inr (fst tw), fs')
           | None \<Rightarrow> (Inr (fst tw), fs')))"

definition reset_progress :: "task \<Rightarrow> task \<Rightarrow> task" where
  "reset_progress c t =
     t\<lparr>tsk_status := StatusWaiting, tsk_received := 0, tsk_speed := 0, tsk_progress := 0,
       tsk_detail := [], tsk_error := [], tsk_file_size := tsk_file_size c,
       tsk_uses_slot := tsk_uses_slot c,
       tsk_stage := (tsk_stage t)\<lparr>stg_status := StatusWaiting, stg_received := 0,
         stg_speed := 0, stg_progress := 0, stg_error := [],
         stg_state := clone_string_map (stg_state (tsk_stage c)),
         stg_file_size := stg_file_size (tsk_stage c)\<rparr>\<rparr>"

definition redownload_commit :: "string \<Rightarrow> task \<Rightarrow> sched \<Rightarrow> goerr option \<times> sched" where
  "redownload_commit tid c s =
     (if sch_stopping s then (Some (new_error ''scheduler stopping''), s)
      else case task_at s tid of
        None \<Rightarrow> (Some (new_error ''task not found''), s)
      | Some t \<Rightarrow>
          (None, save_and_emit (schedule_waiting_locked (put_task tid (reset_progress c t) s))))"

section \<open>Editing, in three locked sections\<close>

text \<open>The first section: whether the task resumes afterwards and the run to wait for.\<close>

definition edit_begin :: "string \<Rightarrow> sched \<Rightarrow> goerr + (bool \<times> nat option) \<times> sched" where
  "edit_begin tid s =
     (case task_at s tid of
        None \<Rightarrow> Inl (new_error ''task not found'')
      | Some t \<Rightarrow>
          (let resume = (tsk_status t \<noteq> StatusPaused \<and> tsk_status t \<noteq> StatusCanceled) in
           case running_at s tid of
             None \<Rightarrow> Inr ((resume, None), s)
           | Some n \<Rightarrow>
               Inr ((resume, Some n), emit_locked (cancel_run n (put_task tid (pause_task t) s)))))"

definition edit_snapshot :: "string \<Rightarrow> sched \<Rightarrow> goerr + task \<times> 64 word" where
  "edit_snapshot tid s =
     (if sch_stopping s then Inl (new_error ''scheduler stopping'')
      else case task_at s tid of
        None \<Rightarrow> Inl (new_error ''task not found'')
      | Some t \<Rightarrow> Inr (clone_task t, sch_pause_epoch s))"

definition edited_task :: "bool \<Rightarrow> task \<Rightarrow> task \<Rightarrow> task" where
  "edited_task resume original edited =
     set_status (if resume then StatusWaiting else StatusPaused)
       (edited\<lparr>tsk_id := tsk_id original, tsk_created_at := tsk_created_at original,
          tsk_pack_id := tsk_pack_id original, tsk_speed := 0, tsk_error := [],
          tsk_stage := (tsk_stage edited)\<lparr>stg_speed := 0, stg_error := []\<rparr>\<rparr>)"

definition edit_commit ::
  "string \<Rightarrow> bool \<Rightarrow> task \<Rightarrow> 64 word \<Rightarrow> task result \<Rightarrow> sched \<Rightarrow> goerr option \<times> sched" where
  "edit_commit tid resume original epoch outcome s =
     (if sch_stopping s then (Some (new_error ''scheduler stopping''), s)
      else case task_at s tid of
        None \<Rightarrow> (Some (new_error ''task not found''), s)
      | Some current \<Rightarrow>
          if sch_pause_epoch s \<noteq> epoch \<or> current \<noteq> original
          then (Some (new_error ''task changed during edit''), s)
          else (case outcome of
              Inl e \<Rightarrow>
                (Some e,
                 if resume
                 then save_and_emit (schedule_locked tid
                        (put_task tid (set_status StatusWaiting current) s))
                 else s)
            | Inr edited \<Rightarrow>
                (let s1 = put_task tid (clone_task (edited_task resume original edited)) s in
                 (None, save_and_emit (if resume then schedule_locked tid s1 else s1)))))"

section \<open>Stopping, in two locked sections\<close>

definition stop_begin :: "sched \<Rightarrow> nat list \<times> sched" where
  "stop_begin s =
     (map snd (sch_running s),
      (map_tasks (\<lambda>_ t. if is_active t \<or> tsk_status t = StatusWaiting then pause_task t else t)
        (cancel_all (s\<lparr>sch_stopping := True\<rparr>)))\<lparr>sch_save_armed := False\<rparr>)"

definition stop_finish :: "bool \<Rightarrow> sched \<Rightarrow> sched" where
  "stop_finish ok s = (save_locked ok (s\<lparr>sch_save_armed := False\<rparr>))\<lparr>sch_events_closed := True\<rparr>"

section \<open>A run's goroutine\<close>

definition set_phase :: "nat \<Rightarrow> run_phase \<Rightarrow> sched \<Rightarrow> sched" where
  "set_phase n p s = s\<lparr>sch_runs := (sch_runs s)[n := (sch_runs s ! n)\<lparr>run_phase := p\<rparr>]\<rparr>"

text \<open>
  The goroutine first copies its task. When the task is already gone it returns: \<open>done\<close> is
  closed, and the entry in \<open>running\<close> stays.
\<close>

definition run_begin :: "nat \<Rightarrow> sched \<Rightarrow> sched" where
  "run_begin n s =
     (case task_at s (run_task_id (sch_runs s ! n)) of
        None \<Rightarrow> set_phase n Finished s
      | Some t \<Rightarrow> set_phase n (Working (clone_task t)) s)"

definition report_task :: "progress_update \<Rightarrow> task \<Rightarrow> task" where
  "report_task upd t =
     (let size = (if upd_file_size upd > 0 then upd_file_size upd else tsk_file_size t);
          status = (case upd_status upd of
              Some x \<Rightarrow> if is_active t then Some x else None | None \<Rightarrow> None);
          stg = tsk_stage t;
          stg = (if upd_file_size upd > 0 then stg\<lparr>stg_file_size := upd_file_size upd\<rparr> else stg);
          stg = (case status of Some x \<Rightarrow> stg\<lparr>stg_status := x\<rparr> | None \<Rightarrow> stg);
          stg = stg\<lparr>stg_received := upd_received upd, stg_speed := upd_speed upd,
                  stg_progress := upd_progress upd\<rparr>;
          stg = (case upd_stage_state upd of
              None \<Rightarrow> stg
            | Some f \<Rightarrow> if f = fmempty then stg
                else stg\<lparr>stg_state := Some ((case stg_state stg of None \<Rightarrow> fmempty | Some g \<Rightarrow> g) ++\<^sub>f f)\<rparr>) in
      t\<lparr>tsk_received := upd_received upd, tsk_file_size := size, tsk_speed := upd_speed upd,
        tsk_progress := upd_progress upd,
        tsk_detail := (if upd_detail upd \<noteq> [] then upd_detail upd else tsk_detail t),
        tsk_status := (case status of Some x \<Rightarrow> x | None \<Rightarrow> tsk_status t),
        tsk_uses_slot := (case upd_uses_slot upd of Some b \<Rightarrow> b | None \<Rightarrow> tsk_uses_slot t),
        tsk_stage := stg\<rparr>)"

definition report :: "string \<Rightarrow> progress_update \<Rightarrow> sched \<Rightarrow> sched" where
  "report tid upd s =
     (case task_at s tid of
        None \<Rightarrow> s
      | Some t \<Rightarrow>
          (let t' = report_task upd t; s1 = put_task tid t' s in
           save_and_emit
             (if tsk_uses_slot t \<and> \<not> tsk_uses_slot t' then schedule_waiting_locked s1
              else if \<not> tsk_uses_slot t \<and> tsk_uses_slot t' then enforce_max_running_locked s1
              else s1)))"

text \<open>What the worker's return value does to its task.\<close>

definition finish_task :: "goerr option \<Rightarrow> task \<Rightarrow> task" where
  "finish_task err t =
     (case err of
        Some e \<Rightarrow>
          if err_canceled e then (if is_active t then set_status StatusPaused t else t)
          else fail_task e t
      | None \<Rightarrow>
          (let c = clear_speed (set_status StatusCompleted t) in
           c\<lparr>tsk_progress := 100, tsk_stage := (tsk_stage c)\<lparr>stg_progress := 100\<rparr>\<rparr>))"

definition run_end :: "nat \<Rightarrow> goerr option \<Rightarrow> sched \<Rightarrow> sched" where
  "run_end n err s =
     (let tid = run_task_id (sch_runs s ! n);
          s1 = set_phase n Finished (s\<lparr>sch_running := AList.delete tid (sch_running s)\<rparr>) in
      case task_at s1 tid of
        None \<Rightarrow> s1
      | Some t \<Rightarrow> save_and_emit (schedule_waiting_locked (put_task tid (finish_task err t) s1)))"

end
