(* ===== verification/SchedulerInv.thy ===== *)
theory SchedulerInv
  imports SchedulerOps
begin

text \<open>
  The invariant of the scheduler and the lemma, for each operation, that it is kept.
  \<open>core_inv\<close> is the structure: the task table, the order and the running table agree, an active
  task has a running entry, an unfinished run is the one its task's entry names. \<open>slots_ok\<close> is the
  bound: at most \<open>maxRunning\<close> active tasks use a slot.
\<close>

section \<open>Reading the tables\<close>

lemma table_defs:
  "task_at s = map_of (sch_tasks s)" "running_at s = map_of (sch_running s)"
  by (simp_all add: task_at_def running_at_def fun_eq_iff)

lemma task_at_put [simp]: "task_at (put_task tid t s) = (task_at s)(tid \<mapsto> t)"
  by (simp add: task_at_def put_task_def fun_eq_iff)

lemma put_task_fields [simp]:
  "sch_order (put_task tid t s) = sch_order s" "sch_running (put_task tid t s) = sch_running s"
  "sch_runs (put_task tid t s) = sch_runs s" "sch_events (put_task tid t s) = sch_events s"
  "sch_max_running (put_task tid t s) = sch_max_running s"
  "sch_stopping (put_task tid t s) = sch_stopping s"
  "sch_registry (put_task tid t s) = sch_registry s"
  "running_at (put_task tid t s) = running_at s"
  "sch_has_store (put_task tid t s) = sch_has_store s"
  "sch_load_failed (put_task tid t s) = sch_load_failed s"
  "sch_events_closed (put_task tid t s) = sch_events_closed s"
  by (simp_all add: put_task_def running_at_def fun_eq_iff)

lemma map_of_map_tasks: "map_of (map (\<lambda>(k, t). (k, f k t)) xs) k = map_option (f k) (map_of xs k)"
  by (induction xs) auto

lemma map_tasks_fields [simp]:
  "task_at (map_tasks f s) tid = map_option (f tid) (task_at s tid)"
  "sch_order (map_tasks f s) = sch_order s" "sch_running (map_tasks f s) = sch_running s"
  "sch_runs (map_tasks f s) = sch_runs s" "sch_events (map_tasks f s) = sch_events s"
  "sch_max_running (map_tasks f s) = sch_max_running s"
  "sch_stopping (map_tasks f s) = sch_stopping s"
  "running_at (map_tasks f s) = running_at s"
  "map fst (sch_tasks (map_tasks f s)) = map fst (sch_tasks s)"
  by (auto simp: map_tasks_def task_at_def running_at_def fun_eq_iff map_of_map_tasks comp_def
      split_beta)

lemma cancel_run_fields [simp]:
  "sch_tasks (cancel_run n s) = sch_tasks s" "task_at (cancel_run n s) = task_at s"
  "running_at (cancel_run n s) = running_at s" "sch_order (cancel_run n s) = sch_order s"
  "sch_running (cancel_run n s) = sch_running s" "sch_events (cancel_run n s) = sch_events s"
  "sch_max_running (cancel_run n s) = sch_max_running s"
  "length (sch_runs (cancel_run n s)) = length (sch_runs s)"
  "sch_stopping (cancel_run n s) = sch_stopping s"
  "sch_registry (cancel_run n s) = sch_registry s"
  by (auto simp: cancel_run_def task_at_def running_at_def fun_eq_iff)

lemma cancel_run_phase [simp]:
  "run_phase (sch_runs (cancel_run n s) ! m) = run_phase (sch_runs s ! m)"
  "run_task_id (sch_runs (cancel_run n s) ! m) = run_task_id (sch_runs s ! m)"
  by (auto simp: cancel_run_def nth_list_update)

lemma emit_fields [simp]:
  "sch_tasks (emit_locked s) = sch_tasks s" "task_at (emit_locked s) = task_at s"
  "running_at (emit_locked s) = running_at s" "sch_order (emit_locked s) = sch_order s"
  "sch_running (emit_locked s) = sch_running s" "sch_runs (emit_locked s) = sch_runs s"
  "sch_max_running (emit_locked s) = sch_max_running s"
  "sch_stopping (emit_locked s) = sch_stopping s"
  by (auto simp: emit_locked_def task_at_def running_at_def fun_eq_iff Let_def)

lemma schedule_save_fields [simp]:
  "sch_tasks (schedule_save_locked s) = sch_tasks s" "task_at (schedule_save_locked s) = task_at s"
  "running_at (schedule_save_locked s) = running_at s"
  "sch_order (schedule_save_locked s) = sch_order s"
  "sch_running (schedule_save_locked s) = sch_running s"
  "sch_runs (schedule_save_locked s) = sch_runs s"
  "sch_max_running (schedule_save_locked s) = sch_max_running s"
  "sch_events (schedule_save_locked s) = sch_events s"
  "sch_stopping (schedule_save_locked s) = sch_stopping s"
  by (auto simp: schedule_save_locked_def task_at_def running_at_def fun_eq_iff)

lemma save_and_emit_fields [simp]:
  "sch_tasks (save_and_emit s) = sch_tasks s" "task_at (save_and_emit s) = task_at s"
  "running_at (save_and_emit s) = running_at s" "sch_order (save_and_emit s) = sch_order s"
  "sch_running (save_and_emit s) = sch_running s" "sch_runs (save_and_emit s) = sch_runs s"
  "sch_max_running (save_and_emit s) = sch_max_running s"
  "sch_stopping (save_and_emit s) = sch_stopping s"
  by (simp_all add: save_and_emit_def)

lemma events_emit: "length (sch_events s) \<le> events_cap \<Longrightarrow> length (sch_events (emit_locked s)) \<le> events_cap"
  by (auto simp: emit_locked_def Let_def events_cap_def)

section \<open>The invariant\<close>

definition core_inv :: "sched \<Rightarrow> bool" where
  "core_inv s \<longleftrightarrow>
     distinct (map fst (sch_tasks s)) \<and> distinct (map fst (sch_running s)) \<and>
     distinct (sch_order s) \<and> set (sch_order s) = dom (task_at s) \<and>
     (\<forall>tid t. task_at s tid = Some t \<longrightarrow> tsk_id t = tid) \<and>
     (\<forall>tid n. running_at s tid = Some n \<longrightarrow>
        n < length (sch_runs s) \<and> run_task_id (sch_runs s ! n) = tid \<and>
        (task_at s tid \<noteq> None \<longrightarrow> run_phase (sch_runs s ! n) \<noteq> Finished)) \<and>
     (\<forall>n < length (sch_runs s). run_phase (sch_runs s ! n) \<noteq> Finished \<longrightarrow>
        running_at s (run_task_id (sch_runs s ! n)) = Some n) \<and>
     (\<forall>tid t. task_at s tid = Some t \<longrightarrow> is_active t \<longrightarrow> running_at s tid \<noteq> None) \<and>
     1 \<le> sch_max_running s \<and> length (sch_events s) \<le> events_cap"

lemma core_invI:
  assumes "distinct (map fst (sch_tasks s))" "distinct (map fst (sch_running s))"
    and "distinct (sch_order s)" "set (sch_order s) = dom (task_at s)"
    and "\<And>tid t. task_at s tid = Some t \<Longrightarrow> tsk_id t = tid"
    and "\<And>tid n. running_at s tid = Some n \<Longrightarrow> n < length (sch_runs s) \<and>
       run_task_id (sch_runs s ! n) = tid \<and>
       (task_at s tid \<noteq> None \<longrightarrow> run_phase (sch_runs s ! n) \<noteq> Finished)"
    and "\<And>n. n < length (sch_runs s) \<Longrightarrow> run_phase (sch_runs s ! n) \<noteq> Finished \<Longrightarrow>
       running_at s (run_task_id (sch_runs s ! n)) = Some n"
    and "\<And>tid t. task_at s tid = Some t \<Longrightarrow> is_active t \<Longrightarrow> running_at s tid \<noteq> None"
    and "1 \<le> sch_max_running s" "length (sch_events s) \<le> events_cap"
  shows "core_inv s"
  using assms unfolding core_inv_def by blast

lemma core_invD:
  assumes "core_inv s"
  shows "distinct (map fst (sch_tasks s))" "distinct (map fst (sch_running s))"
    "distinct (sch_order s)" "set (sch_order s) = dom (task_at s)"
    "1 \<le> sch_max_running s" "length (sch_events s) \<le> events_cap"
  using assms by (simp_all add: core_inv_def)

lemma core_inv_id: "core_inv s \<Longrightarrow> task_at s tid = Some t \<Longrightarrow> tsk_id t = tid"
  by (simp add: core_inv_def)

lemma core_inv_run:
  assumes "core_inv s" "running_at s tid = Some n"
  shows "n < length (sch_runs s)" "run_task_id (sch_runs s ! n) = tid"
    "task_at s tid \<noteq> None \<Longrightarrow> run_phase (sch_runs s ! n) \<noteq> Finished"
  using assms by (simp_all add: core_inv_def)

lemma core_inv_live:
  "core_inv s \<Longrightarrow> n < length (sch_runs s) \<Longrightarrow> run_phase (sch_runs s ! n) \<noteq> Finished \<Longrightarrow>
   running_at s (run_task_id (sch_runs s ! n)) = Some n"
  by (simp add: core_inv_def)

lemma core_inv_active:
  "core_inv s \<Longrightarrow> task_at s tid = Some t \<Longrightarrow> is_active t \<Longrightarrow> \<exists>n. running_at s tid = Some n"
  by (simp add: core_inv_def)

lemma core_inv_cong:
  assumes inv: "core_inv s" and eq: "sch_tasks s' = sch_tasks s" "sch_running s' = sch_running s"
    "sch_order s' = sch_order s" "sch_runs s' = sch_runs s"
    and "1 \<le> sch_max_running s'" "length (sch_events s') \<le> events_cap"
  shows "core_inv s'"
proof -
  have t: "task_at s' = task_at s" "running_at s' = running_at s"
    using eq by (simp_all add: table_defs)
  show ?thesis using assms unfolding core_inv_def t eq by blast
qed

definition active_slots :: "sched \<Rightarrow> string set" where
  "active_slots s = {tid. \<exists>t. task_at s tid = Some t \<and> is_active t \<and> tsk_uses_slot t}"

definition running_slots :: "sched \<Rightarrow> string set" where
  "running_slots s = {tid. running_at s tid \<noteq> None \<and> (\<exists>t. task_at s tid = Some t \<and> tsk_uses_slot t)}"

definition slots_ok :: "sched \<Rightarrow> bool" where
  "slots_ok s \<longleftrightarrow> int (card (active_slots s)) \<le> sch_max_running s"

definition sched_inv :: "sched \<Rightarrow> bool" where
  "sched_inv s \<longleftrightarrow> core_inv s \<and> slots_ok s"

lemma finite_task_at [simp]: "finite (dom (task_at s))"
  unfolding task_at_def by (simp add: finite_dom_map_of)

lemma finite_active_slots [simp]: "finite (active_slots s)"
  by (rule finite_subset [OF _ finite_task_at]) (auto simp: active_slots_def)

lemma finite_running_slots [simp]: "finite (running_slots s)"
  by (rule finite_subset [OF _ finite_task_at]) (auto simp: running_slots_def)

lemma running_slot_count_card:
  assumes "distinct (map fst (sch_running s))"
  shows "running_slot_count s = int (card (running_slots s))"
proof -
  let ?P = "\<lambda>(tid, n). case task_at s tid of Some t \<Rightarrow> tsk_uses_slot t | None \<Rightarrow> False"
  let ?ys = "filter ?P (sch_running s)"
  have d: "distinct (map fst ?ys)" using assms by (simp add: distinct_map_filter)
  have "fst ` set ?ys = running_slots s"
    using assms
    by (force simp: running_slots_def running_at_def image_iff
        split: option.splits dest: map_of_SomeD)
  then have "card (running_slots s) = length ?ys"
    using distinct_card[OF d] by (simp add: comp_def)
  then show ?thesis by (simp add: running_slot_count_def)
qed

lemma active_subset_running: "core_inv s \<Longrightarrow> active_slots s \<subseteq> running_slots s"
  by (auto simp: core_inv_def active_slots_def running_slots_def)

lemma active_le_running:
  assumes "core_inv s"
  shows "int (card (active_slots s)) \<le> running_slot_count s"
proof -
  have "distinct (map fst (sch_running s))" using assms by (simp add: core_inv_def)
  with card_mono[OF finite_running_slots active_subset_running[OF assms]] show ?thesis
    by (simp add: running_slot_count_card)
qed

lemma slots_ok_mono:
  "slots_ok s \<Longrightarrow> active_slots s' \<subseteq> active_slots s \<Longrightarrow> sch_max_running s \<le> sch_max_running s' \<Longrightarrow>
   slots_ok s'"
  using card_mono[of "active_slots s" "active_slots s'"] by (simp add: slots_ok_def)

section \<open>Primitive changes\<close>

lemma distinct_keys_put: "distinct (map fst (sch_tasks s)) \<Longrightarrow> distinct (map fst (sch_tasks (put_task k t s)))"
  by (simp add: put_task_def distinct_update)

lemma put_task_core:
  assumes "core_inv s" and "task_at s tid \<noteq> None" and "tsk_id t = tid"
    and "is_active t \<Longrightarrow> running_at s tid \<noteq> None"
  shows "core_inv (put_task tid t s)"
  using assms distinct_keys_put[of s tid t]
  by (auto simp: core_inv_def)

lemma put_task_slots:
  assumes "slots_ok s" and "is_active t \<Longrightarrow> tsk_uses_slot t \<Longrightarrow> tid \<in> active_slots s"
  shows "slots_ok (put_task tid t s)"
proof -
  have "active_slots (put_task tid t s) \<subseteq> active_slots s"
    using assms(2) by (auto simp: active_slots_def split: if_splits)
  with assms(1) show ?thesis by (auto intro: slots_ok_mono)
qed

lemma active_put_inactive:
  "\<not> is_active t \<Longrightarrow> active_slots (put_task tid t s) = active_slots s - {tid}"
  by (auto simp: active_slots_def split: if_splits)

lemma cancel_run_inv [simp]:
  "core_inv (cancel_run n s) = core_inv s" "active_slots (cancel_run n s) = active_slots s"
  "slots_ok (cancel_run n s) = slots_ok s"
  by (simp_all add: core_inv_def active_slots_def slots_ok_def)

lemma save_and_emit_inv [simp]:
  "core_inv s \<Longrightarrow> core_inv (save_and_emit s)" "active_slots (save_and_emit s) = active_slots s"
  "slots_ok (save_and_emit s) = slots_ok s"
  using events_emit[of "schedule_save_locked s"]
  by (simp_all add: core_inv_def active_slots_def slots_ok_def) (simp_all add: save_and_emit_def)

lemma emit_inv [simp]:
  "core_inv s \<Longrightarrow> core_inv (emit_locked s)" "slots_ok (emit_locked s) = slots_ok s"
  using events_emit[of s] by (simp_all add: core_inv_def active_slots_def slots_ok_def)

lemma map_tasks_core:
  assumes "core_inv s" and "\<And>k t. tsk_id (f k t) = tsk_id t"
    and "\<And>k t. is_active (f k t) \<Longrightarrow> is_active t"
  shows "core_inv (map_tasks f s)"
  using assms by (auto simp: core_inv_def dom_def)

lemma map_tasks_slots:
  assumes "slots_ok s" and "\<And>k t. is_active (f k t) \<Longrightarrow> is_active t"
    and "\<And>k t. tsk_uses_slot (f k t) = tsk_uses_slot t"
  shows "slots_ok (map_tasks f s)"
proof -
  have "active_slots (map_tasks f s) \<subseteq> active_slots s"
    using assms(2,3) by (auto simp: active_slots_def)
  with assms(1) show ?thesis by (auto intro: slots_ok_mono)
qed

lemma is_active_simps [simp]:
  "\<not> is_active (pause_task t)" "is_active (set_status StatusRunning t)"
  "\<not> is_active (set_status StatusWaiting t)" "\<not> is_active (set_status StatusPaused t)"
  "\<not> is_active (set_status StatusFailed t)" "\<not> is_active (set_status StatusCompleted t)"
  by (simp_all add: is_active_def)

section \<open>Starting runs\<close>

lemma start_run_fields [simp]:
  "task_at (start_run tid t w s) = (task_at s)(tid \<mapsto> set_status StatusRunning t)"
  "running_at (start_run tid t w s) = (running_at s)(tid \<mapsto> length (sch_runs s))"
  "sch_order (start_run tid t w s) = sch_order s"
  "sch_max_running (start_run tid t w s) = sch_max_running s"
  "sch_events (start_run tid t w s) = sch_events s"
  "sch_stopping (start_run tid t w s) = sch_stopping s"
  "sch_registry (start_run tid t w s) = sch_registry s"
  "sch_runs (start_run tid t w s) = sch_runs s @ [\<lparr>run_task_id = tid, run_worker = w,
     run_canceled = False, run_phase = Spawned\<rparr>]"
  by (simp_all add: start_run_def running_at_def task_at_def put_task_def fun_eq_iff)

lemma start_run_core:
  assumes inv: "core_inv s" and t: "task_at s tid = Some t" and r: "running_at s tid = None"
  shows "core_inv (start_run tid t w s)"
proof (rule core_invI)
  note d = core_invD[OF inv]
  show "distinct (map fst (sch_tasks (start_run tid t w s)))"
    "distinct (map fst (sch_running (start_run tid t w s)))"
    using d by (simp_all add: start_run_def put_task_def distinct_update)
  show "set (sch_order (start_run tid t w s)) = dom (task_at (start_run tid t w s))"
    using d t by auto
  show "tsk_id t' = k" if "task_at (start_run tid t w s) k = Some t'" for k t'
    using that core_inv_id[OF inv] t by (auto split: if_splits)
  show "running_at (start_run tid t w s) k \<noteq> None"
    if "task_at (start_run tid t w s) k = Some t'" "is_active t'" for k t'
    using that core_inv_active[OF inv, of k t'] by (auto split: if_splits)
  show "n < length (sch_runs (start_run tid t w s)) \<and>
      run_task_id (sch_runs (start_run tid t w s) ! n) = k \<and>
      (task_at (start_run tid t w s) k \<noteq> None \<longrightarrow>
        run_phase (sch_runs (start_run tid t w s) ! n) \<noteq> Finished)"
    if "running_at (start_run tid t w s) k = Some n" for k n
  proof (cases "k = tid")
    case True
    with that show ?thesis by (auto simp: nth_append)
  next
    case False
    with that have old: "running_at s k = Some n" by simp
    with False show ?thesis using core_inv_run[OF inv old] by (simp add: nth_append)
  qed
  show "running_at (start_run tid t w s) (run_task_id (sch_runs (start_run tid t w s) ! n)) = Some n"
    if "n < length (sch_runs (start_run tid t w s))"
      "run_phase (sch_runs (start_run tid t w s) ! n) \<noteq> Finished" for n
    using that core_inv_live[OF inv, of n] r
    by (cases "n < length (sch_runs s)") (auto simp: nth_append)
qed (use core_invD[OF inv] in simp_all)

lemma schedule_locked_core: "core_inv s \<Longrightarrow> core_inv (schedule_locked tid s)"
proof -
  assume inv: "core_inv s"
  show ?thesis
  proof (cases "task_at s tid")
    case None
    with inv show ?thesis by (simp add: schedule_locked_def)
  next
    case (Some t)
    have tid: "tsk_id t = tid" using inv Some by (simp add: core_inv_def)
    have "core_inv (put_task tid (t\<lparr>tsk_status := StatusFailed,
        tsk_error := ''worker not registered''\<rparr>) s)"
      using inv Some tid by (intro put_task_core) (simp_all add: is_active_def)
    with inv Some show ?thesis
      by (auto simp: schedule_locked_def intro: start_run_core split: option.splits)
  qed
qed

lemma active_start_run:
  "active_slots (start_run tid t w s) \<subseteq>
     (if tsk_uses_slot t then insert tid (active_slots s) else active_slots s)"
  by (auto simp: active_slots_def split: if_splits)

lemma schedule_locked_slots:
  assumes "core_inv s" and "slots_ok s"
  shows "slots_ok (schedule_locked tid s)"
proof (cases "task_at s tid")
  case None
  with assms show ?thesis by (simp add: schedule_locked_def)
next
  case (Some t)
  have failed: "slots_ok (put_task tid (t\<lparr>tsk_status := StatusFailed, tsk_error := e\<rparr>) s)" for e
    using assms(2) by (intro put_task_slots) (simp_all add: is_active_def)
  have start: "slots_ok (start_run tid t w s)"
    if free: "\<not> (tsk_uses_slot t \<and> running_slot_count s \<ge> sch_max_running s)" for w
  proof (cases "tsk_uses_slot t")
    case True
    have "card (active_slots (start_run tid t w s)) \<le> card (insert tid (active_slots s))"
      using active_start_run[of tid t w s] True by (intro card_mono) auto
    also have "\<dots> \<le> Suc (card (active_slots s))" by (simp add: card_insert_le_m1 card_insert_if)
    finally show ?thesis
      using active_le_running[OF assms(1)] free True by (simp add: slots_ok_def)
  next
    case False
    then have "active_slots (start_run tid t w s) \<subseteq> active_slots s"
      using active_start_run[of tid t w s] by simp
    with assms(2) show ?thesis by (rule slots_ok_mono) simp
  qed
  show ?thesis
    unfolding schedule_locked_def Some option.case
    by (simp add: assms(2) failed start split: option.split)
qed

lemma schedule_locked_fields [simp]:
  "sch_order (schedule_locked tid s) = sch_order s"
  "sch_max_running (schedule_locked tid s) = sch_max_running s"
  "sch_stopping (schedule_locked tid s) = sch_stopping s"
  "sch_registry (schedule_locked tid s) = sch_registry s"
  by (auto simp: schedule_locked_def split: option.splits)

lemma schedule_if_waiting_inv [inv_intros]:
  "sched_inv s \<Longrightarrow> sched_inv (schedule_if_waiting tid s)"
  by (auto simp: schedule_if_waiting_def sched_inv_def schedule_locked_core schedule_locked_slots
      split: option.split)

lemma schedule_locked_inv [inv_intros]: "sched_inv s \<Longrightarrow> sched_inv (schedule_locked tid s)"
  by (simp add: sched_inv_def schedule_locked_core schedule_locked_slots)

lemma schedule_waiting_inv [inv_intros]:
  "sched_inv s \<Longrightarrow> sched_inv (schedule_waiting_locked s)"
proof -
  have "sched_inv (fold schedule_if_waiting ids s)" if "sched_inv s" for ids s
    using that by (induction ids arbitrary: s) (auto intro: schedule_if_waiting_inv)
  then show "sched_inv s \<Longrightarrow> ?thesis" by (simp add: schedule_waiting_locked_def)
qed

lemma save_and_emit_sched_inv [inv_intros]: "sched_inv s \<Longrightarrow> sched_inv (save_and_emit s)"
  by (simp add: sched_inv_def)

end
