(* ===== verification/TaskFilesProps.thy ===== *)
theory TaskFilesProps
  imports TaskFiles
begin

text \<open>
  What the ownership checks promise. For paths on a drive letter, \<open>fp_clean\<close> has a normal form
  (\<open>drive_text\<close>); an owned path lies strictly below the task's directory, the removal of a task's
  files touches nothing but that and its named files, and an FTP directory is removed only by the
  task its marker names.
\<close>

section \<open>Normal forms of drive paths\<close>

definition drive_text :: "char \<Rightarrow> string list \<Rightarrow> string" where
  "drive_text d cs = d # CHR '':'' # backslash # join_with [backslash] cs"

definition drive_path :: "string \<Rightarrow> bool" where
  "drive_path s \<longleftrightarrow> (case s of d # c # x # _ \<Rightarrow> d \<noteq> slash \<and> c = CHR '':'' \<and> is_sep x | _ \<Rightarrow> False)"

definition norm_elems :: "string list \<Rightarrow> bool" where
  "norm_elems cs \<longleftrightarrow> cleaned True cs \<and> (\<forall>c\<in>set cs. slash \<notin> set c \<and> backslash \<notin> set c)"

lemma seps [simp]: "is_sep slash" "is_sep backslash" "slash \<noteq> backslash" "backslash \<noteq> slash"
  "CHR '':'' \<noteq> slash" "slash \<noteq> CHR '':''" "CHR '':'' \<noteq> backslash" "\<not> is_sep CHR '':''"
  by (simp_all add: is_sep_def slash_def backslash_def)

lemma from_slash_no_slash: "slash \<notin> set (from_slash s)"
  by (auto simp: from_slash_def replace_char_def)

lemma from_slash_id: "slash \<notin> set s \<Longrightarrow> from_slash s = s"
  unfolding from_slash_def replace_char_def by (induction s) auto

lemma drive_volume [simp]:
  "volume_len (d # CHR '':'' # x) = 2" "volume_name (d # CHR '':'' # x) = [d, CHR '':'']"
  "after_volume (d # CHR '':'' # x) = x"
  by (simp_all add: volume_len_def volume_name_def after_volume_def)

lemma drive_rooted [simp]: "is_sep x \<Longrightarrow> fp_rooted (d # CHR '':'' # x # s)"
  by (simp add: fp_rooted_def)

lemma drive_pathE:
  assumes "drive_path s"
  obtains d x r where "s = d # CHR '':'' # x # r" "d \<noteq> slash" "is_sep x"
  using assms by (auto simp: drive_path_def split: list.splits)

lemma drive_path_text [simp]: "d \<noteq> slash \<Longrightarrow> drive_path (drive_text d cs)"
  by (simp add: drive_path_def drive_text_def)

lemma norm_fp_elems:
  assumes "fp_rooted s"
  shows "norm_elems (fp_elems s)"
proof -
  have "slash \<notin> set c" if "c \<in> set (fp_elems s)" for c
    using that set_clean_elems split_on_subset from_slash_no_slash
    unfolding fp_elems_def by blast
  then show ?thesis
    using fp_elems_cleaned[of s] fp_elems_no_sep[of _ s] assms by (simp add: norm_elems_def)
qed

lemma fp_clean_drive:
  assumes "drive_path s"
  shows "fp_clean s = drive_text (hd s) (fp_elems s)" and "norm_elems (fp_elems s)"
    and "hd s \<noteq> slash"
proof -
  from assms obtain d x r where s: "s = d # CHR '':'' # x # r" "d \<noteq> slash" "is_sep x"
    by (rule drive_pathE)
  then have "from_slash [d, CHR '':''] = [d, CHR '':'']"
    by (intro from_slash_id) auto
  then show "fp_clean s = drive_text (hd s) (fp_elems s)" "hd s \<noteq> slash"
    using s by (simp_all add: fp_clean_def fp_text_def drive_text_def)
  show "norm_elems (fp_elems s)" using s by (intro norm_fp_elems) simp
qed

lemma set_join_norm: "norm_elems cs \<Longrightarrow> slash \<notin> set (join_with [backslash] cs)"
  using set_join_with[of "[backslash]" cs] by (auto simp: norm_elems_def)

lemma fp_elems_drive_text [simp]:
  assumes "norm_elems cs"
  shows "fp_elems (drive_text d cs) = cs"
proof -
  have r: "fp_rooted (drive_text d cs)" by (simp add: drive_text_def)
  have "split_on backslash (from_slash (backslash # join_with [backslash] cs)) =
      [] # split_on backslash (join_with [backslash] cs)"
    using set_join_norm[OF assms] by (simp add: from_slash_id)
  moreover have "clean_elems True ([] # split_on backslash (join_with [backslash] cs)) = cs"
  proof (cases "cs = []")
    case True
    then show ?thesis by (simp add: clean_elems_def clean_step_def)
  next
    case False
    then have "split_on backslash (join_with [backslash] cs) = cs"
      using assms by (intro split_join) (auto simp: norm_elems_def)
    then show ?thesis
      using clean_elems_id[of True cs] assms
      by (simp add: clean_elems_def clean_step_def norm_elems_def)
  qed
  ultimately show ?thesis using r by (simp add: fp_elems_def drive_text_def)
qed

lemma drive_text_simps [simp]:
  assumes "d \<noteq> slash"
  shows "hd (drive_text d cs) = d" "fp_rooted (drive_text d cs)"
    "volume_name (drive_text d cs) = [d, CHR '':'']" "volume_len (drive_text d cs) = 2"
    "is_abs (drive_text d cs)"
  by (simp_all add: drive_text_def is_abs_def)

lemma fp_clean_drive_text [simp]:
  "d \<noteq> slash \<Longrightarrow> norm_elems cs \<Longrightarrow> fp_clean (drive_text d cs) = drive_text d cs"
  using fp_clean_drive(1)[of "drive_text d cs"] by simp

lemma fp_abs_drive_text [simp]:
  "d \<noteq> slash \<Longrightarrow> norm_elems cs \<Longrightarrow> fp_abs cwd (drive_text d cs) = drive_text d cs"
  by (simp add: fp_abs_def)

lemma fp_abs_clean_drive:
  "drive_path s \<Longrightarrow> fp_abs cwd (fp_clean s) = drive_text (hd s) (fp_elems s)"
  using fp_clean_drive[of s] by simp

lemma join_raw_prefix: "b \<noteq> [] \<Longrightarrow> \<exists>x. join_raw b e = b @ x"
  unfolding join_raw_def Let_def by auto

lemma foldl_join_raw: "b \<noteq> [] \<Longrightarrow> \<exists>x. foldl join_raw b es = b @ x"
proof (induction es arbitrary: b)
  case (Cons e es)
  then obtain x where "join_raw b e = b @ x" using join_raw_prefix by blast
  with Cons.IH[of "b @ x"] Cons.prems show ?case by auto
qed simp

lemma drive_path_append: "drive_path s \<Longrightarrow> drive_path (s @ x)"
  by (auto simp: drive_path_def split: list.splits)

lemma hd_append_drive: "drive_path s \<Longrightarrow> hd (s @ x) = hd s"
  by (auto simp: drive_path_def split: list.splits)

lemma fp_join_drive:
  assumes "drive_path p"
  shows "drive_path (fp_join (p # es)) \<and> hd (fp_join (p # es)) = hd p"
proof -
  have "p \<noteq> []" using assms by (auto simp: drive_path_def)
  then obtain x where x: "foldl join_raw p es = p @ x" using foldl_join_raw by blast
  have "join_raw [] p = p" by (simp add: join_raw_def)
  then have "fp_join (p # es) = fp_clean (p @ x)"
    using x \<open>p \<noteq> []\<close> by (simp add: fp_join_def)
  then show ?thesis
    using fp_clean_drive[OF drive_path_append[OF assms, of x]] hd_append_drive[OF assms]
    by simp
qed

section \<open>Owned paths lie strictly below the task's directory\<close>

definition strictly_below :: "unicode \<Rightarrow> string \<Rightarrow> string \<Rightarrow> bool" where
  "strictly_below u base t \<longleftrightarrow>
     (let b = fp_elems (fp_clean base); c = fp_elems t in
      length b < length c \<and> list_all2 (equal_fold u) (take (length b) c) b \<and>
      equal_fold u [hd base, CHR '':''] (take 2 t))"

lemma task_owned_path_target:
  "task_owned_path u cwd base target = Inr t \<Longrightarrow> t = fp_abs cwd (fp_clean target)"
  by (auto simp: task_owned_path_def Let_def split: sum.splits if_splits)

lemma task_owned_below:
  assumes "unicode_fold u" and "drive_path base" and "drive_path target"
    and "task_owned_path u cwd base target = Inr t"
  shows "strictly_below u base t" and "t = drive_text (hd target) (fp_elems target)"
proof -
  let ?b = "drive_text (hd base) (fp_elems base)" and ?t = "drive_text (hd target) (fp_elems target)"
  note nb = fp_clean_drive[OF assms(2)] and nt = fp_clean_drive[OF assms(3)]
  show t: "t = ?t"
    using task_owned_path_target[OF assms(4)] fp_abs_clean_drive[OF assms(3)] by simp
  obtain r where r: "fp_rel u ?b ?t = Inr r" "r \<noteq> ''.''" "r \<noteq> ''..''"
    "\<not> prefix (''..'' @ [backslash]) r"
    using assms(4) fp_abs_clean_drive[OF assms(2)] fp_abs_clean_drive[OF assms(3)]
    by (auto simp: task_owned_path_def Let_def split: sum.splits if_splits)
  let ?B = "fp_elems base" and ?T = "fp_elems target"
  have rt: "rel_target ?t = ?T" using nt by (simp add: rel_target_def)
  have le: "length ?B \<le> length ?T"
    and l2: "list_all2 (equal_fold u) (take (length ?B) ?T) ?B"
    and vol: "equal_fold u [hd base, CHR '':''] [hd target, CHR '':'']"
    and ne: "\<not> equal_fold u ?t ?b"
    using fp_rel_below[OF r] nb nt rt by auto
  have "length ?B \<noteq> length ?T"
  proof
    assume "length ?B = length ?T"
    with l2 have "equal_fold u (join_with [backslash] ?T) (join_with [backslash] ?B)"
      by (intro unicode_fold.fold_join[OF assms(1)]) simp
    moreover have "equal_fold u [hd target, CHR '':''] [hd base, CHR '':'']"
      by (rule unicode_fold.fold_sym[OF assms(1) vol])
    ultimately have "equal_fold u ?t ?b"
      using unicode_fold.fold_append[OF assms(1)] unicode_fold.fold_refl[OF assms(1), of "[backslash]"]
      unfolding drive_text_def
      by (metis append_Cons append_Nil)
    with ne show False by contradiction
  qed
  with le l2 vol show "strictly_below u base t"
    using nb nt t by (simp add: strictly_below_def) (simp add: drive_text_def)
qed

section \<open>What the removal of a task's files can touch\<close>

lemma os_remove_frame:
  "fs_nodes (snd (os_remove fs p)) q \<noteq> fs_nodes fs q \<Longrightarrow>
   q = fs_key fs p \<and> fs_nodes (snd (os_remove fs p)) q = None"
  by (auto simp: os_remove_def split: sum.splits if_splits)

lemma remove_if_exists_snd: "snd (remove_if_exists fs p) = snd (os_remove fs p)"
  by (auto simp: remove_if_exists_def split: prod.splits option.splits)

lemma os_remove_all_frame:
  "fs_nodes (snd (os_remove_all fs p)) q \<noteq> fs_nodes fs q \<Longrightarrow>
   in_tree (fs_key fs p) q \<and> fs_nodes (snd (os_remove_all fs p)) q = None"
  by (auto simp: os_remove_all_def split: option.splits if_splits)

lemma fs_cwd_kept [simp]:
  "fs_cwd (snd (os_remove fs p)) = fs_cwd fs"
  "fs_cwd (snd (remove_if_exists fs p)) = fs_cwd fs"
  "fs_cwd (snd (os_remove_all fs p)) = fs_cwd fs"
  "fs_cwd (snd (remove_task_owned_path u b t fs)) = fs_cwd fs"
  by (auto simp: os_remove_def remove_if_exists_snd os_remove_all_def remove_task_owned_path_def
      split: sum.splits option.splits)

text \<open>
  \<open>touches K B fs fs'\<close>: every node that differs is gone, and it had one of the keys \<open>K\<close> or was in
  a tree strictly below the directory \<open>B\<close>.
\<close>

definition touches :: "unicode \<Rightarrow> string set \<Rightarrow> string \<Rightarrow> fsys \<Rightarrow> fsys \<Rightarrow> bool" where
  "touches u K base fs fs' \<longleftrightarrow> fs_cwd fs' = fs_cwd fs \<and>
     (\<forall>q. fs_nodes fs' q \<noteq> fs_nodes fs q \<longrightarrow> fs_nodes fs' q = None \<and>
        (q \<in> K \<or> (\<exists>t. strictly_below u base t \<and> in_tree t q)))"

lemma touches_refl [simp]: "touches u K base fs fs"
  by (simp add: touches_def)

lemma touches_trans: "touches u K b fs fs' \<Longrightarrow> touches u K b fs' fs'' \<Longrightarrow> touches u K b fs fs''"
  unfolding touches_def by (metis option.exhaust)

lemma touches_remove: "fs_key fs p \<in> K \<Longrightarrow> touches u K b fs (snd (remove_if_exists fs p))"
  unfolding touches_def using os_remove_frame[of fs p] by (auto simp: remove_if_exists_snd)

lemma touches_owned:
  assumes "unicode_fold u" "drive_path base" "drive_path target"
  shows "touches u K base fs (snd (remove_task_owned_path u base target fs))"
proof (cases "task_owned_path u (fs_cwd fs) base target")
  case (Inl e)
  then show ?thesis by (simp add: remove_task_owned_path_def)
next
  case (Inr t)
  have b: "strictly_below u base t" and t: "t = drive_text (hd target) (fp_elems target)"
    using task_owned_below[OF assms Inr] by auto
  have "fs_key fs t = t"
    using t fp_clean_drive[OF assms(3)] by (simp add: fs_key_def)
  then show ?thesis
    unfolding touches_def using b os_remove_all_frame[of fs t]
    by (auto simp: remove_task_owned_path_def Inr)
qed

lemma touches_and_then:
  assumes "touches u K b fs (snd r)" and "\<And>fs'. touches u K b fs fs' \<Longrightarrow> touches u K b fs (snd (f fs'))"
  shows "touches u K b fs (snd (and_then r f))"
  using assms by (auto simp: and_then_def split: prod.splits option.splits)

definition named_files :: "fsys \<Rightarrow> task \<Rightarrow> string set" where
  "named_files fs t = fs_key fs `
     {output_file t, output_file t @ ''.part'', output_file t @ ''.ghd'', output_file t @ ''.torrent''}"

lemma touches_cwd: "touches u K b fs fs' \<Longrightarrow> fs_cwd fs' = fs_cwd fs"
  by (simp add: touches_def)

lemma touches_named:
  "touches u (named_files fs t) b fs fs' \<Longrightarrow>
   p \<in> {output_file t, output_file t @ ''.part'', output_file t @ ''.ghd'', output_file t @ ''.torrent''} \<Longrightarrow>
   touches u (named_files fs t) b fs (snd (remove_if_exists fs' p))"
  by (rule touches_trans, assumption, rule touches_remove)
    (auto simp: named_files_def fs_key_def dest: touches_cwd)

lemma touches_below:
  "touches u K base fs fs' \<Longrightarrow> unicode_fold u \<Longrightarrow> drive_path base \<Longrightarrow> drive_path target \<Longrightarrow>
   touches u K base fs (snd (remove_task_owned_path u base target fs'))"
  by (rule touches_trans, assumption, rule touches_owned)

lemma output_file_drive: "drive_path (tsk_path t) \<Longrightarrow> drive_path (output_file t)"
  by (simp add: output_file_def Let_def fp_join_drive)

lemma cleanup_touches:
  assumes "unicode_fold u" and "drive_path (tsk_path t)"
  shows "touches u (named_files fs t) (tsk_path t) fs (snd (cleanup_files u t fs))"
proof -
  let ?T = "touches u (named_files fs t) (tsk_path t) fs"
  note out = output_file_drive[OF assms(2)]
  have below: "?T fs' \<Longrightarrow> drive_path x \<Longrightarrow> ?T (snd (remove_task_owned_path u (tsk_path t) x fs'))"
    for fs' x by (rule touches_below[OF _ assms])
  have join: "drive_path (fp_join (tsk_path t # es))" for es
    by (simp add: fp_join_drive assms(2))
  consider (bt) "tsk_pack_id t = ''bt''" | (dir) "tsk_pack_id t \<noteq> ''bt''" "is_ftp_directory t"
    | (plain) "tsk_pack_id t \<noteq> ''bt''" "\<not> is_ftp_directory t" by blast
  then show ?thesis
  proof cases
    case bt
    show ?thesis
      unfolding cleanup_files_def Let_def if_P[OF bt]
      by (intro touches_and_then below touches_named touches_refl out drive_path_append join)
        simp_all
  next
    case dir
    show ?thesis
    proof (cases "task_owned_path u (fs_cwd fs) (tsk_path t) (output_file t)")
      case (Inl e)
      with dir show ?thesis by (simp add: cleanup_files_def)
    next
      case (Inr x)
      have "drive_path x"
        using task_owned_below(2)[OF assms out Inr] fp_clean_drive(3)[OF out] by simp
      then have "?T (snd (and_then (remove_task_owned_path u (tsk_path t) x fs) (\<lambda>fs.
          remove_task_owned_path u (tsk_path t) (fp_join [tsk_path t, ''.gd3_ftp'', tsk_id t]) fs)))"
        by (intro touches_and_then below touches_refl join)
      with dir Inr show ?thesis
        by (auto simp: cleanup_files_def split: option.split)
    qed
  next
    case plain
    have rest: "?T (snd (and_then (remove_if_exists fs' (output_file t))
        (\<lambda>fs. remove_if_exists fs (output_file t @ ''.ghd''))))" if "?T fs'" for fs'
      using that by (intro touches_and_then touches_named) (auto intro: touches_named)
    show ?thesis
      unfolding cleanup_files_def Let_def if_not_P[OF plain(1)] if_not_P[OF plain(2)]
      by (intro touches_and_then rest) (auto intro: touches_named)
  qed
qed

text \<open>An FTP directory is only removed when it is absent or its marker names the task.\<close>

lemma verify_owner_None:
  assumes "verify_ftp_directory_owner u fs dir tid = None"
  shows "(\<exists>e. os_lstat fs dir = Inl e \<and> err_not_exist e) \<or>
    (os_lstat fs dir = Inr NDir \<and>
     (\<exists>c. os_lstat fs (fp_join [dir, ftp_directory_owner_marker]) = Inr (NFile c) \<and>
        trim_space c = tid))"
  using assms
  by (auto simp: verify_ftp_directory_owner_def os_read_file_def Let_def
      split: sum.splits if_splits node.splits)

lemma cleanup_ftp_directory_owner:
  assumes "is_ftp_directory t" and "snd (cleanup_files u t fs) \<noteq> fs"
  shows "\<exists>dir. task_owned_path u (fs_cwd fs) (tsk_path t) (output_file t) = Inr dir \<and>
    verify_ftp_directory_owner u fs dir (tsk_id t) = None"
  using assms
  by (auto simp: cleanup_files_def Let_def is_ftp_directory_def split: sum.splits option.splits)

section \<open>The output chosen for an FTP directory task\<close>

lemma use_alternate_simps [simp]:
  "tsk_id (use_alternate n t) = tsk_id t" "tsk_path (use_alternate n t) = tsk_path t"
  "tsk_pack_id (use_alternate n t) = tsk_pack_id t"
  "tsk_status (use_alternate n t) = StatusPaused"
  "tsk_uses_slot (use_alternate n t) = tsk_uses_slot t"
  "tsk_created_at (use_alternate n t) = tsk_created_at t"
  by (simp_all add: use_alternate_def)

lemma output_file_alternate:
  "is_ftp_directory t \<Longrightarrow> n \<noteq> [] \<Longrightarrow>
   output_file (use_alternate n t) = fp_join [tsk_path t, n] \<and> is_ftp_directory (use_alternate n t)"
  by (simp add: output_file_def Let_def is_ftp_directory_def use_alternate_def map_get_set
      ftp_directory_output_name_key_def)

definition output_available :: "unicode \<Rightarrow> fsys \<Rightarrow> task \<Rightarrow> string list \<Rightarrow> bool" where
  "output_available u fs t reserved \<longleftrightarrow>
     (case task_owned_path u (fs_cwd fs) (tsk_path t) (output_file t) of Inl _ \<Rightarrow> False
      | Inr out \<Rightarrow> \<not> output_path_reserved u (fs_cwd fs) out reserved \<and>
          verify_ftp_directory_owner u fs out (tsk_id t) = None)"

lemma verify_missing:
  "os_lstat fs p = Inl e \<Longrightarrow> err_not_exist e \<Longrightarrow> verify_ftp_directory_owner u fs p tid = None"
  by (simp add: verify_ftp_directory_owner_def)

lemma alternate_available:
  assumes "is_ftp_directory t" and "alternate_output u fs t reserved = Inr t'"
  shows "output_available u fs t' reserved \<and> is_ftp_directory t' \<and> tsk_id t' = tsk_id t"
  using assms output_file_alternate[OF assms(1), of "''ftp-'' @ tsk_id t"]
  by (auto simp: alternate_output_def Let_def output_available_def verify_missing
      split: sum.splits if_splits option.splits)

lemma prepare_available:
  assumes "is_ftp_directory t" and "prepare_ftp_directory_output u fs t reserved = Inr t'"
  shows "output_available u fs t' reserved \<and> is_ftp_directory t' \<and> tsk_id t' = tsk_id t"
proof (cases "alternate_output u fs t reserved = Inr t'")
  case True
  with assms(1) show ?thesis by (rule alternate_available)
next
  case False
  with assms show ?thesis
    by (auto simp: prepare_ftp_directory_output_def Let_def output_available_def verify_missing
        split: sum.splits if_splits)
qed

lemma prepare_of_available:
  assumes "output_available u fs t reserved"
  shows "prepare_ftp_directory_output u fs t reserved = Inr t"
  using assms
  by (auto simp: prepare_ftp_directory_output_def output_available_def Let_def
      verify_ftp_directory_owner_def split: sum.splits if_splits)

text \<open>The only fields the choice of an output can change, and the statuses it can leave.\<close>

lemma prepare_keeps:
  assumes "prepare_ftp_directory_output u fs t reserved = Inr t'"
  shows "tsk_id t' = tsk_id t \<and> tsk_uses_slot t' = tsk_uses_slot t \<and>
    tsk_pack_id t' = tsk_pack_id t \<and> tsk_created_at t' = tsk_created_at t \<and>
    tsk_status t' \<in> {tsk_status t, StatusPaused}"
  using assms
  by (auto simp: prepare_ftp_directory_output_def alternate_output_def Let_def
      split: sum.splits if_splits option.splits)

end
