(* ===== verification/SchedulerKeep.thy ===== *)
theory SchedulerKeep
  imports SchedulerInv TaskFilesProps
begin

text \<open>
  Every operation of the scheduler keeps the invariant: the enforcement of a lowered bound, adding,
  loading, removing, pausing, redownload, editing, stopping and the sections of a run.
\<close>

section \<open>Enforcing the bound\<close>

lemma enforce_loop_fields [simp]:
  "sch_order (enforce_loop ids k s) = sch_order s"
  "sch_max_running (enforce_loop ids k s) = sch_max_running s"
  "sch_stopping (enforce_loop ids k s) = sch_stopping s"
  "length (sch_runs (enforce_loop ids k s)) = length (sch_runs s)"
  by (induction ids k s rule: enforce_loop.induct) (simp_all split: option.split)

lemma enforce_loop_core: "core_inv s \<Longrightarrow> core_inv (enforce_loop ids k s)"
proof (induction ids k s rule: enforce_loop.induct)
  case (2 tid ids kept s)
  have "core_inv (put_task tid (pause_task t) s)" if "task_at s tid = Some t" for t
    using "2.prems" that core_inv_id[OF "2.prems" that] by (intro put_task_core) simp_all
  with 2 show ?case by (simp split: option.split)
qed simp

lemma enforce_loop_active:
  "core_inv s \<Longrightarrow> 0 \<le> kept \<Longrightarrow> kept \<le> sch_max_running s \<Longrightarrow>
   \<exists>K. finite K \<and> int (card K) \<le> sch_max_running s - kept \<and>
     active_slots (enforce_loop ids kept s) \<subseteq> (active_slots s - set ids) \<union> K"
proof (induction ids kept s rule: enforce_loop.induct)
  case (1 kept s)
  then show ?case by (intro exI[of _ "{}"]) simp
next
  case (2 tid ids kept s)
  note inv = "2.prems"(1)
  have skip: "\<exists>K. finite K \<and> int (card K) \<le> sch_max_running s - kept \<and>
      active_slots (enforce_loop ids kept s) \<subseteq> (active_slots s - set (tid # ids)) \<union> K"
    if "tid \<notin> active_slots s" "\<exists>K. finite K \<and> int (card K) \<le> sch_max_running s - kept \<and>
      active_slots (enforce_loop ids kept s) \<subseteq> (active_slots s - set ids) \<union> K"
  proof -
    from that(1) have "active_slots s - set (tid # ids) = active_slots s - set ids" by auto
    with that(2) show ?thesis by metis
  qed
  show ?case
  proof (cases "running_at s tid")
    case None
    then have "tid \<notin> active_slots s"
      using core_inv_active[OF inv] by (fastforce simp: active_slots_def)
    with None 2 skip show ?thesis by simp
  next
    case n: (Some n)
    show ?thesis
    proof (cases "task_at s tid")
      case None
      then have "tid \<notin> active_slots s" by (simp add: active_slots_def)
      with n None 2 skip show ?thesis by simp
    next
      case t: (Some t)
      consider (noslot) "\<not> tsk_uses_slot t" | (keep) "tsk_uses_slot t" "kept < sch_max_running s"
        | (pause) "tsk_uses_slot t" "\<not> kept < sch_max_running s" by blast
      then show ?thesis
      proof cases
        case noslot
        then have "tid \<notin> active_slots s" using t by (simp add: active_slots_def)
        with n t noslot 2 skip show ?thesis by simp
      next
        case keep
        then obtain K where K: "finite K" "int (card K) \<le> sch_max_running s - (kept + 1)"
          "active_slots (enforce_loop ids (kept + 1) s) \<subseteq> (active_slots s - set ids) \<union> K"
          using "2.IH"(4)[OF n t] "2.prems" by auto
        then have "int (card (insert tid K)) \<le> sch_max_running s - kept"
          by (simp add: card_insert_if)
        with K n t keep show ?thesis by (intro exI[of _ "insert tid K"]) auto
      next
        case pause
        let ?s = "cancel_run n (put_task tid (pause_task t) s)"
        have "core_inv ?s"
          using put_task_core[OF inv, of tid "pause_task t"] t core_inv_id[OF inv t] by simp
        moreover have "active_slots ?s = active_slots s - {tid}"
          by (simp add: active_put_inactive)
        moreover obtain K where "finite K" "int (card K) \<le> sch_max_running s - kept"
          "active_slots (enforce_loop ids kept ?s) \<subseteq> (active_slots ?s - set ids) \<union> K"
          using "2.IH"(5)[OF n t] pause calculation(1) "2.prems"(2,3) by auto
        ultimately show ?thesis
          using n t pause by (intro exI[of _ K]) auto
      qed
    qed
  qed
qed

lemma enforce_max_running_inv [inv_intros]:
  assumes "core_inv s"
  shows "sched_inv (enforce_max_running_locked s)"
proof (cases "running_slot_count s \<le> sch_max_running s")
  case True
  with active_le_running[OF assms] assms show ?thesis
    by (simp add: enforce_max_running_locked_def sched_inv_def slots_ok_def)
next
  case False
  have "1 \<le> sch_max_running s" using core_invD(5)[OF assms] .
  then obtain K where K: "finite K" "int (card K) \<le> sch_max_running s"
    "active_slots (enforce_loop (sch_order s) 0 s) \<subseteq> (active_slots s - set (sch_order s)) \<union> K"
    using enforce_loop_active[OF assms, of 0 "sch_order s"] by auto
  have "active_slots s \<subseteq> set (sch_order s)"
    using core_invD(4)[OF assms] by (auto simp: active_slots_def)
  with K have "active_slots (enforce_loop (sch_order s) 0 s) \<subseteq> K" by blast
  with K have "int (card (active_slots (enforce_loop (sch_order s) 0 s))) \<le> sch_max_running s"
    using card_mono[OF K(1)] by (meson of_nat_le_iff order_trans)
  then show ?thesis
    using False assms by (simp add: enforce_max_running_locked_def sched_inv_def slots_ok_def
        enforce_loop_core)
qed

lemma set_max_running_inv [inv_intros]:
  assumes "core_inv s"
  shows "sched_inv (set_max_running m s)"
proof -
  have "core_inv (s\<lparr>sch_max_running := if m \<le> 0 then 1 else m\<rparr>)"
    using assms by (rule core_inv_cong) (use core_invD[OF assms] in simp_all)
  then show ?thesis
    unfolding set_max_running_def by (intro inv_intros)
qed

section \<open>Adding and loading\<close>

definition fresh_id :: "sched \<Rightarrow> string \<Rightarrow> bool" where
  "fresh_id s tid \<longleftrightarrow> task_at s tid = None \<and> running_at s tid = None"

lemma insert_task_fields [simp]:
  "task_at (insert_task t s) = (task_at s)(tsk_id t \<mapsto> t)"
  "running_at (insert_task t s) = running_at s" "sch_runs (insert_task t s) = sch_runs s"
  "sch_order (insert_task t s) = sch_order s @ [tsk_id t]"
  "sch_max_running (insert_task t s) = sch_max_running s"
  "sch_stopping (insert_task t s) = sch_stopping s"
  by (simp_all add: insert_task_def task_at_def running_at_def put_task_def fun_eq_iff)

lemma insert_task_inv:
  assumes "sched_inv s" and "fresh_id s (tsk_id t)" and "\<not> is_active t"
  shows "sched_inv (insert_task t s)"
proof -
  have inv: "core_inv s" and sl: "slots_ok s" using assms(1) by (simp_all add: sched_inv_def)
  have fr: "task_at s (tsk_id t) = None" "running_at s (tsk_id t) = None"
    using assms(2) by (simp_all add: fresh_id_def)
  have "core_inv (insert_task t s)"
  proof (rule core_invI)
    show "distinct (map fst (sch_tasks (insert_task t s)))"
      using core_invD(1)[OF inv] by (simp add: insert_task_def distinct_keys_put)
    show "distinct (sch_order (insert_task t s))"
      using core_invD(3,4)[OF inv] fr(1) by (auto simp: dom_def)
    show "set (sch_order (insert_task t s)) = dom (task_at (insert_task t s))"
      using core_invD(4)[OF inv] by auto
    show "running_at (insert_task t s) k \<noteq> None"
      if "task_at (insert_task t s) k = Some t'" "is_active t'" for k t'
      using that assms(3) core_inv_active[OF inv, of k t'] by (auto split: if_splits)
    show "n < length (sch_runs (insert_task t s)) \<and> run_task_id (sch_runs (insert_task t s) ! n) = k \<and>
        (task_at (insert_task t s) k \<noteq> None \<longrightarrow> run_phase (sch_runs (insert_task t s) ! n) \<noteq> Finished)"
      if "running_at (insert_task t s) k = Some n" for k n
      using that fr core_inv_run[OF inv, of k n] by (cases "k = tsk_id t") simp_all
    show "tsk_id t' = k" if "task_at (insert_task t s) k = Some t'" for k t'
      using that core_inv_id[OF inv, of k t'] by (auto split: if_splits)
    show "length (sch_events (insert_task t s)) \<le> events_cap"
      using core_invD(6)[OF inv] by (simp add: insert_task_def)
    show "distinct (map fst (sch_running (insert_task t s)))"
      using core_invD(2)[OF inv] by (simp add: insert_task_def)
  qed (use core_invD(5)[OF inv] core_inv_live[OF inv] in simp_all)
  moreover have "active_slots (insert_task t s) \<subseteq> active_slots s"
    using assms(3) by (auto simp: active_slots_def split: if_splits)
  ultimately show ?thesis using sl by (auto simp: sched_inv_def intro: slots_ok_mono)
qed

lemma prepare_inactive:
  "prepare_ftp_directory_output u fs t reserved = Inr p \<Longrightarrow> \<not> is_active t \<Longrightarrow> \<not> is_active p"
  using prepare_keeps[of u fs t reserved p] by (auto simp: is_active_def)

lemma prepare_added_props:
  assumes "prepare_added u fs s t = (err, t')" and "\<not> is_active t"
  shows "tsk_id t' = tsk_id t" "\<not> is_active t'"
  using assms prepare_keeps[of u fs "clone_task t"] prepare_inactive[of u fs "clone_task t"]
  by (auto simp: prepare_added_def fail_task_def is_active_def split: sum.splits if_splits)

lemma add_inv [inv_intros]:
  assumes "sched_inv s" and "fresh_id s (tsk_id t)" and "\<not> is_active t"
  shows "sched_inv (add u fs t s)"
proof -
  obtain err t' where p: "prepare_added u fs s t = (err, t')" by fastforce
  have "sched_inv (insert_task t' s)"
    using assms prepare_added_props[OF p assms(3)] by (intro insert_task_inv) simp_all
  then show ?thesis
    by (auto simp: add_def p Let_def intro!: inv_intros)
qed

lemma set_load_failed_inv [simp]: "sched_inv (s\<lparr>sch_load_failed := b\<rparr>) = sched_inv s"
proof -
  have a: "active_slots (s\<lparr>sch_load_failed := b\<rparr>) = active_slots s"
    by (simp add: active_slots_def table_defs)
  have "core_inv (s\<lparr>sch_load_failed := b\<rparr>)" if "core_inv s"
    using that by (rule core_inv_cong) (use core_invD[OF that] in simp_all)
  moreover have "core_inv s" if c: "core_inv (s\<lparr>sch_load_failed := b\<rparr>)"
    using c by (rule core_inv_cong) (use core_invD[OF c] in simp_all)
  ultimately show ?thesis by (auto simp: sched_inv_def slots_ok_def a)
qed

lemma load_loop_inv:
  "sched_inv s \<Longrightarrow> distinct (map tsk_id ts) \<Longrightarrow> (\<And>t. t \<in> set ts \<Longrightarrow> fresh_id s (tsk_id t)) \<Longrightarrow>
   load_loop u fs ts m s = (err, m', s') \<Longrightarrow> sched_inv s'"
proof (induction ts arbitrary: m s)
  case Nil
  then show ?case by simp
next
  case (Cons t ts)
  show ?case
  proof (cases "prepare_ftp_directory_output u fs (clone_task t) (reserved_outputs_locked s)")
    case (Inl e)
    with Cons.prems have "s' = s\<lparr>sch_load_failed := True\<rparr>" by simp
    with Cons.prems(1) show ?thesis by simp
  next
    case (Inr p)
    let ?p = "if is_active p then pause_task p else p"
    have id: "tsk_id ?p = tsk_id t" using prepare_keeps[OF Inr] by simp
    have "\<not> is_active ?p" by simp
    then have inv: "sched_inv (insert_task ?p s)"
      using Cons.prems(1,3) id by (intro insert_task_inv) simp_all
    have "fresh_id (insert_task ?p s) (tsk_id x)" if "x \<in> set ts" for x
    proof -
      from that have "tsk_id x \<in> tsk_id ` set ts" by simp
      moreover have "tsk_id t \<notin> tsk_id ` set ts" using Cons.prems(2) by simp
      ultimately have "tsk_id x \<noteq> tsk_id t" by metis
      with Cons.prems(3)[of x] that id show ?thesis by (simp add: fresh_id_def)
    qed
    with Cons.IH[OF inv] Cons.prems Inr show ?thesis by simp
  qed
qed

lemma load_inv:
  assumes "sched_inv s"
    and "\<And>ts. stored = Inr ts \<Longrightarrow> distinct (map tsk_id ts) \<and> (\<forall>t\<in>set ts. fresh_id s (tsk_id t))"
  shows "sched_inv (snd (load u fs stored s))"
proof (cases stored)
  case (Inl e)
  with assms(1) show ?thesis by (simp add: load_def)
next
  case (Inr ts)
  obtain err m s' where l: "load_loop u fs ts False (s\<lparr>sch_load_failed := False\<rparr>) = (err, m, s')"
    by (metis prod_cases3)
  have "sched_inv s'"
    using assms Inr by (intro load_loop_inv[OF _ _ _ l]) (simp_all add: fresh_id_def table_defs)
  moreover from this have "sched_inv (schedule_save_locked s')"
    by (simp add: sched_inv_def core_inv_def slots_ok_def active_slots_def)
  ultimately show ?thesis
    using assms(1) Inr l by (auto simp: load_def sched_inv_def split: option.split)
qed

lemma new_scheduler_inv: "sched_inv (new_scheduler reg store m)"
  by (simp add: sched_inv_def core_inv_def slots_ok_def active_slots_def table_defs
      new_scheduler_def)

end
