(* ===== verification/SchedulerKeep2.thy ===== *)
theory SchedulerKeep2
  imports SchedulerKeep
begin

text \<open>
  The invariant, continued: removing, pausing, redownload, editing, stopping, and the sections of
  a run's goroutine.
\<close>

lemma put_inactive_inv [inv_intros]:
  assumes "sched_inv s" and "task_at s tid \<noteq> None" and "tsk_id t = tid" and "\<not> is_active t"
  shows "sched_inv (put_task tid t s)"
  using assms by (auto simp: sched_inv_def intro!: put_task_core put_task_slots)

lemma cancel_run_sched_inv [simp]: "sched_inv (cancel_run n s) = sched_inv s"
  by (simp add: sched_inv_def)

lemma sched_inv_id: "sched_inv s \<Longrightarrow> task_at s tid = Some t \<Longrightarrow> tsk_id t = tid"
  unfolding sched_inv_def using core_inv_id by blast

lemma map_tasks_inv [inv_intros]:
  assumes "sched_inv s" and "\<And>k t. tsk_id (f k t) = tsk_id t"
    and "\<And>k t. is_active (f k t) \<Longrightarrow> is_active t"
    and "\<And>k t. tsk_uses_slot (f k t) = tsk_uses_slot t"
  shows "sched_inv (map_tasks f s)"
  using assms by (simp add: sched_inv_def map_tasks_core map_tasks_slots)

text \<open>A change of the fields the invariant does not read.\<close>

lemma sched_inv_cong:
  assumes "sched_inv s" "sch_tasks s' = sch_tasks s" "sch_running s' = sch_running s"
    "sch_order s' = sch_order s" "sch_runs s' = sch_runs s"
    "sch_max_running s' = sch_max_running s" "length (sch_events s') \<le> length (sch_events s)"
  shows "sched_inv s'"
proof -
  have inv: "core_inv s" using assms(1) by (simp add: sched_inv_def)
  have "core_inv s'"
    using inv assms(2-5) by (rule core_inv_cong) (use core_invD(5,6)[OF inv] assms in simp_all)
  moreover have "active_slots s' = active_slots s"
    using assms(2) by (simp add: active_slots_def table_defs)
  ultimately show ?thesis using assms by (simp add: sched_inv_def slots_ok_def)
qed

text \<open>What \<open>Remove\<close> leaves to schedule keeps the invariant.\<close>

lemma remove_task_split:
  assumes "sched_inv s" and Some: "task_at s tid = Some t"
  shows "\<exists>s2. sched_inv s2 \<and> remove_task tid s = (None, save_and_emit (schedule_waiting_locked s2))"
proof -
  define s1 where "s1 = (case running_at s tid of None \<Rightarrow> s | Some n \<Rightarrow> cancel_run n s)"
  define s2 where "s2 = s1\<lparr>sch_tasks := AList.delete tid (sch_tasks s1),
    sch_order := remove1 tid (sch_order s1)\<rparr>"
  have "sched_inv s1" using assms by (simp add: s1_def split: option.split)
  then have inv: "core_inv s1" and sl: "slots_ok s1" by (simp_all add: sched_inv_def)
  have t2: "task_at s2 = (task_at s1)(tid := None)" "running_at s2 = running_at s1"
    by (simp_all add: s2_def table_defs)
  have r2: "sch_runs s2 = sch_runs s1" by (simp add: s2_def)
  have "core_inv s2"
  proof (rule core_invI)
    show "distinct (map fst (sch_tasks s2))"
      using core_invD(1)[OF inv] by (simp add: s2_def distinct_delete)
    show "set (sch_order s2) = dom (task_at s2)"
      unfolding t2 using core_invD(3,4)[OF inv] by (auto simp: s2_def)
    show "tsk_id t' = k" if "task_at s2 k = Some t'" for k t'
      using that core_inv_id[OF inv] by (auto simp: t2 split: if_splits)
    show "n < length (sch_runs s2) \<and> run_task_id (sch_runs s2 ! n) = k \<and>
        (task_at s2 k \<noteq> None \<longrightarrow> run_phase (sch_runs s2 ! n) \<noteq> Finished)"
      if "running_at s2 k = Some n" for k n
      using that core_inv_run[OF inv, of k n] by (simp add: t2 r2)
    show "running_at s2 (run_task_id (sch_runs s2 ! n)) = Some n"
      if "n < length (sch_runs s2)" "run_phase (sch_runs s2 ! n) \<noteq> Finished" for n
      using that core_inv_live[OF inv, of n] by (simp add: t2 r2)
    show "running_at s2 k \<noteq> None" if "task_at s2 k = Some t'" "is_active t'" for k t'
      using that core_inv_active[OF inv, of k t'] by (auto simp: t2 split: if_splits)
  qed (use core_invD[OF inv] in \<open>simp_all add: s2_def\<close>)
  moreover have "active_slots s2 \<subseteq> active_slots s1"
    by (auto simp: active_slots_def t2 split: if_splits)
  then have "slots_ok s2" using sl by (auto intro: slots_ok_mono simp: s2_def)
  ultimately have "sched_inv s2" by (simp add: sched_inv_def)
  then show ?thesis
    using Some by (auto simp: remove_task_def Let_def s1_def s2_def)
qed

lemma remove_task_inv [inv_intros]:
  assumes "sched_inv s"
  shows "sched_inv (snd (remove_task tid s))"
proof (cases "task_at s tid")
  case None
  with assms show ?thesis by (simp add: remove_task_def)
next
  case (Some t)
  from remove_task_split[OF assms Some] show ?thesis by (auto intro!: inv_intros)
qed

lemma toggle_pause_inv [inv_intros]:
  assumes "sched_inv s"
  shows "sched_inv (snd (toggle_pause tid s))"
  using assms sched_inv_id[OF assms]
  by (auto simp: toggle_pause_def intro!: inv_intros split: option.split)

lemma start_all_inv [inv_intros]: "sched_inv s \<Longrightarrow> sched_inv (start_all s)"
  unfolding start_all_def by (intro inv_intros) (auto split: if_splits)

lemma cancel_all_fields [simp]:
  "sch_tasks (cancel_all s) = sch_tasks s" "task_at (cancel_all s) = task_at s"
  "running_at (cancel_all s) = running_at s" "sched_inv (cancel_all s) = sched_inv s"
  "sch_stopping (cancel_all s) = sch_stopping s"
proof -
  have *: "sch_tasks (fold (\<lambda>(_, n). cancel_run n) xs s) = sch_tasks s \<and>
      running_at (fold (\<lambda>(_, n). cancel_run n) xs s) = running_at s \<and>
      task_at (fold (\<lambda>(_, n). cancel_run n) xs s) = task_at s \<and>
      sch_stopping (fold (\<lambda>(_, n). cancel_run n) xs s) = sch_stopping s \<and>
      sched_inv (fold (\<lambda>(_, n). cancel_run n) xs s) = sched_inv s" for xs :: "(string \<times> nat) list"
    by (induction xs arbitrary: s) (auto simp: split_beta)
  show "sch_tasks (cancel_all s) = sch_tasks s" "task_at (cancel_all s) = task_at s"
    "running_at (cancel_all s) = running_at s" "sched_inv (cancel_all s) = sched_inv s"
    "sch_stopping (cancel_all s) = sch_stopping s"
    using * by (simp_all add: cancel_all_def)
qed

lemma pause_all_inv [inv_intros]:
  assumes "sched_inv s"
  shows "sched_inv (pause_all s)"
proof -
  have "sched_inv (s\<lparr>sch_pause_epoch := sch_pause_epoch s + 1\<rparr>)"
    using assms by (rule sched_inv_cong) simp_all
  then have "sched_inv (map_tasks (\<lambda>tid t. if running_at s tid \<noteq> None then pause_task t else t)
      (s\<lparr>sch_pause_epoch := sch_pause_epoch s + 1\<rparr>))"
    by (intro inv_intros) (auto split: if_splits)
  then show ?thesis
    unfolding pause_all_def Let_def by (intro inv_intros) (auto split: if_splits)
qed

section \<open>Redownload and edit\<close>

lemma redownload_stop_inv:
  "sched_inv s \<Longrightarrow> redownload_stop tid s = Inr (w, s') \<Longrightarrow> sched_inv s'"
  using sched_inv_id[of s tid]
  by (auto simp: redownload_stop_def intro!: inv_intros split: option.splits)

lemma redownload_commit_inv [inv_intros]:
  assumes "sched_inv s"
  shows "sched_inv (snd (redownload_commit tid c s))"
proof (cases "task_at s tid")
  case (Some t)
  have "\<not> is_active (reset_progress c t)" "tsk_id (reset_progress c t) = tid"
    using sched_inv_id[OF assms Some] by (simp_all add: reset_progress_def is_active_def)
  with assms Some show ?thesis
    by (auto simp: redownload_commit_def intro!: inv_intros)
qed (use assms in \<open>simp add: redownload_commit_def\<close>)

lemma emit_sched_inv [inv_intros]: "sched_inv s \<Longrightarrow> sched_inv (emit_locked s)"
  by (simp add: sched_inv_def)

lemma edit_begin_inv:
  "sched_inv s \<Longrightarrow> edit_begin tid s = Inr (w, s') \<Longrightarrow> sched_inv s'"
  using sched_inv_id[of s tid]
  by (auto simp: edit_begin_def Let_def intro!: inv_intros split: option.splits)

lemma edited_task_simps [simp]:
  "tsk_id (edited_task r orig e) = tsk_id orig" "\<not> is_active (edited_task r orig e)"
  "tsk_pack_id (edited_task r orig e) = tsk_pack_id orig"
  "tsk_created_at (edited_task r orig e) = tsk_created_at orig"
  "tsk_speed (edited_task r orig e) = 0" "tsk_error (edited_task r orig e) = []"
  "tsk_status (edited_task r orig e) = (if r then StatusWaiting else StatusPaused)"
  by (simp_all add: edited_task_def set_status_def is_active_def)

lemma edit_commit_inv [inv_intros]:
  assumes "sched_inv s"
  shows "sched_inv (snd (edit_commit tid resume original epoch outcome s))"
proof (cases "task_at s tid")
  case (Some t)
  have id: "tsk_id t = tid" using sched_inv_id[OF assms Some] .
  have "sched_inv (put_task tid (edited_task resume t e) s)" for e
    using assms Some id by (intro inv_intros) simp_all
  moreover have "sched_inv (put_task tid (set_status StatusWaiting t) s)"
    using assms Some id by (intro inv_intros) simp_all
  ultimately show ?thesis
    using assms Some id by (auto simp: edit_commit_def Let_def intro!: inv_intros split: sum.split)
qed (use assms in \<open>simp add: edit_commit_def\<close>)

section \<open>Stopping, saving, receiving\<close>

lemma stop_begin_inv [inv_intros]:
  assumes "sched_inv s"
  shows "sched_inv (snd (stop_begin s))"
proof -
  have "sched_inv (s\<lparr>sch_stopping := True\<rparr>)"
    using assms by (rule sched_inv_cong) simp_all
  then have "sched_inv (map_tasks (\<lambda>_ t. if is_active t \<or> tsk_status t = StatusWaiting
      then pause_task t else t) (cancel_all (s\<lparr>sch_stopping := True\<rparr>)))"
    by (intro inv_intros) (auto split: if_splits)
  then have "sched_inv ((map_tasks (\<lambda>_ t. if is_active t \<or> tsk_status t = StatusWaiting
      then pause_task t else t) (cancel_all (s\<lparr>sch_stopping := True\<rparr>)))\<lparr>sch_save_armed := False\<rparr>)"
    by (rule sched_inv_cong) simp_all
  then show ?thesis by (simp add: stop_begin_def)
qed

lemma save_locked_fields [simp]:
  "sch_tasks (save_locked ok s) = sch_tasks s" "sch_running (save_locked ok s) = sch_running s"
  "sch_order (save_locked ok s) = sch_order s" "sch_runs (save_locked ok s) = sch_runs s"
  "sch_max_running (save_locked ok s) = sch_max_running s"
  "sch_events (save_locked ok s) = sch_events s" "sch_stopping (save_locked ok s) = sch_stopping s"
  by (simp_all add: save_locked_def)

lemma stop_finish_inv [inv_intros]: "sched_inv s \<Longrightarrow> sched_inv (stop_finish ok s)"
  by (rule sched_inv_cong[of s]) (simp_all add: stop_finish_def)

lemma save_timer_inv [inv_intros]: "sched_inv s \<Longrightarrow> sched_inv (save_timer_fired ok s)"
  by (rule sched_inv_cong[of s]) (simp_all add: save_timer_fired_def Let_def)

lemma receive_event_inv [inv_intros]: "sched_inv s \<Longrightarrow> sched_inv (snd (receive_event s))"
  by (rule sched_inv_cong[of s]) (simp_all add: receive_event_def split: list.split)

section \<open>A run's sections\<close>

lemma set_phase_fields [simp]:
  "sch_tasks (set_phase n p s) = sch_tasks s" "sch_running (set_phase n p s) = sch_running s"
  "task_at (set_phase n p s) = task_at s" "running_at (set_phase n p s) = running_at s"
  "sch_order (set_phase n p s) = sch_order s" "sch_events (set_phase n p s) = sch_events s"
  "sch_max_running (set_phase n p s) = sch_max_running s"
  "sch_stopping (set_phase n p s) = sch_stopping s"
  "length (sch_runs (set_phase n p s)) = length (sch_runs s)"
  by (simp_all add: set_phase_def table_defs)

lemma set_phase_runs [simp]:
  "run_task_id (sch_runs (set_phase n p s) ! m) = run_task_id (sch_runs s ! m)"
  "n < length (sch_runs s) \<Longrightarrow>
   run_phase (sch_runs (set_phase n p s) ! m) = (if m = n then p else run_phase (sch_runs s ! m))"
  by (cases "m = n"; cases "n < length (sch_runs s)"; simp add: set_phase_def list_update_beyond)+

lemma run_begin_inv [inv_intros]:
  assumes "sched_inv s" and "n < length (sch_runs s)" and "run_phase (sch_runs s ! n) = Spawned"
  shows "sched_inv (run_begin n s)"
proof -
  let ?id = "run_task_id (sch_runs s ! n)"
  have inv: "core_inv s" and sl: "slots_ok s" using assms(1) by (simp_all add: sched_inv_def)
  have core: "core_inv (set_phase n p s)" if p: "p = Finished \<longleftrightarrow> task_at s ?id = None" for p
  proof (rule core_invI)
    show "m < length (sch_runs (set_phase n p s)) \<and>
        run_task_id (sch_runs (set_phase n p s) ! m) = k \<and>
        (task_at (set_phase n p s) k \<noteq> None \<longrightarrow> run_phase (sch_runs (set_phase n p s) ! m) \<noteq> Finished)"
      if "running_at (set_phase n p s) k = Some m" for k m
      using that core_inv_run[OF inv, of k m] assms(2) p by auto
    show "running_at (set_phase n p s) (run_task_id (sch_runs (set_phase n p s) ! m)) = Some m"
      if "m < length (sch_runs (set_phase n p s))" "run_phase (sch_runs (set_phase n p s) ! m) \<noteq> Finished"
      for m
      using that core_inv_live[OF inv, of m] assms(2,3) by (cases "m = n") simp_all
  qed (use core_invD[OF inv] core_inv_id[OF inv] core_inv_active[OF inv] in auto)
  have slots: "slots_ok (set_phase n p s)" for p
    using sl by (simp add: slots_ok_def active_slots_def)
  show ?thesis
    using core slots by (auto simp: run_begin_def sched_inv_def split: option.split)
qed

lemma report_task_simps [simp]:
  "tsk_id (report_task upd t) = tsk_id t"
  "is_active (report_task upd t) \<Longrightarrow> is_active t"
  by (auto simp: report_task_def Let_def is_active_def split: option.splits if_splits)

lemma report_inv [inv_intros]:
  assumes "sched_inv s"
  shows "sched_inv (report tid upd s)"
proof (cases "task_at s tid")
  case None
  with assms show ?thesis by (simp add: report_def)
next
  case (Some t)
  let ?t = "report_task upd t"
  have inv: "core_inv s" and sl: "slots_ok s" using assms by (simp_all add: sched_inv_def)
  have core: "core_inv (put_task tid ?t s)"
    using inv Some core_inv_id[OF inv Some] core_inv_active[OF inv Some] by (intro put_task_core) auto
  have slots: "slots_ok (put_task tid ?t s)" if "tsk_uses_slot t \<or> \<not> tsk_uses_slot ?t"
    using sl Some that by (intro put_task_slots) (auto simp: active_slots_def)
  have "sched_inv (put_task tid ?t s)" if "tsk_uses_slot t \<or> \<not> tsk_uses_slot ?t"
    using core slots[OF that] by (simp add: sched_inv_def)
  then show ?thesis
    using Some enforce_max_running_inv[OF core]
    by (auto simp: report_def Let_def intro!: save_and_emit_sched_inv schedule_waiting_inv)
qed

lemma finish_task_simps [simp]:
  "tsk_id (finish_task err t) = tsk_id t" "\<not> is_active (finish_task err t)"
  "tsk_uses_slot (finish_task err t) = tsk_uses_slot t"
  by (auto simp: finish_task_def fail_task_def Let_def is_active_def set_status_def clear_speed_def
      split: option.split)

lemma task_at_running [simp]: "task_at (s\<lparr>sch_running := x\<rparr>) = task_at s"
  by (simp add: table_defs)

lemma run_end_split:
  assumes "sched_inv s" and "n < length (sch_runs s)" and "run_phase (sch_runs s ! n) \<noteq> Finished"
  shows "\<exists>s2. sched_inv s2 \<and> run_end n err s =
    (if task_at s (run_task_id (sch_runs s ! n)) = None then s2
     else save_and_emit (schedule_waiting_locked s2))"
proof -
  define tid where "tid = run_task_id (sch_runs s ! n)"
  define s1 where "s1 = set_phase n Finished (s\<lparr>sch_running := AList.delete tid (sch_running s)\<rparr>)"
  have inv: "core_inv s" and sl: "slots_ok s" using assms(1) by (simp_all add: sched_inv_def)
  have len: "n < length (sch_runs (s\<lparr>sch_running := AList.delete tid (sch_running s)\<rparr>))"
    using assms(2) by simp
  have tabs: "task_at s1 = task_at s" "running_at s1 = (running_at s)(tid := None)"
    by (simp_all add: s1_def) (simp_all add: table_defs)
  have live: "m = n" if "m < length (sch_runs s)" "run_phase (sch_runs s ! m) \<noteq> Finished"
    "run_task_id (sch_runs s ! m) = tid" for m
  proof -
    have "running_at s tid = Some m" using core_inv_live[OF inv that(1,2)] unfolding that(3) .
    moreover have "running_at s tid = Some n"
      using core_inv_live[OF inv assms(2,3)] unfolding tid_def .
    ultimately show ?thesis by simp
  qed
  have core: "core_inv s2" if s2: "sch_tasks s2 = sch_tasks s' " "task_at s' = (task_at s)(tid := x)"
      "distinct (map fst (sch_tasks s'))" "task_at s tid = None \<longleftrightarrow> x = None"
      "\<forall>t. x = Some t \<longrightarrow> tsk_id t = tid \<and> \<not> is_active t"
      "sch_running s2 = sch_running s1" "sch_order s2 = sch_order s1" "sch_runs s2 = sch_runs s1"
      "sch_max_running s2 = sch_max_running s" "sch_events s2 = sch_events s" for s2 s' x
  proof (rule core_invI)
    have t2: "task_at s2 = (task_at s)(tid := x)" "running_at s2 = (running_at s)(tid := None)"
      using s2 tabs by (simp_all add: table_defs)
    show "distinct (map fst (sch_running s2))"
      using s2(6) core_invD(2)[OF inv] by (simp add: s1_def distinct_delete)
    show "set (sch_order s2) = dom (task_at s2)"
      using s2(4,7) core_invD(4)[OF inv] by (auto simp: t2 s1_def)
    show "tsk_id t = k" if "task_at s2 k = Some t" for k t
      using that s2(5) core_inv_id[OF inv] by (auto simp: t2 split: if_splits)
    show "m < length (sch_runs s2) \<and> run_task_id (sch_runs s2 ! m) = k \<and>
        (task_at s2 k \<noteq> None \<longrightarrow> run_phase (sch_runs s2 ! m) \<noteq> Finished)"
      if "running_at s2 k = Some m" for k m
    proof -
      from that have k: "k \<noteq> tid" "running_at s k = Some m" by (auto simp: t2 split: if_splits)
      have "m \<noteq> n" using core_inv_run(2)[OF inv k(2)] k(1) by (auto simp: tid_def)
      with k show ?thesis
        using core_inv_run[OF inv k(2)] s2(8) len by (simp add: s1_def t2)
    qed
    show "running_at s2 (run_task_id (sch_runs s2 ! m)) = Some m"
      if "m < length (sch_runs s2)" "run_phase (sch_runs s2 ! m) \<noteq> Finished" for m
    proof -
      from that have m: "m \<noteq> n" "m < length (sch_runs s)" "run_phase (sch_runs s ! m) \<noteq> Finished"
        using s2(8) len by (auto simp: s1_def split: if_splits)
      with live have "run_task_id (sch_runs s ! m) \<noteq> tid" by blast
      with m show ?thesis
        using core_inv_live[OF inv m(2,3)] s2(8) by (simp add: t2 s1_def)
    qed
    show "running_at s2 k \<noteq> None" if "task_at s2 k = Some t" "is_active t" for k t
      using that s2(5) core_inv_active[OF inv, of k t] by (auto simp: t2 split: if_splits)
  qed (use core_invD[OF inv] s2 in \<open>simp_all add: s1_def\<close>)
  show ?thesis
  proof (cases "task_at s tid")
    case None
    have "core_inv s1"
      by (rule core[of s1 s1 None]) (use None tabs core_invD(1)[OF inv] in \<open>auto simp: s1_def\<close>)
    moreover have "slots_ok s1" using sl by (simp add: slots_ok_def active_slots_def tabs) (simp add: s1_def)
    ultimately show ?thesis
      using None by (intro exI[of _ s1]) (simp add: run_end_def sched_inv_def tabs flip: tid_def s1_def)
  next
    case (Some t)
    let ?s2 = "put_task tid (finish_task err t) s1"
    have id: "tsk_id t = tid" using core_inv_id[OF inv Some] .
    have "core_inv ?s2"
      by (rule core[of ?s2 ?s2 "Some (finish_task err t)"])
        (use Some id tabs distinct_keys_put[of s1] core_invD(1)[OF inv] in \<open>auto simp: s1_def\<close>)
    moreover have "active_slots ?s2 \<subseteq> active_slots s"
      by (auto simp: active_slots_def tabs split: if_splits)
    then have "slots_ok ?s2" using sl by (auto intro: slots_ok_mono simp: s1_def)
    ultimately have "sched_inv ?s2" by (simp add: sched_inv_def)
    then show ?thesis
      using Some by (intro exI[of _ ?s2]) (simp add: run_end_def tabs flip: tid_def s1_def)
  qed
qed

lemma run_end_inv [inv_intros]:
  assumes "sched_inv s" and "n < length (sch_runs s)" and "run_phase (sch_runs s ! n) \<noteq> Finished"
  shows "sched_inv (run_end n err s)"
proof -
  obtain s2 where "sched_inv s2" "run_end n err s =
      (if task_at s (run_task_id (sch_runs s ! n)) = None then s2
       else save_and_emit (schedule_waiting_locked s2))"
    using run_end_split[OF assms, of err] by blast
  then show ?thesis by (auto intro!: inv_intros)
qed

end
