(* ===== verification/SchedulerSystem.thy ===== *)
theory SchedulerSystem
  imports SchedulerKeep2
begin

text \<open>
  The scheduler among its callers: any interleaving of the locked sections. \<open>editMu\<close> is held over
  the unlocked parts of \<open>Redownload\<close>, \<open>EditTask\<close> and \<open>StopAll\<close>, so the one operation that holds
  it is a program counter (\<open>sys_edit\<close>); \<open>editSerialMu\<close> is held by the one edit whose callback
  runs (\<open>sys_serial\<close>). A step is one locked section of one operation or of one run, a file-system
  part of a redownload, the save timer, or the user interface taking an event.
\<close>

datatype edit_pc =
  EditFree
| RdWait string "nat option"
| RdFiles string "task \<times> worker option"
| RdCommit string task
| EdWait string bool "nat option"
| StopWait "nat list"

record system =
  sys_sched :: sched
  sys_edit :: edit_pc
  sys_serial :: "(string \<times> bool \<times> task \<times> 64 word) option"
  sys_fs :: fsys

definition run_finished :: "sched \<Rightarrow> nat \<Rightarrow> bool" where
  "run_finished s n \<longleftrightarrow> n < length (sch_runs s) \<and> run_phase (sch_runs s ! n) = Finished"

definition waited :: "sched \<Rightarrow> nat option \<Rightarrow> bool" where
  "waited s w \<longleftrightarrow> (case w of None \<Rightarrow> True | Some n \<Rightarrow> run_finished s n)"

inductive sys_step :: "unicode \<Rightarrow> system \<Rightarrow> system \<Rightarrow> bool" for u :: unicode where
  st_set_max: "sys_step u S (S\<lparr>sys_sched := set_max_running m (sys_sched S)\<rparr>)"
| st_add: "fresh_id (sys_sched S) (tsk_id t) \<Longrightarrow> \<not> is_active t \<Longrightarrow>
    sys_step u S (S\<lparr>sys_sched := add u (sys_fs S) t (sys_sched S)\<rparr>)"
| st_remove: "sys_step u S (S\<lparr>sys_sched := snd (remove_task tid (sys_sched S))\<rparr>)"
| st_toggle: "sys_edit S = EditFree \<Longrightarrow>
    sys_step u S (S\<lparr>sys_sched := snd (toggle_pause tid (sys_sched S))\<rparr>)"
| st_start_all: "sys_edit S = EditFree \<Longrightarrow> sys_step u S (S\<lparr>sys_sched := start_all (sys_sched S)\<rparr>)"
| st_pause_all: "sys_edit S = EditFree \<Longrightarrow> sys_step u S (S\<lparr>sys_sched := pause_all (sys_sched S)\<rparr>)"
| st_rd_begin: "sys_edit S = EditFree \<Longrightarrow> redownload_stop tid (sys_sched S) = Inr (w, s') \<Longrightarrow>
    sys_step u S (S\<lparr>sys_sched := s', sys_edit := RdWait tid w\<rparr>)"
| st_rd_copy: "sys_edit S = RdWait tid w \<Longrightarrow> waited (sys_sched S) w \<Longrightarrow>
    redownload_copy tid (sys_sched S) = Inr tw \<Longrightarrow> sys_step u S (S\<lparr>sys_edit := RdFiles tid tw\<rparr>)"
| st_rd_gone: "sys_edit S = RdWait tid w \<Longrightarrow> waited (sys_sched S) w \<Longrightarrow>
    redownload_copy tid (sys_sched S) = Inl e \<Longrightarrow> sys_step u S (S\<lparr>sys_edit := EditFree\<rparr>)"
| st_rd_files: "sys_edit S = RdFiles tid tw \<Longrightarrow>
    redownload_files u (sys_fs S) reset tw = (Inr c, fs') \<Longrightarrow>
    sys_step u S (S\<lparr>sys_edit := RdCommit tid c, sys_fs := fs'\<rparr>)"
| st_rd_failed: "sys_edit S = RdFiles tid tw \<Longrightarrow>
    redownload_files u (sys_fs S) reset tw = (Inl e, fs') \<Longrightarrow>
    sys_step u S (S\<lparr>sys_edit := EditFree, sys_fs := fs'\<rparr>)"
| st_rd_commit: "sys_edit S = RdCommit tid c \<Longrightarrow>
    sys_step u S (S\<lparr>sys_sched := snd (redownload_commit tid c (sys_sched S)), sys_edit := EditFree\<rparr>)"
| st_ed_begin: "sys_edit S = EditFree \<Longrightarrow> sys_serial S = None \<Longrightarrow>
    edit_begin tid (sys_sched S) = Inr ((resume, w), s') \<Longrightarrow>
    sys_step u S (S\<lparr>sys_sched := s', sys_edit := EdWait tid resume w\<rparr>)"
| st_ed_copy: "sys_edit S = EdWait tid resume w \<Longrightarrow> waited (sys_sched S) w \<Longrightarrow>
    edit_snapshot tid (sys_sched S) = Inr (t, epoch) \<Longrightarrow>
    sys_step u S (S\<lparr>sys_edit := EditFree, sys_serial := Some (tid, resume, t, epoch)\<rparr>)"
| st_ed_gone: "sys_edit S = EdWait tid resume w \<Longrightarrow> waited (sys_sched S) w \<Longrightarrow>
    edit_snapshot tid (sys_sched S) = Inl e \<Longrightarrow> sys_step u S (S\<lparr>sys_edit := EditFree\<rparr>)"
| st_ed_commit: "sys_edit S = EditFree \<Longrightarrow> sys_serial S = Some (tid, resume, t, epoch) \<Longrightarrow>
    sys_step u S (S\<lparr>sys_sched := snd (edit_commit tid resume t epoch outcome (sys_sched S)),
      sys_serial := None\<rparr>)"
| st_stop_begin: "sys_edit S = EditFree \<Longrightarrow> stop_begin (sys_sched S) = (ns, s') \<Longrightarrow>
    sys_step u S (S\<lparr>sys_sched := s', sys_edit := StopWait ns\<rparr>)"
| st_stop_finish: "sys_edit S = StopWait ns \<Longrightarrow> \<forall>n\<in>set ns. run_finished (sys_sched S) n \<Longrightarrow>
    sys_step u S (S\<lparr>sys_sched := stop_finish ok (sys_sched S), sys_edit := EditFree\<rparr>)"
| st_run_begin: "n < length (sch_runs (sys_sched S)) \<Longrightarrow>
    run_phase (sch_runs (sys_sched S) ! n) = Spawned \<Longrightarrow>
    sys_step u S (S\<lparr>sys_sched := run_begin n (sys_sched S)\<rparr>)"
| st_report: "n < length (sch_runs (sys_sched S)) \<Longrightarrow>
    run_phase (sch_runs (sys_sched S) ! n) \<noteq> Spawned \<Longrightarrow>
    sys_step u S (S\<lparr>sys_sched := report (run_task_id (sch_runs (sys_sched S) ! n)) upd (sys_sched S)\<rparr>)"
| st_run_end: "n < length (sch_runs (sys_sched S)) \<Longrightarrow>
    run_phase (sch_runs (sys_sched S) ! n) = Working t \<Longrightarrow>
    sys_step u S (S\<lparr>sys_sched := run_end n err (sys_sched S)\<rparr>)"
| st_save: "sch_save_armed (sys_sched S) \<Longrightarrow>
    sys_step u S (S\<lparr>sys_sched := save_timer_fired ok (sys_sched S)\<rparr>)"
| st_receive: "sys_step u S (S\<lparr>sys_sched := snd (receive_event (sys_sched S))\<rparr>)"

text \<open>The start: a new scheduler that loaded a store whose tasks have distinct identifiers.\<close>

inductive sys_reach :: "unicode \<Rightarrow> system \<Rightarrow> bool" for u :: unicode where
  reach_start: "(\<And>ts. stored = Inr ts \<Longrightarrow> distinct (map tsk_id ts)) \<Longrightarrow>
    sys_reach u \<lparr>sys_sched = snd (load u fs stored (new_scheduler reg store m)),
      sys_edit = EditFree, sys_serial = None, sys_fs = fs\<rparr>"
| reach_step: "sys_reach u S \<Longrightarrow> sys_step u S S' \<Longrightarrow> sys_reach u S'"

inductive_cases sys_stepE: "sys_step u S S'"

lemma sys_step_inv: "sys_step u S S' \<Longrightarrow> sched_inv (sys_sched S) \<Longrightarrow> sched_inv (sys_sched S')"
proof (induction rule: sys_step.induct)
  case (st_set_max S m)
  then show ?case by (simp add: set_max_running_inv sched_inv_def[of "sys_sched S"])
next
  case (st_rd_begin S tid w s')
  then show ?case by (simp add: redownload_stop_inv)
next
  case (st_ed_begin S tid resume w s')
  then show ?case by (simp add: edit_begin_inv)
next
  case (st_stop_begin S ns s')
  then show ?case using stop_begin_inv[of "sys_sched S"] by simp
qed (simp_all add: add_inv remove_task_inv toggle_pause_inv start_all_inv pause_all_inv
    redownload_commit_inv edit_commit_inv stop_finish_inv run_begin_inv report_inv run_end_inv
    save_timer_inv receive_event_inv)

lemma sys_reach_inv: "sys_reach u S \<Longrightarrow> sched_inv (sys_sched S)"
proof (induction rule: sys_reach.induct)
  case (reach_start stored fs reg store m)
  have "fresh_id (new_scheduler reg store m) tid" for tid
    by (simp add: fresh_id_def task_at_def running_at_def new_scheduler_def)
  with reach_start show ?case
    using load_inv[OF new_scheduler_inv] by simp
next
  case (reach_step S S')
  then show ?case by (blast intro: sys_step_inv)
qed

lemma sys_reach_core: "sys_reach u S \<Longrightarrow> core_inv (sys_sched S)"
  using sys_reach_inv by (auto simp: sched_inv_def)

section \<open>The abstract contract: at most one live run per task, a bounded number of slots\<close>

definition live_runs :: "sched \<Rightarrow> string \<Rightarrow> nat set" where
  "live_runs s tid = {n. n < length (sch_runs s) \<and> run_phase (sch_runs s ! n) \<noteq> Finished \<and>
     run_task_id (sch_runs s ! n) = tid}"

lemma live_runs_sub: "core_inv s \<Longrightarrow> live_runs s tid \<subseteq> {n. running_at s tid = Some n}"
  using core_inv_live by (fastforce simp: live_runs_def)

lemma card_live_runs: "core_inv s \<Longrightarrow> card (live_runs s tid) \<le> 1"
proof -
  assume inv: "core_inv s"
  have "live_runs s tid \<subseteq> (case running_at s tid of None \<Rightarrow> {} | Some n \<Rightarrow> {n})"
    using live_runs_sub[OF inv, of tid] by (cases "running_at s tid") auto
  then show ?thesis by (auto split: option.splits dest: card_mono[rotated])
qed

end
