(* ===== verification/SchedulerProps.thy ===== *)
theory SchedulerProps
  imports SchedulerFacts
begin

text \<open>
  The properties of the scheduler, each with a concrete run of the scheduler on which it applies:
  two HTTP tasks on a scheduler with one slot.
\<close>

section \<open>A concrete run\<close>

definition demo_task :: "string \<Rightarrow> int \<Rightarrow> task" where
  "demo_task tid now = new_task tid now ''http'' (tid @ ''.bin'') ''http://h/f'' ''C:/dl'' 1000
     (new_stage (tid @ ''_s'') ''http'' ''http://h/f'' 1000 4 3 True None [])"

definition demo_fs :: fsys where
  "demo_fs = \<lparr>fs_nodes = Map.empty, fs_cwd = ''C:/'', fs_faults = Map.empty\<rparr>"

definition demo_registry :: registry where
  "demo_registry = register new_registry ''http'' \<lparr>wrk_name = ''http'', wrk_resets = False\<rparr>"

definition demo0 :: sched where
  "demo0 = snd (load ascii_tables demo_fs (Inr []) (new_scheduler demo_registry True 1))"

text \<open>The first task runs, the second one waits for the slot.\<close>

definition demo1 :: sched where
  "demo1 = add ascii_tables demo_fs (demo_task ''a'' 100) demo0"

definition demo2 :: sched where
  "demo2 = add ascii_tables demo_fs (demo_task ''b'' 200) demo1"

definition demo_system :: "sched \<Rightarrow> system" where
  "demo_system s = \<lparr>sys_sched = s, sys_edit = EditFree, sys_serial = None, sys_fs = demo_fs\<rparr>"

lemma save_and_emit_more [simp]:
  "sch_registry (save_and_emit s) = sch_registry s" "sch_has_store (save_and_emit s) = sch_has_store s"
  "sch_load_failed (save_and_emit s) = sch_load_failed s"
  "sch_events_closed (save_and_emit s) = sch_events_closed s"
  by (simp_all add: save_and_emit_def emit_locked_def schedule_save_locked_def Let_def)

lemma demo_task_simps [simp]:
  "tsk_id (demo_task i n) = i" "tsk_status (demo_task i n) = StatusWaiting"
  "tsk_uses_slot (demo_task i n)" "\<not> is_ftp_directory (demo_task i n)"
  "tsk_pack_id (demo_task i n) = ''http''" "tsk_created_at (demo_task i n) = n"
  by (simp_all add: demo_task_def is_ftp_directory_def new_task_def)

lemma demo_add:
  "add ascii_tables demo_fs (demo_task i n) s =
     save_and_emit (schedule_locked i (insert_task (demo_task i n) s))"
  by (simp add: add_def prepare_added_def prepare_ftp_directory_output_def)

lemma demo0_value:
  "demo0 = (new_scheduler demo_registry True 1)\<lparr>sch_events := [EventTasksChanged []]\<rparr>"
  by (simp add: demo0_def load_def new_scheduler_def emit_locked_def events_cap_def
      snapshot_locked_def order_tasks_def map_filter_simps)

lemma demo1_value:
  "sch_tasks demo1 = [(''a'', set_status StatusRunning (demo_task ''a'' 100))]"
  "sch_order demo1 = [''a'']" "sch_running demo1 = [(''a'', 0)]"
  "sch_runs demo1 = [\<lparr>run_task_id = ''a'', run_worker = \<lparr>wrk_name = ''http'', wrk_resets = False\<rparr>,
     run_canceled = False, run_phase = Spawned\<rparr>]"
  "sch_max_running demo1 = 1" "sch_stopping demo1 = False" "sch_registry demo1 = demo_registry"
  "sch_has_store demo1" "\<not> sch_load_failed demo1" "\<not> sch_events_closed demo1"
proof -
  have e: "demo1 = save_and_emit (start_run ''a'' (demo_task ''a'' 100)
      \<lparr>wrk_name = ''http'', wrk_resets = False\<rparr> (insert_task (demo_task ''a'' 100) demo0))"
    by (simp add: demo1_def demo_add schedule_locked_def task_at_def running_at_def demo0_value
        insert_task_def put_task_def new_scheduler_def running_slot_count_def registry_worker_def
        demo_registry_def register_def new_registry_def)
  show
    "sch_tasks demo1 = [(''a'', set_status StatusRunning (demo_task ''a'' 100))]"
    "sch_order demo1 = [''a'']" "sch_running demo1 = [(''a'', 0)]"
    "sch_runs demo1 = [\<lparr>run_task_id = ''a'', run_worker = \<lparr>wrk_name = ''http'', wrk_resets = False\<rparr>,
       run_canceled = False, run_phase = Spawned\<rparr>]"
    "sch_max_running demo1 = 1" "sch_stopping demo1 = False" "sch_registry demo1 = demo_registry"
    "sch_has_store demo1" "\<not> sch_load_failed demo1" "\<not> sch_events_closed demo1"
    by (simp_all add: e start_run_def insert_task_def put_task_def demo0_value new_scheduler_def)
qed

lemma demo2_value:
  "sch_tasks demo2 = [(''a'', set_status StatusRunning (demo_task ''a'' 100)),
     (''b'', demo_task ''b'' 200)]"
  "sch_order demo2 = [''a'', ''b'']" "sch_running demo2 = [(''a'', 0)]"
  "sch_runs demo2 = sch_runs demo1" "sch_max_running demo2 = 1" "sch_stopping demo2 = False"
  "sch_registry demo2 = demo_registry" "sch_has_store demo2" "\<not> sch_load_failed demo2"
  "\<not> sch_events_closed demo2"
proof -
  have e: "demo2 = save_and_emit (insert_task (demo_task ''b'' 200) demo1)"
    by (simp add: demo2_def demo_add schedule_locked_def task_at_def running_at_def insert_task_def
        put_task_def running_slot_count_def demo1_value)
  show
    "sch_tasks demo2 = [(''a'', set_status StatusRunning (demo_task ''a'' 100)),
       (''b'', demo_task ''b'' 200)]"
    "sch_order demo2 = [''a'', ''b'']" "sch_running demo2 = [(''a'', 0)]"
    "sch_runs demo2 = sch_runs demo1" "sch_max_running demo2 = 1" "sch_stopping demo2 = False"
    "sch_registry demo2 = demo_registry" "sch_has_store demo2" "\<not> sch_load_failed demo2"
    "\<not> sch_events_closed demo2"
    by (simp_all add: e insert_task_def put_task_def demo1_value)
qed

lemma demo_reach0: "sys_reach ascii_tables (demo_system demo0)"
proof -
  have "sys_reach ascii_tables \<lparr>sys_sched = snd (load ascii_tables demo_fs (Inr [])
      (new_scheduler demo_registry True 1)), sys_edit = EditFree, sys_serial = None, sys_fs = demo_fs\<rparr>"
    by (rule reach_start) simp
  then show ?thesis by (simp add: demo_system_def demo0_def)
qed

lemma demo_reach_add:
  assumes "sys_reach ascii_tables (demo_system s)" and "fresh_id s i"
  shows "sys_reach ascii_tables (demo_system (add ascii_tables demo_fs (demo_task i n) s))"
proof -
  have "sys_step ascii_tables (demo_system s) ((demo_system s)\<lparr>sys_sched :=
      add ascii_tables (sys_fs (demo_system s)) (demo_task i n) (sys_sched (demo_system s))\<rparr>)"
    by (rule st_add) (use assms(2) in \<open>simp_all add: demo_system_def is_active_def\<close>)
  from reach_step[OF assms(1) this] show ?thesis by (simp add: demo_system_def)
qed

lemma demo_reach1: "sys_reach ascii_tables (demo_system demo1)"
  unfolding demo1_def by (rule demo_reach_add[OF demo_reach0])
    (simp add: fresh_id_def demo0_value new_scheduler_def table_defs)

lemma demo_reach2: "sys_reach ascii_tables (demo_system demo2)"
  unfolding demo2_def by (rule demo_reach_add[OF demo_reach1])
    (simp add: fresh_id_def table_defs demo1_value)

lemma demo_system_simps [simp]:
  "sys_sched (demo_system s) = s" "sys_edit (demo_system s) = EditFree"
  "sys_serial (demo_system s) = None" "sys_fs (demo_system s) = demo_fs"
  by (simp_all add: demo_system_def)

lemma demo2_reads [simp]:
  "task_at demo2 ''a'' = Some (set_status StatusRunning (demo_task ''a'' 100))"
  "task_at demo2 ''b'' = Some (demo_task ''b'' 200)"
  "running_at demo2 ''a'' = Some 0" "running_at demo2 ''b'' = None"
  by (simp_all add: task_at_def running_at_def demo2_value)

section \<open>The slots and the runs\<close>

text \<open>
  C1: in every state the scheduler reaches, under any interleaving of its callers, runs and the
  save timer, the tasks that are running or seeding and use a slot number at most \<open>maxRunning\<close>.
\<close>

theorem slot_bound:
  assumes "sys_reach u S"
  shows "int (card (active_slots (sys_sched S))) \<le> sch_max_running (sys_sched S)"
  using sys_reach_inv[OF assms] by (simp add: sched_inv_def slots_ok_def)

lemma slot_bound_witness:
  "active_slots demo2 = {''a''} \<and> int (card (active_slots demo2)) \<le> sch_max_running demo2"
proof -
  have "active_slots demo2 = {''a''}"
    by (auto simp: active_slots_def is_active_def task_at_def demo2_value split: if_splits)
  then show ?thesis using slot_bound[OF demo_reach2] by simp
qed

text \<open>
  C2: at most one run of a task is ever unfinished, and a task shown as running or seeding has
  exactly one: its state never outlives its worker.
\<close>

theorem one_live_run:
  assumes "sys_reach u S"
  shows "card (live_runs (sys_sched S) tid) \<le> 1 \<and>
    (\<forall>t. task_at (sys_sched S) tid = Some t \<longrightarrow> is_active t \<longrightarrow>
       (\<exists>n. live_runs (sys_sched S) tid = {n}))"
proof -
  note inv = sys_reach_core[OF assms]
  have "\<exists>n. live_runs (sys_sched S) tid = {n}"
    if t: "task_at (sys_sched S) tid = Some t" and act: "is_active t" for t
  proof -
    obtain n where n: "running_at (sys_sched S) tid = Some n"
      using core_inv_active[OF inv t act] by auto
    have "n \<in> live_runs (sys_sched S) tid"
      using core_inv_run[OF inv n] t by (simp add: live_runs_def)
    with live_runs_sub[OF inv, of tid] n show ?thesis by auto
  qed
  with card_live_runs[OF inv, of tid] show ?thesis by blast
qed

lemma one_live_run_witness:
  "card (live_runs demo2 ''a'') \<le> 1 \<and> (\<exists>n. live_runs demo2 ''a'' = {n})"
  using one_live_run[OF demo_reach2, of "''a''"] by (simp add: is_active_def)

section \<open>No startable task is left waiting\<close>

lemma startable_save_and_emit [simp]: "startable (save_and_emit s) tid = startable s tid"
  by (simp add: startable_def running_slot_count_def split: option.split)

lemma scheduled_core: "core_inv s \<Longrightarrow> \<not> startable (save_and_emit (schedule_waiting_locked s)) tid"
  by (simp add: schedule_waiting_complete)

lemma inv_core: "sched_inv s \<Longrightarrow> core_inv s"
  by (simp add: sched_inv_def)

section \<open>Pausing and stopping\<close>

lemma epoch_reads [simp]:
  "task_at (s\<lparr>sch_pause_epoch := e\<rparr>) = task_at s" "running_at (s\<lparr>sch_pause_epoch := e\<rparr>) = running_at s"
  "task_at (s\<lparr>sch_stopping := b\<rparr>) = task_at s" "running_at (s\<lparr>sch_stopping := b\<rparr>) = running_at s"
  "task_at (s\<lparr>sch_save_armed := b\<rparr>) = task_at s" "running_at (s\<lparr>sch_save_armed := b\<rparr>) = running_at s"
  by (simp_all add: table_defs)

lemma cancel_all_epoch [simp]: "sch_pause_epoch (cancel_all s) = sch_pause_epoch s"
proof -
  have "sch_pause_epoch (fold (\<lambda>(_, n). cancel_run n) xs s) = sch_pause_epoch s"
    for xs :: "(string \<times> nat) list"
    by (induction xs arbitrary: s) (auto simp: split_beta cancel_run_def)
  then show ?thesis by (simp add: cancel_all_def)
qed

lemma epoch_keeps [simp]:
  "sch_pause_epoch (save_and_emit s) = sch_pause_epoch s"
  "sch_pause_epoch (map_tasks f s) = sch_pause_epoch s"
  by (simp_all add: save_and_emit_def emit_locked_def schedule_save_locked_def Let_def map_tasks_def)

lemma pause_all_reads:
  "task_at (pause_all s) tid = map_option (\<lambda>t.
     let t = (if running_at s tid \<noteq> None then pause_task t else t) in
     if tsk_status t = StatusWaiting then pause_task t else t) (task_at s tid)"
  "running_at (pause_all s) = running_at s"
  "sch_pause_epoch (pause_all s) = sch_pause_epoch s + 1"
  by (cases "task_at s tid"; simp add: pause_all_def Let_def)+

lemma pause_fixed: "pause_task t = t \<Longrightarrow> tsk_status t = StatusPaused" "t = pause_task t \<Longrightarrow> tsk_status t = StatusPaused"
  by (metis pause_task_simps(1))+

lemma all_canceled:
  assumes "core_inv s" and "running_at s tid = Some n"
    and "sch_running s' = sch_running s" and "sch_runs s' = sch_runs s"
  shows "run_canceled (sch_runs (cancel_all s') ! n)"
  using cancel_all_flag[of tid n s'] core_inv_run(1)[OF assms(1,2)]
    map_of_SomeD[of "sch_running s" tid n] assms(2-4) by (simp add: running_at_def)

text \<open>
  After \<open>PauseAll\<close> no task is running, seeding or waiting, the context of every run in the
  running table is cancelled, and an edit that was in progress will see a changed epoch.
\<close>

theorem pause_all_pauses:
  assumes "sys_reach u S"
  shows "(\<forall>tid t. task_at (pause_all (sys_sched S)) tid = Some t \<longrightarrow>
      \<not> is_active t \<and> tsk_status t \<noteq> StatusWaiting) \<and>
    (\<forall>tid n. running_at (pause_all (sys_sched S)) tid = Some n \<longrightarrow>
      run_canceled (sch_runs (pause_all (sys_sched S)) ! n)) \<and>
    sch_pause_epoch (pause_all (sys_sched S)) = sch_pause_epoch (sys_sched S) + 1"
proof -
  let ?s = "sys_sched S"
  note core = sys_reach_core[OF assms]
  have "\<not> is_active t \<and> tsk_status t \<noteq> StatusWaiting" if "task_at (pause_all ?s) tid = Some t" for tid t
    using that core_inv_active[OF core, of tid]
    by (auto simp: pause_all_reads Let_def is_active_def split: if_splits dest: pause_fixed)
  moreover have "run_canceled (sch_runs (pause_all ?s) ! n)" if "running_at (pause_all ?s) tid = Some n" for tid n
    using that by (simp add: pause_all_reads) (simp add: pause_all_def Let_def all_canceled[OF core])
  ultimately show ?thesis by (auto simp: pause_all_reads(3))
qed

lemma pause_all_pauses_witness:
  "task_at (pause_all demo2) ''a'' \<noteq> None \<and> running_at (pause_all demo2) ''a'' = Some 0 \<and>
   run_canceled (sch_runs (pause_all demo2) ! 0) \<and> sch_pause_epoch (pause_all demo2) = sch_pause_epoch demo2 + 1"
proof -
  have "task_at (pause_all demo2) ''a'' \<noteq> None" "running_at (pause_all demo2) ''a'' = Some 0"
    by (simp_all add: pause_all_reads)
  with pause_all_pauses[OF demo_reach2] show ?thesis by simp
qed

text \<open>
  C4: \<open>StopAll\<close> pauses every active or waiting task and cancels every run before it waits for
  them, and from the moment it set \<open>stopping\<close> no interleaving of callers, runs and timers starts
  another run.
\<close>

theorem stop_starts_nothing:
  assumes "sys_reach u S" and "stop_begin (sys_sched S) = (ns, s')"
    and "(sys_step u)\<^sup>*\<^sup>* (S\<lparr>sys_sched := s', sys_edit := StopWait ns\<rparr>) S'"
  shows "set ns = ran (running_at (sys_sched S)) \<and>
    (\<forall>n\<in>set ns. run_canceled (sch_runs s' ! n)) \<and>
    (\<forall>tid t. task_at s' tid = Some t \<longrightarrow> \<not> is_active t \<and> tsk_status t \<noteq> StatusWaiting) \<and>
    sch_stopping (sys_sched S') \<and> length (sch_runs (sys_sched S')) = length (sch_runs (sys_sched S))"
proof -
  let ?s = "sys_sched S"
  note core = sys_reach_core[OF assms(1)]
  have s': "s' = snd (stop_begin ?s)" "ns = map snd (sch_running ?s)"
    using assms(2) by (auto simp: stop_begin_def)
  have ns: "set ns = ran (running_at ?s)"
    unfolding s'(2) running_at_def by (simp add: ran_distinct[OF core_invD(2)[OF core]])
  moreover have "\<forall>n\<in>set ns. run_canceled (sch_runs s' ! n)"
    using all_canceled[OF core, of _ _ "?s\<lparr>sch_stopping := True\<rparr>"] unfolding ns
    by (auto simp: ran_def s' stop_begin_def)
  moreover have "\<not> is_active t \<and> tsk_status t \<noteq> StatusWaiting" if "task_at s' tid = Some t" for tid t
    using that by (auto simp: s' stop_begin_def is_active_def split: if_splits dest: pause_fixed)
  moreover have "sch_stopping s' \<and> length (sch_runs s') = length (sch_runs ?s)"
    by (simp add: s' stop_begin_def)
  with assms(3) have "sch_stopping (sys_sched S') \<and>
      length (sch_runs (sys_sched S')) = length (sch_runs ?s)"
  proof (induction rule: rtranclp_induct)
    case (step y z)
    then show ?case using sys_step_stopping[of u y z] by (simp add: same_runs_def)
  qed simp
  ultimately show ?thesis by blast
qed

lemma stop_starts_nothing_witness:
  "let s' = snd (stop_begin demo2) in
   run_canceled (sch_runs s' ! 0) \<and> sch_stopping s' \<and> length (sch_runs s') = 1 \<and>
   sch_stopping (snd (toggle_pause ''b'' s'))"
proof -
  define s' where "s' = snd (stop_begin demo2)"
  define S where "S = (demo_system demo2)\<lparr>sys_sched := s', sys_edit := StopWait [0]\<rparr>"
  have ns: "stop_begin (sys_sched (demo_system demo2)) = ([0], s')"
    by (simp add: s'_def stop_begin_def demo2_value)
  have "(sys_step ascii_tables)\<^sup>*\<^sup>* S (S\<lparr>sys_sched := set_max_running 5 s'\<rparr>)"
    using st_set_max[of ascii_tables S 5] by (simp add: S_def)
  from stop_starts_nothing[OF demo_reach2 ns, folded S_def, OF this]
  have "run_canceled (sch_runs s' ! 0)" "sch_stopping (set_max_running 5 s')"
    "length (sch_runs (set_max_running 5 s')) = 1"
    by (simp_all add: S_def demo2_value demo1_value)
  moreover have "sch_stopping s'" "length (sch_runs s') = 1"
    by (simp_all add: s'_def stop_begin_def demo2_value demo1_value)
  moreover have "sch_stopping (snd (toggle_pause ''b'' s'))"
    using \<open>sch_stopping s'\<close> by (auto simp: toggle_pause_def split: option.split)
  ultimately show ?thesis by (simp flip: s'_def)
qed

section \<open>Reports, edits, snapshots, saving\<close>

lemma schedule_waiting_settled:
  assumes "task_at s tid = Some t" and "tsk_status t \<noteq> StatusWaiting"
  shows "task_at (schedule_waiting_locked s) tid = Some t"
proof -
  have "task_at (fold schedule_if_waiting ids s') tid = Some t" if "task_at s' tid = Some t" for ids s'
    using that
  proof (induction ids arbitrary: s')
    case (Cons x ids)
    have "task_at (schedule_if_waiting x s') tid = Some t"
      using Cons.prems assms(2)
      by (cases "x = tid") (auto simp: schedule_if_waiting_def schedule_locked_other split: option.split)
    then show ?case by (simp add: Cons.IH)
  qed simp
  with assms(1) show ?thesis by (simp add: schedule_waiting_locked_def)
qed

lemma enforce_settled:
  assumes "task_at s tid = Some t"
  shows "task_at (enforce_max_running_locked s) tid \<in> {Some t, Some (pause_task t)}"
proof -
  have "task_at (enforce_loop ids k s') tid \<in> {Some t, Some (pause_task t)}"
    if "task_at s' tid \<in> {Some t, Some (pause_task t)}" for ids k s'
    using that
  proof (induction ids k s' rule: enforce_loop.induct)
    case (2 i ids k s')
    have p: "pause_task (pause_task t) = pause_task t"
      by (simp add: pause_task_def clear_speed_def set_status_def)
    show ?case
    proof (cases "running_at s' i")
      case None
      then show ?thesis using "2" by simp
    next
      case (Some n)
      note n = this
      show ?thesis
      proof (cases "task_at s' i")
        case None
        then show ?thesis using n "2" by simp
      next
        case (Some x)
        have "x \<in> {t, pause_task t}" if "i = tid" using that Some "2.prems" by auto
        then have "task_at (cancel_run n (put_task i (pause_task x) s')) tid \<in> {Some t, Some (pause_task t)}"
          using "2.prems" p by auto
        with n Some "2" show ?thesis by simp
      qed
    qed
  qed simp
  from this[of s] assms show ?thesis by (simp add: enforce_max_running_locked_def)
qed

text \<open>
  A report of a run that is still winding down never brings its task back: once the task is
  paused, failed, canceled or completed, no report changes its status, except that a task holding
  too many slots may be paused.
\<close>

theorem report_keeps_settled:
  assumes "task_at s tid = Some t" and "\<not> is_active t" and "tsk_status t \<noteq> StatusWaiting"
  shows "\<exists>t'. task_at (report tid upd s) tid = Some t' \<and>
    (tsk_status t' = tsk_status t \<or>
     tsk_status t' = StatusPaused \<and> \<not> tsk_uses_slot t \<and> tsk_uses_slot t') \<and>
    tsk_received t' = upd_received upd"
proof -
  let ?t = "report_task upd t" and ?s = "put_task tid (report_task upd t) s"
  have st: "tsk_status ?t = tsk_status t" "tsk_received ?t = upd_received upd"
    unfolding report_task_def Let_def using assms(2)
    by (simp_all only: task.simps if_False split: option.split) simp_all
  have "task_at (schedule_waiting_locked ?s) tid = Some ?t"
    by (rule schedule_waiting_settled) (simp_all add: st assms(3))
  moreover have "task_at (enforce_max_running_locked ?s) tid \<in> {Some ?t, Some (pause_task ?t)}"
    by (rule enforce_settled) simp
  moreover have "tsk_received (pause_task ?t) = upd_received upd"
    using st by (simp add: pause_task_def clear_speed_def set_status_def)
  ultimately show ?thesis
    using assms(1) st by (auto simp: report_def Let_def)
qed

definition demo_update :: progress_update where
  "demo_update = \<lparr>upd_received = 500, upd_file_size = 1000, upd_speed = 10, upd_progress = 50,
     upd_detail = [], upd_status = Some StatusRunning, upd_stage_state = None, upd_uses_slot = None\<rparr>"

lemma report_keeps_settled_witness:
  "\<exists>t'. task_at (report ''a'' demo_update (pause_all demo2)) ''a'' = Some t' \<and>
     tsk_status t' = StatusPaused \<and> tsk_received t' = 500"
proof -
  let ?t = "pause_task (set_status StatusRunning (demo_task ''a'' 100))"
  have a: "task_at (pause_all demo2) ''a'' = Some ?t" by (simp add: pause_all_reads Let_def)
  have na: "\<not> is_active ?t" "tsk_status ?t \<noteq> StatusWaiting" "tsk_status ?t = StatusPaused"
    by (simp_all add: is_active_def)
  note r = report_keeps_settled[OF a na(1,2), of demo_update]
  obtain t' where t': "task_at (report ''a'' demo_update (pause_all demo2)) ''a'' = Some t'"
    "tsk_status t' = tsk_status ?t \<or> tsk_status t' = StatusPaused"
    "tsk_received t' = upd_received demo_update"
    using r by (elim exE conjE) (rule that, assumption, blast+)
  have p: "tsk_status t' = StatusPaused" using t'(2) unfolding na(3) by blast
  have "tsk_received t' = 500" unfolding t'(3) by (simp add: demo_update_def)
  with t'(1) p show ?thesis by blast
qed

text \<open>
  C32: an edit commits only when neither the task nor the pause epoch changed while its callback
  ran; then the task keeps its identifier, its creation time and its pack, has no error and no
  speed, and every other task is the same. A conflict changes nothing.
\<close>

theorem edit_commit_atomic:
  "(edit_commit tid resume original epoch outcome s = (None, s') \<longrightarrow>
     task_at s tid = Some original \<and> sch_pause_epoch s = epoch \<and> \<not> sch_stopping s \<and>
     (\<exists>e t'. outcome = Inr e \<and> task_at s' tid = Some t' \<and> tsk_id t' = tsk_id original \<and>
        tsk_created_at t' = tsk_created_at original \<and> tsk_pack_id t' = tsk_pack_id original \<and>
        tsk_speed t' = 0 \<and> tsk_url t' = tsk_url e \<and> (\<not> resume \<longrightarrow> tsk_status t' = StatusPaused)) \<and>
     (\<forall>other. other \<noteq> tid \<longrightarrow> task_at s' other = task_at s other)) \<and>
   (sch_stopping s \<or> task_at s tid \<noteq> Some original \<or> sch_pause_epoch s \<noteq> epoch \<longrightarrow>
     fst (edit_commit tid resume original epoch outcome s) \<noteq> None \<and>
     snd (edit_commit tid resume original epoch outcome s) = s)"
proof (intro conjI impI)
  assume ok: "edit_commit tid resume original epoch outcome s = (None, s')"
  then have base: "task_at s tid = Some original \<and> sch_pause_epoch s = epoch \<and> \<not> sch_stopping s"
    and "\<exists>e. outcome = Inr e"
    by (auto simp: edit_commit_def Let_def split: if_splits option.splits sum.splits)
  then obtain e where e: "outcome = Inr e" by auto
  let ?t = "edited_task resume original e"
  let ?s1 = "put_task tid ?t s"
  have s': "s' = save_and_emit (if resume then schedule_locked tid ?s1 else ?s1)"
    using ok base e by (auto simp: edit_commit_def Let_def)
  have u: "tsk_url ?t = tsk_url e" by (simp add: edited_task_def set_status_def)
  have "\<exists>t'. task_at s' tid = Some t' \<and> tsk_id t' = tsk_id original \<and>
        tsk_created_at t' = tsk_created_at original \<and> tsk_pack_id t' = tsk_pack_id original \<and>
        tsk_speed t' = 0 \<and> tsk_url t' = tsk_url e \<and> (\<not> resume \<longrightarrow> tsk_status t' = StatusPaused)"
    unfolding s' using u
    by (auto simp: schedule_locked_def start_run_def set_status_def table_defs put_task_def
        map_of_update split: option.splits)
  with base e show "task_at s tid = Some original" "sch_pause_epoch s = epoch" "\<not> sch_stopping s"
    "\<exists>e t'. outcome = Inr e \<and> task_at s' tid = Some t' \<and> tsk_id t' = tsk_id original \<and>
        tsk_created_at t' = tsk_created_at original \<and> tsk_pack_id t' = tsk_pack_id original \<and>
        tsk_speed t' = 0 \<and> tsk_url t' = tsk_url e \<and> (\<not> resume \<longrightarrow> tsk_status t' = StatusPaused)"
    by auto
  show "\<forall>other. other \<noteq> tid \<longrightarrow> task_at s' other = task_at s other"
    unfolding s' by (simp add: schedule_locked_other)
qed (auto simp: edit_commit_def split: option.split)

lemma schedule_locked_epoch [simp]: "sch_pause_epoch (schedule_locked tid s) = sch_pause_epoch s"
  by (simp add: schedule_locked_def start_run_def put_task_def split: option.split)

lemma demo2_epoch: "sch_pause_epoch demo2 = 0"
  by (simp add: demo2_def demo1_def demo_add insert_task_def put_task_def demo0_value new_scheduler_def)

lemma edit_commit_atomic_witness:
  "\<exists>s' t'. edit_commit ''b'' False (demo_task ''b'' 200) 0 (Inr (demo_task ''c'' 7)) demo2 = (None, s') \<and>
     task_at s' ''b'' = Some t' \<and> tsk_id t' = ''b'' \<and> tsk_created_at t' = 200 \<and>
     task_at s' ''a'' = task_at demo2 ''a''"
proof -
  let ?r = "edit_commit ''b'' False (demo_task ''b'' 200) 0 (Inr (demo_task ''c'' 7)) demo2"
  have "fst ?r = None" by (simp add: edit_commit_def demo2_value demo2_epoch Let_def)
  then have "?r = (None, snd ?r)" by (metis prod.collapse)
  note r = this
  from edit_commit_atomic[THEN conjunct1, THEN mp, OF r] obtain t' where
    "task_at (snd ?r) ''b'' = Some t'" "tsk_id t' = tsk_id (demo_task ''b'' 200)"
    "tsk_created_at t' = tsk_created_at (demo_task ''b'' 200)"
    and others: "\<forall>other. other \<noteq> ''b'' \<longrightarrow> task_at (snd ?r) other = task_at demo2 other"
    by blast
  moreover have "task_at (snd ?r) ''a'' = task_at demo2 ''a''"
    by (rule others[THEN spec, THEN mp]) simp
  ultimately show ?thesis using r unfolding demo_task_simps by blast
qed

section \<open>Events and snapshots\<close>

text \<open>What the sections before \<open>save_and_emit\<close> leave alone.\<close>

definition same_channel :: "sched \<Rightarrow> sched \<Rightarrow> bool" where
  "same_channel s s' \<longleftrightarrow>
     sch_events s' = sch_events s \<and> sch_events_closed s' = sch_events_closed s"

lemma same_channel_refl [simp]: "same_channel s s"
  by (simp add: same_channel_def)

lemma same_channel_trans: "same_channel s s' \<Longrightarrow> same_channel s' s'' \<Longrightarrow> same_channel s s''"
  by (simp add: same_channel_def)

lemma same_channel_steps:
  "same_channel s (put_task tid t s)" "same_channel s (map_tasks f s)" "same_channel s (cancel_run n s)"
  "same_channel s (schedule_locked tid s)" "same_channel s (insert_task t s)"
  by (simp_all add: same_channel_def put_task_def map_tasks_def cancel_run_def schedule_locked_def
      start_run_def insert_task_def split: option.split)

lemma same_channel_fold:
  assumes "\<And>x s. same_channel s (f x s)"
  shows "same_channel s (fold f xs s)"
proof (induction xs arbitrary: s)
  case (Cons x xs)
  then show ?case using same_channel_trans[OF assms[of s x] Cons[of "f x s"]] by simp
qed simp

lemma same_channel_waiting: "same_channel s (schedule_waiting_locked s)"
  unfolding schedule_waiting_locked_def
  by (rule same_channel_fold) (simp add: schedule_if_waiting_def same_channel_steps split: option.split)

lemma same_channel_cancel_all: "same_channel s (cancel_all s)"
  unfolding cancel_all_def by (rule same_channel_fold) (simp add: split_beta same_channel_steps)

lemma same_channel_enforce: "same_channel s (enforce_max_running_locked s)"
proof -
  have "same_channel s (enforce_loop ids k s)" for ids k s
  proof (induction ids arbitrary: k s)
    case (Cons i ids)
    have "same_channel s (cancel_run n (put_task i t s))" for n t
      by (rule same_channel_trans[OF same_channel_steps(1) same_channel_steps(3)])
    then have "same_channel s (enforce_loop ids k (cancel_run n (put_task i t s)))" for n t
      using Cons same_channel_trans by blast
    with Cons show ?case by (simp split: option.split)
  qed simp
  then show ?thesis by (simp add: enforce_max_running_locked_def)
qed

definition shows_itself :: "sched \<Rightarrow> sched \<Rightarrow> bool" where
  "shows_itself s s' \<longleftrightarrow> sch_events s' \<noteq> [] \<and> last (sch_events s') = EventTasksChanged (snapshot s') \<and>
     (length (sch_events s) \<le> events_cap \<longrightarrow> length (sch_events s') \<le> events_cap)"

lemma shows_itself_emit:
  assumes "same_channel s s1" and "\<not> sch_events_closed s"
  shows "shows_itself s (save_and_emit s1)"
proof -
  let ?s = "schedule_save_locked s1"
  let ?e = "EventTasksChanged (snapshot_locked ?s)"
  have ev: "sch_events ?s = sch_events s" "\<not> sch_events_closed ?s"
    using assms by (simp_all add: same_channel_def schedule_save_locked_def)
  have e: "save_and_emit s1 = push_event ?e ?s" by (simp add: save_and_emit_def emit_push ev(2))
  have "snapshot (save_and_emit s1) = snapshot_locked ?s"
    by (simp add: snapshot_def snapshot_locked_def order_tasks_def)
  then show ?thesis
    unfolding shows_itself_def e using channel.newest_last[of ?e ?s] channel.push_bounded[of ?s ?e] ev
    by simp
qed

text \<open>
  After every operation of the user interface the newest event in the channel is the
  snapshot of the state it left, however slow the reader is: when the buffer of 16 is full the
  oldest event goes. Once the channel is closed nothing is sent.
\<close>

theorem newest_event_current:
  "(\<not> sch_events_closed s \<longrightarrow>
      shows_itself s (set_max_running m s) \<and> shows_itself s (add u fs t s) \<and>
      shows_itself s (start_all s) \<and> shows_itself s (pause_all s) \<and>
      (fst (toggle_pause tid s) = None \<longrightarrow> shows_itself s (snd (toggle_pause tid s))) \<and>
      (fst (remove_task tid s) = None \<longrightarrow> shows_itself s (snd (remove_task tid s)))) \<and>
   (sch_events_closed s \<longrightarrow> emit_locked s = s)"
proof (intro conjI impI)
  assume open_ev: "\<not> sch_events_closed s"
  note show_it = shows_itself_emit[OF _ open_ev]
  have set_max: "same_channel s (s\<lparr>sch_max_running := x\<rparr>)" for x by (simp add: same_channel_def)
  show "shows_itself s (set_max_running m s)" unfolding set_max_running_def
    by (rule show_it, rule same_channel_trans[OF set_max],
        rule same_channel_trans[OF same_channel_enforce], rule same_channel_waiting)
  show "shows_itself s (add u fs t s)"
  proof -
    obtain err t' where p: "prepare_added u fs s t = (err, t')" by (cases "prepare_added u fs s t")
    have "same_channel s (if c then schedule_locked x (insert_task t' s) else insert_task t' s)" for c x
      using same_channel_trans[OF same_channel_steps(5) same_channel_steps(4)] same_channel_steps(5)
      by simp
    then show ?thesis unfolding add_def p prod.case Let_def by (rule show_it)
  qed
  show "shows_itself s (start_all s)" unfolding start_all_def
    by (rule show_it, rule same_channel_trans[OF same_channel_steps(2)], rule same_channel_waiting)
  have epoch: "same_channel s (s\<lparr>sch_pause_epoch := x\<rparr>)" for x by (simp add: same_channel_def)
  show "shows_itself s (pause_all s)" unfolding pause_all_def Let_def
    by (rule show_it, rule same_channel_trans[OF epoch], rule same_channel_trans[OF same_channel_steps(2)],
        rule same_channel_trans[OF same_channel_cancel_all], rule same_channel_steps(2))
  show "shows_itself s (snd (toggle_pause tid s))" if "fst (toggle_pause tid s) = None"
    using that same_channel_trans[OF same_channel_steps(1) same_channel_steps(3)]
      same_channel_trans[OF same_channel_steps(1) same_channel_steps(4)] same_channel_steps(1)
    by (auto simp: toggle_pause_def intro!: show_it split: option.splits if_splits)
  show "shows_itself s (snd (remove_task tid s))" if gone: "fst (remove_task tid s) = None"
  proof -
    define s1 where "s1 = (case running_at s tid of None \<Rightarrow> s | Some n \<Rightarrow> cancel_run n s)"
    define s2 where "s2 = s1\<lparr>sch_tasks := AList.delete tid (sch_tasks s1), sch_order := remove1 tid (sch_order s1)\<rparr>"
    have "same_channel s s1" by (simp add: s1_def same_channel_steps split: option.split)
    then have "same_channel s s2" by (simp add: s2_def same_channel_def)
    moreover obtain t where "task_at s tid = Some t"
      using gone by (auto simp: remove_task_def split: option.splits)
    ultimately show ?thesis
      by (simp add: remove_task_def Let_def flip: s1_def s2_def)
        (rule show_it, rule same_channel_trans[OF _ same_channel_waiting])
  qed
qed (simp add: emit_locked_def)

lemma newest_event_current_witness:
  "shows_itself demo2 (start_all demo2) \<and> shows_itself demo2 (set_max_running 2 demo2)"
  using newest_event_current[THEN conjunct1, THEN mp, OF demo2_value(10)] by blast

lemma map_filter_ids:
  assumes "core_inv s" and "set ids \<subseteq> dom (task_at s)"
  shows "map tsk_id (List.map_filter (task_at s) ids) = ids"
  using assms(2) by (induction ids) (auto simp: map_filter_simps core_inv_id[OF assms(1)] split: option.split)

lemma order_tasks_ids: "core_inv s \<Longrightarrow> map tsk_id (order_tasks s) = sch_order s"
  unfolding order_tasks_def by (rule map_filter_ids) (simp_all add: core_invD(4))

text \<open>
  The snapshot the user interface shows has one entry for each task of the table and no
  other, newest task first.
\<close>

theorem snapshot_complete:
  assumes "sys_reach u S"
  shows "set (snapshot (sys_sched S)) = snapshot_of ` ran (task_at (sys_sched S)) \<and>
    sorted (map (\<lambda>x. - snp_created_at x) (snapshot (sys_sched S))) \<and>
    distinct (map snp_id (snapshot (sys_sched S)))"
proof -
  let ?s = "sys_sched S"
  note core = sys_reach_core[OF assms]
  note ids = order_tasks_ids[OF core]
  have "snp_id \<circ> snapshot_of = tsk_id" by (simp add: fun_eq_iff snapshot_of_def)
  then have "distinct (map snp_id (map snapshot_of (order_tasks ?s)))"
    using core_invD(3)[OF core] ids by simp
  moreover have "distinct (map snp_id (sort_key f xs))" if "distinct (map snp_id xs)" for f :: "task_snapshot \<Rightarrow> int" and xs
    using that by (simp add: distinct_map)
  ultimately have "distinct (map snp_id (snapshot ?s))"
    unfolding snapshot_def snapshot_locked_def by blast
  then show ?thesis
    using snapshot_sorted[of ?s] snapshot_set[of ?s] set_order_tasks[OF core] by (simp add: snapshot_def)
qed

lemma snapshot_complete_witness:
  "snapshot_of (demo_task ''b'' 200) \<in> set (snapshot demo2) \<and> distinct (map snp_id (snapshot demo2))"
proof -
  have "demo_task ''b'' 200 \<in> ran (task_at demo2)" by (rule ranI[of _ "''b''"]) simp
  with snapshot_complete[OF demo_reach2] show ?thesis by (metis demo_system_simps(1) imageI)
qed

section \<open>What is saved is what the next start loads\<close>

text \<open>A task after a load: FTP directories may have moved and then are paused.\<close>

definition restored :: "task \<Rightarrow> task \<Rightarrow> bool" where
  "restored t t' \<longleftrightarrow> (if is_ftp_directory t
     then tsk_id t' = tsk_id t \<and> tsk_pack_id t' = tsk_pack_id t \<and> tsk_created_at t' = tsk_created_at t \<and>
       tsk_uses_slot t' = tsk_uses_slot t \<and> tsk_status t' \<in> {tsk_status (settle t), StatusPaused}
     else t' = settle t)"

lemma load_loop_restores:
  "load_loop u fs ts m s = (None, m', s') \<Longrightarrow> distinct (map tsk_id ts) \<Longrightarrow>
   (\<And>t. t \<in> set ts \<Longrightarrow> tsk_id t \<notin> set (sch_order s)) \<Longrightarrow>
   \<exists>ts'. order_tasks s' = order_tasks s @ ts' \<and> list_all2 restored ts ts'"
proof (induction ts arbitrary: m s)
  case (Cons t ts)
  from Cons.prems(1) obtain p where p: "prepare_ftp_directory_output u fs t (reserved_outputs_locked s) = Inr p"
    by (cases "prepare_ftp_directory_output u fs t (reserved_outputs_locked s)") simp_all
  note k = prepare_keeps[OF p]
  let ?s = "insert_task (settle p) s"
  have i: "tsk_id (settle p) = tsk_id t" using k by simp
  have o: "order_tasks ?s = order_tasks s @ [settle p]"
  proof -
    have "task_at ?s x = task_at s x" if "x \<in> set (sch_order s)" for x
      using that Cons.prems(3)[of t] i by (auto simp: fun_upd_apply)
    from order_tasks_cong[of s ?s "[tsk_id t]", OF this] show ?thesis
      using i by (simp add: map_filter_simps)
  qed
  have "tsk_id x \<notin> set (sch_order ?s)" if "x \<in> set ts" for x
  proof -
    from that have "tsk_id x \<in> tsk_id ` set ts" by simp
    moreover have "tsk_id t \<notin> tsk_id ` set ts" using Cons.prems(2) by simp
    ultimately have "tsk_id x \<noteq> tsk_id t" by metis
    with Cons.prems(3)[of x] that i show ?thesis by simp
  qed
  moreover have "\<exists>m2. load_loop u fs ts m2 ?s = (None, m', s')" using Cons.prems(1) p by (auto simp: settle_def)
  moreover have "distinct (map tsk_id ts)" using Cons.prems(2) by simp
  ultimately obtain ts' where ts': "order_tasks s' = order_tasks ?s @ ts'" "list_all2 restored ts ts'"
    using Cons.IH by blast
  have "p = t" if "\<not> is_ftp_directory t" using p that by (simp add: prepare_ftp_directory_output_def)
  then have "restored t (settle p)"
    using k by (auto simp: restored_def settle_def is_active_def pause_task_def clear_speed_def set_status_def)
  with o ts' show ?case by simp
qed simp

text \<open>
  C5: What \<open>StopAll\<close> saves is what the next start loads. When the new scheduler loads the saved list
  without an error, it has a task for each one that the old scheduler had, in the same order: a
  task that was active is paused, and every other one is equal in every field, except that a
  directory task of FTP whose output is taken may have got another output and been paused. Without
  such directory tasks there is no error; with an error nothing is saved over the list.
\<close>

theorem save_load_roundtrip:
  assumes "sys_reach u S" and "sch_has_store (sys_sched S)" and "\<not> sch_load_failed (sys_sched S)"
    and "load u fs (Inr (the (sch_disk (stop_finish True (sys_sched S))))) (new_scheduler reg True m) = (err, s')"
  shows "sch_disk (stop_finish True (sys_sched S)) = Some (order_tasks (sys_sched S)) \<and>
    (err = None \<longrightarrow> list_all2 restored (order_tasks (sys_sched S)) (order_tasks s')) \<and>
    (err \<noteq> None \<longrightarrow> sch_load_failed s' \<and> (\<exists>t\<in>set (order_tasks (sys_sched S)). is_ftp_directory t) \<and>
      (\<forall>ok. sch_disk (save_locked ok s') = sch_disk s'))"
proof -
  let ?ts = "order_tasks (sys_sched S)"
  let ?new = "(new_scheduler reg True m)\<lparr>sch_load_failed := False\<rparr>"
  note core = sys_reach_core[OF assms(1)]
  have "map clone_task ?ts = ?ts" by (induction ?ts) simp_all
  then have disk: "sch_disk (stop_finish True (sys_sched S)) = Some ?ts"
    using assms(2,3) by (simp add: stop_finish_def save_locked_def order_tasks_def table_defs)
  have d: "distinct (map tsk_id ?ts)" using order_tasks_ids[OF core] core_invD(3)[OF core] by simp
  have n: "sch_order ?new = []" "order_tasks ?new = []" "sch_has_store (new_scheduler reg True m)"
    by (simp_all add: new_scheduler_def order_tasks_def map_filter_simps)
  obtain e m' s1 where l: "load_loop u fs ?ts False ?new = (e, m', s1)" by (metis prod_cases3)
  have err: "err = e" and s': "s' = (if e = None then emit_locked (if m' then schedule_save_locked s1 else s1) else s1)"
    using assms(4) disk l n(3) by (auto simp: load_def split: option.splits)
  have same: "order_tasks s' = order_tasks s1" by (simp add: s' order_tasks_def)
  have ok: "list_all2 restored ?ts (order_tasks s')" if "e = None"
    using load_loop_restores[of u fs ?ts False ?new m' s1] l that d n same by auto
  have failed: "sch_load_failed s2" if "load_loop u fs ts b s0 = (Some x, b', s2)" for ts b s0 x b' s2
    using that by (induction ts arbitrary: b s0) (auto split: sum.splits)
  have plain: "e = None" if "\<not> (\<exists>t\<in>set ?ts. is_ftp_directory t)"
    using load_plain(1)[of ?ts u fs reg m] d that assms(4) disk err by simp
  show ?thesis
    using disk ok err s' plain failed[of ?ts False ?new _ m' s1] l
    by (cases e) (auto simp: save_locked_def)
qed

lemma save_load_roundtrip_witness:
  "\<exists>s'. load ascii_tables demo_fs (Inr (order_tasks demo2)) (new_scheduler demo_registry True 1) = (None, s') \<and>
     list_all2 restored (order_tasks demo2) (order_tasks s')"
proof -
  have s: "sch_has_store (sys_sched (demo_system demo2))" "\<not> sch_load_failed (sys_sched (demo_system demo2))"
    using demo2_value(8,9) by simp_all
  obtain err s' where l: "load ascii_tables demo_fs (Inr (the (sch_disk (stop_finish True (sys_sched (demo_system demo2))))))
      (new_scheduler demo_registry True 1) = (err, s')" by fastforce
  note r = save_load_roundtrip[OF demo_reach2 s l]
  have "set (order_tasks demo2) = {set_status StatusRunning (demo_task ''a'' 100), demo_task ''b'' 200}"
    by (simp add: order_tasks_def demo2_value map_filter_simps)
  then have "\<not> (\<exists>t\<in>set (order_tasks demo2). is_ftp_directory t)" by (simp add: is_ftp_directory_def)
  with r have "err = None" by auto
  with r l show ?thesis by auto
qed

end
