(* ===== verification/SchedulerRaces.thy ===== *)
theory SchedulerRaces
  imports SchedulerProps
begin

text \<open>
  What the interleavings of the scheduler still allow: a task redownloaded while another caller
  starts it, the entry a removed task leaves in the running table, and the stage of a task whose
  worker is unknown.
\<close>

section \<open>A redownload that another caller overtakes\<close>

definition waiting_started :: sched where
  "waiting_started = set_max_running 2 demo2"

definition b_run :: sched where
  "b_run = start_run ''b'' (demo_task ''b'' 200) \<lparr>wrk_name = ''http'', wrk_resets = False\<rparr>
     (demo2\<lparr>sch_max_running := 2\<rparr>)"

lemma max_running_reads [simp]:
  "task_at (s\<lparr>sch_max_running := m\<rparr>) = task_at s" "running_at (s\<lparr>sch_max_running := m\<rparr>) = running_at s"
  "running_slot_count (s\<lparr>sch_max_running := m\<rparr>) = running_slot_count s"
  by (simp_all add: table_defs running_slot_count_def)

lemma waiting_started_value: "waiting_started = save_and_emit b_run"
proof -
  have c: "running_slot_count demo2 = 1" by (simp add: running_slot_count_def demo2_value)
  have w: "registry_worker demo_registry ''http'' = Some \<lparr>wrk_name = ''http'', wrk_resets = False\<rparr>"
    by (simp add: demo_registry_def registry_worker_register)
  show ?thesis
    unfolding waiting_started_def set_max_running_def enforce_max_running_locked_def
      schedule_waiting_locked_def b_run_def
    by (simp add: c w demo2_value schedule_if_waiting_def schedule_locked_def)
qed

lemma waiting_started_reads [simp]:
  "task_at waiting_started ''b'' = Some (set_status StatusRunning (demo_task ''b'' 200))"
  "running_at waiting_started ''b'' = Some 1" "sch_order waiting_started = [''a'', ''b'']"
  "task_at waiting_started ''a'' = Some (set_status StatusRunning (demo_task ''a'' 100))"
  "sch_runs waiting_started = sch_runs demo1 @ [\<lparr>run_task_id = ''b'',
     run_worker = \<lparr>wrk_name = ''http'', wrk_resets = False\<rparr>, run_canceled = False, run_phase = Spawned\<rparr>]"
  "sch_registry waiting_started = demo_registry" "sch_stopping waiting_started = False"
  by (simp_all add: waiting_started_value b_run_def start_run_def)
    (simp_all add: table_defs put_task_def demo2_value demo1_value)

definition b_working :: sched where
  "b_working = run_begin 1 waiting_started"

lemma b_working_reads [simp]:
  "task_at b_working = task_at waiting_started" "running_at b_working = running_at waiting_started"
  "sch_order b_working = [''a'', ''b'']" "sch_stopping b_working = False"
  "sch_registry b_working = demo_registry"
  "run_phase (sch_runs b_working ! 1) = Working (set_status StatusRunning (demo_task ''b'' 200))"
  "\<not> run_canceled (sch_runs b_working ! 1)" "run_task_id (sch_runs b_working ! 1) = ''b''"
  by (simp_all add: b_working_def run_begin_def demo1_value) (simp_all add: set_phase_def demo1_value)

lemma race_cleanup:
  "fst (cleanup_files ascii_tables (set_status StatusRunning (demo_task ''b'' 200)) demo_fs) = None"
  by code_simp

text \<open>The redownload has seen the task as waiting; then the task started, and began to work.\<close>

definition race_system :: system where
  "race_system = \<lparr>sys_sched = b_working, sys_edit = RdFiles ''b'' (set_status StatusRunning (demo_task ''b'' 200),
     Some \<lparr>wrk_name = ''http'', wrk_resets = False\<rparr>), sys_serial = None, sys_fs = demo_fs\<rparr>"

lemma race_reach: "sys_reach ascii_tables race_system"
proof -
  let ?sys = "\<lambda>s e. \<lparr>sys_sched = s, sys_edit = e, sys_serial = None, sys_fs = demo_fs\<rparr>"
  let ?t = "set_status StatusRunning (demo_task ''b'' 200)"
  let ?w = "Some \<lparr>wrk_name = ''http'', wrk_resets = False\<rparr>"
  have "sys_reach ascii_tables (?sys demo2 EditFree)"
    using demo_reach2 by (simp add: demo_system_def)
  moreover have "sys_step ascii_tables (?sys demo2 EditFree) (?sys demo2 (RdWait ''b'' None))"
    using st_rd_begin[of "?sys demo2 EditFree" "''b''" None demo2] by (simp add: redownload_stop_def)
  ultimately have "sys_reach ascii_tables (?sys demo2 (RdWait ''b'' None))" by (rule reach_step)
  moreover have "sys_step ascii_tables (?sys demo2 (RdWait ''b'' None))
      (?sys waiting_started (RdWait ''b'' None))"
    using st_set_max[of _ "?sys demo2 (RdWait ''b'' None)" 2] by (simp add: waiting_started_def)
  ultimately have "sys_reach ascii_tables (?sys waiting_started (RdWait ''b'' None))"
    by (rule reach_step)
  moreover have "sys_step ascii_tables (?sys waiting_started (RdWait ''b'' None))
      (?sys b_working (RdWait ''b'' None))"
    using st_run_begin[of 1 "?sys waiting_started (RdWait ''b'' None)"]
    by (simp add: b_working_def demo1_value)
  ultimately have "sys_reach ascii_tables (?sys b_working (RdWait ''b'' None))" by (rule reach_step)
  moreover have "redownload_copy ''b'' b_working = Inr (?t, ?w)"
    by (simp add: redownload_copy_def demo_registry_def registry_worker_register)
  then have "sys_step ascii_tables (?sys b_working (RdWait ''b'' None))
      (?sys b_working (RdFiles ''b'' (?t, ?w)))"
    using st_rd_copy[of "?sys b_working (RdWait ''b'' None)" "''b''" None "(?t, ?w)"]
    by (simp add: waited_def)
  ultimately show ?thesis unfolding race_system_def by (rule reach_step)
qed

text \<open>
  C33: \<open>Redownload\<close> can be overtaken by the start of its task. It waits for no run of a task that
  waits; when another caller frees a slot between its locked sections, the task starts and works.
  Then the two remaining steps of the redownload remove the files of the task under its run, and set
  the task to waiting without cancelling the run, which works on.
\<close>

theorem redownload_overtaken:
  "\<exists>S1 S2 S3 tw c t w. sys_reach ascii_tables S1 \<and>
     sys_edit S1 = RdFiles ''b'' tw \<and> running_at (sys_sched S1) ''b'' = Some 1 \<and>
     run_phase (sch_runs (sys_sched S1) ! 1) = Working w \<and> \<not> run_canceled (sch_runs (sys_sched S1) ! 1) \<and>
     sys_step ascii_tables S1 S2 \<and> sys_edit S2 = RdCommit ''b'' c \<and> sys_sched S2 = sys_sched S1 \<and>
     cleanup_files ascii_tables (fst tw) (sys_fs S1) = (None, sys_fs S2) \<and>
     sys_step ascii_tables S2 S3 \<and> sys_edit S3 = EditFree \<and>
     sys_sched S3 = snd (redownload_commit ''b'' c (sys_sched S2)) \<and>
     fst (redownload_commit ''b'' c (sys_sched S2)) = None \<and>
     task_at (sys_sched S3) ''b'' = Some t \<and> tsk_status t = StatusWaiting \<and>
     running_at (sys_sched S3) ''b'' = Some 1 \<and>
     run_phase (sch_runs (sys_sched S3) ! 1) = Working w \<and> \<not> run_canceled (sch_runs (sys_sched S3) ! 1)"
proof -
  let ?t = "set_status StatusRunning (demo_task ''b'' 200)"
  let ?w = "Some \<lparr>wrk_name = ''http'', wrk_resets = False\<rparr>"
  let ?r = "reset_progress ?t ?t"
  let ?s = "put_task ''b'' ?r b_working"
  obtain fs' where fs': "cleanup_files ascii_tables ?t demo_fs = (None, fs')"
    using race_cleanup by (metis prod.collapse)
  let ?S2 = "\<lparr>sys_sched = b_working, sys_edit = RdCommit ''b'' ?t, sys_serial = None, sys_fs = fs'\<rparr>"
  let ?S3 = "?S2\<lparr>sys_sched := snd (redownload_commit ''b'' ?t b_working), sys_edit := EditFree\<rparr>"
  have "redownload_files ascii_tables demo_fs reset (?t, ?w) = (Inr ?t, fs')" for reset
    by (simp add: redownload_files_def fs')
  then have 2: "sys_step ascii_tables race_system ?S2"
    using st_rd_files[of race_system "''b''" "(?t, ?w)" ascii_tables _ ?t fs'] by (simp add: race_system_def)
  have 3: "sys_step ascii_tables ?S2 ?S3"
    using st_rd_commit[of ?S2 "''b''" ?t ascii_tables] by simp
  have st: "tsk_status ?r = StatusWaiting" by (simp add: reset_progress_def)
  have "schedule_waiting_locked ?s = ?s"
    by (simp add: schedule_waiting_locked_def schedule_if_waiting_def schedule_locked_def st)
  then have c: "redownload_commit ''b'' ?t b_working = (None, save_and_emit ?s)"
    by (simp add: redownload_commit_def)
  have r1: "sch_runs (save_and_emit ?s) ! 1 = sch_runs b_working ! 1" by simp
  show ?thesis
    by (intro exI[of _ race_system] exI[of _ ?S2] exI[of _ ?S3] exI[of _ "(?t, ?w)"] exI[of _ ?t] exI[of _ ?r])
      (use race_reach 2 3 c st r1 fs' in \<open>simp add: race_system_def b_working_reads[unfolded One_nat_def]\<close>)
qed

section \<open>Smaller divergences\<close>

text \<open>
  A run whose task was removed before it began leaves its entry in the running table for good:
  only \<open>run_end\<close> deletes it, and a finished run never reaches that.
\<close>

lemma removed_before_begin_leaks:
  assumes "task_at s (run_task_id (sch_runs s ! n)) = None"
  shows "sch_running (run_begin n s) = sch_running s"
    and "n < length (sch_runs s) \<Longrightarrow> run_finished (run_begin n s) n"
  using assms by (simp_all add: run_begin_def run_finished_def set_phase_def)

text \<open>A task whose pack has no worker fails, and its stage keeps the status it had.\<close>

lemma unregistered_stage_differs:
  assumes "task_at s tid = Some t" and "tsk_status t = StatusWaiting" and "running_at s tid = None"
    and "\<not> sch_stopping s" and "\<not> tsk_uses_slot t" and "registry_worker (sch_registry s) (tsk_pack_id t) = None"
  shows "\<exists>t'. task_at (schedule_locked tid s) tid = Some t' \<and> tsk_status t' = StatusFailed \<and>
    tsk_stage t' = tsk_stage t"
  using assms by (simp add: schedule_locked_def)

end
