(* ===== verification/SchedulerIdle.thy ===== *)
theory SchedulerIdle
  imports SchedulerProps
begin

text \<open>
  No step of the scheduler leaves a slot idle: a waiting task that could run is started by the same
  locked section that made it able to.
\<close>

section \<open>One step\<close>

definition none_startable :: "sched \<Rightarrow> bool" where
  "none_startable s \<longleftrightarrow> (\<forall>tid. \<not> startable s tid)"

lemma none_startable_save_and_emit [simp]: "none_startable (save_and_emit s) = none_startable s"
  by (simp add: none_startable_def)

lemma scheduled_none [simp]: "core_inv s \<Longrightarrow> none_startable (schedule_waiting_locked s)"
  by (simp add: none_startable_def schedule_waiting_complete)

text \<open>The tasks outside X wait only if they did before, and no slot was given back.\<close>

lemma startable_kept:
  assumes none: "\<not> startable s tid" and core: "core_inv s" "core_inv s'"
    and same: "sch_max_running s' = sch_max_running s" "sch_stopping s \<Longrightarrow> sch_stopping s'"
    and slots: "running_slots s \<subseteq> running_slots s'"
    and waiting: "\<And>t'. task_at s' tid = Some t' \<Longrightarrow> tsk_status t' = StatusWaiting \<Longrightarrow> running_at s' tid = None \<Longrightarrow>
      \<exists>t. task_at s tid = Some t \<and> tsk_status t = StatusWaiting \<and> running_at s tid = None \<and>
        (tsk_uses_slot t \<longrightarrow> tsk_uses_slot t')"
  shows "\<not> startable s' tid"
proof
  assume st: "startable s' tid"
  then obtain t' where t': "task_at s' tid = Some t'" "tsk_status t' = StatusWaiting" "running_at s' tid = None"
    "\<not> sch_stopping s'" "tsk_uses_slot t' \<Longrightarrow> running_slot_count s' < sch_max_running s'"
    by (auto simp: startable_def split: option.splits)
  from waiting[OF t'(1-3)] obtain t where t: "task_at s tid = Some t" "tsk_status t = StatusWaiting"
    "running_at s tid = None" "tsk_uses_slot t \<Longrightarrow> tsk_uses_slot t'" by blast
  have "running_slot_count s \<le> running_slot_count s'"
    using card_mono[OF finite_running_slots slots] core by (simp add: count_card)
  with t t' same none show False by (auto simp: startable_def)
qed

lemma none_startable_kept:
  assumes "none_startable s" and "core_inv s" "core_inv s'"
    and "sch_max_running s' = sch_max_running s" "sch_stopping s \<Longrightarrow> sch_stopping s'"
    and "running_slots s \<subseteq> running_slots s'"
    and "\<And>tid t'. task_at s' tid = Some t' \<Longrightarrow> tsk_status t' = StatusWaiting \<Longrightarrow> running_at s' tid = None \<Longrightarrow>
      \<exists>t. task_at s tid = Some t \<and> tsk_status t = StatusWaiting \<and> running_at s tid = None \<and>
        (tsk_uses_slot t \<longrightarrow> tsk_uses_slot t')"
  shows "none_startable s'"
  unfolding none_startable_def
proof
  fix tid
  have "\<not> startable s tid" using assms(1) by (simp add: none_startable_def)
  then show "\<not> startable s' tid" by (rule startable_kept) (use assms(2-7) in blast)+
qed

text \<open>A task is put in the table and scheduled.\<close>

lemma schedule_put_none:
  assumes none: "none_startable s" and core: "core_inv s" "core_inv (put_task tid t' s)"
    and slot: "running_at s tid \<noteq> None \<Longrightarrow> task_at s tid = Some t \<Longrightarrow> tsk_uses_slot t \<Longrightarrow> tsk_uses_slot t'"
    and t: "task_at s tid = Some t"
  shows "none_startable (schedule_locked tid (put_task tid t' s))"
  unfolding none_startable_def
proof
  fix x
  let ?s = "put_task tid t' s"
  show "\<not> startable (schedule_locked tid ?s) x"
  proof (cases "x = tid")
    case True
    then show ?thesis by (simp add: schedule_locked_not_startable)
  next
    case False
    have "\<not> startable s x" using none by (simp add: none_startable_def)
    then have "\<not> startable ?s x"
      by (rule startable_kept[OF _ core]) (use slot t False in \<open>auto simp: running_slots_def\<close>)
    with schedule_locked_mono[OF core(2)] show ?thesis by blast
  qed
qed

lemma put_not_waiting_none:
  assumes "none_startable s" and "core_inv s" "core_inv (put_task tid t' s)" and "tsk_status t' \<noteq> StatusWaiting"
    and "\<And>t. running_at s tid \<noteq> None \<Longrightarrow> task_at s tid = Some t \<Longrightarrow> tsk_uses_slot t \<Longrightarrow> tsk_uses_slot t'"
  shows "none_startable (put_task tid t' s)"
  by (rule none_startable_kept[OF assms(1-3)])
    (use assms(4,5) in \<open>auto simp: running_slots_def split: if_splits\<close>)

lemma pause_task_slot [simp]: "tsk_uses_slot (pause_task t) = tsk_uses_slot t" "tsk_status (pause_task t) = StatusPaused"
  by (simp_all add: pause_task_def clear_speed_def set_status_def)

lemma set_status_slot [simp]: "tsk_uses_slot (set_status x t) = tsk_uses_slot t" "tsk_status (set_status x t) = x"
  "tsk_id (set_status x t) = tsk_id t"
  by (simp_all add: set_status_def)

lemma running_slots_cancel [simp]: "running_slots (cancel_run n s) = running_slots s"
  by (simp add: running_slots_def)

lemma startable_cancel [simp]: "startable (cancel_run n s) tid = startable s tid"
  by (simp add: startable_def running_slot_count_def split: option.split)

lemma none_startable_cancel [simp]: "none_startable (cancel_run n s) = none_startable s"
  by (simp add: none_startable_def)

section \<open>The operations\<close>

lemma none_add:
  assumes "none_startable s" and "sched_inv s" and "fresh_id s (tsk_id t)" and "\<not> is_active t"
  shows "none_startable (add u fs t s)"
proof -
  obtain err t' where p: "prepare_added u fs s t = (err, t')" by fastforce
  note pr = prepare_added_props[OF p assms(4)]
  let ?s = "insert_task t' s"
  have core: "core_inv s" "core_inv ?s"
    using assms(2,3) pr by (auto intro!: inv_core insert_task_inv)
  have old: "\<not> startable ?s x" if "x \<noteq> tsk_id t \<or> tsk_status t' \<noteq> StatusWaiting" for x
  proof -
    have "\<not> startable s x" using assms(1) by (simp add: none_startable_def)
    then show ?thesis
      by (rule startable_kept[OF _ core])
        (use assms(3) pr that in \<open>auto simp: running_slots_def fresh_id_def split: if_splits\<close>)
  qed
  have fail: "tsk_status t' \<noteq> StatusWaiting" if "err \<noteq> None"
    using p that by (auto simp: prepare_added_def fail_task_def split: sum.splits)
  have "\<not> startable (schedule_locked (tsk_id t) ?s) x" for x
    using schedule_locked_not_startable schedule_locked_mono[OF core(2), of "tsk_id t" x] old[of x]
    by (cases "x = tsk_id t") auto
  moreover have "\<not> startable ?s x" if "\<not> (err = None \<and> tsk_status t' \<noteq> StatusPaused)" for x
    using that fail old by auto
  ultimately show ?thesis by (auto simp: add_def p Let_def none_startable_def pr)
qed

lemma none_toggle:
  assumes "none_startable s" and "sched_inv s"
  shows "none_startable (snd (toggle_pause tid s))"
proof (cases "task_at s tid")
  case None
  with assms show ?thesis by (simp add: toggle_pause_def)
next
  case (Some t)
  note core = inv_core[OF assms(2)]
  have id: "tsk_id t = tid" by (rule core_inv_id[OF core Some])
  have p: "none_startable (put_task tid (pause_task t) s)"
    by (rule put_not_waiting_none[OF assms(1) core])
      (use Some id core in \<open>auto intro!: put_task_core\<close>)
  have w: "none_startable (schedule_locked tid (put_task tid (set_status StatusWaiting t) s))"
    by (rule schedule_put_none[OF assms(1) core _ _ Some]) (use Some id core in \<open>auto intro!: put_task_core\<close>)
  show ?thesis using Some p w assms(1) by (simp add: toggle_pause_def)
qed

lemma none_pause_all:
  assumes "none_startable s"
  shows "none_startable (pause_all s)"
proof -
  have "tsk_status (if tsk_status t = StatusWaiting then pause_task t else t) \<noteq> StatusWaiting" for t by simp
  then show ?thesis
    by (auto simp: pause_all_def none_startable_def startable_def split: option.splits if_splits)
qed

lemma none_redownload_commit:
  assumes "none_startable s" and "sched_inv s"
  shows "none_startable (snd (redownload_commit tid c s))"
proof (cases "sch_stopping s \<or> task_at s tid = None")
  case True
  with assms(1) show ?thesis by (auto simp: redownload_commit_def)
next
  case False
  then obtain t where t: "task_at s tid = Some t" by auto
  have "core_inv (put_task tid (reset_progress c t) s)"
    using inv_core[OF assms(2)] t core_inv_id[OF inv_core[OF assms(2)] t]
    by (intro put_task_core) (auto simp: reset_progress_def is_active_def)
  with False t show ?thesis by (simp add: redownload_commit_def)
qed

lemma none_redownload_stop:
  assumes "none_startable s" and "sched_inv s" and "redownload_stop tid s = Inr (w, s')"
  shows "none_startable s'"
proof -
  note core = inv_core[OF assms(2)]
  have "none_startable (put_task tid (set_status StatusPaused t) s)" if t: "task_at s tid = Some t" for t
    by (rule put_not_waiting_none[OF assms(1) core])
      (use t core core_inv_id[OF core t] in \<open>auto intro!: put_task_core\<close>)
  then show ?thesis using assms by (auto simp: redownload_stop_def split: option.splits)
qed

lemma none_emit [simp]: "none_startable (emit_locked s) = none_startable s"
  by (simp add: none_startable_def startable_def running_slot_count_def split: option.split)

lemma none_edit_begin:
  assumes "none_startable s" and "sched_inv s" and "edit_begin tid s = Inr (w, s')"
  shows "none_startable s'"
proof -
  note core = inv_core[OF assms(2)]
  have "none_startable (put_task tid (pause_task t) s)" if t: "task_at s tid = Some t" for t
    by (rule put_not_waiting_none[OF assms(1) core])
      (use t core core_inv_id[OF core t] in \<open>auto intro!: put_task_core\<close>)
  then show ?thesis using assms by (auto simp: edit_begin_def Let_def split: option.splits)
qed

text \<open>An edit may give up a slot only by changing whether its task uses one.\<close>

lemma none_edit_commit:
  assumes "none_startable s" and "sched_inv s"
    and keeps: "\<And>e. outcome = Inr e \<Longrightarrow> \<not> sch_stopping s \<Longrightarrow> task_at s tid = Some original \<Longrightarrow>
      sch_pause_epoch s = epoch \<Longrightarrow> tsk_uses_slot e = tsk_uses_slot original"
  shows "none_startable (snd (edit_commit tid resume original epoch outcome s))"
proof (cases "sch_stopping s \<or> task_at s tid = None \<or> sch_pause_epoch s \<noteq> epoch \<or> task_at s tid \<noteq> Some original")
  case True
  with assms(1) show ?thesis by (auto simp: edit_commit_def split: option.splits)
next
  case False
  then have t: "task_at s tid = Some original" "\<not> sch_stopping s" "sch_pause_epoch s = epoch" by auto
  note core = inv_core[OF assms(2)]
  have id: "tsk_id original = tid" by (rule core_inv_id[OF core t(1)])
  show ?thesis
  proof (cases outcome)
    case (Inl e)
    have "none_startable (schedule_locked tid (put_task tid (set_status StatusWaiting original) s))"
      by (rule schedule_put_none[OF assms(1) core _ _ t(1)]) (use t id core in \<open>auto intro!: put_task_core\<close>)
    with Inl t assms(1) show ?thesis by (simp add: edit_commit_def)
  next
    case (Inr e)
    let ?e = "edited_task resume original e"
    have u: "tsk_uses_slot ?e = tsk_uses_slot original"
      using keeps[OF Inr t(2,1,3)] by (simp add: edited_task_def set_status_def)
    have c: "core_inv (put_task tid ?e s)" using t id core by (auto intro!: put_task_core)
    have "none_startable (schedule_locked tid (put_task tid ?e s))"
      by (rule schedule_put_none[OF assms(1) core c _ t(1)]) (simp add: u t)
    moreover have "none_startable (put_task tid ?e s)" if "\<not> resume"
      by (rule put_not_waiting_none[OF assms(1) core c]) (use that u t in auto)
    ultimately show ?thesis using Inr t by (cases resume) (simp_all add: edit_commit_def Let_def)
  qed
qed

lemma none_stopping: "sch_stopping s \<Longrightarrow> none_startable s"
  by (simp add: none_startable_def startable_def split: option.split)

lemma none_run_begin:
  assumes "none_startable s"
  shows "none_startable (run_begin n s)"
proof -
  have "none_startable (set_phase n p s) = none_startable s" for p
    by (simp add: none_startable_def startable_def running_slot_count_def split: option.split)
  with assms show ?thesis by (simp add: run_begin_def split: option.split)
qed

lemma running_slots_enforce: "running_slots s \<subseteq> running_slots (enforce_loop ids k s)"
proof (induction ids k s rule: enforce_loop.induct)
  case (2 tid ids kept s)
  have "running_slots s \<subseteq> running_slots (cancel_run n (put_task tid (pause_task t) s))" if "task_at s tid = Some t" for n t
    using that by (auto simp: running_slots_def)
  with 2 show ?case by (auto split: option.split) blast+
qed simp

lemma enforce_loop_waits:
  "task_at (enforce_loop ids k s) x = Some t' \<Longrightarrow> tsk_status t' = StatusWaiting \<Longrightarrow>
    task_at s x = Some t'"
proof (induction ids k s rule: enforce_loop.induct)
  case (2 tid ids kept s)
  show ?case
  proof (cases "\<exists>n t. running_at s tid = Some n \<and> task_at s tid = Some t \<and> tsk_uses_slot t \<and> \<not> kept < sch_max_running s")
    case True
    then obtain n t where t: "running_at s tid = Some n" "task_at s tid = Some t" "tsk_uses_slot t" "\<not> kept < sch_max_running s"
      by blast
    then have "(if x = tid then Some (pause_task t) else task_at s x) = Some t'"
      using "2.IH" t "2.prems" by simp
    then show ?thesis using "2.prems"(2) by (auto split: if_splits)
  next
    case False
    then show ?thesis using 2 by (simp split: option.splits if_splits)
  qed
qed simp

lemma enforce_loop_running [simp]: "running_at (enforce_loop ids k s) = running_at s"
  by (induction ids k s rule: enforce_loop.induct) (simp_all split: option.split)

lemma report_task_waits:
  assumes "tsk_status (report_task upd t) = StatusWaiting"
  shows "is_active t \<or> tsk_status t = StatusWaiting"
proof -
  have "tsk_status (report_task upd t) = (case (case upd_status upd of
      Some x \<Rightarrow> if is_active t then Some x else None | None \<Rightarrow> None) of Some x \<Rightarrow> x | None \<Rightarrow> tsk_status t)"
    unfolding report_task_def Let_def by simp
  with assms show ?thesis by (auto split: option.splits if_splits)
qed

lemma none_report:
  assumes "none_startable s" and "sched_inv s"
  shows "none_startable (report tid upd s)"
proof (cases "task_at s tid")
  case None
  with assms(1) show ?thesis by (simp add: report_def)
next
  case (Some t)
  let ?t = "report_task upd t" and ?s = "put_task tid (report_task upd t) s"
  note inv = inv_core[OF assms(2)]
  have core: "core_inv ?s"
    using inv Some core_inv_id[OF inv Some] core_inv_active[OF inv Some] by (intro put_task_core) auto
  have wait: "tsk_status t = StatusWaiting" if "tsk_status ?t = StatusWaiting" "running_at s tid = None"
    using report_task_waits[OF that(1)] core_inv_active[OF inv Some] that(2) by auto
  have kept: "none_startable s'"
    if s': "core_inv s'" "sch_max_running s' = sch_max_running s" "sch_stopping s' = sch_stopping s"
      "running_at s' = running_at s" "running_slots ?s \<subseteq> running_slots s'"
      "\<And>x t'. task_at s' x = Some t' \<Longrightarrow> tsk_status t' = StatusWaiting \<Longrightarrow> task_at ?s x = Some t'"
      and slot: "tsk_uses_slot t \<longrightarrow> tsk_uses_slot ?t" for s'
  proof (rule none_startable_kept[OF assms(1) inv s'(1,2)])
    show "running_slots s \<subseteq> running_slots s'"
      using s'(5) slot Some by (fastforce simp: running_slots_def)
    show "\<exists>y. task_at s x = Some y \<and> tsk_status y = StatusWaiting \<and> running_at s x = None \<and>
        (tsk_uses_slot y \<longrightarrow> tsk_uses_slot t')"
      if "task_at s' x = Some t'" "tsk_status t' = StatusWaiting" "running_at s' x = None" for x t'
      using s'(6)[OF that(1,2)] that s'(4) wait slot Some by (auto split: if_splits)
  qed (use s'(3) in simp)
  have same: "none_startable ?s" if "tsk_uses_slot t \<longrightarrow> tsk_uses_slot ?t"
    by (rule kept[OF core _ _ _ _ _ that]) auto
  have "none_startable (enforce_max_running_locked ?s)" if "tsk_uses_slot t \<longrightarrow> tsk_uses_slot ?t"
  proof -
    have "none_startable (enforce_loop ids k ?s)" for ids k
      by (rule kept[OF enforce_loop_core[OF core] _ _ _ running_slots_enforce _ that])
        (auto dest: enforce_loop_waits)
    with same[OF that] show ?thesis by (simp add: enforce_max_running_locked_def)
  qed
  with same core Some show ?thesis by (simp add: report_def Let_def)
qed

lemma none_run_end:
  assumes "none_startable s" and "sched_inv s" and "n < length (sch_runs s)" and "run_phase (sch_runs s ! n) \<noteq> Finished"
  shows "none_startable (run_end n err s)"
proof (cases "task_at s (run_task_id (sch_runs s ! n))")
  case None
  let ?tid = "run_task_id (sch_runs s ! n)"
  let ?s = "set_phase n Finished (s\<lparr>sch_running := AList.delete ?tid (sch_running s)\<rparr>)"
  have e: "run_end n err s = ?s" using None by (simp add: run_end_def Let_def)
  have core: "core_inv ?s" using inv_core[OF run_end_inv[OF assms(2-4)]] e by metis
  have tabs: "running_at (s\<lparr>sch_running := AList.delete ?tid (sch_running s)\<rparr>) = (running_at s)(?tid := None)"
    by (simp add: table_defs)
  have "none_startable ?s"
    by (rule none_startable_kept[OF assms(1) inv_core[OF assms(2)] core])
      (use None in \<open>auto simp: running_slots_def tabs split: if_splits\<close>)
  with e show ?thesis by metis
next
  case (Some t)
  then show ?thesis using run_end_split[OF assms(2-4), of err] by (auto simp: inv_core)
qed

lemma none_remove:
  assumes "none_startable s" and "sched_inv s"
  shows "none_startable (snd (remove_task tid s))"
proof (cases "task_at s tid")
  case None
  with assms show ?thesis by (simp add: remove_task_def)
next
  case (Some t)
  from remove_task_split[OF assms(2) this] show ?thesis by (auto simp: inv_core)
qed

lemma none_set_max:
  assumes "sched_inv s"
  shows "none_startable (set_max_running m s)"
proof -
  have "core_inv (s\<lparr>sch_max_running := if m \<le> 0 then 1 else m\<rparr>)"
    by (rule core_inv_cong[OF inv_core[OF assms]]) (use core_invD[OF inv_core[OF assms]] in simp_all)
  then show ?thesis unfolding set_max_running_def
    by (simp add: inv_core[OF enforce_max_running_inv])
qed

lemma none_start_all: "sched_inv s \<Longrightarrow> none_startable (start_all s)"
  unfolding start_all_def
  by (simp, intro scheduled_none inv_core map_tasks_inv) (auto split: if_splits)

lemma none_stop_begin:
  assumes "stop_begin s = (ns, s')"
  shows "none_startable s'"
  by (rule none_stopping) (use assms in \<open>auto simp: stop_begin_def\<close>)

lemma none_save [simp]:
  "none_startable (save_timer_fired ok s) = none_startable s" "none_startable (stop_finish ok s) = none_startable s"
  "none_startable (snd (receive_event s)) = none_startable s"
proof -
  have "startable (save_timer_fired ok s) x = startable s x" "startable (stop_finish ok s) x = startable s x"
    "startable (snd (receive_event s)) x = startable s x" for x
    by (auto simp: startable_def running_slot_count_def save_timer_fired_def stop_finish_def save_locked_def
        receive_event_def table_defs Let_def split: option.splits list.splits)
  then show "none_startable (save_timer_fired ok s) = none_startable s" "none_startable (stop_finish ok s) = none_startable s"
    "none_startable (snd (receive_event s)) = none_startable s" by (simp_all add: none_startable_def)
qed

section \<open>All interleavings\<close>

text \<open>A commit of an edit whose callback keeps whether the task uses a slot, as its only caller's does.\<close>

definition keeps_slot :: "system \<Rightarrow> system \<Rightarrow> bool" where
  "keeps_slot S S' \<longleftrightarrow> (\<forall>tid resume t epoch x y. sys_serial S = Some (tid, resume, t, epoch) \<longrightarrow> sys_serial S' = None \<longrightarrow>
     task_at (sys_sched S) tid = Some x \<longrightarrow> task_at (sys_sched S') tid = Some y \<longrightarrow> tsk_uses_slot y = tsk_uses_slot x)"

lemma schedule_locked_slot:
  "map_option tsk_uses_slot (task_at (schedule_locked tid s) x) = map_option tsk_uses_slot (task_at s x)"
  by (auto simp: schedule_locked_def split: option.split)

lemma none_step:
  assumes "sys_step u S S'" and "sched_inv (sys_sched S)" and "none_startable (sys_sched S)" and "keeps_slot S S'"
  shows "none_startable (sys_sched S')"
  using assms
proof (induction rule: sys_step.induct)
  case (st_ed_commit S tid resume t epoch outcome)
  let ?s = "sys_sched S"
  have "tsk_uses_slot e = tsk_uses_slot t'"
    if e: "outcome = Inr e" "\<not> sch_stopping ?s" "task_at ?s tid = Some t'" "sch_pause_epoch ?s = epoch" "t' = t" for e t'
  proof -
    let ?s' = "snd (edit_commit tid resume t epoch outcome ?s)"
    have "map_option tsk_uses_slot (task_at ?s' tid) = Some (tsk_uses_slot e)"
      using e by (simp add: edit_commit_def Let_def schedule_locked_slot edited_task_def set_status_def del: map_option_eq_Some)
    then obtain y where "task_at ?s' tid = Some y" "tsk_uses_slot y = tsk_uses_slot e" by auto
    with st_ed_commit e(3) show ?thesis by (force simp: keeps_slot_def)
  qed
  then show ?case using none_edit_commit[OF st_ed_commit(4,3)] by simp
next
  case (st_stop_finish S ns ok)
  then show ?case by simp
qed (auto simp: none_add none_toggle none_pause_all none_redownload_commit none_run_begin none_report
    none_run_end none_remove none_set_max none_start_all
    intro: none_redownload_stop none_edit_begin none_stop_begin)

text \<open>The table after a load: what was stored, and nothing that was not waiting waits.\<close>

lemma load_loop_waits:
  "load_loop u fs ts m s = (err, m', s') \<Longrightarrow> (\<And>t. t \<in> set ts \<Longrightarrow> tsk_status t \<noteq> StatusWaiting) \<Longrightarrow>
    task_at s' x = Some t' \<Longrightarrow> tsk_status t' = StatusWaiting \<Longrightarrow> task_at s x = Some t'"
proof (induction ts arbitrary: m s)
  case (Cons t ts)
  show ?case
  proof (cases "prepare_ftp_directory_output u fs (clone_task t) (reserved_outputs_locked s)")
    case (Inl e)
    with Cons.prems(1,3) show ?thesis by (auto simp: table_defs)
  next
    case (Inr p)
    let ?p = "if is_active p then pause_task p else p"
    have "tsk_status ?p \<noteq> StatusWaiting"
      using prepare_keeps[OF Inr] Cons.prems(2)[of t] by auto
    moreover have "task_at (insert_task ?p s) x = Some t'"
    proof (rule Cons.IH)
      show "load_loop u fs ts (m \<or> output_file p \<noteq> output_file t) (insert_task ?p s) = (err, m', s')"
        using Cons.prems(1) Inr by simp
    qed (use Cons.prems in auto)
    ultimately show ?thesis using Cons.prems(4) by (auto split: if_splits)
  qed
qed simp

lemma none_load:
  assumes "\<And>ts t. stored = Inr ts \<Longrightarrow> t \<in> set ts \<Longrightarrow> tsk_status t \<noteq> StatusWaiting"
  shows "none_startable (snd (load u fs stored (new_scheduler reg store m)))"
proof -
  have n: "task_at (new_scheduler reg store m) x = None" for x by (simp add: new_scheduler_def task_at_def)
  have new: "none_startable (s\<lparr>sch_load_failed := b\<rparr>)" if "s = new_scheduler reg store m" for s b
    by (simp add: none_startable_def startable_def that) (simp add: new_scheduler_def task_at_def)
  show ?thesis
  proof (cases stored)
    case (Inl e)
    then show ?thesis using new[OF refl, of True] new[OF refl, of "sch_load_failed (new_scheduler reg store m)"]
      by (simp add: load_def)
  next
    case (Inr ts)
    obtain err m' s' where l: "load_loop u fs ts False ((new_scheduler reg store m)\<lparr>sch_load_failed := False\<rparr>) = (err, m', s')"
      by (metis prod_cases3)
    have "tsk_status t' \<noteq> StatusWaiting" if "task_at s' x = Some t'" for x t'
      using load_loop_waits[OF l _ that] assms[OF Inr] n[of x] by (auto simp: table_defs)
    then have "none_startable s'" "none_startable (schedule_save_locked s')"
      by (auto simp: none_startable_def startable_def split: option.split)
    moreover have "none_startable (new_scheduler reg store m)"
      by (simp add: none_startable_def startable_def n)
    ultimately show ?thesis using Inr l by (auto simp: load_def split: option.split)
  qed
qed

text \<open>
  The runs of the system that leave no task behind at their start: a new scheduler that loads no
  waiting task, or any scheduler after \<open>StartAll\<close> or a new limit. A waiting task that is loaded
  waits until the first of these.
\<close>

inductive busy :: "unicode \<Rightarrow> system \<Rightarrow> bool" for u where
  busy_start: "(\<And>ts. stored = Inr ts \<Longrightarrow> distinct (map tsk_id ts) \<and> (\<forall>t\<in>set ts. tsk_status t \<noteq> StatusWaiting)) \<Longrightarrow>
    busy u \<lparr>sys_sched = snd (load u fs stored (new_scheduler reg store m)),
      sys_edit = EditFree, sys_serial = None, sys_fs = fs\<rparr>"
| busy_start_all: "sys_reach u S \<Longrightarrow> sys_edit S = EditFree \<Longrightarrow> busy u (S\<lparr>sys_sched := start_all (sys_sched S)\<rparr>)"
| busy_set_max: "sys_reach u S \<Longrightarrow> busy u (S\<lparr>sys_sched := set_max_running m (sys_sched S)\<rparr>)"
| busy_step: "busy u S \<Longrightarrow> sys_step u S S' \<Longrightarrow> keeps_slot S S' \<Longrightarrow> busy u S'"

lemma busy_reach: "busy u S \<Longrightarrow> sys_reach u S"
proof (induction rule: busy.induct)
  case (busy_start stored fs reg store m)
  then show ?case by (intro reach_start) simp
next
  case (busy_start_all S)
  then show ?case by (blast intro: reach_step st_start_all)
next
  case (busy_set_max S m)
  then show ?case by (blast intro: reach_step st_set_max)
next
  case (busy_step S S')
  then show ?case by (blast intro: reach_step)
qed

text \<open>
  C3: No slot is left idle. Whatever steps the system makes from a start that loads no waiting task,
  or from \<open>StartAll\<close> or a new limit on, there is at no moment a waiting task that could run: one
  without a run of its own, while the scheduler is not stopping, that needs no slot or for which
  fewer entries of the running table than the limit use one (a paused task counts until its run
  has ended). The only exception that the code allows is excluded: a callback of \<open>EditTask\<close> may change
  whether a task uses a slot, which the one callback of the program does not.
\<close>

theorem work_conserved:
  assumes "busy u S"
  shows "\<not> startable (sys_sched S) tid"
proof -
  have "none_startable (sys_sched S)"
    using assms
  proof (induction rule: busy.induct)
    case (busy_start stored fs reg store m)
    then show ?case by (auto intro!: none_load)
  next
    case (busy_start_all S)
    then show ?case by (simp add: none_start_all sys_reach_inv)
  next
    case (busy_set_max S m)
    then show ?case by (simp add: none_set_max sys_reach_inv)
  next
    case (busy_step S S')
    then show ?case using none_step sys_reach_inv[OF busy_reach] by blast
  qed
  then show ?thesis by (simp add: none_startable_def)
qed

text \<open>The first task of the example is removed, which starts the second.\<close>

lemma work_conserved_witness:
  "\<not> startable (snd (remove_task ''a'' (set_max_running 1 demo2))) ''b'' \<and>
    task_at (set_max_running 1 demo2) ''b'' = Some (demo_task ''b'' 200)"
proof -
  let ?S = "(demo_system demo2)\<lparr>sys_sched := set_max_running 1 demo2\<rparr>"
  have b: "busy ascii_tables ?S" using busy_set_max[OF demo_reach2, of 1] by simp
  have "keeps_slot ?S S'" for S' by (simp add: keeps_slot_def)
  with b have "busy ascii_tables (?S\<lparr>sys_sched := snd (remove_task ''a'' (sys_sched ?S))\<rparr>)"
    by (intro busy_step[OF b st_remove])
  from work_conserved[OF this, of "''b''"] have "\<not> startable (snd (remove_task ''a'' (set_max_running 1 demo2))) ''b''"
    by simp
  moreover have "running_slot_count (demo2\<lparr>sch_max_running := 1\<rparr>) = 1"
    by (simp add: running_slot_count_def demo2_value table_defs)
  then have "task_at (set_max_running 1 demo2) ''b'' = Some (demo_task ''b'' 200)"
    by (simp add: set_max_running_def enforce_max_running_locked_def schedule_waiting_locked_def
        schedule_if_waiting_def schedule_locked_def demo2_value table_defs)
  ultimately show ?thesis by blast
qed

end
