(* ===== verification/Dispatcher.thy ===== *)
theory Dispatcher
  imports GoBase
begin

text \<open>
  The serial executor of \<open>internal/ui/dispatcher.go\<close>, through which the window runs the scheduler's
  slow operations: a queue, a goroutine that takes its actions one after the other, and a condition
  variable on which it waits. A step is a locked section, or the end of an action.
\<close>

section \<open>The executor\<close>

text \<open>
  The goroutine is about to look at the queue with the lock, waits on the condition, runs an action,
  or has returned and closed \<open>done\<close>.
\<close>

datatype 'a exec_phase = Checking | Asleep | Acting 'a | Ended

record 'a executor =
  exe_queue :: "'a list"
  exe_closed :: bool
  exe_phase :: "'a exec_phase"

definition new_executor :: "'a executor" where
  "new_executor = \<lparr>exe_queue = [], exe_closed = False, exe_phase = Checking\<rparr>"

text \<open>\<open>Signal\<close> and \<open>Broadcast\<close>: the one goroutine that may wait is woken.\<close>

definition wake :: "'a executor \<Rightarrow> 'a executor" where
  "wake s = s\<lparr>exe_phase := (case exe_phase s of Asleep \<Rightarrow> Checking | p \<Rightarrow> p)\<rparr>"

text \<open>The action None is nil.\<close>

definition submit_action :: "'a option \<Rightarrow> 'a executor \<Rightarrow> bool \<times> 'a executor" where
  "submit_action action s =
     (case action of
        None \<Rightarrow> (False, s)
      | Some a \<Rightarrow> if exe_closed s then (False, s) else (True, wake (s\<lparr>exe_queue := exe_queue s @ [a]\<rparr>)))"

text \<open>\<open>CloseAndWait\<close> up to its wait, which ends when the phase is \<open>Ended\<close>.\<close>

definition close_executor :: "'a executor \<Rightarrow> 'a executor" where
  "close_executor s = (if exe_closed s then s else wake (s\<lparr>exe_closed := True\<rparr>))"

text \<open>The loop's locked section, from the lock to the wait, the return or the action.\<close>

definition take_action :: "'a executor \<Rightarrow> 'a executor" where
  "take_action s =
     (case exe_queue s of
        [] \<Rightarrow> s\<lparr>exe_phase := (if exe_closed s then Ended else Asleep)\<rparr>
      | a # rest \<Rightarrow> s\<lparr>exe_queue := rest, exe_phase := Acting a\<rparr>)"

datatype 'a exec_event = Submitted 'a bool | NilSubmitted | Closing | Looked | Finished 'a

inductive executor_step :: "'a executor \<Rightarrow> 'a exec_event \<Rightarrow> 'a executor \<Rightarrow> bool" where
  submit: "submit_action (Some a) s = (ok, s') \<Longrightarrow> executor_step s (Submitted a ok) s'"
| submit_nil: "executor_step s NilSubmitted (snd (submit_action None s))"
| close: "executor_step s Closing (close_executor s)"
| look: "exe_phase s = Checking \<Longrightarrow> executor_step s Looked (take_action s)"
| finish: "exe_phase s = Acting a \<Longrightarrow> executor_step s (Finished a) (s\<lparr>exe_phase := Checking\<rparr>)"

inductive executor_run :: "'a executor \<Rightarrow> 'a exec_event list \<Rightarrow> 'a executor \<Rightarrow> bool" where
  nil: "executor_run s [] s"
| snoc: "executor_run s evs s' \<Longrightarrow> executor_step s' ev s'' \<Longrightarrow> executor_run s (evs @ [ev]) s''"

code_pred executor_step .

inductive_cases executor_stepE: "executor_step s ev s'"
inductive_cases executor_run_snocE: "executor_run s (evs @ [ev]) s'"

section \<open>Order\<close>

definition accepted :: "'a exec_event list \<Rightarrow> 'a list" where
  "accepted evs = List.map_filter (\<lambda>ev. case ev of Submitted a True \<Rightarrow> Some a | _ \<Rightarrow> None) evs"

definition finished :: "'a exec_event list \<Rightarrow> 'a list" where
  "finished evs = List.map_filter (\<lambda>ev. case ev of Finished a \<Rightarrow> Some a | _ \<Rightarrow> None) evs"

definition acting :: "'a executor \<Rightarrow> 'a list" where
  "acting s = (case exe_phase s of Acting a \<Rightarrow> [a] | _ \<Rightarrow> [])"

lemma accepted_simps [simp]:
  "accepted [] = []" "accepted (xs @ ys) = accepted xs @ accepted ys"
  "accepted [Submitted a ok] = (if ok then [a] else [])" "accepted [NilSubmitted] = []" "accepted [Closing] = []"
  "accepted [Looked] = []" "accepted [Finished a] = []"
  by (simp_all add: accepted_def List.map_filter_def)

lemma finished_simps [simp]:
  "finished [] = []" "finished (xs @ ys) = finished xs @ finished ys"
  "finished [Submitted a ok] = []" "finished [NilSubmitted] = []" "finished [Closing] = []"
  "finished [Looked] = []" "finished [Finished a] = [a]"
  by (simp_all add: finished_def List.map_filter_def)

text \<open>
  What waits in the queue and what is acting; the goroutine sleeps only while there is nothing to
  do, and has ended only after the closing.
\<close>

definition pending :: "'a executor \<Rightarrow> 'a list" where
  "pending s = acting s @ exe_queue s"

definition executor_inv :: "'a executor \<Rightarrow> bool" where
  "executor_inv s \<longleftrightarrow> (exe_phase s = Asleep \<longrightarrow> exe_queue s = [] \<and> \<not> exe_closed s) \<and>
     (exe_phase s = Ended \<longrightarrow> exe_queue s = [] \<and> exe_closed s)"

lemma executor_step_inv:
  assumes "executor_step s ev s'" and "executor_inv s"
  shows "executor_inv s'"
  using assms
  by cases (auto simp: executor_inv_def submit_action_def close_executor_def take_action_def wake_def
      split: if_splits exec_phase.splits list.splits)

lemma executor_step_order:
  assumes "executor_step s ev s'"
  shows "finished [ev] @ pending s' = pending s @ accepted [ev]"
  using assms
  by cases (auto simp: pending_def acting_def submit_action_def close_executor_def take_action_def wake_def
      split: if_splits exec_phase.splits list.splits)

lemma executor_run_order:
  "executor_run s evs s' \<Longrightarrow> finished evs @ pending s' = pending s @ accepted evs"
proof (induction rule: executor_run.induct)
  case (snoc s evs s' ev s'')
  have "finished (evs @ [ev]) @ pending s'' = (finished evs @ pending s') @ accepted [ev]"
    using executor_step_order[OF snoc(2)] by simp
  then show ?case by (simp add: snoc.IH)
qed simp

lemma executor_run_inv: "executor_run s evs s' \<Longrightarrow> executor_inv s \<Longrightarrow> executor_inv s'"
  by (induction rule: executor_run.induct) (auto intro: executor_step_inv)

section \<open>The end\<close>

text \<open>The steps that the goroutine still has to make once the executor is closed.\<close>

definition work_left :: "'a executor \<Rightarrow> nat" where
  "work_left s = 2 * length (exe_queue s) + (case exe_phase s of Checking \<Rightarrow> 1 | Acting a \<Rightarrow> 2 | _ \<Rightarrow> 0)"

definition own_step :: "'a exec_event \<Rightarrow> bool" where
  "own_step ev \<longleftrightarrow> (case ev of Looked \<Rightarrow> True | Finished a \<Rightarrow> True | _ \<Rightarrow> False)"

lemma closed_step:
  assumes "executor_step s ev s'" and "exe_closed s"
  shows "exe_closed s' \<and> accepted [ev] = [] \<and> work_left s = work_left s' + (if own_step ev then 1 else 0)"
  using assms
  by cases (auto simp: work_left_def own_step_def submit_action_def close_executor_def take_action_def
      split: if_splits exec_phase.splits list.splits)

lemma closed_run:
  "executor_run s evs s' \<Longrightarrow> exe_closed s \<Longrightarrow>
    exe_closed s' \<and> accepted evs = [] \<and> work_left s = work_left s' + length (filter own_step evs)"
  by (induction rule: executor_run.induct) (use closed_step in fastforce)+

lemma closed_progress:
  assumes "executor_inv s" and "exe_closed s"
  shows "exe_phase s = Ended \<longleftrightarrow> work_left s = 0"
    and "exe_phase s \<noteq> Ended \<Longrightarrow> \<exists>ev s'. own_step ev \<and> executor_step s ev s'"
proof -
  show "exe_phase s = Ended \<longleftrightarrow> work_left s = 0"
    using assms by (auto simp: executor_inv_def work_left_def split: exec_phase.splits)
  assume "exe_phase s \<noteq> Ended"
  then consider "exe_phase s = Checking" | a where "exe_phase s = Acting a"
    using assms by (cases "exe_phase s") (auto simp: executor_inv_def)
  then show "\<exists>ev s'. own_step ev \<and> executor_step s ev s'"
    by cases (force simp: own_step_def intro: executor_step.look executor_step.finish)+
qed

text \<open>
  C30: Closing the executor drains it. In every run, the actions that were accepted finish one at a
  time and in the order of their submission, and the goroutine never sleeps while there is one. Once
  the executor is closed, no action is accepted, the goroutine can always go on until it has ended,
  it ends after a number of its steps that the queue bounds, and when it has ended, and
  \<open>CloseAndWait\<close> returns, every action that was ever accepted has finished.
\<close>

theorem closing_drains:
  assumes "executor_run new_executor evs s"
  shows "finished evs @ pending s = accepted evs \<and>
    (exe_phase s = Asleep \<longrightarrow> pending s = []) \<and>
    (exe_closed s \<longrightarrow> (\<forall>more_evs s'. executor_run s more_evs s' \<longrightarrow>
       accepted more_evs = [] \<and>
       length (filter own_step more_evs) \<le> 2 * length (pending s) + 1 \<and>
       (exe_phase s' \<noteq> Ended \<longrightarrow> (\<exists>ev s''. own_step ev \<and> executor_step s' ev s'')) \<and>
       (exe_phase s' = Ended \<longleftrightarrow> length (filter own_step more_evs) = work_left s) \<and>
       (exe_phase s' = Ended \<longrightarrow> finished (evs @ more_evs) = accepted evs)))"
proof (intro conjI impI allI)
  have inv: "executor_inv s"
    using executor_run_inv[OF assms] by (simp add: executor_inv_def new_executor_def)
  show order: "finished evs @ pending s = accepted evs"
    using executor_run_order[OF assms] by (simp add: pending_def acting_def new_executor_def)
  show "pending s = []" if "exe_phase s = Asleep"
    using that inv by (simp add: executor_inv_def pending_def acting_def)
  fix more_evs s'
  assume closed: "exe_closed s" and run: "executor_run s more_evs s'"
  note c = closed_run[OF run closed]
  have inv': "executor_inv s'" by (rule executor_run_inv[OF run inv])
  have ended: "exe_phase s' = Ended \<longleftrightarrow> work_left s' = 0" using closed_progress(1) inv' c by blast
  show "accepted more_evs = []" using c by simp
  have "work_left s \<le> 2 * length (pending s) + 1"
    by (auto simp: work_left_def pending_def acting_def split: exec_phase.splits)
  with c show "length (filter own_step more_evs) \<le> 2 * length (pending s) + 1" by simp
  show "\<exists>ev s''. own_step ev \<and> executor_step s' ev s''" if "exe_phase s' \<noteq> Ended"
    using closed_progress(2)[OF inv'] c that by blast
  show "exe_phase s' = Ended \<longleftrightarrow> length (filter own_step more_evs) = work_left s" using ended c by auto
  show "finished (evs @ more_evs) = accepted evs" if "exe_phase s' = Ended"
  proof -
    have "pending s' = []" using that inv' by (simp add: executor_inv_def pending_def acting_def)
    with executor_run_order[OF run] order c show ?thesis by simp
  qed
qed

definition demo_queue :: "nat executor" where
  "demo_queue = \<lparr>exe_queue = [8], exe_closed = True, exe_phase = Acting 7\<rparr>"

lemma demo_queue_run:
  "executor_run new_executor [Looked, Submitted 7 True, Looked, Submitted 8 True, Closing, Submitted 9 False] demo_queue"
proof -
  have s: "executor_run new_executor [] (new_executor :: nat executor)" by (rule executor_run.nil)
  let ?s1 = "\<lparr>exe_queue = [], exe_closed = False, exe_phase = Asleep\<rparr> :: nat executor"
  let ?s2 = "\<lparr>exe_queue = [7], exe_closed = False, exe_phase = Checking\<rparr> :: nat executor"
  let ?s3 = "\<lparr>exe_queue = [], exe_closed = False, exe_phase = Acting 7\<rparr> :: nat executor"
  let ?s4 = "\<lparr>exe_queue = [8], exe_closed = False, exe_phase = Acting 7\<rparr> :: nat executor"
  note d = new_executor_def submit_action_def wake_def take_action_def close_executor_def demo_queue_def
  have "executor_step new_executor Looked ?s1" using executor_step.look[of new_executor] by (simp add: d)
  from executor_run.snoc[OF s this] have 1: "executor_run new_executor [Looked] ?s1" by simp
  have "executor_step ?s1 (Submitted 7 True) ?s2" by (rule executor_step.submit) (simp add: d)
  from executor_run.snoc[OF 1 this] have 2: "executor_run new_executor [Looked, Submitted 7 True] ?s2" by simp
  have "executor_step ?s2 Looked ?s3" using executor_step.look[of ?s2] by (simp add: d)
  from executor_run.snoc[OF 2 this] have 3: "executor_run new_executor [Looked, Submitted 7 True, Looked] ?s3" by simp
  have "executor_step ?s3 (Submitted 8 True) ?s4" by (rule executor_step.submit) (simp add: d)
  from executor_run.snoc[OF 3 this]
  have 4: "executor_run new_executor [Looked, Submitted 7 True, Looked, Submitted 8 True] ?s4" by simp
  have "executor_step ?s4 Closing demo_queue" using executor_step.close[of ?s4] by (simp add: d)
  from executor_run.snoc[OF 4 this]
  have 5: "executor_run new_executor [Looked, Submitted 7 True, Looked, Submitted 8 True, Closing] demo_queue" by simp
  have "executor_step demo_queue (Submitted 9 False) demo_queue" by (rule executor_step.submit) (simp add: d)
  from executor_run.snoc[OF 5 this] show ?thesis by simp
qed

lemma closing_drains_witness:
  "finished [Looked, Submitted (7::nat) True, Looked, Submitted 8 True, Closing, Submitted 9 False] @ pending demo_queue = [7, 8] \<and>
    work_left demo_queue = 4"
proof -
  have a: "accepted [Looked, Submitted (7::nat) True, Looked, Submitted 8 True, Closing, Submitted 9 False] = [7, 8]"
    by (simp add: accepted_def List.map_filter_def)
  show ?thesis using closing_drains[OF demo_queue_run] a by (simp add: demo_queue_def work_left_def)
qed

end
