(* ===== verification/Settings.thy ===== *)
theory Settings
  imports TaskFilesProps
begin

text \<open>
  The settings of \<open>internal/config/settings.go\<close> and the paths of \<open>paths.go\<close>: the defaults, the
  repair of values that are out of range, and the token that pairs a browser. Random bytes and the
  operating system's directories are arguments.
\<close>

section \<open>Paths\<close>

record paths =
  pth_data_dir :: string
  pth_plugin_dir :: string
  pth_runtime_dir :: string
  pth_temp_dir :: string
  pth_log_file :: string
  pth_config_db :: string
  pth_task_file :: string
  pth_download_dir :: string

definition app_dir_name :: string where "app_dir_name = ''GhostDownloaderGo''"

definition resolved :: "string \<Rightarrow> string \<Rightarrow> paths" where
  "resolved roaming home =
     (let data_dir = fp_join [roaming, app_dir_name] in
      \<lparr>pth_data_dir = data_dir, pth_plugin_dir = fp_join [data_dir, ''plugins''],
       pth_runtime_dir = fp_join [data_dir, ''runtimes''], pth_temp_dir = fp_join [data_dir, ''temp''],
       pth_log_file = fp_join [data_dir, ''GhostDownloader.log''],
       pth_config_db = fp_join [data_dir, ''config.db''],
       pth_task_file = fp_join [data_dir, ''tasks.json''],
       pth_download_dir = fp_join [home, ''Downloads'']\<rparr>)"

fun make_dirs :: "(string \<Rightarrow> goerr option) \<Rightarrow> string list \<Rightarrow> goerr option" where
  "make_dirs mkdir [] = None"
| "make_dirs mkdir (d # ds) =
     (case mkdir d of
        Some e \<Rightarrow> Some (wrap_error (''create '' @ d @ '': '') e)
      | None \<Rightarrow> make_dirs mkdir ds)"

definition resolve_paths ::
  "string result \<Rightarrow> string result \<Rightarrow> (string \<Rightarrow> goerr option) \<Rightarrow> paths result" where
  "resolve_paths roaming home mkdir =
     (case roaming of
        Inl e \<Rightarrow> Inl (wrap_error ''user config dir: '' e)
      | Inr r \<Rightarrow>
          (case home of
             Inl e \<Rightarrow> Inl (wrap_error ''user home dir: '' e)
           | Inr h \<Rightarrow>
               (let p = resolved r h in
                case make_dirs mkdir [pth_data_dir p, pth_plugin_dir p, pth_runtime_dir p,
                    pth_temp_dir p, pth_download_dir p] of
                  Some e \<Rightarrow> Inl e
                | None \<Rightarrow> Inr p)))"

section \<open>The pairing token\<close>

text \<open>\<open>base64.RawURLEncoding\<close>: six bits a character, no padding.\<close>

definition base64_char :: "nat \<Rightarrow> char" where
  "base64_char n =
     (if n < 26 then char_of (65 + n) else if n < 52 then char_of (71 + n)
      else if n < 62 then char_of (n - 4) else if n = 62 then CHR ''-'' else CHR ''_'')"

fun base64_raw :: "nat list \<Rightarrow> string" where
  "base64_raw (a # b # c # rest) =
     [base64_char (a div 4), base64_char (a mod 4 * 16 + b div 16),
      base64_char (b mod 16 * 4 + c div 64), base64_char (c mod 64)] @ base64_raw rest"
| "base64_raw [a, b] =
     [base64_char (a div 4), base64_char (a mod 4 * 16 + b div 16), base64_char (b mod 16 * 4)]"
| "base64_raw [a] = [base64_char (a div 4), base64_char (a mod 4 * 16)]"
| "base64_raw [] = []"

definition new_browser_pair_token :: "nat list option \<Rightarrow> string" where
  "new_browser_pair_token rnd =
     (case rnd of None \<Rightarrow> ''local-development-token'' | Some b \<Rightarrow> base64_raw b)"

section \<open>Settings\<close>

record settings =
  cfg_theme_mode :: string
  cfg_download_dir :: string
  cfg_proxy_url :: string
  cfg_headers_text :: string
  cfg_cookies_text :: string
  cfg_block_num :: int
  cfg_retry_count :: int
  cfg_speed_limit_kib :: int
  cfg_max_concurrent :: int
  cfg_browser_extension_enabled :: bool
  cfg_browser_pair_token :: string
  cfg_browser_bridge_port :: int
  cfg_ffmpeg_install_dir :: string
  cfg_bt_listen_port :: int
  cfg_bt_metadata_timeout_sec :: int
  cfg_bt_connections_limit :: int
  cfg_bt_download_rate_limit_kib :: int
  cfg_bt_upload_rate_limit_kib :: int
  cfg_bt_sequential_download :: bool
  cfg_bt_enable_dht :: bool
  cfg_bt_enable_lsd :: bool
  cfg_bt_enable_upnp :: bool
  cfg_bt_enable_natpmp :: bool
  cfg_bt_seed_ratio_limit_percent :: int
  cfg_bt_seed_time_limit_minutes :: int
  cfg_bt_save_magnet_torrent_file :: bool
  cfg_bt_trackers_text :: string
  cfg_m3u8_install_dir :: string
  cfg_m3u8_output_format :: string
  cfg_m3u8_thread_count :: int
  cfg_m3u8_retry_count :: int
  cfg_m3u8_request_timeout_sec :: int
  cfg_m3u8_concurrent_download :: bool
  cfg_m3u8_check_segments_count :: bool
  cfg_m3u8_delete_after_done :: bool
  cfg_m3u8_select_all_audio_subtitle :: bool
  cfg_m3u8_mp4_real_time_decryption :: bool
  cfg_m3u8_subtitle_format :: string

definition default_browser_bridge_port :: int where "default_browser_bridge_port = 14370"

definition default_settings :: "nat list option \<Rightarrow> paths \<Rightarrow> settings" where
  "default_settings rnd p =
     \<lparr>cfg_theme_mode = ''dark'', cfg_download_dir = pth_download_dir p, cfg_proxy_url = [],
      cfg_headers_text = [], cfg_cookies_text = [], cfg_block_num = 8, cfg_retry_count = 3,
      cfg_speed_limit_kib = 0, cfg_max_concurrent = 3, cfg_browser_extension_enabled = False,
      cfg_browser_pair_token = new_browser_pair_token rnd,
      cfg_browser_bridge_port = default_browser_bridge_port,
      cfg_ffmpeg_install_dir = fp_join [pth_runtime_dir p, ''FFmpeg''], cfg_bt_listen_port = 0,
      cfg_bt_metadata_timeout_sec = 30, cfg_bt_connections_limit = 500,
      cfg_bt_download_rate_limit_kib = 0, cfg_bt_upload_rate_limit_kib = 0,
      cfg_bt_sequential_download = False, cfg_bt_enable_dht = True, cfg_bt_enable_lsd = True,
      cfg_bt_enable_upnp = True, cfg_bt_enable_natpmp = True, cfg_bt_seed_ratio_limit_percent = 0,
      cfg_bt_seed_time_limit_minutes = 0, cfg_bt_save_magnet_torrent_file = False,
      cfg_bt_trackers_text = [],
      cfg_m3u8_install_dir = fp_join [pth_runtime_dir p, ''N_m3u8DL-RE''],
      cfg_m3u8_output_format = ''mp4'', cfg_m3u8_thread_count = 8, cfg_m3u8_retry_count = 3,
      cfg_m3u8_request_timeout_sec = 100, cfg_m3u8_concurrent_download = True,
      cfg_m3u8_check_segments_count = True, cfg_m3u8_delete_after_done = True,
      cfg_m3u8_select_all_audio_subtitle = True, cfg_m3u8_mp4_real_time_decryption = True,
      cfg_m3u8_subtitle_format = ''SRT''\<rparr>"

text \<open>
  Every field is repaired on its own. \<open>rnd\<close> is the randomness of a fresh token (the defaults draw
  another one, which is not used).
\<close>

definition normalized :: "nat list option \<Rightarrow> paths \<Rightarrow> settings \<Rightarrow> settings" where
  "normalized rnd p s =
     (let d = default_settings rnd p in
      s\<lparr>cfg_theme_mode := (if cfg_theme_mode s \<noteq> ''system'' \<and> cfg_theme_mode s \<noteq> ''light'' \<and>
            cfg_theme_mode s \<noteq> ''dark'' then cfg_theme_mode d else cfg_theme_mode s),
        cfg_download_dir := (if cfg_download_dir s = [] then pth_download_dir p else cfg_download_dir s),
        cfg_block_num := (if cfg_block_num s \<le> 0 then 8 else cfg_block_num s),
        cfg_retry_count := (if cfg_retry_count s < 0 then 0 else cfg_retry_count s),
        cfg_max_concurrent := (if cfg_max_concurrent s \<le> 0 then 3 else cfg_max_concurrent s),
        cfg_speed_limit_kib := (if cfg_speed_limit_kib s < 0 then 0 else cfg_speed_limit_kib s),
        cfg_browser_pair_token := (if cfg_browser_pair_token s = [] then new_browser_pair_token rnd
          else cfg_browser_pair_token s),
        cfg_browser_bridge_port := (if cfg_browser_bridge_port s \<le> 0 \<or> cfg_browser_bridge_port s > 65535
          then cfg_browser_bridge_port d else cfg_browser_bridge_port s),
        cfg_ffmpeg_install_dir := (if cfg_ffmpeg_install_dir s = [] then cfg_ffmpeg_install_dir d
          else cfg_ffmpeg_install_dir s),
        cfg_bt_listen_port := (if cfg_bt_listen_port s < 0 \<or> cfg_bt_listen_port s > 65535
          then cfg_bt_listen_port d else cfg_bt_listen_port s),
        cfg_bt_metadata_timeout_sec := (if cfg_bt_metadata_timeout_sec s < 5 \<or>
            cfg_bt_metadata_timeout_sec s > 300
          then cfg_bt_metadata_timeout_sec d else cfg_bt_metadata_timeout_sec s),
        cfg_bt_connections_limit := (if cfg_bt_connections_limit s < 20 \<or>
            cfg_bt_connections_limit s > 2000
          then cfg_bt_connections_limit d else cfg_bt_connections_limit s),
        cfg_bt_download_rate_limit_kib := (if cfg_bt_download_rate_limit_kib s < 0
          then cfg_bt_download_rate_limit_kib d else cfg_bt_download_rate_limit_kib s),
        cfg_bt_upload_rate_limit_kib := (if cfg_bt_upload_rate_limit_kib s < 0
          then cfg_bt_upload_rate_limit_kib d else cfg_bt_upload_rate_limit_kib s),
        cfg_bt_seed_ratio_limit_percent := (if cfg_bt_seed_ratio_limit_percent s < 0 \<or>
            cfg_bt_seed_ratio_limit_percent s > 10000
          then cfg_bt_seed_ratio_limit_percent d else cfg_bt_seed_ratio_limit_percent s),
        cfg_bt_seed_time_limit_minutes := (if cfg_bt_seed_time_limit_minutes s < 0 \<or>
            cfg_bt_seed_time_limit_minutes s > 43200
          then cfg_bt_seed_time_limit_minutes d else cfg_bt_seed_time_limit_minutes s),
        cfg_m3u8_install_dir := (if cfg_m3u8_install_dir s = [] then cfg_m3u8_install_dir d
          else cfg_m3u8_install_dir s),
        cfg_m3u8_output_format := (if cfg_m3u8_output_format s \<noteq> ''mp4'' \<and>
            cfg_m3u8_output_format s \<noteq> ''mkv'' then cfg_m3u8_output_format d
          else cfg_m3u8_output_format s),
        cfg_m3u8_thread_count := (if cfg_m3u8_thread_count s \<le> 0 then cfg_m3u8_thread_count d
          else cfg_m3u8_thread_count s),
        cfg_m3u8_retry_count := (if cfg_m3u8_retry_count s < 0 then 0 else cfg_m3u8_retry_count s),
        cfg_m3u8_request_timeout_sec := (if cfg_m3u8_request_timeout_sec s \<le> 0
          then cfg_m3u8_request_timeout_sec d else cfg_m3u8_request_timeout_sec s),
        cfg_m3u8_subtitle_format := (if cfg_m3u8_subtitle_format s \<noteq> ''SRT'' \<and>
            cfg_m3u8_subtitle_format s \<noteq> ''VTT'' then cfg_m3u8_subtitle_format d
          else cfg_m3u8_subtitle_format s)\<rparr>)"

section \<open>Settings in range\<close>

definition settings_ok :: "settings \<Rightarrow> bool" where
  "settings_ok s \<longleftrightarrow>
     cfg_theme_mode s \<in> {''system'', ''light'', ''dark''} \<and> cfg_download_dir s \<noteq> [] \<and>
     0 < cfg_block_num s \<and> 0 \<le> cfg_retry_count s \<and> 0 < cfg_max_concurrent s \<and>
     0 \<le> cfg_speed_limit_kib s \<and> cfg_browser_pair_token s \<noteq> [] \<and>
     0 < cfg_browser_bridge_port s \<and> cfg_browser_bridge_port s \<le> 65535 \<and>
     cfg_ffmpeg_install_dir s \<noteq> [] \<and>
     0 \<le> cfg_bt_listen_port s \<and> cfg_bt_listen_port s \<le> 65535 \<and>
     5 \<le> cfg_bt_metadata_timeout_sec s \<and> cfg_bt_metadata_timeout_sec s \<le> 300 \<and>
     20 \<le> cfg_bt_connections_limit s \<and> cfg_bt_connections_limit s \<le> 2000 \<and>
     0 \<le> cfg_bt_download_rate_limit_kib s \<and> 0 \<le> cfg_bt_upload_rate_limit_kib s \<and>
     0 \<le> cfg_bt_seed_ratio_limit_percent s \<and> cfg_bt_seed_ratio_limit_percent s \<le> 10000 \<and>
     0 \<le> cfg_bt_seed_time_limit_minutes s \<and> cfg_bt_seed_time_limit_minutes s \<le> 43200 \<and>
     cfg_m3u8_install_dir s \<noteq> [] \<and> cfg_m3u8_output_format s \<in> {''mp4'', ''mkv''} \<and>
     0 < cfg_m3u8_thread_count s \<and> 0 \<le> cfg_m3u8_retry_count s \<and>
     0 < cfg_m3u8_request_timeout_sec s \<and> cfg_m3u8_subtitle_format s \<in> {''SRT'', ''VTT''}"

lemma settings_ok_conditions:
  assumes "settings_ok s"
  shows
    "(cfg_theme_mode s \<noteq> ''system'' \<and> cfg_theme_mode s \<noteq> ''light'' \<and>
      cfg_theme_mode s \<noteq> ''dark'') = False"
    "(cfg_download_dir s = []) = False"
    "(cfg_block_num s \<le> 0) = False"
    "(cfg_retry_count s < 0) = False"
    "(cfg_max_concurrent s \<le> 0) = False"
    "(cfg_speed_limit_kib s < 0) = False"
    "(cfg_browser_pair_token s = []) = False"
    "(cfg_browser_bridge_port s \<le> 0 \<or> cfg_browser_bridge_port s > 65535) = False"
    "(cfg_ffmpeg_install_dir s = []) = False"
    "(cfg_bt_listen_port s < 0 \<or> cfg_bt_listen_port s > 65535) = False"
    "(cfg_bt_metadata_timeout_sec s < 5 \<or> cfg_bt_metadata_timeout_sec s > 300) = False"
    "(cfg_bt_connections_limit s < 20 \<or> cfg_bt_connections_limit s > 2000) = False"
    "(cfg_bt_download_rate_limit_kib s < 0) = False"
    "(cfg_bt_upload_rate_limit_kib s < 0) = False"
    "(cfg_bt_seed_ratio_limit_percent s < 0 \<or>
      cfg_bt_seed_ratio_limit_percent s > 10000) = False"
    "(cfg_bt_seed_time_limit_minutes s < 0 \<or> cfg_bt_seed_time_limit_minutes s > 43200) = False"
    "(cfg_m3u8_install_dir s = []) = False"
    "(cfg_m3u8_output_format s \<noteq> ''mp4'' \<and>
      cfg_m3u8_output_format s \<noteq> ''mkv'') = False"
    "(cfg_m3u8_thread_count s \<le> 0) = False"
    "(cfg_m3u8_retry_count s < 0) = False"
    "(cfg_m3u8_request_timeout_sec s \<le> 0) = False"
    "(cfg_m3u8_subtitle_format s \<noteq> ''SRT'' \<and>
      cfg_m3u8_subtitle_format s \<noteq> ''VTT'') = False"
  using assms unfolding settings_ok_def by auto

lemma settings_ok_fixed: "settings_ok s \<Longrightarrow> normalized rnd p s = s"
  unfolding normalized_def Let_def by (simp only: settings_ok_conditions if_False) simp

lemma base64_raw_nonempty: "bs \<noteq> [] \<Longrightarrow> base64_raw bs \<noteq> []"
  by (induction bs rule: base64_raw.induct) simp_all

lemma fp_join_not_Nil:
  assumes "p \<noteq> []"
  shows "fp_join (p # es) \<noteq> []"
proof -
  have txt_ne: "fp_text v r (fp_elems x) \<noteq> []" for v r x
  proof (cases "fp_elems x")
    case (Cons c cs)
    then have "c \<noteq> []" using fp_elems_cleaned[of x] by (auto dest: cleaned_elem)
    with Cons show ?thesis by (cases cs) (simp_all add: fp_text_def)
  qed (simp add: fp_text_def)
  have cl_ne: "fp_clean x \<noteq> []" if "x \<noteq> []" for x
    using that txt_ne by (auto simp: fp_clean_def from_slash_def replace_char_def)
  obtain y where "foldl join_raw p es = p @ y" using foldl_join_raw[OF assms] by blast
  moreover have "join_raw [] p = p" by (simp add: join_raw_def)
  ultimately show ?thesis using cl_ne[of "p @ y"] assms by (simp add: fp_join_def Let_def)
qed

lemma normalized_ok:
  assumes "pth_download_dir p \<noteq> []" and "pth_runtime_dir p \<noteq> []" and "rnd \<noteq> Some []"
  shows "settings_ok (normalized rnd p s)"
proof -
  have t: "new_browser_pair_token rnd \<noteq> []"
    using assms(3) base64_raw_nonempty by (auto simp: new_browser_pair_token_def split: option.split)
  have d: "settings_ok (default_settings rnd p)"
    unfolding settings_ok_def
    by (simp add: default_settings_def default_browser_bridge_port_def t assms(1) fp_join_not_Nil[OF assms(2)])
  show ?thesis
    unfolding settings_ok_def normalized_def Let_def
    using d[unfolded settings_ok_def] assms(1) t by (intro conjI) (simp_all split del: if_split, auto)
qed

text \<open>
  Normalizing brings every setting into its range, changes nothing of settings that are in
  range, and so is idempotent, whatever the random source gave either time.
\<close>

theorem normalized_repairs:
  assumes "pth_download_dir p \<noteq> []" and "pth_runtime_dir p \<noteq> []" and "rnd \<noteq> Some []"
  shows "settings_ok (normalized rnd p s) \<and>
    (settings_ok s \<longrightarrow> normalized rnd p s = s) \<and>
    normalized rnd' p' (normalized rnd p s) = normalized rnd p s"
  using normalized_ok[OF assms] settings_ok_fixed by blast

definition sample_paths :: paths where
  "sample_paths = resolved (''C:'' @ [backslash] @ ''u'') (''C:'' @ [backslash] @ ''h'')"

definition bad_settings :: settings where
  "bad_settings = (default_settings None sample_paths)
     \<lparr>cfg_block_num := - 4, cfg_browser_bridge_port := 70000, cfg_browser_pair_token := []\<rparr>"

theorem normalized_repairs_witness:
  "\<not> settings_ok bad_settings \<and> settings_ok (normalized (Some [1, 2, 3]) sample_paths bad_settings) \<and>
   cfg_browser_pair_token (normalized (Some [1, 2, 3]) sample_paths bad_settings) = ''AQID'' \<and>
   normalized None sample_paths (normalized (Some [1, 2, 3]) sample_paths bad_settings) =
     normalized (Some [1, 2, 3]) sample_paths bad_settings"
proof -
  have "pth_download_dir sample_paths \<noteq> []" "pth_runtime_dir sample_paths \<noteq> []" by code_simp+
  moreover have "\<not> settings_ok bad_settings" by code_simp
  moreover have "cfg_browser_pair_token (normalized (Some [1, 2, 3]) sample_paths bad_settings) = ''AQID''"
    by code_simp
  ultimately show ?thesis
    using normalized_repairs[of sample_paths "Some [1, 2, 3]" bad_settings None sample_paths] by simp
qed

end
