(* ===== verification/GoNet.thy ===== *)
theory GoNet
  imports GoStrings GoPath
begin

text \<open>
  What the downloaders use of \<open>net/url\<close>, \<open>mime\<close> and \<open>net/http\<close>. Percent decoding and header
  lookup are defined; the parsers of whole URLs and media types, and the table of file extensions
  the operating system registers, are a record of functions that the definitions take.
\<close>

section \<open>Percent decoding\<close>

definition hex_value :: "char \<Rightarrow> nat option" where
  "hex_value c =
     (let b = byte_of c in
      if 48 \<le> b \<and> b \<le> 57 then Some (b - 48)
      else if 97 \<le> b \<and> b \<le> 102 then Some (b - 87)
      else if 65 \<le> b \<and> b \<le> 70 then Some (b - 55) else None)"

text \<open>\<open>spaces\<close>: a plus sign stands for a space, as in a query. None is an \<open>EscapeError\<close>.\<close>

fun unescape :: "bool \<Rightarrow> string \<Rightarrow> string option" where
  "unescape spaces [] = Some []"
| "unescape spaces (c # cs) =
     (if c = CHR ''%'' then
        (case cs of
           a # b # ds \<Rightarrow>
             (case (hex_value a, hex_value b) of
                (Some x, Some y) \<Rightarrow> map_option (\<lambda>r. char_of (16 * x + y) # r) (unescape spaces ds)
              | _ \<Rightarrow> None)
         | _ \<Rightarrow> None)
      else map_option (\<lambda>r. (if spaces \<and> c = CHR ''+'' then CHR '' '' else c) # r) (unescape spaces cs))"

definition path_unescape :: "string \<Rightarrow> string option" where
  "path_unescape s = unescape False s"

definition query_unescape :: "string \<Rightarrow> string option" where
  "query_unescape s = unescape True s"

lemma unescape_plain: "CHR ''%'' \<notin> set s \<Longrightarrow> path_unescape s = Some s"
proof -
  have "CHR ''%'' \<notin> set s \<Longrightarrow> unescape False s = Some s" by (induction s) auto
  then show "CHR ''%'' \<notin> set s \<Longrightarrow> path_unescape s = Some s" by (simp add: path_unescape_def)
qed

section \<open>Parsed URLs, media types\<close>

record url_parts =
  up_scheme :: string
  up_opaque :: string
  up_host :: string
  up_path :: string
  up_query :: string
  up_fragment :: string
  up_user :: "(string \<times> string option) option"

record netlib =
  nl_parse_url :: "string \<Rightarrow> url_parts result"
  nl_url_text :: "url_parts \<Rightarrow> string"
  nl_query_get :: "string \<Rightarrow> string \<Rightarrow> string"
  nl_media_type :: "string \<Rightarrow> (string \<times> (string \<times> string) list) option"
  nl_extensions :: "string \<Rightarrow> string list"

text \<open>A library that parses nothing, for evaluating the parts that do not depend on it.\<close>

definition no_netlib :: netlib where
  "no_netlib = \<lparr>nl_parse_url = (\<lambda>_. Inl (new_error ''invalid URL'')), nl_url_text = up_path,
     nl_query_get = (\<lambda>_ _. []), nl_media_type = (\<lambda>_. None), nl_extensions = (\<lambda>_. [])\<rparr>"

section \<open>Headers\<close>

text \<open>\<open>http.Header\<close>: canonical names with their values; \<open>Get\<close> is asked with canonical names.\<close>

type_synonym http_header = "(string \<times> string list) list"

definition header_get :: "http_header \<Rightarrow> string \<Rightarrow> string" where
  "header_get h k = (case map_of h k of Some (v # _) \<Rightarrow> v | _ \<Rightarrow> [])"

definition params_get :: "(string \<times> string) list \<Rightarrow> string \<Rightarrow> string" where
  "params_get ps k = (case map_of ps k of Some v \<Rightarrow> v | None \<Rightarrow> [])"

end
