(* ===== verification/OsFiles.thy ===== *)
theory OsFiles
  imports TaskFiles
begin

text \<open>
  The calls of package \<open>os\<close> on which the workers rest, over the file tree of \<open>TaskFiles\<close>: writing
  and reading a file at an offset, creating, truncating, renaming and removing files, and making
  directories.
\<close>

section \<open>Writing at an offset\<close>

text \<open>\<open>WriteAt\<close> beyond the end fills the gap with zero bytes.\<close>

definition overwrite :: "nat \<Rightarrow> string \<Rightarrow> string \<Rightarrow> string" where
  "overwrite off bytes f =
     (let f = f @ replicate (off - length f) (CHR 0x00) in
      take off f @ bytes @ drop (off + length bytes) f)"

text \<open>\<open>fault\<close>: the error the write ended with and how many bytes it had written then.\<close>

definition write_at ::
  "int \<Rightarrow> string \<Rightarrow> (goerr \<times> nat) option \<Rightarrow> string \<Rightarrow> goerr option \<times> string" where
  "write_at off bytes fault f =
     (if off < 0 then (Some (new_error ''negative offset''), f)
      else case fault of
        None \<Rightarrow> (None, overwrite (nat off) bytes f)
      | Some (e, n) \<Rightarrow> (Some e, overwrite (nat off) (take n bytes) f))"

lemma length_overwrite: "length (overwrite off bytes f) = max (length f) (off + length bytes)"
  by (simp add: overwrite_def Let_def)

lemma nth_overwrite:
  assumes "k < length (overwrite off bytes f)"
  shows "overwrite off bytes f ! k =
    (if off \<le> k \<and> k < off + length bytes then bytes ! (k - off)
     else if k < length f then f ! k else CHR 0x00)"
proof -
  let ?f = "f @ replicate (off - length f) (CHR 0x00)"
  have o: "length (take off ?f) = off" by simp
  have k: "k < max (length f) (off + length bytes)" using assms by (simp add: length_overwrite)
  show ?thesis
  proof (cases "k < off")
    case True
    moreover from True have "k - length f < off - length f" if "length f \<le> k" using that by linarith
    ultimately show ?thesis by (simp add: overwrite_def Let_def nth_append)
  next
    case False
    have m: "min (length f) off + (off - length f) = off" by simp
    from False k show ?thesis
      by (auto simp: overwrite_def Let_def nth_append m)
  qed
qed

section \<open>Calls on whole files\<close>

definition os_stat :: "fsys \<Rightarrow> string \<Rightarrow> node result" where
  "os_stat fs p =
     (case os_lstat fs p of
        Inr NLink \<Rightarrow> Inl (new_error ''link not resolved'')
      | r \<Rightarrow> r)"

definition node_size :: "node \<Rightarrow> int" where
  "node_size n = (case n of NFile c \<Rightarrow> int (length c) | _ \<Rightarrow> 0)"

definition put_node :: "string \<Rightarrow> node \<Rightarrow> fsys \<Rightarrow> fsys" where
  "put_node p n fs = fs\<lparr>fs_nodes := (fs_nodes fs)(fs_key fs p \<mapsto> n)\<rparr>"

text \<open>\<open>OpenFile\<close> with O_CREATE, and with O_TRUNC or \<open>Truncate\<close>, on a file that is then closed.\<close>

definition os_open_write :: "fsys \<Rightarrow> string \<Rightarrow> goerr option \<times> fsys" where
  "os_open_write fs p =
     (case fs_faults fs (fs_key fs p) of
        Some e \<Rightarrow> (Some e, fs)
      | None \<Rightarrow>
          (case fs_nodes fs (fs_key fs p) of
             None \<Rightarrow> (None, put_node p (NFile []) fs)
           | Some (NFile _) \<Rightarrow> (None, fs)
           | Some _ \<Rightarrow> (Some (new_error ''not a regular file''), fs)))"

definition file_content :: "fsys \<Rightarrow> string \<Rightarrow> string" where
  "file_content fs p = (case fs_nodes fs (fs_key fs p) of Some (NFile c) \<Rightarrow> c | _ \<Rightarrow> [])"

definition os_truncate :: "fsys \<Rightarrow> string \<Rightarrow> goerr option \<times> fsys" where
  "os_truncate fs p =
     (case os_stat fs p of
        Inr (NFile _) \<Rightarrow> (None, put_node p (NFile []) fs)
      | Inr _ \<Rightarrow> (Some (new_error ''is a directory''), fs)
      | Inl e \<Rightarrow> (Some e, fs))"

definition os_rename :: "fsys \<Rightarrow> string \<Rightarrow> string \<Rightarrow> goerr option \<times> fsys" where
  "os_rename fs a b =
     (case os_lstat fs a of
        Inl e \<Rightarrow> (Some e, fs)
      | Inr n \<Rightarrow>
          (case fs_faults fs (fs_key fs b) of
             Some e \<Rightarrow> (Some e, fs)
           | None \<Rightarrow> (None, put_node b n (fs\<lparr>fs_nodes := (fs_nodes fs)(fs_key fs a := None)\<rparr>))))"

definition os_write_file :: "fsys \<Rightarrow> string \<Rightarrow> string \<Rightarrow> goerr option \<times> fsys" where
  "os_write_file fs p content =
     (case os_open_write fs p of
        (Some e, fs) \<Rightarrow> (Some e, fs) | (None, fs) \<Rightarrow> (None, put_node p (NFile content) fs))"

definition os_mkdir_all :: "fsys \<Rightarrow> string \<Rightarrow> goerr option \<times> fsys" where
  "os_mkdir_all fs p =
     (let key = fs_key fs p; above = filter (\<lambda>t. in_tree t key) (prefixes key) in
      case fs_faults fs key of
        Some e \<Rightarrow> (Some e, fs)
      | None \<Rightarrow>
          if list_ex (\<lambda>t. case fs_nodes fs t of Some (NFile _) \<Rightarrow> True | _ \<Rightarrow> False) above
          then (Some (new_error ''not a directory''), fs)
          else (None, fs\<lparr>fs_nodes := (\<lambda>q. if fs_nodes fs q = None \<and> q \<in> set above
                 then Some NDir else fs_nodes fs q)\<rparr>))"

text \<open>\<open>Remove\<close>, where a missing file is no error.\<close>

definition remove_old :: "fsys \<Rightarrow> string \<Rightarrow> goerr option \<times> fsys" where
  "remove_old fs p =
     (case os_remove fs p of
        (Some e, fs) \<Rightarrow> (if err_not_exist e then None else Some e, fs) | r \<Rightarrow> r)"

section \<open>What the calls change\<close>

text \<open>Only one path has changed.\<close>

definition only_changes :: "string \<Rightarrow> fsys \<Rightarrow> fsys \<Rightarrow> bool" where
  "only_changes p fs fs' \<longleftrightarrow>
     fs_cwd fs' = fs_cwd fs \<and> fs_faults fs' = fs_faults fs \<and>
     (\<forall>q. q \<noteq> fs_key fs p \<longrightarrow> fs_nodes fs' q = fs_nodes fs q)"

lemma only_changes_refl [simp]: "only_changes p fs fs"
  by (simp add: only_changes_def)

lemma only_changes_key: "only_changes p fs fs' \<Longrightarrow> fs_key fs' q = fs_key fs q"
  by (simp add: only_changes_def fs_key_def)

lemma only_changes_trans: "only_changes p fs fs' \<Longrightarrow> only_changes p fs' fs'' \<Longrightarrow> only_changes p fs fs''"
  by (simp add: only_changes_def fs_key_def)

lemma put_node_simps [simp]:
  "fs_key (put_node p n fs) q = fs_key fs q" "fs_nodes (put_node p n fs) (fs_key fs p) = Some n"
  "only_changes p fs (put_node p n fs)" "fs_faults (put_node p n fs) = fs_faults fs"
  by (simp_all add: put_node_def fs_key_def only_changes_def)

lemma open_write_error: "os_open_write fs p = (Some e, fs') \<Longrightarrow> fs' = fs"
  by (auto simp: os_open_write_def split: option.splits node.splits)

lemma truncate_result: "os_truncate fs p = (None, fs') \<Longrightarrow> fs' = put_node p (NFile []) fs"
  by (auto simp: os_truncate_def split: sum.splits node.splits)

lemma truncate_error: "os_truncate fs p = (Some e, fs') \<Longrightarrow> fs' = fs"
  by (auto simp: os_truncate_def split: sum.splits node.splits)

end
