(* ===== verification/RateLimit.thy ===== *)
theory RateLimit
  imports GoBase Complex_Main
begin

text \<open>
  The token bucket of \<open>internal/ratelimit/limiter.go\<close>. Times are nanoseconds, the zero time is
  \<open>None\<close>; \<open>rat\<close> stands for \<open>float64\<close>, so rounding is not modelled. One iteration of the loop in
  \<open>Wait\<close> holds the mutex once: it is \<open>try_take\<close>, and goroutines interleave these sections with
  those of \<open>SetRate\<close>.
\<close>

section \<open>The limiter\<close>

record limiter =
  lim_rate :: int
  lim_allowance :: rat
  lim_last :: "int option"

definition nanos :: int where "nanos = 1000000000"

definition new_limiter :: "int \<Rightarrow> int \<Rightarrow> limiter" where
  "new_limiter rate now = \<lparr>lim_rate = rate, lim_allowance = of_int rate, lim_last = Some now\<rparr>"

definition seconds :: "int \<Rightarrow> rat" where "seconds d = of_int d / of_int nanos"

definition refill_locked :: "int \<Rightarrow> limiter \<Rightarrow> limiter" where
  "refill_locked now l =
     (case lim_last l of
        None \<Rightarrow> l\<lparr>lim_last := Some now\<rparr>
      | Some last_time \<Rightarrow>
          if lim_rate l \<le> 0 then l\<lparr>lim_last := Some now\<rparr>
          else let elapsed = seconds (now - last_time) in
            if elapsed \<le> 0 then l
            else let a = lim_allowance l + elapsed * of_int (lim_rate l) in
              l\<lparr>lim_allowance := (if a > of_int (lim_rate l) then of_int (lim_rate l) else a),
                lim_last := Some now\<rparr>)"

definition set_rate :: "int \<Rightarrow> int \<Rightarrow> limiter \<Rightarrow> limiter" where
  "set_rate r now l =
     (let r = (if r < 0 then 0 else r); l = (refill_locked now l)\<lparr>lim_rate := r\<rparr> in
      if lim_rate l = 0 then l\<lparr>lim_allowance := 0\<rparr>
      else if lim_allowance l > of_int (lim_rate l) then l\<lparr>lim_allowance := of_int (lim_rate l)\<rparr>
      else l)"

definition rate :: "limiter \<Rightarrow> int" where "rate l = lim_rate l"

text \<open>One iteration: the tokens are taken, or the time to wait, at least 10 ms.\<close>

datatype take_result = Granted | WaitFor int

definition wait_time :: "rat \<Rightarrow> limiter \<Rightarrow> int" where
  "wait_time need l =
     (let w = \<lfloor>(need - lim_allowance l) / of_int (lim_rate l) * of_int nanos\<rfloor> in
      if w < 10000000 then 10000000 else w)"

definition try_take :: "int \<Rightarrow> int \<Rightarrow> limiter \<Rightarrow> take_result \<times> limiter" where
  "try_take bytes now l =
     (if lim_rate l \<le> 0 then (Granted, l)
      else let l = refill_locked now l in
        if lim_allowance l \<ge> of_int bytes
        then (Granted, l\<lparr>lim_allowance := lim_allowance l - of_int bytes\<rparr>)
        else (WaitFor (wait_time (of_int bytes) l), l))"

text \<open>
  The loop of \<open>Wait\<close> on a script: for each iteration the clock, and the error with which the
  context ended while it waited. The result is \<open>None\<close> when the script ends before the call does.
\<close>

fun wait_loop :: "int \<Rightarrow> (int \<times> goerr option) list \<Rightarrow> limiter \<Rightarrow> goerr option option \<times> limiter" where
  "wait_loop bytes [] l = (None, l)"
| "wait_loop bytes ((now, ctx) # evs) l =
     (case try_take bytes now l of
        (Granted, l') \<Rightarrow> (Some None, l')
      | (WaitFor _, l') \<Rightarrow>
          (case ctx of Some e \<Rightarrow> (Some (Some e), l') | None \<Rightarrow> wait_loop bytes evs l'))"

definition limiter_wait ::
  "int \<Rightarrow> (int \<times> goerr option) list \<Rightarrow> limiter option \<Rightarrow> goerr option option \<times> limiter option" where
  "limiter_wait bytes evs ol =
     (case ol of
        None \<Rightarrow> (Some None, None)
      | Some l \<Rightarrow> if bytes \<le> 0 then (Some None, Some l)
                 else (case wait_loop bytes evs l of (r, l') \<Rightarrow> (r, Some l')))"

section \<open>The bucket's level stays between zero and the rate\<close>

definition level_ok :: "limiter \<Rightarrow> bool" where
  "level_ok l \<longleftrightarrow> 0 \<le> lim_allowance l \<and> (0 \<le> lim_rate l \<longrightarrow> lim_allowance l \<le> of_int (lim_rate l))"

lemma seconds_le_0 [simp]: "seconds d \<le> 0 \<longleftrightarrow> d \<le> 0"
  by (simp add: seconds_def nanos_def divide_le_0_iff)

lemma seconds_ge_0 [simp]: "0 \<le> seconds d \<longleftrightarrow> 0 \<le> d"
  by (simp add: seconds_def nanos_def zero_le_divide_iff)

lemma seconds_add: "seconds a + seconds b = seconds (a + b)"
  by (simp add: seconds_def add_divide_distrib)

lemma seconds_mono: "d \<le> e \<Longrightarrow> seconds d \<le> seconds e"
  by (simp add: seconds_def nanos_def divide_right_mono)

lemma refill_rate [simp]: "lim_rate (refill_locked now l) = lim_rate l"
  by (simp add: refill_locked_def Let_def split: option.split)

lemma refill_level: "level_ok l \<Longrightarrow> level_ok (refill_locked now l)"
  by (auto simp: level_ok_def refill_locked_def Let_def not_le split: option.split
      intro!: add_nonneg_nonneg mult_nonneg_nonneg)

lemma new_limiter_level: "0 \<le> r \<Longrightarrow> level_ok (new_limiter r now)"
  by (simp add: level_ok_def new_limiter_def)

lemma set_rate_level: "level_ok l \<Longrightarrow> level_ok (set_rate r now l)"
  using refill_level[of l now] by (auto simp: set_rate_def Let_def level_ok_def)

lemma try_take_rate [simp]: "lim_rate (snd (try_take b now l)) = lim_rate l"
  by (simp add: try_take_def Let_def)

lemma try_take_level: "level_ok l \<Longrightarrow> 0 \<le> b \<Longrightarrow> level_ok (snd (try_take b now l))"
  using refill_level[of l now] by (auto simp: try_take_def Let_def level_ok_def)

text \<open>A refill adds at most what the elapsed time allows and only moves the clock forward.\<close>

lemma refill_gain:
  assumes "0 < lim_rate l" and "lim_last l = Some t" and "t \<le> now"
  shows "lim_last (refill_locked now l) = Some now \<and>
    lim_allowance (refill_locked now l) \<le> lim_allowance l + seconds (now - t) * of_int (lim_rate l)"
proof (cases "now = t")
  case True
  then have "seconds (now - t) = 0" by (simp add: seconds_def)
  with assms True show ?thesis by (simp add: refill_locked_def)
next
  case False
  with assms have "\<not> seconds (now - t) \<le> 0" by simp
  with assms show ?thesis by (simp add: refill_locked_def Let_def)
qed

section \<open>A contract for token buckets: what is granted in any period\<close>

text \<open>A sequence of requests, each with its time: how much was granted, and the bucket after it.\<close>

fun draws :: "(int \<Rightarrow> int \<Rightarrow> 'l \<Rightarrow> bool \<times> 'l) \<Rightarrow> (int \<times> int) list \<Rightarrow> 'l \<Rightarrow> int \<times> 'l" where
  "draws take_one [] l = (0, l)"
| "draws take_one ((now, b) # rs) l =
     (case take_one b now l of (g, l') \<Rightarrow>
        (case draws take_one rs l' of (n, l'') \<Rightarrow> ((if g then b else 0) + n, l'')))"

locale token_bucket =
  fixes ok :: "'l \<Rightarrow> bool" and level :: "'l \<Rightarrow> rat" and clock :: "'l \<Rightarrow> int" and speed :: "'l \<Rightarrow> int"
    and draw :: "int \<Rightarrow> int \<Rightarrow> 'l \<Rightarrow> bool \<times> 'l"
  assumes level_pos: "ok l \<Longrightarrow> 0 \<le> level l"
    and draw_ok: "ok l \<Longrightarrow> 0 \<le> b \<Longrightarrow> clock l \<le> now \<Longrightarrow> draw b now l = (g, l') \<Longrightarrow>
      ok l' \<and> clock l' = now \<and> speed l' = speed l"
    and draw_gain: "ok l \<Longrightarrow> 0 \<le> b \<Longrightarrow> clock l \<le> now \<Longrightarrow> draw b now l = (g, l') \<Longrightarrow>
      level l' + (if g then of_int b else 0) \<le> level l + seconds (now - clock l) * of_int (speed l)"
begin

lemma draws_bounded:
  "ok l \<Longrightarrow> sorted (clock l # map fst rs) \<Longrightarrow> \<forall>r\<in>set rs. 0 \<le> snd r \<Longrightarrow>
   draws draw rs l = (n, l') \<Longrightarrow>
   of_int n + level l' \<le> level l + seconds (clock l' - clock l) * of_int (speed l) \<and>
   ok l' \<and> clock l' = last (clock l # map fst rs)"
proof (induction rs arbitrary: l n)
  case (Cons r rs)
  obtain now b where r: "r = (now, b)" by (cases r)
  obtain g l1 where d: "draw b now l = (g, l1)" by (cases "draw b now l")
  obtain m l2 where m: "draws draw rs l1 = (m, l2)" by (cases "draws draw rs l1")
  have now: "clock l \<le> now" "0 \<le> b" using Cons.prems(2,3) r by auto
  note o = draw_ok[OF Cons.prems(1) now(2,1) d] and gain = draw_gain[OF Cons.prems(1) now(2,1) d]
  have n: "n = (if g then b else 0) + m" "l2 = l'" using Cons.prems(4) r d m by simp_all
  have "sorted (clock l1 # map fst rs)" using Cons.prems(2) r o by simp
  moreover have "\<forall>r\<in>set rs. 0 \<le> snd r" using Cons.prems(3) by simp
  ultimately have ih: "of_int m + level l' \<le> level l1 + seconds (clock l' - clock l1) * of_int (speed l1)"
    "ok l'" "clock l' = last (clock l1 # map fst rs)"
    using Cons.IH[of l1 m] o m unfolding n(2) by blast+
  have "seconds (now - clock l) * of_int (speed l) + seconds (clock l' - now) * of_int (speed l) =
      seconds (clock l' - clock l) * of_int (speed l)"
    by (simp add: seconds_add flip: distrib_right)
  moreover have "(of_int n :: rat) = (if g then of_int b else 0) + of_int m" by (simp add: n)
  moreover have "of_int m + level l' \<le> level l1 + seconds (clock l' - now) * of_int (speed l)"
    using ih(1) o by simp
  ultimately have "of_int n + level l' \<le> level l + seconds (clock l' - clock l) * of_int (speed l)"
    using gain by linarith
  moreover have "clock l' = last (clock l # map fst (r # rs))" using ih(3) o r by (cases rs) simp_all
  ultimately show ?case using ih(2) by blast
qed (auto simp: seconds_def)

lemma throughput:
  assumes "ok l" and "sorted (clock l # map fst rs)" and "\<forall>r\<in>set rs. 0 \<le> snd r"
  shows "of_int (fst (draws draw rs l)) \<le>
    level l + seconds (last (clock l # map fst rs) - clock l) * of_int (speed l)"
proof -
  obtain n l' where d: "draws draw rs l = (n, l')" by (cases "draws draw rs l")
  have "ok l'" "of_int n + level l' \<le> level l + seconds (clock l' - clock l) * of_int (speed l)"
    "clock l' = last (clock l # map fst rs)"
    using draws_bounded[OF assms d] by blast+
  with level_pos[of l'] have "of_int n \<le>
      level l + seconds (last (clock l # map fst rs) - clock l) * of_int (speed l)"
    by (metis add_le_same_cancel1 add.commute add_increasing order.trans le_add_same_cancel1)
  with d show ?thesis by simp
qed

end

definition granted_take :: "int \<Rightarrow> int \<Rightarrow> limiter \<Rightarrow> bool \<times> limiter" where
  "granted_take b now l = (case try_take b now l of (v, l') \<Rightarrow> (v = Granted, l'))"

definition clock_of :: "limiter \<Rightarrow> int" where
  "clock_of l = (case lim_last l of Some t \<Rightarrow> t | None \<Rightarrow> 0)"

definition limiting :: "limiter \<Rightarrow> bool" where
  "limiting l \<longleftrightarrow> level_ok l \<and> 0 < lim_rate l \<and> lim_last l \<noteq> None"

interpretation bucket: token_bucket limiting lim_allowance clock_of lim_rate granted_take
proof
  fix l :: limiter and b now g l'
  assume "limiting l" and b: "0 \<le> b" and "clock_of l \<le> now" and d: "granted_take b now l = (g, l')"
  then obtain t where l: "lim_last l = Some t" "0 < lim_rate l" "level_ok l" "t \<le> now"
    by (auto simp: limiting_def clock_of_def)
  note gain = refill_gain[OF l(2,1,4)]
  have "level_ok (snd (try_take b now l))" using l(3) b by (rule try_take_level)
  then show "limiting l' \<and> clock_of l' = now \<and> lim_rate l' = lim_rate l"
    using d gain l(2) unfolding granted_take_def
    by (auto simp: limiting_def clock_of_def try_take_def Let_def split: if_splits)
  show "lim_allowance l' + (if g then of_int b else 0) \<le>
      lim_allowance l + seconds (now - clock_of l) * of_int (lim_rate l)"
    using d gain l unfolding granted_take_def
    by (auto simp: clock_of_def try_take_def Let_def split: if_splits)
qed (simp add: limiting_def level_ok_def)

section \<open>Properties\<close>

text \<open>
  C36: however many goroutines share the limiter, the bytes it lets through between two moments
  are at most the tokens it had plus the rate times the time between them.
\<close>

theorem throughput_bounded:
  assumes "0 < r" and "sorted (t # map fst reqs)" and "\<forall>q\<in>set reqs. 0 \<le> snd q"
  shows "of_int (fst (draws granted_take reqs (new_limiter r t))) \<le>
    of_int r * (1 + seconds (last (t # map fst reqs) - t))"
proof -
  have "limiting (new_limiter r t)" using assms(1) new_limiter_level[of r t]
    by (simp add: limiting_def) (simp add: new_limiter_def)
  moreover have "clock_of (new_limiter r t) = t" by (simp add: clock_of_def new_limiter_def)
  ultimately have "of_int (fst (draws granted_take reqs (new_limiter r t))) \<le>
      lim_allowance (new_limiter r t) + seconds (last (t # map fst reqs) - t) * of_int (lim_rate (new_limiter r t))"
    using bucket.throughput[of "new_limiter r t" reqs] assms(2,3) by simp
  then show ?thesis by (simp add: new_limiter_def algebra_simps)
qed

lemma throughput_bounded_witness:
  "of_int (fst (draws granted_take [(0, 600), (1, 600), (1000000000, 600)] (new_limiter 1000 0))) \<le>
     (2000 :: rat) \<and> fst (draws granted_take [(0, 600), (1, 600), (1000000000, 600)] (new_limiter 1000 0)) = 1200"
proof -
  have "fst (draws granted_take [(0, 600), (1, 600), (1000000000, 600)] (new_limiter 1000 0)) = 1200"
    by (simp add: granted_take_def try_take_def new_limiter_def refill_locked_def Let_def seconds_def
        nanos_def)
  moreover have "of_int (fst (draws granted_take [(0, 600), (1, 600), (1000000000, 600)] (new_limiter 1000 0))) \<le>
      of_int 1000 * (1 + seconds (last (0 # map fst [(0, 600), (1, 600), (1000000000, 600 :: int)]) - 0))"
    by (rule throughput_bounded) simp_all
  ultimately show ?thesis by (simp add: seconds_def nanos_def)
qed

lemma refill_level_eq:
  assumes "level_ok l" and "0 < lim_rate l" and "lim_last l = Some t" and "t \<le> now"
  shows "lim_allowance (refill_locked now l) =
    min (of_int (lim_rate l)) (lim_allowance l + seconds (now - t) * of_int (lim_rate l))"
proof (cases "now = t")
  case True
  then have "seconds (now - t) = 0" by (simp add: seconds_def)
  with assms True show ?thesis by (simp add: refill_locked_def level_ok_def)
next
  case False
  with assms have "\<not> seconds (now - t) \<le> 0" by simp
  with assms show ?thesis by (simp add: refill_locked_def Let_def min_def)
qed

lemma try_take_refill:
  "0 < lim_rate l \<Longrightarrow> lim_allowance (refill_locked now l) \<ge> of_int b \<Longrightarrow> fst (try_take b now l) = Granted"
  "0 < lim_rate l \<Longrightarrow> \<not> lim_allowance (refill_locked now l) \<ge> of_int b \<Longrightarrow>
   try_take b now l = (WaitFor (wait_time (of_int b) (refill_locked now l)), refill_locked now l)"
  by (simp_all add: try_take_def Let_def)

lemma wait_time_covers:
  assumes "0 < lim_rate l"
  shows "need - lim_allowance l \<le> seconds (wait_time need l + 1) * of_int (lim_rate l)"
proof -
  let ?x = "(need - lim_allowance l) / of_int (lim_rate l) * of_int nanos"
  have r: "(0 :: rat) < of_int (lim_rate l)" using assms by simp
  have "\<lfloor>?x\<rfloor> \<le> wait_time need l" by (simp add: wait_time_def Let_def)
  then have "?x \<le> of_int (wait_time need l + 1)" by linarith
  then have "?x / of_int nanos * of_int (lim_rate l) \<le>
      of_int (wait_time need l + 1) / of_int nanos * of_int (lim_rate l)"
    using r by (intro mult_right_mono divide_right_mono) (simp_all add: nanos_def)
  moreover have "?x / of_int nanos * of_int (lim_rate l) = need - lim_allowance l"
    using r by (simp add: nanos_def)
  ultimately show ?thesis by (simp add: seconds_def)
qed

lemma limiter_wait_loop: "0 < b \<Longrightarrow> fst (limiter_wait b evs (Some l)) = fst (wait_loop b evs l)"
  by (simp add: limiter_wait_def split_beta)

lemma wait_loop_granted: "fst (try_take b now l) = Granted \<Longrightarrow> fst (wait_loop b ((now, ctx) # evs) l) = Some None"
  by (cases "try_take b now l") simp

lemma wait_loop_waits:
  "try_take b now l = (WaitFor w, l') \<Longrightarrow> wait_loop b ((now, None) # evs) l = wait_loop b evs l'"
  by simp

text \<open>
  A call that asks for no more than one second's bytes returns without an error after at
  most two waits when no one else draws: the computed delay is long enough, up to the nanosecond
  it was rounded down, which the next delay of at least 10 ms makes up for.
\<close>

theorem wait_returns:
  assumes "level_ok l" and "lim_last l = Some t" and "t \<le> t1" and "0 < b" and "b \<le> lim_rate l"
    and "\<And>w l1. try_take b t1 l = (WaitFor w, l1) \<Longrightarrow> t1 + w \<le> t2" and "t1 \<le> t2"
    and "t2 + 10000000 \<le> t3"
  shows "fst (limiter_wait b [(t1, None), (t2, None), (t3, None)] (Some l)) = Some None"
proof -
  have r: "0 < lim_rate l" using assms(4,5) by simp
  define l1 where "l1 = refill_locked t1 l"
  define l2 where "l2 = refill_locked t2 l1"
  have l1: "level_ok l1" "lim_last l1 = Some t1" "lim_rate l1 = lim_rate l"
    unfolding l1_def using refill_level[OF assms(1)] refill_gain[OF r assms(2,3)] by simp_all
  have l2: "level_ok l2" "lim_last l2 = Some t2" "lim_rate l2 = lim_rate l"
    unfolding l2_def using refill_level[OF l1(1)] refill_gain[of l1 t1 t2] l1 r assms(7) by simp_all
  have third: "lim_allowance (refill_locked t3 l2) \<ge> of_int b"
    if no1: "\<not> lim_allowance l1 \<ge> of_int b"
  proof -
    have "t1 + wait_time (of_int b) l1 \<le> t2"
      using assms(6) try_take_refill(2)[OF r, of b t1] no1 by (simp add: l1_def)
    then have "seconds (wait_time (of_int b) l1) \<le> seconds (t2 - t1)" by (intro seconds_mono) simp
    moreover have "seconds 10000000 \<le> seconds (t3 - t2)" using assms(8) by (intro seconds_mono) simp
    moreover have "seconds (wait_time (of_int b) l1 + 1) = seconds (wait_time (of_int b) l1) + seconds 1"
      by (simp add: seconds_add)
    moreover have "seconds 1 \<le> seconds 10000000" by (intro seconds_mono) simp
    ultimately have "seconds (wait_time (of_int b) l1 + 1) \<le> seconds (t2 - t1) + seconds (t3 - t2)"
      by linarith
    then have "seconds (wait_time (of_int b) l1 + 1) * of_int (lim_rate l) \<le>
        (seconds (t2 - t1) + seconds (t3 - t2)) * of_int (lim_rate l)"
      using r by (intro mult_right_mono) simp_all
    with wait_time_covers[of l1 "of_int b"] l1(3) r
    have enough: "of_int b \<le> lim_allowance l1 + seconds (t2 - t1) * of_int (lim_rate l) +
        seconds (t3 - t2) * of_int (lim_rate l)"
      by (simp add: distrib_right)
    have "0 \<le> seconds (t3 - t2) * of_int (lim_rate l)"
      using assms(8) r by (intro mult_nonneg_nonneg) simp_all
    moreover have "lim_allowance l2 = min (of_int (lim_rate l))
        (lim_allowance l1 + seconds (t2 - t1) * of_int (lim_rate l))"
      unfolding l2_def using refill_level_eq[of l1 t1 t2] l1 r assms(7) by simp
    moreover have "(of_int b :: rat) \<le> of_int (lim_rate l)" using assms(5) by simp
    moreover have "lim_allowance (refill_locked t3 l2) = min (of_int (lim_rate l))
        (lim_allowance l2 + seconds (t3 - t2) * of_int (lim_rate l))"
      using refill_level_eq[of l2 t2 t3] l2 r assms(8) by simp
    ultimately show ?thesis using enough by (auto simp: min_def split: if_splits)
  qed
  show ?thesis
  proof (cases "lim_allowance l1 \<ge> of_int b")
    case True
    then have "fst (try_take b t1 l) = Granted" using r by (simp add: try_take_refill l1_def)
    with assms(4) show ?thesis by (simp only: limiter_wait_loop wait_loop_granted)
  next
    case no1: False
    have s1: "\<exists>w. try_take b t1 l = (WaitFor w, l1)" using no1 r by (simp add: try_take_refill(2) l1_def)
    have g3: "fst (try_take b t3 l2) = Granted" using third[OF no1] l2 r by (simp add: try_take_refill)
    show ?thesis
    proof (cases "lim_allowance l2 \<ge> of_int b")
      case True
      then have "fst (try_take b t2 l1) = Granted" using r l1 by (simp add: try_take_refill l2_def)
      with s1 assms(4) show ?thesis by (auto simp only: limiter_wait_loop wait_loop_granted wait_loop_waits)
    next
      case False
      then have "\<exists>w. try_take b t2 l1 = (WaitFor w, l2)" using r l1 by (simp add: try_take_refill(2) l2_def)
      with s1 g3 assms(4) show ?thesis
        by (auto simp only: limiter_wait_loop wait_loop_granted wait_loop_waits)
    qed
  qed
qed

lemma wait_returns_witness:
  "fst (limiter_wait 1000 [(0, None), (1000000000, None), (1010000000, None)]
     (Some \<lparr>lim_rate = 1000, lim_allowance = 0, lim_last = Some 0\<rparr>)) = Some None"
  by (rule wait_returns[where t = 0])
    (auto simp: level_ok_def try_take_def refill_locked_def seconds_def nanos_def wait_time_def Let_def)

text \<open>
  C35: a call that asks for more bytes than the rate never returns by itself: the bucket is capped
  at one second's bytes, so the tokens it waits for cannot accumulate. The transfers ask for up to
  64 KiB at once, so a limit below 64 KiB/s can stop them.
\<close>

theorem large_request_starves:
  assumes "level_ok l" and "0 < lim_rate l" and "lim_rate l < b"
    and "\<forall>ev\<in>set evs. snd ev = None"
  shows "fst (limiter_wait b evs (Some l)) = None"
proof -
  have "fst (wait_loop b evs l) = None"
    using assms
  proof (induction evs arbitrary: l)
    case (Cons ev evs)
    obtain now where ev: "ev = (now, None)" using Cons.prems(4) by (cases ev) auto
    have "level_ok (refill_locked now l)" by (rule refill_level[OF Cons.prems(1)])
    then have "lim_allowance (refill_locked now l) \<le> of_int (lim_rate l)"
      using Cons.prems(2) by (simp add: level_ok_def)
    moreover have "(of_int (lim_rate l) :: rat) < of_int b" using Cons.prems(3) by simp
    ultimately have "\<not> lim_allowance (refill_locked now l) \<ge> of_int b" by linarith
    from try_take_refill(2)[OF Cons.prems(2) this] Cons.IH[of "refill_locked now l"] Cons.prems ev
    show ?case by (simp add: refill_level)
  qed simp
  with assms(2,3) show ?thesis by (simp add: limiter_wait_loop)
qed

lemma large_request_starves_witness:
  "fst (limiter_wait 65536 [(0, None), (5000000000, None), (90000000000, None)]
     (Some (new_limiter 32768 0))) = None"
  by (rule large_request_starves) (simp_all add: new_limiter_level, simp_all add: new_limiter_def)

end
