(* ===== verification/HttpTransfer.thy ===== *)
theory HttpTransfer
  imports OsFiles RateLimit
begin

text \<open>
  The HTTP transfer of \<open>internal/download/http/worker.go\<close>: the division of a file into parts, the
  record that resumes them, the \<open>Content-Range\<close> header, and the loops that fetch one part. What
  the code meets outside itself is an argument: a response is a function of the request, a body is
  a list of reads, and each read carries what the context, the limiter's clock and the file did
  then. A result \<open>Going\<close> means that the list ended, or a call blocked, before the loop returned.
\<close>

section \<open>Parts\<close>

definition unknown_size :: int where "unknown_size = 0"
definition not_supported_size :: int where "not_supported_size = -1"

record subworker =
  sub_start :: int
  sub_progress :: int
  sub_end :: int

definition mk_sub :: "int \<Rightarrow> int \<Rightarrow> subworker" where
  "mk_sub start stop = \<lparr>sub_start = start, sub_progress = start, sub_end = stop\<rparr>"

fun gen_blocks :: "nat \<Rightarrow> int \<Rightarrow> int \<Rightarrow> subworker list \<times> int" where
  "gen_blocks 0 start step = ([], start)"
| "gen_blocks (Suc n) start step =
     (let stop = start + step - 1 in
      case gen_blocks n (stop + 1) step of (ps, s) \<Rightarrow> (mk_sub start stop # ps, s))"

definition generate :: "int \<Rightarrow> int \<Rightarrow> bool \<Rightarrow> subworker list" where
  "generate file_size block_num supports_range =
     (let block_num = (if block_num \<le> 0 then 8 else block_num) in
      if \<not> supports_range then [mk_sub 0 not_supported_size]
      else if file_size \<le> 0 then [mk_sub 0 unknown_size]
      else
        (let block_num = (if block_num > file_size then file_size else block_num);
             step = file_size div block_num in
         case gen_blocks (nat (block_num - 1)) 0 step of
           (ps, start) \<Rightarrow> ps @ [mk_sub start (file_size - 1)]))"

section \<open>The record of the parts\<close>

fun le_bytes :: "nat \<Rightarrow> nat \<Rightarrow> string" where
  "le_bytes 0 n = []"
| "le_bytes (Suc k) n = char_of (n mod 256) # le_bytes k (n div 256)"

fun le_value :: "string \<Rightarrow> nat" where
  "le_value [] = 0"
| "le_value (c # cs) = byte_of c + 256 * le_value cs"

definition put_uint64 :: "int \<Rightarrow> string" where
  "put_uint64 x = le_bytes 8 (unat (word_of_int x :: 64 word))"

definition get_uint64 :: "string \<Rightarrow> int" where
  "get_uint64 s = sint (of_nat (le_value (take 8 s)) :: 64 word)"

definition encode_part :: "subworker \<Rightarrow> string" where
  "encode_part p = put_uint64 (sub_start p) @ put_uint64 (sub_progress p) @ put_uint64 (sub_end p)"

definition write_record :: "subworker list \<Rightarrow> string" where
  "write_record parts = concat (map encode_part parts)"

fun read_parts :: "nat \<Rightarrow> string \<Rightarrow> subworker list" where
  "read_parts 0 data = []"
| "read_parts (Suc n) data =
     \<lparr>sub_start = get_uint64 data, sub_progress = get_uint64 (drop 8 data),
      sub_end = get_uint64 (drop 16 data)\<rparr> # read_parts n (drop 24 data)"

text \<open>\<open>data\<close> is what reading the record file gave.\<close>

definition restore :: "string option \<Rightarrow> subworker list \<times> bool" where
  "restore data =
     (case data of
        None \<Rightarrow> ([], False)
      | Some d \<Rightarrow> if length d mod 24 \<noteq> 0 then ([], False)
                 else (let ps = read_parts (length d div 24) d in (ps, ps \<noteq> [])))"

section \<open>One part's transfer\<close>

datatype read_end = ReadMore | ReadEOF | ReadFail goerr

record read_event =
  rev_ctx :: "goerr option"
  rev_bytes :: string
  rev_end :: read_end
  rev_waits :: "(int \<times> goerr option) list"
  rev_write :: "(goerr \<times> nat) option"

record response =
  rsp_code :: int
  rsp_status :: string
  rsp_content_range :: string
  rsp_reads :: "read_event list"

record xfer =
  xf_file :: string
  xf_part :: subworker
  xf_received :: int
  xf_limiter :: "limiter option"

datatype flow = Going | Returned "goerr option" | Blocked | Panicked

definition chunk_size :: nat where "chunk_size = 64 * 1024"

definition update_retry_count :: "int \<Rightarrow> int \<Rightarrow> bool \<Rightarrow> int" where
  "update_retry_count failures max_retries made_progress =
     (let max_retries = (if max_retries < 0 then 0 else max_retries);
          failures = (if made_progress then 0 else failures) + 1 in
      if failures > max_retries then -1 else failures)"

definition retry_delay :: "int \<Rightarrow> int" where
  "retry_delay failures =
     (let failures = (if failures \<le> 0 then 1 else failures); delay = failures * nanos in
      if delay > 10 * nanos then 10 * nanos else delay)"

definition parse_content_range :: "unicode \<Rightarrow> string \<Rightarrow> (int \<times> int) result" where
  "parse_content_range u value =
     (let value = trim_space value in
      if value = [] then Inl (new_error ''missing Content-Range'')
      else case cut_str value '' '' of (unit_text, rest, ok) \<Rightarrow>
        if \<not> ok \<or> to_lower u (trim_space unit_text) \<noteq> ''bytes''
        then Inl (new_error (''unsupported Content-Range: '' @ quote u value))
        else case cut_str (trim_space rest) ''/'' of (range_part, _, ok) \<Rightarrow>
          if \<not> ok then Inl (new_error (''invalid Content-Range: '' @ quote u value))
          else case cut_str range_part ''-'' of (start_text, end_text, ok) \<Rightarrow>
            if \<not> ok then Inl (new_error (''invalid Content-Range range: '' @ quote u value))
            else case parse_int (trim_space start_text) of
              None \<Rightarrow> Inl (new_error (''invalid Content-Range start: '' @ quote u value))
            | Some start \<Rightarrow>
                if start < 0 then Inl (new_error (''invalid Content-Range start: '' @ quote u value))
                else (case parse_int (trim_space end_text) of
                    None \<Rightarrow> Inl (new_error (''invalid Content-Range end: '' @ quote u value))
                  | Some stop \<Rightarrow> Inr (start, stop)))"

definition validate_part_complete :: "stage \<Rightarrow> subworker \<Rightarrow> goerr option" where
  "validate_part_complete st p =
     (if stg_supports_range st then
        (if sub_end p = unknown_size then None
         else if sub_progress p \<le> sub_end p
         then Some (new_error (''incomplete range: received through '' @ itoa (sub_progress p - 1)
                @ '', expected through '' @ itoa (sub_end p)))
         else None)
      else if stg_file_size st > 0 \<and> sub_progress p < stg_file_size st
      then Some (new_error (''incomplete response: received '' @ itoa (sub_progress p)
             @ '' bytes, expected '' @ itoa (stg_file_size st)))
      else None)"

text \<open>The part of a read that is stored: \<open>chunk[:remaining]\<close> panics on a negative length.\<close>

definition trim_chunk :: "stage \<Rightarrow> subworker \<Rightarrow> string \<Rightarrow> string option" where
  "trim_chunk st p bytes =
     (if stg_supports_range st \<and> sub_end p > 0 then
        (let remaining = sub_end p - sub_progress p + 1 in
         if int (length bytes) > remaining
         then (if remaining < 0 then None else Some (take (nat remaining) bytes))
         else Some bytes)
      else Some bytes)"

definition store_chunk :: "stage \<Rightarrow> read_event \<Rightarrow> xfer \<Rightarrow> flow \<times> xfer" where
  "store_chunk st ev x =
     (case trim_chunk st (xf_part x) (rev_bytes ev) of
        None \<Rightarrow> (Panicked, x)
      | Some chunk \<Rightarrow>
          (case limiter_wait (int (length chunk)) (rev_waits ev) (xf_limiter x) of
             (None, l) \<Rightarrow> (Blocked, x\<lparr>xf_limiter := l\<rparr>)
           | (Some (Some e), l) \<Rightarrow> (Returned (Some e), x\<lparr>xf_limiter := l\<rparr>)
           | (Some None, l) \<Rightarrow>
               (case write_at (sub_progress (xf_part x)) chunk (rev_write ev) (xf_file x) of
                  (Some e, f) \<Rightarrow> (Returned (Some e), x\<lparr>xf_limiter := l, xf_file := f\<rparr>)
                | (None, f) \<Rightarrow>
                    (let p = (xf_part x)\<lparr>sub_progress := sub_progress (xf_part x) + int (length chunk)\<rparr> in
                     (if stg_supports_range st \<and> sub_end p > 0 \<and> sub_progress p > sub_end p
                      then Returned None else Going,
                      x\<lparr>xf_limiter := l, xf_file := f, xf_part := p,
                        xf_received := xf_received x + int (length chunk)\<rparr>)))))"

definition copy_step :: "stage \<Rightarrow> read_event \<Rightarrow> xfer \<Rightarrow> flow \<times> xfer" where
  "copy_step st ev x =
     (case rev_ctx ev of
        Some e \<Rightarrow> (Returned (Some e), x)
      | None \<Rightarrow>
          (case (if rev_bytes ev = [] then (Going, x) else store_chunk st ev x) of
             (Going, x') \<Rightarrow>
               (case rev_end ev of
                  ReadEOF \<Rightarrow> (Returned (validate_part_complete st (xf_part x')), x')
                | ReadFail e \<Rightarrow> (Returned (Some e), x')
                | ReadMore \<Rightarrow> (Going, x'))
           | (fl, x') \<Rightarrow> (fl, x')))"

fun copy_loop :: "stage \<Rightarrow> read_event list \<Rightarrow> xfer \<Rightarrow> flow \<times> xfer" where
  "copy_loop st [] x = (Going, x)"
| "copy_loop st (ev # evs) x =
     (case copy_step st ev x of
        (Going, x') \<Rightarrow> copy_loop st evs x'
      | (fl, x') \<Rightarrow> (fl, x'))"

definition copy_part :: "unicode \<Rightarrow> stage \<Rightarrow> response \<Rightarrow> xfer \<Rightarrow> flow \<times> xfer" where
  "copy_part u st resp x =
     (if stg_supports_range st \<and> rsp_code resp \<noteq> 206
      then (Returned (Some (new_error (''range request rejected: '' @ rsp_status resp))), x)
      else if stg_supports_range st then
        (case parse_content_range u (rsp_content_range resp) of
           Inl e \<Rightarrow> (Returned (Some e), x)
         | Inr (start, stop) \<Rightarrow>
             if start \<noteq> sub_progress (xf_part x)
             then (Returned (Some (new_error (''range response starts at '' @ itoa start
                    @ '', expected '' @ itoa (sub_progress (xf_part x))))), x)
             else if stop \<ge> 0 \<and> stop < start
             then (Returned (Some (new_error (''range response ends before it starts: '' @ itoa start
                    @ ''-'' @ itoa stop))), x)
             else copy_loop st (rsp_reads resp) x)
      else if rsp_code resp \<noteq> 200
      then (Returned (Some (new_error (''server returned '' @ rsp_status resp))), x)
      else copy_loop st (rsp_reads resp) x)"

section \<open>Retrying\<close>

record part_request =
  prq_url :: string
  prq_headers :: strmap
  prq_sets :: "(string \<times> string) list"

definition request_for :: "stage \<Rightarrow> int \<Rightarrow> int \<Rightarrow> part_request" where
  "request_for st progress stop =
     \<lparr>prq_url = stg_url st, prq_headers = stg_headers st,
      prq_sets = (''Accept-Encoding'', ''identity'') #
        (if \<not> stg_supports_range st then []
         else if stop = unknown_size then [(''Range'', ''bytes='' @ itoa progress @ ''-'')]
         else [(''Range'', ''bytes='' @ itoa progress @ ''-'' @ itoa stop)])\<rparr>"

text \<open>
  What one pass of the loop meets: the truncation of the file, the construction of the request,
  the server, the context's error when it is asked after a failure, and how the sleep ended.
\<close>

record attempt =
  att_truncate :: "goerr option"
  att_request :: "goerr option"
  att_server :: "part_request \<Rightarrow> response result"
  att_ctx :: "goerr option"
  att_sleep :: "goerr option"

definition reset_non_range_part :: "goerr option \<Rightarrow> xfer \<Rightarrow> goerr option \<times> xfer" where
  "reset_non_range_part fault x =
     (let previous = sub_progress (xf_part x);
          x = x\<lparr>xf_part := (xf_part x)\<lparr>sub_progress := 0\<rparr>,
                xf_received := (if previous > 0 then xf_received x - previous else xf_received x)\<rparr> in
      case fault of Some e \<Rightarrow> (Some e, x) | None \<Rightarrow> (None, x\<lparr>xf_file := []\<rparr>))"

definition retry_or_fail ::
  "attempt \<Rightarrow> goerr \<Rightarrow> int \<Rightarrow> stage \<Rightarrow> bool \<Rightarrow> goerr + int" where
  "retry_or_fail a e failures st made_progress =
     (case att_ctx a of
        Some c \<Rightarrow> Inl c
      | None \<Rightarrow>
          (let failures = update_retry_count failures (stg_max_retries st) made_progress in
           if failures < 0 then Inl e
           else (case att_sleep a of Some c \<Rightarrow> Inl c | None \<Rightarrow> Inr failures)))"

fun download_part ::
  "unicode \<Rightarrow> stage \<Rightarrow> int \<Rightarrow> attempt list \<Rightarrow> xfer \<Rightarrow> flow \<times> xfer" where
  "download_part u st failures [] x = (Going, x)"
| "download_part u st failures (a # as) x =
     (case (if stg_supports_range st then (None, x) else reset_non_range_part (att_truncate a) x) of
        (Some e, x1) \<Rightarrow> (Returned (Some e), x1)
      | (None, x1) \<Rightarrow>
          (let progress = sub_progress (xf_part x1); stop = sub_end (xf_part x1) in
           if stop \<noteq> unknown_size \<and> progress > stop then (Returned None, x1)
           else case att_request a of
             Some e \<Rightarrow> (Returned (Some e), x1)
           | None \<Rightarrow>
               (case att_server a (request_for st progress stop) of
                  Inl e \<Rightarrow>
                    (case retry_or_fail a e failures st False of
                       Inl e' \<Rightarrow> (Returned (Some e'), x1)
                     | Inr n \<Rightarrow> download_part u st n as x1)
                | Inr resp \<Rightarrow>
                    (case copy_part u st resp x1 of
                       (Returned (Some e), x2) \<Rightarrow>
                         (case retry_or_fail a e failures st (sub_progress (xf_part x2) > progress) of
                            Inl e' \<Rightarrow> (Returned (Some e'), x2)
                          | Inr n \<Rightarrow> download_part u st n as x2)
                     | (fl, x2) \<Rightarrow> (fl, x2)))))"

section \<open>The run of a task\<close>

definition progress_report :: "int \<Rightarrow> int \<Rightarrow> rat \<Rightarrow> int \<Rightarrow> progress_update" where
  "progress_report received speed fallback file_size =
     \<lparr>upd_received = received, upd_file_size = 0, upd_speed = speed,
      upd_progress = (if file_size > 0 then of_int received / of_int file_size * 100 else fallback),
      upd_detail = [], upd_status = None, upd_stage_state = None, upd_uses_slot = None\<rparr>"

definition initial_parts :: "stage \<Rightarrow> string option \<Rightarrow> subworker list result" where
  "initial_parts st data =
     (let (ps, restored) = restore data;
          ps = (if restored then ps
                else generate (stg_file_size st) (stg_block_num st) (stg_supports_range st)) in
      if ps = [] then Inl (new_error ''no download parts generated'') else Inr ps)"

definition initial_received :: "subworker list \<Rightarrow> int" where
  "initial_received ps = sum_list (map (\<lambda>p. sub_progress p - sub_start p) ps)"

text \<open>
  The file when it is opened: truncated when the server has no ranges, extended to its size when
  nothing was restored (\<open>grow\<close>: whether that succeeded; a failure is only logged).
\<close>

definition opened_file :: "stage \<Rightarrow> bool \<Rightarrow> bool \<Rightarrow> string \<Rightarrow> string" where
  "opened_file st restored grow f =
     (let f = (if stg_supports_range st then f else []) in
      if \<not> restored \<and> stg_supports_range st \<and> stg_file_size st > 0 \<and> grow
      then take (nat (stg_file_size st)) f @
           replicate (nat (stg_file_size st) - length f) (CHR 0x00)
      else f)"

text \<open>
  The end of \<open>Run\<close>, after every part's goroutine returned: the context's error, else the first
  error sent, else success with the final report; whether the record is removed.
\<close>

definition run_result ::
  "stage \<Rightarrow> goerr option \<Rightarrow> goerr list \<Rightarrow> int \<Rightarrow> goerr option \<times> progress_update option \<times> bool" where
  "run_result st ctx errs received =
     (case ctx of
        Some e \<Rightarrow> (Some e, None, False)
      | None \<Rightarrow>
          (case errs of
             e # _ \<Rightarrow> (Some e, None, False)
           | [] \<Rightarrow> (None, Some ((progress_report received 0 100 0)), stg_supports_range st)))"

end
