(* ===== verification/HttpProbe.thy ===== *)
theory HttpProbe
  imports GoNet HttpTransfer TaskFiles
begin

text \<open>
  Probing and naming an HTTP download: \<open>internal/download/http/probe.go\<close>, \<open>headers.go\<close>,
  \<open>dedupe.go\<close> and \<open>errors.go\<close>. The client is a function from a request's headers to its answer.
\<close>

section \<open>Header texts, headers.go\<close>

fun parse_header_lines ::
  "nat \<Rightarrow> string list \<Rightarrow> (string \<times> string) list \<Rightarrow> (string \<times> string) list result" where
  "parse_header_lines n [] headers = Inr headers"
| "parse_header_lines n (raw # rest) headers =
     (let line = trim_space raw in
      if line = [] then parse_header_lines (n + 1) rest headers
      else case cut_str line '':'' of (name, v, ok) \<Rightarrow>
        if \<not> ok then Inl (new_error (''invalid header line '' @ itoa (int n + 1) @ '': missing '' @ [CHR 0x27, CHR '':'', CHR 0x27]))
        else let name = trim_space name in
          if name = [] then Inl (new_error (''invalid header line '' @ itoa (int n + 1) @ '': empty name''))
          else parse_header_lines (n + 1) rest (AList.update name (trim_space v) headers))"

definition parse_headers :: "string \<Rightarrow> (string \<times> string) list result" where
  "parse_headers text = parse_header_lines 0 (split_on (CHR 0x0A) text) []"

text \<open>
  \<open>unicode.IsControl\<close>: the bytes below 32 and 127, and U+0080 to U+009F, which UTF-8 writes as
  the byte C2 and a byte from 80 to 9F.
\<close>

fun has_control :: "string \<Rightarrow> bool" where
  "has_control [] = False"
| "has_control (c # cs) =
     (byte_of c < 32 \<or> byte_of c = 127 \<or>
      (byte_of c = 194 \<and> (case cs of d # _ \<Rightarrow> 128 \<le> byte_of d \<and> byte_of d \<le> 159 | [] \<Rightarrow> False)) \<or>
      has_control cs)"

definition cookie_sep :: "char \<Rightarrow> bool" where
  "cookie_sep c \<longleftrightarrow> c = CHR '';'' \<or> c = CHR 0x0D \<or> c = CHR 0x0A"

definition cookie_of :: "string \<Rightarrow> string option" where
  "cookie_of part =
     (case cut_str (trim_space part) ''='' of (name, v, ok) \<Rightarrow>
        if \<not> ok then None
        else let name = trim_space name; v = trim_space v in
          if name = [] \<or> v = [] \<or> has_control v then None else Some (name @ ''='' @ v))"

definition normalize_cookies :: "string \<Rightarrow> string" where
  "normalize_cookies text =
     join_with ''; '' (List.map_filter cookie_of (fields_func cookie_sep text))"

text \<open>\<open>headers\<close> in the order in which the map is iterated; None is a nil map.\<close>

definition merge_cookies ::
  "unicode \<Rightarrow> (string \<times> string) list option \<Rightarrow> string \<Rightarrow> (string \<times> string) list option" where
  "merge_cookies u headers text =
     (let normalized = normalize_cookies text in
      if normalized = [] then headers
      else let h = (case headers of None \<Rightarrow> [] | Some h \<Rightarrow> h) in
        case find (\<lambda>(k, _). equal_fold u k ''Cookie'') h of
          Some (k, v) \<Rightarrow>
            Some (AList.update k
              (if trim_space v = [] then normalized
               else trim_right '';'' (trim_space v) @ ''; '' @ normalized) h)
        | None \<Rightarrow> Some (AList.update ''Cookie'' normalized h))"

section \<open>Names, probe.go\<close>

definition preferred_extensions :: "(string \<times> string) list" where
  "preferred_extensions =
     [(''application/gzip'', ''.gz''), (''application/javascript'', ''.js''),
      (''application/json'', ''.json''), (''application/pdf'', ''.pdf''),
      (''application/vnd.rar'', ''.rar''), (''application/wasm'', ''.wasm''),
      (''application/x-7z-compressed'', ''.7z''), (''application/x-bittorrent'', ''.torrent''),
      (''application/x-gzip'', ''.gz''), (''application/x-rar-compressed'', ''.rar''),
      (''application/zip'', ''.zip''), (''audio/mpeg'', ''.mp3''), (''image/gif'', ''.gif''),
      (''image/jpeg'', ''.jpg''), (''image/png'', ''.png''), (''image/webp'', ''.webp''),
      (''text/css'', ''.css''), (''text/html'', ''.html''), (''text/javascript'', ''.js''),
      (''text/plain'', ''.txt''), (''video/mp4'', ''.mp4''), (''video/webm'', ''.webm'')]"

definition unsafe_filename_char :: "char \<Rightarrow> bool" where
  "unsafe_filename_char c \<longleftrightarrow> byte_of c < 32 \<or>
     c \<in> {CHR ''<'', CHR ''>'', CHR '':'', CHR 0x22, CHR ''/'', CHR 0x5C, CHR ''|'', CHR ''?'', CHR ''*''}"

definition safe_filename :: "string \<Rightarrow> string" where
  "safe_filename name =
     (let name = trim ''. '' (map (\<lambda>c. if unsafe_filename_char c then CHR ''_'' else c) (trim_space name)) in
      if name = [] then ''download'' else name)"

definition strip_path_params :: "string \<Rightarrow> string" where
  "strip_path_params s = (case cut_str s '';'' of (before, _, ok) \<Rightarrow> if ok then before else s)"

definition content_type_extension :: "unicode \<Rightarrow> netlib \<Rightarrow> string \<Rightarrow> string" where
  "content_type_extension u lib content_type =
     (let media = (case nl_media_type lib content_type of
            Some (m, _) \<Rightarrow> if m = [] then trim_space (hd (split_on (CHR '';'') content_type)) else m
          | None \<Rightarrow> trim_space (hd (split_on (CHR '';'') content_type))) in
      if media = [] then []
      else case map_of preferred_extensions (to_lower u media) of
        Some x \<Rightarrow> x
      | None \<Rightarrow> (case nl_extensions lib (to_lower u media) of [] \<Rightarrow> [] | x # _ \<Rightarrow> x))"

definition with_content_type_extension :: "unicode \<Rightarrow> netlib \<Rightarrow> string \<Rightarrow> string \<Rightarrow> string" where
  "with_content_type_extension u lib name content_type =
     (if contains_str (path_base name) ''.'' then name
      else name @ content_type_extension u lib content_type)"

text \<open>
  The text after the opening quote of a quoted parameter, up to and with its closing quote: a
  backslash takes the next character with it when the rest still closes.
\<close>

fun quoted_rest :: "string \<Rightarrow> string option" where
  "quoted_rest [] = None"
| "quoted_rest (c # cs) =
     (if c = CHR 0x22 then Some [c]
      else
        (let plain = map_option (\<lambda>r. c # r) (quoted_rest cs) in
         case cs of
           d # ds \<Rightarrow>
             (if c = CHR 0x5C \<and> d \<noteq> CHR 0x0A
              then (case quoted_rest ds of Some r \<Rightarrow> Some (c # d # r) | None \<Rightarrow> plain) else plain)
         | [] \<Rightarrow> plain))"

definition regex_space :: "char \<Rightarrow> bool" where
  "regex_space c \<longleftrightarrow> byte_of c \<in> {9, 10, 12, 13, 32}"

text \<open>The parameter's value when the text starts with \<open>key = value\<close>.\<close>

definition param_here :: "string \<Rightarrow> string \<Rightarrow> string option" where
  "param_here key s =
     (let s = dropWhile regex_space s in
      if map lower_char (take (length key) s) \<noteq> key then None
      else case dropWhile regex_space (drop (length key) s) of
        c # t \<Rightarrow>
          if c \<noteq> CHR ''='' then None
          else
            (let sp = takeWhile regex_space t; r = dropWhile regex_space t;
                 bare = takeWhile (\<lambda>c. c \<noteq> CHR '';'') r;
                 otherwise = (if bare \<noteq> [] then Some bare
                              else if sp \<noteq> [] then Some [last sp] else None) in
             case r of
               q # r' \<Rightarrow>
                 (if q = CHR 0x22 then
                    (case quoted_rest r' of Some x \<Rightarrow> Some (q # x) | None \<Rightarrow> otherwise)
                  else if q = CHR 0x27 \<and> CHR 0x27 \<in> set r'
                  then Some (q # takeWhile (\<lambda>c. c \<noteq> CHR 0x27) r' @ [CHR 0x27])
                  else otherwise)
             | [] \<Rightarrow> otherwise)
      | [] \<Rightarrow> None)"

fun param_search :: "string \<Rightarrow> string \<Rightarrow> string option" where
  "param_search key [] = None"
| "param_search key (c # cs) =
     (if c = CHR '';'' then (case param_here key cs of Some v \<Rightarrow> Some v | None \<Rightarrow> param_search key cs)
      else param_search key cs)"

definition filename_param :: "string \<Rightarrow> string \<Rightarrow> string" where
  "filename_param s key =
     (case param_here key s of
        Some v \<Rightarrow> trim_space v
      | None \<Rightarrow> (case param_search key s of Some v \<Rightarrow> trim_space v | None \<Rightarrow> []))"

definition name_quotes :: string where "name_quotes = [CHR 0x22, CHR 0x27, CHR '' '']"

text \<open>The UTF-8 text of the code point that has the byte's value.\<close>

definition latin1_char :: "char \<Rightarrow> string" where
  "latin1_char c =
     (let b = byte_of c in
      if b < 128 then [c] else [char_of (192 + b div 64), char_of (128 + b mod 64)])"

definition decode_rfc5987 :: "unicode \<Rightarrow> string \<Rightarrow> string" where
  "decode_rfc5987 u s =
     (let s = trim name_quotes s in
      case cut_str s [CHR 0x27] of (charset, rest, ok) \<Rightarrow>
        if \<not> ok then []
        else case cut_str rest [CHR 0x27] of (_, encoded, ok) \<Rightarrow>
          if \<not> ok then []
          else case query_unescape encoded of
            None \<Rightarrow> []
          | Some decoded \<Rightarrow>
              if to_lower u charset \<in> {''iso-8859-1'', ''latin1'', ''latin-1''}
              then concat (map latin1_char decoded) else decoded)"

definition filename_from_disposition :: "unicode \<Rightarrow> netlib \<Rightarrow> string \<Rightarrow> string" where
  "filename_from_disposition u lib s =
     (let s = trim_space s;
          params = (case nl_media_type lib s of Some (_, ps) \<Rightarrow> ps | None \<Rightarrow> []) in
      if s = [] then []
      else if trim_space (params_get params ''filename*'') \<noteq> []
      then trim name_quotes (trim_space (params_get params ''filename*''))
      else if trim_space (params_get params ''filename'') \<noteq> []
      then trim name_quotes (trim_space (params_get params ''filename''))
      else
        (let ext = filename_param s ''filename*'' in
         if ext \<noteq> [] then
           (if decode_rfc5987 u ext \<noteq> [] then decode_rfc5987 u ext else trim name_quotes ext)
         else
           (let plain = filename_param s ''filename'' in
            if plain = [] then []
            else case query_unescape (trim name_quotes plain) of
              Some x \<Rightarrow> x | None \<Rightarrow> trim name_quotes plain)))"

definition unescaped_base :: "string \<Rightarrow> string" where
  "unescaped_base base =
     strip_path_params (case path_unescape base of Some x \<Rightarrow> x | None \<Rightarrow> base)"

definition no_base :: "string \<Rightarrow> bool" where
  "no_base base \<longleftrightarrow> base = ''.'' \<or> base = ''/'' \<or> base = []"

definition filename_from_location :: "netlib \<Rightarrow> string \<Rightarrow> string" where
  "filename_from_location lib s =
     (let s = trim_space s in
      if s = [] then []
      else
        (let s = (case nl_parse_url lib s of Inr p \<Rightarrow> if up_path p \<noteq> [] then up_path p else s | Inl _ \<Rightarrow> s);
             base = path_base s in
         if no_base base then [] else unescaped_base base))"

text \<open>\<open>now\<close> is the clock's nanoseconds, for a file that nothing names.\<close>

definition filename_from ::
  "unicode \<Rightarrow> netlib \<Rightarrow> int \<Rightarrow> string \<Rightarrow> http_header \<Rightarrow> string" where
  "filename_from u lib now raw_url headers =
     (let content_type = header_get headers ''Content-Type'';
          named = (\<lambda>n. safe_filename (with_content_type_extension u lib n content_type));
          disposition = filename_from_disposition u lib (header_get headers ''Content-Disposition'');
          location = filename_from_location lib (header_get headers ''Content-Location'') in
      if disposition \<noteq> [] then named disposition
      else if location \<noteq> [] then named location
      else
        (let fallback = safe_filename (''file_'' @ itoa now @ content_type_extension u lib content_type) in
         case nl_parse_url lib raw_url of
           Inl _ \<Rightarrow> fallback
         | Inr p \<Rightarrow>
             (let q = filename_from_disposition u lib
                    (nl_query_get lib (up_query p) ''response-content-disposition'') in
              if q \<noteq> [] then named q
              else if no_base (path_base (up_path p)) then fallback
              else named (unescaped_base (path_base (up_path p))))))"

section \<open>Sizes and the probe\<close>

definition content_length :: "http_header \<Rightarrow> int" where
  "content_length headers =
     (let v = trim_space (header_get headers ''Content-Length'') in
      if v = [] then unknown_size
      else case parse_int v of None \<Rightarrow> unknown_size
        | Some n \<Rightarrow> if n \<le> 0 then unknown_size else n)"

definition range_size :: "http_header \<Rightarrow> int" where
  "range_size headers =
     (let v = trim_space (header_get headers ''Content-Range'') in
      if v = [] then unknown_size
      else case cut_str v ''/'' of (_, t, ok) \<Rightarrow>
        if \<not> ok \<or> t = [] \<or> t = ''*'' then unknown_size
        else case parse_int t of None \<Rightarrow> unknown_size
          | Some n \<Rightarrow> if n \<le> 0 then unknown_size else n)"

definition lower_headers :: "unicode \<Rightarrow> http_header \<Rightarrow> (string \<times> string) list" where
  "lower_headers u headers =
     foldl (\<lambda>r (k, vs). case vs of v # _ \<Rightarrow> AList.update (to_lower u k) v r | [] \<Rightarrow> r) [] headers"

record answer =
  ans_code :: int
  ans_status :: string
  ans_headers :: http_header
  ans_url :: string

definition resp_error :: "answer \<Rightarrow> goerr" where
  "resp_error a = new_error (''server returned '' @ ans_status a)"

definition send_probe :: "((string \<times> string) list \<Rightarrow> answer result) \<Rightarrow> (string \<times> string) list \<Rightarrow> answer result" where
  "send_probe client headers =
     (case client headers of
        Inl e \<Rightarrow> Inl e
      | Inr a \<Rightarrow>
          if ans_code a \<noteq> 200 \<and> ans_code a \<noteq> 206 \<and> ans_code a \<noteq> 416 then Inl (resp_error a) else Inr a)"

definition probe_headers :: "(string \<times> string) list \<Rightarrow> string \<Rightarrow> (string \<times> string) list" where
  "probe_headers base byte_range =
     AList.update ''Accept-Encoding'' ''identity'' (AList.update ''Range'' byte_range base)"

record probe_result =
  prb_url :: string
  prb_filename :: string
  prb_file_size :: int
  prb_supports_range :: bool
  prb_headers :: "(string \<times> string) list"

definition accepts_ranges :: "answer \<Rightarrow> bool" where
  "accepts_ranges a \<longleftrightarrow> ans_code a = 206 \<and> header_get (ans_headers a) ''Content-Range'' \<noteq> []"

definition ranged_result :: "unicode \<Rightarrow> netlib \<Rightarrow> int \<Rightarrow> string \<Rightarrow> answer \<Rightarrow> probe_result" where
  "ranged_result u lib now url a =
     \<lparr>prb_url = url, prb_filename = filename_from u lib now url (ans_headers a),
      prb_file_size = range_size (ans_headers a), prb_supports_range = True,
      prb_headers = lower_headers u (ans_headers a)\<rparr>"

text \<open>What the second probe, from byte zero, adds when the first one gave no usable size.\<close>

definition fallback_size :: "int \<Rightarrow> answer \<Rightarrow> int" where
  "fallback_size file_size b =
     (if file_size \<noteq> unknown_size then file_size
      else let n = content_length (ans_headers b) in
        if n = unknown_size \<and> ans_code b = 416 then range_size (ans_headers b) else n)"

definition probe ::
  "unicode \<Rightarrow> netlib \<Rightarrow> int \<Rightarrow> ((string \<times> string) list \<Rightarrow> answer result) \<Rightarrow> (string \<times> string) list \<Rightarrow>
   probe_result result" where
  "probe u lib now client base =
     (case send_probe client (probe_headers base ''bytes=1-1'') of
        Inl e \<Rightarrow> Inl e
      | Inr a \<Rightarrow>
          if accepts_ranges a then Inr (ranged_result u lib now (ans_url a) a)
          else
            (let file_size = content_length (ans_headers a);
                 plain = (\<lambda>n. \<lparr>prb_url = ans_url a,
                   prb_filename = filename_from u lib now (ans_url a) (ans_headers a),
                   prb_file_size = n, prb_supports_range = False,
                   prb_headers = lower_headers u (ans_headers a)\<rparr>) in
             if ans_code a = 200 \<and> (file_size = unknown_size \<or> file_size = 1) then
               (case send_probe client (probe_headers base ''bytes=0-0'') of
                  Inl _ \<Rightarrow> Inr (plain file_size)
                | Inr b \<Rightarrow>
                    if accepts_ranges b then Inr (ranged_result u lib now (ans_url a) b)
                    else Inr (plain (fallback_size file_size b)))
             else Inr (plain file_size)))"

text \<open>\<open>ids\<close>: the task's and the stage's fresh identifiers and the creation time.\<close>

definition parse_http ::
  "unicode \<Rightarrow> netlib \<Rightarrow> int \<Rightarrow> ((string \<times> string) list \<Rightarrow> answer result) \<Rightarrow> string \<times> string \<times> int \<Rightarrow>
   string \<Rightarrow> string \<Rightarrow> int \<Rightarrow> int \<Rightarrow> string \<Rightarrow> (string \<times> string) list option \<Rightarrow> task result" where
  "parse_http u lib now client ids raw_url dir block_num retries proxy headers =
     (case probe u lib now client (case headers of None \<Rightarrow> [] | Some h \<Rightarrow> h) of
        Inl e \<Rightarrow> Inl e
      | Inr r \<Rightarrow>
          (case ids of (tid, sid, created) \<Rightarrow>
             Inr (new_task tid created ''http'' (prb_filename r) raw_url dir (prb_file_size r)
               (new_stage sid ''http'' (prb_url r) (prb_file_size r)
                  (if block_num \<le> 0 then 8 else block_num) retries (prb_supports_range r)
                  (map_option fmap_of_list headers) proxy))))"

section \<open>A title no other task or file has, dedupe.go\<close>

definition title_key :: "unicode \<Rightarrow> string \<Rightarrow> string \<Rightarrow> string" where
  "title_key u dir title = to_lower u (fp_clean (fp_join [dir, title]))"

definition path_available :: "fsys \<Rightarrow> string \<Rightarrow> bool" where
  "path_available fs p = (case os_lstat fs p of Inl e \<Rightarrow> err_not_exist e | Inr _ \<Rightarrow> False)"

definition with_copy_suffix :: "string \<Rightarrow> int \<Rightarrow> string" where
  "with_copy_suffix title index =
     (let ext = fp_ext title; base = trim_suffix title ext;
          base = (if base = [] then ''download'' else base) in
      base @ '' ('' @ itoa index @ '')'' @ ext)"

definition title_free :: "unicode \<Rightarrow> fsys \<Rightarrow> string \<Rightarrow> task_snapshot list \<Rightarrow> string \<Rightarrow> bool" where
  "title_free u fs dir existing candidate \<longleftrightarrow>
     (let p = fp_clean (fp_join [dir, candidate]) in
      title_key u dir candidate \<notin> set (map (\<lambda>t. title_key u (snp_path t) (snp_title t)) existing) \<and>
      path_available fs p \<and> path_available fs (p @ ''.ghd''))"

text \<open>The loop, with fuel; None is that the fuel ran out.\<close>

fun dedupe_loop ::
  "unicode \<Rightarrow> fsys \<Rightarrow> string \<Rightarrow> task_snapshot list \<Rightarrow> string \<Rightarrow> nat \<Rightarrow> int \<Rightarrow> string \<Rightarrow> string option" where
  "dedupe_loop u fs dir existing title 0 index candidate = None"
| "dedupe_loop u fs dir existing title (Suc fuel) index candidate =
     (if title_free u fs dir existing candidate then Some candidate
      else dedupe_loop u fs dir existing title fuel (index + 1) (with_copy_suffix title index))"

definition deduplicate_title ::
  "unicode \<Rightarrow> fsys \<Rightarrow> nat \<Rightarrow> string \<Rightarrow> string \<Rightarrow> task_snapshot list \<Rightarrow> string option" where
  "deduplicate_title u fs fuel title dir existing = dedupe_loop u fs dir existing title fuel 1 title"

end
