(* ===== verification/GoUtf8.thy ===== *)
theory GoUtf8
  imports GoStrings
begin

text \<open>
  UTF-8 as Go's package \<open>unicode/utf8\<close> reads it: the length of the rune at the head of a byte
  string, 0 for an invalid byte, and \<open>strings.Map\<close> with a function that changes ASCII characters
  only; an invalid byte becomes the three bytes of U+FFFD.
\<close>

section \<open>Runes\<close>

definition cont_byte :: "nat \<Rightarrow> nat \<Rightarrow> char \<Rightarrow> bool" where
  "cont_byte lo hi c \<longleftrightarrow> lo \<le> byte_of c \<and> byte_of c \<le> hi"

text \<open>The number of bytes a first byte announces, with the bounds on the second byte.\<close>

definition lead_info :: "nat \<Rightarrow> nat \<times> nat \<times> nat" where
  "lead_info b =
     (if b < 128 then (1, 0, 0)
      else if 194 \<le> b \<and> b \<le> 223 then (2, 128, 191)
      else if b = 224 then (3, 160, 191) else if b = 237 then (3, 128, 159)
      else if 225 \<le> b \<and> b \<le> 239 then (3, 128, 191)
      else if b = 240 then (4, 144, 191) else if b = 244 then (4, 128, 143)
      else if 241 \<le> b \<and> b \<le> 243 then (4, 128, 191) else (0, 0, 0))"

definition rune_len :: "string \<Rightarrow> nat" where
  "rune_len s =
     (case s of
        [] \<Rightarrow> 0
      | c # cs \<Rightarrow>
          (case lead_info (byte_of c) of (n, lo, hi) \<Rightarrow>
             if n \<le> 1 then n
             else if n - 1 \<le> length cs \<and> cont_byte lo hi (hd cs) \<and>
               list_all (cont_byte 128 191) (take (n - 2) (tl cs)) then n else 0))"

definition replacement :: string where "replacement = [CHR 0xEF, CHR 0xBF, CHR 0xBD]"

section \<open>Map\<close>

lemma rune_len_le: "rune_len s \<le> length s"
  by (cases s) (auto simp: rune_len_def split: prod.split)

function map_ascii :: "(char \<Rightarrow> char) \<Rightarrow> string \<Rightarrow> string" where
  "map_ascii f [] = []"
| "map_ascii f (c # cs) =
     (let n = rune_len (c # cs) in
      if n = 0 then replacement @ map_ascii f cs
      else if n = 1 then f c # map_ascii f cs
      else take n (c # cs) @ map_ascii f (drop n (c # cs)))"
  by pat_completeness auto
termination
  by (relation "measure (\<lambda>(f, s). length s)") auto

declare map_ascii.simps(2) [simp del]

section \<open>Texts that the map leaves alone\<close>

lemma rune_len_Cons1: "byte_of c < 128 \<longleftrightarrow> rune_len (c # cs) = 1"
  by (auto simp: rune_len_def lead_info_def)

lemma lead_info_1: "fst (lead_info b) = 1 \<longleftrightarrow> b < 128"
  by (simp add: lead_info_def)

lemma rune_len_bytes:
  assumes "rune_len s = n" and "2 \<le> n" and "i < n"
  shows "128 \<le> byte_of (s ! i)"
proof -
  obtain c cs where s: "s = c # cs" using assms by (cases s) (auto simp: rune_len_def)
  obtain m lo hi where m: "lead_info (byte_of c) = (m, lo, hi)" by (cases "lead_info (byte_of c)")
  have n: "m = n" "n - 1 \<le> length cs" "cont_byte lo hi (hd cs)"
    "list_all (cont_byte 128 191) (take (n - 2) (tl cs))"
    using assms(1,2) m by (auto simp: rune_len_def s split: if_splits)
  have lead: "128 \<le> byte_of c" "128 \<le> lo"
    using m n(1) assms(2) by (auto simp: lead_info_def split: if_splits)
  consider "i = 0" | "i = 1" | j where "i = j + 2" by (metis One_nat_def add_2_eq_Suc' not0_implies_Suc)
  then show ?thesis
  proof cases
    case 2
    have "cs \<noteq> []" using n(2) assms(2) by auto
    with 2 n(3) lead show ?thesis by (simp add: s cont_byte_def hd_conv_nth)
  next
    case 3
    have "j < n - 2" "j < length (tl cs)" using 3 assms(3) n(2) by auto
    then have "cont_byte 128 191 (tl cs ! j)"
      using n(4) by (auto simp: list_all_length)
    with 3 \<open>j < length (tl cs)\<close> show ?thesis by (simp add: s cont_byte_def nth_tl)
  qed (simp add: s lead)
qed

lemma rune_len_take:
  assumes "rune_len s = n" and "n \<noteq> 0" and "n \<le> k"
  shows "rune_len (take k s @ t) = n"
proof -
  obtain c cs where s: "s = c # cs" using assms by (cases s) (auto simp: rune_len_def)
  obtain j where k: "k = Suc j" using assms(2,3) by (cases k) auto
  obtain m lo hi where m: "lead_info (byte_of c) = (m, lo, hi)" by (cases "lead_info (byte_of c)")
  show ?thesis
  proof (cases "m \<le> 1")
    case True
    with assms(1) m show ?thesis by (simp add: rune_len_def s k)
  next
    case False
    with assms(1,2) m have n: "m = n" "n - 1 \<le> length cs" "cont_byte lo hi (hd cs)"
      "list_all (cont_byte 128 191) (take (n - 2) (tl cs))"
      by (auto simp: rune_len_def s split: if_splits)
    then have "n - 1 \<le> length (take j cs)" using assms(3) k by simp
    moreover from this obtain d ds where d: "cs = d # ds" using False n(1,2) by (cases cs) auto
    moreover have "j \<noteq> 0" using False n(1) assms(3) k by auto
    ultimately show ?thesis
      using n False m assms(3) k by (cases j) (auto simp: rune_len_def s min_def)
  qed
qed

lemma rune_len_replacement [simp]: "rune_len (replacement @ t) = 3"
  by (simp add: replacement_def rune_len_def lead_info_def cont_byte_def byte_of_def)

lemma map_ascii_unfold:
  "s \<noteq> [] \<Longrightarrow> map_ascii f s =
     (if rune_len s = 0 then replacement @ map_ascii f (tl s)
      else if rune_len s = 1 then f (hd s) # map_ascii f (tl s)
      else take (rune_len s) s @ map_ascii f (drop (rune_len s) s))"
  by (cases s) (simp_all add: map_ascii.simps(2) Let_def)

lemma map_ascii_replacement [simp]: "map_ascii f (replacement @ t) = replacement @ map_ascii f t"
proof -
  have "drop 3 (replacement @ t) = t" "take 3 (replacement @ t) = replacement"
    by (simp_all add: replacement_def)
  then show ?thesis
    by (subst map_ascii_unfold) (simp_all add: replacement_def[symmetric], simp add: replacement_def)
qed

lemma map_ascii_byte: "byte_of c < 128 \<Longrightarrow> map_ascii f (c # cs) = f c # map_ascii f cs"
  using rune_len_Cons1[of c cs] by (simp add: map_ascii_unfold)

lemma map_ascii_rune:
  assumes "2 \<le> rune_len s"
  shows "map_ascii f (take (rune_len s) s @ t) = take (rune_len s) s @ map_ascii f t"
proof -
  have r: "rune_len (take (rune_len s) s @ t) = rune_len s" using assms by (intro rune_len_take) auto
  have l: "length (take (rune_len s) s) = rune_len s" using rune_len_le[of s] by simp
  have "take (rune_len s) s @ t \<noteq> []" using assms l by auto
  then show ?thesis using assms l by (simp add: map_ascii_unfold r)
qed

lemma map_ascii_idem:
  assumes "\<And>c. byte_of c < 128 \<Longrightarrow> byte_of (f c) < 128" and "\<And>c. f (f c) = f c"
  shows "map_ascii f (map_ascii f s) = map_ascii f s"
  using assms
proof (induction f s rule: map_ascii.induct)
  case (2 f c cs)
  note keep = "2.prems"
  consider "rune_len (c # cs) = 0" | "rune_len (c # cs) = 1" | "2 \<le> rune_len (c # cs)" by linarith
  then show ?case
  proof cases
    case 1
    then have "map_ascii f (c # cs) = replacement @ map_ascii f cs" by (simp add: map_ascii_unfold)
    with "2.IH"(1)[OF refl 1 keep] show ?thesis by simp
  next
    case 2
    then have "byte_of c < 128" using rune_len_Cons1 by blast
    with "2.IH"(2)[OF refl _ _ keep] 2 show ?thesis by (simp add: map_ascii_byte keep)
  next
    case 3
    then have "map_ascii f (c # cs) =
        take (rune_len (c # cs)) (c # cs) @ map_ascii f (drop (rune_len (c # cs)) (c # cs))"
      by (simp add: map_ascii_unfold)
    with "2.IH"(3)[OF refl _ _ keep] 3 map_ascii_rune[OF 3] show ?thesis by simp
  qed
qed simp

text \<open>A prefix stays fixed when ASCII characters are cut from the end.\<close>

lemma map_ascii_prefix:
  assumes "map_ascii f (p @ w) = p @ w" and "\<forall>c\<in>set w. byte_of c < 128"
  shows "map_ascii f p = p"
  using assms(1)
proof (induction p rule: length_induct)
  case (1 p)
  show ?case
  proof (cases p)
    case (Cons c q)
    let ?s = "p @ w" let ?n = "rune_len ?s"
    have ne: "?s \<noteq> []" using Cons by simp
    consider "?n = 0" | "?n = 1" | "2 \<le> ?n" by linarith
    then show ?thesis
    proof cases
      case 1
      have "?s = replacement @ map_ascii f (tl ?s)"
        using "1.prems" map_ascii_unfold[OF ne, of f] 1 by simp
      then have "?n = 3" by (metis rune_len_replacement)
      with 1 show ?thesis by simp
    next
      case 2
      have "f c # map_ascii f (q @ w) = c # q @ w"
        using "1.prems" map_ascii_unfold[OF ne, of f] 2 Cons by simp
      then have fc: "f c = c" "map_ascii f q = q" using "1.IH" Cons by auto
      have "rune_len p = 1" using 2 Cons rune_len_Cons1 by (metis append_Cons)
      with fc Cons show ?thesis by (simp add: map_ascii_unfold)
    next
      case 3
      have le: "?n \<le> length p"
      proof (rule ccontr)
        assume "\<not> ?n \<le> length p"
        then have "128 \<le> byte_of (?s ! length p)" using rune_len_bytes[OF refl 3] by simp
        moreover have "0 < length w"
          using \<open>\<not> ?n \<le> length p\<close> rune_len_le[of ?s] by (cases w) simp_all
        then have "?s ! length p \<in> set w" by (simp add: nth_append)
        ultimately show False using assms(2) by fastforce
      qed
      have r: "rune_len p = ?n" using rune_len_take[OF refl _ le, of "[]"] 3 by simp
      have "take ?n p @ map_ascii f (drop ?n p @ w) = take ?n p @ drop ?n p @ w"
        using "1.prems" map_ascii_unfold[OF ne, of f] 3 le by simp
      then have "map_ascii f (drop ?n p) = drop ?n p" using "1.IH" 3 Cons by auto
      with 3 Cons r show ?thesis by (subst map_ascii_unfold) auto
    qed
  qed simp
qed

section \<open>Maps over runes\<close>

text \<open>
  A loop over the runes of a string that writes \<open>g\<close> of the bytes of each; an invalid byte is the
  replacement character.
\<close>

function map_runes :: "(string \<Rightarrow> string) \<Rightarrow> string \<Rightarrow> string" where
  "map_runes g [] = []"
| "map_runes g (c # cs) =
     (let n = rune_len (c # cs) in
      if n = 0 then g replacement @ map_runes g cs
      else g (take n (c # cs)) @ map_runes g (drop n (c # cs)))"
  by pat_completeness auto
termination
  by (relation "measure (\<lambda>(g, s). length s)") auto

declare map_runes.simps(2) [simp del]

text \<open>What holds for the bytes of every \<open>g\<close> holds for the bytes of the result.\<close>

lemma map_runes_bytes:
  assumes "\<And>r. P_rune r \<Longrightarrow> list_all P (g r)" and "P_rune replacement"
    and "\<And>s. rune_len s \<noteq> 0 \<Longrightarrow> P_rune (take (rune_len s) s)"
  shows "list_all P (map_runes g s)"
  using assms
proof (induction g s rule: map_runes.induct)
  case (2 g c cs)
  then show ?case by (auto simp: map_runes.simps(2) Let_def)
qed simp

end
