(* ===== verification/UiText.thy ===== *)
theory UiText
  imports GoUtf8
begin

text \<open>
  The Chinese texts of \<open>internal/ui\<close> that the model of the window's logic needs, in their UTF-8 bytes.
\<close>

definition ux_blocks :: string where
  "ux_blocks =
   [CHR 0xE5, CHR 0x88, CHR 0x86, CHR 0xE5, CHR 0x9D, CHR 0x97, CHR 0xE6, CHR 0x95,
     CHR 0xB0, CHR 0xE5, CHR 0xBF, CHR 0x85, CHR 0xE9, CHR 0xA1, CHR 0xBB, CHR 0xE4,
     CHR 0xB8, CHR 0xBA, CHR 0xE6, CHR 0xAD, CHR 0xA3, CHR 0xE6, CHR 0x95, CHR 0xB4,
     CHR 0xE6, CHR 0x95, CHR 0xB0]"

definition ux_concurrent :: string where
  "ux_concurrent =
   [CHR 0xE6, CHR 0x9C, CHR 0x80, CHR 0xE5, CHR 0xA4, CHR 0xA7, CHR 0xE5, CHR 0xB9,
     CHR 0xB6, CHR 0xE5, CHR 0x8F, CHR 0x91, CHR 0xE4, CHR 0xBB, CHR 0xBB, CHR 0xE5,
     CHR 0x8A, CHR 0xA1, CHR 0xE6, CHR 0x95, CHR 0xB0, CHR 0xE5, CHR 0xBF, CHR 0x85,
     CHR 0xE9, CHR 0xA1, CHR 0xBB, CHR 0xE4, CHR 0xB8, CHR 0xBA, CHR 0xE6, CHR 0xAD,
     CHR 0xA3, CHR 0xE6, CHR 0x95, CHR 0xB4, CHR 0xE6, CHR 0x95, CHR 0xB0]"

definition ux_retries :: string where
  "ux_retries =
   [CHR 0xE9, CHR 0x87, CHR 0x8D, CHR 0xE8, CHR 0xAF, CHR 0x95, CHR 0xE6, CHR 0xAC,
     CHR 0xA1, CHR 0xE6, CHR 0x95, CHR 0xB0, CHR 0xE5, CHR 0xBF, CHR 0x85, CHR 0xE9,
     CHR 0xA1, CHR 0xBB, CHR 0xE4, CHR 0xB8, CHR 0xBA] @ '' 0 '' @ [CHR 0xE6, CHR 0x88,
     CHR 0x96, CHR 0xE6, CHR 0xAD, CHR 0xA3, CHR 0xE6, CHR 0x95, CHR 0xB4, CHR 0xE6,
     CHR 0x95, CHR 0xB0]"

definition ux_speed :: string where
  "ux_speed =
   [CHR 0xE9, CHR 0x99, CHR 0x90, CHR 0xE9, CHR 0x80, CHR 0x9F, CHR 0xE5, CHR 0xBF,
     CHR 0x85, CHR 0xE9, CHR 0xA1, CHR 0xBB, CHR 0xE4, CHR 0xB8,
     CHR 0xBA] @ '' 0 '' @ [CHR 0xE6, CHR 0x88, CHR 0x96, CHR 0xE6, CHR 0xAD, CHR 0xA3,
     CHR 0xE6, CHR 0x95, CHR 0xB0, CHR 0xEF, CHR 0xBC, CHR 0x88] @ ''KiB/s'' @ [CHR 0xEF,
     CHR 0xBC, CHR 0x89]"

definition ux_port :: string where
  "ux_port =
   [CHR 0xE6, CHR 0xB5, CHR 0x8F, CHR 0xE8, CHR 0xA7, CHR 0x88, CHR 0xE5, CHR 0x99,
     CHR 0xA8, CHR 0xE6, CHR 0x89, CHR 0xA9, CHR 0xE5, CHR 0xB1, CHR 0x95, CHR 0xE7,
     CHR 0xAB, CHR 0xAF, CHR 0xE5, CHR 0x8F, CHR 0xA3, CHR 0xE5, CHR 0xBF, CHR 0x85,
     CHR 0xE9, CHR 0xA1, CHR 0xBB, CHR 0xE5, CHR 0x9C, CHR 0xA8] @ '' 1 '' @ [CHR 0xE5,
     CHR 0x88, CHR 0xB0] @ '' 65535 '' @ [CHR 0xE4, CHR 0xB9, CHR 0x8B, CHR 0xE9, CHR 0x97,
     CHR 0xB4]"

definition ux_bt_port :: string where
  "ux_bt_port =
   ''BT '' @ [CHR 0xE7, CHR 0x9B, CHR 0x91, CHR 0xE5, CHR 0x90, CHR 0xAC, CHR 0xE7,
     CHR 0xAB, CHR 0xAF, CHR 0xE5, CHR 0x8F, CHR 0xA3, CHR 0xE5, CHR 0xBF, CHR 0x85,
     CHR 0xE9, CHR 0xA1, CHR 0xBB, CHR 0xE5, CHR 0x9C, CHR 0xA8] @ '' 0 '' @ [CHR 0xE5,
     CHR 0x88, CHR 0xB0] @ '' 65535 '' @ [CHR 0xE4, CHR 0xB9, CHR 0x8B, CHR 0xE9, CHR 0x97,
     CHR 0xB4]"

definition ux_bt_metadata :: string where
  "ux_bt_metadata =
   ''BT '' @ [CHR 0xE5, CHR 0x85, CHR 0x83, CHR 0xE6, CHR 0x95, CHR 0xB0, CHR 0xE6,
     CHR 0x8D, CHR 0xAE, CHR 0xE8, CHR 0xB6, CHR 0x85, CHR 0xE6, CHR 0x97, CHR 0xB6,
     CHR 0xE5, CHR 0xBF, CHR 0x85, CHR 0xE9, CHR 0xA1, CHR 0xBB, CHR 0xE5, CHR 0x9C,
     CHR 0xA8] @ '' 5 '' @ [CHR 0xE5, CHR 0x88, CHR 0xB0] @ '' 300 '' @ [CHR 0xE7,
     CHR 0xA7, CHR 0x92, CHR 0xE4, CHR 0xB9, CHR 0x8B, CHR 0xE9, CHR 0x97, CHR 0xB4]"

definition ux_bt_connections :: string where
  "ux_bt_connections =
   ''BT '' @ [CHR 0xE8, CHR 0xBF, CHR 0x9E, CHR 0xE6, CHR 0x8E, CHR 0xA5, CHR 0xE6,
     CHR 0x95, CHR 0xB0, CHR 0xE5, CHR 0xBF, CHR 0x85, CHR 0xE9, CHR 0xA1, CHR 0xBB,
     CHR 0xE5, CHR 0x9C, CHR 0xA8] @ '' 20 '' @ [CHR 0xE5, CHR 0x88,
     CHR 0xB0] @ '' 2000 '' @ [CHR 0xE4, CHR 0xB9, CHR 0x8B, CHR 0xE9, CHR 0x97, CHR 0xB4]"

definition ux_bt_download :: string where
  "ux_bt_download =
   ''BT '' @ [CHR 0xE4, CHR 0xB8, CHR 0x8B, CHR 0xE8, CHR 0xBD, CHR 0xBD, CHR 0xE9,
     CHR 0x99, CHR 0x90, CHR 0xE9, CHR 0x80, CHR 0x9F, CHR 0xE5, CHR 0xBF, CHR 0x85,
     CHR 0xE9, CHR 0xA1, CHR 0xBB, CHR 0xE4, CHR 0xB8, CHR 0xBA] @ '' 0 '' @ [CHR 0xE6,
     CHR 0x88, CHR 0x96, CHR 0xE6, CHR 0xAD, CHR 0xA3, CHR 0xE6, CHR 0x95, CHR 0xB0,
     CHR 0xEF, CHR 0xBC, CHR 0x88] @ ''KiB/s'' @ [CHR 0xEF, CHR 0xBC, CHR 0x89]"

definition ux_bt_upload :: string where
  "ux_bt_upload =
   ''BT '' @ [CHR 0xE4, CHR 0xB8, CHR 0x8A, CHR 0xE4, CHR 0xBC, CHR 0xA0, CHR 0xE9,
     CHR 0x99, CHR 0x90, CHR 0xE9, CHR 0x80, CHR 0x9F, CHR 0xE5, CHR 0xBF, CHR 0x85,
     CHR 0xE9, CHR 0xA1, CHR 0xBB, CHR 0xE4, CHR 0xB8, CHR 0xBA] @ '' 0 '' @ [CHR 0xE6,
     CHR 0x88, CHR 0x96, CHR 0xE6, CHR 0xAD, CHR 0xA3, CHR 0xE6, CHR 0x95, CHR 0xB0,
     CHR 0xEF, CHR 0xBC, CHR 0x88] @ ''KiB/s'' @ [CHR 0xEF, CHR 0xBC, CHR 0x89]"

definition ux_bt_ratio :: string where
  "ux_bt_ratio =
   ''BT '' @ [CHR 0xE5, CHR 0x81, CHR 0x9A, CHR 0xE7, CHR 0xA7, CHR 0x8D, CHR 0xE5,
     CHR 0x88, CHR 0x86, CHR 0xE4, CHR 0xBA, CHR 0xAB, CHR 0xE7, CHR 0x8E, CHR 0x87,
     CHR 0xE5, CHR 0xBF, CHR 0x85, CHR 0xE9, CHR 0xA1, CHR 0xBB, CHR 0xE5, CHR 0x9C,
     CHR 0xA8] @ '' 0% '' @ [CHR 0xE5, CHR 0x88, CHR 0xB0] @ '' 10000% '' @ [CHR 0xE4,
     CHR 0xB9, CHR 0x8B, CHR 0xE9, CHR 0x97, CHR 0xB4]"

definition ux_bt_minutes :: string where
  "ux_bt_minutes =
   ''BT '' @ [CHR 0xE5, CHR 0x81, CHR 0x9A, CHR 0xE7, CHR 0xA7, CHR 0x8D, CHR 0xE6,
     CHR 0x97, CHR 0xB6, CHR 0xE9, CHR 0x97, CHR 0xB4, CHR 0xE5, CHR 0xBF, CHR 0x85,
     CHR 0xE9, CHR 0xA1, CHR 0xBB, CHR 0xE5, CHR 0x9C, CHR 0xA8] @ '' 0 '' @ [CHR 0xE5,
     CHR 0x88, CHR 0xB0] @ '' 43200 '' @ [CHR 0xE5, CHR 0x88, CHR 0x86, CHR 0xE9, CHR 0x92,
     CHR 0x9F, CHR 0xE4, CHR 0xB9, CHR 0x8B, CHR 0xE9, CHR 0x97, CHR 0xB4]"

definition ux_format :: string where
  "ux_format =
   ''M3U8 '' @ [CHR 0xE8, CHR 0xBE, CHR 0x93, CHR 0xE5, CHR 0x87, CHR 0xBA, CHR 0xE6,
     CHR 0xA0, CHR 0xBC, CHR 0xE5, CHR 0xBC, CHR 0x8F, CHR 0xE5, CHR 0xBF, CHR 0x85,
     CHR 0xE9, CHR 0xA1, CHR 0xBB, CHR 0xE4, CHR 0xB8, CHR 0xBA] @ '' mp4 '' @ [CHR 0xE6,
     CHR 0x88, CHR 0x96] @ '' mkv''"

definition ux_threads :: string where
  "ux_threads =
   ''M3U8 '' @ [CHR 0xE7, CHR 0xBA, CHR 0xBF, CHR 0xE7, CHR 0xA8, CHR 0x8B, CHR 0xE6,
     CHR 0x95, CHR 0xB0, CHR 0xE5, CHR 0xBF, CHR 0x85, CHR 0xE9, CHR 0xA1, CHR 0xBB,
     CHR 0xE5, CHR 0x9C, CHR 0xA8] @ '' 1 '' @ [CHR 0xE5, CHR 0x88,
     CHR 0xB0] @ '' 64 '' @ [CHR 0xE4, CHR 0xB9, CHR 0x8B, CHR 0xE9, CHR 0x97, CHR 0xB4]"

definition ux_m3u8_retries :: string where
  "ux_m3u8_retries =
   ''M3U8 '' @ [CHR 0xE9, CHR 0x87, CHR 0x8D, CHR 0xE8, CHR 0xAF, CHR 0x95, CHR 0xE6,
     CHR 0xAC, CHR 0xA1, CHR 0xE6, CHR 0x95, CHR 0xB0, CHR 0xE5, CHR 0xBF, CHR 0x85,
     CHR 0xE9, CHR 0xA1, CHR 0xBB, CHR 0xE4, CHR 0xB8, CHR 0xBA] @ '' 0 '' @ [CHR 0xE6,
     CHR 0x88, CHR 0x96, CHR 0xE6, CHR 0xAD, CHR 0xA3, CHR 0xE6, CHR 0x95, CHR 0xB4,
     CHR 0xE6, CHR 0x95, CHR 0xB0]"

definition ux_timeout :: string where
  "ux_timeout =
   ''M3U8 '' @ [CHR 0xE8, CHR 0xAF, CHR 0xB7, CHR 0xE6, CHR 0xB1, CHR 0x82, CHR 0xE8,
     CHR 0xB6, CHR 0x85, CHR 0xE6, CHR 0x97, CHR 0xB6, CHR 0xE5, CHR 0xBF, CHR 0x85,
     CHR 0xE9, CHR 0xA1, CHR 0xBB, CHR 0xE4, CHR 0xB8, CHR 0xBA, CHR 0xE6, CHR 0xAD,
     CHR 0xA3, CHR 0xE6, CHR 0x95, CHR 0xB4, CHR 0xE6, CHR 0x95, CHR 0xB0]"

definition ux_subtitles :: string where
  "ux_subtitles =
   ''M3U8 '' @ [CHR 0xE5, CHR 0xAD, CHR 0x97, CHR 0xE5, CHR 0xB9, CHR 0x95, CHR 0xE6,
     CHR 0xA0, CHR 0xBC, CHR 0xE5, CHR 0xBC, CHR 0x8F, CHR 0xE5, CHR 0xBF, CHR 0x85,
     CHR 0xE9, CHR 0xA1, CHR 0xBB, CHR 0xE4, CHR 0xB8, CHR 0xBA] @ '' SRT '' @ [CHR 0xE6,
     CHR 0x88, CHR 0x96] @ '' VTT''"

definition ux_headers :: string where
  "ux_headers =
   [CHR 0xE8, CHR 0xAF, CHR 0xB7, CHR 0xE6, CHR 0xB1, CHR 0x82, CHR 0xE6, CHR 0xA0,
     CHR 0x87, CHR 0xE5, CHR 0xA4, CHR 0xB4, CHR 0xE6, CHR 0xA0, CHR 0xBC, CHR 0xE5,
     CHR 0xBC, CHR 0x8F, CHR 0xE9, CHR 0x94, CHR 0x99, CHR 0xE8, CHR 0xAF, CHR 0xAF,
     CHR 0xEF, CHR 0xBC, CHR 0x9A]"

definition ux_no_file :: string where
  "ux_no_file =
   [CHR 0xE8, CHR 0xAF, CHR 0xB7, CHR 0xE8, CHR 0x87, CHR 0xB3, CHR 0xE5, CHR 0xB0,
     CHR 0x91, CHR 0xE9, CHR 0x80, CHR 0x89, CHR 0xE6, CHR 0x8B, CHR 0xA9, CHR 0xE4,
     CHR 0xB8, CHR 0x80, CHR 0xE4, CHR 0xB8, CHR 0xAA] @ '' BitTorrent '' @ [CHR 0xE6,
     CHR 0x96, CHR 0x87, CHR 0xE4, CHR 0xBB, CHR 0xB6]"

definition ux_row :: string where
  "ux_row =
   ''BitTorrent '' @ [CHR 0xE6, CHR 0x96, CHR 0x87, CHR 0xE4, CHR 0xBB, CHR 0xB6, CHR 0xE8,
     CHR 0xA1, CHR 0x8C] @ '' ''"

definition ux_out_of_range :: string where
  "ux_out_of_range =
   '' '' @ [CHR 0xE8, CHR 0xB6, CHR 0x85, CHR 0xE5, CHR 0x87, CHR 0xBA, CHR 0xE8, CHR 0x8C,
     CHR 0x83, CHR 0xE5, CHR 0x9B, CHR 0xB4]"

definition ux_priority :: string where
  "ux_priority =
   ''BitTorrent '' @ [CHR 0xE6, CHR 0x96, CHR 0x87, CHR 0xE4, CHR 0xBB, CHR 0xB6, CHR 0xE4,
     CHR 0xBC, CHR 0x98, CHR 0xE5, CHR 0x85, CHR 0x88, CHR 0xE7, CHR 0xBA, CHR 0xA7] @ '' ''"

definition ux_invalid :: string where
  "ux_invalid =
   '' '' @ [CHR 0xE6, CHR 0x97, CHR 0xA0, CHR 0xE6, CHR 0x95, CHR 0x88]"

definition ux_no_rows :: string where
  "ux_no_rows =
   [CHR 0xE8, CHR 0xAF, CHR 0xB7, CHR 0xE5, CHR 0x85, CHR 0x88, CHR 0xE5, CHR 0x9C,
     CHR 0xA8, CHR 0xE5, CHR 0x88, CHR 0x97, CHR 0xE8, CHR 0xA1, CHR 0xA8, CHR 0xE4,
     CHR 0xB8, CHR 0xAD, CHR 0xE9, CHR 0x80, CHR 0x89, CHR 0xE4, CHR 0xB8, CHR 0xAD,
     CHR 0xE8, CHR 0xA6, CHR 0x81, CHR 0xE8, CHR 0xB0, CHR 0x83, CHR 0xE6, CHR 0x95,
     CHR 0xB4, CHR 0xE7, CHR 0x9A, CHR 0x84, CHR 0xE6, CHR 0x96, CHR 0x87, CHR 0xE4,
     CHR 0xBB, CHR 0xB6]"

definition ux_not_loaded :: string where
  "ux_not_loaded =
   [CHR 0xE4, CHR 0xB8, CHR 0x8D, CHR 0xE4, CHR 0xB8, CHR 0x8B, CHR 0xE8, CHR 0xBD, CHR 0xBD]"

definition ux_low :: string where
  "ux_low =
   [CHR 0xE4, CHR 0xBD, CHR 0x8E]"

definition ux_high :: string where
  "ux_high =
   [CHR 0xE9, CHR 0xAB, CHR 0x98]"

definition ux_normal :: string where
  "ux_normal =
   [CHR 0xE6, CHR 0x99, CHR 0xAE, CHR 0xE9, CHR 0x80, CHR 0x9A]"

definition ux_selected :: string where
  "ux_selected =
   [CHR 0xE5, CHR 0xB7, CHR 0xB2, CHR 0xE9, CHR 0x80, CHR 0x89, CHR 0xE6, CHR 0x8B,
     CHR 0xA9] @ '' ''"

definition ux_files :: string where
  "ux_files =
   '' '' @ [CHR 0xE4, CHR 0xB8, CHR 0xAA, CHR 0xE6, CHR 0x96, CHR 0x87, CHR 0xE4, CHR 0xBB,
     CHR 0xB6] @ '' | ''"

definition ux_waiting :: string where
  "ux_waiting =
   [CHR 0xE7, CHR 0xAD, CHR 0x89, CHR 0xE5, CHR 0xBE, CHR 0x85, CHR 0xE4, CHR 0xB8, CHR 0xAD]"

definition ux_running :: string where
  "ux_running =
   [CHR 0xE4, CHR 0xB8, CHR 0x8B, CHR 0xE8, CHR 0xBD, CHR 0xBD, CHR 0xE4, CHR 0xB8, CHR 0xAD]"

definition ux_seeding :: string where
  "ux_seeding =
   [CHR 0xE5, CHR 0x81, CHR 0x9A, CHR 0xE7, CHR 0xA7, CHR 0x8D, CHR 0xE4, CHR 0xB8, CHR 0xAD]"

definition ux_paused :: string where
  "ux_paused =
   [CHR 0xE5, CHR 0xB7, CHR 0xB2, CHR 0xE6, CHR 0x9A, CHR 0x82, CHR 0xE5, CHR 0x81, CHR 0x9C]"

definition ux_completed :: string where
  "ux_completed =
   [CHR 0xE5, CHR 0xB7, CHR 0xB2, CHR 0xE5, CHR 0xAE, CHR 0x8C, CHR 0xE6, CHR 0x88, CHR 0x90]"

definition ux_failed :: string where
  "ux_failed =
   [CHR 0xE5, CHR 0xA4, CHR 0xB1, CHR 0xE8, CHR 0xB4, CHR 0xA5]"

definition ux_canceled :: string where
  "ux_canceled =
   [CHR 0xE5, CHR 0xB7, CHR 0xB2, CHR 0xE5, CHR 0x8F, CHR 0x96, CHR 0xE6, CHR 0xB6, CHR 0x88]"

definition ux_done_title :: string where
  "ux_done_title =
   [CHR 0xE4, CHR 0xB8, CHR 0x8B, CHR 0xE8, CHR 0xBD, CHR 0xBD, CHR 0xE5, CHR 0xAE,
     CHR 0x8C, CHR 0xE6, CHR 0x88, CHR 0x90]"

definition ux_failed_title :: string where
  "ux_failed_title =
   [CHR 0xE4, CHR 0xB8, CHR 0x8B, CHR 0xE8, CHR 0xBD, CHR 0xBD, CHR 0xE5, CHR 0xA4,
     CHR 0xB1, CHR 0xE8, CHR 0xB4, CHR 0xA5]"

definition ux_all :: string where
  "ux_all =
   [CHR 0xE5, CHR 0x85, CHR 0xA8, CHR 0xE9, CHR 0x83, CHR 0xA8] @ '' ''"

definition ux_active :: string where
  "ux_active =
   ''  '' @ [CHR 0xC2, CHR 0xB7] @ ''  '' @ [CHR 0xE6, CHR 0xB4, CHR 0xBB, CHR 0xE5,
     CHR 0x8A, CHR 0xA8] @ '' ''"

definition ux_complete :: string where
  "ux_complete =
   ''  '' @ [CHR 0xC2, CHR 0xB7] @ ''  '' @ [CHR 0xE5, CHR 0xAE, CHR 0x8C, CHR 0xE6,
     CHR 0x88, CHR 0x90] @ '' ''"

definition ux_failures :: string where
  "ux_failures =
   ''  '' @ [CHR 0xC2, CHR 0xB7] @ ''  '' @ [CHR 0xE5, CHR 0xA4, CHR 0xB1, CHR 0xE8,
     CHR 0xB4, CHR 0xA5] @ '' ''"

end
