(* ===== verification/SettingsDialog.thy ===== *)
theory SettingsDialog
  imports Settings HttpProbe UiText
begin

text \<open>
  The settings dialog, \<open>internal/ui/settings_dialog.go\<close>: what its fields show of the settings, and
  what it makes of their texts when the user saves. The widgets themselves are not modelled.
\<close>

section \<open>The fields\<close>

record bt_form =
  btf_listen_port :: string
  btf_metadata_timeout :: string
  btf_connections_limit :: string
  btf_download_rate :: string
  btf_upload_rate :: string
  btf_seed_ratio :: string
  btf_seed_time :: string
  btf_trackers :: string
  btf_sequential :: bool
  btf_enable_dht :: bool
  btf_enable_lsd :: bool
  btf_enable_upnp :: bool
  btf_enable_natpmp :: bool
  btf_save_magnet :: bool

record stream_form =
  stf_ffmpeg_dir :: string
  stf_install_dir :: string
  stf_output_format :: string
  stf_threads :: string
  stf_retries :: string
  stf_timeout :: string
  stf_subtitle_format :: string
  stf_concurrent :: bool
  stf_check_segments :: bool
  stf_delete_after_done :: bool
  stf_select_all :: bool
  stf_decryption :: bool

record dialog_form =
  dlf_download_dir :: string
  dlf_proxy :: string
  dlf_headers :: string
  dlf_cookies :: string
  dlf_blocks :: string
  dlf_concurrent :: string
  dlf_retries :: string
  dlf_speed :: string
  dlf_browser_enabled :: bool
  dlf_token :: string
  dlf_port :: string
  dlf_bt :: bt_form
  dlf_stream :: stream_form

definition theme_mode_index :: "string \<Rightarrow> int" where
  "theme_mode_index mode = (if mode = ''light'' then 1 else if mode = ''dark'' then 2 else 0)"

definition theme_mode_value :: "int \<Rightarrow> string" where
  "theme_mode_value i = (if i = 1 then ''light'' else if i = 2 then ''dark'' else ''system'')"

section \<open>What the dialog shows\<close>

definition bt_fields :: "settings \<Rightarrow> bt_form" where
  "bt_fields s =
     \<lparr>btf_listen_port = itoa (cfg_bt_listen_port s), btf_metadata_timeout = itoa (cfg_bt_metadata_timeout_sec s),
      btf_connections_limit = itoa (cfg_bt_connections_limit s),
      btf_download_rate = itoa (cfg_bt_download_rate_limit_kib s),
      btf_upload_rate = itoa (cfg_bt_upload_rate_limit_kib s),
      btf_seed_ratio = itoa (cfg_bt_seed_ratio_limit_percent s),
      btf_seed_time = itoa (cfg_bt_seed_time_limit_minutes s), btf_trackers = cfg_bt_trackers_text s,
      btf_sequential = cfg_bt_sequential_download s, btf_enable_dht = cfg_bt_enable_dht s,
      btf_enable_lsd = cfg_bt_enable_lsd s, btf_enable_upnp = cfg_bt_enable_upnp s,
      btf_enable_natpmp = cfg_bt_enable_natpmp s, btf_save_magnet = cfg_bt_save_magnet_torrent_file s\<rparr>"

definition stream_fields :: "settings \<Rightarrow> stream_form" where
  "stream_fields s =
     \<lparr>stf_ffmpeg_dir = cfg_ffmpeg_install_dir s, stf_install_dir = cfg_m3u8_install_dir s,
      stf_output_format = cfg_m3u8_output_format s, stf_threads = itoa (cfg_m3u8_thread_count s),
      stf_retries = itoa (cfg_m3u8_retry_count s), stf_timeout = itoa (cfg_m3u8_request_timeout_sec s),
      stf_subtitle_format = cfg_m3u8_subtitle_format s, stf_concurrent = cfg_m3u8_concurrent_download s,
      stf_check_segments = cfg_m3u8_check_segments_count s,
      stf_delete_after_done = cfg_m3u8_delete_after_done s,
      stf_select_all = cfg_m3u8_select_all_audio_subtitle s,
      stf_decryption = cfg_m3u8_mp4_real_time_decryption s\<rparr>"

definition dialog_fields :: "settings \<Rightarrow> dialog_form" where
  "dialog_fields s =
     \<lparr>dlf_download_dir = cfg_download_dir s, dlf_proxy = cfg_proxy_url s, dlf_headers = cfg_headers_text s,
      dlf_cookies = cfg_cookies_text s, dlf_blocks = itoa (cfg_block_num s),
      dlf_concurrent = itoa (cfg_max_concurrent s), dlf_retries = itoa (cfg_retry_count s),
      dlf_speed = itoa (cfg_speed_limit_kib s), dlf_browser_enabled = cfg_browser_extension_enabled s,
      dlf_token = cfg_browser_pair_token s, dlf_port = itoa (cfg_browser_bridge_port s),
      dlf_bt = bt_fields s, dlf_stream = stream_fields s\<rparr>"

section \<open>Saving\<close>

text \<open>\<open>Atoi\<close> or \<open>ParseInt\<close> of a field, which must satisfy a condition, or else the message.\<close>

definition int_field :: "string \<Rightarrow> (int \<Rightarrow> bool) \<Rightarrow> string \<Rightarrow> int result" where
  "int_field tx ok message =
     (case parse_int (trim_space tx) of
        Some n \<Rightarrow> if ok n then Inr n else Inl (new_error message)
      | None \<Rightarrow> Inl (new_error message))"

definition choice_field :: "string \<Rightarrow> string list \<Rightarrow> string \<Rightarrow> string result" where
  "choice_field v choices message = (if v \<in> set choices then Inr v else Inl (new_error message))"

text \<open>The next step, unless there was an error.\<close>

definition and_next :: "'a result \<Rightarrow> ('a \<Rightarrow> 'b result) \<Rightarrow> 'b result" where
  "and_next r f = (case r of Inl e \<Rightarrow> Inl e | Inr x \<Rightarrow> f x)"

definition dialog_token :: "nat list option \<Rightarrow> string \<Rightarrow> string" where
  "dialog_token rnd token =
     (let token = trim_space token in if token = [] then new_browser_pair_token rnd else token)"

text \<open>The BitTorrent fields, in the order of the checks.\<close>

definition set_bt_fields :: "bt_form \<Rightarrow> settings \<Rightarrow> settings result" where
  "set_bt_fields f s =
     and_next (int_field (btf_listen_port f) (\<lambda>n. 0 \<le> n \<and> n \<le> 65535) ux_bt_port) (\<lambda>port.
     and_next (int_field (btf_metadata_timeout f) (\<lambda>n. 5 \<le> n \<and> n \<le> 300) ux_bt_metadata) (\<lambda>metadata.
     and_next (int_field (btf_connections_limit f) (\<lambda>n. 20 \<le> n \<and> n \<le> 2000) ux_bt_connections) (\<lambda>connections.
     and_next (int_field (btf_download_rate f) (\<lambda>n. 0 \<le> n) ux_bt_download) (\<lambda>download.
     and_next (int_field (btf_upload_rate f) (\<lambda>n. 0 \<le> n) ux_bt_upload) (\<lambda>upload.
     and_next (int_field (btf_seed_ratio f) (\<lambda>n. 0 \<le> n \<and> n \<le> 10000) ux_bt_ratio) (\<lambda>ratio.
     and_next (int_field (btf_seed_time f) (\<lambda>n. 0 \<le> n \<and> n \<le> 43200) ux_bt_minutes) (\<lambda>minutes.
     Inr (s\<lparr>cfg_bt_listen_port := port, cfg_bt_metadata_timeout_sec := metadata,
       cfg_bt_connections_limit := connections, cfg_bt_download_rate_limit_kib := download,
       cfg_bt_upload_rate_limit_kib := upload, cfg_bt_sequential_download := btf_sequential f,
       cfg_bt_enable_dht := btf_enable_dht f, cfg_bt_enable_lsd := btf_enable_lsd f,
       cfg_bt_enable_upnp := btf_enable_upnp f, cfg_bt_enable_natpmp := btf_enable_natpmp f,
       cfg_bt_seed_ratio_limit_percent := ratio, cfg_bt_seed_time_limit_minutes := minutes,
       cfg_bt_save_magnet_torrent_file := btf_save_magnet f,
       cfg_bt_trackers_text := trim_space (btf_trackers f)\<rparr>))))))))"

definition set_stream_fields :: "unicode \<Rightarrow> stream_form \<Rightarrow> settings \<Rightarrow> settings result" where
  "set_stream_fields u f s =
     and_next (choice_field (to_lower u (trim_space (stf_output_format f))) [''mp4'', ''mkv''] ux_format) (\<lambda>output_format.
     and_next (int_field (stf_threads f) (\<lambda>n. 0 < n \<and> n \<le> 64) ux_threads) (\<lambda>threads.
     and_next (int_field (stf_retries f) (\<lambda>n. 0 \<le> n) ux_m3u8_retries) (\<lambda>retries.
     and_next (int_field (stf_timeout f) (\<lambda>n. 0 < n) ux_timeout) (\<lambda>timeout.
     and_next (choice_field (to_upper u (trim_space (stf_subtitle_format f))) [''SRT'', ''VTT''] ux_subtitles) (\<lambda>subtitles.
     Inr (s\<lparr>cfg_ffmpeg_install_dir := trim_space (stf_ffmpeg_dir f),
       cfg_m3u8_install_dir := trim_space (stf_install_dir f), cfg_m3u8_output_format := output_format,
       cfg_m3u8_thread_count := threads, cfg_m3u8_retry_count := retries,
       cfg_m3u8_request_timeout_sec := timeout, cfg_m3u8_subtitle_format := subtitles,
       cfg_m3u8_concurrent_download := stf_concurrent f,
       cfg_m3u8_check_segments_count := stf_check_segments f,
       cfg_m3u8_delete_after_done := stf_delete_after_done f,
       cfg_m3u8_select_all_audio_subtitle := stf_select_all f,
       cfg_m3u8_mp4_real_time_decryption := stf_decryption f\<rparr>))))))"

text \<open>\<open>rnd\<close> is the randomness of a fresh token.\<close>

definition settings_from_dialog :: "unicode \<Rightarrow> nat list option \<Rightarrow> settings \<Rightarrow> dialog_form \<Rightarrow> settings result" where
  "settings_from_dialog u rnd current f =
     and_next (int_field (dlf_blocks f) (\<lambda>n. 0 < n) ux_blocks) (\<lambda>blocks.
     and_next (int_field (dlf_concurrent f) (\<lambda>n. 0 < n) ux_concurrent) (\<lambda>concurrent.
     and_next (int_field (dlf_retries f) (\<lambda>n. 0 \<le> n) ux_retries) (\<lambda>retries.
     and_next (int_field (dlf_speed f) (\<lambda>n. 0 \<le> n) ux_speed) (\<lambda>speed.
     and_next (int_field (dlf_port f) (\<lambda>n. 0 < n \<and> n \<le> 65535) ux_port) (\<lambda>port.
     and_next (set_bt_fields (dlf_bt f) current) (\<lambda>s.
     and_next (set_stream_fields u (dlf_stream f) s) (\<lambda>s.
     and_next (map_sum (wrap_error ux_headers) id (parse_headers (trim_space (dlf_headers f)))) (\<lambda>headers.
     Inr (s\<lparr>cfg_download_dir := trim_space (dlf_download_dir f), cfg_proxy_url := trim_space (dlf_proxy f),
       cfg_headers_text := trim_space (dlf_headers f), cfg_cookies_text := normalize_cookies (dlf_cookies f),
       cfg_block_num := blocks, cfg_max_concurrent := concurrent, cfg_retry_count := retries,
       cfg_speed_limit_kib := speed, cfg_browser_extension_enabled := dlf_browser_enabled f,
       cfg_browser_pair_token := dialog_token rnd (dlf_token f), cfg_browser_bridge_port := port\<rparr>)))))))))"

text \<open>The button: the parsed settings with the theme of the combo box, or the message.\<close>

definition save_dialog :: "unicode \<Rightarrow> nat list option \<Rightarrow> settings \<Rightarrow> dialog_form \<Rightarrow> int \<Rightarrow> settings result" where
  "save_dialog u rnd current f theme =
     map_sum id (\<lambda>s. s\<lparr>cfg_theme_mode := theme_mode_value theme\<rparr>) (settings_from_dialog u rnd current f)"

end
