(* ===== verification/BtModel.thy ===== *)
theory BtModel
  imports GoUtf8 GoNet OsFiles
begin

text \<open>
  The data of a BitTorrent task, \<open>internal/download/bt/model.go\<close> and \<open>trackers.go\<close>: the files of a
  torrent and their safe paths, the selection of files, and the options and the checkpoint that a
  task's stage keeps as texts. What the torrent library says of a torrent is the record
  \<open>meta_info\<close>; the JSON texts and \<open>ParseFloat\<close> are the fields of \<open>bt_codec\<close>. A \<open>float64\<close> is the
  rational it denotes.
\<close>

section \<open>Texts\<close>

fun word_len :: "string \<Rightarrow> nat" where
  "word_len [] = 0"
| "word_len (c # cs) = (if lead_len space_seqs (c # cs) \<noteq> 0 then 0 else Suc (word_len cs))"

lemma word_len_le: "word_len s \<le> length s"
  by (induction s) auto

lemma trim_lead_progress: "trim_lead ws s = c # cs \<Longrightarrow> lead_len ws (c # cs) = 0"
proof (induction ws s rule: trim_lead.induct)
  case (1 ws s)
  show ?case
  proof (cases "s = [] \<or> lead_len ws s = 0")
    case True
    with 1(2) show ?thesis by (subst (asm) trim_lead.simps) auto
  next
    case False
    with 1(2) have "trim_lead ws (drop (lead_len ws s) s) = c # cs"
      by (subst (asm) trim_lead.simps) auto
    with 1(1)[OF False] show ?thesis by blast
  qed
qed

lemma trim_lead_length: "length (trim_lead ws s) \<le> length s"
  using trim_lead_suffix by (rule suffix_length_le)

text \<open>\<open>strings.Fields\<close>: the words between white space.\<close>

function go_fields :: "string \<Rightarrow> string list" where
  "go_fields s =
     (let r = trim_lead space_seqs s in
      if r = [] then [] else take (word_len r) r # go_fields (drop (word_len r) r))"
  by pat_completeness auto
termination
proof (relation "measure length", simp_all)
  fix s :: string
  let ?r = "trim_lead space_seqs s"
  assume r: "?r \<noteq> []"
  then obtain c cs where c: "?r = c # cs" by (cases ?r) auto
  then have "word_len ?r > 0" using trim_lead_progress[OF c] by simp
  moreover have "length ?r > 0" using r by simp
  ultimately have "length ?r - word_len ?r < length ?r" by (rule diff_less)
  with trim_lead_length[of space_seqs s] show "length ?r - word_len ?r < length s" by linarith
qed

declare go_fields.simps [simp del]

text \<open>\<open>strconv.FormatFloat (r, 'f', k, 64)\<close>: rounding to k digits, a tie to the even digit.\<close>

definition round_half_even :: "rat \<Rightarrow> int" where
  "round_half_even x =
     (let f = \<lfloor>x\<rfloor>; d = x - of_int f in
      if d < 1 / 2 then f else if d > 1 / 2 then f + 1 else if even f then f else f + 1)"

definition format_fixed :: "nat \<Rightarrow> rat \<Rightarrow> string" where
  "format_fixed k r =
     (let ds = digits_of (nat (round_half_even (\<bar>r\<bar> * 10 ^ k)));
          ds = replicate (k + 1 - length ds) CHR ''0'' @ ds in
      (if r < 0 then ''-'' else []) @ take (length ds - k) ds @
      (if k = 0 then [] else ''.'' @ drop (length ds - k) ds))"

section \<open>Files\<close>

record bt_file =
  bf_index :: int
  bf_path :: string
  bf_size :: int
  bf_selected :: bool
  bf_priority :: int
  bf_downloaded :: int
  bf_completed :: bool

text \<open>
  A torrent as the library describes it: \<open>UpvertedFiles\<close>, \<open>IsDir\<close> and \<open>BestName\<close>, and of each file
  \<open>Attr\<close>, \<open>Length\<close>, \<open>TorrentOffset\<close>, \<open>BestPath\<close> and \<open>DisplayPath\<close>.
\<close>

record meta_file =
  mf_attr :: string
  mf_length :: int
  mf_offset :: int
  mf_best_path :: "string list"
  mf_display :: string

record meta_info =
  mi_files :: "meta_file list"
  mi_is_dir :: bool
  mi_best_name :: string

record bt_codec =
  bc_marshal_files :: "bt_file list \<Rightarrow> string result"
  bc_unmarshal_files :: "string \<Rightarrow> bt_file list result"
  bc_marshal_strings :: "string list \<Rightarrow> string result"
  bc_unmarshal_strings :: "string \<Rightarrow> string list result"
  bc_parse_float :: "string \<Rightarrow> rat"

section \<open>Safe names\<close>

definition bt_special :: string where
  "bt_special = ''<>:/|?*'' @ [CHR 0x22, backslash]"

definition is_control :: "string \<Rightarrow> bool" where
  "is_control r \<longleftrightarrow>
     (case r of
        [c] \<Rightarrow> byte_of c < 32 \<or> byte_of c = 127
      | [c, d] \<Rightarrow> byte_of c = 194 \<and> 128 \<le> byte_of d \<and> byte_of d \<le> 159
      | _ \<Rightarrow> False)"

definition safe_rune :: "string \<Rightarrow> string" where
  "safe_rune r = (if is_control r \<or> (\<exists>c\<in>set bt_special. r = [c]) then ''_'' else r)"

definition bt_safe_name :: "string \<Rightarrow> string \<Rightarrow> string" where
  "bt_safe_name value fallback =
     (let v = trim ''. '' (map_runes safe_rune (trim_space value)) in
      if v = [] \<or> v = ''.'' \<or> v = ''..'' then fallback else v)"

definition is_drive_component :: "string \<Rightarrow> bool" where
  "is_drive_component value \<longleftrightarrow>
     (case value of
        [c, d] \<Rightarrow> ((65 \<le> byte_of c \<and> byte_of c \<le> 90) \<or> (97 \<le> byte_of c \<and> byte_of c \<le> 122)) \<and>
          d = CHR '':''
      | _ \<Rightarrow> False)"

definition invalid_component :: "unicode \<Rightarrow> string \<Rightarrow> goerr" where
  "invalid_component u nested = new_error (''invalid path component '' @ quote u nested)"

fun nested_names :: "unicode \<Rightarrow> string list \<Rightarrow> string list result" where
  "nested_names u [] = Inr []"
| "nested_names u (n # ns) =
     (let nested = trim_space n in
      if nested = [] \<or> nested = ''.'' \<or> nested = ''..'' \<or> is_drive_component nested
      then Inl (invalid_component u nested)
      else let safe = bt_safe_name nested ''file'' in
        if safe = [] \<or> safe = ''.'' \<or> safe = ''..'' then Inl (invalid_component u safe)
        else case nested_names u ns of Inl e \<Rightarrow> Inl e | Inr r \<Rightarrow> Inr (safe # r))"

fun part_names :: "unicode \<Rightarrow> string list \<Rightarrow> string list result" where
  "part_names u [] = Inr []"
| "part_names u (p # ps) =
     (case nested_names u (split_on slash (trim_space (to_slash p))) of
        Inl e \<Rightarrow> Inl e
      | Inr safe \<Rightarrow> (case part_names u ps of Inl e \<Rightarrow> Inl e | Inr r \<Rightarrow> Inr (safe @ r)))"

definition bt_relative_path :: "unicode \<Rightarrow> string list \<Rightarrow> string result" where
  "bt_relative_path u parts =
     (if parts = [] then Inl (new_error ''empty path'')
      else case part_names u parts of
        Inl e \<Rightarrow> Inl e
      | Inr safe \<Rightarrow>
          (let joined = path_clean (join_with ''/'' safe) in
           if joined = ''.'' \<or> joined = ''..'' \<or> prefix ''../'' joined \<or> prefix ''/'' joined
           then Inl (new_error ''path escapes torrent root'')
           else Inr joined))"

fun info_files_loop ::
  "unicode \<Rightarrow> meta_info \<Rightarrow> nat \<Rightarrow> meta_file list \<Rightarrow> bt_file list \<Rightarrow> int \<Rightarrow> (bt_file list \<times> int) result" where
  "info_files_loop u info i [] files total_size = Inr (files, total_size)"
| "info_files_loop u info i (m # ms) files total_size =
     (if contains_str (mf_attr m) ''p'' then info_files_loop u info (Suc i) ms files total_size
      else case bt_relative_path u (if mi_is_dir info then mf_best_path m else [mi_best_name info]) of
        Inl e \<Rightarrow> Inl (wrap_error (''unsafe torrent file '' @ itoa (int i) @ '': '') e)
      | Inr clean_path \<Rightarrow>
          if mf_length m < 0
          then Inl (new_error (''torrent file '' @ itoa (int i) @ '' has negative size''))
          else info_files_loop u info (Suc i) ms
            (files @ [\<lparr>bf_index = int i, bf_path = clean_path, bf_size = mf_length m,
               bf_selected = True, bf_priority = 2, bf_downloaded = 0, bf_completed = False\<rparr>])
            (wrap64 (total_size + mf_length m)))"

definition files_from_info :: "unicode \<Rightarrow> meta_info \<Rightarrow> (bt_file list \<times> int) result" where
  "files_from_info u info =
     (case info_files_loop u info 0 (mi_files info) [] 0 of
        Inl e \<Rightarrow> Inl e
      | Inr (files, total_size) \<Rightarrow>
          if files = [] then Inl (new_error ''torrent contains no downloadable regular files'')
          else Inr (files, total_size))"

section \<open>The texts of a stage\<close>

definition bt_bool_state :: "strmap \<Rightarrow> string \<Rightarrow> bool \<Rightarrow> bool" where
  "bt_bool_state s key fallback = (case parse_bool (map_get s key) of Some b \<Rightarrow> b | None \<Rightarrow> fallback)"

definition bt_int_state :: "strmap \<Rightarrow> string \<Rightarrow> int \<Rightarrow> int" where
  "bt_int_state s key fallback = (case parse_int (map_get s key) of Some n \<Rightarrow> n | None \<Rightarrow> fallback)"

definition bt_int64_state :: "strmap \<Rightarrow> string \<Rightarrow> int \<Rightarrow> int" where
  "bt_int64_state s key fallback = (case parse_int (map_get s key) of Some n \<Rightarrow> n | None \<Rightarrow> fallback)"

definition files_from_task :: "bt_codec \<Rightarrow> task \<Rightarrow> bt_file list result" where
  "files_from_task bc t =
     (let s = stg_state (tsk_stage t) in
      if s = None \<or> trim_space (map_get s ''files'') = []
      then Inl (new_error ''BitTorrent task has no file metadata'')
      else case bc_unmarshal_files bc (map_get s ''files'') of
        Inl e \<Rightarrow> Inl (wrap_error ''decode BitTorrent files: '' e)
      | Inr files \<Rightarrow>
          if files = [] then Inl (new_error ''BitTorrent task has no downloadable files'')
          else Inr files)"

text \<open>The fields for the tests' listening host are left out: the program never sets them.\<close>

record runtime_options =
  rto_metadata_timeout :: int
  rto_listen_port :: int
  rto_connections_limit :: int
  rto_download_rate :: int
  rto_upload_rate :: int
  rto_enable_dht :: bool
  rto_enable_lsd :: bool
  rto_enable_upnp :: bool
  rto_enable_natpmp :: bool
  rto_sequential :: bool
  rto_seed_ratio :: int
  rto_seed_minutes :: int
  rto_save_magnet :: bool

definition runtime_options_from_task :: "task \<Rightarrow> runtime_options" where
  "runtime_options_from_task t =
     (let s = stg_state (tsk_stage t) in
      \<lparr>rto_metadata_timeout = wrap64 (bt_int_state s ''metadataTimeoutSec'' 30 * second),
       rto_listen_port = bt_int_state s ''listenPort'' 0,
       rto_connections_limit = bt_int_state s ''connectionsLimit'' 500,
       rto_download_rate = bt_int64_state s ''downloadRateLimit'' 0,
       rto_upload_rate = bt_int64_state s ''uploadRateLimit'' 0,
       rto_enable_dht = bt_bool_state s ''enableDHT'' True,
       rto_enable_lsd = bt_bool_state s ''enableLSD'' True,
       rto_enable_upnp = bt_bool_state s ''enableUPnP'' True,
       rto_enable_natpmp = bt_bool_state s ''enableNATPMP'' True,
       rto_sequential = bt_bool_state s ''sequentialDownload'' False,
       rto_seed_ratio = bt_int_state s ''seedRatioLimitPercent'' 0,
       rto_seed_minutes = bt_int_state s ''seedTimeLimitMinutes'' 0,
       rto_save_magnet = bt_bool_state s ''saveMagnetTorrentFile'' False\<rparr>)"

record runtime_state =
  rst_files :: "bt_file list"
  rst_uploaded_bytes :: int
  rst_seeding_seconds :: int
  rst_phase :: string
  rst_peer_count :: int
  rst_seed_count :: int
  rst_download_rate :: int
  rst_upload_rate :: int
  rst_share_ratio :: rat

definition runtime_state_from_task :: "bt_codec \<Rightarrow> task \<Rightarrow> runtime_state result" where
  "runtime_state_from_task bc t =
     (case files_from_task bc t of
        Inl e \<Rightarrow> Inl e
      | Inr files \<Rightarrow>
          (let s = stg_state (tsk_stage t) in
           Inr \<lparr>rst_files = files,
             rst_uploaded_bytes = bt_int64_state s ''uploadedBytes'' 0,
             rst_seeding_seconds = bt_int64_state s ''seedingTimeSeconds'' 0,
             rst_phase = map_get s ''phase'',
             rst_peer_count = bt_int_state s ''peerCount'' 0,
             rst_seed_count = bt_int_state s ''seedCount'' 0,
             rst_download_rate = bt_int64_state s ''downloadRate'' 0,
             rst_upload_rate = bt_int64_state s ''uploadRate'' 0,
             rst_share_ratio = bc_parse_float bc (map_get s ''shareRatioPercent'')\<rparr>))"

definition runtime_state_patch :: "bt_codec \<Rightarrow> runtime_state \<Rightarrow> (string \<times> string) list result" where
  "runtime_state_patch bc r =
     (case bc_marshal_files bc (rst_files r) of
        Inl e \<Rightarrow> Inl (wrap_error ''encode BitTorrent file checkpoint: '' e)
      | Inr files \<Rightarrow>
          Inr [(''files'', files),
               (''uploadedBytes'', itoa (rst_uploaded_bytes r)),
               (''seedingTimeSeconds'', itoa (rst_seeding_seconds r)),
               (''phase'', rst_phase r),
               (''peerCount'', itoa (rst_peer_count r)),
               (''seedCount'', itoa (rst_seed_count r)),
               (''downloadRate'', itoa (rst_download_rate r)),
               (''uploadRate'', itoa (rst_upload_rate r)),
               (''shareRatioPercent'', format_fixed 4 (rst_share_ratio r))])"

definition bt_output_path :: "bt_codec \<Rightarrow> task \<Rightarrow> string result" where
  "bt_output_path bc t =
     (case files_from_task bc t of Inl e \<Rightarrow> Inl e | Inr _ \<Rightarrow> Inr (fp_join [tsk_path t, tsk_title t]))"

definition trackers_from_task :: "bt_codec \<Rightarrow> task \<Rightarrow> string list result" where
  "trackers_from_task bc t =
     (let s = stg_state (tsk_stage t) in
      if s = None \<or> trim_space (map_get s ''trackers'') = [] then Inr []
      else case bc_unmarshal_strings bc (map_get s ''trackers'') of
        Inl e \<Rightarrow> Inl (wrap_error ''decode BitTorrent trackers: '' e)
      | Inr ts \<Rightarrow> Inr ts)"

section \<open>The selection of files\<close>

definition select_file :: "int list \<Rightarrow> bt_file \<Rightarrow> bt_file" where
  "select_file chosen f =
     (if bf_index f \<in> set chosen
      then f\<lparr>bf_selected := True,
             bf_priority := (if bf_priority f < 1 \<or> bf_priority f > 3 then 2 else bf_priority f)\<rparr>
      else f\<lparr>bf_selected := False, bf_priority := 0, bf_downloaded := 0, bf_completed := False\<rparr>)"

definition selected_size :: "bt_file list \<Rightarrow> int" where
  "selected_size files = foldl (\<lambda>n f. if bf_selected f then wrap64 (n + bf_size f) else n) 0 files"

definition set_selected_files :: "bt_codec \<Rightarrow> task \<Rightarrow> int list \<Rightarrow> task result" where
  "set_selected_files bc t chosen =
     (case files_from_task bc t of
        Inl e \<Rightarrow> Inl e
      | Inr files \<Rightarrow>
          if chosen = [] then Inl (new_error ''at least one BitTorrent file must be selected'')
          else
            (let files = map (select_file chosen) files; total_size = selected_size files in
             if \<not> list_ex bf_selected files
             then Inl (new_error ''selected BitTorrent indexes contain no downloadable file'')
             else case bc_marshal_files bc files of
               Inl e \<Rightarrow> Inl (wrap_error ''encode BitTorrent files: '' e)
             | Inr encoded \<Rightarrow>
                 (let g = tsk_stage t in
                  Inr (t\<lparr>tsk_file_size := total_size, tsk_received := min (tsk_received t) total_size,
                    tsk_stage := g\<lparr>stg_state := map_set (clone_string_map (stg_state g)) ''files'' encoded,
                      stg_file_size := total_size, stg_received := min (stg_received g) total_size\<rparr>\<rparr>))))"

section \<open>Trackers\<close>

definition tracker_schemes :: "string list" where
  "tracker_schemes = [''http'', ''https'', ''udp'', ''ws'', ''wss'']"

definition add_tracker :: "unicode \<Rightarrow> netlib \<Rightarrow> string list \<Rightarrow> string \<Rightarrow> string list" where
  "add_tracker u nl found candidate =
     (let c = trim_space candidate in
      case nl_parse_url nl c of
        Inl _ \<Rightarrow> found
      | Inr p \<Rightarrow>
          if up_host p = [] \<or> to_lower u (up_scheme p) \<notin> set tracker_schemes \<or> c \<in> set found
          then found else found @ [c])"

definition parse_trackers :: "unicode \<Rightarrow> netlib \<Rightarrow> string list \<Rightarrow> string list" where
  "parse_trackers u nl values =
     foldl (\<lambda>found value. foldl (add_tracker u nl) found (go_fields value)) [] values"

end
