(* ===== verification/BtStorage.thy ===== *)
theory BtStorage
  imports BtModel
begin

text \<open>
  The storage of a BitTorrent task, \<open>internal/download/bt/resume_storage.go\<close>, and the paths it works
  on, \<open>storagePaths\<close> of \<open>worker.go\<close>. The pieces of a torrent are ranges of one address space, which
  the torrent's files divide; each operation opens the files that its range meets. The database of
  completed pieces belongs to the torrent library and is the argument \<open>piece_db\<close>; \<open>io_faults\<close> says
  which reads, writes, closes and syncs fail.
\<close>

section \<open>The paths of a torrent's files\<close>

definition metainfo_file_key :: "meta_file \<Rightarrow> string" where
  "metainfo_file_key m =
     itoa (mf_offset m) @ '':'' @ itoa (mf_length m) @ '':'' @ join_with ''/'' (mf_best_path m)"

definition file_relative :: "meta_info \<Rightarrow> string \<Rightarrow> bt_file list \<Rightarrow> nat \<Rightarrow> string" where
  "file_relative info title files i =
     (case find (\<lambda>f. bf_index f = int i) (rev files) of
        Some f \<Rightarrow>
          if bf_selected f
          then (if mi_is_dir info then fp_join [title, from_slash (bf_path f)] else title)
          else fp_join [title, ''.gd3_unselected'', itoa (int i)]
      | None \<Rightarrow> fp_join [title, ''.gd3_padding'', itoa (int i)])"

definition escapes_root :: "string \<Rightarrow> bool" where
  "escapes_root p \<longleftrightarrow> is_abs p \<or> p = ''.'' \<or> p = ''..'' \<or> prefix (''..'' @ [backslash]) p"

fun storage_loop ::
  "unicode \<Rightarrow> meta_info \<Rightarrow> string \<Rightarrow> bt_file list \<Rightarrow> nat \<Rightarrow> meta_file list \<Rightarrow>
   (string \<times> nat) list \<Rightarrow> (string \<times> string) list \<Rightarrow> (string \<times> string) list result" where
  "storage_loop u info title files i [] used paths = Inr paths"
| "storage_loop u info title files i (m # ms) used paths =
     (let clean = fp_clean (file_relative info title files i) in
      if escapes_root clean
      then Inl (new_error (''torrent file '' @ itoa (int i) @ '' escapes the task root''))
      else case map_of used (to_lower u clean) of
        Some previous \<Rightarrow>
          Inl (new_error (''torrent files '' @ itoa (int previous) @ '' and '' @ itoa (int i)
            @ '' map to the same output path '' @ quote u clean))
      | None \<Rightarrow>
          storage_loop u info title files (Suc i) ms
            (AList.update (to_lower u clean) i used) (AList.update (metainfo_file_key m) clean paths))"

definition storage_paths ::
  "unicode \<Rightarrow> task \<Rightarrow> meta_info \<Rightarrow> bt_file list \<Rightarrow> (string \<times> string) list result" where
  "storage_paths u t info files =
     (let title = trim_space (tsk_title t) in
      if title = [] \<or> bt_safe_name title [] \<noteq> title \<or> fp_base title \<noteq> title
      then Inl (new_error (''unsafe BitTorrent task title '' @ quote u (tsk_title t)))
      else storage_loop u info title files 0 (mi_files info) [] [])"

section \<open>Files at an offset\<close>

record store_entry =
  sen_path :: string
  sen_offset :: int
  sen_length :: int

record io_faults =
  iof_read :: "string \<Rightarrow> int \<Rightarrow> (goerr \<times> nat) option"
  iof_write :: "string \<Rightarrow> int \<Rightarrow> (goerr \<times> nat) option"
  iof_close :: "string \<Rightarrow> goerr option"
  iof_sync :: "string \<Rightarrow> goerr option"

definition no_io_faults :: io_faults where
  "no_io_faults = \<lparr>iof_read = (\<lambda>_ _. None), iof_write = (\<lambda>_ _. None), iof_close = (\<lambda>_. None),
     iof_sync = (\<lambda>_. None)\<rparr>"

definition io_eof :: goerr where "io_eof = new_error ''EOF''"
definition unexpected_eof :: goerr where "unexpected_eof = new_error ''unexpected EOF''"
definition short_write :: goerr where "short_write = new_error ''short write''"
definition err_invalid :: goerr where "err_invalid = new_error ''invalid argument''"

text \<open>\<open>errors.Join\<close>.\<close>

definition join_errors :: "goerr option \<Rightarrow> goerr option \<Rightarrow> goerr option" where
  "join_errors a b =
     (case (a, b) of
        (None, _) \<Rightarrow> b
      | (Some _, None) \<Rightarrow> a
      | (Some e, Some f) \<Rightarrow> Some (GoErr (err_text e @ [CHR 0x0A] @ err_text f)
          (err_canceled e \<or> err_canceled f) (err_not_exist e \<or> err_not_exist f)))"

lemma join_errors_None [simp]: "join_errors a b = None \<longleftrightarrow> a = None \<and> b = None"
  by (auto simp: join_errors_def split: option.splits)

text \<open>\<open>Truncate\<close> to a length.\<close>

definition os_truncate_to :: "fsys \<Rightarrow> string \<Rightarrow> int \<Rightarrow> goerr option \<times> fsys" where
  "os_truncate_to fs p n =
     (case os_stat fs p of
        Inr (NFile c) \<Rightarrow>
          if n < 0 then (Some err_invalid, fs)
          else (None, put_node p (NFile (take (nat n) c @ replicate (nat n - length c) (CHR 0x00))) fs)
      | Inr _ \<Rightarrow> (Some (new_error ''is a directory''), fs)
      | Inl e \<Rightarrow> (Some e, fs))"

section \<open>Opening a torrent\<close>

definition prepare_store_file ::
  "unicode \<Rightarrow> io_faults \<Rightarrow> string \<Rightarrow> meta_file \<Rightarrow> fsys \<Rightarrow> goerr option \<times> fsys" where
  "prepare_store_file u io full m fs =
     (case os_stat fs full of
        Inr n \<Rightarrow>
          (case n of
             NFile c \<Rightarrow>
               if int (length c) > mf_length m then
                 (case os_truncate_to fs full (mf_length m) of
                    (Some e, fs) \<Rightarrow> (Some (wrap_error ''trim BitTorrent output file: '' e), fs)
                  | (None, fs) \<Rightarrow> (None, fs))
               else (None, fs)
           | _ \<Rightarrow> (Some (new_error (''BitTorrent output path is not a regular file: '' @ quote u full)), fs))
      | Inl e \<Rightarrow>
          if \<not> err_not_exist e then (Some (wrap_error ''inspect BitTorrent output file: '' e), fs)
          else if mf_length m = 0 then
            (case os_open_write fs full of
               (Some e, fs) \<Rightarrow> (Some e, fs) | (None, fs) \<Rightarrow> (iof_close io full, fs))
          else (None, fs))"

fun open_files ::
  "unicode \<Rightarrow> io_faults \<Rightarrow> string \<Rightarrow> (string \<times> string) list \<Rightarrow> meta_file list \<Rightarrow>
   store_entry list \<Rightarrow> fsys \<Rightarrow> store_entry list result \<times> fsys" where
  "open_files u io base paths [] files fs = (Inr files, fs)"
| "open_files u io base paths (m # ms) files fs =
     (case map_of paths (metainfo_file_key m) of
        None \<Rightarrow> (Inl (new_error (''BitTorrent storage path missing for '' @ quote u (mf_display m))), fs)
      | Some relative \<Rightarrow>
          if relative = []
          then (Inl (new_error (''BitTorrent storage path missing for '' @ quote u (mf_display m))), fs)
          else
            (let full = fp_join [base, relative] in
             case os_mkdir_all fs (fp_dir full) of
               (Some e, fs) \<Rightarrow> (Inl (wrap_error ''create BitTorrent storage directory: '' e), fs)
             | (None, fs) \<Rightarrow>
                 (case prepare_store_file u io full m fs of
                    (Some e, fs) \<Rightarrow> (Inl e, fs)
                  | (None, fs) \<Rightarrow>
                      open_files u io base paths ms
                        (files @ [\<lparr>sen_path = full, sen_offset = mf_offset m, sen_length = mf_length m\<rparr>])
                        fs)))"

text \<open>
  \<open>sort.Slice\<close> need not keep the order of equal offsets; such files are empty but the last, and an
  empty file is never found at an offset.
\<close>

definition open_torrent ::
  "unicode \<Rightarrow> io_faults \<Rightarrow> string \<Rightarrow> (string \<times> string) list \<Rightarrow> meta_info \<Rightarrow> fsys \<Rightarrow>
   store_entry list result \<times> fsys" where
  "open_torrent u io base paths info fs =
     (case open_files u io base paths (mi_files info) [] fs of
        (Inl e, fs) \<Rightarrow> (Inl e, fs) | (Inr files, fs) \<Rightarrow> (Inr (sort_key sen_offset files), fs))"

section \<open>Reading and writing a range\<close>

definition entry_end :: "store_entry \<Rightarrow> int" where
  "entry_end f = wrap64 (sen_offset f + sen_length f)"

fun entry_at :: "store_entry list \<Rightarrow> int \<Rightarrow> store_entry option \<times> int" where
  "entry_at [] g = (None, 0)"
| "entry_at (f # fs) g =
     (if g < sen_offset f then (None, sen_offset f - g)
      else if g < entry_end f then (Some f, entry_end f - g)
      else entry_at fs g)"

lemma entry_at_available:
  "entry_at files g = (Some f, n) \<Longrightarrow> 0 < n" "entry_at files g = (None, n) \<Longrightarrow> 0 \<le> n"
  by (induction files g rule: entry_at.induct) (auto split: if_splits)

text \<open>
  \<open>Open\<close>, \<open>ReadAt\<close> and \<open>Close\<close>. \<open>Inl\<close> is the error of \<open>Open\<close>; otherwise the bytes read come with
  the errors of reading and closing. The end of the file shows as a short count only.
\<close>

definition read_chunk ::
  "io_faults \<Rightarrow> fsys \<Rightarrow> string \<Rightarrow> int \<Rightarrow> nat \<Rightarrow> (string \<times> goerr option) result" where
  "read_chunk io fs path off n =
     (case os_stat fs path of
        Inl e \<Rightarrow> Inl e
      | Inr (NFile content) \<Rightarrow>
          (let data = take n (drop (nat off) content) in
           case iof_read io path off of
             Some (e, k) \<Rightarrow> Inr (take k data, join_errors (Some e) (iof_close io path))
           | None \<Rightarrow> Inr (data, iof_close io path))
      | Inr _ \<Rightarrow> Inr ([], join_errors (Some (new_error ''is a directory'')) (iof_close io path)))"

text \<open>The least of a length and what is available, and that it is not 0.\<close>

definition chunk_of :: "nat \<Rightarrow> int \<Rightarrow> nat" where
  "chunk_of n available = min n (nat available)"

lemma chunk_of_pos:
  assumes "n \<noteq> 0" and "0 < a"
  shows "0 < chunk_of n a" "chunk_of n a \<le> n" "n - chunk_of n a < n"
  using assms by (simp_all add: chunk_of_def)

lemma entry_found: "(Some f, n) = entry_at files g \<Longrightarrow> 0 < n"
  by (rule entry_at_available(1)[OF sym])

function read_range ::
  "io_faults \<Rightarrow> fsys \<Rightarrow> store_entry list \<Rightarrow> nat \<Rightarrow> int \<Rightarrow> string \<Rightarrow> string \<times> goerr option" where
  "read_range io fs files n g got =
     (if n = 0 then (got, None)
      else case entry_at files g of
        (None, available) \<Rightarrow>
          if available \<le> 0 then (got, Some io_eof)
          else read_range io fs files (n - chunk_of n available) (g + int (chunk_of n available))
            (got @ replicate (chunk_of n available) (CHR 0x00))
      | (Some f, available) \<Rightarrow>
          (case read_chunk io fs (sen_path f) (g - sen_offset f) (chunk_of n available) of
             Inl e \<Rightarrow> (got, Some (if err_not_exist e then io_eof else e))
           | Inr (data, Some e) \<Rightarrow> (got @ data, Some e)
           | Inr (data, None) \<Rightarrow>
               if length data \<noteq> chunk_of n available then (got @ data, Some io_eof)
               else read_range io fs files (n - chunk_of n available)
                 (g + int (chunk_of n available)) (got @ data)))"
  by pat_completeness auto
termination
proof (relation "measure (\<lambda>(io, fs, files, n, g, got). n)", goal_cases)
  case 2
  then show ?case by (simp add: chunk_of_pos)
next
  case 3
  then show ?case by (simp add: chunk_of_pos entry_found)
qed simp

declare read_range.simps [simp del]

text \<open>\<open>OpenFile\<close> with O_CREATE, \<open>WriteAt\<close> and \<open>Close\<close>; the number of bytes written.\<close>

definition write_chunk_at ::
  "io_faults \<Rightarrow> string \<Rightarrow> int \<Rightarrow> string \<Rightarrow> fsys \<Rightarrow> (nat \<times> goerr option) result \<times> fsys" where
  "write_chunk_at io path off chunk fs =
     (case os_open_write fs path of
        (Some e, fs) \<Rightarrow> (Inl e, fs)
      | (None, fs) \<Rightarrow>
          (case write_at off chunk (iof_write io path off) (file_content fs path) of
             (err, content) \<Rightarrow>
               (Inr (case iof_write io path off of
                       None \<Rightarrow> length chunk | Some (_, k) \<Rightarrow> min k (length chunk),
                     join_errors err (iof_close io path)),
                put_node path (NFile content) fs)))"

function write_range ::
  "io_faults \<Rightarrow> store_entry list \<Rightarrow> int \<Rightarrow> string \<Rightarrow> nat \<Rightarrow> fsys \<Rightarrow> (nat \<times> goerr option) \<times> fsys" where
  "write_range io files g buffer written fs =
     (if buffer = [] then ((written, None), fs)
      else case entry_at files g of
        (None, available) \<Rightarrow>
          if available \<le> 0 then ((written, Some short_write), fs)
          else (let chunk = chunk_of (length buffer) available in
            write_range io files (g + int chunk) (drop chunk buffer) (written + chunk) fs)
      | (Some f, available) \<Rightarrow>
          (let chunk = chunk_of (length buffer) available in
           case write_chunk_at io (sen_path f) (g - sen_offset f) (take chunk buffer) fs of
             (Inl e, fs) \<Rightarrow> ((written, Some e), fs)
           | (Inr (count, Some e), fs) \<Rightarrow> ((written + count, Some e), fs)
           | (Inr (count, None), fs) \<Rightarrow>
               if count \<noteq> chunk then ((written + count, Some short_write), fs)
               else write_range io files (g + int count) (drop count buffer) (written + count) fs))"
  by pat_completeness auto
termination
proof (relation "measure (\<lambda>(io, files, g, buffer, written, fs). length buffer)", goal_cases)
  case 2
  then show ?case by (simp add: chunk_of_pos)
next
  case 3
  then show ?case by (simp add: chunk_of_pos entry_found)
qed simp

declare write_range.simps [simp del]

section \<open>Pieces\<close>

record piece =
  pie_index :: int
  pie_offset :: int
  pie_length :: int

record torrent_store =
  tst_hash :: string
  tst_files :: "store_entry list"

definition piece_read ::
  "io_faults \<Rightarrow> fsys \<Rightarrow> torrent_store \<Rightarrow> piece \<Rightarrow> nat \<Rightarrow> int \<Rightarrow> string \<times> goerr option" where
  "piece_read io fs ts p n offset =
     (if offset < 0 then ([], Some err_invalid)
      else if offset \<ge> pie_length p then ([], Some io_eof)
      else
        (let n = chunk_of n (pie_length p - offset) in
         case read_range io fs (tst_files ts) n (pie_offset p + offset) [] of
           (data, err) \<Rightarrow> (data, if err = None \<and> length data < n then Some io_eof else err)))"

definition piece_write ::
  "io_faults \<Rightarrow> torrent_store \<Rightarrow> piece \<Rightarrow> string \<Rightarrow> int \<Rightarrow> fsys \<Rightarrow> (nat \<times> goerr option) \<times> fsys" where
  "piece_write io ts p buffer offset fs =
     (if offset < 0 \<or> wrap64 (offset + int (length buffer)) > pie_length p
      then ((0, Some err_invalid), fs)
      else write_range io (tst_files ts) (pie_offset p + offset) buffer 0 fs)"

fun check_extent :: "fsys \<Rightarrow> store_entry list \<Rightarrow> int \<Rightarrow> int \<Rightarrow> goerr option" where
  "check_extent fs [] offset stop_at = None"
| "check_extent fs (f # files) offset stop_at =
     (let start = max offset (sen_offset f); stop = min stop_at (entry_end f) in
      if stop \<le> start then check_extent fs files offset stop_at
      else case os_stat fs (sen_path f) of
        Inl e \<Rightarrow> Some e
      | Inr (NFile c) \<Rightarrow>
          if int (length c) < stop - sen_offset f then Some unexpected_eof
          else check_extent fs files offset stop_at
      | Inr _ \<Rightarrow> Some unexpected_eof)"

fun sync_extent :: "io_faults \<Rightarrow> fsys \<Rightarrow> store_entry list \<Rightarrow> int \<Rightarrow> int \<Rightarrow> goerr option \<Rightarrow> goerr option" where
  "sync_extent io fs [] offset stop_at err = err"
| "sync_extent io fs (f # files) offset stop_at err =
     (if min stop_at (entry_end f) \<le> max offset (sen_offset f)
      then sync_extent io fs files offset stop_at err
      else case os_stat fs (sen_path f) of
        Inl e \<Rightarrow> sync_extent io fs files offset stop_at (join_errors err (Some e))
      | Inr (NFile _) \<Rightarrow> sync_extent io fs files offset stop_at
          (join_errors err (join_errors (iof_sync io (sen_path f)) (iof_close io (sen_path f))))
      | Inr _ \<Rightarrow> sync_extent io fs files offset stop_at
          (join_errors err (Some (new_error ''is a directory''))))"

section \<open>Completed pieces\<close>

record completion =
  cmp_complete :: bool
  cmp_ok :: bool
  cmp_err :: "goerr option"

type_synonym piece_key = "string \<times> int"

record 'db piece_db =
  pdb_get :: "'db \<Rightarrow> piece_key \<Rightarrow> completion \<times> goerr option"
  pdb_set :: "piece_key \<Rightarrow> bool \<Rightarrow> 'db \<Rightarrow> goerr option \<times> 'db"

definition piece_key_of :: "torrent_store \<Rightarrow> piece \<Rightarrow> piece_key" where
  "piece_key_of ts p = (tst_hash ts, pie_index p)"

definition extent_end :: "piece \<Rightarrow> int" where
  "extent_end p = wrap64 (pie_offset p + pie_length p)"

definition piece_completion ::
  "'db piece_db \<Rightarrow> fsys \<Rightarrow> torrent_store \<Rightarrow> piece \<Rightarrow> 'db \<Rightarrow> completion \<times> 'db" where
  "piece_completion ops fs ts p db =
     (case pdb_get ops db (piece_key_of ts p) of
        (c, err) \<Rightarrow>
          (let c = c\<lparr>cmp_err := join_errors (cmp_err c) err\<rparr> in
           if cmp_err c \<noteq> None \<or> \<not> cmp_ok c \<or> \<not> cmp_complete c then (c, db)
           else case check_extent fs (tst_files ts) (pie_offset p) (extent_end p) of
             None \<Rightarrow> (c, db)
           | Some _ \<Rightarrow>
               (case pdb_set ops (piece_key_of ts p) False db of
                  (err, db) \<Rightarrow>
                    (c\<lparr>cmp_complete := False, cmp_err := join_errors (cmp_err c) err\<rparr>, db))))"

definition mark_complete ::
  "'db piece_db \<Rightarrow> io_faults \<Rightarrow> fsys \<Rightarrow> torrent_store \<Rightarrow> piece \<Rightarrow> 'db \<Rightarrow> goerr option \<times> 'db" where
  "mark_complete ops io fs ts p db =
     (case sync_extent io fs (tst_files ts) (pie_offset p) (extent_end p) None of
        Some e \<Rightarrow> (Some e, db)
      | None \<Rightarrow> pdb_set ops (piece_key_of ts p) True db)"

definition mark_not_complete ::
  "'db piece_db \<Rightarrow> torrent_store \<Rightarrow> piece \<Rightarrow> 'db \<Rightarrow> goerr option \<times> 'db" where
  "mark_not_complete ops ts p db = pdb_set ops (piece_key_of ts p) False db"

end
