(* ===== verification/BtStorageProps.thy ===== *)
theory BtStorageProps
  imports BtStorage
begin

text \<open>
  What the storage of a torrent promises. Its files are one address space of bytes, \<open>peek\<close>; a read
  returns what this space holds and a write puts its bytes there, whatever files they lie in and
  whatever calls fail; a piece that is reported complete can be read back whole.
\<close>

section \<open>The address space\<close>

fun laid_out :: "int \<Rightarrow> store_entry list \<Rightarrow> bool" where
  "laid_out lo [] = True"
| "laid_out lo (f # files) \<longleftrightarrow>
     lo \<le> sen_offset f \<and> 0 \<le> sen_length f \<and> sen_offset f + sen_length f \<le> max_int64 \<and>
     laid_out (sen_offset f + sen_length f) files"

definition store_key :: "fsys \<Rightarrow> store_entry \<Rightarrow> string" where
  "store_key fs f = fs_key fs (sen_path f)"

definition store_ok :: "fsys \<Rightarrow> store_entry list \<Rightarrow> bool" where
  "store_ok fs files \<longleftrightarrow> laid_out 0 files \<and> distinct (map (store_key fs) files)"

text \<open>A byte of the space: of the file it lies in, 0 between two files, None where nothing is.\<close>

definition peek :: "fsys \<Rightarrow> store_entry list \<Rightarrow> int \<Rightarrow> char option" where
  "peek fs files g =
     (case entry_at files g of
        (Some f, _) \<Rightarrow>
          (let c = file_content fs (sen_path f); i = nat (g - sen_offset f) in
           if i < length c then Some (c ! i) else None)
      | (None, n) \<Rightarrow> if 0 < n then Some (CHR 0x00) else None)"

definition covered :: "store_entry list \<Rightarrow> int \<Rightarrow> bool" where
  "covered files g \<longleftrightarrow> fst (entry_at files g) \<noteq> None"

lemma entry_end_eq: "0 \<le> sen_offset f \<Longrightarrow> 0 \<le> sen_length f \<Longrightarrow>
    sen_offset f + sen_length f \<le> max_int64 \<Longrightarrow> entry_end f = sen_offset f + sen_length f"
  by (simp add: entry_end_def wrap64_id int64_def min_int64_def)

lemma laid_out_end: "laid_out lo files \<Longrightarrow> 0 \<le> lo \<Longrightarrow> f \<in> set files \<Longrightarrow>
    entry_end f = sen_offset f + sen_length f \<and> lo \<le> sen_offset f \<and> 0 \<le> sen_length f"
proof (induction lo files rule: laid_out.induct)
  case (2 lo h files)
  then show ?case by (force simp: entry_end_eq)
qed simp

lemma entry_at_Some: "entry_at files g = (Some f, n) \<Longrightarrow>
    f \<in> set files \<and> sen_offset f \<le> g \<and> g < entry_end f \<and> n = entry_end f - g"
  by (induction files g rule: entry_at.induct) (auto split: if_splits)

text \<open>All of the space up to the end of the entry, or of the gap, found is in it.\<close>

lemma entry_at_shift: "laid_out lo files \<Longrightarrow> 0 \<le> lo \<Longrightarrow> entry_at files g = (r, n) \<Longrightarrow>
    0 \<le> d \<Longrightarrow> d < n \<Longrightarrow> entry_at files (g + d) = (r, n - d)"
proof (induction files g arbitrary: lo rule: entry_at.induct)
  case (2 f files g)
  have e: "entry_end f = sen_offset f + sen_length f" using 2 by (simp add: entry_end_eq)
  show ?case
  proof (cases "g < sen_offset f \<or> g < entry_end f")
    case True
    with 2 e show ?thesis by (auto split: if_splits)
  next
    case False
    with 2 e show ?thesis by (auto split: if_splits)
  qed
qed simp

lemma entry_at_unique:
  assumes "laid_out lo files" and "0 \<le> lo" and "f \<in> set files"
    and "sen_offset f \<le> g" and "g < sen_offset f + sen_length f"
  shows "entry_at files g = (Some f, sen_offset f + sen_length f - g)"
  using assms
proof (induction lo files rule: laid_out.induct)
  case (2 lo h files)
  have eh: "entry_end h = sen_offset h + sen_length h" using 2 by (simp add: entry_end_eq)
  show ?case
  proof (cases "f = h")
    case False
    with 2 have f: "f \<in> set files" by simp
    with 2 have "sen_offset h + sen_length h \<le> sen_offset f"
      using laid_out_end[of "sen_offset h + sen_length h" files f] by simp
    with 2 f eh show ?thesis by simp
  qed (use 2 eh in simp)
qed simp

section \<open>Reading\<close>

fun abs_read :: "(int \<Rightarrow> char option) \<Rightarrow> int \<Rightarrow> nat \<Rightarrow> string" where
  "abs_read pk g 0 = []"
| "abs_read pk g (Suc n) = (case pk g of None \<Rightarrow> [] | Some c \<Rightarrow> c # abs_read pk (g + 1) n)"

lemma abs_read_length: "length (abs_read pk g n) \<le> n"
  by (induction pk g n rule: abs_read.induct) (auto split: option.split)

lemma abs_read_append:
  "abs_read pk g (m + n) =
     (if length (abs_read pk g m) < m then abs_read pk g m
      else abs_read pk g m @ abs_read pk (g + int m) n)"
proof (induction pk g m rule: abs_read.induct)
  case (2 pk g m)
  then show ?case by (auto simp: algebra_simps split: option.split)
qed simp

lemma abs_readI:
  assumes "\<And>i. i < length bs \<Longrightarrow> pk (g + int i) = Some (bs ! i)"
    and "length bs \<le> n" and "length bs < n \<Longrightarrow> pk (g + int (length bs)) = None"
  shows "abs_read pk g n = bs"
  using assms
proof (induction bs arbitrary: g n)
  case Nil
  then show ?case by (cases n) simp_all
next
  case (Cons c bs)
  then obtain k where n: "n = Suc k" by (cases n) auto
  have "pk g = Some c" using Cons.prems(1)[of 0] by simp
  moreover have "abs_read pk (g + 1) k = bs"
  proof (rule Cons.IH)
    show "pk (g + 1 + int i) = Some (bs ! i)" if "i < length bs" for i
      using Cons.prems(1)[of "Suc i"] that by (simp add: algebra_simps)
  qed (use Cons.prems n in \<open>auto simp: algebra_simps\<close>)
  ultimately show ?case using n by simp
qed

lemma abs_read_full:
  "length (abs_read pk g n) = n \<longleftrightarrow> (\<forall>i<n. pk (g + int i) \<noteq> None)"
proof (induction pk g n rule: abs_read.induct)
  case (2 pk g n)
  have "(\<forall>i<Suc n. pk (g + int i) \<noteq> None) \<longleftrightarrow> pk g \<noteq> None \<and> (\<forall>i<n. pk (g + 1 + int i) \<noteq> None)"
    by (simp add: All_less_Suc2 algebra_simps)
  with 2 show ?case by (auto split: option.split)
qed simp

lemma abs_read_nth: "i < length (abs_read pk g n) \<Longrightarrow> pk (g + int i) = Some (abs_read pk g n ! i)"
proof (induction pk g n arbitrary: i rule: abs_read.induct)
  case (2 pk g n)
  then show ?case by (cases i) (auto simp: algebra_simps split: option.splits)
qed simp

lemma peek_shift:
  assumes "laid_out 0 files" and "entry_at files g = (r, n)" and "int i < n"
  shows "peek fs files (g + int i) =
    (case r of None \<Rightarrow> Some (CHR 0x00)
     | Some f \<Rightarrow> let c = file_content fs (sen_path f); j = nat (g - sen_offset f) + i in
         if j < length c then Some (c ! j) else None)"
proof -
  have e: "entry_at files (g + int i) = (r, n - int i)"
    by (rule entry_at_shift[OF assms(1) _ assms(2)]) (use assms(3) in auto)
  have "nat (g + int i - sen_offset f) = nat (g - sen_offset f) + i" if r: "r = Some f" for f
  proof -
    have "sen_offset f \<le> g" using entry_at_Some assms(2) r by blast
    then show ?thesis by arith
  qed
  with assms(3) show ?thesis by (auto simp: peek_def e Let_def split: option.split)
qed

lemma peek_gap_read:
  assumes "laid_out 0 files" and "entry_at files g = (None, a)" and "k \<le> nat a"
  shows "abs_read (peek fs files) g k = replicate k (CHR 0x00)"
  by (rule abs_readI) (use assms in \<open>auto simp: peek_shift\<close>)

lemma peek_file_read:
  assumes "laid_out 0 files" and "entry_at files g = (Some f, a)" and "k \<le> nat a"
  shows "abs_read (peek fs files) g k =
    take k (drop (nat (g - sen_offset f)) (file_content fs (sen_path f)))" (is "_ = ?t")
proof (rule abs_readI)
  show "peek fs files (g + int i) = Some (?t ! i)" if "i < length ?t" for i
    using that assms by (auto simp: peek_shift Let_def)
  show "peek fs files (g + int (length ?t)) = None" if "length ?t < k"
  proof -
    let ?m = "length ?t"
    have m: "?m = length (file_content fs (sen_path f)) - nat (g - sen_offset f)" using that by auto
    have "int ?m < a" using that assms(3) by linarith
    then show ?thesis using m by (simp only: peek_shift[OF assms(1,2)] option.case Let_def) (simp, linarith)
  qed
qed simp

text \<open>Whatever fails, what a read returns is in the space; without failures it is all there is.\<close>

lemma read_chunk_prefix:
  assumes "read_chunk io fs p off n = Inr (data, err)"
  shows "prefix data (take n (drop (nat off) (file_content fs p)))"
proof -
  have "prefix (take (min b n) xs) (take n xs)" for b and xs :: string
    by (metis min.commute take_is_prefix take_take)
  with assms show ?thesis
    by (auto simp: read_chunk_def file_content_def os_stat_def os_lstat_def Let_def
        split: sum.splits node.splits option.splits)
qed

lemma read_chunk_faultless:
  assumes "read_chunk no_io_faults fs p off n = Inr (data, None)"
  shows "data = take n (drop (nat off) (file_content fs p))"
  using assms
  by (auto simp: read_chunk_def file_content_def os_stat_def os_lstat_def Let_def no_io_faults_def
      split: sum.splits node.splits option.splits)

lemma abs_read_prefix: "k \<le> n \<Longrightarrow> prefix (abs_read pk g k) (abs_read pk g n)"
  using abs_read_append[of pk g k "n - k"] by (auto simp: prefix_def)

lemma abs_read_split:
  assumes "k \<le> n" and "length (abs_read pk g k) = k"
  shows "abs_read pk g n = abs_read pk g k @ abs_read pk (g + int k) (n - k)"
  using abs_read_append[of pk g k "n - k"] assms by simp

text \<open>What a read may return: bytes of the space in their order, all of them if there is no error.\<close>

definition reads_as :: "(int \<Rightarrow> char option) \<Rightarrow> int \<Rightarrow> nat \<Rightarrow> string \<Rightarrow> goerr option \<Rightarrow> bool" where
  "reads_as pk g n bs err \<longleftrightarrow> prefix bs (abs_read pk g n) \<and> (err = None \<longrightarrow> length bs = n)"

lemma reads_as_more:
  assumes "k \<le> n" and "length (abs_read pk g k) = k" and "reads_as pk (g + int k) (n - k) bs err"
  shows "reads_as pk g n (abs_read pk g k @ bs) err"
  using assms by (auto simp: reads_as_def abs_read_split)

lemma reads_as_stop:
  assumes "k \<le> n" and "prefix bs (abs_read pk g k)"
  shows "reads_as pk g n bs (Some e)"
  using assms abs_read_prefix[OF assms(1), of pk g] by (auto simp: reads_as_def)

lemma reads_as_chunk:
  assumes "laid_out 0 files" and "entry_at files g = (Some f, a)" and "k \<le> nat a"
    and "read_chunk io fs (sen_path f) (g - sen_offset f) k = Inr (data, err)"
  shows "prefix data (abs_read (peek fs files) g k)"
    and "length data = k \<Longrightarrow> data = abs_read (peek fs files) g k"
proof -
  show p: "prefix data (abs_read (peek fs files) g k)"
    using read_chunk_prefix[OF assms(4)] peek_file_read[OF assms(1-3), of fs] by simp
  show "data = abs_read (peek fs files) g k" if "length data = k"
    using p that abs_read_length[of "peek fs files" g k] by (auto simp: prefix_def)
qed

lemma read_range_reads:
  assumes "laid_out 0 files" and "read_range io fs files n g got = (res, err)"
  shows "\<exists>bs. res = got @ bs \<and> reads_as (peek fs files) g n bs err"
  using assms
proof (induction io fs files n g got rule: read_range.induct)
  case (1 io fs files n g got)
  let ?P = "peek fs files"
  obtain r a where e: "entry_at files g = (r, a)" by (cases "entry_at files g")
  let ?k = "chunk_of n a"
  have k: "?k \<le> n" "?k \<le> nat a" by (simp_all add: chunk_of_def)
  note step = "1.prems"(2)[unfolded read_range.simps[of io fs files n] e prod.case]
  consider (zero) "n = 0" | (over) "n \<noteq> 0" "r = None" "a \<le> 0" | (gap) "n \<noteq> 0" "r = None" "\<not> a \<le> 0"
    | (file_in) f where "n \<noteq> 0" "r = Some f" by (cases r) auto
  then show ?case
  proof cases
    case gap
    have z: "replicate ?k (CHR 0x00) = abs_read ?P g ?k"
      using peek_gap_read[OF "1.prems"(1) _ k(2)] e gap(2) by simp
    then have "length (abs_read ?P g ?k) = ?k" by (metis length_replicate)
    from reads_as_more[OF k(1) this] "1.IH"(1)[OF gap(1) e[symmetric] gap(2,3) "1.prems"(1)] step gap z
    show ?thesis by fastforce
  next
    case (file_in f)
    have ef: "entry_at files g = (Some f, a)" using e file_in(2) by simp
    show ?thesis
    proof (cases "read_chunk io fs (sen_path f) (g - sen_offset f) ?k")
      case (Inl err')
      with step file_in reads_as_stop[of 0 n "[]" ?P g] show ?thesis by auto
    next
      case (Inr dr)
      obtain data er where dr: "dr = (data, er)" by (cases dr)
      note chunk = reads_as_chunk[OF "1.prems"(1) ef k(2) Inr[unfolded dr]]
      show ?thesis
      proof (cases "er = None \<and> length data = ?k")
        case True
        then have d: "data = abs_read ?P g ?k" "length (abs_read ?P g ?k) = ?k" using chunk(2) by auto
        have "read_range io fs files (n - ?k) (g + int ?k) (got @ data) = (res, err)"
          using step file_in Inr dr True by simp
        from "1.IH"(2)[OF file_in(1) e[symmetric] file_in(2) Inr dr[symmetric] _ _ "1.prems"(1) this] True
          reads_as_more[OF k(1) d(2)] d(1)
        show ?thesis by fastforce
      next
        case False
        then have "res = got @ data \<and> err \<noteq> None"
          using step file_in Inr dr by (auto split: option.splits)
        with reads_as_stop[OF k(1) chunk(1)] show ?thesis by auto
      qed
    qed
  qed (use step in \<open>auto simp: reads_as_def\<close>)
qed

section \<open>Writing\<close>

text \<open>
  The bytes at a place, where a file has that place, and what a write may leave unchanged: paths
  that are no file of the torrent, and all bytes outside a range.
\<close>

definition stored :: "fsys \<Rightarrow> store_entry list \<Rightarrow> int \<Rightarrow> string \<Rightarrow> bool" where
  "stored fs files g bs \<longleftrightarrow>
     (\<forall>i<length bs. covered files (g + int i) \<longrightarrow> peek fs files (g + int i) = Some (bs ! i))"

definition kept :: "store_entry list \<Rightarrow> int \<Rightarrow> int \<Rightarrow> fsys \<Rightarrow> fsys \<Rightarrow> bool" where
  "kept files lo hi fs fs' \<longleftrightarrow>
     fs_cwd fs' = fs_cwd fs \<and> fs_faults fs' = fs_faults fs \<and>
     (\<forall>q. q \<notin> store_key fs ` set files \<longrightarrow> fs_nodes fs' q = fs_nodes fs q) \<and>
     (\<forall>x c. x < lo \<or> hi \<le> x \<longrightarrow> peek fs files x = Some c \<longrightarrow> peek fs' files x = Some c)"

lemma kept_key: "kept files lo hi fs fs' \<Longrightarrow> store_key fs' f = store_key fs f"
  by (simp add: kept_def store_key_def fs_key_def)

lemma kept_byte:
  "kept files lo hi fs fs' \<Longrightarrow> x < lo \<or> hi \<le> x \<Longrightarrow> peek fs files x = Some c \<Longrightarrow> peek fs' files x = Some c"
  by (auto simp: kept_def)

lemma kept_refl [simp]: "kept files lo hi fs fs"
  by (simp add: kept_def)

lemma kept_ok: "kept files lo hi fs fs' \<Longrightarrow> store_ok fs' files = store_ok fs files"
  using kept_key[of files lo hi fs fs'] by (simp add: store_ok_def cong: map_cong)

lemma kept_trans:
  assumes "kept files lo mid fs fs'" and "kept files mid hi fs' fs''" and "lo \<le> mid" and "mid \<le> hi"
  shows "kept files lo hi fs fs''"
proof -
  have k: "store_key fs' ` set files = store_key fs ` set files"
    using kept_key[OF assms(1)] by (intro image_cong) auto
  have "peek fs'' files x = Some c" if x: "x < lo \<or> hi \<le> x" and p: "peek fs files x = Some c" for x c
  proof -
    have "x < lo \<or> mid \<le> x" "x < mid \<or> hi \<le> x" using x assms(3,4) by auto
    from kept_byte[OF assms(2) this(2) kept_byte[OF assms(1) this(1) p]] show ?thesis .
  qed
  moreover have "fs_nodes fs'' q = fs_nodes fs q" if "q \<notin> store_key fs ` set files" for q
    using assms(1,2) k that by (simp add: kept_def)
  ultimately show ?thesis using assms(1,2) by (simp add: kept_def)
qed

lemma stored_kept:
  assumes "stored fs files g bs" and "kept files (g + int (length bs)) hi fs fs'"
  shows "stored fs' files g bs"
  using assms by (auto simp: stored_def kept_def)

lemma stored_append:
  assumes "stored fs files g a" and "stored fs files (g + int (length a)) b"
  shows "stored fs files g (a @ b)"
  unfolding stored_def
proof (intro allI impI)
  fix i assume i: "i < length (a @ b)" and c: "covered files (g + int i)"
  show "peek fs files (g + int i) = Some ((a @ b) ! i)"
  proof (cases "i < length a")
    case True
    with assms(1) c show ?thesis by (simp add: stored_def nth_append)
  next
    case False
    then obtain k where k: "i = length a + k" by (metis le_add_diff_inverse linorder_not_less)
    then have "covered files (g + int (length a) + int k)" using c by (simp add: algebra_simps)
    moreover have "k < length b" using i k by simp
    ultimately have "peek fs files (g + int (length a) + int k) = Some (b ! k)"
      using assms(2) by (simp add: stored_def)
    with k show ?thesis by (simp add: nth_append algebra_simps)
  qed
qed

lemma stored_gap:
  assumes "laid_out 0 files" and "entry_at files g = (None, a)" and "length bs \<le> nat a"
  shows "stored fs files g bs"
proof -
  have "\<not> covered files (g + int i)" if "i < length bs" for i
    using entry_at_shift[OF assms(1) _ assms(2), of "int i"] that assms(3) by (simp add: covered_def)
  then show ?thesis by (simp add: stored_def)
qed

text \<open>What replacing the content of one file does to the space.\<close>

lemma peek_put:
  assumes "store_ok fs files" and "f \<in> set files"
  shows "peek (put_node (sen_path f) (NFile c) fs) files x =
    (case entry_at files x of
       (Some h, n) \<Rightarrow>
         if h = f then (let i = nat (x - sen_offset f) in if i < length c then Some (c ! i) else None)
         else peek fs files x
     | (None, n) \<Rightarrow> peek fs files x)"
proof -
  have same: "fs_key fs (sen_path h) \<noteq> fs_key fs (sen_path f)" if "h \<in> set files" "h \<noteq> f" for h
    using assms that by (auto simp: store_ok_def store_key_def distinct_map inj_on_def)
  have content: "file_content (put_node (sen_path f) (NFile c) fs) (sen_path h) =
      (if h = f then c else file_content fs (sen_path h))" if "h \<in> set files" for h
    using same[OF that] by (simp add: file_content_def) (auto simp: put_node_def)
  obtain r n where e: "entry_at files x = (r, n)" by (cases "entry_at files x")
  show ?thesis
  proof (cases r)
    case (Some h)
    with e have "h \<in> set files" using entry_at_Some by blast
    then show ?thesis by (simp add: peek_def e Some content)
  qed (simp add: peek_def e)
qed

lemma write_chunk_at_result:
  assumes "write_chunk_at io p off chunk fs = (Inr (count, err), fs')" and "0 \<le> off"
  shows "count \<le> length chunk \<and> (err = None \<longrightarrow> count = length chunk) \<and>
    fs' = put_node p (NFile (overwrite (nat off) (take count chunk) (file_content fs p))) fs"
proof -
  obtain fs1 where o: "os_open_write fs p = (None, fs1)"
    using assms(1) by (auto simp: write_chunk_at_def split: prod.splits option.splits)
  have "fs1 = fs \<or> fs1 = put_node p (NFile []) fs \<and> fs_nodes fs (fs_key fs p) = None"
    using o by (auto simp: os_open_write_def split: option.splits node.splits)
  then have c: "file_content fs1 p = file_content fs p" and n: "put_node p (NFile d) fs1 = put_node p (NFile d) fs" for d
    by (auto simp: file_content_def put_node_def fs_key_def)
  show ?thesis
    using assms o by (auto simp: write_chunk_at_def write_at_def c n min_def split: prod.splits option.splits)
qed

lemma write_chunk_spec:
  assumes "store_ok fs files" and "entry_at files g = (Some f, a)" and "length chunk \<le> nat a"
    and "write_chunk_at io (sen_path f) (g - sen_offset f) chunk fs = (Inr (count, err), fs')"
  shows "stored fs' files g (take count chunk)" and "kept files g (g + int count) fs fs'"
proof -
  have l: "laid_out 0 files" using assms(1) by (simp add: store_ok_def)
  have f: "f \<in> set files" and g: "sen_offset f \<le> g" using entry_at_Some[OF assms(2)] by auto
  have le: "count \<le> length chunk" and fs': "fs' = put_node (sen_path f)
      (NFile (overwrite (nat (g - sen_offset f)) (take count chunk) (file_content fs (sen_path f)))) fs"
    using write_chunk_at_result[OF assms(4)] g by auto
  let ?j = "nat (g - sen_offset f)" and ?c = "file_content fs (sen_path f)"
  let ?c' = "overwrite ?j (take count chunk) ?c"
  have len: "length ?c' = max (length ?c) (?j + count)" using le by (simp add: length_overwrite)
  show "stored fs' files g (take count chunk)"
    unfolding stored_def
  proof (intro allI impI)
    fix i assume i: "i < length (take count chunk)"
    then have "entry_at files (g + int i) = (Some f, a - int i)"
      using entry_at_shift[OF l _ assms(2), of "int i"] le assms(3) by simp
    moreover have "nat (g + int i - sen_offset f) = ?j + i" using g by arith
    moreover have "?j + i < length ?c'" using i by (simp add: len less_max_iff_disj)
    ultimately show "peek fs' files (g + int i) = Some (take count chunk ! i)"
      using i le nth_overwrite[of "?j + i" ?j "take count chunk" ?c]
      by (simp add: fs' peek_put[OF assms(1) f])
  qed
  have "peek fs' files x = Some c" if x: "x < g \<or> g + int count \<le> x" and p: "peek fs files x = Some c" for x c
  proof (cases "fst (entry_at files x) = Some f")
    case True
    then obtain n where e: "entry_at files x = (Some f, n)" by (cases "entry_at files x") auto
    let ?i = "nat (x - sen_offset f)"
    have i: "?i < length ?c" "c = ?c ! ?i" using p e by (auto simp: peek_def Let_def split: if_splits)
    have "\<not> (?j \<le> ?i \<and> ?i < ?j + length (take count chunk))"
      using x g entry_at_Some[OF e] le by auto
    moreover have b: "?i < length ?c'" using i(1) by (simp only: len less_max_iff_disj simp_thms)
    ultimately have "?c' ! ?i = c" using nth_overwrite[OF b] i by (simp only: if_False if_True simp_thms)
    with b e show ?thesis by (simp add: fs' peek_put[OF assms(1) f])
  next
    case False
    then show ?thesis
      using p by (auto simp: fs' peek_put[OF assms(1) f] split: prod.splits option.splits)
  qed
  then show "kept files g (g + int count) fs fs'"
    using f by (auto simp: kept_def fs' put_node_def store_key_def)
qed

text \<open>What a write that reports \<open>n\<close> bytes has done, if any of its calls fails or none.\<close>

definition writes_as ::
  "store_entry list \<Rightarrow> int \<Rightarrow> string \<Rightarrow> nat \<Rightarrow> goerr option \<Rightarrow> fsys \<Rightarrow> fsys \<Rightarrow> bool" where
  "writes_as files g buffer n err fs fs' \<longleftrightarrow>
     n \<le> length buffer \<and> (err = None \<longrightarrow> n = length buffer) \<and>
     stored fs' files g (take n buffer) \<and> kept files g (g + int n) fs fs'"

lemma writes_as_none: "writes_as files g buffer 0 (Some e) fs fs" "writes_as files g [] 0 err fs fs"
  by (simp_all add: writes_as_def stored_def)

lemma writes_as_more:
  assumes "k \<le> length buffer" and "writes_as files g (take k buffer) k None fs fs1"
    and "writes_as files (g + int k) (drop k buffer) n err fs1 fs'"
  shows "writes_as files g buffer (k + n) err fs fs'"
proof -
  have len: "length (take k buffer) = k" using assms(1) by simp
  have st: "stored fs1 files g (take k buffer)" and ke: "kept files g (g + int k) fs fs1"
    and st': "stored fs' files (g + int k) (take n (drop k buffer))"
    and ke': "kept files (g + int k) (g + int k + int n) fs1 fs'"
    using assms by (simp_all add: writes_as_def)
  have "stored fs' files g (take k buffer)" using stored_kept[OF st] ke' len by simp
  then have "stored fs' files g (take (k + n) buffer)"
    using stored_append[of fs' files g "take k buffer" "take n (drop k buffer)"] st' len
    by (simp add: take_add)
  moreover have "kept files g (g + int (k + n)) fs fs'"
    using kept_trans[OF ke ke'] by (simp add: algebra_simps)
  ultimately show ?thesis using assms by (auto simp: writes_as_def)
qed

lemma writes_as_chunk:
  assumes "store_ok fs files" and "entry_at files g = (Some f, a)" and "k \<le> length buffer" "k \<le> nat a"
    and "write_chunk_at io (sen_path f) (g - sen_offset f) (take k buffer) fs = (Inr (n, err), fs')"
  shows "n \<le> k" and "err = None \<Longrightarrow> n = k" and "writes_as files g (take k buffer) n err fs fs'"
    and "writes_as files g buffer n (Some e) fs fs'"
proof -
  have "0 \<le> g - sen_offset f" using entry_at_Some[OF assms(2)] by simp
  from write_chunk_at_result[OF assms(5) this] assms(3)
  show n: "n \<le> k" "err = None \<Longrightarrow> n = k" by auto
  have "length (take k buffer) \<le> nat a" using assms(4) by simp
  from write_chunk_spec[OF assms(1,2) this assms(5)] n assms(3)
  show "writes_as files g (take k buffer) n err fs fs'" "writes_as files g buffer n (Some e) fs fs'"
    by (auto simp: writes_as_def min_absorb1)
qed

lemma write_chunk_not_open: "write_chunk_at io p off chunk fs = (Inl e, fs') \<Longrightarrow> fs' = fs"
  by (auto simp: write_chunk_at_def split: prod.splits option.splits dest: open_write_error)

lemma write_range_writes:
  assumes "store_ok fs files" and "write_range io files g buffer w fs = ((m, err), fs')"
  shows "\<exists>n. m = w + n \<and> writes_as files g buffer n err fs fs'"
  using assms
proof (induction io files g buffer w fs rule: write_range.induct)
  case (1 io files g buffer w fs)
  obtain r a where e: "entry_at files g = (r, a)" by (cases "entry_at files g")
  let ?k = "chunk_of (length buffer) a"
  have k: "?k \<le> length buffer" "?k \<le> nat a" by (simp_all add: chunk_of_def)
  note step = "1.prems"(2)[unfolded write_range.simps[of io files g buffer] e prod.case Let_def]
  note more = writes_as_more[OF k(1)]
  consider (zero) "buffer = []" | (over) "buffer \<noteq> []" "r = None" "a \<le> 0"
    | (gap) "buffer \<noteq> []" "r = None" "\<not> a \<le> 0" | (file_in) f where "buffer \<noteq> []" "r = Some f"
    by (cases r) auto
  then show ?case
  proof cases
    case gap
    have "writes_as files g (take ?k buffer) ?k None fs fs"
      using stored_gap[of files g a "take ?k buffer" fs] "1.prems"(1) e gap(2) k
      by (simp add: writes_as_def store_ok_def)
    with more "1.IH"(1)[OF gap(1) e[symmetric] gap(2,3) refl "1.prems"(1)] step gap show ?thesis
      by fastforce
  next
    case (file_in f)
    have ef: "entry_at files g = (Some f, a)" using e file_in(2) by simp
    obtain res fs1 where
      p: "write_chunk_at io (sen_path f) (g - sen_offset f) (take ?k buffer) fs = (res, fs1)"
      by (cases "write_chunk_at io (sen_path f) (g - sen_offset f) (take ?k buffer) fs")
    show ?thesis
    proof (cases res)
      case (Inl x)
      with write_chunk_not_open p step file_in writes_as_none(1) show ?thesis by fastforce
    next
      case (Inr ce)
      obtain n er where ce: "ce = (n, er)" by (cases ce)
      note w = writes_as_chunk[OF "1.prems"(1) ef k p[unfolded Inr ce]]
      show ?thesis
      proof (cases er)
        case None
        then have n: "n = ?k" by (rule w(2))
        have "store_ok fs1 files" using w(3) kept_ok "1.prems"(1) by (auto simp: writes_as_def)
        from "1.IH"(2)[OF file_in(1) e[symmetric] file_in(2) refl p[symmetric] Inr ce[symmetric] None _ this]
          more w(3) step file_in p Inr ce None n
        show ?thesis by fastforce
      qed (use step file_in p Inr ce w(4) in auto)
    qed
  qed (use step writes_as_none in auto)
qed

end
