(* ===== verification/BtStorageClaims.thy ===== *)
theory BtStorageClaims
  imports BtStorageProps
begin

text \<open>
  The storage of a torrent as the torrent library uses it: pieces are written in any order, some
  writes fail half-way, and what was reported as written is there; and a piece whose completion is
  reported can be read.
\<close>

section \<open>Spaces of bytes that are written in pieces\<close>

text \<open>
  The contract of a store: a write reports how many of its bytes it put, these are there, and no
  other byte that was there is lost. A piece of data may be written in any order, again, and by
  writes that fail.
\<close>

primrec run_writes :: "('w \<Rightarrow> 's \<Rightarrow> (nat \<times> goerr option) \<times> 's) \<Rightarrow> 'w list \<Rightarrow> 's \<Rightarrow> nat list \<times> 's" where
  "run_writes put [] s = ([], s)"
| "run_writes put (w # ws) s =
     (case put w s of ((n, _), s) \<Rightarrow> case run_writes put ws s of (ns, s) \<Rightarrow> (n # ns, s))"

text \<open>The places that the writes reported.\<close>

definition reported :: "('w \<Rightarrow> int) \<Rightarrow> 'w list \<Rightarrow> nat list \<Rightarrow> int \<Rightarrow> bool" where
  "reported off ws ns x \<longleftrightarrow> list_ex (\<lambda>(w, n). off w \<le> x \<and> x < off w + int n) (zip ws ns)"

lemma int_offset: "a \<le> x \<Longrightarrow> x < a + int n \<Longrightarrow> \<exists>i<n. x = a + int i"
  by (rule exI[of _ "nat (x - a)"]) auto

locale byte_space =
  fixes ok :: "'s \<Rightarrow> bool" and byte_at :: "'s \<Rightarrow> int \<Rightarrow> char option" and holds :: "int \<Rightarrow> bool"
    and put :: "'w \<Rightarrow> 's \<Rightarrow> (nat \<times> goerr option) \<times> 's"
    and off :: "'w \<Rightarrow> int" and buf :: "'w \<Rightarrow> string"
  assumes put_ok: "ok s \<Longrightarrow> put w s = ((n, e), s') \<Longrightarrow> ok s'"
    and put_new: "ok s \<Longrightarrow> put w s = ((n, e), s') \<Longrightarrow> i < n \<Longrightarrow> holds (off w + int i) \<Longrightarrow>
      byte_at s' (off w + int i) = Some (buf w ! i)"
    and put_old: "ok s \<Longrightarrow> put w s = ((n, e), s') \<Longrightarrow> x < off w \<or> off w + int n \<le> x \<Longrightarrow>
      byte_at s x = Some c \<Longrightarrow> byte_at s' x = Some c"
    and put_le: "ok s \<Longrightarrow> put w s = ((n, e), s') \<Longrightarrow> n \<le> length (buf w)"
begin

lemma writes_ok: "ok s \<Longrightarrow> run_writes put ws s = (ns, s') \<Longrightarrow> ok s'"
  by (induction ws arbitrary: s ns) (auto split: prod.splits dest: put_ok)

text \<open>A byte that has its final value keeps it when all writes write that value.\<close>

lemma write_agrees:
  assumes "ok s" and "put w s = ((n, e), s')" and "byte_at s x = Some (R x)"
    and "\<And>i. i < length (buf w) \<Longrightarrow> buf w ! i = R (off w + int i)" and "holds x"
  shows "byte_at s' x = Some (R x)"
proof (cases "off w \<le> x \<and> x < off w + int n")
  case True
  then obtain i where i: "x = off w + int i" "i < n" using int_offset by blast
  with put_new[OF assms(1,2) i(2)] put_le[OF assms(1,2)] assms(4)[of i] assms(5) show ?thesis by simp
next
  case False
  with put_old[OF assms(1,2) _ assms(3)] show ?thesis by linarith
qed

lemma writes_agree:
  assumes "ok s" and "run_writes put ws s = (ns, s')" and "byte_at s x = Some (R x)"
    and "\<And>w i. w \<in> set ws \<Longrightarrow> i < length (buf w) \<Longrightarrow> buf w ! i = R (off w + int i)" and "holds x"
  shows "byte_at s' x = Some (R x)"
  using assms
proof (induction ws arbitrary: s ns)
  case (Cons w ws)
  obtain n e s1 ns' where p: "put w s = ((n, e), s1)" "run_writes put ws s1 = (ns', s')"
    using Cons.prems(2) by (auto split: prod.splits)
  have "byte_at s1 x = Some (R x)"
    using write_agrees[where R = R, OF Cons.prems(1) p(1) Cons.prems(3)] Cons.prems(4,5) by simp
  from Cons.IH[OF put_ok[OF Cons.prems(1) p(1)] p(2) this] Cons.prems(4,5) show ?case by simp
qed simp

lemma writes_reported:
  assumes "ok s" and "run_writes put ws s = (ns, s')" and "reported off ws ns x"
    and "\<And>w i. w \<in> set ws \<Longrightarrow> i < length (buf w) \<Longrightarrow> buf w ! i = R (off w + int i)" and "holds x"
  shows "byte_at s' x = Some (R x)"
  using assms
proof (induction ws arbitrary: s ns)
  case (Cons w ws)
  obtain n e s1 ns' where p: "put w s = ((n, e), s1)" "run_writes put ws s1 = (ns', s')" "ns = n # ns'"
    using Cons.prems(2) by (auto split: prod.splits)
  note ok1 = put_ok[OF Cons.prems(1) p(1)]
  show ?case
  proof (cases "reported off ws ns' x")
    case True
    from Cons.IH[OF ok1 p(2) True] Cons.prems show ?thesis by simp
  next
    case False
    then have "off w \<le> x" "x < off w + int n" using Cons.prems(3) p(3) by (auto simp: reported_def)
    then obtain i where i: "x = off w + int i" "i < n" using int_offset by blast
    with put_new[OF Cons.prems(1) p(1) i(2)] put_le[OF Cons.prems(1) p(1)] Cons.prems(4)[of w i] Cons.prems(5)
    have "byte_at s1 x = Some (R x)" by simp
    from writes_agree[where R = R, OF ok1 p(2) this] Cons.prems(4,5) show ?thesis by simp
  qed
qed (simp add: reported_def)

end

section \<open>The pieces of a torrent\<close>

record piece_op =
  pop_io :: io_faults
  pop_piece :: piece
  pop_offset :: int
  pop_buffer :: string

definition write_piece :: "torrent_store \<Rightarrow> piece_op \<Rightarrow> fsys \<Rightarrow> (nat \<times> goerr option) \<times> fsys" where
  "write_piece ts w fs = piece_write (pop_io w) ts (pop_piece w) (pop_buffer w) (pop_offset w) fs"

definition op_offset :: "piece_op \<Rightarrow> int" where
  "op_offset w = pie_offset (pop_piece w) + pop_offset w"

lemma write_piece_writes:
  assumes "store_ok fs (tst_files ts)" and "write_piece ts w fs = ((n, e), fs')"
  shows "writes_as (tst_files ts) (op_offset w) (pop_buffer w) n e fs fs'"
  using assms writes_as_none(1) write_range_writes[OF assms(1)]
  by (fastforce simp: write_piece_def piece_write_def op_offset_def split: if_splits)

interpretation pieces: byte_space "\<lambda>fs. store_ok fs (tst_files ts)" "\<lambda>fs. peek fs (tst_files ts)"
  "covered (tst_files ts)" "write_piece ts" op_offset pop_buffer for ts
proof unfold_locales
  fix fs fs' w n e
  assume "store_ok fs (tst_files ts)" and "write_piece ts w fs = ((n, e), fs')"
  note w = write_piece_writes[OF this, unfolded writes_as_def]
  show "store_ok fs' (tst_files ts)" using w kept_ok \<open>store_ok fs (tst_files ts)\<close> by blast
  show "n \<le> length (pop_buffer w)" using w by simp
  show "peek fs' (tst_files ts) (op_offset w + int i) = Some (pop_buffer w ! i)"
    if "i < n" "covered (tst_files ts) (op_offset w + int i)" for i
    using w that by (auto simp: stored_def)
  show "peek fs' (tst_files ts) x = Some c"
    if "x < op_offset w \<or> op_offset w + int n \<le> x" "peek fs (tst_files ts) x = Some c" for x c
    using w kept_byte that by blast
qed

section \<open>Reading a piece\<close>

definition openable :: "fsys \<Rightarrow> store_entry list \<Rightarrow> bool" where
  "openable fs files \<longleftrightarrow> list_all (\<lambda>f. fs_faults fs (store_key fs f) = None) files"

lemma read_chunk_present:
  assumes "openable fs files" and "f \<in> set files" and "nat off < length (file_content fs (sen_path f))"
  shows "read_chunk no_io_faults fs (sen_path f) off n =
    Inr (take n (drop (nat off) (file_content fs (sen_path f))), None)"
proof -
  obtain c where "fs_nodes fs (fs_key fs (sen_path f)) = Some (NFile c)"
    using assms(3) by (auto simp: file_content_def split: option.splits node.splits)
  moreover have "fs_faults fs (fs_key fs (sen_path f)) = None"
    using assms(1,2) by (simp add: openable_def store_key_def list_all_iff)
  ultimately show ?thesis
    by (simp add: read_chunk_def file_content_def os_stat_def os_lstat_def no_io_faults_def)
qed

lemma read_range_full:
  assumes "laid_out 0 files" and "openable fs files" and "length (abs_read (peek fs files) g n) = n"
  shows "read_range no_io_faults fs files n g got = (got @ abs_read (peek fs files) g n, None)"
  using assms
proof (induction no_io_faults fs files n g got rule: read_range.induct)
  case (1 fs files n g got)
  let ?P = "peek fs files"
  obtain r a where e: "entry_at files g = (r, a)" by (cases "entry_at files g")
  let ?k = "chunk_of n a"
  show ?case
  proof (cases "n = 0")
    case False
    have full: "\<forall>i<n. ?P (g + int i) \<noteq> None" using "1.prems"(3) abs_read_full by blast
    from this[rule_format, of 0] False have pg: "?P g \<noteq> None" by simp
    have a: "0 < a"
    proof (cases r)
      case None
      with pg e show ?thesis by (simp add: peek_def split: if_splits)
    qed (use e entry_at_available(1)[of files g] in simp)
    have k: "?k \<le> n" "?k \<le> nat a" by (simp_all add: chunk_of_def)
    have len: "length (abs_read ?P g ?k) = ?k"
      using full k(1) abs_read_full[of ?P g ?k] by simp
    note split = abs_read_split[OF k(1) len]
    have rest: "length (abs_read ?P (g + int ?k) (n - ?k)) = n - ?k"
      using "1.prems"(3) len k(1) by (simp add: split)
    show ?thesis
    proof (cases r)
      case None
      have z: "replicate ?k (CHR 0x00) = abs_read ?P g ?k"
        using peek_gap_read[OF "1.prems"(1) _ k(2)] e None by simp
      have "\<not> a \<le> 0" using a by simp
      from "1.hyps"(1)[OF False e[symmetric] None this "1.prems"(1,2) rest] False e None a
      show ?thesis by (simp add: read_range.simps[of _ fs files n] z split)
    next
      case (Some f)
      have ef: "entry_at files g = (Some f, a)" using e Some by simp
      let ?d = "take ?k (drop (nat (g - sen_offset f)) (file_content fs (sen_path f)))"
      have d: "?d = abs_read ?P g ?k" using peek_file_read[OF "1.prems"(1) ef k(2), of fs] by simp
      have inside: "nat (g - sen_offset f) < length (file_content fs (sen_path f))"
        using pg by (simp add: peek_def ef Let_def split: if_splits)
      have "f \<in> set files" using entry_at_Some[OF ef] by simp
      from read_chunk_present[OF "1.prems"(2) this inside, of ?k] d
      have rd: "read_chunk no_io_faults fs (sen_path f) (g - sen_offset f) ?k = Inr (abs_read ?P g ?k, None)"
        by simp
      from "1.hyps"(2)[OF False e[symmetric] Some rd refl refl _ "1.prems"(1,2) rest] False e Some rd len
      show ?thesis by (simp add: read_range.simps[of _ fs files n] split)
    qed
  qed (simp add: read_range.simps)
qed

text \<open>A slice of the torrent's data.\<close>

definition slice :: "(int \<Rightarrow> char) \<Rightarrow> int \<Rightarrow> nat \<Rightarrow> string" where
  "slice R g n = map (\<lambda>i. R (g + int i)) [0..<n]"

lemma piece_read_full:
  assumes "laid_out 0 (tst_files ts)" and "openable fs (tst_files ts)"
    and "\<And>x. pie_offset p + offset \<le> x \<Longrightarrow> x < pie_offset p + offset + int n \<Longrightarrow>
      peek fs (tst_files ts) x \<noteq> None"
    and "0 \<le> offset" and "0 < n" and "offset + int n \<le> pie_length p"
  shows "piece_read no_io_faults fs ts p n offset =
    (abs_read (peek fs (tst_files ts)) (pie_offset p + offset) n, None)"
proof -
  let ?g = "pie_offset p + offset"
  have "\<forall>i<n. peek fs (tst_files ts) (?g + int i) \<noteq> None" using assms(3) by auto
  then have len: "length (abs_read (peek fs (tst_files ts)) ?g n) = n" using abs_read_full by blast
  have "chunk_of n (pie_length p - offset) = n" using assms(4-6) by (simp add: chunk_of_def)
  with read_range_full[OF assms(1,2) len, of "[]"] len assms(4-6) show ?thesis
    by (simp add: piece_read_def)
qed

lemma writes_openable:
  assumes "store_ok fs (tst_files ts)" and "run_writes (write_piece ts) ws fs = (ns, fs')"
  shows "openable fs' (tst_files ts) = openable fs (tst_files ts)"
  using assms
proof (induction ws arbitrary: fs ns)
  case (Cons w ws)
  obtain n e fs1 ns' where p: "write_piece ts w fs = ((n, e), fs1)" "run_writes (write_piece ts) ws fs1 = (ns', fs')"
    using Cons.prems(2) by (auto split: prod.splits)
  have k: "kept (tst_files ts) (op_offset w) (op_offset w + int n) fs fs1"
    using write_piece_writes[OF Cons.prems(1) p(1)] by (simp add: writes_as_def)
  have "fs_faults fs1 = fs_faults fs" using k by (simp add: kept_def)
  then have "openable fs1 (tst_files ts) = openable fs (tst_files ts)"
    by (simp add: openable_def kept_key[OF k])
  moreover have "store_ok fs1 (tst_files ts)" using kept_ok[OF k] Cons.prems(1) by simp
  ultimately show ?case using Cons.IH[OF _ p(2)] by simp
qed simp


text \<open>A piece that is reported complete has passed the check of its files.\<close>

lemma completion_checks:
  assumes "piece_completion ops fs ts p db = (c, db')"
    and "cmp_complete c" and "cmp_ok c" and "cmp_err c = None"
  shows "check_extent fs (tst_files ts) (pie_offset p) (extent_end p) = None"
  using assms by (auto simp: piece_completion_def Let_def split: prod.splits option.splits if_splits)

lemma check_extent_file:
  "check_extent fs files lo hi = None \<Longrightarrow> f \<in> set files \<Longrightarrow> lo \<le> x \<Longrightarrow> x < hi \<Longrightarrow>
   sen_offset f \<le> x \<Longrightarrow> x < entry_end f \<Longrightarrow> nat (x - sen_offset f) < length (file_content fs (sen_path f))"
proof (induction fs files lo hi rule: check_extent.induct)
  case (2 fs h files lo hi)
  show ?case
  proof (cases "f = h")
    case True
    with 2 obtain c where "os_stat fs (sen_path h) = Inr (NFile c)"
      "\<not> int (length c) < min hi (entry_end h) - sen_offset h"
      by (auto simp: Let_def split: sum.splits node.splits if_splits)
    with 2 True show ?thesis
      by (auto simp: os_stat_def os_lstat_def file_content_def split: sum.splits node.splits option.splits)
  next
    case False
    with 2 show ?thesis by (auto simp: Let_def split: sum.splits node.splits if_splits)
  qed
qed simp

lemma check_extent_peek:
  assumes "check_extent fs files lo hi = None" and "lo \<le> x" and "x < hi" and "snd (entry_at files x) > 0"
  shows "peek fs files x \<noteq> None"
proof (cases "fst (entry_at files x)")
  case None
  with assms(4) show ?thesis by (cases "entry_at files x") (simp add: peek_def)
next
  case (Some f)
  then obtain n where e: "entry_at files x = (Some f, n)" by (cases "entry_at files x") simp
  have "nat (x - sen_offset f) < length (file_content fs (sen_path f))"
    using check_extent_file[OF assms(1) _ assms(2,3)] entry_at_Some[OF e] by simp
  then show ?thesis by (simp add: peek_def e)
qed

text \<open>A torrent of two files, whose first piece lies in both; of its writes the first one fails.\<close>

definition sample_store :: torrent_store where
  "sample_store = \<lparr>tst_hash = ''h'', tst_files =
     [\<lparr>sen_path = ''C:'' @ [backslash] @ ''a'', sen_offset = 0, sen_length = 3\<rparr>,
      \<lparr>sen_path = ''C:'' @ [backslash] @ ''b'', sen_offset = 3, sen_length = 2\<rparr>]\<rparr>"

definition sample_piece :: piece where
  "sample_piece = \<lparr>pie_index = 0, pie_offset = 0, pie_length = 4\<rparr>"

definition sample_fs :: fsys where
  "sample_fs = \<lparr>fs_nodes = (\<lambda>_. None), fs_cwd = ''C:'' @ [backslash], fs_faults = (\<lambda>_. None)\<rparr>"

definition sample_ops :: "piece_op list" where
  "sample_ops =
     [\<lparr>pop_io = no_io_faults\<lparr>iof_write := (\<lambda>_ _. Some (short_write, 1))\<rparr>, pop_piece = sample_piece,
       pop_offset = 2, pop_buffer = ''LL''\<rparr>,
      \<lparr>pop_io = no_io_faults, pop_piece = sample_piece, pop_offset = 2, pop_buffer = ''LL''\<rparr>,
      \<lparr>pop_io = no_io_faults, pop_piece = sample_piece, pop_offset = 0, pop_buffer = ''HE''\<rparr>]"

definition sample_data :: "int \<Rightarrow> char" where
  "sample_data x = (if 0 \<le> x \<and> x < 5 then ''HELLO'' ! nat x else CHR 0x00)"

lemma sample_store_ok: "store_ok sample_fs (tst_files sample_store)"
  "openable sample_fs (tst_files sample_store)"
  by code_simp+

lemma sample_reported: "fst (run_writes (write_piece sample_store) sample_ops sample_fs) = [1, 2, 2]"
  by code_simp

text \<open>
  C16: Pieces of a torrent are stored in the torrent's files and read back. Whatever the order in
  which the torrent library writes blocks of the data, whichever of the writes, opens and closes
  fail half-way, and in whatever files a block lies: once the places of a range were reported as
  written, reading that range of a piece returns the data.
\<close>

theorem pieces_read_back:
  assumes "store_ok fs (tst_files ts)" and "openable fs (tst_files ts)"
    and "run_writes (write_piece ts) ws fs = (ns, fs')"
    and "\<And>w. w \<in> set ws \<Longrightarrow> pop_buffer w = slice R (op_offset w) (length (pop_buffer w))"
    and "0 \<le> offset" and "0 < n" and "offset + int n \<le> pie_length p"
    and "\<And>i. i < n \<Longrightarrow> covered (tst_files ts) (pie_offset p + offset + int i) \<and>
      reported op_offset ws ns (pie_offset p + offset + int i)"
  shows "piece_read no_io_faults fs' ts p n offset = (slice R (pie_offset p + offset) n, None)"
proof -
  let ?g = "pie_offset p + offset" and ?P = "peek fs' (tst_files ts)"
  have data: "pop_buffer w ! i = R (op_offset w + int i)" if "w \<in> set ws" "i < length (pop_buffer w)" for w i
    by (subst assms(4)[OF that(1)]) (use that in \<open>simp add: slice_def\<close>)
  have byte: "?P (?g + int i) = Some (R (?g + int i))" if "i < n" for i
    using pieces.writes_reported[OF assms(1,3) _ data] assms(8)[OF that] by blast
  have ok: "store_ok fs' (tst_files ts)" by (rule pieces.writes_ok[OF assms(1,3)])
  have op: "openable fs' (tst_files ts)" using writes_openable[OF assms(1,3)] assms(2) by simp
  have "piece_read no_io_faults fs' ts p n offset = (abs_read ?P ?g n, None)"
  proof (rule piece_read_full[OF _ op _ assms(5-7)])
    show "laid_out 0 (tst_files ts)" using ok by (simp add: store_ok_def)
    show "?P x \<noteq> None" if "?g \<le> x" "x < ?g + int n" for x
      using int_offset[OF that] byte by auto
  qed
  moreover have "abs_read ?P ?g n = slice R ?g n"
    by (rule abs_readI) (use byte in \<open>auto simp: slice_def\<close>)
  ultimately show ?thesis by simp
qed

lemma pieces_read_back_witness:
  "piece_read no_io_faults (snd (run_writes (write_piece sample_store) sample_ops sample_fs))
     sample_store sample_piece 4 0 = (''HELL'', None)"
proof -
  have r: "run_writes (write_piece sample_store) sample_ops sample_fs =
      ([1, 2, 2], snd (run_writes (write_piece sample_store) sample_ops sample_fs))"
    using sample_reported by (metis prod.collapse)
  have d: "list_all (\<lambda>w. pop_buffer w = slice sample_data (op_offset w) (length (pop_buffer w))) sample_ops"
    by code_simp
  have c: "list_all (\<lambda>i. covered (tst_files sample_store) (pie_offset sample_piece + 0 + int i) \<and>
      reported op_offset sample_ops [1, 2, 2] (pie_offset sample_piece + 0 + int i)) [0..<4]"
    by code_simp
  have "piece_read no_io_faults (snd (run_writes (write_piece sample_store) sample_ops sample_fs))
      sample_store sample_piece 4 0 = (slice sample_data (pie_offset sample_piece + 0) 4, None)"
    by (rule pieces_read_back[OF sample_store_ok r])
      (use d c in \<open>auto simp: list_all_iff sample_piece_def\<close>)
  moreover have "slice sample_data (pie_offset sample_piece + 0) 4 = ''HELL''" by code_simp
  ultimately show ?thesis by simp
qed

text \<open>
  C17: A piece whose completion is reported can be read. When \<open>Completion\<close> answers that a piece is
  complete, every file of the piece is there and long enough, so a read of the whole piece returns
  all of its bytes; a file that was removed or cut since the piece was marked is noticed.
\<close>

theorem complete_piece_readable:
  assumes "laid_out 0 (tst_files ts)" and "openable fs (tst_files ts)"
    and "piece_completion ops fs ts p db = (c, db')"
    and "cmp_complete c" and "cmp_ok c" and "cmp_err c = None"
    and "0 \<le> pie_offset p" and "0 < pie_length p" and "pie_offset p + pie_length p \<le> max_int64"
    and "\<And>x. pie_offset p \<le> x \<Longrightarrow> x < pie_offset p + pie_length p \<Longrightarrow> snd (entry_at (tst_files ts) x) > 0"
  shows "\<exists>data. piece_read no_io_faults fs ts p (nat (pie_length p)) 0 = (data, None) \<and>
    int (length data) = pie_length p"
proof -
  let ?P = "peek fs (tst_files ts)" and ?n = "nat (pie_length p)"
  have "check_extent fs (tst_files ts) (pie_offset p) (pie_offset p + pie_length p) = None"
    using completion_checks[OF assms(3-6)] assms(7-9)
    by (simp add: extent_end_def wrap64_id int64_def min_int64_def)
  then have here: "?P x \<noteq> None" if "pie_offset p \<le> x" "x < pie_offset p + pie_length p" for x
    using check_extent_peek[of fs "tst_files ts"] that assms(10)[OF that] by blast
  have r: "piece_read no_io_faults fs ts p ?n 0 = (abs_read ?P (pie_offset p + 0) ?n, None)"
    by (rule piece_read_full[OF assms(1,2)]) (use here assms(7,8) in auto)
  moreover have "length (abs_read ?P (pie_offset p + 0) ?n) = ?n"
    using abs_read_full[of ?P "pie_offset p" ?n] here by simp
  ultimately show ?thesis using assms(8) by auto
qed

text \<open>A database in which every piece is marked, and a file tree that holds both files.\<close>

definition marked_db :: "unit piece_db" where
  "marked_db = \<lparr>pdb_get = (\<lambda>_ _. (\<lparr>cmp_complete = True, cmp_ok = True, cmp_err = None\<rparr>, None)),
     pdb_set = (\<lambda>_ _ db. (None, db))\<rparr>"

definition full_fs :: fsys where
  "full_fs = sample_fs\<lparr>fs_nodes := (\<lambda>q. if q = ''C:'' @ [backslash] @ ''a'' then Some (NFile ''HEL'')
     else if q = ''C:'' @ [backslash] @ ''b'' then Some (NFile ''LO'') else None)\<rparr>"

lemma complete_piece_readable_witness:
  "\<exists>data. piece_read no_io_faults full_fs sample_store sample_piece (nat (pie_length sample_piece)) 0 =
      (data, None) \<and> int (length data) = pie_length sample_piece"
proof -
  have l: "laid_out 0 (tst_files sample_store)" using sample_store_ok by (simp add: store_ok_def)
  have o: "openable full_fs (tst_files sample_store)" by code_simp
  have c: "piece_completion marked_db full_fs sample_store sample_piece () =
      (\<lparr>cmp_complete = True, cmp_ok = True, cmp_err = None\<rparr>, ())" by code_simp
  have n: "0 \<le> pie_offset sample_piece" "0 < pie_length sample_piece"
    "pie_offset sample_piece + pie_length sample_piece \<le> max_int64" by code_simp+
  have "list_all (\<lambda>x. snd (entry_at (tst_files sample_store) x) > 0) [0, 1, 2, 3]" by code_simp
  moreover have "x \<in> {0, 1, 2, 3}" if "pie_offset sample_piece \<le> x"
      "x < pie_offset sample_piece + pie_length sample_piece" for x
    using that by (auto simp: sample_piece_def)
  ultimately have "snd (entry_at (tst_files sample_store) x) > 0" if "pie_offset sample_piece \<le> x"
      "x < pie_offset sample_piece + pie_length sample_piece" for x
    using that by fastforce
  from complete_piece_readable[OF l o c _ _ _ n this] show ?thesis by simp
qed

end
