(* ===== verification/BtPaths.thy ===== *)
theory BtPaths
  imports BtStorageClaims TaskFilesProps
begin

text \<open>
  The paths of a torrent's files: whatever names a torrent has, its files lie strictly below the
  task's directory and apart from each other, so the storage that is opened on them is one address
  space.
\<close>

section \<open>Relative paths\<close>

definition plain_rel :: "string \<Rightarrow> bool" where
  "plain_rel s \<longleftrightarrow> s \<noteq> [] \<and> volume_len s = 0 \<and> \<not> fp_rooted s"

definition rel_elems :: "string list \<Rightarrow> bool" where
  "rel_elems cs \<longleftrightarrow> cleaned False cs \<and> (\<forall>c\<in>set cs. slash \<notin> set c \<and> backslash \<notin> set c)"

lemma plain_rel_iff:
  "plain_rel s \<longleftrightarrow> (case s of [] \<Rightarrow> False | [a] \<Rightarrow> \<not> is_sep a | a # b # _ \<Rightarrow> \<not> is_sep a \<and> b \<noteq> CHR '':'')"
  by (auto simp: plain_rel_def volume_len_def fp_rooted_def after_volume_def split: list.splits)

lemma plain_rel_append: "plain_rel s \<Longrightarrow> plain_rel (s @ backslash # y)"
  by (auto simp: plain_rel_iff backslash_def split: list.splits)

lemma plain_rel_elems:
  assumes "plain_rel s"
  shows "rel_elems (fp_elems s)" and "fp_clean s = fp_text [] False (fp_elems s)"
proof -
  have v: "volume_len s = 0" "\<not> fp_rooted s" "s \<noteq> []" using assms by (auto simp: plain_rel_def)
  have "slash \<notin> set c" if "c \<in> set (fp_elems s)" for c
    using that set_clean_elems split_on_subset from_slash_no_slash unfolding fp_elems_def by blast
  then show "rel_elems (fp_elems s)"
    using fp_elems_cleaned[of s] fp_elems_no_sep[of _ s] v by (simp add: rel_elems_def)
  show "fp_clean s = fp_text [] False (fp_elems s)"
    using v by (simp add: fp_clean_def after_volume_def volume_name_def from_slash_def replace_char_def)
qed

lemma rel_elem_chars:
  assumes "rel_elems cs" and "c \<in> set cs"
  shows "c \<noteq> [] \<and> slash \<notin> set c \<and> backslash \<notin> set c"
  using assms cleaned_elem[of False cs c] by (auto simp: rel_elems_def)

lemma rel_text_split:
  assumes "rel_elems cs" and "cs \<noteq> []"
  shows "split_on backslash (from_slash (fp_text [] False cs)) =
    (if CHR '':'' \<in> set (hd cs) then [''.''] else []) @ cs"
proof -
  have ns: "slash \<notin> set (join_with [backslash] cs)"
    using set_join_with[of "[backslash]" cs] rel_elem_chars[OF assms(1)] by fastforce
  have "split_on backslash (join_with [backslash] cs) = cs"
    by (rule split_join) (use assms rel_elem_chars[OF assms(1)] in auto)
  moreover have "split_on backslash (CHR ''.'' # backslash # x) = ''.'' # split_on backslash x" for x
    using split_on_append[of backslash "''.''" x] by (simp add: backslash_def)
  moreover have "from_slash (CHR ''.'' # backslash # x) = CHR ''.'' # backslash # from_slash x" for x
    by (simp add: from_slash_def replace_char_def slash_def)
  ultimately show ?thesis using assms(2) ns by (simp add: fp_text_def from_slash_id)
qed

lemma rel_text_plain:
  assumes "rel_elems cs"
  shows "plain_rel (fp_text [] False cs)"
proof (cases "cs = []")
  case True
  then show ?thesis by (simp add: fp_text_def plain_rel_iff is_sep_def slash_def backslash_def)
next
  case False
  then obtain c rest where cs: "cs = c # rest" by (cases cs) auto
  then obtain a x where c: "c = a # x" using rel_elem_chars[OF assms, of c] by (cases c) auto
  have a: "\<not> is_sep a" using rel_elem_chars[OF assms, of c] cs c by (auto simp: is_sep_def)
  show ?thesis
  proof (cases "CHR '':'' \<in> set c")
    case True
    then show ?thesis
      by (simp add: fp_text_def cs plain_rel_iff is_sep_def slash_def backslash_def)
  next
    case nc: False
    have j: "join_with [backslash] cs = c @ (if rest = [] then [] else backslash # join_with [backslash] rest)"
      by (cases rest) (simp_all add: cs)
    then show ?thesis
      using a nc by (cases x) (auto simp: fp_text_def cs c plain_rel_iff backslash_def)
  qed
qed

lemma rel_text_elems:
  assumes "rel_elems cs" and "cs \<noteq> []"
  shows "fp_elems (fp_text [] False cs) = cs"
proof -
  have "clean_elems False ((if p then [''.''] else []) @ cs) = cs" for p
    using clean_elems_id[of False cs] assms(1) by (simp add: clean_elems_def clean_step_def rel_elems_def)
  moreover have "after_volume (fp_text [] False cs) = fp_text [] False cs" "\<not> fp_rooted (fp_text [] False cs)"
    using rel_text_plain[OF assms(1)] by (auto simp: plain_rel_def after_volume_def)
  ultimately show ?thesis using rel_text_split[OF assms] by (simp add: fp_elems_def)
qed

text \<open>A cleaned relative path that does not escape has elements, none of them dot-dot.\<close>

lemma not_escaping:
  assumes "plain_rel s" and "\<not> escapes_root (fp_clean s)"
  shows "fp_elems s \<noteq> []" and "''..'' \<notin> set (fp_elems s)"
proof -
  note e = plain_rel_elems[OF assms(1)]
  show ne: "fp_elems s \<noteq> []" using assms(2) e(2) by (auto simp: escapes_root_def fp_text_def)
  then obtain c rest where cs: "fp_elems s = c # rest" by (cases "fp_elems s") auto
  have "c \<noteq> ''..''"
  proof
    assume "c = ''..''"
    then have "fp_clean s = ''..'' @ (if rest = [] then [] else backslash # join_with [backslash] rest)"
      using e(2) cs by (cases rest) (simp_all add: fp_text_def)
    with assms(2) show False by (cases rest) (auto simp: escapes_root_def)
  qed
  then show "''..'' \<notin> set (fp_elems s)" using e(1) cs by (auto simp: rel_elems_def)
qed

section \<open>Joining to the task's directory\<close>

lemma split_on_append_sep: "split_on d (x @ d # y) = split_on d x @ split_on d y"
  by (induction x) (auto split: list.split)

lemma clean_elems_append_plain:
  assumes "''..'' \<notin> set cs" and "\<And>c. c \<in> set cs \<Longrightarrow> c \<noteq> [] \<and> c \<noteq> ''.''"
  shows "clean_elems True (xs @ cs) = clean_elems True xs @ cs"
  using foldl_clean_plain[OF assms, of True "foldl (clean_step True) [] xs"]
  by (simp add: clean_elems_def)

text \<open>A path below a directory.\<close>

definition below_dir :: "string \<Rightarrow> string \<Rightarrow> bool" where
  "below_dir base q \<longleftrightarrow>
     (\<exists>ns. ns \<noteq> [] \<and> ''..'' \<notin> set ns \<and> q = drive_text (hd base) (fp_elems base @ ns))"

lemma drive_join_elems:
  assumes "drive_path base" and "rel_elems cs" and "cs \<noteq> []" and "''..'' \<notin> set cs" and "is_sep x"
  shows "fp_clean (base @ x # fp_text [] False cs) = drive_text (hd base) (fp_elems base @ cs)"
    and "is_sep (last base) \<Longrightarrow>
      fp_clean (base @ fp_text [] False cs) = drive_text (hd base) (fp_elems base @ cs)"
proof -
  obtain d y r where b: "base = d # CHR '':'' # y # r" "is_sep y" using assms(1) by (rule drive_pathE)
  let ?p = "fp_text [] False cs" and ?sp = "\<lambda>s. split_on backslash (from_slash s)"
  have elems: "clean_elems True (xs @ ?sp ?p) = clean_elems True xs @ cs" for xs
  proof -
    have "clean_elems True (xs @ (if q then [''.''] else []) @ cs) = clean_elems True xs @ cs" for q
      using clean_elems_append_plain[OF assms(4), of "xs @ (if q then [''.''] else [])"]
        rel_elem_chars[OF assms(2)] cleaned_elem[of False cs] assms(2)
      by (auto simp: rel_elems_def clean_elems_def clean_step_def)
    then show ?thesis by (simp add: rel_text_split[OF assms(2,3)])
  qed
  have fs: "from_slash (s @ z # t) = from_slash s @ backslash # from_slash t" if "is_sep z" for s z t
    using that by (auto simp: from_slash_def replace_char_def is_sep_def)
  have nil: "from_slash [] = []" by (simp add: from_slash_def replace_char_def)
  have step: "fp_elems (d # CHR '':'' # s @ z # ?p) = fp_elems (d # CHR '':'' # s @ [z]) @ cs"
    if "is_sep z" "s = [] \<or> is_sep (hd s)" for s z
  proof -
    have r: "fp_rooted (d # CHR '':'' # s @ z # t)" for t
      using that by (cases s) (simp_all add: fp_rooted_def)
    have "?sp (s @ z # ?p) = ?sp s @ ?sp ?p" by (simp add: fs[OF that(1)] split_on_append_sep)
    moreover have "?sp (s @ [z]) = ?sp s @ [[]]"
      using fs[OF that(1), of s "[]"] by (simp add: split_on_append_sep from_slash_def replace_char_def)
    moreover have "clean_elems True (xs @ [[]]) = clean_elems True xs" for xs
      by (simp add: clean_elems_def clean_step_def)
    ultimately show ?thesis using r[of ?p] r[of "[]"] elems[of "?sp s"] by (simp add: fp_elems_def)
  qed
  have d: "fp_clean (base @ t) = drive_text d (fp_elems (base @ t))" for t
    using fp_clean_drive(1)[OF drive_path_append[OF assms(1)], of t] b by simp
  have add_sep: "fp_elems (base @ [x]) = fp_elems base"
  proof -
    have "?sp (y # r @ [x]) = ?sp (y # r) @ [[]]"
      using fs[OF assms(5), of "y # r" "[]"] split_on_append_sep[of backslash "from_slash (y # r)" "[]"]
      by (simp add: nil)
    then show ?thesis using b by (simp add: fp_elems_def clean_elems_def clean_step_def)
  qed
  show "fp_clean (base @ x # ?p) = drive_text (hd base) (fp_elems base @ cs)"
    using step[OF assms(5), of "y # r"] add_sep b d[of "x # ?p"] by simp
  assume "is_sep (last base)"
  then obtain s z where s: "y # r = s @ [z]" "is_sep z" using b by (metis append_butlast_last_id last.simps list.distinct(1))
  then have "s = [] \<or> is_sep (hd s)" using b(2) by (cases s) auto
  from step[OF s(2) this] s b d[of ?p] show
    "fp_clean (base @ ?p) = drive_text (hd base) (fp_elems base @ cs)" by simp
qed

lemma drive_join_below:
  assumes "drive_path base" and "last base \<noteq> CHR '':''"
    and "plain_rel s" and "\<not> escapes_root (fp_clean s)"
  shows "fp_join [base, fp_clean s] = drive_text (hd base) (fp_elems base @ fp_elems s)"
proof -
  note e = plain_rel_elems[OF assms(3)] and n = not_escaping[OF assms(3,4)]
  let ?p = "fp_text [] False (fp_elems s)"
  have "base \<noteq> []" "length base \<noteq> 1" using assms(1) by (auto simp: drive_path_def split: list.splits)
  moreover have "dropWhile is_sep ?p = ?p"
    using rel_text_plain[OF e(1)] by (auto simp: plain_rel_iff split: list.splits)
  moreover have "join_raw [] base = base" by (simp add: join_raw_def)
  ultimately have "fp_join [base, ?p] = (if is_sep (last base) then fp_clean (base @ ?p)
      else fp_clean (base @ backslash # ?p))"
    using assms(2) by (simp add: fp_join_def join_raw_def[of base] Let_def)
  then show ?thesis using drive_join_elems[OF assms(1) e(1) n, of backslash] e(2) by simp
qed

section \<open>The title\<close>

lemma rune_bytes:
  assumes "rune_len s \<noteq> 0"
  shows "length (take (rune_len s) s) = 1 \<or> (\<forall>c\<in>set (take (rune_len s) s). 128 \<le> byte_of c)"
proof (cases "rune_len s = 1")
  case True
  with rune_len_le[of s] show ?thesis by simp
next
  case False
  with assms have "2 \<le> rune_len s" by simp
  from rune_len_bytes[OF refl this] show ?thesis by (auto simp: in_set_conv_nth)
qed

lemma safe_rune_chars:
  assumes "length r = 1 \<or> (\<forall>c\<in>set r. 128 \<le> byte_of c)"
  shows "list_all (\<lambda>c. c \<notin> set bt_special) (safe_rune r)"
proof -
  have u: "CHR ''_'' \<notin> set bt_special" and l: "list_all (\<lambda>c. byte_of c < 128) bt_special" by code_simp+
  have "c \<notin> set bt_special" if "128 \<le> byte_of c" for c
    using l that by (auto simp: list_all_iff)
  then show ?thesis
    using assms u by (auto simp: safe_rune_def list_all_iff length_Suc_conv)
qed

lemma safe_title_chars:
  assumes "bt_safe_name title [] = title" and "c \<in> set title"
  shows "c \<notin> set bt_special"
proof -
  let ?m = "map_runes safe_rune (trim_space title)"
  have "list_all (\<lambda>c. c \<notin> set bt_special) ?m"
  proof (rule map_runes_bytes[where P_rune = "\<lambda>r. length r = 1 \<or> (\<forall>c\<in>set r. 128 \<le> byte_of c)"])
    show "length replacement = 1 \<or> (\<forall>c\<in>set replacement. 128 \<le> byte_of c)"
      by (simp add: replacement_def byte_of_def)
  qed (use safe_rune_chars rune_bytes in auto)
  moreover have "title = [] \<or> title = trim ''. '' ?m"
    using assms(1) by (auto simp: bt_safe_name_def Let_def split: if_splits)
  ultimately show ?thesis using assms(2) set_trim[of "''. ''" ?m] by (auto simp: list_all_iff)
qed

lemma safe_title_plain:
  assumes "bt_safe_name title [] = title" and "title \<noteq> []"
  shows "plain_rel title" and "\<not> is_sep (last title)" and "last title \<noteq> CHR '':''"
proof -
  have "CHR '':'' \<in> set bt_special" "slash \<in> set bt_special" "backslash \<in> set bt_special" by code_simp+
  then have c: "c \<noteq> CHR '':'' \<and> \<not> is_sep c" if "c \<in> set title" for c
    using safe_title_chars[OF assms(1) that] by (auto simp: is_sep_def)
  then show "\<not> is_sep (last title)" "last title \<noteq> CHR '':''" using assms(2) by auto
  show "plain_rel title" using c assms(2) by (auto simp: plain_rel_iff split: list.split)
qed

lemma title_join_plain:
  assumes "bt_safe_name title [] = title" and "title \<noteq> []"
  shows "plain_rel (fp_join (title # e # es))"
proof -
  note p = safe_title_plain[OF assms]
  have "join_raw [] title = title" "join_raw title e = title @ backslash # e"
    using p(2,3) assms(2) by (simp_all add: join_raw_def)
  moreover obtain x where "foldl join_raw (title @ backslash # e) es = (title @ backslash # e) @ x"
    using foldl_join_raw by blast
  ultimately have "fp_join (title # e # es) = fp_clean (title @ backslash # e @ x)"
    by (simp add: fp_join_def)
  then show ?thesis
    using plain_rel_elems[OF plain_rel_append[OF p(1), of "e @ x"]] rel_text_plain by simp
qed

lemma file_relative_plain:
  assumes "bt_safe_name title [] = title" and "title \<noteq> []"
  shows "plain_rel (file_relative info title files i)"
  using title_join_plain[OF assms] safe_title_plain(1)[OF assms]
  by (simp add: file_relative_def split: option.split)

section \<open>The paths of a torrent\<close>

lemma update_subset: "set (AList.update k v m) \<subseteq> insert (k, v) (set m)"
  by (induction m) auto

lemma update_values:
  "(h \<circ> snd) ` set (AList.update k v m) \<subseteq> insert (h v) ((h \<circ> snd) ` set m)"
  using image_mono[OF update_subset[of k v m], of "h \<circ> snd"] by simp

lemma update_distinct_values:
  "distinct (map (h \<circ> snd) m) \<Longrightarrow> h v \<notin> (h \<circ> snd) ` set m \<Longrightarrow>
   distinct (map (h \<circ> snd) (AList.update k v m))"
proof (induction m)
  case (Cons a m)
  have "h (snd a) \<notin> (h \<circ> snd) ` set (AList.update k v m)"
    using update_values[of h k v m] Cons.prems by auto
  with Cons show ?case by (cases a) auto
qed simp

text \<open>What one round of the loop that did not fail has done.\<close>

lemma storage_loop_Cons:
  assumes "storage_loop u info title files i (m # ms) used paths = Inr res"
  defines "c \<equiv> fp_clean (file_relative info title files i)"
  shows "\<not> escapes_root c" and "to_lower u c \<notin> fst ` set used"
    and "storage_loop u info title files (Suc i) ms (AList.update (to_lower u c) i used)
      (AList.update (metainfo_file_key m) c paths) = Inr res"
  using assms by (auto simp: Let_def map_of_eq_None_iff split: if_splits option.splits)

lemma storage_loop_paths:
  "storage_loop u info title files i ms used paths = Inr res \<Longrightarrow> (k, p) \<in> set res \<Longrightarrow>
   (k, p) \<in> set paths \<or> (\<exists>j. p = fp_clean (file_relative info title files j) \<and> \<not> escapes_root p)"
proof (induction ms arbitrary: i used paths)
  case (Cons m ms)
  note c = storage_loop_Cons[OF Cons.prems(1)]
  from Cons.IH[OF c(3) Cons.prems(2)] c(1) update_subset show ?case by fastforce
qed simp

lemma storage_loop_distinct:
  "storage_loop u info title files i ms used paths = Inr res \<Longrightarrow>
   distinct (map (to_lower u \<circ> snd) paths) \<Longrightarrow> (to_lower u \<circ> snd) ` set paths \<subseteq> fst ` set used \<Longrightarrow>
   distinct (map (to_lower u \<circ> snd) res)"
proof (induction ms arbitrary: i used paths)
  case (Cons m ms)
  let ?c = "fp_clean (file_relative info title files i)" and ?k = "metainfo_file_key m"
  note c = storage_loop_Cons[OF Cons.prems(1)]
  have new: "to_lower u ?c \<notin> (to_lower u \<circ> snd) ` set paths" using c(2) Cons.prems(3) by auto
  have keys: "fst ` set (AList.update (to_lower u ?c) i used) = insert (to_lower u ?c) (fst ` set used)"
    using keys_update[of "to_lower u ?c" i used] by (simp only: set_map)
  have "(to_lower u \<circ> snd) ` set (AList.update ?k ?c paths) \<subseteq>
      fst ` set (AList.update (to_lower u ?c) i used)"
    unfolding keys by (rule subset_trans[OF update_values insert_mono[OF Cons.prems(3)]])
  from Cons.IH[OF c(3) update_distinct_values[OF Cons.prems(2) new] this] show ?case .
qed simp

lemma storage_paths_loop:
  assumes "storage_paths u t info files = Inr paths"
  obtains title where "bt_safe_name title [] = title" "title \<noteq> []"
    "storage_loop u info title files 0 (mi_files info) [] [] = Inr paths"
  using assms by (auto simp: storage_paths_def Let_def split: if_splits)

text \<open>No two files of a torrent have the same path, not even up to upper and lower case.\<close>

lemma storage_paths_distinct:
  "storage_paths u t info files = Inr paths \<Longrightarrow> distinct (map (to_lower u \<circ> snd) paths)"
  by (erule storage_paths_loop, drule storage_loop_distinct) simp_all

lemma storage_path_below:
  assumes "storage_paths u t info files = Inr paths" and "(k, p) \<in> set paths"
    and "drive_path base" and "last base \<noteq> CHR '':''"
  obtains s where "p = fp_text [] False (fp_elems s)" "fp_elems s \<noteq> []" "''..'' \<notin> set (fp_elems s)"
    "rel_elems (fp_elems s)" "fp_join [base, p] = drive_text (hd base) (fp_elems base @ fp_elems s)"
proof -
  obtain title where title: "bt_safe_name title [] = title" "title \<noteq> []"
    "storage_loop u info title files 0 (mi_files info) [] [] = Inr paths"
    using assms(1) by (rule storage_paths_loop)
  obtain j where p: "p = fp_clean (file_relative info title files j)" "\<not> escapes_root p"
    using storage_loop_paths[OF title(3) assms(2)] by auto
  let ?s = "file_relative info title files j"
  have s: "plain_rel ?s" by (rule file_relative_plain[OF title(1,2)])
  show thesis
    by (rule that[of ?s]) (use p plain_rel_elems[OF s] not_escaping[OF s]
      drive_join_below[OF assms(3,4) s] in auto)
qed

section \<open>Opening the storage\<close>

text \<open>The entries that a torrent's files should have.\<close>

definition entry_of :: "string \<Rightarrow> (string \<times> string) list \<Rightarrow> meta_file \<Rightarrow> store_entry" where
  "entry_of base paths m =
     \<lparr>sen_path = fp_join [base, the (map_of paths (metainfo_file_key m))],
      sen_offset = mf_offset m, sen_length = mf_length m\<rparr>"

lemma open_files_entries:
  "open_files u io base paths ms files fs = (Inr entries, fs') \<Longrightarrow>
   entries = files @ map (entry_of base paths) ms \<and>
   (\<forall>m\<in>set ms. map_of paths (metainfo_file_key m) \<noteq> None)"
proof (induction u io base paths ms files fs rule: open_files.induct)
  case (2 u io base paths m ms files fs)
  obtain r where r: "map_of paths (metainfo_file_key m) = Some r" "r \<noteq> []"
    using 2(2) by (auto split: option.splits if_splits)
  let ?full = "fp_join [base, r]"
  obtain fs1 where m: "os_mkdir_all fs (fp_dir ?full) = (None, fs1)"
    using 2(2) r by (auto simp: Let_def split: prod.splits option.splits)
  obtain fs2 where p: "prepare_store_file u io ?full m fs1 = (None, fs2)"
    using 2(2) r m by (auto simp: Let_def split: prod.splits option.splits)
  from 2(1)[OF r refl m[symmetric] refl p[symmetric] refl] 2(2) r m p show ?case
    by (auto simp: entry_of_def Let_def)
qed simp

text \<open>The offsets a torrent library gives: the files lie one behind the other.\<close>

definition meta_laid_out :: "meta_info \<Rightarrow> bool" where
  "meta_laid_out info \<longleftrightarrow>
     laid_out 0 (map (\<lambda>m. \<lparr>sen_path = [], sen_offset = mf_offset m, sen_length = mf_length m\<rparr>)
       (mi_files info)) \<and>
     distinct (map metainfo_file_key (mi_files info))"

lemma laid_out_path:
  "laid_out lo (map (\<lambda>m. \<lparr>sen_path = f m, sen_offset = a m, sen_length = b m\<rparr>) ms) =
   laid_out lo (map (\<lambda>m. \<lparr>sen_path = g m, sen_offset = a m, sen_length = b m\<rparr>) ms)"
  by (induction ms arbitrary: lo) simp_all

lemma laid_out_sorted: "laid_out lo files \<Longrightarrow> sorted (map sen_offset files) \<and> (\<forall>f\<in>set files. lo \<le> sen_offset f)"
  by (induction lo files rule: laid_out.induct) fastforce+

lemma drive_text_inj:
  assumes "norm_elems a" and "norm_elems b" and "drive_text d a = drive_text d b"
  shows "a = b"
  using assms by (metis fp_elems_drive_text)

lemma norm_elems_append:
  assumes "norm_elems a" and "rel_elems cs" and "''..'' \<notin> set cs"
  shows "norm_elems (a @ cs)"
proof -
  have "cleaned True (a @ cs)"
    by (rule cleaned_plain)
      (use assms cleaned_elem[of True a] cleaned_elem[of False cs] cleaned_rooted_no_dotdot[of a] in
        \<open>auto simp: norm_elems_def rel_elems_def\<close>)
  then show ?thesis using assms by (auto simp: norm_elems_def rel_elems_def)
qed

lemma storage_path_text:
  assumes "storage_paths u t info files = Inr paths" and "map_of paths k = Some p"
    and "drive_path base" and "last base \<noteq> CHR '':''"
  obtains cs where "p = fp_text [] False cs" "rel_elems cs" "''..'' \<notin> set cs" "cs \<noteq> []"
    "fp_join [base, p] = drive_text (hd base) (fp_elems base @ cs)"
  using storage_path_below[OF assms(1) map_of_SomeD[OF assms(2)] assms(3,4)] that by metis

text \<open>Paths that join to the same path belong to the same file.\<close>

lemma storage_paths_apart:
  assumes "storage_paths u t info files = Inr paths" and "drive_path base" and "last base \<noteq> CHR '':''"
    and "map_of paths k = Some p" and "map_of paths l = Some q"
    and "fp_join [base, p] = fp_join [base, q]"
  shows "k = l"
proof -
  note ne = fp_clean_drive(2)[OF assms(2)]
  obtain cs where c: "p = fp_text [] False cs" "rel_elems cs" "''..'' \<notin> set cs"
    "fp_join [base, p] = drive_text (hd base) (fp_elems base @ cs)"
    using storage_path_text[OF assms(1,4,2,3)] by metis
  obtain ds where d: "q = fp_text [] False ds" "rel_elems ds" "''..'' \<notin> set ds"
    "fp_join [base, q] = drive_text (hd base) (fp_elems base @ ds)"
    using storage_path_text[OF assms(1,5,2,3)] by metis
  have "cs = ds"
    using drive_text_inj[OF norm_elems_append[OF ne c(2,3)] norm_elems_append[OF ne d(2,3)], of "hd base"]
      c(4) d(4) assms(6) by simp
  with c(1) d(1) have "p = q" by simp
  moreover have "inj_on (to_lower u \<circ> snd) (set paths)"
    using storage_paths_distinct[OF assms(1)] by (simp add: distinct_map)
  ultimately show ?thesis
    using map_of_SomeD[OF assms(4)] map_of_SomeD[OF assms(5)]
      inj_onD[of "to_lower u \<circ> snd" "set paths" "(k, p)" "(l, q)"] by simp
qed

lemma open_torrent_entries:
  assumes "open_torrent u io base paths info fs = (Inr entries, fs')" and "meta_laid_out info"
  shows "entries = map (entry_of base paths) (mi_files info)" and "laid_out 0 entries"
    and "m \<in> set (mi_files info) \<Longrightarrow> map_of paths (metainfo_file_key m) \<noteq> None"
proof -
  obtain raw fs1 where o: "open_files u io base paths (mi_files info) [] fs = (Inr raw, fs1)"
    "entries = sort_key sen_offset raw"
    using assms(1) by (auto simp: open_torrent_def split: prod.splits sum.splits)
  note r = open_files_entries[OF o(1)]
  have l: "laid_out 0 (map (entry_of base paths) (mi_files info))"
    using assms(2) laid_out_path[of 0 "\<lambda>m. fp_join [base, the (map_of paths (metainfo_file_key m))]" mf_offset
        mf_length "mi_files info" "\<lambda>_. []"]
    by (simp add: meta_laid_out_def entry_of_def[abs_def])
  then show e: "entries = map (entry_of base paths) (mi_files info)"
    using o(2) r laid_out_sorted[OF l] by (simp add: sort_key_id_if_sorted)
  show "laid_out 0 entries" using l e by simp
  show "m \<in> set (mi_files info) \<Longrightarrow> map_of paths (metainfo_file_key m) \<noteq> None" using r by blast
qed

text \<open>
  C18: The storage of a torrent is one address space of files below the task's directory. Whatever
  names the torrent gives its files, the paths that \<open>storagePaths\<close> accepts join to paths strictly
  below the directory of the task, without dot-dot and no two of them equal, so the storage that is
  opened on them satisfies the layout on which reading and writing pieces rests.
\<close>

theorem opened_storage_sound:
  assumes "storage_paths u t info files = Inr paths"
    and "open_torrent u io (tsk_path t) paths info fs = (Inr entries, fs')"
    and "drive_path (tsk_path t)" and "last (tsk_path t) \<noteq> CHR '':''" and "meta_laid_out info"
  shows "store_ok fs' entries \<and> list_all (\<lambda>f. below_dir (tsk_path t) (sen_path f)) entries"
proof
  note e = open_torrent_entries[OF assms(2,5)]
  have below: "\<exists>cs. cs \<noteq> [] \<and> ''..'' \<notin> set cs \<and> norm_elems (fp_elems (tsk_path t) @ cs) \<and>
      sen_path (entry_of (tsk_path t) paths m) = drive_text (hd (tsk_path t)) (fp_elems (tsk_path t) @ cs)"
    if m: "m \<in> set (mi_files info)" for m
  proof -
    obtain p where p: "map_of paths (metainfo_file_key m) = Some p" using e(3)[OF m] by auto
    show ?thesis
      by (rule storage_path_text[OF assms(1) p assms(3,4)])
        (use norm_elems_append[OF fp_clean_drive(2)[OF assms(3)]] p in \<open>auto simp: entry_of_def\<close>)
  qed
  then show "list_all (\<lambda>f. below_dir (tsk_path t) (sen_path f)) entries"
    unfolding e(1) by (auto simp: list_all_iff below_dir_def)
  have key: "store_key fs' (entry_of (tsk_path t) paths m) = sen_path (entry_of (tsk_path t) paths m)"
    if "m \<in> set (mi_files info)" for m
    using below[OF that] fp_clean_drive(3)[OF assms(3)] by (auto simp: store_key_def fs_key_def)
  have "inj_on (\<lambda>m. store_key fs' (entry_of (tsk_path t) paths m)) (set (mi_files info))"
  proof (rule inj_onI)
    fix m n assume mn: "m \<in> set (mi_files info)" "n \<in> set (mi_files info)"
      "store_key fs' (entry_of (tsk_path t) paths m) = store_key fs' (entry_of (tsk_path t) paths n)"
    obtain p q where pq: "map_of paths (metainfo_file_key m) = Some p"
      "map_of paths (metainfo_file_key n) = Some q" using e(3) mn(1,2) by blast
    have "sen_path (entry_of (tsk_path t) paths m) = sen_path (entry_of (tsk_path t) paths n)"
      using mn key by metis
    with pq have "fp_join [tsk_path t, p] = fp_join [tsk_path t, q]" by (simp add: entry_of_def)
    then have "metainfo_file_key m = metainfo_file_key n"
      by (rule storage_paths_apart[OF assms(1,3,4) pq])
    then show "m = n" using assms(5) mn(1,2) by (auto simp: meta_laid_out_def distinct_map inj_on_def)
  qed
  moreover have "distinct (mi_files info)" using assms(5) by (simp add: meta_laid_out_def distinct_map)
  ultimately have "distinct (map (store_key fs') entries)"
    unfolding e(1) by (simp add: distinct_map comp_def)
  with e(2) show "store_ok fs' entries" by (simp add: store_ok_def)
qed

text \<open>A torrent of two files, one of them not selected.\<close>

definition sample_info :: meta_info where
  "sample_info = \<lparr>mi_files =
     [\<lparr>mf_attr = [], mf_length = 3, mf_offset = 0, mf_best_path = [''a''], mf_display = ''a''\<rparr>,
      \<lparr>mf_attr = [], mf_length = 2, mf_offset = 3, mf_best_path = [''d'', ''b''], mf_display = ''d/b''\<rparr>],
     mi_is_dir = True, mi_best_name = ''pack''\<rparr>"

definition sample_files :: "bt_file list" where
  "sample_files =
     [\<lparr>bf_index = 0, bf_path = ''a'', bf_size = 3, bf_selected = False, bf_priority = 0,
       bf_downloaded = 0, bf_completed = False\<rparr>,
      \<lparr>bf_index = 1, bf_path = ''d/b'', bf_size = 2, bf_selected = True, bf_priority = 2,
       bf_downloaded = 0, bf_completed = False\<rparr>]"

definition sample_task :: task where
  "sample_task = new_task ''t1'' 0 ''bt'' ''pack'' ''magnet:'' ''C:/dl'' 2
     (new_stage ''s1'' ''bt'' ''magnet:'' 2 1 0 False None [])"

definition sample_paths :: "(string \<times> string) list" where
  "sample_paths =
     [(''0:3:a'', ''pack'' @ [backslash] @ ''.gd3_unselected'' @ [backslash] @ ''0''),
      (''3:2:d/b'', ''pack'' @ [backslash] @ ''d'' @ [backslash] @ ''b'')]"

lemma opened_storage_sound_witness:
  "list_all (\<lambda>f. below_dir ''C:/dl'' (sen_path f)) (map (entry_of ''C:/dl'' sample_paths) (mi_files sample_info))"
proof -
  have p: "storage_paths ascii_tables sample_task sample_info sample_files = Inr sample_paths" by code_simp
  have o: "fst (open_torrent ascii_tables no_io_faults ''C:/dl'' sample_paths sample_info sample_fs) =
      Inr (map (entry_of ''C:/dl'' sample_paths) (mi_files sample_info))" by code_simp
  have t: "tsk_path sample_task = ''C:/dl''" by (simp add: sample_task_def new_task_def)
  have d: "drive_path (tsk_path sample_task)" "last (tsk_path sample_task) \<noteq> CHR '':''"
    "meta_laid_out sample_info" by code_simp+
  obtain fs' where "open_torrent ascii_tables no_io_faults (tsk_path sample_task) sample_paths sample_info
      sample_fs = (Inr (map (entry_of ''C:/dl'' sample_paths) (mi_files sample_info)), fs')"
    using o t by (metis prod.collapse)
  from opened_storage_sound[OF p this d] t show ?thesis by simp
qed

end
