(* ===== verification/GoJson.thy ===== *)
theory GoJson
  imports CoreModel
begin

text \<open>
  JSON values as \<open>encoding/json\<close> decodes them into \<open>any\<close>, and the reading of members with type
  assertions. A number is the rational that its \<open>float64\<close> denotes. The members of an object are
  kept in document order; of several members of one name the last one counts, as it does in the
  Go map. The text of a value is read and written by the fields of \<open>jsonlib\<close>.
\<close>

datatype json =
  JNull | JBool bool | JNum rat | JStr string | JArr "json list" | JObj "(string \<times> json) list"

type_synonym json_map = "(string \<times> json) list"

record jsonlib =
  jl_unmarshal :: "string \<Rightarrow> json option"
  jl_marshal :: "json \<Rightarrow> string option"

definition obj_get :: "json_map \<Rightarrow> string \<Rightarrow> json option" where
  "obj_get kvs k = map_of (rev kvs) k"

text \<open>Decoding into a \<open>map[string]any\<close>: null leaves it nil, any other value is an error.\<close>

definition decode_object :: "jsonlib \<Rightarrow> string \<Rightarrow> json_map option" where
  "decode_object jl raw =
     (case jl_unmarshal jl raw of
        Some JNull \<Rightarrow> Some []
      | Some (JObj kvs) \<Rightarrow> Some kvs
      | _ \<Rightarrow> None)"

text \<open>The conversions \<open>int(f)\<close> and \<open>int64(f)\<close> on amd64: toward zero, out of range the least value.\<close>

definition int_of_float :: "rat \<Rightarrow> int" where
  "int_of_float r =
     (let t = (if 0 \<le> r then \<lfloor>r\<rfloor> else \<lceil>r\<rceil>) in if int64 t then t else min_int64)"

lemma int_of_float_int64: "int64 (int_of_float r)"
  by (simp add: int_of_float_def Let_def) (simp add: int64_def min_int64_def max_int64_def)

lemma int_of_float_of_int [simp]: "int64 n \<Longrightarrow> int_of_float (of_int n) = n"
  by (simp add: int_of_float_def Let_def)

lemma obj_get_Nil [simp]: "obj_get [] k = None"
  by (simp add: obj_get_def)

lemma obj_get_append:
  "obj_get (xs @ ys) k = (case obj_get ys k of Some v \<Rightarrow> Some v | None \<Rightarrow> obj_get xs k)"
  by (simp add: obj_get_def map_add_def split: option.split)

lemma obj_get_Cons:
  "obj_get ((n, v) # ys) k =
     (case obj_get ys k of Some w \<Rightarrow> Some w | None \<Rightarrow> if n = k then Some v else None)"
  by (simp add: obj_get_def map_add_def split: option.split)

end
