(* ===== verification/BtWorker.thy ===== *)
theory BtWorker
  imports BtPaths GoJson
begin

text \<open>
  The worker of \<open>internal/download/bt/worker.go\<close>: the loop that samples a transfer and reports it,
  the snapshot that a sample rests on, the reset for a new download, and the parts of the transfer
  that are the program's own. What the torrent engine counts, the clock and the moments at which
  the loop wakes are data; \<open>rnd\<close> is the rounding of \<open>float64\<close>, applied to each operation.
\<close>

section \<open>Numbers\<close>

definition selected_downloaded :: "bt_file list \<Rightarrow> int" where
  "selected_downloaded files =
     foldl (\<lambda>n f. if bf_selected f then wrap64 (n + min (max (bf_downloaded f) 0) (bf_size f)) else n)
       0 files"

text \<open>A division of two values converted from \<open>int64\<close>, and the percentage it gives.\<close>

definition float_div :: "(rat \<Rightarrow> rat) \<Rightarrow> int \<Rightarrow> int \<Rightarrow> rat" where
  "float_div rnd a b = rnd (rnd (of_int a) / rnd (of_int b))"

definition percent :: "(rat \<Rightarrow> rat) \<Rightarrow> int \<Rightarrow> int \<Rightarrow> rat" where
  "percent rnd a b = rnd (float_div rnd a b * 100)"

definition progress_percent :: "(rat \<Rightarrow> rat) \<Rightarrow> int \<Rightarrow> int \<Rightarrow> rat" where
  "progress_percent rnd received total_size =
     (if total_size \<le> 0 then 100
      else let p = percent rnd received total_size in if p < 0 then 0 else if p > 100 then 100 else p)"

text \<open>\<open>d / time.Second\<close> and \<open>d.Seconds ()\<close>; the division truncates toward zero.\<close>

definition whole_seconds :: "int \<Rightarrow> int" where
  "whole_seconds d = (if 0 \<le> d then d div second else - ((- d) div second))"

definition float_seconds :: "(rat \<Rightarrow> rat) \<Rightarrow> int \<Rightarrow> rat" where
  "float_seconds rnd d =
     rnd (rnd (of_int (whole_seconds d)) + rnd (of_int (d - whole_seconds d * second) / of_int second))"

definition non_negative_rate :: "(rat \<Rightarrow> rat) \<Rightarrow> int \<Rightarrow> rat \<Rightarrow> int" where
  "non_negative_rate rnd delta seconds =
     (if delta \<le> 0 \<or> seconds \<le> 0 then 0 else int_of_float (rnd (rnd (of_int delta) / seconds)))"

definition should_stop_seeding :: "(rat \<Rightarrow> rat) \<Rightarrow> runtime_options \<Rightarrow> runtime_state \<Rightarrow> bool" where
  "should_stop_seeding rnd opts s \<longleftrightarrow>
     (rto_seed_ratio opts > 0 \<and> rst_share_ratio s \<ge> rnd (of_int (rto_seed_ratio opts))) \<or>
     (rto_seed_minutes opts > 0 \<and> rst_seeding_seconds s \<ge> wrap64 (rto_seed_minutes opts * 60))"

definition runtime_detail :: "runtime_state \<Rightarrow> string" where
  "runtime_detail s =
     (let phase = replace_char CHR ''_'' CHR '' '' (rst_phase s);
          phase = (if phase = [] then ''ready'' else phase) in
      ''BT '' @ phase @ '' | peers '' @ itoa (rst_peer_count s) @ '' | seeds '' @ itoa (rst_seed_count s)
      @ '' | down '' @ itoa (rst_download_rate s) @ '' B/s | up '' @ itoa (rst_upload_rate s)
      @ '' B/s | ratio '' @ format_fixed 2 (rst_share_ratio s) @ ''% | seeded ''
      @ itoa (rst_seeding_seconds s) @ ''s'')"

section \<open>Sampling\<close>

record transfer_snapshot =
  tsn_file_bytes :: "(int \<times> int) list"
  tsn_downloaded :: int
  tsn_uploaded :: int
  tsn_peers :: int
  tsn_seeds :: int

text \<open>The variables of \<open>Run\<close>; the reports are kept in their order.\<close>

record bt_run =
  btr_state :: runtime_state
  btr_started :: int
  btr_previous_at :: int
  btr_previous_down :: int
  btr_previous_up :: int
  btr_seeding_started :: "int option"
  btr_last_complete :: bool
  btr_uses_slot :: bool
  btr_reports :: "progress_update list"

definition sample_file :: "transfer_snapshot \<Rightarrow> bt_file \<Rightarrow> bt_file" where
  "sample_file snap f =
     (let d = (case map_of (tsn_file_bytes snap) (bf_index f) of Some n \<Rightarrow> n | None \<Rightarrow> 0);
          d = (if d < 0 then 0 else d);
          d = (if d > bf_size f then bf_size f else d);
          d = (if \<not> bf_selected f then 0 else d) in
      f\<lparr>bf_downloaded := d, bf_completed := bf_selected f \<and> d \<ge> bf_size f\<rparr>)"

definition sample_rates :: "(rat \<Rightarrow> rat) \<Rightarrow> int \<Rightarrow> transfer_snapshot \<Rightarrow> bt_run \<Rightarrow> bt_run" where
  "sample_rates rnd now snap r =
     (let elapsed = float_seconds rnd (now - btr_previous_at r);
          elapsed = (if elapsed \<le> 0 then float_seconds rnd (now - btr_started r) else elapsed);
          s = btr_state r;
          s = (if elapsed > 0
               then s\<lparr>rst_download_rate :=
                        non_negative_rate rnd (wrap64 (tsn_downloaded snap - btr_previous_down r)) elapsed,
                      rst_upload_rate :=
                        non_negative_rate rnd (wrap64 (tsn_uploaded snap - btr_previous_up r)) elapsed\<rparr>
               else s) in
      r\<lparr>btr_state := s, btr_previous_at := now, btr_previous_down := tsn_downloaded snap,
        btr_previous_up := tsn_uploaded snap\<rparr>)"

definition sample_counts ::
  "(rat \<Rightarrow> rat) \<Rightarrow> int \<Rightarrow> int \<Rightarrow> transfer_snapshot \<Rightarrow> runtime_state \<Rightarrow> runtime_state" where
  "sample_counts rnd base_uploaded total_size snap s =
     (let up = wrap64 (base_uploaded + max (tsn_uploaded snap) 0) in
      s\<lparr>rst_uploaded_bytes := up, rst_peer_count := tsn_peers snap, rst_seed_count := tsn_seeds snap,
        rst_share_ratio := (if total_size > 0 then percent rnd up total_size else rst_share_ratio s)\<rparr>)"

definition sample_phase :: "int \<Rightarrow> int \<Rightarrow> bool \<Rightarrow> bt_run \<Rightarrow> bt_run" where
  "sample_phase base_seeding now is_complete r =
     (let s = btr_state r in
      if is_complete then
        (let started = (case btr_seeding_started r of None \<Rightarrow> now | Some n \<Rightarrow> n) in
         r\<lparr>btr_seeding_started := Some started,
           btr_state := s\<lparr>rst_seeding_seconds := wrap64 (base_seeding + whole_seconds (now - started)),
             rst_phase := ''seeding''\<rparr>,
           btr_uses_slot := False\<rparr>)
      else r\<lparr>btr_state := s\<lparr>rst_phase := ''downloading''\<rparr>, btr_uses_slot := True\<rparr>)"

definition bt_report ::
  "(rat \<Rightarrow> rat) \<Rightarrow> runtime_state \<Rightarrow> int \<Rightarrow> task_status option \<Rightarrow> (string \<times> string) list \<Rightarrow> bool \<Rightarrow>
   progress_update" where
  "bt_report rnd s speed status patch uses_slot =
     \<lparr>upd_received = selected_downloaded (rst_files s), upd_file_size = selected_size (rst_files s),
      upd_speed = speed,
      upd_progress = progress_percent rnd (selected_downloaded (rst_files s)) (selected_size (rst_files s)),
      upd_detail = runtime_detail s, upd_status = status, upd_stage_state = Some (fmap_of_list patch),
      upd_uses_slot = Some uses_slot\<rparr>"

text \<open>The constants a sample captures: the bytes and seconds of earlier runs.\<close>

record bt_base =
  bb_uploaded :: int
  bb_seeding :: int

text \<open>A round of \<open>sample\<close> on a snapshot, up to its report.\<close>

definition sample_state ::
  "(rat \<Rightarrow> rat) \<Rightarrow> bt_base \<Rightarrow> int \<Rightarrow> transfer_snapshot \<Rightarrow> bt_run \<Rightarrow> bt_run" where
  "sample_state rnd base now snap r =
     (let r = r\<lparr>btr_state := (btr_state r)\<lparr>rst_files := map (sample_file snap) (rst_files (btr_state r))\<rparr>\<rparr>;
          received = selected_downloaded (rst_files (btr_state r));
          total_size = selected_size (rst_files (btr_state r));
          is_complete = (received \<ge> total_size);
          r = sample_rates rnd now snap r;
          r = r\<lparr>btr_state := sample_counts rnd (bb_uploaded base) total_size snap (btr_state r)\<rparr>;
          r = sample_phase (bb_seeding base) now is_complete r in
      r\<lparr>btr_last_complete := is_complete\<rparr>)"

definition sample ::
  "(rat \<Rightarrow> rat) \<Rightarrow> bt_codec \<Rightarrow> runtime_options \<Rightarrow> bt_base \<Rightarrow> int \<Rightarrow> transfer_snapshot result \<Rightarrow> bt_run \<Rightarrow>
   bool result \<times> bt_run" where
  "sample rnd bc opts base now taken r =
     (case taken of
        Inl e \<Rightarrow> (Inl e, r)
      | Inr snap \<Rightarrow>
          (let r = sample_state rnd base now snap r; s = btr_state r in
           case runtime_state_patch bc s of
             Inl e \<Rightarrow> (Inl e, r)
           | Inr patch \<Rightarrow>
               (Inr (btr_last_complete r \<and> should_stop_seeding rnd opts s),
                r\<lparr>btr_reports := btr_reports r @
                    [bt_report rnd s (rst_download_rate s)
                       (Some (if btr_last_complete r then StatusSeeding else StatusRunning))
                       patch (btr_uses_slot r)]\<rparr>)))"

section \<open>The loop\<close>

text \<open>The ticker fires, or the context ends with its error.\<close>

datatype bt_event = BtTick int "transfer_snapshot result" | BtDone int "transfer_snapshot result" goerr

text \<open>The last report of a run that is stopped; an error of the patch suppresses it.\<close>

definition pause_report :: "(rat \<Rightarrow> rat) \<Rightarrow> bt_codec \<Rightarrow> bt_run \<Rightarrow> bt_run" where
  "pause_report rnd bc r =
     (let s = (btr_state r)\<lparr>rst_phase :=
          if btr_last_complete r then ''paused_seeding'' else ''paused_download''\<rparr>;
          r = r\<lparr>btr_state := s\<rparr> in
      case runtime_state_patch bc s of
        Inl _ \<Rightarrow> r
      | Inr patch \<Rightarrow>
          r\<lparr>btr_reports := btr_reports r @ [bt_report rnd s 0 None patch (btr_uses_slot r)]\<rparr>)"

text \<open>What the loop returned, None when the events ended before it did.\<close>

fun bt_loop ::
  "(rat \<Rightarrow> rat) \<Rightarrow> bt_codec \<Rightarrow> runtime_options \<Rightarrow> bt_base \<Rightarrow> bt_event list \<Rightarrow> bt_run \<Rightarrow>
   goerr option option \<times> bt_run" where
  "bt_loop rnd bc opts base [] r = (None, r)"
| "bt_loop rnd bc opts base (BtDone now taken e # evs) r =
     (case sample rnd bc opts base now taken r of
        (_, r) \<Rightarrow> (Some (Some e), pause_report rnd bc r))"
| "bt_loop rnd bc opts base (BtTick now taken # evs) r =
     (case sample rnd bc opts base now taken r of
        (Inl e, r) \<Rightarrow> (Some (Some e), r)
      | (Inr True, r) \<Rightarrow> (Some None, r)
      | (Inr False, r) \<Rightarrow> bt_loop rnd bc opts base evs r)"

definition bt_start :: "int \<Rightarrow> runtime_state \<Rightarrow> bt_run" where
  "bt_start now s =
     \<lparr>btr_state = s, btr_started = now, btr_previous_at = now, btr_previous_down = 0,
      btr_previous_up = 0, btr_seeding_started = None, btr_last_complete = False,
      btr_uses_slot = True, btr_reports = []\<rparr>"

text \<open>
  \<open>Run\<close>: \<open>opened\<close> is the result of the factory, \<open>close_err\<close> that of closing the transfer, \<open>now\<close> the
  time of the start and \<open>first\<close> that of the first sample with its snapshot.
\<close>

definition run_bt ::
  "(rat \<Rightarrow> rat) \<Rightarrow> bt_codec \<Rightarrow> task \<Rightarrow> goerr option \<Rightarrow> int \<Rightarrow> int \<times> transfer_snapshot result \<Rightarrow>
   bt_event list \<Rightarrow> goerr option \<Rightarrow> goerr option option \<times> progress_update list" where
  "run_bt rnd bc t opened now first evs close_err =
     (case runtime_state_from_task bc t of
        Inl e \<Rightarrow> (Some (Some e), [])
      | Inr s \<Rightarrow>
          (let opts = runtime_options_from_task t; s = s\<lparr>rst_phase := ''checking''\<rparr> in
           case runtime_state_patch bc s of
             Inl e \<Rightarrow> (Some (Some e), [])
           | Inr patch \<Rightarrow>
               (let initial = bt_report rnd s 0 None patch True;
                    base = \<lparr>bb_uploaded = rst_uploaded_bytes s, bb_seeding = rst_seeding_seconds s\<rparr> in
                case opened of
                  Some e \<Rightarrow> (Some (Some e), [initial])
                | None \<Rightarrow>
                    (let (res, r) =
                       (case sample rnd bc opts base (fst first) (snd first) (bt_start now s) of
                          (Inl e, r) \<Rightarrow> (Some (Some e), r)
                        | (Inr True, r) \<Rightarrow> (Some None, r)
                        | (Inr False, r) \<Rightarrow> bt_loop rnd bc opts base evs r) in
                     (map_option (\<lambda>err. join_errors err close_err) res, initial # btr_reports r)))))"

text \<open>\<open>ResetTask\<close>: the patch overrides the keys of the stage's state.\<close>

definition reset_bt_task :: "bt_codec \<Rightarrow> task \<Rightarrow> task result" where
  "reset_bt_task bc t =
     (case runtime_state_from_task bc t of
        Inl e \<Rightarrow> Inl e
      | Inr s \<Rightarrow>
          (let files = map (\<lambda>f. f\<lparr>bf_downloaded := 0, bf_completed := False\<rparr>) (rst_files s);
               s = \<lparr>rst_files = files, rst_uploaded_bytes = 0, rst_seeding_seconds = 0, rst_phase = [],
                 rst_peer_count = 0, rst_seed_count = 0, rst_download_rate = 0, rst_upload_rate = 0,
                 rst_share_ratio = 0\<rparr> in
           case runtime_state_patch bc s of
             Inl e \<Rightarrow> Inl e
           | Inr patch \<Rightarrow>
               (let g = tsk_stage t;
                    old = (case stg_state g of None \<Rightarrow> fmempty | Some m \<Rightarrow> m) in
                Inr (t\<lparr>tsk_file_size := selected_size files, tsk_uses_slot := True, tsk_detail := [],
                  tsk_stage := g\<lparr>stg_state := Some (old ++\<^sub>f fmap_of_list patch),
                    stg_file_size := selected_size files\<rparr>\<rparr>))))"

section \<open>The transfer\<close>

text \<open>A piece of an engine's file: its completion and the bytes of the file in it.\<close>

type_synonym piece_state = "completion \<times> int"

definition verified_file_bytes :: "piece_state list \<Rightarrow> int \<Rightarrow> int" where
  "verified_file_bytes pieces file_length =
     min (foldl (\<lambda>n (c, k). if cmp_ok c \<and> cmp_complete c \<and> cmp_err c = None then wrap64 (n + k) else n) 0
       pieces) file_length"

text \<open>A whole file does not count before it is at its final path.\<close>

definition promoted_bytes :: "fsys \<Rightarrow> string \<Rightarrow> int \<Rightarrow> int \<Rightarrow> int result" where
  "promoted_bytes fs path expected completed =
     (if expected > 0 \<and> completed \<ge> expected then
        (case os_stat fs path of
           Inr (NFile c) \<Rightarrow> if int (length c) = expected then Inr completed else Inr (expected - 1)
         | Inr _ \<Rightarrow> Inr (expected - 1)
         | Inl e \<Rightarrow>
             if err_not_exist e then Inr (expected - 1)
             else Inl (wrap_error ''check completed BitTorrent file: '' e))
      else Inr completed)"

record engine_file =
  egf_pieces :: "piece_state list"
  egf_length :: int
  egf_path :: string
  egf_expected :: int

text \<open>The selected files in the order of the iteration, and the engine's counters.\<close>

record torrent_transfer =
  ttr_selected :: "(int \<times> engine_file) list"
  ttr_sequential :: "goerr option"
  ttr_downloaded :: int
  ttr_uploaded :: int
  ttr_peers :: int
  ttr_seeds :: int

fun snapshot_files :: "fsys \<Rightarrow> (int \<times> engine_file) list \<Rightarrow> (int \<times> int) list result" where
  "snapshot_files fs [] = Inr []"
| "snapshot_files fs ((i, g) # gs) =
     (case promoted_bytes fs (egf_path g) (egf_expected g)
         (verified_file_bytes (egf_pieces g) (egf_length g)) of
        Inl e \<Rightarrow> Inl e
      | Inr n \<Rightarrow> (case snapshot_files fs gs of Inl e \<Rightarrow> Inl e | Inr r \<Rightarrow> Inr ((i, n) # r)))"

definition transfer_snapshot_of :: "fsys \<Rightarrow> torrent_transfer \<Rightarrow> transfer_snapshot result" where
  "transfer_snapshot_of fs tt =
     (case ttr_sequential tt of
        Some e \<Rightarrow> Inl (wrap_error ''sequential BitTorrent download: '' e)
      | None \<Rightarrow>
          (case snapshot_files fs (ttr_selected tt) of
             Inl e \<Rightarrow> Inl e
           | Inr bytes \<Rightarrow>
               Inr \<lparr>tsn_file_bytes = bytes, tsn_downloaded = ttr_downloaded tt,
                 tsn_uploaded = ttr_uploaded tt, tsn_peers = ttr_peers tt, tsn_seeds = ttr_seeds tt\<rparr>))"

datatype piece_priority = PriorityNone | PriorityNormal | PriorityHigh | PriorityReadahead

definition engine_file_priority :: "int \<Rightarrow> piece_priority" where
  "engine_file_priority p =
     (if p = 2 then PriorityHigh else if p = 3 then PriorityReadahead else PriorityNormal)"

definition requested_file_priority :: "int \<Rightarrow> bool \<Rightarrow> piece_priority" where
  "requested_file_priority p sequential = (if sequential then PriorityNone else engine_file_priority p)"

definition sequential_files :: "bt_file list \<Rightarrow> bt_file list" where
  "sequential_files files = sort_key (\<lambda>f. - bf_priority f) (filter bf_selected files)"

text \<open>
  The selected files and the priority of every engine file; all start at none. An index that the
  engine does not have is an error.
\<close>

fun select_engine_files ::
  "nat \<Rightarrow> bool \<Rightarrow> bt_file list \<Rightarrow> int list \<Rightarrow> (int \<Rightarrow> piece_priority) \<Rightarrow>
   (int list \<times> (int \<Rightarrow> piece_priority)) result" where
  "select_engine_files n sequential [] chosen prio =
     (if chosen = [] then Inl (new_error ''BitTorrent task has no selected files'') else Inr (chosen, prio))"
| "select_engine_files n sequential (f # fs) chosen prio =
     (if \<not> bf_selected f then select_engine_files n sequential fs chosen prio
      else if \<not> (0 \<le> bf_index f \<and> bf_index f < int n)
      then Inl (new_error (''torrent file index '' @ itoa (bf_index f) @ '' is unavailable''))
      else select_engine_files n sequential fs (List.insert (bf_index f) chosen)
        (prio(bf_index f := requested_file_priority (bf_priority f) sequential)))"

section \<open>Saving the metainfo, binding a port\<close>

text \<open>\<open>write_err\<close> is what encoding into the file and closing it gave.\<close>

definition save_metainfo :: "string \<Rightarrow> string \<Rightarrow> goerr option \<Rightarrow> fsys \<Rightarrow> goerr option \<times> fsys" where
  "save_metainfo path content write_err fs =
     (case os_mkdir_all fs (fp_dir path) of
        (Some e, fs) \<Rightarrow> (Some e, fs)
      | (None, fs) \<Rightarrow>
          (let temporary = path @ ''.tmp'' in
           case os_open_write fs temporary of
             (Some e, fs) \<Rightarrow> (Some (wrap_error ''create magnet torrent file: '' e), fs)
           | (None, fs) \<Rightarrow>
               (case write_err of
                  Some e \<Rightarrow>
                    (Some (wrap_error ''write magnet torrent file: '' e), snd (os_remove fs temporary))
                | None \<Rightarrow>
                    (let fs = put_node temporary (NFile content) fs in
                     case os_rename fs temporary path of
                       (Some e, fs) \<Rightarrow>
                         (Some (wrap_error ''commit magnet torrent file: '' e), snd (os_remove fs temporary))
                     | (None, fs) \<Rightarrow> (None, fs)))))"

fun fallback_clients :: "(goerr \<Rightarrow> bool) \<Rightarrow> 'c result list \<Rightarrow> goerr \<Rightarrow> 'c option \<times> goerr" where
  "fallback_clients bind_failure [] last_err = (None, last_err)"
| "fallback_clients bind_failure (Inr c # rs) last_err = (Some c, last_err)"
| "fallback_clients bind_failure (Inl e # rs) last_err =
     (if bind_failure e then fallback_clients bind_failure rs e else (None, e))"

text \<open>\<open>first\<close> is the client on the wanted port, \<open>retries\<close> what four more on a free port give.\<close>

definition new_client_with_port_fallback ::
  "(goerr \<Rightarrow> bool) \<Rightarrow> int \<Rightarrow> 'c result \<Rightarrow> 'c result list \<Rightarrow> 'c result" where
  "new_client_with_port_fallback bind_failure port first retries =
     (case first of
        Inr c \<Rightarrow> Inr c
      | Inl err \<Rightarrow>
          if \<not> bind_failure err then Inl err
          else case fallback_clients bind_failure (take 4 retries) err of
            (Some c, _) \<Rightarrow> Inr c
          | (None, last_err) \<Rightarrow>
              Inl (GoErr (''bind BitTorrent port '' @ itoa port @ '': '' @ err_text err
                @ '' (ephemeral retries: '' @ err_text last_err @ '')'')
                (err_canceled err) (err_not_exist err)))"

end
