(* ===== verification/GoBase64.thy ===== *)
theory GoBase64
  imports GoStrings
begin

text \<open>
  \<open>encoding/base64\<close> with the standard alphabet and padding: \<open>EncodeToString\<close> and \<open>DecodeString\<close>,
  which skips line ends; None is a \<open>CorruptInputError\<close>. What is encoded is decoded again.
\<close>

definition b64_char :: "nat \<Rightarrow> char" where
  "b64_char n =
     (if n < 26 then char_of (65 + n) else if n < 52 then char_of (71 + n)
      else if n < 62 then char_of (n - 4) else if n = 62 then CHR ''+'' else CHR ''/'')"

definition b64_val :: "char \<Rightarrow> nat option" where
  "b64_val c =
     (let b = byte_of c in
      if 65 \<le> b \<and> b \<le> 90 then Some (b - 65) else if 97 \<le> b \<and> b \<le> 122 then Some (b - 71)
      else if 48 \<le> b \<and> b \<le> 57 then Some (b + 4) else if b = 43 then Some 62
      else if b = 47 then Some 63 else None)"

definition b64_first :: "nat \<Rightarrow> nat \<Rightarrow> string" where
  "b64_first x y = [b64_char (x div 4), b64_char ((x mod 4) * 16 + y div 16)]"

fun b64_encode :: "string \<Rightarrow> string" where
  "b64_encode [] = []"
| "b64_encode [x] = b64_first (byte_of x) 0 @ ''==''"
| "b64_encode [x, y] =
     b64_first (byte_of x) (byte_of y) @ [b64_char ((byte_of y mod 16) * 4)] @ ''=''"
| "b64_encode (x # y # z # s) =
     b64_first (byte_of x) (byte_of y) @
     [b64_char ((byte_of y mod 16) * 4 + byte_of z div 64), b64_char (byte_of z mod 64)] @ b64_encode s"

definition b64_byte1 :: "nat \<Rightarrow> nat \<Rightarrow> char" where "b64_byte1 a b = char_of (a * 4 + b div 16)"
definition b64_byte2 :: "nat \<Rightarrow> nat \<Rightarrow> char" where "b64_byte2 b c = char_of ((b mod 16) * 16 + c div 4)"
definition b64_byte3 :: "nat \<Rightarrow> nat \<Rightarrow> char" where "b64_byte3 c d = char_of ((c mod 4) * 64 + d)"

text \<open>Groups of four; the bits that a padded group leaves over are not checked.\<close>

fun b64_groups :: "string \<Rightarrow> string option" where
  "b64_groups [] = Some []"
| "b64_groups (p # q # r # t # s) =
     (case (b64_val p, b64_val q) of
        (Some a, Some b) \<Rightarrow>
          (if r = CHR ''='' then (if t = CHR ''='' \<and> s = [] then Some [b64_byte1 a b] else None)
           else case b64_val r of
             None \<Rightarrow> None
           | Some c \<Rightarrow>
               if t = CHR ''='' then (if s = [] then Some [b64_byte1 a b, b64_byte2 b c] else None)
               else case b64_val t of
                 None \<Rightarrow> None
               | Some d \<Rightarrow>
                   map_option (\<lambda>r. b64_byte1 a b # b64_byte2 b c # b64_byte3 c d # r) (b64_groups s))
      | _ \<Rightarrow> None)"
| "b64_groups _ = None"

definition b64_decode :: "string \<Rightarrow> string option" where
  "b64_decode s = b64_groups (filter (\<lambda>c. byte_of c \<noteq> 13 \<and> byte_of c \<noteq> 10) s)"

lemma byte_of_char [simp]: "byte_of (char_of (n::nat)) = n mod 256"
  by (simp add: byte_of_def)

lemma char_of_byte [simp]: "char_of (byte_of c) = c"
  by (simp add: byte_of_def)

lemma byte_bound [simp]: "byte_of c < 256"
  by (simp add: byte_of_def)

lemma b64_char_byte:
  "n < 64 \<Longrightarrow> byte_of (b64_char n) =
     (if n < 26 then 65 + n else if n < 52 then 71 + n else if n < 62 then n - 4 else if n = 62 then 43 else 47)"
  by (simp add: b64_char_def) (simp add: byte_of_def)

lemma b64_char_simps [simp]:
  assumes "n < 64"
  shows "b64_val (b64_char n) = Some n" "b64_char n \<noteq> CHR ''=''"
    "byte_of (b64_char n) \<noteq> 13" "byte_of (b64_char n) \<noteq> 10"
    "32 < byte_of (b64_char n)" "byte_of (b64_char n) < 127"
proof -
  note b = b64_char_byte[OF assms]
  show "b64_val (b64_char n) = Some n" using assms by (auto simp: b64_val_def Let_def b)
  have "byte_of (b64_char n) \<noteq> 61" using assms by (auto simp: b)
  then show "b64_char n \<noteq> CHR ''=''" by (auto simp: byte_of_def)
  show "byte_of (b64_char n) \<noteq> 13" "byte_of (b64_char n) \<noteq> 10"
    "32 < byte_of (b64_char n)" "byte_of (b64_char n) < 127" using assms by (auto simp: b)
qed

lemma b64_split:
  fixes r q k :: nat
  assumes "q < k"
  shows "(r * k + q) div k = r" "(r * k + q) mod k = q"
  using assms by simp_all

lemma quotient_bound: "x div 4 < 64" "x div 16 < 16" "x div 64 < 4" if "x < (256::nat)" for x
  using that by (simp_all add: div_less_iff_less_mult)

lemma b64_bits [simp]:
  "byte_of x div 4 < 64" "byte_of x mod 4 * 16 + byte_of y div 16 < 64"
  "byte_of x mod 16 * 4 + byte_of y div 64 < 64" "byte_of x mod 64 < 64"
  "byte_of x mod 4 * 16 < 64" "byte_of x mod 16 * 4 < 64"
proof -
  have m: "byte_of x mod 4 < 4" "byte_of x mod 16 < 16" "byte_of x mod 64 < 64" by simp_all
  note q = quotient_bound[OF byte_bound[of x]] quotient_bound[OF byte_bound[of y]]
  show "byte_of x div 4 < 64" "byte_of x mod 64 < 64" by (rule q(1), rule m(3))
  show "byte_of x mod 4 * 16 + byte_of y div 16 < 64" "byte_of x mod 16 * 4 + byte_of y div 64 < 64"
    "byte_of x mod 4 * 16 < 64" "byte_of x mod 16 * 4 < 64"
    using m q by linarith+
qed

lemma b64_byte1 [simp]: "b64_byte1 (byte_of x div 4) (byte_of x mod 4 * 16 + byte_of y div 16) = x"
  unfolding b64_byte1_def b64_split(1)[OF quotient_bound(2)[OF byte_bound]] div_mult_mod_eq by simp

lemma b64_byte2 [simp]:
  "b64_byte2 (byte_of x mod 4 * 16 + byte_of y div 16) (byte_of y mod 16 * 4 + byte_of z div 64) = y"
  unfolding b64_byte2_def b64_split(2)[OF quotient_bound(2)[OF byte_bound]]
    b64_split(1)[OF quotient_bound(3)[OF byte_bound]] div_mult_mod_eq by simp

lemma b64_byte3 [simp]: "b64_byte3 (byte_of y mod 16 * 4 + byte_of z div 64) (byte_of z mod 64) = z"
  unfolding b64_byte3_def b64_split(2)[OF quotient_bound(3)[OF byte_bound]] div_mult_mod_eq by simp

lemma b64_padded [simp]:
  "b64_byte1 (byte_of x div 4) (byte_of x mod 4 * 16) = x"
  "b64_byte2 (byte_of x mod 4 * 16 + byte_of y div 16) (byte_of y mod 16 * 4) = y"
  using b64_byte1[of x "char_of (0::nat)"] b64_byte2[of x y "char_of (0::nat)"] by simp_all

lemma b64_encode_plain: "c \<in> set (b64_encode s) \<Longrightarrow> 32 < byte_of c \<and> byte_of c < 127"
proof (induction s rule: b64_encode.induct)
  case (2 x)
  have "byte_of CHR ''='' = 61" by (simp add: byte_of_def)
  with 2 show ?case by (auto simp: b64_first_def)
next
  case (3 x y)
  have "byte_of CHR ''='' = 61" by (simp add: byte_of_def)
  with 3 show ?case by (auto simp: b64_first_def)
next
  case (4 x y z s)
  then show ?case by (auto simp: b64_first_def)
qed simp

lemma b64_groups_encode: "b64_groups (b64_encode s) = Some s"
  by (induction s rule: b64_encode.induct) (simp_all add: b64_first_def)

theorem b64_decode_encode [simp]: "b64_decode (b64_encode s) = Some s"
proof -
  have "filter (\<lambda>c. byte_of c \<noteq> 13 \<and> byte_of c \<noteq> 10) (b64_encode s) = b64_encode s"
    using b64_encode_plain by (intro filter_True) force
  then show ?thesis by (simp add: b64_decode_def b64_groups_encode)
qed

end
