(* ===== verification/BtResolve.thy ===== *)
theory BtResolve
  imports BtWorker GoBase64
begin

text \<open>
  The resolution of a BitTorrent source, \<open>internal/download/bt/parse.go\<close>: which texts are sources,
  reading their metainfo within its limit, and the task that is made of it; and \<open>DecodeMetainfo\<close> of
  \<open>model.go\<close>, which reads the metainfo back. The torrent library is the record \<open>torrent_lib\<close>; what
  the network and the disk answer are arguments.
\<close>

text \<open>A call returns, is still waiting for its reader, or panics on a nil dereference.\<close>

datatype 'a call = Panics | Waits | Returns 'a

section \<open>Options\<close>

record bt_options =
  bto_dir :: string
  bto_proxy :: string
  bto_headers :: strmap
  bto_runtime :: runtime_options
  bto_extra_trackers :: "string list"

definition normalize_bt_options :: "bt_options \<Rightarrow> bt_options" where
  "normalize_bt_options opts =
     (let dir = trim_space (bto_dir opts); r = bto_runtime opts;
          r = (if rto_metadata_timeout r \<le> 0 then r\<lparr>rto_metadata_timeout := 30 * second\<rparr> else r);
          r = (if rto_listen_port r < 0 \<or> rto_listen_port r > 65535 then r\<lparr>rto_listen_port := 0\<rparr> else r);
          r = (if rto_connections_limit r \<le> 0 then r\<lparr>rto_connections_limit := 500\<rparr> else r);
          r = (if rto_download_rate r < 0 then r\<lparr>rto_download_rate := 0\<rparr> else r);
          r = (if rto_upload_rate r < 0 then r\<lparr>rto_upload_rate := 0\<rparr> else r);
          r = (if rto_seed_ratio r < 0 then r\<lparr>rto_seed_ratio := 0\<rparr> else r);
          r = (if rto_seed_minutes r < 0 then r\<lparr>rto_seed_minutes := 0\<rparr> else r) in
      opts\<lparr>bto_dir := if dir = [] then ''.'' else dir, bto_runtime := r\<rparr>)"

definition clone_headers :: "strmap \<Rightarrow> strmap" where
  "clone_headers h = (case h of None \<Rightarrow> None | Some m \<Rightarrow> if m = fmempty then None else Some m)"

section \<open>The torrent library\<close>

text \<open>A decoded metainfo: its info dictionary, which may not decode, and the distinct values of
  its announce list.\<close>

record torrent_file =
  tof_info :: "meta_info result"
  tof_announce :: "string list"

text \<open>
  \<open>tl_magnet\<close>: whether a magnet link has an info hash, and its trackers. \<open>tl_duration\<close> is the text
  of a \<open>time.Duration\<close>.
\<close>

record torrent_lib =
  tl_magnet :: "string \<Rightarrow> (bool \<times> string list) result"
  tl_load :: "string \<Rightarrow> torrent_file result"
  tl_duration :: "int \<Rightarrow> string"

section \<open>Sources\<close>

definition is_torrent_path :: "unicode \<Rightarrow> string \<Rightarrow> bool" where
  "is_torrent_path u p \<longleftrightarrow> equal_fold u (fp_ext p) ''.torrent''"

definition bt_is_source :: "unicode \<Rightarrow> netlib \<Rightarrow> torrent_lib \<Rightarrow> string \<Rightarrow> bool" where
  "bt_is_source u nl lib source =
     (let tx = trim_space source;
          plain = (\<not> contains_str tx ''://'' \<and> is_torrent_path u tx) in
      if tx = [] then False
      else case nl_parse_url nl tx of
        Inl _ \<Rightarrow> plain
      | Inr p \<Rightarrow>
          (let scheme = to_lower u (up_scheme p) in
           if scheme = ''magnet''
           then (case tl_magnet lib tx of Inl _ \<Rightarrow> False | Inr (hash, _) \<Rightarrow> hash)
           else if scheme \<in> set [''http'', ''https'', ''file''] then is_torrent_path u (up_path p)
           else plain))"

section \<open>Reading metainfo\<close>

definition max_metainfo_bytes :: int where
  "max_metainfo_bytes = 67108864"

definition too_much_metadata :: goerr where
  "too_much_metadata = new_error (''torrent metadata exceeds '' @ itoa max_metainfo_bytes @ '' bytes'')"

datatype read_end = ReadMore | ReadEOF | ReadErr goerr

text \<open>
  A round of the loop: the context's error before it, how many bytes the reader has ready, and how
  its \<open>Read\<close> ends. The loop reads at most 32 KiB at a time and one byte more than the limit in all.
\<close>

type_synonym read_round = "goerr option \<times> nat \<times> read_end"

definition metainfo_chunk :: nat where
  "metainfo_chunk = 32768"

primrec read_limited ::
  "int \<Rightarrow> read_round list \<Rightarrow> string \<Rightarrow> string \<Rightarrow> string result call" where
  "read_limited limit [] data buf = Waits"
| "read_limited limit (rd # rounds) data buf =
     (case rd of (ctx, n, stop) \<Rightarrow> case ctx of
        Some e \<Rightarrow> Returns (Inl e)
      | None \<Rightarrow>
          (let room = limit + 1 - int (length buf) in
           if room \<le> 0 then Returns (Inr buf)
           else
             (let got = take (min n (min metainfo_chunk (nat room))) data; buf = buf @ got in
              if got \<noteq> [] \<and> int (length buf) > limit then Returns (Inl too_much_metadata)
              else case stop of
                ReadEOF \<Rightarrow> Returns (Inr buf)
              | ReadErr e \<Rightarrow> Returns (Inl e)
              | ReadMore \<Rightarrow> read_limited limit rounds (drop (length got) data) buf)))"

definition load_metainfo_bytes :: "torrent_lib \<Rightarrow> string \<Rightarrow> torrent_file result" where
  "load_metainfo_bytes lib data =
     (if int (length data) > max_metainfo_bytes then Inl too_much_metadata
      else map_sum (wrap_error ''decode torrent metainfo: '') id (tl_load lib data))"

definition read_limited_file :: "read_round list \<Rightarrow> fsys \<Rightarrow> string \<Rightarrow> string result call" where
  "read_limited_file rounds fs path =
     (case os_stat fs path of
        Inl e \<Rightarrow> Returns (Inl (wrap_error ''open torrent file: '' e))
      | Inr (NFile c) \<Rightarrow>
          if int (length c) > max_metainfo_bytes then Returns (Inl too_much_metadata)
          else read_limited max_metainfo_bytes rounds c []
      | Inr _ \<Rightarrow> Returns (Inl (new_error ''read: is a directory'')))"

text \<open>A response of a server: its body and the rounds in which it is read.\<close>

record torrent_reply =
  trp_status :: int
  trp_status_text :: string
  trp_length :: int
  trp_rounds :: "read_round list"
  trp_body :: string
  trp_url :: string

text \<open>\<open>socks\<close>: the error of \<open>proxy.FromURL\<close> for a proxy address, None when it is accepted.\<close>

definition http_client_error ::
  "unicode \<Rightarrow> netlib \<Rightarrow> (url_parts \<Rightarrow> goerr option) \<Rightarrow> string \<Rightarrow> goerr option" where
  "http_client_error u nl socks proxy =
     (let tx = trim_space proxy in
      if tx = [] then None
      else case nl_parse_url nl tx of
        Inl e \<Rightarrow> Some (wrap_error ''invalid proxy URL: '' e)
      | Inr p \<Rightarrow>
          if to_lower u (up_scheme p) \<in> set [''http'', ''https''] then None
          else if to_lower u (up_scheme p) \<in> set [''socks5'', ''socks5h'']
          then map_option (wrap_error ''invalid SOCKS proxy: '') (socks p)
          else Some (new_error (''unsupported proxy scheme '' @ quote u (up_scheme p))))"

definition fetch_headers :: "strmap \<Rightarrow> (string, string) fmap" where
  "fetch_headers h =
     (case h of None \<Rightarrow> fmempty | Some m \<Rightarrow> fmfilter (\<lambda>k. trim_space (map_get h k) \<noteq> []) m)"

definition fetch_torrent ::
  "unicode \<Rightarrow> netlib \<Rightarrow> (url_parts \<Rightarrow> goerr option) \<Rightarrow> (string \<Rightarrow> (string, string) fmap \<Rightarrow> torrent_reply result) \<Rightarrow>
   string \<Rightarrow> bt_options \<Rightarrow> (string \<times> string) result call" where
  "fetch_torrent u nl socks net source opts =
     (case http_client_error u nl socks (bto_proxy opts) of
        Some e \<Rightarrow> Returns (Inl e)
      | None \<Rightarrow>
          (case nl_parse_url nl source of
             Inl e \<Rightarrow> Returns (Inl e)
           | Inr _ \<Rightarrow>
               (case net source (fetch_headers (bto_headers opts)) of
                  Inl e \<Rightarrow> Returns (Inl (wrap_error ''fetch torrent metadata: '' e))
                | Inr r \<Rightarrow>
                    if trp_status r < 200 \<or> trp_status r \<ge> 300
                    then Returns (Inl (new_error (''torrent request failed: '' @ trp_status_text r)))
                    else if trp_length r > max_metainfo_bytes then Returns (Inl too_much_metadata)
                    else map_call (map_sum id (\<lambda>data. (data, trp_url r)))
                      (read_limited max_metainfo_bytes (trp_rounds r) (trp_body r) []))))"

text \<open>A host of two characters with a colon is a drive.\<close>

definition file_url_path :: "unicode \<Rightarrow> url_parts \<Rightarrow> string result" where
  "file_url_path u p =
     (if \<not> equal_fold u (up_scheme p) ''file'' then Inl (new_error ''not a file URL'')
      else
        (let h = up_host p;
             path = (if length h = 2 \<and> h ! 1 = CHR '':'' then h @ up_path p
               else if h \<noteq> [] then ''//'' @ h @ up_path p
               else if up_opaque p \<noteq> [] then up_opaque p else up_path p) in
         case path_unescape path of
           None \<Rightarrow> Inl (new_error ''decode file URL: invalid URL escape'')
         | Some s \<Rightarrow>
             Inr (from_slash (if length s \<ge> 3 \<and> s ! 0 = slash \<and> s ! 2 = CHR '':'' then tl s else s))))"

section \<open>Magnet links\<close>

text \<open>What the metadata's context ended with, if it did.\<close>

datatype ctx_end = CtxAlive | CtxDeadline | CtxCanceled

definition deadline_exceeded :: goerr where
  "deadline_exceeded = new_error ''context deadline exceeded''"

text \<open>
  The engine that fetches the metadata: what its steps gave; \<open>mge_info\<close> is the error of the context
  when it ends before the metadata arrives, \<open>mge_write\<close> the encoded metainfo.
\<close>

record magnet_engine =
  mge_temp_dir :: "goerr option"
  mge_proxy :: "goerr option"
  mge_client :: "unit result"
  mge_spec :: "goerr option"
  mge_add :: "goerr option"
  mge_info :: "goerr option"
  mge_write :: "string result"

definition resolve_magnet :: "magnet_engine \<Rightarrow> string result" where
  "resolve_magnet g =
     (case mge_temp_dir g of Some e \<Rightarrow> Inl e
      | None \<Rightarrow> (case mge_proxy g of Some e \<Rightarrow> Inl e
      | None \<Rightarrow> (case mge_client g of Inl e \<Rightarrow> Inl (wrap_error ''create BitTorrent metadata client: '' e)
      | Inr _ \<Rightarrow> (case mge_spec g of Some e \<Rightarrow> Inl (wrap_error ''add magnet: '' e)
      | None \<Rightarrow> (case mge_add g of Some e \<Rightarrow> Inl (wrap_error ''add magnet: '' e)
      | None \<Rightarrow> (case mge_info g of Some e \<Rightarrow> Inl e
      | None \<Rightarrow> (case mge_write g of Inl e \<Rightarrow> Inl (wrap_error ''encode magnet metainfo: '' e)
      | Inr data \<Rightarrow> if int (length data) > max_metainfo_bytes then Inl too_much_metadata else Inr data)))))))"

section \<open>The task\<close>

text \<open>
  The outside of a resolution: the disk and the rounds of reading a file, the network, the resolver
  of magnet links with the end of its context, and the ids and the time of the new task.
\<close>

record bt_outside =
  bx_fs :: fsys
  bx_rounds :: "read_round list"
  bx_net :: "string \<Rightarrow> (string, string) fmap \<Rightarrow> torrent_reply result"
  bx_socks :: "url_parts \<Rightarrow> goerr option"
  bx_magnet :: "string result"
  bx_magnet_ctx :: ctx_end
  bx_task_id :: string
  bx_stage_id :: string
  bx_now :: int

record loaded_source =
  lds_data :: string
  lds_type :: string
  lds_source :: string
  lds_trackers :: "string list"

definition load_source ::
  "unicode \<Rightarrow> netlib \<Rightarrow> torrent_lib \<Rightarrow> bt_outside \<Rightarrow> string \<Rightarrow> bt_options \<Rightarrow> loaded_source result call" where
  "load_source u nl lib x source opts =
     (case nl_parse_url nl source of
        Inl _ \<Rightarrow> Panics
      | Inr p \<Rightarrow>
          (let scheme = to_lower u (up_scheme p) in
           if scheme = ''magnet'' then
             (case tl_magnet lib source of
                Inl e \<Rightarrow> Returns (Inl (wrap_error ''invalid magnet URI: '' e))
              | Inr (_, trackers) \<Rightarrow>
                  (case bx_magnet x of
                     Inr data \<Rightarrow> Returns (Inr \<lparr>lds_data = data, lds_type = ''magnet'', lds_source = source,
                       lds_trackers = trackers\<rparr>)
                   | Inl e \<Rightarrow>
                       (case bx_magnet_ctx x of
                          CtxDeadline \<Rightarrow> Returns (Inl (wrap_error (''magnet metadata timeout after ''
                            @ tl_duration lib (rto_metadata_timeout (bto_runtime opts)) @ '': '') deadline_exceeded))
                        | CtxCanceled \<Rightarrow> Returns (Inl ctx_canceled)
                        | CtxAlive \<Rightarrow> Returns (Inl (wrap_error ''resolve magnet metadata: '' e)))))
           else if scheme \<in> set [''http'', ''https''] then
             map_call (map_sum id (\<lambda>(data, url).
                 \<lparr>lds_data = data, lds_type = ''torrent'', lds_source = url, lds_trackers = []\<rparr>))
               (fetch_torrent u nl (bx_socks x) (bx_net x) source opts)
           else if scheme = ''file'' then
             (case file_url_path u p of
                Inl e \<Rightarrow> Returns (Inl e)
              | Inr path \<Rightarrow>
                  map_call (map_sum id (\<lambda>data.
                      \<lparr>lds_data = data, lds_type = ''torrent'', lds_source = path, lds_trackers = []\<rparr>))
                    (read_limited_file (bx_rounds x) (bx_fs x) path))
           else
             map_call (map_sum id (\<lambda>data.
                 \<lparr>lds_data = data, lds_type = ''torrent'', lds_source = fp_abs (fs_cwd (bx_fs x)) source,
                   lds_trackers = []\<rparr>))
               (read_limited_file (bx_rounds x) (bx_fs x) source)))"

definition task_texts ::
  "string \<Rightarrow> string \<Rightarrow> string \<Rightarrow> string \<Rightarrow> runtime_options \<Rightarrow> (string \<times> string) list" where
  "task_texts data source_type trackers files r =
     [(''metainfo'', b64_encode data), (''sourceType'', source_type), (''trackers'', trackers), (''files'', files),
      (''metadataTimeoutSec'', itoa (whole_seconds (rto_metadata_timeout r))),
      (''listenPort'', itoa (rto_listen_port r)),
      (''connectionsLimit'', itoa (rto_connections_limit r)),
      (''downloadRateLimit'', itoa (rto_download_rate r)),
      (''uploadRateLimit'', itoa (rto_upload_rate r)),
      (''enableDHT'', format_bool (rto_enable_dht r)),
      (''enableLSD'', format_bool (rto_enable_lsd r)),
      (''enableUPnP'', format_bool (rto_enable_upnp r)),
      (''enableNATPMP'', format_bool (rto_enable_natpmp r)),
      (''sequentialDownload'', format_bool (rto_sequential r)),
      (''seedRatioLimitPercent'', itoa (rto_seed_ratio r)),
      (''seedTimeLimitMinutes'', itoa (rto_seed_minutes r)),
      (''saveMagnetTorrentFile'', format_bool (rto_save_magnet r))]"

definition make_bt_task ::
  "unicode \<Rightarrow> netlib \<Rightarrow> torrent_lib \<Rightarrow> bt_codec \<Rightarrow> bt_outside \<Rightarrow> bt_options \<Rightarrow> loaded_source \<Rightarrow> task result" where
  "make_bt_task u nl lib bc x opts src =
     (case load_metainfo_bytes lib (lds_data src) of
        Inl e \<Rightarrow> Inl e
      | Inr mi \<Rightarrow>
          (case tof_info mi of
             Inl e \<Rightarrow> Inl (wrap_error ''decode torrent info dictionary: '' e)
           | Inr info \<Rightarrow>
               (case files_from_info u info of
                  Inl e \<Rightarrow> Inl e
                | Inr (files, total_size) \<Rightarrow>
                    (let trackers = parse_trackers u nl
                       (lds_trackers src @ tof_announce mi @ bto_extra_trackers opts) in
                     case bc_marshal_files bc files of
                       Inl e \<Rightarrow> Inl (wrap_error ''encode BitTorrent files: '' e)
                     | Inr files_text \<Rightarrow>
                         (case bc_marshal_strings bc trackers of
                            Inl e \<Rightarrow> Inl (wrap_error ''encode BitTorrent trackers: '' e)
                          | Inr trackers_text \<Rightarrow>
                              (let stage = new_stage (bx_stage_id x) ''bt'' (lds_source src) total_size 1 0 False
                                     (clone_headers (bto_headers opts)) (bto_proxy opts);
                                   stage = stage\<lparr>stg_state := Some (fmap_of_list
                                     (task_texts (lds_data src) (lds_type src) trackers_text files_text
                                       (bto_runtime opts)))\<rparr>;
                                   title = bt_safe_name (mi_best_name info) ''torrent'';
                                   t = new_task (bx_task_id x) (bx_now x) ''bt'' title (lds_source src)
                                     (bto_dir opts) total_size stage in
                               case storage_paths u t info files of
                                 Inl e \<Rightarrow> Inl e
                               | Inr _ \<Rightarrow> Inr t))))))"

text \<open>\<open>Resolve\<close>; \<open>ctx\<close> is the context's error at the start.\<close>

definition resolve_bt ::
  "unicode \<Rightarrow> netlib \<Rightarrow> torrent_lib \<Rightarrow> bt_codec \<Rightarrow> bt_outside \<Rightarrow> goerr option \<Rightarrow> string \<Rightarrow> bt_options \<Rightarrow>
   task result call" where
  "resolve_bt u nl lib bc x ctx source opts =
     (case ctx of
        Some e \<Rightarrow> Returns (Inl e)
      | None \<Rightarrow>
          (let source = trim_space source in
           if \<not> bt_is_source u nl lib source then Returns (Inl (new_error ''not a supported BitTorrent source''))
           else
             (let opts = normalize_bt_options opts in
              case load_source u nl lib x source opts of
                Panics \<Rightarrow> Panics
              | Waits \<Rightarrow> Waits
              | Returns (Inl e) \<Rightarrow> Returns (Inl e)
              | Returns (Inr src) \<Rightarrow> Returns (make_bt_task u nl lib bc x opts src))))"

text \<open>\<open>DecodeMetainfo\<close> of a task.\<close>

definition decode_metainfo :: "torrent_lib \<Rightarrow> task \<Rightarrow> torrent_file result" where
  "decode_metainfo lib t =
     (case stg_state (tsk_stage t) of
        None \<Rightarrow> Inl (new_error ''BitTorrent task has no state'')
      | Some _ \<Rightarrow>
          (let encoded = trim_space (map_get (stg_state (tsk_stage t)) ''metainfo'') in
           if encoded = [] then Inl (new_error ''BitTorrent task has no metainfo'')
           else case b64_decode encoded of
             None \<Rightarrow> Inl (new_error ''decode BitTorrent metainfo base64: illegal base64 data'')
           | Some data \<Rightarrow> map_sum (wrap_error ''decode BitTorrent metainfo: '') id (tl_load lib data)))"

end
