(* ===== verification/BtClient.thy ===== *)
theory BtClient
  imports BtResolve
begin

text \<open>
  The client of the BitTorrent runtime, \<open>internal/btruntime/client.go\<close>, and the runtime's process,
  \<open>cmd/gd3-bt-runtime/main.go\<close>. The main program runs the torrent engine in a child process and
  talks to it over pipes: the client has its own recognition of sources, its own edits of the files
  of a task, and workers that forward the messages of the child. The child's exit, its stderr and
  the decoding of its output are data.
\<close>

section \<open>Sources and trackers\<close>

text \<open>\<open>URL.Query ()\<close>: the values of a key; a pair that does not decode is left out.\<close>

definition query_pair :: "string \<Rightarrow> (string \<times> string) option" where
  "query_pair s =
     (if s = [] \<or> contains_str s '';'' then None
      else case cut_str s ''='' of (k, v, _) \<Rightarrow>
        (case (query_unescape k, query_unescape v) of
           (Some a, Some b) \<Rightarrow> Some (a, b) | _ \<Rightarrow> None))"

definition query_values :: "string \<Rightarrow> string \<Rightarrow> string list" where
  "query_values q k = map snd (filter (\<lambda>p. fst p = k) (List.map_filter query_pair (split_on CHR ''&'' q)))"

definition names_torrent :: "unicode \<Rightarrow> string \<Rightarrow> bool" where
  "names_torrent u topic \<longleftrightarrow>
     (let l = to_lower u topic in
      prefix ''urn:btih:'' l \<and> length topic > length ''urn:btih:'' \<or>
      prefix ''urn:btmh:'' l \<and> length topic > length ''urn:btmh:'')"

definition client_is_source :: "unicode \<Rightarrow> netlib \<Rightarrow> string \<Rightarrow> bool" where
  "client_is_source u nl source =
     (let tx = trim_space source;
          plain = (\<not> contains_str tx ''://'' \<and> equal_fold u (fp_ext tx) ''.torrent'') in
      if tx = [] then False
      else case nl_parse_url nl tx of
        Inl _ \<Rightarrow> plain
      | Inr p \<Rightarrow>
          (let scheme = to_lower u (up_scheme p) in
           if scheme = ''magnet'' then list_ex (names_torrent u) (query_values (up_query p) ''xt'')
           else if scheme \<in> set [''http'', ''https'', ''file'']
           then equal_fold u (fp_ext (up_path p)) ''.torrent''
           else plain))"

definition client_add_tracker :: "unicode \<Rightarrow> netlib \<Rightarrow> string list \<Rightarrow> string \<Rightarrow> string list" where
  "client_add_tracker u nl found field =
     (let tracker = trim_space field in
      if tracker = [] then found
      else case nl_parse_url nl tracker of
        Inl _ \<Rightarrow> found
      | Inr p \<Rightarrow>
          if up_host p = [] then found
          else if to_lower u (up_scheme p) \<in> set [''http'', ''https'', ''udp'', ''ws'', ''wss''] then
            (if tracker \<in> set found then found else found @ [tracker])
          else found)"

definition client_parse_trackers :: "unicode \<Rightarrow> netlib \<Rightarrow> string \<Rightarrow> string list" where
  "client_parse_trackers u nl tx = foldl (client_add_tracker u nl) [] (go_fields tx)"

section \<open>The files of a task\<close>

definition client_files_from_task :: "bt_codec \<Rightarrow> task \<Rightarrow> bt_file list result" where
  "client_files_from_task bc t =
     (let s = stg_state (tsk_stage t) in
      if s = None \<or> trim_space (map_get s ''files'') = []
      then Inl (new_error ''BitTorrent task has no file metadata'')
      else case bc_unmarshal_files bc (map_get s ''files'') of
        Inl e \<Rightarrow> Inl (wrap_error ''decode BitTorrent files: '' e)
      | Inr files \<Rightarrow>
          if files = [] then Inl (new_error ''BitTorrent task has no downloadable files'')
          else Inr files)"

definition normalize_file_priority :: "int \<Rightarrow> bool \<Rightarrow> int" where
  "normalize_file_priority priority selected =
     (if \<not> selected then 0 else if priority \<ge> 1 \<and> priority \<le> 3 then priority else 2)"

definition clamp_downloaded :: "int \<Rightarrow> int \<Rightarrow> int" where
  "clamp_downloaded d n = (if d < 0 then 0 else if d > n then n else d)"

definition selection_progress :: "(rat \<Rightarrow> rat) \<Rightarrow> int \<Rightarrow> int \<Rightarrow> rat" where
  "selection_progress rnd received total_size = (if total_size \<le> 0 then 0 else percent rnd received total_size)"

definition prioritize_file :: "(int \<Rightarrow> int option) \<Rightarrow> bt_file \<Rightarrow> bt_file result" where
  "prioritize_file prios f =
     (case prios (bf_index f) of
        Some p \<Rightarrow>
          if p < 1 \<or> p > 3
          then Inl (new_error (''invalid BitTorrent priority '' @ itoa p @ '' for file index '' @ itoa (bf_index f)))
          else Inr (f\<lparr>bf_selected := True, bf_priority := p,
            bf_downloaded := clamp_downloaded (bf_downloaded f) (bf_size f)\<rparr>)
      | None \<Rightarrow> Inr (f\<lparr>bf_selected := False, bf_priority := 0, bf_downloaded := 0, bf_completed := False\<rparr>))"

fun prioritize_files :: "(int \<Rightarrow> int option) \<Rightarrow> bt_file list \<Rightarrow> bt_file list result" where
  "prioritize_files prios [] = Inr []"
| "prioritize_files prios (f # fs) =
     (case prioritize_file prios f of
        Inl e \<Rightarrow> Inl e
      | Inr g \<Rightarrow> (case prioritize_files prios fs of Inl e \<Rightarrow> Inl e | Inr r \<Rightarrow> Inr (g # r)))"

definition selected_received :: "bt_file list \<Rightarrow> int" where
  "selected_received files = foldl (\<lambda>n f. if bf_selected f then wrap64 (n + bf_downloaded f) else n) 0 files"

text \<open>The priorities are a Go map: index and priority, each index once.\<close>

definition set_file_priorities ::
  "(rat \<Rightarrow> rat) \<Rightarrow> bt_codec \<Rightarrow> task \<Rightarrow> (int \<times> int) list \<Rightarrow> task result" where
  "set_file_priorities rnd bc t prios =
     (case client_files_from_task bc t of
        Inl e \<Rightarrow> Inl e
      | Inr files \<Rightarrow>
          if prios = [] then Inl (new_error ''at least one BitTorrent file must be selected'')
          else case prioritize_files (map_of prios) files of
            Inl e \<Rightarrow> Inl e
          | Inr files \<Rightarrow>
              (let total_size = selected_size files; received = selected_received files in
               if \<not> list_ex bf_selected files
               then Inl (new_error ''selected BitTorrent indexes contain no downloadable file'')
               else case bc_marshal_files bc files of
                 Inl e \<Rightarrow> Inl (wrap_error ''encode BitTorrent files: '' e)
               | Inr encoded \<Rightarrow>
                   (let g = tsk_stage t; progress = selection_progress rnd received total_size in
                    Inr (t\<lparr>tsk_file_size := total_size, tsk_received := received, tsk_progress := progress,
                      tsk_stage := g\<lparr>stg_state := map_set (clone_string_map (stg_state g)) ''files'' encoded,
                        stg_file_size := total_size, stg_received := received,
                        stg_progress := progress\<rparr>\<rparr>))))"

definition chosen_priority :: "bt_file list \<Rightarrow> int \<Rightarrow> int" where
  "chosen_priority files i =
     (let current = (case map_of (rev (map (\<lambda>f. (bf_index f, normalize_file_priority (bf_priority f) (bf_selected f)))
          files)) i of None \<Rightarrow> 0 | Some p \<Rightarrow> p) in
      if current = 0 then 2 else current)"

definition client_set_selected_files ::
  "(rat \<Rightarrow> rat) \<Rightarrow> bt_codec \<Rightarrow> task \<Rightarrow> int list \<Rightarrow> task result" where
  "client_set_selected_files rnd bc t chosen =
     (case client_files_from_task bc t of
        Inl e \<Rightarrow> Inl e
      | Inr files \<Rightarrow> set_file_priorities rnd bc t (map (\<lambda>i. (i, chosen_priority files i)) chosen))"

section \<open>The protocol\<close>

record runtime_message =
  rtm_task :: "task option"
  rtm_update :: "progress_update option"
  rtm_error :: string
  rtm_done :: bool

text \<open>
  What the client's decoder gives: a message or an error. The end of the list is the end of the
  output.
\<close>

datatype pipe_item = PipeMessage runtime_message | PipeBroken goerr

text \<open>The reports, the error of the runtime, and whether the terminal message came.\<close>

fun client_messages ::
  "pipe_item list \<Rightarrow> goerr option \<Rightarrow> progress_update list \<times> goerr option \<times> bool" where
  "client_messages [] err = ([], err, False)"
| "client_messages (PipeBroken e # items) err =
     ([], Some (wrap_error ''decode BitTorrent runtime output: '' e), False)"
| "client_messages (PipeMessage m # items) err =
     (let us = (case rtm_update m of None \<Rightarrow> [] | Some u \<Rightarrow> [u]);
          err = (if rtm_error m \<noteq> [] then Some (new_error (rtm_error m)) else err) in
      if rtm_done m then (us, err, True)
      else case client_messages items err of (vs, r) \<Rightarrow> (us @ vs, r))"

text \<open>A child process: whether it starts and takes the task, its output, its exit and its stderr.\<close>

record child_run =
  chr_start :: "goerr option"
  chr_send :: "goerr option"
  chr_output :: "pipe_item list"
  chr_wait :: "goerr option"
  chr_stderr :: string

definition runtime_start_error :: "unicode \<Rightarrow> string \<Rightarrow> goerr \<Rightarrow> goerr" where
  "runtime_start_error u path err =
     GoErr (''start BitTorrent runtime '' @ quote u path @ '': '' @ err_text err
       @ ''; keep gd3-bt-runtime.exe beside gd3win.exe'') (err_canceled err) (err_not_exist err)"

definition runtime_path :: "string \<Rightarrow> string result \<Rightarrow> string" where
  "runtime_path override exe =
     (if trim_space override \<noteq> [] then override
      else case exe of
        Inl _ \<Rightarrow> ''gd3-bt-runtime.exe''
      | Inr x \<Rightarrow> fp_join [fp_dir x, ''gd3-bt-runtime.exe''])"

text \<open>\<open>Worker.Run\<close>; \<open>ctx\<close> is the context's error when the child has ended.\<close>

definition client_run ::
  "unicode \<Rightarrow> string \<Rightarrow> goerr option \<Rightarrow> child_run \<Rightarrow> goerr option \<times> progress_update list" where
  "client_run u path ctx c =
     (case chr_start c of
        Some e \<Rightarrow> (Some (runtime_start_error u path e), [])
      | None \<Rightarrow>
          (case chr_send c of
             Some e \<Rightarrow> (Some (wrap_error ''send task to BitTorrent runtime: '' e), [])
           | None \<Rightarrow>
               (case client_messages (chr_output c) None of
                  (us, runtime_err, saw_done) \<Rightarrow>
                    (if ctx \<noteq> None then ctx
                     else if runtime_err \<noteq> None then runtime_err
                     else if \<not> saw_done
                     then Some (new_error ''BitTorrent runtime closed without a terminal message'')
                     else map_option (\<lambda>e. GoErr (''BitTorrent runtime exited: '' @ err_text e @ '': ''
                       @ trim_space (chr_stderr c)) (err_canceled e) (err_not_exist e)) (chr_wait c), us))))"

text \<open>
  \<open>runSingle\<close> and its two callers. The child's run is an error, with whether it says that the
  program is missing, or the response that its output decodes to.
\<close>

definition run_single ::
  "unicode \<Rightarrow> string \<Rightarrow> string \<Rightarrow> goerr option \<Rightarrow> string \<Rightarrow> (goerr \<times> bool) + runtime_message result \<Rightarrow>
   runtime_message result" where
  "run_single u path action ctx stderr outcome =
     (case outcome of
        Inl (e, missing) \<Rightarrow>
          (case ctx of
             Some c \<Rightarrow> Inl c
           | None \<Rightarrow>
               if missing \<or> err_not_exist e then Inl (runtime_start_error u path e)
               else Inl (GoErr (''BitTorrent runtime '' @ action @ '' failed: '' @ err_text e @ '': ''
                 @ trim_space stderr) (err_canceled e) (err_not_exist e)))
      | Inr (Inl e) \<Rightarrow> Inl (wrap_error (''decode BitTorrent runtime '' @ action @ '' response: '') e)
      | Inr (Inr m) \<Rightarrow> Inr m)"

definition single_task :: "string \<Rightarrow> runtime_message result \<Rightarrow> task result" where
  "single_task missing response =
     (case response of
        Inl e \<Rightarrow> Inl e
      | Inr m \<Rightarrow>
          if rtm_error m \<noteq> [] then Inl (new_error (rtm_error m))
          else case rtm_task m of None \<Rightarrow> Inl (new_error missing) | Some t \<Rightarrow> Inr t)"

definition client_resolve ::
  "unicode \<Rightarrow> string \<Rightarrow> goerr option \<Rightarrow> string \<Rightarrow> (goerr \<times> bool) + runtime_message result \<Rightarrow> task result" where
  "client_resolve u path ctx stderr outcome =
     single_task ''BitTorrent runtime returned no task'' (run_single u path ''resolve'' ctx stderr outcome)"

definition client_reset ::
  "unicode \<Rightarrow> string \<Rightarrow> string \<Rightarrow> (goerr \<times> bool) + runtime_message result \<Rightarrow> task result" where
  "client_reset u path stderr outcome =
     single_task ''BitTorrent runtime returned no reset task'' (run_single u path ''reset'' None stderr outcome)"

section \<open>The runtime's process\<close>

definition encode_result :: "task result \<Rightarrow> runtime_message" where
  "encode_result r =
     (case r of
        Inl e \<Rightarrow> \<lparr>rtm_task = None, rtm_update = None, rtm_error = err_text e, rtm_done = True\<rparr>
      | Inr t \<Rightarrow> \<lparr>rtm_task = Some t, rtm_update = None, rtm_error = [], rtm_done = True\<rparr>)"

text \<open>
  \<open>runWorker\<close>: the messages of a run that reported \<open>us\<close> and returned \<open>err\<close>, and the texts that \<open>emit\<close> writes of
  them. An error of the encoder is ignored, so a message that does not encode is left out.
\<close>

record pipe_codec =
  pcd_encode :: "runtime_message \<Rightarrow> string result"
  pcd_decode :: "string \<Rightarrow> runtime_message result"

definition runtime_messages :: "goerr option \<Rightarrow> progress_update list \<Rightarrow> runtime_message list" where
  "runtime_messages err us =
     map (\<lambda>u. \<lparr>rtm_task = None, rtm_update = Some u, rtm_error = [], rtm_done = False\<rparr>) us @
     [\<lparr>rtm_task = None, rtm_update = None,
       rtm_error = (case err of None \<Rightarrow> [] | Some e \<Rightarrow> if err_canceled e then [] else err_text e),
       rtm_done = True\<rparr>]"

definition emit_messages :: "pipe_codec \<Rightarrow> runtime_message list \<Rightarrow> string list" where
  "emit_messages pc ms =
     List.map_filter (\<lambda>m. case pcd_encode pc m of Inl _ \<Rightarrow> None | Inr line \<Rightarrow> Some line) ms"

definition runtime_worker_output :: "pipe_codec \<Rightarrow> goerr option \<Rightarrow> progress_update list \<Rightarrow> string list" where
  "runtime_worker_output pc err us = emit_messages pc (runtime_messages err us)"

text \<open>What the client's decoder makes of such a text.\<close>

definition read_message :: "pipe_codec \<Rightarrow> string \<Rightarrow> pipe_item" where
  "read_message pc line = (case pcd_decode pc line of Inl e \<Rightarrow> PipeBroken e | Inr m \<Rightarrow> PipeMessage m)"

end
