(* ===== verification/JsonText.thy ===== *)
theory JsonText
  imports GoUtf8 GoBase64 CoreModel "HOL-Library.List_Lexorder" "HOL-Library.Char_ord"
begin

text \<open>
  What \<open>encoding/json\<close> documents of the values it writes and reads back: a string loses its
  invalid UTF-8, a task whose strings are valid and whose maps with \<open>omitempty\<close> are not empty
  is unchanged. The second part is a codec that satisfies it, for the examples.
\<close>

section \<open>Strings\<close>

text \<open>The encoder replaces every byte that is not part of a valid rune by U+FFFD.\<close>

definition json_text :: "string \<Rightarrow> string" where
  "json_text = map_ascii id"

definition valid_utf8 :: "string \<Rightarrow> bool" where
  "valid_utf8 s \<longleftrightarrow> json_text s = s"

lemma json_text_valid [simp]: "valid_utf8 (json_text s)"
  by (simp add: valid_utf8_def json_text_def map_ascii_idem)

lemma json_text_ascii: "list_all (\<lambda>c. byte_of c < 128) s \<Longrightarrow> json_text (s @ t) = s @ json_text t"
  by (induction s) (simp_all add: json_text_def map_ascii_byte)

lemma valid_ascii_append: "list_all (\<lambda>c. byte_of c < 128) s \<Longrightarrow> valid_utf8 (s @ t) \<longleftrightarrow> valid_utf8 t"
  by (simp add: valid_utf8_def json_text_ascii)

lemma valid_Nil [simp]: "valid_utf8 []"
  by (simp add: valid_utf8_def json_text_def)

lemma valid_ascii: "list_all (\<lambda>c. byte_of c < 128) s \<Longrightarrow> valid_utf8 s"
  using valid_ascii_append[of s "[]"] by simp

lemma valid_b64: "valid_utf8 (b64_encode s)"
proof (rule valid_ascii)
  show "list_all (\<lambda>c. byte_of c < 128) (b64_encode s)"
    using b64_encode_plain[of _ s] by (fastforce simp: list_all_iff)
qed

text \<open>Valid strings are built from valid strings, and stay valid when ASCII is cut off.\<close>

lemma valid_rune: "s \<noteq> [] \<Longrightarrow> valid_utf8 s \<Longrightarrow> rune_len s \<noteq> 0"
proof
  assume s: "s \<noteq> []" "valid_utf8 s" and z: "rune_len s = 0"
  then have "s = replacement @ json_text (tl s)"
    using map_ascii_unfold[OF s(1), of id] by (simp add: valid_utf8_def json_text_def)
  then have "rune_len s = 3" by (metis rune_len_replacement)
  with z show False by simp
qed

lemma json_text_rune:
  assumes "rune_len s \<noteq> 0"
  shows "json_text (take (rune_len s) s @ t) = take (rune_len s) s @ json_text t"
proof (cases "rune_len s = 1")
  case True
  then obtain c cs where "s = c # cs" by (cases s) (auto simp: rune_len_def)
  moreover from this have "byte_of c < 128" using True rune_len_Cons1 by blast
  ultimately show ?thesis using True by (simp add: json_text_def map_ascii_byte)
next
  case False
  with assms have "2 \<le> rune_len s" by simp
  then show ?thesis unfolding json_text_def by (rule map_ascii_rune)
qed

lemma json_text_valid_append: "valid_utf8 a \<Longrightarrow> json_text (a @ b) = a @ json_text b"
proof (induction a rule: length_induct)
  case (1 a)
  show ?case
  proof (cases "a = []")
    case False
    let ?n = "rune_len a"
    have n: "?n \<noteq> 0" using valid_rune[OF False "1.prems"] .
    have split: "take ?n a @ drop ?n a = a" by simp
    have "json_text a = take ?n a @ json_text (drop ?n a)" using json_text_rune[OF n, of "drop ?n a"] split by simp
    then have v: "valid_utf8 (drop ?n a)" using "1.prems" split
      by (metis append_eq_append_conv valid_utf8_def)
    have "length (drop ?n a) < length a" using n False by simp
    with "1.IH" v have "json_text (drop ?n a @ b) = drop ?n a @ json_text b" by blast
    moreover have "json_text (a @ b) = take ?n a @ json_text (drop ?n a @ b)"
      using json_text_rune[OF n, of "drop ?n a @ b"] split by (metis append.assoc)
    ultimately show ?thesis by (metis append.assoc split)
  qed simp
qed

lemma valid_append: "valid_utf8 a \<Longrightarrow> valid_utf8 (a @ b) = valid_utf8 b"
  by (simp add: valid_utf8_def json_text_valid_append)

lemma valid_take_rune: "rune_len s \<noteq> 0 \<Longrightarrow> valid_utf8 (take (rune_len s) s)"
  using json_text_rune[of s "[]"] by (simp add: valid_utf8_def json_text_def)

lemma valid_prefix: "valid_utf8 (p @ w) \<Longrightarrow> list_all (\<lambda>c. byte_of c < 128) w \<Longrightarrow> valid_utf8 p"
  using map_ascii_prefix[of id p w] by (simp add: valid_utf8_def json_text_def list_all_iff)

lemma valid_trim:
  assumes "valid_utf8 s" and "list_all (\<lambda>c. byte_of c < 128) cs"
  shows "valid_utf8 (trim cs s)"
proof -
  have ascii: "list_all (\<lambda>c. byte_of c < 128) (takeWhile (\<lambda>c. c \<in> set cs) r)" for r
    using assms(2) by (auto simp: list_all_iff dest: set_takeWhileD)
  have left: "valid_utf8 (trim_left cs s)"
    using assms(1) valid_ascii_append[OF ascii[of s], of "dropWhile (\<lambda>c. c \<in> set cs) s"] by (simp add: trim_left_def)
  have "trim_left cs s = trim_right cs (trim_left cs s) @ rev (takeWhile (\<lambda>c. c \<in> set cs) (rev (trim_left cs s)))"
    unfolding trim_right_def by (metis rev_append rev_rev_ident takeWhile_dropWhile_id)
  then show ?thesis using left valid_prefix ascii unfolding trim_def by (metis list_all_rev)
qed

lemma valid_join: "list_all valid_utf8 ws \<Longrightarrow> valid_utf8 d \<Longrightarrow> valid_utf8 (join_with d ws)"
  by (induction d ws rule: join_with.induct) (simp_all add: valid_append)

lemma valid_map_runes:
  assumes "\<And>r. valid_utf8 r \<Longrightarrow> valid_utf8 (g r)"
  shows "valid_utf8 (map_runes g s)"
  using assms
proof (induction g s rule: map_runes.induct)
  case (2 g c cs)
  have r: "valid_utf8 replacement" by (simp add: valid_utf8_def json_text_def) (metis append_Nil2 map_ascii.simps(1) map_ascii_replacement)
  show ?case
    using 2 r valid_take_rune[of "c # cs"] by (auto simp: map_runes.simps(2) Let_def valid_append)
qed simp

section \<open>Tasks\<close>

text \<open>
  A task that JSON keeps: valid strings, no empty map (\<open>omitempty\<close> makes it a nil map), and a
  status that is not a made-up word. Its numbers are those of the code, 64-bit integers and
  finite floats, which JSON writes so that they read back.
\<close>

definition json_keeps_map :: "strmap \<Rightarrow> bool" where
  "json_keeps_map m \<longleftrightarrow>
     (case m of None \<Rightarrow> True
      | Some f \<Rightarrow> f \<noteq> fmempty \<and> fmpred (\<lambda>k v. valid_utf8 k \<and> valid_utf8 v) f)"

definition json_keeps_status :: "task_status \<Rightarrow> bool" where
  "json_keeps_status st \<longleftrightarrow> (case st of StatusOther _ \<Rightarrow> False | _ \<Rightarrow> True)"

definition json_keeps :: "task \<Rightarrow> bool" where
  "json_keeps t \<longleftrightarrow>
     list_all valid_utf8 [tsk_id t, tsk_pack_id t, tsk_title t, tsk_url t, tsk_path t, tsk_detail t, tsk_error t,
       stg_id (tsk_stage t), stg_kind (tsk_stage t), stg_error (tsk_stage t), stg_url (tsk_stage t),
       stg_proxy_url (tsk_stage t)] \<and>
     json_keeps_status (tsk_status t) \<and> json_keeps_status (stg_status (tsk_stage t)) \<and>
     json_keeps_map (stg_headers (tsk_stage t)) \<and> json_keeps_map (stg_state (tsk_stage t))"

lemma json_keeps_upd:
  "json_keeps_map (Some m) \<Longrightarrow> valid_utf8 k \<Longrightarrow> valid_utf8 v \<Longrightarrow> json_keeps_map (Some (fmupd k v m))"
  by (auto simp: json_keeps_map_def fmpred_upd dest: arg_cong[where f = "\<lambda>f. fmlookup f k"])

section \<open>A codec for the examples\<close>

text \<open>A writer and a reader that gives back what was written and leaves what follows.\<close>

definition reads_back :: "('a \<Rightarrow> string) \<Rightarrow> (string \<Rightarrow> 'a \<times> string) \<Rightarrow> bool" where
  "reads_back e d \<longleftrightarrow> (\<forall>x r. d (e x @ r) = (x, r))"

lemma reads_backD: "reads_back e d \<Longrightarrow> d (e x @ r) = (x, r)"
  by (simp add: reads_back_def)

definition put_nat :: "nat \<Rightarrow> string" where "put_nat n = replicate n CHR ''1'' @ ''.''"

fun get_nat :: "string \<Rightarrow> nat \<times> string" where
  "get_nat [] = (0, [])"
| "get_nat (c # s) = (if c = CHR ''1'' then (case get_nat s of (n, r) \<Rightarrow> (Suc n, r)) else (0, s))"

lemma nat_reads_back: "reads_back put_nat get_nat"
proof -
  have "get_nat (put_nat n @ r) = (n, r)" for n r by (induction n) (simp_all add: put_nat_def)
  then show ?thesis by (simp add: reads_back_def)
qed

definition put_int :: "int \<Rightarrow> string" where
  "put_int i = (if i < 0 then ''-'' else ''+'') @ put_nat (nat \<bar>i\<bar>)"

definition get_int :: "string \<Rightarrow> int \<times> string" where
  "get_int s = (case get_nat (tl s) of (n, r) \<Rightarrow> (if take 1 s = ''-'' then - int n else int n, r))"

lemma int_reads_back: "reads_back put_int get_int"
  by (simp add: reads_back_def put_int_def get_int_def reads_backD[OF nat_reads_back])

definition put_str :: "string \<Rightarrow> string" where "put_str s = put_nat (length s) @ s"

definition get_str :: "string \<Rightarrow> string \<times> string" where
  "get_str s = (case get_nat s of (n, r) \<Rightarrow> (take n r, drop n r))"

lemma str_reads_back: "reads_back put_str get_str"
  by (simp add: reads_back_def put_str_def get_str_def reads_backD[OF nat_reads_back])

definition put_pair :: "('a \<Rightarrow> string) \<Rightarrow> ('b \<Rightarrow> string) \<Rightarrow> 'a \<times> 'b \<Rightarrow> string" where
  "put_pair e f p = e (fst p) @ f (snd p)"

definition get_pair :: "(string \<Rightarrow> 'a \<times> string) \<Rightarrow> (string \<Rightarrow> 'b \<times> string) \<Rightarrow> string \<Rightarrow> ('a \<times> 'b) \<times> string" where
  "get_pair d g s = (case d s of (x, r) \<Rightarrow> (case g r of (y, q) \<Rightarrow> ((x, y), q)))"

lemma pair_reads_back: "reads_back e d \<Longrightarrow> reads_back f g \<Longrightarrow> reads_back (put_pair e f) (get_pair d g)"
  by (simp add: reads_back_def put_pair_def get_pair_def)

text \<open>A type that another one represents.\<close>

lemma image_reads_back:
  "reads_back e d \<Longrightarrow> (\<And>x. from_rep (to_rep x) = x) \<Longrightarrow> reads_back (e \<circ> to_rep) (map_prod from_rep id \<circ> d)"
  by (simp add: reads_back_def)

definition put_list :: "('a \<Rightarrow> string) \<Rightarrow> 'a list \<Rightarrow> string" where
  "put_list e xs = put_nat (length xs) @ concat (map e xs)"

fun get_items :: "(string \<Rightarrow> 'a \<times> string) \<Rightarrow> nat \<Rightarrow> string \<Rightarrow> 'a list \<times> string" where
  "get_items d 0 s = ([], s)"
| "get_items d (Suc n) s = (case d s of (x, r) \<Rightarrow> (case get_items d n r of (xs, q) \<Rightarrow> (x # xs, q)))"

definition get_list :: "(string \<Rightarrow> 'a \<times> string) \<Rightarrow> string \<Rightarrow> 'a list \<times> string" where
  "get_list d s = (case get_nat s of (n, r) \<Rightarrow> get_items d n r)"

lemma list_reads_back:
  assumes "reads_back e d"
  shows "reads_back (put_list e) (get_list d)"
proof -
  have "get_items d (length xs) (concat (map e xs) @ r) = (xs, r)" for xs r
    by (induction xs) (simp_all add: reads_backD[OF assms])
  then show ?thesis by (simp add: reads_back_def put_list_def get_list_def reads_backD[OF nat_reads_back])
qed

text \<open>Numbers, states and maps.\<close>

definition put_rat :: "rat \<Rightarrow> string" where "put_rat = put_pair put_int put_int \<circ> quotient_of"

definition get_rat :: "string \<Rightarrow> rat \<times> string" where
  "get_rat = map_prod (\<lambda>(a, b). of_int a / of_int b) id \<circ> get_pair get_int get_int"

lemma rat_reads_back: "reads_back put_rat get_rat"
  unfolding put_rat_def get_rat_def
  by (rule image_reads_back[OF pair_reads_back[OF int_reads_back int_reads_back]])
    (metis case_prod_beta prod.collapse quotient_of_div)

definition put_bool :: "bool \<Rightarrow> string" where "put_bool = put_int \<circ> of_bool"

definition get_bool :: "string \<Rightarrow> bool \<times> string" where "get_bool = map_prod (\<lambda>i. i = 1) id \<circ> get_int"

lemma bool_reads_back: "reads_back put_bool get_bool"
  unfolding put_bool_def get_bool_def by (rule image_reads_back[OF int_reads_back]) simp

fun status_rep :: "task_status \<Rightarrow> int \<times> string" where
  "status_rep StatusWaiting = (0, [])" | "status_rep StatusRunning = (1, [])"
| "status_rep StatusSeeding = (2, [])" | "status_rep StatusPaused = (3, [])"
| "status_rep StatusCompleted = (4, [])" | "status_rep StatusFailed = (5, [])"
| "status_rep StatusCanceled = (6, [])" | "status_rep (StatusOther s) = (7, s)"

definition rep_status :: "int \<times> string \<Rightarrow> task_status" where
  "rep_status p = (if fst p = 7 then StatusOther (snd p) else [StatusWaiting, StatusRunning, StatusSeeding,
     StatusPaused, StatusCompleted, StatusFailed, StatusCanceled] ! nat (fst p))"

definition put_status :: "task_status \<Rightarrow> string" where "put_status = put_pair put_int put_str \<circ> status_rep"

definition get_status :: "string \<Rightarrow> task_status \<times> string" where
  "get_status = map_prod rep_status id \<circ> get_pair get_int get_str"

lemma status_reads_back: "reads_back put_status get_status"
  unfolding put_status_def get_status_def
proof (rule image_reads_back[OF pair_reads_back[OF int_reads_back str_reads_back]])
  show "rep_status (status_rep st) = st" for st by (cases st) (simp_all add: rep_status_def)
qed

definition map_rep :: "strmap \<Rightarrow> bool \<times> (string \<times> string) list" where
  "map_rep m = (case m of None \<Rightarrow> (False, []) | Some f \<Rightarrow> (True, map (\<lambda>k. (k, the (fmlookup f k))) (sorted_list_of_fset (fmdom f))))"

definition rep_map :: "bool \<times> (string \<times> string) list \<Rightarrow> strmap" where
  "rep_map p = (if fst p then Some (fmap_of_list (snd p)) else None)"

lemma rep_map_rep: "rep_map (map_rep m) = m"
proof (cases m)
  case (Some f)
  have "map_of (map (\<lambda>k. (k, the (fmlookup f k))) ks) k = (if k \<in> set ks then Some (the (fmlookup f k)) else None)" for ks k
    by (induction ks) auto
  then have "fmap_of_list (map (\<lambda>k. (k, the (fmlookup f k))) (sorted_list_of_fset (fmdom f))) = f"
    by (intro fmap_ext) (simp add: fmap_of_list.rep_eq fmlookup_dom_iff)
  with Some show ?thesis by (simp add: map_rep_def rep_map_def)
qed (simp add: map_rep_def rep_map_def)

definition put_map :: "strmap \<Rightarrow> string" where
  "put_map = put_pair put_bool (put_list (put_pair put_str put_str)) \<circ> map_rep"

definition get_map :: "string \<Rightarrow> strmap \<times> string" where
  "get_map = map_prod rep_map id \<circ> get_pair get_bool (get_list (get_pair get_str get_str))"

lemmas pairs_read_back = list_reads_back[OF pair_reads_back[OF str_reads_back str_reads_back]]

lemma map_reads_back: "reads_back put_map get_map"
  unfolding put_map_def get_map_def
  by (rule image_reads_back[OF pair_reads_back[OF bool_reads_back pairs_read_back] rep_map_rep])

text \<open>Tasks.\<close>

definition stage_rep where
  "stage_rep g = ((stg_id g, stg_kind g, stg_error g, stg_url g, stg_proxy_url g),
     (stg_index g, stg_received g, stg_speed g, stg_file_size g, stg_block_num g, stg_max_retries g),
     stg_status g, stg_progress g, stg_supports_range g, stg_headers g, stg_state g)"

definition rep_stage where
  "rep_stage p = (case p of ((i, k, e, u, pu), (n, r, sp, sz, b, mr), st, pr, sr, h, s) \<Rightarrow>
     \<lparr>stg_id = i, stg_index = n, stg_kind = k, stg_status = st, stg_progress = pr, stg_received = r, stg_speed = sp,
      stg_error = e, stg_url = u, stg_file_size = sz, stg_headers = h, stg_proxy_url = pu, stg_block_num = b,
      stg_max_retries = mr, stg_supports_range = sr, stg_state = s\<rparr>)"

definition task_rep where
  "task_rep t = ((tsk_id t, tsk_pack_id t, tsk_title t, tsk_url t, tsk_path t, tsk_detail t, tsk_error t),
     (tsk_file_size t, tsk_received t, tsk_speed t, tsk_created_at t),
     tsk_status t, tsk_progress t, tsk_uses_slot t, stage_rep (tsk_stage t))"

definition rep_task where
  "rep_task p = (case p of ((i, k, ti, u, pa, de, e), (sz, r, sp, c), st, pr, us, g) \<Rightarrow>
     \<lparr>tsk_id = i, tsk_pack_id = k, tsk_title = ti, tsk_url = u, tsk_status = st, tsk_path = pa, tsk_file_size = sz,
      tsk_received = r, tsk_speed = sp, tsk_progress = pr, tsk_detail = de, tsk_created_at = c, tsk_error = e,
      tsk_uses_slot = us, tsk_stage = rep_stage g\<rparr>)"

lemma rep_stage_rep: "rep_stage (stage_rep g) = g"
  by (simp add: rep_stage_def stage_rep_def)

lemma rep_task_rep: "rep_task (task_rep t) = t"
  by (simp add: rep_task_def task_rep_def rep_stage_rep)

definition write_task :: "task \<Rightarrow> string" where
  "write_task = put_pair
      (put_pair put_str (put_pair put_str (put_pair put_str (put_pair put_str (put_pair put_str (put_pair put_str put_str))))))
      (put_pair (put_pair put_int (put_pair put_int (put_pair put_int put_int)))
      (put_pair put_status (put_pair put_rat (put_pair put_bool
        (put_pair (put_pair put_str (put_pair put_str (put_pair put_str (put_pair put_str put_str))))
        (put_pair (put_pair put_int (put_pair put_int (put_pair put_int (put_pair put_int (put_pair put_int put_int)))))
        (put_pair put_status (put_pair put_rat (put_pair put_bool (put_pair put_map put_map)))))))))) \<circ> task_rep"

definition read_task :: "string \<Rightarrow> task \<times> string" where
  "read_task = map_prod rep_task id \<circ> get_pair
      (get_pair get_str (get_pair get_str (get_pair get_str (get_pair get_str (get_pair get_str (get_pair get_str get_str))))))
      (get_pair (get_pair get_int (get_pair get_int (get_pair get_int get_int)))
      (get_pair get_status (get_pair get_rat (get_pair get_bool
        (get_pair (get_pair get_str (get_pair get_str (get_pair get_str (get_pair get_str get_str))))
        (get_pair (get_pair get_int (get_pair get_int (get_pair get_int (get_pair get_int (get_pair get_int get_int)))))
        (get_pair get_status (get_pair get_rat (get_pair get_bool (get_pair get_map get_map))))))))))"

lemma task_reads_back: "reads_back write_task read_task"
  unfolding write_task_def read_task_def
  by (rule image_reads_back[where from_rep = rep_task and to_rep = task_rep])
    ((intro pair_reads_back int_reads_back str_reads_back status_reads_back rat_reads_back bool_reads_back map_reads_back), rule rep_task_rep)

lemma task_written: "fst (read_task (write_task t)) = t"
  using reads_backD[OF task_reads_back, of t "[]"] by simp

lemma tasks_written: "fst (get_list read_task (put_list write_task ts)) = ts"
  using reads_backD[OF list_reads_back[OF task_reads_back], of ts "[]"] by simp

lemma strings_written: "fst (get_list get_str (put_list put_str xs)) = xs"
  using reads_backD[OF list_reads_back[OF str_reads_back], of xs "[]"] by simp

end
