(* ===== verification/BtResolveProps.thy ===== *)
theory BtResolveProps
  imports BtResolve JsonText
begin

text \<open>
  What the resolution of a BitTorrent source promises: the worker decodes from the task what was
  resolved, reading metainfo stays within its limit, and which sources end in a panic.
\<close>

section \<open>Texts without outer space\<close>

lemma lead_len_plain:
  "list_all (\<lambda>w. case w of [] \<Rightarrow> True | b # _ \<Rightarrow> byte_of b \<le> 32 \<or> 127 \<le> byte_of b) ws \<Longrightarrow>
   32 < byte_of c \<Longrightarrow> byte_of c < 127 \<Longrightarrow> lead_len ws (c # cs) = 0"
  by (induction ws) (auto split: list.splits)

lemma space_starts:
  "list_all (\<lambda>w. case w of [] \<Rightarrow> True | b # _ \<Rightarrow> byte_of b \<le> 32 \<or> 127 \<le> byte_of b) space_seqs"
  "list_all (\<lambda>w. case w of [] \<Rightarrow> True | b # _ \<Rightarrow> byte_of b \<le> 32 \<or> 127 \<le> byte_of b) (map rev space_seqs)"
  by code_simp+

lemma trim_space_plain:
  assumes "\<And>c. c \<in> set s \<Longrightarrow> 32 < byte_of c \<and> byte_of c < 127"
  shows "trim_space s = s"
proof (cases s)
  case (Cons c cs)
  have l: "trim_lead space_seqs s = s"
    by (subst trim_lead.simps) (use Cons assms lead_len_plain[OF space_starts(1)] in simp)
  obtain d ds where r: "rev s = d # ds" using Cons by (cases "rev s") auto
  have "d \<in> set s" using r by (metis list.set_intros(1) set_rev)
  then have "lead_len (map rev space_seqs) (d # ds) = 0" using assms lead_len_plain[OF space_starts(2)] by simp
  then have "trim_lead (map rev space_seqs) (rev s) = rev s" by (subst trim_lead.simps) (simp add: r)
  with l show ?thesis by (simp add: trim_space_def)
qed simp

lemma trim_space_b64 [simp]: "trim_space (b64_encode s) = b64_encode s"
  by (rule trim_space_plain) (rule b64_encode_plain)

lemma b64_encode_empty [simp]: "b64_encode s = [] \<longleftrightarrow> s = []"
  by (cases s rule: b64_encode.cases) (simp_all add: b64_first_def)

section \<open>Reading within the limit\<close>

text \<open>A round with an amount that only the buffer's size determines.\<close>

lemma read_limited_round:
  assumes "read_limited limit ((ctx, n, stop) # rounds) data buf = Returns (Inr r)"
    and "int (length buf) \<le> limit"
  obtains k where "int (length (buf @ take k data)) \<le> limit"
    "stop = ReadEOF \<and> r = buf @ take k data \<or>
     stop = ReadMore \<and> read_limited limit rounds (drop (length (take k data)) data) (buf @ take k data) =
       Returns (Inr r)"
proof -
  have ctx: "ctx = None" using assms(1) by (cases ctx) simp_all
  have room: "\<not> limit + 1 - int (length buf) \<le> 0" using assms(2) by simp
  obtain k where k: "(let got = take k data; buf = buf @ got in
      if got \<noteq> [] \<and> int (length buf) > limit then Returns (Inl too_much_metadata)
      else case stop of ReadEOF \<Rightarrow> Returns (Inr buf) | ReadErr e \<Rightarrow> Returns (Inl e)
      | ReadMore \<Rightarrow> read_limited limit rounds (drop (length got) data) buf) = Returns (Inr r)"
    using assms(1) unfolding read_limited.simps ctx prod.case option.case Let_def if_not_P[OF room] by blast
  then have c: "\<not> (take k data \<noteq> [] \<and> int (length (buf @ take k data)) > limit)"
    by (auto simp only: Let_def if_True split: if_splits)
  then have "int (length (buf @ take k data)) \<le> limit" using assms(2)
    by (cases "take k data = []") (simp_all only: append_Nil2 simp_thms not_less)
  moreover have "stop = ReadEOF \<and> r = buf @ take k data \<or>
     stop = ReadMore \<and> read_limited limit rounds (drop (length (take k data)) data) (buf @ take k data) =
       Returns (Inr r)"
    using k unfolding Let_def if_not_P[OF c] by (cases stop) (simp_all del: length_take)
  ultimately show thesis by (rule that)
qed

lemma read_limited_prefix:
  assumes "read_limited limit rounds data buf = Returns (Inr r)" and "int (length buf) \<le> limit"
  shows "\<exists>d. prefix d data \<and> r = buf @ d \<and> int (length r) \<le> limit"
  using assms
proof (induction rounds arbitrary: data buf)
  case (Cons rd rounds)
  obtain ctx n stop where rd: "rd = (ctx, n, stop)" by (cases rd)
  obtain k where k: "int (length (buf @ take k data)) \<le> limit"
    "stop = ReadEOF \<and> r = buf @ take k data \<or>
     stop = ReadMore \<and> read_limited limit rounds (drop (length (take k data)) data) (buf @ take k data) =
       Returns (Inr r)"
    using read_limited_round[OF Cons.prems[unfolded rd]] by blast
  from k(2) show ?case
  proof
    assume "stop = ReadEOF \<and> r = buf @ take k data"
    then show ?thesis using k(1) take_is_prefix by blast
  next
    assume "stop = ReadMore \<and> read_limited limit rounds (drop (length (take k data)) data) (buf @ take k data) =
       Returns (Inr r)"
    then obtain d where d: "prefix d (drop (length (take k data)) data)" "r = (buf @ take k data) @ d"
      "int (length r) \<le> limit" using Cons.IH[OF _ k(1)] by blast
    have "data = take k data @ drop (length (take k data)) data"
      by (metis append_eq_conv_conj append_take_drop_id)
    then have "prefix (take k data @ d) data" using d(1) by (metis same_prefix_prefix)
    then show ?thesis using d(2,3) by (intro exI[of _ "take k data @ d"]) simp
  qed
qed simp

lemma read_limited_small:
  assumes "n \<le> metainfo_chunk" and "int (length buf) + int n \<le> limit"
  shows "read_limited limit ((None, n, ReadMore) # rounds) data buf =
      read_limited limit rounds (drop (length (take n data)) data) (buf @ take n data)"
    and "read_limited limit ((None, n, ReadEOF) # rounds) data buf = Returns (Inr (buf @ take n data))"
proof -
  have room: "\<not> limit + 1 - int (length buf) \<le> 0" using assms(2) by simp
  have k: "min n (min metainfo_chunk (nat (limit + 1 - int (length buf)))) = n" using assms by simp
  have "int (length (take n data)) \<le> int n" by simp
  then have c: "\<not> (take n data \<noteq> [] \<and> int (length (buf @ take n data)) > limit)"
    using assms(2) by (simp only: length_append of_nat_add) linarith
  show "read_limited limit ((None, n, ReadMore) # rounds) data buf =
      read_limited limit rounds (drop (length (take n data)) data) (buf @ take n data)"
    and "read_limited limit ((None, n, ReadEOF) # rounds) data buf = Returns (Inr (buf @ take n data))"
    unfolding read_limited.simps prod.case option.case Let_def if_not_P[OF room] k if_not_P[OF c] by simp_all
qed

section \<open>What the worker decodes\<close>

definition bt_state_of :: "string \<Rightarrow> string \<Rightarrow> string \<Rightarrow> string \<Rightarrow> runtime_options \<Rightarrow> strmap" where
  "bt_state_of data ty trackers files r = Some (fmap_of_list (task_texts data ty trackers files r))"

lemma bt_state_get:
  "map_get (bt_state_of data ty trackers files r) ''metainfo'' = b64_encode data"
  "map_get (bt_state_of data ty trackers files r) ''trackers'' = trackers"
  "map_get (bt_state_of data ty trackers files r) ''files'' = files"
  "map_get (bt_state_of data ty trackers files r) ''metadataTimeoutSec'' = itoa (whole_seconds (rto_metadata_timeout r))"
  "map_get (bt_state_of data ty trackers files r) ''listenPort'' = itoa (rto_listen_port r)"
  "map_get (bt_state_of data ty trackers files r) ''connectionsLimit'' = itoa (rto_connections_limit r)"
  "map_get (bt_state_of data ty trackers files r) ''downloadRateLimit'' = itoa (rto_download_rate r)"
  "map_get (bt_state_of data ty trackers files r) ''uploadRateLimit'' = itoa (rto_upload_rate r)"
  "map_get (bt_state_of data ty trackers files r) ''enableDHT'' = format_bool (rto_enable_dht r)"
  "map_get (bt_state_of data ty trackers files r) ''enableLSD'' = format_bool (rto_enable_lsd r)"
  "map_get (bt_state_of data ty trackers files r) ''enableUPnP'' = format_bool (rto_enable_upnp r)"
  "map_get (bt_state_of data ty trackers files r) ''enableNATPMP'' = format_bool (rto_enable_natpmp r)"
  "map_get (bt_state_of data ty trackers files r) ''sequentialDownload'' = format_bool (rto_sequential r)"
  "map_get (bt_state_of data ty trackers files r) ''seedRatioLimitPercent'' = itoa (rto_seed_ratio r)"
  "map_get (bt_state_of data ty trackers files r) ''seedTimeLimitMinutes'' = itoa (rto_seed_minutes r)"
  "map_get (bt_state_of data ty trackers files r) ''saveMagnetTorrentFile'' = format_bool (rto_save_magnet r)"
  by (simp_all add: bt_state_of_def task_texts_def map_get_def fmlookup_of_list)

definition options_int64 :: "runtime_options \<Rightarrow> bool" where
  "options_int64 r \<longleftrightarrow> list_all int64 [rto_metadata_timeout r, rto_listen_port r, rto_connections_limit r,
     rto_download_rate r, rto_upload_rate r, rto_seed_ratio r, rto_seed_minutes r]"

lemma normalize_int64:
  assumes "options_int64 (bto_runtime opts)"
  shows "options_int64 (bto_runtime (normalize_bt_options opts))"
proof -
  have z: "int64 0" "int64 500" "int64 (30 * second)"
    by (simp_all add: int64_def min_int64_def max_int64_def second_def)
  with assms show ?thesis by (simp add: normalize_bt_options_def options_int64_def Let_def)
qed

lemma normalize_timeout: "0 < rto_metadata_timeout (bto_runtime (normalize_bt_options opts))"
  by (simp add: normalize_bt_options_def Let_def second_def)

lemma whole_seconds_bounds:
  assumes "0 < d" and "int64 d"
  shows "int64 (whole_seconds d)" "int64 (whole_seconds d * second)"
proof -
  have e: "whole_seconds d = d div second" using assms(1) by (simp add: whole_seconds_def)
  have s: "(0::int) < second" by (simp add: second_def)
  have n: "0 \<le> d div second" using assms(1) s by (simp add: pos_imp_zdiv_nonneg_iff)
  have "0 \<le> d mod second" using s by simp
  then have le: "d div second * second \<le> d" using div_mult_mod_eq[of d second] by linarith
  have "d div second * 1 \<le> d div second * second" by (rule mult_left_mono) (use n s in simp_all)
  with le n assms e show "int64 (whole_seconds d)" "int64 (whole_seconds d * second)"
    by (simp_all add: int64_def min_int64_def)
qed

text \<open>The options come back from the texts; of the time for the metadata, whole seconds are kept.\<close>

lemma options_restored:
  assumes "stg_state (tsk_stage t) = bt_state_of data ty trackers files r"
    and "options_int64 r" and "0 < rto_metadata_timeout r"
  shows "runtime_options_from_task t =
    r\<lparr>rto_metadata_timeout := whole_seconds (rto_metadata_timeout r) * second\<rparr>"
proof -
  have i: "int64 (rto_metadata_timeout r)" "int64 (rto_listen_port r)" "int64 (rto_connections_limit r)"
    "int64 (rto_download_rate r)" "int64 (rto_upload_rate r)" "int64 (rto_seed_ratio r)" "int64 (rto_seed_minutes r)"
    using assms(2) by (simp_all add: options_int64_def)
  note w = whole_seconds_bounds[OF assms(3) i(1)]
  show ?thesis
    using i w
    by (simp add: runtime_options_from_task_def Let_def assms(1) bt_state_get bt_int_state_def bt_int64_state_def
        bt_bool_state_def parse_itoa wrap64_id)
qed

text \<open>The task made of a decoded metainfo, before its paths are checked.\<close>

definition bt_task_of ::
  "bt_outside \<Rightarrow> bt_options \<Rightarrow> loaded_source \<Rightarrow> meta_info \<Rightarrow> int \<Rightarrow> string \<Rightarrow> string \<Rightarrow> task" where
  "bt_task_of x opts src info n trackers files =
     new_task (bx_task_id x) (bx_now x) ''bt'' (bt_safe_name (mi_best_name info) ''torrent'') (lds_source src)
       (bto_dir opts) n
       (new_stage (bx_stage_id x) ''bt'' (lds_source src) n 1 0 False (clone_headers (bto_headers opts))
         (bto_proxy opts)\<lparr>stg_state := bt_state_of (lds_data src) (lds_type src) trackers files (bto_runtime opts)\<rparr>)"

lemma bt_task_of_fields [simp]:
  "stg_state (tsk_stage (bt_task_of x opts src info n trackers files)) =
     bt_state_of (lds_data src) (lds_type src) trackers files (bto_runtime opts)"
  "tsk_file_size (bt_task_of x opts src info n trackers files) = n"
  "tsk_title (bt_task_of x opts src info n trackers files) = bt_safe_name (mi_best_name info) ''torrent''"
  by (simp_all add: bt_task_of_def new_task_def)

lemma made_task:
  assumes "make_bt_task u nl lib bc x opts src = Inr t"
  obtains mi info files n files_text trackers_text where
    "tl_load lib (lds_data src) = Inr mi" "tof_info mi = Inr info" "files_from_info u info = Inr (files, n)"
    "bc_marshal_files bc files = Inr files_text"
    "bc_marshal_strings bc (parse_trackers u nl (lds_trackers src @ tof_announce mi @ bto_extra_trackers opts)) =
       Inr trackers_text"
    "t = bt_task_of x opts src info n trackers_text files_text"
    "\<exists>paths. storage_paths u t info files = Inr paths"
proof -
  note make = assms[unfolded make_bt_task_def Let_def]
  obtain mi where mi: "load_metainfo_bytes lib (lds_data src) = Inr mi"
    using make by (cases "load_metainfo_bytes lib (lds_data src)") simp_all
  then have load: "tl_load lib (lds_data src) = Inr mi"
    by (cases "tl_load lib (lds_data src)") (simp_all add: load_metainfo_bytes_def split: if_splits)
  obtain info where info: "tof_info mi = Inr info" using make mi by (cases "tof_info mi") simp_all
  obtain files n where files: "files_from_info u info = Inr (files, n)"
    using make mi info by (cases "files_from_info u info") auto
  obtain ft where ft: "bc_marshal_files bc files = Inr ft"
    using make mi info files by (cases "bc_marshal_files bc files") simp_all
  obtain tt where tt: "bc_marshal_strings bc
      (parse_trackers u nl (lds_trackers src @ tof_announce mi @ bto_extra_trackers opts)) = Inr tt"
    using make mi info files ft
    by (cases "bc_marshal_strings bc
      (parse_trackers u nl (lds_trackers src @ tof_announce mi @ bto_extra_trackers opts))") simp_all
  have p: "(case storage_paths u (bt_task_of x opts src info n tt ft) info files of
      Inl e \<Rightarrow> Inl e | Inr _ \<Rightarrow> Inr (bt_task_of x opts src info n tt ft)) = Inr t"
    using make unfolding mi sum.case info files prod.case ft tt bt_task_of_def bt_state_of_def .
  then have t: "t = bt_task_of x opts src info n tt ft"
    and "\<exists>paths. storage_paths u (bt_task_of x opts src info n tt ft) info files = Inr paths"
    by (auto split: sum.splits)
  with that[OF load info files ft tt t] show thesis by simp
qed

lemma make_task:
  assumes "load_metainfo_bytes lib (lds_data src) = Inr mi" and "tof_info mi = Inr info"
    and "files_from_info u info = Inr (files, n)" and "bc_marshal_files bc files = Inr ft"
    and "bc_marshal_strings bc
      (parse_trackers u nl (lds_trackers src @ tof_announce mi @ bto_extra_trackers opts)) = Inr tt"
    and "storage_paths u (bt_task_of x opts src info n tt ft) info files = Inr paths"
  shows "make_bt_task u nl lib bc x opts src = Inr (bt_task_of x opts src info n tt ft)"
  unfolding make_bt_task_def Let_def assms(1) sum.case assms(2,3) prod.case assms(4,5)
    bt_task_of_def[symmetric] bt_state_of_def[symmetric] assms(6) ..

section \<open>The properties\<close>

text \<open>
  JSON gives back what it was given, with every byte that is not valid UTF-8 replaced by U+FFFD, and its
  texts are not blank.
\<close>

definition json_file :: "bt_file \<Rightarrow> bt_file" where
  "json_file f = f\<lparr>bf_path := json_text (bf_path f)\<rparr>"

definition codec_faithful :: "bt_codec \<Rightarrow> bool" where
  "codec_faithful bc \<longleftrightarrow>
     (\<forall>fs s. bc_marshal_files bc fs = Inr s \<longrightarrow> bc_unmarshal_files bc s = Inr (map json_file fs) \<and> trim_space s \<noteq> []) \<and>
     (\<forall>ts s. bc_marshal_strings bc ts = Inr s \<longrightarrow>
        bc_unmarshal_strings bc s = Inr (map json_text ts) \<and> trim_space s \<noteq> [])"

text \<open>The paths of a torrent's files are made of safe names, which are valid UTF-8.\<close>

lemma bt_safe_name_valid: "valid_utf8 fallback \<Longrightarrow> valid_utf8 (bt_safe_name v fallback)"
proof -
  assume f: "valid_utf8 fallback"
  have "valid_utf8 ''_''" by (rule valid_ascii) (simp add: byte_of_def)
  then have "valid_utf8 (safe_rune r)" if "valid_utf8 r" for r using that by (simp add: safe_rune_def)
  then have "valid_utf8 (trim ''. '' (map_runes safe_rune (trim_space v)))"
    by (intro valid_trim valid_map_runes) (simp_all add: byte_of_def)
  with f show ?thesis by (simp add: bt_safe_name_def Let_def)
qed

lemma nested_names_valid: "nested_names u ns = Inr r \<Longrightarrow> list_all valid_utf8 r \<and> (\<forall>w\<in>set r. slash \<notin> set w)"
proof (induction ns arbitrary: r)
  case (Cons n ns)
  have "valid_utf8 ''file''" by (rule valid_ascii) (simp add: byte_of_def)
  moreover have "slash \<notin> set (bt_safe_name v ''file'')" for v
  proof -
    have "list_all (\<lambda>c. c \<notin> set bt_special) (map_runes safe_rune (trim_space v))"
    proof (rule map_runes_bytes[where P_rune = "\<lambda>r. length r = 1 \<or> (\<forall>c\<in>set r. 128 \<le> byte_of c)"])
      show "length replacement = 1 \<or> (\<forall>c\<in>set replacement. 128 \<le> byte_of c)"
        by (simp add: replacement_def byte_of_def)
    qed (use safe_rune_chars rune_bytes in auto)
    moreover have "slash \<in> set bt_special" "slash \<notin> set ''file''" by code_simp+
    ultimately show ?thesis
      using set_trim[of "''. ''" "map_runes safe_rune (trim_space v)"] by (auto simp: bt_safe_name_def Let_def list_all_iff)
  qed
  ultimately show ?case using Cons bt_safe_name_valid by (auto simp: Let_def split: if_splits sum.splits)
qed simp

lemma part_names_valid: "part_names u ps = Inr r \<Longrightarrow> list_all valid_utf8 r \<and> (\<forall>w\<in>set r. slash \<notin> set w)"
  by (induction ps arbitrary: r) (auto split: sum.splits dest!: nested_names_valid)

lemma bt_relative_path_valid:
  assumes "bt_relative_path u parts = Inr p"
  shows "valid_utf8 p"
proof -
  obtain safe where s: "part_names u parts = Inr safe" "p = path_clean (join_with ''/'' safe)"
    using assms by (auto simp: bt_relative_path_def Let_def split: if_splits sum.splits)
  note v = part_names_valid[OF s(1)]
  have d: "valid_utf8 [slash]" "valid_utf8 ''.''" by (auto intro!: valid_ascii simp: slash_def byte_of_def)
  let ?es = "path_elems (join_with [slash] safe)"
  have "list_all valid_utf8 ?es"
  proof (cases "safe = []")
    case True
    then show ?thesis by (simp add: path_elems_def clean_elems_def clean_step_def)
  next
    case False
    have "split_on slash (join_with [slash] safe) = safe" by (rule split_join[OF False]) (use v in blast)
    then have "set ?es \<subseteq> set safe" unfolding path_elems_def using set_clean_elems by metis
    then show ?thesis using v by (auto simp: list_all_iff)
  qed
  then have "valid_utf8 (join_with [slash] ?es)" using d(1) by (rule valid_join)
  then have "valid_utf8 (path_text rooted ?es)" for rooted
    using d valid_append[OF d(1), of "join_with [slash] ?es"] by (simp add: path_text_def)
  then show ?thesis unfolding s(2) path_clean_def by (simp add: slash_def)
qed

lemma info_files_valid:
  "info_files_loop u info i ms files n = Inr (files', n') \<Longrightarrow> list_all (\<lambda>f. valid_utf8 (bf_path f)) files \<Longrightarrow>
   list_all (\<lambda>f. valid_utf8 (bf_path f)) files'"
proof (induction u info i ms files n rule: info_files_loop.induct)
  case (2 u info i m ms files n)
  then show ?case by (auto split: if_splits sum.splits dest: bt_relative_path_valid)
qed simp

lemma files_from_info_kept: "files_from_info u info = Inr (files, n) \<Longrightarrow> map json_file files = files"
proof -
  assume "files_from_info u info = Inr (files, n)"
  then have "info_files_loop u info 0 (mi_files info) [] 0 = Inr (files, n)"
    by (auto simp: files_from_info_def split: sum.splits prod.splits if_splits)
  then have "list_all (\<lambda>f. valid_utf8 (bf_path f)) files" by (rule info_files_valid) simp
  then show ?thesis by (auto simp: json_file_def list_all_iff valid_utf8_def intro: map_idI)
qed

text \<open>What the worker reads from a task: metainfo, files, trackers and options.\<close>

definition worker_reads ::
  "torrent_lib \<Rightarrow> bt_codec \<Rightarrow> task \<Rightarrow>
   torrent_file result \<times> bt_file list result \<times> string list result \<times> runtime_options" where
  "worker_reads lib bc t =
     (decode_metainfo lib t, files_from_task bc t, trackers_from_task bc t, runtime_options_from_task t)"

lemma files_from_info_nonempty: "files_from_info u info = Inr (files, n) \<Longrightarrow> files \<noteq> []"
  by (auto simp: files_from_info_def split: sum.splits prod.splits if_splits)

lemma bt_state_of_some: "bt_state_of data ty trackers files r \<noteq> None"
  by (simp add: bt_state_of_def)

lemma decode_made:
  assumes "stg_state (tsk_stage t) = bt_state_of data ty trackers files r" and "data \<noteq> []" and "tl_load lib data = Inr mi"
  shows "decode_metainfo lib t = Inr mi"
proof -
  obtain m where m: "bt_state_of data ty trackers files r = Some m" by (simp add: bt_state_of_def)
  have "map_get (Some m) ''metainfo'' = b64_encode data" by (simp add: m[symmetric] bt_state_get)
  with assms m show ?thesis by (simp add: decode_metainfo_def Let_def)
qed

text \<open>
  C20: A resolved task means to the worker what was resolved. Whatever source was loaded, the worker
  decodes from the task's texts the same metainfo, the files of its info dictionary, the merged
  trackers, as far as they are valid UTF-8, and the normalized options (of the time for metadata the
  whole seconds), and it accepts the paths of the files. JSON writes U+FFFD for a byte of a tracker that is
  not valid UTF-8, so the worker reads a tracker with such bytes changed; the paths of the files
  have none, whatever the torrent says.
\<close>

theorem resolved_task_restored:
  assumes "resolve_bt u nl lib bc x None source opts = Returns (Inr t)"
    and "codec_faithful bc" and "options_int64 (bto_runtime opts)" and "tl_load lib [] = Inl e"
    and "o' = normalize_bt_options opts"
  shows "\<exists>src mi info files paths.
    load_source u nl lib x (trim_space source) o' = Returns (Inr src) \<and>
    tl_load lib (lds_data src) = Inr mi \<and> tof_info mi = Inr info \<and>
    files_from_info u info = Inr (files, tsk_file_size t) \<and> storage_paths u t info files = Inr paths \<and>
    worker_reads lib bc t =
      (Inr mi, Inr files,
       Inr (map json_text (parse_trackers u nl (lds_trackers src @ tof_announce mi @ bto_extra_trackers o'))),
       (bto_runtime o')\<lparr>rto_metadata_timeout :=
          whole_seconds (rto_metadata_timeout (bto_runtime o')) * second\<rparr>)"
proof -
  obtain src where src: "load_source u nl lib x (trim_space source) o' = Returns (Inr src)"
    and make: "make_bt_task u nl lib bc x o' src = Inr t"
    using assms(1,5) by (auto simp: resolve_bt_def Let_def split: if_splits call.splits sum.splits)
  obtain mi info files n ft tt where made: "tl_load lib (lds_data src) = Inr mi" "tof_info mi = Inr info"
    "files_from_info u info = Inr (files, n)" "bc_marshal_files bc files = Inr ft"
    "bc_marshal_strings bc (parse_trackers u nl (lds_trackers src @ tof_announce mi @ bto_extra_trackers o')) = Inr tt"
    "t = bt_task_of x o' src info n tt ft" "\<exists>paths. storage_paths u t info files = Inr paths"
    by (rule made_task[OF make])
  have state: "stg_state (tsk_stage t) = bt_state_of (lds_data src) (lds_type src) tt ft (bto_runtime o')"
    and n: "tsk_file_size t = n" using made(6) by simp_all
  have "lds_data src \<noteq> []" using made(1) assms(4) by auto
  note decode = decode_made[OF state this made(1)]
  have files: "files_from_task bc t = Inr files"
    using assms(2) made(4) files_from_info_nonempty[OF made(3)] files_from_info_kept[OF made(3)]
    by (simp add: files_from_task_def Let_def state bt_state_get bt_state_of_some codec_faithful_def)
  have trackers: "trackers_from_task bc t =
      Inr (map json_text (parse_trackers u nl (lds_trackers src @ tof_announce mi @ bto_extra_trackers o')))"
    using assms(2) made(5)
    by (simp add: trackers_from_task_def Let_def state bt_state_get bt_state_of_some codec_faithful_def)
  have options: "runtime_options_from_task t = (bto_runtime o')\<lparr>rto_metadata_timeout :=
      whole_seconds (rto_metadata_timeout (bto_runtime o')) * second\<rparr>"
    unfolding assms(5)
    by (rule options_restored[OF state[unfolded assms(5)] normalize_int64[OF assms(3)] normalize_timeout])
  show ?thesis using src made(1-3,7) n decode files trackers options by (auto simp: worker_reads_def)
qed

text \<open>A torrent file on the disk with two files, a codec for its texts, and a library that loads it.\<close>

definition demo_codec :: bt_codec where
  "demo_codec = \<lparr>bc_marshal_files = \<lambda>fs. if files_from_info ascii_tables sample_info = Inr (fs, 5)
       then Inr ''[...]'' else Inl ctx_canceled,
     bc_unmarshal_files = \<lambda>_. map_sum id fst (files_from_info ascii_tables sample_info),
     bc_marshal_strings = \<lambda>ts. if ts = [''udp://a''] then Inr ''[udp]'' else Inl ctx_canceled,
     bc_unmarshal_strings = \<lambda>_. Inr [''udp://a''], bc_parse_float = \<lambda>_. 0\<rparr>"

definition demo_lib :: torrent_lib where
  "demo_lib = \<lparr>tl_magnet = \<lambda>_. Inl ctx_canceled,
     tl_load = \<lambda>data. if data = [] then Inl ctx_canceled
       else Inr \<lparr>tof_info = Inr sample_info, tof_announce = [''udp://a'']\<rparr>,
     tl_duration = \<lambda>_. []\<rparr>"

definition demo_netlib :: netlib where
  "demo_netlib = no_netlib\<lparr>nl_parse_url := \<lambda>s. Inr \<lparr>up_scheme = if s = ''udp://a'' then ''udp'' else ''c'',
     up_opaque = [], up_host = if s = ''udp://a'' then ''a'' else [], up_path = [], up_query = [],
     up_fragment = [], up_user = None\<rparr>\<rparr>"

definition demo_outside :: bt_outside where
  "demo_outside = \<lparr>bx_fs = put_node ''C:/t/a.torrent'' (NFile ''D'') sample_fs,
     bx_rounds = [(None, 1, ReadMore), (None, 0, ReadEOF)],
     bx_net = \<lambda>_ _. Inl ctx_canceled, bx_socks = \<lambda>_. None, bx_magnet = Inl ctx_canceled,
     bx_magnet_ctx = CtxAlive, bx_task_id = ''t1'', bx_stage_id = ''s1'', bx_now = 0\<rparr>"

definition demo_options :: bt_options where
  "demo_options = \<lparr>bto_dir = ''C:/dl'', bto_proxy = [], bto_headers = None,
     bto_runtime = (runtime_options_from_task sample_task)
       \<lparr>rto_metadata_timeout := 1, rto_connections_limit := 5\<rparr>, bto_extra_trackers = []\<rparr>"

definition resolve_demo :: "task result call" where
  "resolve_demo = resolve_bt ascii_tables demo_netlib demo_lib demo_codec demo_outside None ''C:/t/a.torrent''
     demo_options"

definition resolved_demo :: task where
  "resolved_demo = (case resolve_demo of Returns (Inr t) \<Rightarrow> t | _ \<Rightarrow> sample_task)"

definition demo_source :: loaded_source where
  "demo_source = \<lparr>lds_data = ''D'', lds_type = ''torrent'', lds_source = ''C:'' @ backslash # ''t'' @ backslash # ''a.torrent'',
     lds_trackers = []\<rparr>"

lemma demo_loaded:
  "load_source ascii_tables demo_netlib demo_lib demo_outside ''C:/t/a.torrent'' opts = Returns (Inr demo_source)"
proof -
  have lower: "to_lower ascii_tables ''c'' = ''c''" by code_simp
  have path: "fp_abs (fs_cwd (bx_fs demo_outside)) ''C:/t/a.torrent'' = lds_source demo_source"
    and stat: "os_stat (bx_fs demo_outside) ''C:/t/a.torrent'' = Inr (NFile ''D'')" by code_simp+
  have "read_limited max_metainfo_bytes [(None, 1, ReadMore), (None, 0, ReadEOF)] ''D'' [] = Returns (Inr ''D'')"
  proof -
    have c: "1 \<le> metainfo_chunk" "0 \<le> metainfo_chunk" by (simp_all add: metainfo_chunk_def)
    have b: "int (length ([]::string)) + int 1 \<le> max_metainfo_bytes" "int (length ''D'') + int 0 \<le> max_metainfo_bytes"
      by (simp_all add: max_metainfo_bytes_def)
    have t: "drop (length (take 1 ''D'')) ''D'' = []" "[] @ take 1 ''D'' = ''D''" "''D'' @ take 0 [] = ''D''" by simp_all
    show ?thesis
      unfolding read_limited_small(1)[OF c(1) b(1)] t read_limited_small(2)[OF c(2) b(2)] ..
  qed
  then have "read_limited_file (bx_rounds demo_outside) (bx_fs demo_outside) ''C:/t/a.torrent'' = Returns (Inr ''D'')"
    by (simp add: read_limited_file_def stat max_metainfo_bytes_def) (simp add: demo_outside_def)
  then show ?thesis
    by (simp add: load_source_def demo_netlib_def lower path) (simp add: demo_source_def)
qed

lemma resolve_demo_returns: "resolve_demo = Returns (Inr resolved_demo)"
proof -
  have source: "trim_space ''C:/t/a.torrent'' = ''C:/t/a.torrent''"
    "bt_is_source ascii_tables demo_netlib demo_lib ''C:/t/a.torrent''" by code_simp+
  have r: "resolve_demo = Returns (make_bt_task ascii_tables demo_netlib demo_lib demo_codec demo_outside
      (normalize_bt_options demo_options) demo_source)"
    by (simp add: resolve_demo_def resolve_bt_def source demo_loaded Let_def)
  have files: "files_from_info ascii_tables sample_info = Inr (fst (projr (files_from_info ascii_tables sample_info)), 5)"
    by code_simp
  let ?fs = "fst (projr (files_from_info ascii_tables sample_info))"
    and ?o = "normalize_bt_options demo_options"
  have load: "load_metainfo_bytes demo_lib (lds_data demo_source) =
      Inr \<lparr>tof_info = Inr sample_info, tof_announce = [''udp://a'']\<rparr>"
    by (simp add: load_metainfo_bytes_def demo_lib_def demo_source_def max_metainfo_bytes_def)
  have trackers: "parse_trackers ascii_tables demo_netlib ([] @ [''udp://a''] @ bto_extra_trackers ?o) = [''udp://a'']"
    by code_simp
  have "mi_best_name sample_info = ''pack''" by (simp add: sample_info_def)
  moreover have "bt_safe_name ''pack'' ''torrent'' = tsk_title sample_task" by code_simp
  ultimately have title: "tsk_title (bt_task_of demo_outside ?o demo_source sample_info 5 ''[udp]'' ''[...]'') =
      tsk_title sample_task" by simp
  have "storage_paths ascii_tables (bt_task_of demo_outside ?o demo_source sample_info 5 ''[udp]'' ''[...]'')
      sample_info ?fs = storage_paths ascii_tables sample_task sample_info ?fs"
    unfolding storage_paths_def title ..
  moreover have "storage_paths ascii_tables sample_task sample_info ?fs =
      Inr (projr (storage_paths ascii_tables sample_task sample_info ?fs))" by code_simp
  ultimately obtain paths where "storage_paths ascii_tables
      (bt_task_of demo_outside ?o demo_source sample_info 5 ''[udp]'' ''[...]'') sample_info ?fs = Inr paths" by metis
  then have "make_bt_task ascii_tables demo_netlib demo_lib demo_codec demo_outside ?o demo_source =
      Inr (bt_task_of demo_outside ?o demo_source sample_info 5 ''[udp]'' ''[...]'')"
    by (intro make_task[OF load _ files])
      (use files trackers in \<open>simp_all add: demo_codec_def demo_source_def\<close>)
  then show ?thesis by (simp add: resolved_demo_def r)
qed

lemma demo_codec_faithful: "codec_faithful demo_codec"
proof -
  have t: "trim_space ''[...]'' \<noteq> []" "trim_space ''[udp]'' \<noteq> []" by code_simp+
  have u: "json_text ''udp://a'' = ''udp://a''" by code_simp
  show ?thesis by (auto simp: codec_faithful_def demo_codec_def t u files_from_info_kept split: if_splits)
qed

lemma resolved_task_restored_witness:
  "\<exists>src mi info files paths.
    load_source ascii_tables demo_netlib demo_lib demo_outside (trim_space ''C:/t/a.torrent'')
      (normalize_bt_options demo_options) = Returns (Inr src) \<and>
    tl_load demo_lib (lds_data src) = Inr mi \<and> tof_info mi = Inr info \<and>
    files_from_info ascii_tables info = Inr (files, tsk_file_size resolved_demo) \<and>
    storage_paths ascii_tables resolved_demo info files = Inr paths \<and>
    worker_reads demo_lib demo_codec resolved_demo =
      (Inr mi, Inr files,
       Inr (map json_text (parse_trackers ascii_tables demo_netlib (lds_trackers src @ tof_announce mi @
         bto_extra_trackers (normalize_bt_options demo_options)))),
       (bto_runtime (normalize_bt_options demo_options))\<lparr>rto_metadata_timeout :=
          whole_seconds (rto_metadata_timeout (bto_runtime (normalize_bt_options demo_options))) * second\<rparr>)"
proof (rule resolved_task_restored)
  show "resolve_bt ascii_tables demo_netlib demo_lib demo_codec demo_outside None ''C:/t/a.torrent'' demo_options =
      Returns (Inr resolved_demo)"
    using resolve_demo_returns by (simp add: resolve_demo_def)
  show "codec_faithful demo_codec" by (rule demo_codec_faithful)
  show "options_int64 (bto_runtime demo_options)" by code_simp
  show "tl_load demo_lib [] = Inl ctx_canceled" by (simp add: demo_lib_def)
qed simp

text \<open>
  C40: A source that is a torrent by its extension but does not parse as a URL makes \<open>Resolve\<close> panic:
  \<open>IsSource\<close> accepts it, and \<open>loadSource\<close> reads the scheme of the URL that it does not have.
\<close>

theorem unparsed_source_panics:
  assumes "nl_parse_url nl source = Inl e" and "trim_space source = source" and "source \<noteq> []"
    and "\<not> contains_str source ''://''" and "is_torrent_path u source"
  shows "resolve_bt u nl lib bc x None source opts = Panics"
  using assms by (simp add: resolve_bt_def Let_def bt_is_source_def load_source_def)

lemma unparsed_source_panics_witness:
  "resolve_bt ascii_tables no_netlib demo_lib demo_codec demo_outside None ''50% off.torrent'' demo_options = Panics"
  by (rule unparsed_source_panics[where e = "new_error ''invalid URL''"]) (simp add: no_netlib_def, code_simp+)

text \<open>The path of a file URL, which is decoded already, is decoded again.\<close>

lemma file_url_decoded_twice:
  assumes "up_scheme p = ''file''" and "up_host p = []" and "up_opaque p = []"
    and "up_path p = ''/C:/50%25 off.torrent''"
  shows "file_url_path ascii_tables p = Inr (''C:'' @ [backslash] @ ''50% off.torrent'')"
    and "up_path q = ''/C:/50% off.torrent'' \<Longrightarrow> up_scheme q = ''file'' \<Longrightarrow> up_host q = [] \<Longrightarrow> up_opaque q = [] \<Longrightarrow>
      file_url_path ascii_tables q = Inl (new_error ''decode file URL: invalid URL escape'')"
proof -
  have f: "equal_fold ascii_tables ''file'' ''file''" by code_simp
  have "path_unescape ''/C:/50%25 off.torrent'' = Some ''/C:/50% off.torrent''" by code_simp
  moreover have "from_slash (tl ''/C:/50% off.torrent'') = ''C:'' @ [backslash] @ ''50% off.torrent''" by code_simp
  ultimately show "file_url_path ascii_tables p = Inr (''C:'' @ [backslash] @ ''50% off.torrent'')"
    using assms f by (simp add: file_url_path_def Let_def slash_def)
  have "path_unescape ''/C:/50% off.torrent'' = None" by code_simp
  then show "up_path q = ''/C:/50% off.torrent'' \<Longrightarrow> up_scheme q = ''file'' \<Longrightarrow> up_host q = [] \<Longrightarrow> up_opaque q = [] \<Longrightarrow>
      file_url_path ascii_tables q = Inl (new_error ''decode file URL: invalid URL escape'')"
    using f by (simp add: file_url_path_def Let_def)
qed

end
