(* ===== verification/BtWorkerProps.thy ===== *)
theory BtWorkerProps
  imports BtWorker SchedulerOps
begin

text \<open>
  What the run of a BitTorrent task promises: its numbers stay in their bounds, it reports that it
  seeds only when every selected file is whole at its final path, it stops by itself only at a
  limit, and the checkpoint that it reports is what the next run starts from.
\<close>

section \<open>Sums of sizes\<close>

definition sizes_ok :: "bt_file list \<Rightarrow> bool" where
  "sizes_ok files \<longleftrightarrow>
     list_all (\<lambda>n. 0 \<le> n) (map bf_size files) \<and> sum_list (map bf_size files) \<le> max_int64"

lemma foldl_wrap_sum:
  assumes "list_all (\<lambda>f. 0 \<le> h f \<and> h f \<le> z f) fs" and "0 \<le> n" and "n + sum_list (map z fs) \<le> max_int64"
  shows "foldl (\<lambda>n f. if P f then wrap64 (n + h f) else n) n fs = n + sum_list (map h (filter P fs))"
  using assms
proof (induction fs arbitrary: n)
  case (Cons f fs)
  have z: "0 \<le> sum_list (map z fs)"
    using Cons.prems(1) by (intro sum_list_nonneg) (auto simp: list_all_iff)
  show ?case
  proof (cases "P f")
    case True
    have "int64 (n + h f)" using Cons.prems z by (simp add: int64_def min_int64_def)
    then have "wrap64 (n + h f) = n + h f" by (rule wrap64_id)
    with Cons.IH[of "n + h f"] Cons.prems z True show ?thesis by simp
  next
    case False
    with Cons z show ?thesis by simp
  qed
qed simp

lemma selected_size_sum:
  "sizes_ok files \<Longrightarrow> selected_size files = sum_list (map bf_size (filter bf_selected files))"
  using foldl_wrap_sum[of bf_size bf_size files 0 bf_selected]
  by (simp add: selected_size_def sizes_ok_def list_all_iff)

lemma selected_downloaded_sum:
  "sizes_ok files \<Longrightarrow> selected_downloaded files =
     sum_list (map (\<lambda>f. min (max (bf_downloaded f) 0) (bf_size f)) (filter bf_selected files))"
  using foldl_wrap_sum[of "\<lambda>f. min (max (bf_downloaded f) 0) (bf_size f)" bf_size files 0 bf_selected]
  by (simp add: selected_downloaded_def sizes_ok_def list_all_iff)

lemma sum_list_pointwise_eq:
  fixes g h :: "'a \<Rightarrow> int"
  assumes "\<And>x. x \<in> set xs \<Longrightarrow> g x \<le> h x" and "sum_list (map h xs) \<le> sum_list (map g xs)" and "x \<in> set xs"
  shows "g x = h x"
  using assms
proof (induction xs)
  case (Cons a xs)
  have le: "sum_list (map g xs) \<le> sum_list (map h xs)"
    by (rule sum_list_mono) (use Cons.prems(1) in auto)
  with Cons.prems(1)[of a] Cons.prems(2) have "g a = h a" "sum_list (map h xs) \<le> sum_list (map g xs)" by auto
  with Cons show ?case by auto
qed simp

lemma received_bounds:
  assumes "sizes_ok files"
  shows "0 \<le> selected_downloaded files" and "selected_downloaded files \<le> selected_size files"
proof -
  have s: "0 \<le> bf_size f" if "f \<in> set files" for f using assms that by (simp add: sizes_ok_def list_all_iff)
  show "0 \<le> selected_downloaded files"
    unfolding selected_downloaded_sum[OF assms] by (rule sum_list_nonneg) (use s in auto)
  show "selected_downloaded files \<le> selected_size files"
    unfolding selected_downloaded_sum[OF assms] selected_size_sum[OF assms] by (rule sum_list_mono) simp
qed

text \<open>All is received only when every selected file is whole.\<close>

lemma received_all:
  assumes "sizes_ok files" and "selected_size files \<le> selected_downloaded files"
    and "f \<in> set files" and "bf_selected f"
  shows "bf_size f \<le> bf_downloaded f \<or> bf_size f = 0"
proof -
  have "min (max (bf_downloaded f) 0) (bf_size f) = bf_size f"
    by (rule sum_list_pointwise_eq[of "filter bf_selected files"
        "\<lambda>f. min (max (bf_downloaded f) 0) (bf_size f)" bf_size])
      (use assms in \<open>simp_all add: selected_downloaded_sum selected_size_sum\<close>)
  moreover have "0 \<le> bf_size f" using assms(1,3) by (simp add: sizes_ok_def list_all_iff)
  ultimately show ?thesis by (auto simp: min_def max_def split: if_splits)
qed

section \<open>A sample\<close>

text \<open>What no sample changes of a file.\<close>

definition file_key :: "bt_file \<Rightarrow> int \<times> int \<times> bool" where
  "file_key f = (bf_index f, bf_size f, bf_selected f)"

text \<open>A snapshot has the whole of a file.\<close>

definition has_file :: "transfer_snapshot result \<Rightarrow> int \<Rightarrow> int \<Rightarrow> bool" where
  "has_file taken i size_i \<longleftrightarrow>
     (case taken of Inl _ \<Rightarrow> False
      | Inr snap \<Rightarrow> (case map_of (tsn_file_bytes snap) i of None \<Rightarrow> False | Some n \<Rightarrow> size_i \<le> n))"

definition has_all :: "(int \<times> int \<times> bool) list \<Rightarrow> transfer_snapshot result \<Rightarrow> bool" where
  "has_all keys taken \<longleftrightarrow> list_all (\<lambda>(i, z, sel). sel \<and> 0 < z \<longrightarrow> has_file taken i z) keys"

lemma sample_file_key [simp]: "file_key (sample_file snap f) = file_key f"
  by (simp add: sample_file_def file_key_def Let_def)

lemma sample_file_simps [simp]:
  "bf_index (sample_file snap f) = bf_index f" "bf_size (sample_file snap f) = bf_size f"
  "bf_selected (sample_file snap f) = bf_selected f"
  by (simp_all add: sample_file_def Let_def)

lemma sample_file_whole:
  assumes "bf_size f \<le> bf_downloaded (sample_file snap f)" and "0 < bf_size f"
  shows "has_file (Inr snap) (bf_index f) (bf_size f)"
  using assms by (auto simp: sample_file_def has_file_def Let_def split: option.splits if_splits)

lemma sample_rates_files [simp]:
  "rst_files (btr_state (sample_rates rnd now snap r)) = rst_files (btr_state r)"
  "btr_reports (sample_rates rnd now snap r) = btr_reports r"
  by (simp_all add: sample_rates_def Let_def)

lemma sample_counts_files [simp]: "rst_files (sample_counts rnd b n snap s) = rst_files s"
  by (simp add: sample_counts_def Let_def)

lemma sample_phase_simps [simp]:
  "rst_files (btr_state (sample_phase b now c r)) = rst_files (btr_state r)"
  "btr_reports (sample_phase b now c r) = btr_reports r"
  "btr_uses_slot (sample_phase b now c r) \<longleftrightarrow> \<not> c"
  by (simp_all add: sample_phase_def Let_def)

lemma sample_state_simps [simp]:
  "rst_files (btr_state (sample_state rnd base now snap r)) = map (sample_file snap) (rst_files (btr_state r))"
  "btr_reports (sample_state rnd base now snap r) = btr_reports r"
  "btr_uses_slot (sample_state rnd base now snap r) \<longleftrightarrow> \<not> btr_last_complete (sample_state rnd base now snap r)"
  "btr_last_complete (sample_state rnd base now snap r) \<longleftrightarrow>
     selected_size (map (sample_file snap) (rst_files (btr_state r))) \<le>
     selected_downloaded (map (sample_file snap) (rst_files (btr_state r)))"
  by (simp_all add: sample_state_def Let_def)

lemma sizes_ok_key: "map file_key fs = map file_key gs \<Longrightarrow> sizes_ok fs = sizes_ok gs"
proof -
  assume k: "map file_key fs = map file_key gs"
  have z: "map bf_size hs = map (fst \<circ> snd) (map file_key hs)" for hs by (simp add: file_key_def)
  then have "map bf_size fs = map bf_size gs" using k by metis
  then show ?thesis by (simp only: sizes_ok_def)
qed

lemma complete_has_all:
  assumes "sizes_ok (rst_files (btr_state r))" and "btr_last_complete (sample_state rnd base now snap r)"
  shows "has_all (map file_key (rst_files (btr_state r))) (Inr snap)"
proof -
  let ?fs = "rst_files (btr_state r)" and ?gs = "map (sample_file snap) (rst_files (btr_state r))"
  have ok: "sizes_ok ?gs" using assms(1) by (subst sizes_ok_key[of _ ?fs]) simp_all
  have all: "selected_size ?gs \<le> selected_downloaded ?gs" using assms(2) by simp
  have "has_file (Inr snap) (bf_index f) (bf_size f)" if f: "f \<in> set ?fs" "bf_selected f" "0 < bf_size f" for f
    using received_all[OF ok all, of "sample_file snap f"] f by (intro sample_file_whole) auto
  then show ?thesis by (auto simp: has_all_def list_all_iff file_key_def)
qed

section \<open>The reports of a run\<close>

text \<open>
  What holds of the report with number \<open>k\<close> of a run that takes the snapshots \<open>taken\<close>: the numbers are in
  their bounds, a task that seeds uses no slot, and it is reported to seed only when the snapshot
  with the same number, the one that the report is made of, has every selected file.
\<close>

definition sound_report :: "(int \<times> int \<times> bool) list \<Rightarrow> transfer_snapshot result list \<Rightarrow> nat \<Rightarrow> progress_update \<Rightarrow> bool" where
  "sound_report keys taken k u \<longleftrightarrow>
     0 \<le> upd_received u \<and> upd_received u \<le> upd_file_size u \<and>
     0 \<le> upd_progress u \<and> upd_progress u \<le> 100 \<and>
     (upd_status u = Some StatusSeeding \<longrightarrow>
        upd_uses_slot u = Some False \<and> k < length taken \<and> has_all keys (taken ! k))"

definition sound_run :: "(int \<times> int \<times> bool) list \<Rightarrow> transfer_snapshot result list \<Rightarrow> bt_run \<Rightarrow> bool" where
  "sound_run keys taken r \<longleftrightarrow>
     sizes_ok (rst_files (btr_state r)) \<and> map file_key (rst_files (btr_state r)) = keys \<and>
     (\<forall>k<length (btr_reports r). sound_report keys taken k (btr_reports r ! k))"

lemma progress_percent_bounds: "0 \<le> progress_percent rnd a b" "progress_percent rnd a b \<le> 100"
  by (simp_all add: progress_percent_def Let_def)

lemma bt_report_sound:
  assumes "sizes_ok (rst_files s)"
    and "status = Some StatusSeeding \<Longrightarrow> \<not> slot \<and> k < length taken \<and> has_all keys (taken ! k)"
  shows "sound_report keys taken k (bt_report rnd s speed status patch slot)"
  using received_bounds[OF assms(1)] progress_percent_bounds assms(2)
  by (simp add: sound_report_def bt_report_def)

lemma sound_run_report:
  assumes "sound_run keys taken r" and "sound_report keys taken (length (btr_reports r)) u"
  shows "sound_run keys taken (r\<lparr>btr_reports := btr_reports r @ [u]\<rparr>)"
  using assms by (auto simp: sound_run_def nth_append less_Suc_eq)

lemma sample_sound:
  assumes "sound_run keys all r" and "length (btr_reports r) < length all" and "taken = all ! length (btr_reports r)"
    and "sample rnd bc opts base now taken r = (res, r')"
  shows "sound_run keys all r'" and "res = Inr b \<Longrightarrow> length (btr_reports r') = Suc (length (btr_reports r))"
proof -
  have "sound_run keys all r' \<and> (res = Inr b \<longrightarrow> length (btr_reports r') = Suc (length (btr_reports r)))"
  proof (cases taken)
    case (Inl e)
    then have "res = Inl e" "r' = r" using assms(4) by (simp_all add: sample_def)
    with assms(1) show ?thesis by simp
  next
    case (Inr snap)
    let ?r = "sample_state rnd base now snap r"
    have k: "map file_key (rst_files (btr_state ?r)) = keys" using assms(1) by (simp add: sound_run_def comp_def)
    have ok: "sizes_ok (rst_files (btr_state ?r))"
      using sizes_ok_key[of "rst_files (btr_state ?r)" "rst_files (btr_state r)"] assms(1) k by (simp add: sound_run_def)
    have h: "has_all keys (all ! length (btr_reports r))" if "btr_last_complete ?r"
      using complete_has_all[OF _ that] assms(1,3) Inr by (auto simp: sound_run_def)
    have r: "sound_run keys all ?r" using assms(1) k ok by (simp add: sound_run_def)
    show ?thesis
    proof (cases "runtime_state_patch bc (btr_state ?r)")
      case (Inl e)
      then have "res = Inl e" "r' = ?r" using assms(4) Inr by (simp_all add: sample_def Let_def)
      with r show ?thesis by simp
    next
      case (Inr patch)
      define u where "u = bt_report rnd (btr_state ?r) (rst_download_rate (btr_state ?r))
        (Some (if btr_last_complete ?r then StatusSeeding else StatusRunning)) patch (btr_uses_slot ?r)"
      have r': "r' = ?r\<lparr>btr_reports := btr_reports ?r @ [u]\<rparr>"
        using Inr assms(4) \<open>taken = Inr snap\<close> by (simp add: sample_def Let_def u_def)
      have "sound_report keys all (length (btr_reports ?r)) u" unfolding u_def
        by (rule bt_report_sound[OF ok])
          (use h assms(2) sample_state_simps(3)[of rnd base now snap r] in \<open>auto split: if_splits\<close>)
      from sound_run_report[OF r this] show ?thesis by (simp add: r')
    qed
  qed
  then show "sound_run keys all r'" and "res = Inr b \<Longrightarrow> length (btr_reports r') = Suc (length (btr_reports r))" by blast+
qed

lemma pause_report_sound:
  assumes "sound_run keys taken r"
  shows "sound_run keys taken (pause_report rnd bc r)"
proof -
  define s where "s = (btr_state r)\<lparr>rst_phase := if btr_last_complete r then ''paused_seeding'' else ''paused_download''\<rparr>"
  have r: "sound_run keys taken (r\<lparr>btr_state := s\<rparr>)" using assms by (simp add: sound_run_def s_def)
  have u: "sound_report keys taken k (bt_report rnd s 0 None patch slot)" for k patch slot
    by (rule bt_report_sound) (use assms in \<open>simp_all add: sound_run_def s_def\<close>)
  have p: "pause_report rnd bc r = (case runtime_state_patch bc s of Inl _ \<Rightarrow> r\<lparr>btr_state := s\<rparr>
      | Inr patch \<Rightarrow> r\<lparr>btr_state := s, btr_reports := btr_reports (r\<lparr>btr_state := s\<rparr>) @
          [bt_report rnd s 0 None patch (btr_uses_slot r)]\<rparr>)"
    by (simp add: pause_report_def Let_def s_def[symmetric] cong: sum.case_cong)
  show ?thesis
  proof (cases "runtime_state_patch bc s")
    case (Inr patch)
    then show ?thesis using sound_run_report[OF r u] by (simp add: p)
  qed (simp add: p r)
qed

fun event_snapshot :: "bt_event \<Rightarrow> transfer_snapshot result" where
  "event_snapshot (BtTick now s) = s"
| "event_snapshot (BtDone now s e) = s"

text \<open>The snapshots that the loop still takes are those that follow the ones that were reported.\<close>

lemma bt_loop_sound:
  "sound_run keys all r \<Longrightarrow> drop (length (btr_reports r)) all = map event_snapshot evs \<Longrightarrow>
   bt_loop rnd bc opts base evs r = (res, r') \<Longrightarrow> sound_run keys all r'"
proof (induction rnd bc opts base evs r rule: bt_loop.induct)
  case (2 rnd bc opts base now taken e evs r)
  have n: "length (btr_reports r) < length all" "taken = all ! length (btr_reports r)"
    using 2(2) drop_eq_Nil[of "length (btr_reports r)" all] hd_drop_conv_nth[of "length (btr_reports r)" all]
    by (auto simp: not_le[symmetric])
  show ?case using sample_sound(1)[OF 2(1) n] pause_report_sound 2(3) by (fastforce split: prod.splits)
next
  case (3 rnd bc opts base now taken evs r)
  have n: "length (btr_reports r) < length all" "taken = all ! length (btr_reports r)"
    using 3(3) drop_eq_Nil[of "length (btr_reports r)" all] hd_drop_conv_nth[of "length (btr_reports r)" all]
    by (auto simp: not_le[symmetric])
  obtain b r1 where s: "sample rnd bc opts base now taken r = (b, r1)"
    by (cases "sample rnd bc opts base now taken r")
  note r1 = sample_sound[OF 3(2) n s]
  consider e where "b = Inl e" | "b = Inr True" | "b = Inr False" by (cases b) auto
  then show ?case
  proof cases
    case 3
    have "drop (length (btr_reports r1)) all = tl (drop (length (btr_reports r)) all)"
      using r1(2)[OF 3] by (simp add: drop_Suc tl_drop)
    with "3.IH"[OF s[symmetric] 3 refl r1(1)] "3.prems" s 3 show ?thesis by simp
  qed (use 3(4) s r1 in auto)
qed simp

lemma run_bt_sound:
  assumes "runtime_state_from_task bc t = Inr s" and "sizes_ok (rst_files s)"
    and "run_bt rnd bc t opened now first evs close_err = (res, us)" and "k < length us"
  shows "k = 0 \<and> upd_status (us ! k) = None \<or>
    (\<exists>j. k = Suc j \<and> sound_report (map file_key (rst_files s)) (snd first # map event_snapshot evs) j (us ! k))"
proof -
  let ?s = "s\<lparr>rst_phase := ''checking''\<rparr>" and ?keys = "map file_key (rst_files s)"
    and ?all = "snd first # map event_snapshot evs"
    and ?base = "\<lparr>bb_uploaded = rst_uploaded_bytes s, bb_seeding = rst_seeding_seconds s\<rparr>"
    and ?opts = "runtime_options_from_task t"
  obtain patch where p: "runtime_state_patch bc ?s = Inr patch"
    using assms(1,3,4) by (auto simp: run_bt_def Let_def split: sum.splits)
  have i: "upd_status (bt_report rnd ?s 0 None patch True) = None" by (simp add: bt_report_def)
  obtain b r where b: "sample rnd bc ?opts ?base (fst first) (snd first) (bt_start now ?s) = (b, r)"
    by (cases "sample rnd bc ?opts ?base (fst first) (snd first) (bt_start now ?s)")
  have start: "sound_run ?keys ?all (bt_start now ?s)" "btr_reports (bt_start now ?s) = []"
    using assms(2) by (simp_all add: sound_run_def bt_start_def)
  note r = sample_sound[OF start(1) _ _ b, unfolded start(2)]
  obtain res' r' where l: "bt_loop rnd bc ?opts ?base evs r = (res', r')"
    by (cases "bt_loop rnd bc ?opts ?base evs r")
  have r': "sound_run ?keys ?all r'" if "b = Inr False"
    by (rule bt_loop_sound[OF _ _ l]) (use r(1) r(2)[of False] that in simp_all)
  consider e where "opened = Some e" | e where "opened = None" "b = Inl e" | "opened = None" "b = Inr True"
    | "opened = None" "b = Inr False" by (cases opened; cases b) auto
  then have "\<exists>rs. us = bt_report rnd ?s 0 None patch True # rs \<and>
      (\<forall>j<length rs. sound_report ?keys ?all j (rs ! j))"
    using assms(1,3) p b r(1) r' l by cases (auto simp: run_bt_def Let_def sound_run_def)
  with i assms(4) show ?thesis by (cases k) auto
qed

section \<open>Snapshots\<close>

lemma promoted_whole:
  assumes "promoted_bytes fs path z k = Inr n" and "0 < z" and "z \<le> n"
  shows "\<exists>c. os_stat fs path = Inr (NFile c) \<and> int (length c) = z"
  using assms by (auto simp: promoted_bytes_def split: if_splits sum.splits node.splits)

lemma snapshot_files_lookup:
  "snapshot_files fs gs = Inr bytes \<Longrightarrow> map_of bytes i = Some n \<Longrightarrow> map_of gs i = Some g \<Longrightarrow>
   promoted_bytes fs (egf_path g) (egf_expected g) (verified_file_bytes (egf_pieces g) (egf_length g)) = Inr n"
proof (induction fs gs arbitrary: bytes rule: snapshot_files.induct)
  case (2 fs j h gs)
  then show ?case by (auto split: sum.splits if_splits)
qed simp

lemma snapshot_has_file:
  assumes "has_file (transfer_snapshot_of fs tt) i z" and "map_of (ttr_selected tt) i = Some g"
    and "egf_expected g = z" and "0 < z"
  shows "\<exists>c. os_stat fs (egf_path g) = Inr (NFile c) \<and> int (length c) = z"
proof -
  obtain bytes n where "snapshot_files fs (ttr_selected tt) = Inr bytes" "map_of bytes i = Some n" "z \<le> n"
    using assms(1) by (auto simp: has_file_def transfer_snapshot_of_def split: sum.splits option.splits)
  with snapshot_files_lookup[OF _ _ assms(2)] promoted_whole assms(3,4) show ?thesis by metis
qed

section \<open>The properties\<close>

text \<open>
  C19: A task is reported as seeding only when it is delivered. Let \<open>obs\<close> list, for every snapshot that a
  run takes, the file system and the transfer of that moment. If a report of the run has the status
  seeding, then it is not the first, which is made before any sample; and at the moment of the sample that this very report
  is made of, every selected file that is not empty stood with exactly its size at the path that the
  transfer has for it; and with such a report the task gives up its slot. An empty file has nothing to receive and is not looked up.
\<close>

theorem seeding_reported_when_delivered:
  assumes "runtime_state_from_task bc t = Inr s" and "sizes_ok (rst_files s)"
    and "run_bt rnd bc t opened now first evs close_err = (res, us)"
    and "snd first # map event_snapshot evs = map (\<lambda>(fs, tt). transfer_snapshot_of fs tt) obs"
    and "k < length us" and "upd_status (us ! k) = Some StatusSeeding"
  shows "upd_uses_slot (us ! k) = Some False \<and> 0 < k \<and> k - 1 < length obs \<and>
    (\<forall>f\<in>set (rst_files s). bf_selected f \<and> 0 < bf_size f \<longrightarrow>
      (\<forall>g. map_of (ttr_selected (snd (obs ! (k - 1)))) (bf_index f) = Some g \<and> egf_expected g = bf_size f \<longrightarrow>
        (\<exists>c. os_stat (fst (obs ! (k - 1))) (egf_path g) = Inr (NFile c) \<and> int (length c) = bf_size f)))"
proof -
  obtain j where j: "k = Suc j"
    "sound_report (map file_key (rst_files s)) (snd first # map event_snapshot evs) j (us ! k)"
    using run_bt_sound[OF assms(1-3,5)] assms(6) by auto
  then have slot: "upd_uses_slot (us ! k) = Some False" and len: "j < length obs"
    and all: "has_all (map file_key (rst_files s)) (map (\<lambda>(fs, tt). transfer_snapshot_of fs tt) obs ! j)"
    using assms(6) by (auto simp: sound_report_def assms(4))
  obtain fs tt where o: "obs ! j = (fs, tt)" by (cases "obs ! j")
  have "\<exists>c. os_stat fs (egf_path g) = Inr (NFile c) \<and> int (length c) = bf_size f"
    if f: "f \<in> set (rst_files s)" "bf_selected f" "0 < bf_size f"
      and g: "map_of (ttr_selected tt) (bf_index f) = Some g" "egf_expected g = bf_size f" for f g
  proof -
    have "has_file (transfer_snapshot_of fs tt) (bf_index f) (bf_size f)"
      using all f len o by (auto simp: has_all_def list_all_iff file_key_def)
    from snapshot_has_file[OF this g f(3)] show ?thesis .
  qed
  then show ?thesis using slot len j(1) o by simp
qed

text \<open>A task with one file of two bytes, which is at its path when it is sampled.\<close>

definition one_file :: "bt_file list" where
  "one_file = [\<lparr>bf_index = 0, bf_path = ''a'', bf_size = 2, bf_selected = True, bf_priority = 2,
     bf_downloaded = 0, bf_completed = False\<rparr>]"

definition fixed_codec :: "bt_file list \<Rightarrow> bt_codec" where
  "fixed_codec files = \<lparr>bc_marshal_files = \<lambda>_. Inr ''[...]'', bc_unmarshal_files = \<lambda>_. Inr files,
     bc_marshal_strings = \<lambda>_. Inr [], bc_unmarshal_strings = \<lambda>_. Inr [], bc_parse_float = \<lambda>_. 0\<rparr>"

definition one_state :: runtime_state where
  "one_state = \<lparr>rst_files = one_file, rst_uploaded_bytes = 0, rst_seeding_seconds = 0, rst_phase = [],
     rst_peer_count = 0, rst_seed_count = 0, rst_download_rate = 0, rst_upload_rate = 0, rst_share_ratio = 0\<rparr>"

definition one_task :: task where
  "one_task = sample_task\<lparr>tsk_stage := (tsk_stage sample_task)\<lparr>stg_state :=
     Some (fmap_of_list [(''files'', ''[...]'')])\<rparr>\<rparr>"

definition one_tree :: fsys where
  "one_tree = put_node ''C:/dl/a'' (NFile ''xy'') sample_fs"

definition one_transfer :: torrent_transfer where
  "one_transfer = \<lparr>ttr_selected = [(0, \<lparr>egf_pieces = [(\<lparr>cmp_complete = True, cmp_ok = True, cmp_err = None\<rparr>, 2)],
       egf_length = 2, egf_path = ''C:/dl/a'', egf_expected = 2\<rparr>)], ttr_sequential = None,
     ttr_downloaded = 2, ttr_uploaded = 0, ttr_peers = 1, ttr_seeds = 1\<rparr>"

definition one_run :: "goerr option option \<times> progress_update list" where
  "one_run = run_bt id (fixed_codec one_file) one_task None 0 (0, transfer_snapshot_of one_tree one_transfer) [] None"

lemma one_run_facts:
  "runtime_state_from_task (fixed_codec one_file) one_task = Inr one_state"
  "sizes_ok (rst_files one_state)"
  "map upd_status (snd one_run) = [None, Some StatusSeeding]"
  by code_simp+

lemma seeding_reported_when_delivered_witness:
  "upd_uses_slot (snd one_run ! 1) = Some False \<and>
    (\<exists>c. os_stat one_tree ''C:/dl/a'' = Inr (NFile c) \<and> int (length c) = bf_size (hd one_file))"
proof -
  have len: "length (snd one_run) = 2" using arg_cong[OF one_run_facts(3), of length] by simp
  have k: "1 < length (snd one_run)" using len by simp
  have "upd_status (snd one_run ! 1) = map upd_status (snd one_run) ! 1" using len by (simp del: One_nat_def)
  then have st: "upd_status (snd one_run ! 1) = Some StatusSeeding" by (simp add: one_run_facts(3))
  have r: "run_bt id (fixed_codec one_file) one_task None 0 (0, transfer_snapshot_of one_tree one_transfer) [] None =
    (fst one_run, snd one_run)" by (simp add: one_run_def)
  have o: "snd (0::int, transfer_snapshot_of one_tree one_transfer) # map event_snapshot [] =
      map (\<lambda>(fs, tt). transfer_snapshot_of fs tt) [(one_tree, one_transfer)]" by simp
  from seeding_reported_when_delivered[OF one_run_facts(1,2) r o k st] show ?thesis
    by (simp add: one_state_def one_file_def one_transfer_def)
qed

text \<open>The scheduler takes over what a report says of the stage.\<close>

lemma report_task_state:
  assumes "upd_stage_state u = Some m" and "m \<noteq> fmempty" and "fmlookup m k = Some v"
  shows "map_get (stg_state (tsk_stage (report_task u t))) k = v"
proof -
  obtain st where "stg_state (tsk_stage (report_task u t)) = Some (st ++\<^sub>f m)"
    using assms(1,2) by (auto simp: report_task_def Let_def split: option.splits)
  with assms(3) fmdomI[OF assms(3)] show ?thesis by (simp add: map_get_def)
qed

lemma patch_lookup:
  assumes "runtime_state_patch bc s = Inr patch" and "bc_marshal_files bc (rst_files s) = Inr files"
  defines "m \<equiv> fmap_of_list patch"
  shows "m \<noteq> fmempty" "fmlookup m ''files'' = Some files"
    "fmlookup m ''uploadedBytes'' = Some (itoa (rst_uploaded_bytes s))"
    "fmlookup m ''seedingTimeSeconds'' = Some (itoa (rst_seeding_seconds s))"
    "fmlookup m ''phase'' = Some (rst_phase s)"
    "fmlookup m ''peerCount'' = Some (itoa (rst_peer_count s))"
    "fmlookup m ''seedCount'' = Some (itoa (rst_seed_count s))"
    "fmlookup m ''downloadRate'' = Some (itoa (rst_download_rate s))"
    "fmlookup m ''uploadRate'' = Some (itoa (rst_upload_rate s))"
    "fmlookup m ''shareRatioPercent'' = Some (format_fixed 4 (rst_share_ratio s))"
proof -
  have p: "patch = [(''files'', files), (''uploadedBytes'', itoa (rst_uploaded_bytes s)),
      (''seedingTimeSeconds'', itoa (rst_seeding_seconds s)), (''phase'', rst_phase s),
      (''peerCount'', itoa (rst_peer_count s)), (''seedCount'', itoa (rst_seed_count s)),
      (''downloadRate'', itoa (rst_download_rate s)), (''uploadRate'', itoa (rst_upload_rate s)),
      (''shareRatioPercent'', format_fixed 4 (rst_share_ratio s))]"
    using assms(1,2) by (simp add: runtime_state_patch_def)
  note look = m_def fmlookup_of_list p
  show files: "fmlookup m ''files'' = Some files" by (simp add: look)
  then show "m \<noteq> fmempty" by auto
  show "fmlookup m ''uploadedBytes'' = Some (itoa (rst_uploaded_bytes s))" by (simp add: look)
  show "fmlookup m ''seedingTimeSeconds'' = Some (itoa (rst_seeding_seconds s))" by (simp add: look)
  show "fmlookup m ''phase'' = Some (rst_phase s)" by (simp add: look)
  show "fmlookup m ''peerCount'' = Some (itoa (rst_peer_count s))" by (simp add: look)
  show "fmlookup m ''seedCount'' = Some (itoa (rst_seed_count s))" by (simp add: look)
  show "fmlookup m ''downloadRate'' = Some (itoa (rst_download_rate s))" by (simp add: look)
  show "fmlookup m ''uploadRate'' = Some (itoa (rst_upload_rate s))" by (simp add: look)
  show "fmlookup m ''shareRatioPercent'' = Some (format_fixed 4 (rst_share_ratio s))" by (simp add: look)
qed

text \<open>
  The checkpoint that a run reports is where the next run continues. When the scheduler has
  taken over a report, decoding the task gives back the state that was reported, with its files,
  its uploaded bytes and its time of seeding; of the share ratio the four decimals are kept.
\<close>

theorem checkpoint_restored:
  assumes "runtime_state_patch bc s = Inr patch" and "bc_marshal_files bc (rst_files s) = Inr files"
    and "bc_unmarshal_files bc files = Inr (rst_files s)" and "trim_space files \<noteq> []"
    and "rst_files s \<noteq> []"
    and "list_all int64 [rst_uploaded_bytes s, rst_seeding_seconds s, rst_peer_count s, rst_seed_count s,
      rst_download_rate s, rst_upload_rate s]"
  shows "runtime_state_from_task bc (report_task (bt_report rnd s speed status patch slot) t) =
    Inr (s\<lparr>rst_share_ratio := bc_parse_float bc (format_fixed 4 (rst_share_ratio s))\<rparr>)"
proof -
  let ?t = "report_task (bt_report rnd s speed status patch slot) t"
  note look = patch_lookup[OF assms(1,2)]
  have g: "map_get (stg_state (tsk_stage ?t)) k = v" if "fmlookup (fmap_of_list patch) k = Some v" for k v
    by (rule report_task_state[OF _ look(1) that]) (simp add: bt_report_def)
  have "stg_state (tsk_stage ?t) \<noteq> None"
  proof
    assume "stg_state (tsk_stage ?t) = None"
    then have "map_get (stg_state (tsk_stage ?t)) ''files'' = []" by (simp add: map_get_def)
    with g[OF look(2)] assms(4) show False by simp
  qed
  then have "files_from_task bc ?t = Inr (rst_files s)"
    using g[OF look(2)] assms(3-5) by (simp add: files_from_task_def Let_def)
  then show ?thesis
    using assms(6) g[OF look(3)] g[OF look(4)] g[OF look(5)] g[OF look(6)] g[OF look(7)] g[OF look(8)]
      g[OF look(9)] g[OF look(10)]
    by (simp add: runtime_state_from_task_def bt_int64_state_def bt_int_state_def parse_itoa)
qed

definition kept_state :: runtime_state where
  "kept_state = one_state\<lparr>rst_uploaded_bytes := 7, rst_seeding_seconds := 61, rst_phase := ''paused_seeding'',
     rst_peer_count := 3\<rparr>"

lemma checkpoint_restored_witness:
  "runtime_state_from_task (fixed_codec one_file)
     (report_task (bt_report id kept_state 0 None [(''files'', ''[...]''), (''uploadedBytes'', ''7''),
        (''seedingTimeSeconds'', ''61''), (''phase'', ''paused_seeding''), (''peerCount'', ''3''), (''seedCount'', ''0''),
        (''downloadRate'', ''0''), (''uploadRate'', ''0''), (''shareRatioPercent'', ''0.0000'')] False) one_task) =
   Inr (kept_state\<lparr>rst_share_ratio := bc_parse_float (fixed_codec one_file) (format_fixed 4 (rst_share_ratio kept_state))\<rparr>)"
proof (rule checkpoint_restored[where files = "''[...]''"])
  show "runtime_state_patch (fixed_codec one_file) kept_state = Inr [(''files'', ''[...]''), (''uploadedBytes'', ''7''),
        (''seedingTimeSeconds'', ''61''), (''phase'', ''paused_seeding''), (''peerCount'', ''3''), (''seedCount'', ''0''),
        (''downloadRate'', ''0''), (''uploadRate'', ''0''), (''shareRatioPercent'', ''0.0000'')]"
    by code_simp
  show "trim_space ''[...]'' \<noteq> []" by code_simp
qed (simp_all add: fixed_codec_def kept_state_def one_state_def one_file_def int64_def min_int64_def max_int64_def)

end
