(* ===== verification/BtClientProps.thy ===== *)
theory BtClientProps
  imports BtClient BtResolveProps BtWorkerProps JsonText
begin

text \<open>
  The client of the BitTorrent runtime against the engine: it edits the selection as the engine
  does, recognises the same sources apart from magnet links, and forwards a run faithfully.
\<close>

section \<open>Selecting files\<close>

text \<open>A file as the engine and the client leave it: clamped, and without priority when unselected.\<close>

definition settled_file :: "bt_file \<Rightarrow> bool" where
  "settled_file f \<longleftrightarrow> 0 \<le> bf_downloaded f \<and> bf_downloaded f \<le> bf_size f \<and> (bf_selected f \<or> bf_priority f = 0)"

lemma client_files [simp]: "client_files_from_task bc t = files_from_task bc t"
  by (simp add: client_files_from_task_def files_from_task_def)

lemma map_of_pairs: "map_of (map (\<lambda>i. (i, g i)) xs) i = (if i \<in> set xs then Some (g i) else None)"
  by (induction xs) auto

lemma chosen_priority_of:
  assumes "f \<in> set files" and "distinct (map bf_index files)" and "settled_file f"
  shows "chosen_priority files (bf_index f) = (if bf_priority f < 1 \<or> bf_priority f > 3 then 2 else bf_priority f)"
proof -
  let ?ps = "map (\<lambda>f. (bf_index f, normalize_file_priority (bf_priority f) (bf_selected f))) files"
  have d: "distinct (map fst ?ps)" using assms(2) by (simp add: comp_def)
  have "map_of (rev ?ps) (bf_index f) = Some (normalize_file_priority (bf_priority f) (bf_selected f))"
    using d assms(1) by (intro map_of_is_SomeI) (auto simp: rev_map[symmetric])
  then show ?thesis
    using assms(3) by (auto simp: chosen_priority_def normalize_file_priority_def settled_file_def Let_def)
qed

lemma chosen_priority_range: "1 \<le> chosen_priority files i \<and> chosen_priority files i \<le> 3"
proof -
  have n: "normalize_file_priority p s = 0 \<or> (1 \<le> normalize_file_priority p s \<and> normalize_file_priority p s \<le> 3)" for p s
    by (simp add: normalize_file_priority_def)
  have "\<exists>f::bt_file. (i, p) = (bf_index f, normalize_file_priority (bf_priority f) (bf_selected f))"
    if "map_of (rev (map (\<lambda>f. (bf_index f, normalize_file_priority (bf_priority f) (bf_selected f))) files)) i = Some p" for p
    using map_of_SomeD[OF that] unfolding set_rev set_map by (elim imageE) blast
  then show ?thesis using n by (fastforce simp: chosen_priority_def Let_def split: option.splits)
qed

lemma prioritize_select:
  assumes "bf_index f \<in> set chosen \<Longrightarrow>
      g (bf_index f) = (if bf_priority f < 1 \<or> bf_priority f > 3 then 2 else bf_priority f)"
    and "settled_file f"
  shows "prioritize_file (map_of (map (\<lambda>i. (i, g i)) chosen)) f = Inr (select_file chosen f)"
  using assms by (auto simp: prioritize_file_def map_of_pairs select_file_def clamp_downloaded_def settled_file_def)

lemma prioritize_all:
  "(\<And>f. f \<in> set fs \<Longrightarrow> prioritize_file prios f = Inr (h f)) \<Longrightarrow> prioritize_files prios fs = Inr (map h fs)"
  by (induction fs) auto

text \<open>A task without what only the client sets from the selection: the bytes received and the progress.\<close>

definition without_progress :: "task \<Rightarrow> task" where
  "without_progress t = t\<lparr>tsk_received := 0, tsk_progress := 0,
     tsk_stage := (tsk_stage t)\<lparr>stg_received := 0, stg_progress := 0\<rparr>\<rparr>"

text \<open>
  C22: The client selects files as the engine does. For a task whose files are settled and have
  distinct indexes, both edits give the same task or the same error, apart from the bytes received
  and the progress, which the client computes anew and the engine only bounds.
\<close>

theorem selection_agrees:
  assumes "files_from_task bc t = Inr files" and "distinct (map bf_index files)"
    and "list_all settled_file files"
  shows "map_sum id without_progress (client_set_selected_files rnd bc t chosen) =
    map_sum id without_progress (set_selected_files bc t chosen)"
proof -
  let ?prios = "map (\<lambda>i. (i, chosen_priority files i)) chosen"
  have sel: "prioritize_files (map_of ?prios) files = Inr (map (select_file chosen) files)"
    by (rule prioritize_all, rule prioritize_select)
      (use assms(2,3) chosen_priority_of in \<open>auto simp: list_all_iff\<close>)
  show ?thesis
    using assms(1) sel
    by (auto simp: client_set_selected_files_def set_file_priorities_def set_selected_files_def Let_def
        without_progress_def split: sum.splits)
qed

lemma selection_agrees_witness:
  "map_sum id without_progress (client_set_selected_files id (fixed_codec one_file) one_task [0]) =
    map_sum id without_progress (set_selected_files (fixed_codec one_file) one_task [0])"
  by (rule selection_agrees[where files = one_file]) code_simp+

lemma select_file_settled: "settled_file f \<Longrightarrow> settled_file (select_file chosen f)"
  by (auto simp: settled_file_def select_file_def)

section \<open>Recognising sources\<close>

text \<open>
  The client and the engine recognise the same sources, except for magnet links, which the
  client accepts by the form of their topic and the engine by parsing them.
\<close>

theorem sources_agree:
  assumes "\<And>p. nl_parse_url nl (trim_space source) = Inr p \<Longrightarrow> to_lower u (up_scheme p) \<noteq> ''magnet''"
  shows "client_is_source u nl source = bt_is_source u nl lib source"
  using assms
  by (auto simp: client_is_source_def bt_is_source_def is_torrent_path_def Let_def split: sum.splits)

lemma sources_agree_witness:
  "client_is_source ascii_tables demo_netlib ''C:/t/a.torrent'' =
    bt_is_source ascii_tables demo_netlib demo_lib ''C:/t/a.torrent''"
proof (rule sources_agree)
  fix p assume "nl_parse_url demo_netlib (trim_space ''C:/t/a.torrent'') = Inr p"
  moreover have "trim_space ''C:/t/a.torrent'' = ''C:/t/a.torrent''" and "to_lower ascii_tables ''c'' \<noteq> ''magnet''"
    by code_simp+
  ultimately show "to_lower ascii_tables (up_scheme p) \<noteq> ''magnet''" by (auto simp: demo_netlib_def)
qed

section \<open>Trackers\<close>

text \<open>Both parse a text into the same trackers.\<close>

lemma lead_len_zero: "list_all (\<lambda>w. w \<noteq> []) ws \<Longrightarrow> lead_len ws s = 0 \<longleftrightarrow> (\<forall>w\<in>set ws. \<not> prefix w s)"
  by (induction ws) auto

lemma seqs_nonempty: "list_all (\<lambda>w. w \<noteq> []) space_seqs" "list_all (\<lambda>w. w \<noteq> []) (map rev space_seqs)"
  by code_simp+

definition word :: "string \<Rightarrow> bool" where
  "word w \<longleftrightarrow> w \<noteq> [] \<and> (\<forall>k<length w. lead_len space_seqs (drop k w) = 0)"

lemma word_len_word: "word_len s \<noteq> 0 \<Longrightarrow> word (take (word_len s) s)"
proof -
  have l: "k < word_len s \<Longrightarrow> lead_len space_seqs (drop k s) = 0" for k
    by (induction s arbitrary: k) (auto split: if_splits simp: drop_Cons split: nat.splits)
  have "lead_len space_seqs (drop k (take (word_len s) s)) = 0" if "k < word_len s" for k
  proof -
    have "prefix (drop k (take (word_len s) s)) (drop k s)" by (simp add: drop_take take_is_prefix)
    with l[OF that] show ?thesis
      unfolding lead_len_zero[OF seqs_nonempty(1)] using prefix_order.trans by blast
  qed
  then show "word_len s \<noteq> 0 \<Longrightarrow> word (take (word_len s) s)"
    using word_len_le[of s] by (auto simp: word_def)
qed

lemma go_fields_word: "w \<in> set (go_fields s) \<Longrightarrow> word w"
proof (induction s rule: go_fields.induct)
  case (1 s)
  then show ?case
  proof (cases "trim_lead space_seqs s")
    case Nil
    with 1(2) show ?thesis by (subst (asm) go_fields.simps) simp
  next
    case (Cons c cs)
    from trim_lead_progress[OF Cons] have "word_len (c # cs) \<noteq> 0" by simp
    from word_len_word[OF this] show ?thesis
      using 1 Cons by (subst (asm) go_fields.simps) (auto simp: Let_def)
  qed
qed

lemma trim_space_word:
  assumes "word w"
  shows "trim_space w = w"
proof -
  have f: "trim_lead space_seqs w = w"
    by (subst trim_lead.simps) (use assms in \<open>auto simp: word_def dest: spec[of _ 0]\<close>)
  have "\<not> prefix r (rev w)" if r: "r \<in> set (map rev space_seqs)" for r
  proof
    assume "prefix r (rev w)"
    then obtain q where q: "q \<in> set space_seqs" "suffix q w" "q \<noteq> []"
      using r seqs_nonempty(1) by (auto simp: suffix_to_prefix list_all_iff)
    then obtain x where x: "w = x @ q" by (auto simp: suffix_def)
    then have "lead_len space_seqs q = 0" using assms q(3) by (auto simp: word_def dest: spec[of _ "length x"])
    then show False using q(1) unfolding lead_len_zero[OF seqs_nonempty(1)] by blast
  qed
  then have "lead_len (map rev space_seqs) (rev w) = 0" unfolding lead_len_zero[OF seqs_nonempty(2)] by blast
  then have "trim_lead (map rev space_seqs) (rev w) = rev w" by (subst trim_lead.simps) simp
  with f show ?thesis by (simp add: trim_space_def)
qed

lemma go_fields_not_blank: "w \<in> set (go_fields s) \<Longrightarrow> trim_space w \<noteq> []"
  using go_fields_word trim_space_word by (auto simp: word_def)

lemma trackers_agree: "client_parse_trackers u nl tx = parse_trackers u nl [tx]"
proof -
  have step: "client_add_tracker u nl found c = add_tracker u nl found c" if "trim_space c \<noteq> []" for found c
    using that by (simp add: client_add_tracker_def add_tracker_def tracker_schemes_def Let_def split: sum.splits)
  have "foldl (client_add_tracker u nl) found cs = foldl (add_tracker u nl) found cs"
    if "list_all (\<lambda>c. trim_space c \<noteq> []) cs" for found cs
    using that by (induction cs arbitrary: found) (simp_all add: step)
  moreover have "list_all (\<lambda>c. trim_space c \<noteq> []) (go_fields tx)"
    using go_fields_not_blank by (auto simp: list_all_iff)
  ultimately show ?thesis by (simp add: client_parse_trackers_def parse_trackers_def)
qed

section \<open>A run behind the pipe\<close>

lemma client_updates:
  "client_messages (map PipeMessage (map (\<lambda>u. \<lparr>rtm_task = None, rtm_update = Some u, rtm_error = [], rtm_done = False\<rparr>)
     us) @ items) err = (us @ fst (client_messages items err), snd (client_messages items err))"
  by (induction us) (simp_all add: Let_def split: prod.splits)

lemma client_all_messages:
  "client_messages (map PipeMessage (runtime_messages err us)) None =
     (us, (case err of None \<Rightarrow> None | Some e \<Rightarrow>
        if err_canceled e \<or> err_text e = [] then None else Some (new_error (err_text e))), True)"
  unfolding runtime_messages_def map_append client_updates by (auto simp: Let_def split: option.splits)

text \<open>What a client sees of an output that was cut off before its last message.\<close>

lemma client_cut:
  assumes "k \<le> length us"
  shows "client_messages (map PipeMessage (take k (runtime_messages err us)) @ broken) None =
    (take k us @ fst (client_messages broken None), snd (client_messages broken None))"
proof -
  have "take k (runtime_messages err us) =
      map (\<lambda>u. \<lparr>rtm_task = None, rtm_update = Some u, rtm_error = [], rtm_done = False\<rparr>) (take k us)"
    using assms by (simp add: runtime_messages_def take_map)
  then show ?thesis by (simp only: client_updates)
qed

text \<open>A message that the pipe carries: it encodes, and the text decodes to it.\<close>

definition carried :: "pipe_codec \<Rightarrow> runtime_message \<Rightarrow> bool" where
  "carried pc m \<longleftrightarrow> (\<exists>line. pcd_encode pc m = Inr line \<and> pcd_decode pc line = Inr m)"

lemma emit_carried:
  "\<forall>m\<in>set ms. carried pc m \<Longrightarrow> map (read_message pc) (emit_messages pc ms) = map PipeMessage ms"
  by (induction ms) (auto simp: emit_messages_def List.map_filter_simps carried_def read_message_def)

text \<open>The output that reached the client: the first \<open>k\<close> texts, and when that is not all, an end that may be broken.\<close>

definition received_output ::
  "pipe_codec \<Rightarrow> goerr option \<Rightarrow> progress_update list \<Rightarrow> nat \<Rightarrow> pipe_item list \<Rightarrow> pipe_item list" where
  "received_output pc err us k tl_items =
     map (read_message pc) (take k (runtime_worker_output pc err us)) @
     (if k < length (runtime_worker_output pc err us) then tl_items else [])"

lemma received_carried:
  assumes "\<forall>m\<in>set (runtime_messages err us). carried pc m"
  shows "received_output pc err us k tl_items =
    (if k > length us then map PipeMessage (runtime_messages err us)
     else map PipeMessage (take k (runtime_messages err us)) @ tl_items)"
proof -
  note e = emit_carried[OF assms]
  have len: "length (runtime_worker_output pc err us) = Suc (length us)"
  proof -
    have "length (emit_messages pc (runtime_messages err us)) = length (runtime_messages err us)"
      using arg_cong[OF e, of length] by (simp only: length_map)
    then show ?thesis by (simp only: runtime_worker_output_def) (simp add: runtime_messages_def)
  qed
  have "map (read_message pc) (take k (runtime_worker_output pc err us)) = map PipeMessage (take k (runtime_messages err us))"
    unfolding runtime_worker_output_def take_map[symmetric] e ..
  then show ?thesis by (auto simp: received_output_def len runtime_messages_def)
qed

text \<open>
  C21: A worker in the runtime's process is to the scheduler like the worker itself. Let the pipe carry
  the messages of the run, as JSON does when their strings are valid UTF-8 and their numbers
  finite. Whatever part of the runtime's output reaches the client, the reports it forwards are the first ones that the
  worker made, in their order; and the client returns without an error only when every report has been
  forwarded and the worker returned no error that the runtime sends: an error with a text that is
  not the cancellation of its context, which the runtime keeps to itself. When the output arrives
  whole and the process exits normally, such an error of the worker is returned with its text, and any other
  end as none.
\<close>

theorem proxied_run_faithful:
  assumes "chr_output c = received_output pc err us k tl_items"
    and "\<forall>m\<in>set (runtime_messages err us). carried pc m"
    and "tl_items = [] \<or> tl_items = [PipeBroken e]"
    and "client_run u path None c = (r, vs)"
  shows "prefix vs us \<and>
    (r = None \<longrightarrow> vs = us \<and> (err = None \<or> err_canceled (the err) \<or> err_text (the err) = [])) \<and>
    (k > length us \<and> chr_start c = None \<and> chr_send c = None \<and> chr_wait c = None \<longrightarrow>
      vs = us \<and> r = (if err = None \<or> err_canceled (the err) \<or> err_text (the err) = [] then None
        else Some (new_error (err_text (the err)))))"
proof (cases "chr_start c = None \<and> chr_send c = None")
  case True
  obtain ws re done_seen where m: "client_messages (chr_output c) None = (ws, re, done_seen)"
    by (cases "client_messages (chr_output c) None") auto
  have vs: "vs = ws" and r: "r = (if re \<noteq> None then re
      else if \<not> done_seen then Some (new_error ''BitTorrent runtime closed without a terminal message'')
      else map_option (\<lambda>e. GoErr (''BitTorrent runtime exited: '' @ err_text e @ '': ''
        @ trim_space (chr_stderr c)) (err_canceled e) (err_not_exist e)) (chr_wait c))"
    using assms(4) True m by (auto simp: client_run_def)
  note out = assms(1)[unfolded received_carried[OF assms(2)]]
  show ?thesis
  proof (cases "k > length us")
    case whole: True
    then have "ws = us" "re = (if err = None \<or> err_canceled (the err) \<or> err_text (the err) = [] then None
        else Some (new_error (err_text (the err))))" "done_seen"
      using m out by (auto simp: client_all_messages split: option.splits)
    then show ?thesis using vs r whole by auto
  next
    case False
    then have "ws = take k us" "re \<noteq> None \<or> \<not> done_seen"
      using m out assms(3) by (auto simp: client_cut)
    then show ?thesis using vs r False take_is_prefix by (auto split: if_splits)
  qed
next
  case False
  then have "vs = []" "r \<noteq> None" using assms(4) by (auto simp: client_run_def split: option.splits)
  with False show ?thesis by auto
qed

text \<open>A pipe that carries every message, and a child whose worker failed.\<close>

definition put_option :: "('a \<Rightarrow> string) \<Rightarrow> 'a option \<Rightarrow> string" where
  "put_option e = put_list e \<circ> (\<lambda>x. case x of None \<Rightarrow> [] | Some y \<Rightarrow> [y])"

definition get_option :: "(string \<Rightarrow> 'a \<times> string) \<Rightarrow> string \<Rightarrow> 'a option \<times> string" where
  "get_option d = map_prod (\<lambda>xs. case xs of [] \<Rightarrow> None | x # _ \<Rightarrow> Some x) id \<circ> get_list d"

lemma option_reads_back: "reads_back e d \<Longrightarrow> reads_back (put_option e) (get_option d)"
  unfolding put_option_def get_option_def
  by (rule image_reads_back[OF list_reads_back]) (auto split: option.splits)

definition update_rep where
  "update_rep u = ((upd_received u, upd_file_size u, upd_speed u), upd_progress u, upd_detail u, upd_status u,
     upd_stage_state u, upd_uses_slot u)"

definition rep_update where
  "rep_update p = (case p of ((r, f, s), pr, d, st, g, us) \<Rightarrow>
     \<lparr>upd_received = r, upd_file_size = f, upd_speed = s, upd_progress = pr, upd_detail = d, upd_status = st,
      upd_stage_state = g, upd_uses_slot = us\<rparr>)"

definition put_update :: "progress_update \<Rightarrow> string" where
  "put_update = put_pair (put_pair put_int (put_pair put_int put_int)) (put_pair put_rat (put_pair put_str
     (put_pair (put_option put_status) (put_pair put_map (put_option put_bool))))) \<circ> update_rep"

definition get_update :: "string \<Rightarrow> progress_update \<times> string" where
  "get_update = map_prod rep_update id \<circ> get_pair (get_pair get_int (get_pair get_int get_int)) (get_pair get_rat
     (get_pair get_str (get_pair (get_option get_status) (get_pair get_map (get_option get_bool)))))"

lemma update_reads_back: "reads_back put_update get_update"
  unfolding put_update_def get_update_def
  by (rule image_reads_back[where from_rep = rep_update and to_rep = update_rep])
    ((intro pair_reads_back option_reads_back int_reads_back str_reads_back status_reads_back rat_reads_back
        bool_reads_back map_reads_back), simp add: rep_update_def update_rep_def)

definition message_rep where
  "message_rep m = (rtm_task m, rtm_update m, rtm_error m, rtm_done m)"

definition rep_message where
  "rep_message p = (case p of (t, u, e, d) \<Rightarrow> \<lparr>rtm_task = t, rtm_update = u, rtm_error = e, rtm_done = d\<rparr>)"

definition demo_pipe :: pipe_codec where
  "demo_pipe = \<lparr>pcd_encode = Inr \<circ> put_pair (put_option write_task) (put_pair (put_option put_update)
       (put_pair put_str put_bool)) \<circ> message_rep,
     pcd_decode = Inr \<circ> rep_message \<circ> fst \<circ> get_pair (get_option read_task) (get_pair (get_option get_update)
       (get_pair get_str get_bool))\<rparr>"

lemma demo_pipe_carries: "carried demo_pipe m"
proof -
  let ?e = "put_pair (put_option write_task) (put_pair (put_option put_update) (put_pair put_str put_bool))"
    and ?d = "get_pair (get_option read_task) (get_pair (get_option get_update) (get_pair get_str get_bool))"
  have "reads_back ?e ?d"
    by (intro pair_reads_back option_reads_back task_reads_back update_reads_back str_reads_back bool_reads_back)
  from reads_backD[OF this, of "message_rep m" "[]"] show ?thesis
    by (simp add: carried_def demo_pipe_def rep_message_def message_rep_def)
qed

definition demo_update :: progress_update where
  "demo_update = bt_report id one_state 0 None [] True"

definition demo_child :: child_run where
  "demo_child = \<lparr>chr_start = None, chr_send = None,
     chr_output = received_output demo_pipe (Some deadline_exceeded) [demo_update] 2 [], chr_wait = None, chr_stderr = []\<rparr>"

lemma proxied_run_faithful_witness:
  "snd (client_run ascii_tables ''rt.exe'' None demo_child) = [demo_update] \<and>
   fst (client_run ascii_tables ''rt.exe'' None demo_child) = Some (new_error (err_text deadline_exceeded))"
proof -
  have o: "chr_output demo_child = received_output demo_pipe (Some deadline_exceeded) [demo_update] 2 []"
    and c: "chr_start demo_child = None" "chr_send demo_child = None" "chr_wait demo_child = None"
    by (simp_all add: demo_child_def)
  have carry: "\<forall>m\<in>set (runtime_messages (Some deadline_exceeded) [demo_update]). carried demo_pipe m"
    by (simp add: demo_pipe_carries)
  have e: "\<not> err_canceled deadline_exceeded" "err_text deadline_exceeded \<noteq> []" by (simp_all add: deadline_exceeded_def)
  from proxied_run_faithful[OF o carry _ prod.collapse[symmetric], of undefined ascii_tables "''rt.exe''"] c e
  show ?thesis by simp
qed

end
