(* ===== verification/DialogProps.thy ===== *)
theory DialogProps
  imports SettingsDialog BtClientProps
begin

text \<open>
  What the settings dialog accepts: values in range, which the repair of settings leaves alone, and
  which the dialog shows and accepts again without a change.
\<close>

section \<open>Trimmed texts\<close>

definition trimmed :: "string \<Rightarrow> bool" where
  "trimmed w \<longleftrightarrow> list_all (\<lambda>q. \<not> prefix q w \<and> \<not> suffix q w) space_seqs"

lemma trim_space_trimmed:
  assumes "trimmed w"
  shows "trim_space w = w"
proof -
  have "lead_len space_seqs w = 0"
    unfolding lead_len_zero[OF seqs_nonempty(1)] using assms by (auto simp: trimmed_def list_all_iff)
  then have f: "trim_lead space_seqs w = w" by (subst trim_lead.simps) simp
  have "lead_len (map rev space_seqs) (rev w) = 0"
    unfolding lead_len_zero[OF seqs_nonempty(2)] using assms
    by (auto simp: trimmed_def list_all_iff suffix_to_prefix)
  then have "trim_lead (map rev space_seqs) (rev w) = rev w" by (subst trim_lead.simps) simp
  with f show ?thesis by (simp add: trim_space_def)
qed

lemma trim_lead_none: "lead_len ws (trim_lead ws s) = 0 \<or> trim_lead ws s = []"
proof (cases "trim_lead ws s")
  case (Cons c cs)
  with trim_lead_progress[OF Cons] show ?thesis by simp
qed simp

lemma trimmed_trim_space: "trimmed (trim_space s)"
proof -
  let ?a = "trim_lead space_seqs s"
  let ?b = "trim_lead (map rev space_seqs) (rev ?a)"
  have ne: "q \<noteq> []" if "q \<in> set space_seqs" for q using that seqs_nonempty(1) by (auto simp: list_all_iff)
  have "\<not> prefix q (rev ?b)" if "q \<in> set space_seqs" for q
  proof
    assume p: "prefix q (rev ?b)"
    have "suffix ?b (rev ?a)" by (rule trim_lead_suffix)
    then have "prefix (rev ?b) ?a" by (simp add: suffix_to_prefix)
    with p have pa: "prefix q ?a" by (rule prefix_order.trans)
    with ne[OF that] have "?a \<noteq> []" by auto
    with trim_lead_none[of space_seqs s] have "lead_len space_seqs ?a = 0" by simp
    with pa that show False unfolding lead_len_zero[OF seqs_nonempty(1)] by blast
  qed
  moreover have "\<not> suffix q (rev ?b)" if "q \<in> set space_seqs" for q
  proof
    assume "suffix q (rev ?b)"
    then have p: "prefix (rev q) ?b" by (simp add: suffix_to_prefix)
    with ne[OF that] have "?b \<noteq> []" by auto
    with trim_lead_none[of "map rev space_seqs" "rev ?a"] have "lead_len (map rev space_seqs) ?b = 0" by simp
    with p that show False unfolding lead_len_zero[OF seqs_nonempty(2)] by auto
  qed
  ultimately show ?thesis by (simp add: trimmed_def list_all_iff trim_space_def)
qed

lemma trim_space_idem [simp]: "trim_space (trim_space s) = trim_space s"
  by (rule trim_space_trimmed) (rule trimmed_trim_space)

lemma trim_space_itoa [simp]: "trim_space (itoa n) = itoa n"
proof (rule trim_space_plain)
  fix c assume "c \<in> set (itoa n)"
  then show "32 < byte_of c \<and> byte_of c < 127" using itoa_chars[of c n] by (auto simp: is_digit_def byte_of_def)
qed

lemma base64_char_plain: "32 < byte_of (base64_char n) \<and> byte_of (base64_char n) < 127"
  by (simp add: base64_char_def) (auto simp: byte_of_def)

lemma trim_space_token [simp]: "trim_space (new_browser_pair_token rnd) = new_browser_pair_token rnd"
proof (cases rnd)
  case None
  have "trim_space ''local-development-token'' = ''local-development-token''" by code_simp
  with None show ?thesis by (simp add: new_browser_pair_token_def)
next
  case (Some b)
  have "c \<in> set (base64_raw b) \<Longrightarrow> 32 < byte_of c \<and> byte_of c < 127" for c
    by (induction b rule: base64_raw.induct) (auto simp: base64_char_plain)
  then show ?thesis using trim_space_plain Some by (simp add: new_browser_pair_token_def)
qed

section \<open>Cookies\<close>

lemma space_seqs_plain:
  "list_all (\<lambda>q. CHR ''='' \<notin> set q) space_seqs"
  by code_simp

lemma trimmed_assignment:
  assumes "trimmed n" and "trimmed v"
  shows "trimmed (n @ CHR ''='' # v)"
proof -
  have eq: "CHR ''='' \<notin> set q" if "q \<in> set space_seqs" for q using that space_seqs_plain by (simp add: list_all_iff)
  have "\<not> prefix q (n @ CHR ''='' # v)" if q: "q \<in> set space_seqs" for q
  proof
    assume "prefix q (n @ CHR ''='' # v)"
    then consider "prefix q n" | x where "q = n @ CHR ''='' # x" using eq[OF q]
      by (fastforce simp: prefix_append prefix_Cons)
    then show False using eq[OF q] assms(1) q by cases (auto simp: trimmed_def list_all_iff)
  qed
  moreover have "\<not> suffix q (n @ CHR ''='' # v)" if q: "q \<in> set space_seqs" for q
  proof
    assume s: "suffix q (n @ CHR ''='' # v)"
    then obtain x where x: "x @ q = n @ CHR ''='' # v" by (auto simp: suffix_def)
    then obtain us where "x = n @ us \<and> us @ q = CHR ''='' # v \<or> x @ us = n \<and> q = us @ CHR ''='' # v"
      unfolding append_eq_append_conv2 by auto
    then consider "us @ q = CHR ''='' # v" | "CHR ''='' \<in> set q" by auto
    then show False
    proof cases
      case 1
      then have "suffix q v" using eq[OF q] by (cases us) (auto simp: suffix_def)
      then show False using assms(2) q by (auto simp: trimmed_def list_all_iff)
    qed (use eq[OF q] in simp)
  qed
  ultimately show ?thesis by (simp add: trimmed_def list_all_iff)
qed

lemma cookie_of_shape:
  assumes "cookie_of p = Some x"
  obtains n v where "x = n @ CHR ''='' # v" "n \<noteq> []" "v \<noteq> []" "CHR ''='' \<notin> set n" "trimmed n" "trimmed v"
    "\<not> has_control v" "set x \<subseteq> insert (CHR ''='') (set p)"
proof -
  obtain a b ok where c: "cut_str (trim_space p) ''='' = (a, b, ok)" by (cases "cut_str (trim_space p) ''=''") auto
  with assms have ok: ok and ne: "trim_space a \<noteq> []" "trim_space b \<noteq> []" "\<not> has_control (trim_space b)"
    and x: "x = trim_space a @ ''='' @ trim_space b"
    by (auto simp: cookie_of_def Let_def split: if_splits)
  have s: "trim_space p = a @ ''='' @ b" using c ok cut_str_found[of "trim_space p" "''=''" a b] by simp
  have "CHR ''='' \<notin> set a"
  proof
    assume "CHR ''='' \<in> set a"
    then obtain l r where a: "a = l @ CHR ''='' # r" "CHR ''='' \<notin> set l" by (meson split_list_first)
    then have "cut_str (trim_space p) ''='' = (l, r @ ''='' @ b, True)" unfolding s by simp
    with c a show False by simp
  qed
  then have "CHR ''='' \<notin> set (trim_space a)" using set_trim_space[of a] by blast
  moreover have "set x \<subseteq> insert (CHR ''='') (set p)"
    using set_trim_space[of a] set_trim_space[of b] set_trim_space[of p] s x by auto
  ultimately show ?thesis using that[of "trim_space a" "trim_space b"] ne x trimmed_trim_space by simp
qed

lemma cookie_of_again:
  assumes "cookie_of p = Some x"
  shows "cookie_of x = Some x" and "cookie_of (CHR 0x20 # x) = Some x"
proof -
  obtain n v where x: "x = n @ CHR ''='' # v" "n \<noteq> []" "v \<noteq> []" "CHR ''='' \<notin> set n" "trimmed n" "trimmed v" "\<not> has_control v"
    using cookie_of_shape[OF assms] by metis
  have t: "trim_space x = x" using trimmed_assignment[OF x(5,6)] x(1) trim_space_trimmed by simp
  have "trim_lead space_seqs (CHR 0x20 # x) = trim_lead space_seqs x"
  proof -
    have "lead_len space_seqs (CHR 0x20 # x) = 1" by (simp add: space_seqs_def)
    then show ?thesis by (subst trim_lead.simps) simp
  qed
  then have t': "trim_space (CHR 0x20 # x) = x" using t by (simp add: trim_space_def)
  show "cookie_of x = Some x" "cookie_of (CHR 0x20 # x) = Some x"
    unfolding cookie_of_def t t' using x by (simp_all add: trim_space_trimmed Let_def)
qed

lemma fields_func_word:
  assumes "w \<noteq> []" and "list_all (\<lambda>c. \<not> p c) w"
  shows "fields_func p (w @ s) = (if s = [] \<or> p (hd s) then w # fields_func p s else fields_func p (w @ s))"
proof (cases "s = [] \<or> p (hd s)")
  case True
  obtain c cs where w: "w = c # cs" using assms(1) by (cases w) auto
  have "takeWhile (\<lambda>x. \<not> p x) (cs @ s) = cs" "dropWhile (\<lambda>x. \<not> p x) (cs @ s) = s"
    using assms(2) True by (cases s; auto simp: w list_all_iff takeWhile_append dropWhile_append)+
  with True assms(2) show ?thesis by (simp add: w fields_func.simps(2))
qed simp

lemma fields_func_join:
  "list_all (\<lambda>w. w \<noteq> [] \<and> list_all (\<lambda>c. \<not> cookie_sep c) w) (w # ws) \<Longrightarrow>
    fields_func cookie_sep (join_with ''; '' (w # ws)) = w # map ((#) CHR 0x20) ws"
proof (induction ws arbitrary: w)
  case Nil
  then show ?case using fields_func_word[of w cookie_sep "[]"] by simp
next
  case (Cons v ws)
  let ?rest = "join_with ''; '' (v # ws)"
  have sep: "cookie_sep (CHR '';'')" "\<not> cookie_sep (CHR 0x20)" by (simp_all add: cookie_sep_def)
  have v: "fields_func cookie_sep ((CHR 0x20 # v) @ drop (length v) ?rest) = (CHR 0x20 # v) # map ((#) CHR 0x20) ws"
  proof (cases ws)
    case Nil
    then show ?thesis using Cons.prems sep fields_func_word[of "CHR 0x20 # v" cookie_sep "[]"] by simp
  next
    case (Cons y ys)
    have ih: "fields_func cookie_sep (v @ '';'' @ CHR 0x20 # join_with ''; '' ws) = v # map ((#) CHR 0x20) ws"
      using Cons.IH[of v] Cons.prems Cons by (simp add: join_with_Cons)
    have "fields_func cookie_sep ('';'' @ CHR 0x20 # join_with ''; '' ws) = map ((#) CHR 0x20) ws"
      using ih Cons.prems sep fields_func_word[of v cookie_sep "'';'' @ CHR 0x20 # join_with ''; '' ws"] by simp
    then show ?thesis
      using Cons.prems sep Cons fields_func_word[of "CHR 0x20 # v" cookie_sep "'';'' @ CHR 0x20 # join_with ''; '' ws"]
      by (simp add: join_with_Cons)
  qed
  have r: "v @ drop (length v) ?rest = ?rest" by (cases ws) (simp_all add: join_with_Cons)
  have "fields_func cookie_sep (w @ '';'' @ CHR 0x20 # ?rest) = w # fields_func cookie_sep ('';'' @ CHR 0x20 # ?rest)"
    using fields_func_word[of w cookie_sep "'';'' @ CHR 0x20 # ?rest"] Cons.prems sep by simp
  also have "fields_func cookie_sep ('';'' @ CHR 0x20 # ?rest) = fields_func cookie_sep (CHR 0x20 # ?rest)"
    using sep by (simp add: fields_func.simps(2)[of _ "CHR '';''"])
  also have "\<dots> = (CHR 0x20 # v) # map ((#) CHR 0x20) ws" using v r by simp
  finally show ?case by (simp add: join_with_Cons)
qed

lemma normalize_cookies_idem [simp]: "normalize_cookies (normalize_cookies tx) = normalize_cookies tx"
proof -
  let ?ws = "List.map_filter cookie_of (fields_func cookie_sep tx)"
  have from_part: "\<exists>p\<in>set (fields_func cookie_sep tx). cookie_of p = Some w" if "w \<in> set ?ws" for w
    using that by (auto simp: List.map_filter_def)
  have clean: "w \<noteq> [] \<and> list_all (\<lambda>c. \<not> cookie_sep c) w" if w: "w \<in> set ?ws" for w
  proof -
    obtain p where p: "p \<in> set (fields_func cookie_sep tx)" "cookie_of p = Some w" using from_part[OF w] by blast
    obtain n v where "w = n @ CHR ''='' # v" "set w \<subseteq> insert (CHR ''='') (set p)"
      using cookie_of_shape[OF p(2)] by metis
    moreover have "\<forall>c\<in>set p. \<not> cookie_sep c" using fields_func_clean[OF p(1)] by blast
    moreover have "\<not> cookie_sep (CHR ''='')" by (simp add: cookie_sep_def)
    ultimately show ?thesis by (auto simp: list_all_iff)
  qed
  have again: "cookie_of w = Some w" "cookie_of (CHR 0x20 # w) = Some w" if w: "w \<in> set ?ws" for w
    using from_part[OF w] cookie_of_again by blast+
  show ?thesis
  proof (cases ?ws)
    case Nil
    then show ?thesis by (simp add: normalize_cookies_def List.map_filter_def)
  next
    case (Cons w ws)
    have all: "\<And>x. x \<in> set ?ws \<Longrightarrow> x \<noteq> [] \<and> list_all (\<lambda>c. \<not> cookie_sep c) x" by (rule clean)
    have "fields_func cookie_sep (join_with ''; '' (w # ws)) = w # map ((#) CHR 0x20) ws"
      by (rule fields_func_join) (use all Cons in \<open>auto simp: list_all_iff\<close>)
    moreover have "cookie_of w = Some w" using again(1) Cons by simp
    moreover have "List.map_filter cookie_of (map ((#) CHR 0x20) ws) = ws"
      if "\<And>x. x \<in> set ws \<Longrightarrow> cookie_of (CHR 0x20 # x) = Some x" for ws
      using that by (induction ws) (auto simp: List.map_filter_simps)
    then have "List.map_filter cookie_of (map ((#) CHR 0x20) ws) = ws" using again(2) Cons by simp
    ultimately have "List.map_filter cookie_of (fields_func cookie_sep (join_with ''; '' ?ws)) = ?ws"
      unfolding Cons by (simp add: List.map_filter_simps)
    then show ?thesis by (simp add: normalize_cookies_def)
  qed
qed

section \<open>What was accepted\<close>

lemma int_field_Inr:
  "int_field tx ok message = Inr n \<longleftrightarrow> parse_int (trim_space tx) = Some n \<and> ok n"
  by (auto simp: int_field_def split: option.splits)

lemma int_field_itoa: "int64 n \<Longrightarrow> ok n \<Longrightarrow> int_field (itoa n) ok message = Inr n"
  by (simp add: int_field_Inr parse_itoa)

lemma int_field_again: "int_field tx ok message = Inr n \<Longrightarrow> int_field (itoa n) ok message = Inr n"
  using int_field_itoa parse_int_int64 by (auto simp: int_field_Inr)

lemma and_next_Inr: "and_next r f = Inr y \<longleftrightarrow> (\<exists>x. r = Inr x \<and> f x = Inr y)"
  by (auto simp: and_next_def split: sum.splits)

lemma and_next_step [simp]: "and_next (Inr x) f = f x"
  by (simp add: and_next_def)

lemma choice_field_Inr: "choice_field v cs message = Inr w \<longleftrightarrow> w = v \<and> v \<in> set cs"
  by (auto simp: choice_field_def)

text \<open>The settings that the dialog can produce, part by part.\<close>

definition bt_settings_ok :: "settings \<Rightarrow> bool" where
  "bt_settings_ok s \<longleftrightarrow> 0 \<le> cfg_bt_listen_port s \<and> cfg_bt_listen_port s \<le> 65535 \<and>
     5 \<le> cfg_bt_metadata_timeout_sec s \<and> cfg_bt_metadata_timeout_sec s \<le> 300 \<and>
     20 \<le> cfg_bt_connections_limit s \<and> cfg_bt_connections_limit s \<le> 2000 \<and>
     0 \<le> cfg_bt_download_rate_limit_kib s \<and> int64 (cfg_bt_download_rate_limit_kib s) \<and>
     0 \<le> cfg_bt_upload_rate_limit_kib s \<and> int64 (cfg_bt_upload_rate_limit_kib s) \<and>
     0 \<le> cfg_bt_seed_ratio_limit_percent s \<and> cfg_bt_seed_ratio_limit_percent s \<le> 10000 \<and>
     0 \<le> cfg_bt_seed_time_limit_minutes s \<and> cfg_bt_seed_time_limit_minutes s \<le> 43200 \<and>
     trim_space (cfg_bt_trackers_text s) = cfg_bt_trackers_text s"

definition stream_settings_ok :: "settings \<Rightarrow> bool" where
  "stream_settings_ok s \<longleftrightarrow> cfg_m3u8_output_format s \<in> {''mp4'', ''mkv''} \<and>
     0 < cfg_m3u8_thread_count s \<and> cfg_m3u8_thread_count s \<le> 64 \<and>
     0 \<le> cfg_m3u8_retry_count s \<and> int64 (cfg_m3u8_retry_count s) \<and>
     0 < cfg_m3u8_request_timeout_sec s \<and> int64 (cfg_m3u8_request_timeout_sec s) \<and>
     cfg_m3u8_subtitle_format s \<in> {''SRT'', ''VTT''} \<and>
     trim_space (cfg_ffmpeg_install_dir s) = cfg_ffmpeg_install_dir s \<and>
     trim_space (cfg_m3u8_install_dir s) = cfg_m3u8_install_dir s"

definition request_settings_ok :: "settings \<Rightarrow> bool" where
  "request_settings_ok s \<longleftrightarrow> 0 < cfg_block_num s \<and> int64 (cfg_block_num s) \<and>
     0 < cfg_max_concurrent s \<and> int64 (cfg_max_concurrent s) \<and> 0 \<le> cfg_retry_count s \<and> int64 (cfg_retry_count s) \<and>
     0 \<le> cfg_speed_limit_kib s \<and> int64 (cfg_speed_limit_kib s) \<and>
     0 < cfg_browser_bridge_port s \<and> cfg_browser_bridge_port s \<le> 65535 \<and>
     cfg_browser_pair_token s \<noteq> [] \<and> trim_space (cfg_browser_pair_token s) = cfg_browser_pair_token s \<and>
     trim_space (cfg_download_dir s) = cfg_download_dir s \<and> trim_space (cfg_proxy_url s) = cfg_proxy_url s \<and>
     trim_space (cfg_headers_text s) = cfg_headers_text s \<and> normalize_cookies (cfg_cookies_text s) = cfg_cookies_text s \<and>
     (\<exists>h. parse_headers (cfg_headers_text s) = Inr h)"

lemma small_int64: "-65536 \<le> n \<Longrightarrow> n \<le> 65535 \<Longrightarrow> int64 n"
  by (simp add: int64_def min_int64_def max_int64_def)

lemma int_field_int64: "int_field tx ok message = Inr n \<Longrightarrow> int64 n \<and> ok n"
  using parse_int_int64 by (auto simp: int_field_Inr)

lemma bt_fields_ok:
  assumes "set_bt_fields f s = Inr s'"
  shows "bt_settings_ok s'" and "stream_settings_ok s' = stream_settings_ok s" and "cfg_theme_mode s' = cfg_theme_mode s"
proof -
  from assms obtain a b c d e g h where v:
    "int_field (btf_listen_port f) (\<lambda>n. 0 \<le> n \<and> n \<le> 65535) ux_bt_port = Inr a"
    "int_field (btf_metadata_timeout f) (\<lambda>n. 5 \<le> n \<and> n \<le> 300) ux_bt_metadata = Inr b"
    "int_field (btf_connections_limit f) (\<lambda>n. 20 \<le> n \<and> n \<le> 2000) ux_bt_connections = Inr c"
    "int_field (btf_download_rate f) (\<lambda>n. 0 \<le> n) ux_bt_download = Inr d"
    "int_field (btf_upload_rate f) (\<lambda>n. 0 \<le> n) ux_bt_upload = Inr e"
    "int_field (btf_seed_ratio f) (\<lambda>n. 0 \<le> n \<and> n \<le> 10000) ux_bt_ratio = Inr g"
    "int_field (btf_seed_time f) (\<lambda>n. 0 \<le> n \<and> n \<le> 43200) ux_bt_minutes = Inr h"
    and s: "s' = s\<lparr>cfg_bt_listen_port := a, cfg_bt_metadata_timeout_sec := b,
       cfg_bt_connections_limit := c, cfg_bt_download_rate_limit_kib := d,
       cfg_bt_upload_rate_limit_kib := e, cfg_bt_sequential_download := btf_sequential f,
       cfg_bt_enable_dht := btf_enable_dht f, cfg_bt_enable_lsd := btf_enable_lsd f,
       cfg_bt_enable_upnp := btf_enable_upnp f, cfg_bt_enable_natpmp := btf_enable_natpmp f,
       cfg_bt_seed_ratio_limit_percent := g, cfg_bt_seed_time_limit_minutes := h,
       cfg_bt_save_magnet_torrent_file := btf_save_magnet f,
       cfg_bt_trackers_text := trim_space (btf_trackers f)\<rparr>"
    unfolding set_bt_fields_def and_next_Inr by blast
  note r = v[THEN int_field_int64]
  show "bt_settings_ok s'" using r by (simp add: s bt_settings_ok_def)
  show "stream_settings_ok s' = stream_settings_ok s" "cfg_theme_mode s' = cfg_theme_mode s"
    by (simp_all add: s stream_settings_ok_def)
qed

lemma stream_fields_ok:
  assumes "set_stream_fields u f s = Inr s'"
  shows "stream_settings_ok s'" and "bt_settings_ok s' = bt_settings_ok s" and "cfg_theme_mode s' = cfg_theme_mode s"
proof -
  from assms obtain a b c d e where v:
    "int_field (stf_threads f) (\<lambda>n. 0 < n \<and> n \<le> 64) ux_threads = Inr b"
    "int_field (stf_retries f) (\<lambda>n. 0 \<le> n) ux_m3u8_retries = Inr c"
    "int_field (stf_timeout f) (\<lambda>n. 0 < n) ux_timeout = Inr d"
    and w: "choice_field (to_lower u (trim_space (stf_output_format f))) [''mp4'', ''mkv''] ux_format = Inr a"
    "choice_field (to_upper u (trim_space (stf_subtitle_format f))) [''SRT'', ''VTT''] ux_subtitles = Inr e"
    and s: "s' = s\<lparr>cfg_ffmpeg_install_dir := trim_space (stf_ffmpeg_dir f),
       cfg_m3u8_install_dir := trim_space (stf_install_dir f), cfg_m3u8_output_format := a,
       cfg_m3u8_thread_count := b, cfg_m3u8_retry_count := c,
       cfg_m3u8_request_timeout_sec := d, cfg_m3u8_subtitle_format := e,
       cfg_m3u8_concurrent_download := stf_concurrent f,
       cfg_m3u8_check_segments_count := stf_check_segments f,
       cfg_m3u8_delete_after_done := stf_delete_after_done f,
       cfg_m3u8_select_all_audio_subtitle := stf_select_all f,
       cfg_m3u8_mp4_real_time_decryption := stf_decryption f\<rparr>"
    unfolding set_stream_fields_def and_next_Inr by blast
  note r = v[THEN int_field_int64]
  from w have "a \<in> {''mp4'', ''mkv''}" "e \<in> {''SRT'', ''VTT''}" unfolding choice_field_Inr by auto
  with r show "stream_settings_ok s'" by (simp add: s stream_settings_ok_def)
  show "bt_settings_ok s' = bt_settings_ok s" "cfg_theme_mode s' = cfg_theme_mode s"
    by (simp_all add: s bt_settings_ok_def)
qed

lemma settings_from_dialog_ok:
  assumes "settings_from_dialog u rnd current f = Inr s" and "rnd \<noteq> Some []"
  shows "bt_settings_ok s \<and> stream_settings_ok s \<and> request_settings_ok s"
proof -
  from assms(1) obtain a b c d e s1 s2 h where v:
    "int_field (dlf_blocks f) (\<lambda>n. 0 < n) ux_blocks = Inr a"
    "int_field (dlf_concurrent f) (\<lambda>n. 0 < n) ux_concurrent = Inr b"
    "int_field (dlf_retries f) (\<lambda>n. 0 \<le> n) ux_retries = Inr c"
    "int_field (dlf_speed f) (\<lambda>n. 0 \<le> n) ux_speed = Inr d"
    "int_field (dlf_port f) (\<lambda>n. 0 < n \<and> n \<le> 65535) ux_port = Inr e"
    and s1: "set_bt_fields (dlf_bt f) current = Inr s1"
    and s2: "set_stream_fields u (dlf_stream f) s1 = Inr s2"
    and h: "map_sum (wrap_error ux_headers) id (parse_headers (trim_space (dlf_headers f))) = Inr h"
    and s: "s = s2\<lparr>cfg_download_dir := trim_space (dlf_download_dir f), cfg_proxy_url := trim_space (dlf_proxy f),
       cfg_headers_text := trim_space (dlf_headers f), cfg_cookies_text := normalize_cookies (dlf_cookies f),
       cfg_block_num := a, cfg_max_concurrent := b, cfg_retry_count := c,
       cfg_speed_limit_kib := d, cfg_browser_extension_enabled := dlf_browser_enabled f,
       cfg_browser_pair_token := dialog_token rnd (dlf_token f), cfg_browser_bridge_port := e\<rparr>"
    unfolding settings_from_dialog_def and_next_Inr by blast
  note r = v[THEN int_field_int64]
  have "new_browser_pair_token rnd \<noteq> []"
    using assms(2) base64_raw_nonempty by (auto simp: new_browser_pair_token_def split: option.split)
  then have t: "dialog_token rnd (dlf_token f) \<noteq> []" "trim_space (dialog_token rnd (dlf_token f)) = dialog_token rnd (dlf_token f)"
    by (simp_all add: dialog_token_def Let_def)
  from h have "\<exists>h. parse_headers (trim_space (dlf_headers f)) = Inr h"
    by (cases "parse_headers (trim_space (dlf_headers f))") auto
  with r t have "request_settings_ok s" by (simp add: s request_settings_ok_def)
  moreover have "bt_settings_ok s2" using bt_fields_ok(1)[OF s1] stream_fields_ok(2)[OF s2] by simp
  then have "bt_settings_ok s" by (simp add: s bt_settings_ok_def)
  moreover have "stream_settings_ok s2" by (rule stream_fields_ok(1)[OF s2])
  then have "stream_settings_ok s" by (simp add: s stream_settings_ok_def)
  ultimately show ?thesis by simp
qed

section \<open>Showing and saving again\<close>

lemma bt_fields_fixed:
  assumes "bt_settings_ok s"
  shows "set_bt_fields (bt_fields s) s = Inr s"
proof -
  note f = int_field_itoa[of "cfg_bt_listen_port s"] int_field_itoa[of "cfg_bt_metadata_timeout_sec s"]
    int_field_itoa[of "cfg_bt_connections_limit s"] int_field_itoa[of "cfg_bt_download_rate_limit_kib s"]
    int_field_itoa[of "cfg_bt_upload_rate_limit_kib s"] int_field_itoa[of "cfg_bt_seed_ratio_limit_percent s"]
    int_field_itoa[of "cfg_bt_seed_time_limit_minutes s"]
  show ?thesis using assms
    by (simp add: set_bt_fields_def bt_fields_def bt_settings_ok_def f small_int64)
qed

lemma stream_fields_fixed:
  assumes "stream_settings_ok s"
  shows "set_stream_fields u (stream_fields s) s = Inr s"
proof -
  note f = int_field_itoa[of "cfg_m3u8_thread_count s"] int_field_itoa[of "cfg_m3u8_retry_count s"]
    int_field_itoa[of "cfg_m3u8_request_timeout_sec s"]
  have fixed: "to_lower u (trim_space ''mp4'') = ''mp4''" "to_lower u (trim_space ''mkv'') = ''mkv''"
    "to_upper u (trim_space ''SRT'') = ''SRT''" "to_upper u (trim_space ''VTT'') = ''VTT''"
    by code_simp+
  have "to_lower u (trim_space (cfg_m3u8_output_format s)) = cfg_m3u8_output_format s"
    "to_upper u (trim_space (cfg_m3u8_subtitle_format s)) = cfg_m3u8_subtitle_format s"
    using assms fixed by (auto simp: stream_settings_ok_def)
  moreover have "choice_field (cfg_m3u8_output_format s) [''mp4'', ''mkv''] ux_format = Inr (cfg_m3u8_output_format s)"
    "choice_field (cfg_m3u8_subtitle_format s) [''SRT'', ''VTT''] ux_subtitles = Inr (cfg_m3u8_subtitle_format s)"
    using assms by (auto simp: stream_settings_ok_def choice_field_def)
  ultimately show ?thesis using assms
    by (simp add: set_stream_fields_def stream_fields_def stream_settings_ok_def f small_int64)
qed

lemma dialog_fields_fixed:
  assumes "bt_settings_ok s" and "stream_settings_ok s" and "request_settings_ok s"
  shows "settings_from_dialog u rnd s (dialog_fields s) = Inr s"
proof -
  note f = int_field_itoa[of "cfg_block_num s"] int_field_itoa[of "cfg_max_concurrent s"]
    int_field_itoa[of "cfg_retry_count s"] int_field_itoa[of "cfg_speed_limit_kib s"]
    int_field_itoa[of "cfg_browser_bridge_port s"]
  obtain h where h: "parse_headers (cfg_headers_text s) = Inr h" using assms(3) by (auto simp: request_settings_ok_def)
  show ?thesis using assms(3)
    by (simp add: settings_from_dialog_def dialog_fields_def bt_fields_fixed[OF assms(1)]
        stream_fields_fixed[OF assms(2)] request_settings_ok_def f small_int64 h dialog_token_def)
qed

definition with_directories :: "paths \<Rightarrow> settings \<Rightarrow> settings" where
  "with_directories p s = s\<lparr>
     cfg_download_dir := (if cfg_download_dir s = [] then pth_download_dir p else cfg_download_dir s),
     cfg_ffmpeg_install_dir :=
       (if cfg_ffmpeg_install_dir s = [] then fp_join [pth_runtime_dir p, ''FFmpeg''] else cfg_ffmpeg_install_dir s),
     cfg_m3u8_install_dir :=
       (if cfg_m3u8_install_dir s = [] then fp_join [pth_runtime_dir p, ''N_m3u8DL-RE''] else cfg_m3u8_install_dir s)\<rparr>"

lemma normalized_directories:
  assumes "bt_settings_ok s" and "stream_settings_ok s" and "request_settings_ok s"
    and "cfg_theme_mode s \<in> {''system'', ''light'', ''dark''}"
  shows "normalized rnd p s = with_directories p s"
proof -
  have c: "(cfg_theme_mode s \<noteq> ''system'' \<and> cfg_theme_mode s \<noteq> ''light'' \<and> cfg_theme_mode s \<noteq> ''dark'') = False"
    "(cfg_block_num s \<le> 0) = False" "(cfg_retry_count s < 0) = False" "(cfg_max_concurrent s \<le> 0) = False"
    "(cfg_speed_limit_kib s < 0) = False" "(cfg_browser_pair_token s = []) = False"
    "(cfg_browser_bridge_port s \<le> 0 \<or> cfg_browser_bridge_port s > 65535) = False"
    "(cfg_bt_listen_port s < 0 \<or> cfg_bt_listen_port s > 65535) = False"
    "(cfg_bt_metadata_timeout_sec s < 5 \<or> cfg_bt_metadata_timeout_sec s > 300) = False"
    "(cfg_bt_connections_limit s < 20 \<or> cfg_bt_connections_limit s > 2000) = False"
    "(cfg_bt_download_rate_limit_kib s < 0) = False" "(cfg_bt_upload_rate_limit_kib s < 0) = False"
    "(cfg_bt_seed_ratio_limit_percent s < 0 \<or> cfg_bt_seed_ratio_limit_percent s > 10000) = False"
    "(cfg_bt_seed_time_limit_minutes s < 0 \<or> cfg_bt_seed_time_limit_minutes s > 43200) = False"
    "(cfg_m3u8_output_format s \<noteq> ''mp4'' \<and> cfg_m3u8_output_format s \<noteq> ''mkv'') = False"
    "(cfg_m3u8_thread_count s \<le> 0) = False" "(cfg_m3u8_retry_count s < 0) = False"
    "(cfg_m3u8_request_timeout_sec s \<le> 0) = False"
    "(cfg_m3u8_subtitle_format s \<noteq> ''SRT'' \<and> cfg_m3u8_subtitle_format s \<noteq> ''VTT'') = False"
    using assms unfolding bt_settings_ok_def stream_settings_ok_def request_settings_ok_def by auto
  show ?thesis unfolding normalized_def Let_def
    by (simp only: c if_False) (simp add: with_directories_def default_settings_def)
qed

text \<open>
  What the settings dialog saves is what it was given, for good. Settings that the dialog
  accepts are in range: the repair of settings changes nothing of them but the directories that were
  left blank, for which it takes the default ones; and the dialog that shows these settings again
  saves them unchanged when the user changes nothing, whatever the texts looked like that were
  typed the first time.
\<close>

theorem dialog_settings_stable:
  assumes "save_dialog u rnd current f theme = Inr s"
    and "rnd \<noteq> Some []"
  shows "normalized rnd' p s = with_directories p s \<and>
    save_dialog u rnd'' s (dialog_fields s) (theme_mode_index (cfg_theme_mode s)) = Inr s"
proof -
  from assms(1) obtain s0 where s0: "settings_from_dialog u rnd current f = Inr s0"
    and s: "s = s0\<lparr>cfg_theme_mode := theme_mode_value theme\<rparr>"
    by (cases "settings_from_dialog u rnd current f") (auto simp: save_dialog_def)
  from settings_from_dialog_ok[OF s0 assms(2)] have "bt_settings_ok s0" "stream_settings_ok s0" "request_settings_ok s0"
    by blast+
  then have ok: "bt_settings_ok s" "stream_settings_ok s" "request_settings_ok s"
    by (simp_all add: s bt_settings_ok_def stream_settings_ok_def request_settings_ok_def)
  have t: "cfg_theme_mode s \<in> {''system'', ''light'', ''dark''}"
    "theme_mode_value (theme_mode_index (cfg_theme_mode s)) = cfg_theme_mode s"
    by (auto simp: s theme_mode_value_def theme_mode_index_def)
  show ?thesis using normalized_directories[OF ok t(1)] dialog_fields_fixed[OF ok] t(2)
    by (simp add: save_dialog_def)
qed

definition demo_dialog :: dialog_form where
  "demo_dialog = (dialog_fields (default_settings None Settings.sample_paths))
     \<lparr>dlf_blocks := '' 16 '', dlf_cookies := ''a=1;; b = 2'', dlf_token := []\<rparr>"

lemma dialog_settings_stable_witness:
  "\<exists>s. save_dialog ascii_tables None (default_settings None Settings.sample_paths) demo_dialog 2 = Inr s \<and>
    cfg_block_num s = 16 \<and> cfg_cookies_text s = ''a=1; b=2'' \<and>
    normalized None Settings.sample_paths s = with_directories Settings.sample_paths s"
proof -
  let ?d = "default_settings None Settings.sample_paths"
  have t: "trim_space (fp_join [pth_runtime_dir Settings.sample_paths, ''FFmpeg'']) = fp_join [pth_runtime_dir Settings.sample_paths, ''FFmpeg'']"
    "trim_space (fp_join [pth_runtime_dir Settings.sample_paths, ''N_m3u8DL-RE'']) = fp_join [pth_runtime_dir Settings.sample_paths, ''N_m3u8DL-RE'']"
    by code_simp+
  have ok: "bt_settings_ok ?d" "stream_settings_ok ?d"
    by (simp_all add: default_settings_def bt_settings_ok_def stream_settings_ok_def small_int64 t)
  have v: "int_field '' 16 '' (\<lambda>n. 0 < n) ux_blocks = Inr 16" "normalize_cookies ''a=1;; b = 2'' = ''a=1; b=2''"
    "parse_headers [] = Inr []" by code_simp+
  have "settings_from_dialog ascii_tables None ?d demo_dialog = Inr (?d\<lparr>
      cfg_download_dir := trim_space (cfg_download_dir ?d), cfg_block_num := 16, cfg_cookies_text := ''a=1; b=2''\<rparr>)"
    by (simp add: settings_from_dialog_def demo_dialog_def dialog_fields_def bt_fields_fixed[OF ok(1)]
        stream_fields_fixed[OF ok(2)] v dialog_token_def int_field_itoa small_int64
        del: id_apply) (simp add: default_settings_def default_browser_bridge_port_def v int_field_itoa small_int64)
  then obtain s where s: "save_dialog ascii_tables None ?d demo_dialog 2 = Inr s" "cfg_block_num s = 16"
    "cfg_cookies_text s = ''a=1; b=2''" by (simp add: save_dialog_def)
  from dialog_settings_stable[OF s(1)] s show ?thesis by blast
qed

end
