(* ===== verification/Bridge.thy ===== *)
theory Bridge
  imports GoJson SchedulerOps
begin

text \<open>
  One session of the browser bridge, \<open>internal/browserbridge/bridge.go\<close>: the messages it accepts,
  what each does to the session, to the scheduler and to the desktop, and what it sends back.
  What the handlers call outside the package is the record \<open>bridge_env\<close>: the JSON library, the
  file tree, the callbacks, the bridge's token at that moment, the start of a process, and the
  effect of \<open>Redownload\<close>, which unlocks the scheduler while it waits.
\<close>

section \<open>Requests and values\<close>

definition protocol_version :: int where "protocol_version = 1"

record merge_resource_request =
  mrr_url :: string
  mrr_filename :: string
  mrr_mime :: string
  mrr_size :: int
  mrr_headers :: strmap
  mrr_supports_range :: bool

record create_task_request =
  ctr_url :: string
  ctr_title :: string
  ctr_path :: string
  ctr_headers :: strmap
  ctr_resources :: "merge_resource_request list option"
  ctr_size :: int
  ctr_supports_range :: bool
  ctr_pre_block_num :: int
  ctr_source :: string

record pair_request =
  prq_request_id :: string
  prq_protocol_version :: int
  prq_extension_version :: string
  prq_client_kind :: string
  prq_remote_addr :: string

definition string_value :: "json_map \<Rightarrow> string \<Rightarrow> string" where
  "string_value msg key = (case obj_get msg key of Some (JStr v) \<Rightarrow> v | _ \<Rightarrow> [])"

definition int_value :: "json_map \<Rightarrow> string \<Rightarrow> int" where
  "int_value msg key = (case obj_get msg key of Some (JNum v) \<Rightarrow> int_of_float v | _ \<Rightarrow> 0)"

definition int64_value :: "json_map \<Rightarrow> string \<Rightarrow> int" where
  "int64_value msg key = (case obj_get msg key of Some (JNum v) \<Rightarrow> int_of_float v | _ \<Rightarrow> 0)"

definition bool_value :: "json_map \<Rightarrow> string \<Rightarrow> bool" where
  "bool_value msg key = (case obj_get msg key of Some (JBool v) \<Rightarrow> v | _ \<Rightarrow> False)"

definition string_map_value :: "json_map \<Rightarrow> string \<Rightarrow> strmap" where
  "string_map_value msg key =
     (case obj_get msg key of
        Some (JObj raw) \<Rightarrow>
          if raw = [] then None
          else Some (fmap_of_list (List.map_filter (\<lambda>(name, _).
            case obj_get raw name of Some (JStr v) \<Rightarrow> Some (name, v) | _ \<Rightarrow> None) raw))
      | _ \<Rightarrow> None)"

definition merge_resource :: "json \<Rightarrow> merge_resource_request option" where
  "merge_resource item =
     (case item of
        JObj r \<Rightarrow> Some \<lparr>mrr_url = string_value r ''url'', mrr_filename = string_value r ''filename'',
          mrr_mime = string_value r ''mime'', mrr_size = int64_value r ''size'',
          mrr_headers = string_map_value r ''headers'',
          mrr_supports_range = bool_value r ''supportsRange''\<rparr>
      | _ \<Rightarrow> None)"

definition merge_resources_value ::
  "json_map \<Rightarrow> string \<Rightarrow> merge_resource_request list option" where
  "merge_resources_value msg key =
     (case obj_get msg key of
        Some (JArr raw) \<Rightarrow> if raw = [] then None else Some (List.map_filter merge_resource raw)
      | _ \<Rightarrow> None)"

section \<open>State\<close>

record session =
  ses_authenticated :: bool
  ses_subscribed :: bool
  ses_last_snapshot :: string
  ses_open :: bool
  ses_sent :: "json list"

definition new_session :: session where
  "new_session = \<lparr>ses_authenticated = False, ses_subscribed = False, ses_last_snapshot = [],
     ses_open = True, ses_sent = []\<rparr>"

record bridge_env =
  env_json :: jsonlib
  env_unicode :: unicode
  env_fs :: fsys
  env_stat :: "string \<Rightarrow> bool"
  env_token :: string
  env_pair_approval :: "(pair_request \<Rightarrow> bool result) option"
  env_create_task :: "(create_task_request \<Rightarrow> task result) option"
  env_redownload :: "string \<Rightarrow> sched \<Rightarrow> goerr option \<times> sched"
  env_start :: "string list \<Rightarrow> goerr option"
  env_remote_addr :: string

text \<open>The session, the scheduler it may reach, and the commands that were started.\<close>

record bridge_state =
  bst_session :: session
  bst_sched :: "sched option"
  bst_commands :: "string list list"

definition set_session :: "(session \<Rightarrow> session) \<Rightarrow> bridge_state \<Rightarrow> bridge_state" where
  "set_session f b = b\<lparr>bst_session := f (bst_session b)\<rparr>"

section \<open>Sending\<close>

text \<open>A send on a closed connection fails and is only logged, as is a value with no JSON text.\<close>

definition send_frame :: "json \<Rightarrow> session \<Rightarrow> session" where
  "send_frame v s = (if ses_open s then s\<lparr>ses_sent := ses_sent s @ [v]\<rparr> else s)"

definition send :: "bridge_env \<Rightarrow> json_map \<Rightarrow> bridge_state \<Rightarrow> bridge_state" where
  "send e payload =
     set_session (if jl_marshal (env_json e) (JObj payload) = None then (\<lambda>s. s)
       else send_frame (JObj payload))"

definition close_conn :: "bridge_state \<Rightarrow> bridge_state" where
  "close_conn = set_session (\<lambda>s. s\<lparr>ses_open := False\<rparr>)"

definition opt_member :: "string \<Rightarrow> string \<Rightarrow> json_map" where
  "opt_member key v = (if v = [] then [] else [(key, JStr v)])"

definition send_error ::
  "bridge_env \<Rightarrow> string \<Rightarrow> string \<Rightarrow> string \<Rightarrow> bridge_state \<Rightarrow> bridge_state" where
  "send_error e rid code msg =
     send e ([(''type'', JStr ''error''), (''code'', JStr code), (''message'', JStr msg)] @
       opt_member ''requestId'' rid)"

definition send_pair_result ::
  "bridge_env \<Rightarrow> string \<Rightarrow> bool \<Rightarrow> string \<Rightarrow> string \<Rightarrow> bridge_state \<Rightarrow> bridge_state" where
  "send_pair_result e rid ok token msg =
     send e ([(''type'', JStr ''pair_result''), (''requestId'', JStr rid), (''ok'', JBool ok)] @
       opt_member ''token'' token @ opt_member ''message'' msg)"

definition send_create_task_result ::
  "bridge_env \<Rightarrow> string \<Rightarrow> bool \<Rightarrow> string \<Rightarrow> string \<Rightarrow> bridge_state \<Rightarrow> bridge_state" where
  "send_create_task_result e rid ok tid msg =
     send e ([(''type'', JStr ''create_task_result''), (''requestId'', JStr rid),
       (''ok'', JBool ok)] @ opt_member ''taskId'' tid @ opt_member ''message'' msg)"

definition send_task_action_result ::
  "bridge_env \<Rightarrow> string \<Rightarrow> bool \<Rightarrow> string \<Rightarrow> bridge_state \<Rightarrow> bridge_state" where
  "send_task_action_result e rid ok msg =
     send e ([(''type'', JStr ''task_action_result''), (''requestId'', JStr rid),
       (''ok'', JBool ok)] @ opt_member ''message'' msg)"

definition error_message :: "goerr option \<Rightarrow> string" where
  "error_message err = (case err of None \<Rightarrow> [] | Some x \<Rightarrow> err_text x)"

section \<open>The snapshot of the tasks\<close>

fun status_text :: "task_status \<Rightarrow> string" where
  "status_text StatusWaiting = ''waiting''"
| "status_text StatusRunning = ''running''"
| "status_text StatusSeeding = ''seeding''"
| "status_text StatusPaused = ''paused''"
| "status_text StatusCompleted = ''completed''"
| "status_text StatusFailed = ''failed''"
| "status_text StatusCanceled = ''canceled''"
| "status_text (StatusOther x) = x"

definition extension_without_dot :: "string \<Rightarrow> string" where
  "extension_without_dot name =
     (let ext = fp_ext name in if length ext \<le> 1 then [] else tl ext)"

definition snapshot_file :: "task_snapshot \<Rightarrow> string" where
  "snapshot_file t = fp_join [snp_path t, snp_title t]"

text \<open>\<open>UnixMilli\<close> rounds the nanoseconds down.\<close>

definition task_payload :: "bridge_env \<Rightarrow> task_snapshot \<Rightarrow> json" where
  "task_payload e t =
     JObj [(''taskId'', JStr (snp_id t)), (''title'', JStr (snp_title t)),
       (''status'', JStr (status_text (snp_status t))), (''progress'', JNum (snp_progress t)),
       (''receivedBytes'', JNum (of_int (snp_received t))),
       (''fileSize'', JNum (of_int (snp_file_size t))), (''speed'', JNum (of_int (snp_speed t))),
       (''createdAt'', JNum (of_int (snp_created_at t div 1000000))),
       (''canPause'', JBool (snp_status t = StatusRunning \<or> snp_status t = StatusSeeding \<or>
          snp_status t = StatusWaiting)),
       (''canOpenFile'', JBool ((snp_status t = StatusCompleted \<or> snp_status t = StatusSeeding) \<and>
          env_stat e (snapshot_file t))),
       (''canOpenFolder'', JBool (snp_path t \<noteq> [] \<and> env_stat e (snp_path t))),
       (''fileExt'', JStr (extension_without_dot (snp_title t))),
       (''packName'', JStr (snp_pack_id t)), (''outputFile'', JStr (snapshot_file t))]"

definition task_snapshot_payload :: "bridge_env \<Rightarrow> sched option \<Rightarrow> json_map" where
  "task_snapshot_payload e so =
     (let snapshots = (case so of None \<Rightarrow> [] | Some s \<Rightarrow> snapshot s) in
      [(''type'', JStr ''task_snapshot''),
       (''tasks'', JArr (map (task_payload e) (sort_key (\<lambda>t. - snp_created_at t) snapshots)))])"

definition send_task_snapshot :: "bridge_env \<Rightarrow> bridge_state \<Rightarrow> bridge_state" where
  "send_task_snapshot e b =
     (let payload = JObj (task_snapshot_payload e (bst_sched b)) in
      case jl_marshal (env_json e) payload of
        None \<Rightarrow> b
      | Some body \<Rightarrow>
          if body = ses_last_snapshot (bst_session b) then b
          else set_session (\<lambda>s. send_frame payload (s\<lparr>ses_last_snapshot := body\<rparr>)) b)"

definition should_push_snapshots :: "session \<Rightarrow> bool" where
  "should_push_snapshots s \<longleftrightarrow> ses_authenticated s \<and> ses_subscribed s"

definition push_tick :: "bridge_env \<Rightarrow> bridge_state \<Rightarrow> bridge_state" where
  "push_tick e b = (if should_push_snapshots (bst_session b) then send_task_snapshot e b else b)"

section \<open>The handlers\<close>

definition require_authenticated ::
  "bridge_env \<Rightarrow> string \<Rightarrow> (bridge_state \<Rightarrow> bridge_state) \<Rightarrow> bridge_state \<Rightarrow> bridge_state" where
  "require_authenticated e rid continue b =
     (if ses_authenticated (bst_session b) then continue b
      else close_conn (send_error e rid ''unauthorized'' ''authenticate with hello first'' b))"

definition pair_request_of :: "bridge_env \<Rightarrow> json_map \<Rightarrow> pair_request" where
  "pair_request_of e msg =
     \<lparr>prq_request_id = string_value msg ''requestId'',
      prq_protocol_version = int_value msg ''protocolVersion'',
      prq_extension_version = string_value msg ''extensionVersion'',
      prq_client_kind = string_value msg ''clientKind'', prq_remote_addr = env_remote_addr e\<rparr>"

definition handle_pair_request ::
  "bridge_env \<Rightarrow> string \<Rightarrow> json_map \<Rightarrow> bridge_state \<Rightarrow> bridge_state" where
  "handle_pair_request e rid msg b =
     (if rid = [] then send_pair_result e [] False [] ''missing requestId'' b
      else let version = int_value msg ''protocolVersion'' in
        if version \<noteq> protocol_version
        then send_pair_result e rid False [] ''protocol version mismatch'' b
        else case env_pair_approval e of
          None \<Rightarrow> send_pair_result e rid False [] ''pair approval is unavailable'' b
        | Some approval \<Rightarrow>
            (case approval (pair_request_of e msg) of
               Inl err \<Rightarrow> send_pair_result e rid False [] (err_text err) b
             | Inr approved \<Rightarrow>
                 if \<not> approved then send_pair_result e rid False [] ''pair request rejected'' b
                 else send_pair_result e rid True (env_token e) ''pairing approved'' b))"

definition hello_ack :: json_map where
  "hello_ack =
     [(''type'', JStr ''hello_ack''), (''protocolVersion'', JNum (of_int protocol_version)),
      (''appVersion'', JStr ''go-win32''),
      (''capabilities'', JObj [(''taskSnapshots'', JBool True), (''createTask'', JBool True),
        (''taskActions'', JArr (map JStr
          [''toggle_pause'', ''redownload'', ''open_file'', ''open_folder'', ''cancel'']))])]"

definition handle_hello ::
  "bridge_env \<Rightarrow> string \<Rightarrow> json_map \<Rightarrow> bridge_state \<Rightarrow> bridge_state" where
  "handle_hello e rid msg b =
     (if int_value msg ''protocolVersion'' \<noteq> protocol_version
      then close_conn (send_error e rid ''protocol_mismatch'' ''protocol version mismatch'' b)
      else if string_value msg ''token'' \<noteq> env_token e
      then close_conn (send_error e rid ''unauthorized'' ''invalid pair token'' b)
      else send e hello_ack (set_session (\<lambda>s. s\<lparr>ses_authenticated := True\<rparr>) b))"

definition find_task :: "sched \<Rightarrow> string \<Rightarrow> task_snapshot option" where
  "find_task s tid = find (\<lambda>t. snp_id t = tid) (snapshot s)"

text \<open>A scheduler operation whose error is the answer.\<close>

definition sched_action ::
  "bridge_env \<Rightarrow> string \<Rightarrow> goerr option \<times> sched \<Rightarrow> bridge_state \<Rightarrow> bridge_state" where
  "sched_action e rid r b =
     send_task_action_result e rid (fst r = None) (error_message (fst r)) (b\<lparr>bst_sched := Some (snd r)\<rparr>)"

definition start_command ::
  "bridge_env \<Rightarrow> string \<Rightarrow> string list \<Rightarrow> bridge_state \<Rightarrow> bridge_state" where
  "start_command e rid cmd b =
     send_task_action_result e rid (env_start e cmd = None) (error_message (env_start e cmd))
       (b\<lparr>bst_commands := bst_commands b @ [cmd]\<rparr>)"

definition open_output_file :: "string \<Rightarrow> string list" where
  "open_output_file p = [''rundll32.exe'', ''url.dll,FileProtocolHandler'', p]"

definition handle_task_action ::
  "bridge_env \<Rightarrow> string \<Rightarrow> json_map \<Rightarrow> bridge_state \<Rightarrow> bridge_state" where
  "handle_task_action e rid msg b =
     (if rid = [] then send_task_action_result e [] False ''missing requestId'' b
      else let tid = string_value msg ''taskId''; action = string_value msg ''action'' in
        if tid = [] then send_task_action_result e rid False ''missing taskId'' b
        else case bst_sched b of
          None \<Rightarrow> send_task_action_result e rid False ''scheduler is unavailable'' b
        | Some s \<Rightarrow>
            if action = ''toggle_pause'' then sched_action e rid (toggle_pause tid s) b
            else if action = ''redownload'' then sched_action e rid (env_redownload e tid s) b
            else if action = ''cancel'' then sched_action e rid (remove_task tid s) b
            else if action = ''open_folder'' then
              (case find_task s tid of
                 None \<Rightarrow> send_task_action_result e rid False ''task not found'' b
               | Some t \<Rightarrow> start_command e rid [''explorer.exe'', snp_path t] b)
            else if action = ''open_file'' then
              (case find_task s tid of
                 None \<Rightarrow> send_task_action_result e rid False ''task not found'' b
               | Some t \<Rightarrow>
                   if \<not> env_stat e (snapshot_file t)
                   then send_task_action_result e rid False ''file is not available'' b
                   else start_command e rid (open_output_file (snapshot_file t)) b)
            else send_task_action_result e rid False ''unsupported task action'' b)"

definition create_request :: "json_map \<Rightarrow> json_map \<Rightarrow> create_task_request" where
  "create_request msg payload =
     \<lparr>ctr_url = string_value payload ''url'', ctr_title = string_value msg ''title'',
      ctr_path = string_value payload ''path'', ctr_headers = string_map_value payload ''headers'',
      ctr_resources = merge_resources_value payload ''resources'',
      ctr_size = int64_value payload ''size'',
      ctr_supports_range = bool_value payload ''supportsRange'',
      ctr_pre_block_num = int_value payload ''preBlockNum'', ctr_source = string_value msg ''source''\<rparr>"

definition handle_create_task ::
  "bridge_env \<Rightarrow> string \<Rightarrow> json_map \<Rightarrow> bridge_state \<Rightarrow> bridge_state" where
  "handle_create_task e rid msg b =
     (if rid = [] then send_create_task_result e [] False [] ''missing requestId'' b
      else case obj_get msg ''payload'' of
        Some (JObj payload) \<Rightarrow>
          (let request = create_request msg payload in
           if ctr_url request = [] \<and> ctr_source request \<noteq> ''resource_merge''
           then send_create_task_result e rid False [] ''missing download URL'' b
           else case (env_create_task e, bst_sched b) of
             (Some create, Some s) \<Rightarrow>
               (case create request of
                  Inl err \<Rightarrow> send_create_task_result e rid False [] (err_text err) b
                | Inr t \<Rightarrow>
                    send_task_snapshot e (send_create_task_result e rid True (tsk_id t) []
                      (b\<lparr>bst_sched := Some (add (env_unicode e) (env_fs e) t s)\<rparr>)))
           | _ \<Rightarrow> send_create_task_result e rid False [] ''task creation is unavailable'' b)
      | _ \<Rightarrow> send_create_task_result e rid False [] ''invalid task payload'' b)"

definition subscribe :: "session \<Rightarrow> session" where
  "subscribe s = s\<lparr>ses_subscribed := True, ses_last_snapshot := []\<rparr>"

definition handle_message :: "bridge_env \<Rightarrow> string \<Rightarrow> bridge_state \<Rightarrow> bridge_state" where
  "handle_message e raw b =
     (case decode_object (env_json e) raw of
        None \<Rightarrow> send_error e [] ''bad_request'' ''invalid JSON message'' b
      | Some msg \<Rightarrow>
          (let rid = string_value msg ''requestId''; kind = string_value msg ''type'' in
           if kind = ''pair_request'' then handle_pair_request e rid msg b
           else if kind = ''hello'' then handle_hello e rid msg b
           else if kind = ''subscribe_tasks''
           then require_authenticated e rid (\<lambda>b. send_task_snapshot e (set_session subscribe b)) b
           else if kind = ''task_action''
           then require_authenticated e rid (handle_task_action e rid msg) b
           else if kind = ''create_task''
           then require_authenticated e rid (handle_create_task e rid msg) b
           else require_authenticated e rid
             (send_error e rid ''bad_request'' ''unsupported message type'') b))"

section \<open>The session's two goroutines\<close>

text \<open>
  A message is received while the connection is open; the ticker of \<open>pushSnapshots\<close> fires at
  any time. The environment may differ from step to step.
\<close>

datatype session_event = Message bridge_env string | Tick bridge_env

fun session_step :: "session_event \<Rightarrow> bridge_state \<Rightarrow> bridge_state" where
  "session_step (Message e raw) b =
     (if ses_open (bst_session b) then handle_message e raw b else b)"
| "session_step (Tick e) b = push_tick e b"

definition session_run :: "session_event list \<Rightarrow> bridge_state \<Rightarrow> bridge_state" where
  "session_run evs b = fold session_step evs b"

end
