(* ===== verification/UiModels.thy ===== *)
theory UiModels
  imports UiText Bridge BtClient "HOL-Library.List_Lexorder" "HOL-Library.Char_ord"
begin

text \<open>
  The models behind the window of \<open>internal/ui\<close>: the table of tasks (\<open>task_table_model.go\<close>), the
  notifications (\<open>notifications.go\<close>) and the files of a torrent in the selection dialog
  (\<open>bt_selection_dialog.go\<close>). Widgets and their drawing are not modelled.
\<close>

section \<open>Sizes\<close>

text \<open>The loop of \<open>formatBytes\<close>: the divisor and the exponent.\<close>

function byte_unit :: "int \<Rightarrow> int \<Rightarrow> nat \<Rightarrow> int \<times> nat" where
  "byte_unit n d e = (if n \<ge> 1024 then byte_unit (n div 1024) (d * 1024) (Suc e) else (d, e))"
  by pat_completeness auto
termination
  by (relation "measure (\<lambda>(n, d, e). nat n)") auto

declare byte_unit.simps [simp del]

text \<open>\<open>rnd\<close> rounds to \<open>float64\<close>; the divisor, a power of two, has one.\<close>

definition format_bytes :: "(rat \<Rightarrow> rat) \<Rightarrow> int \<Rightarrow> string" where
  "format_bytes rnd v =
     (if v < 1024 then itoa v @ '' B''
      else case byte_unit (v div 1024) 1024 0 of (d, e) \<Rightarrow>
        format_fixed 1 (rnd (rnd (of_int v) / of_int d)) @ '' '' @ [''KMGTPE'' ! e] @ ''iB'')"

section \<open>The table of tasks\<close>

datatype task_filter = FilterAll | FilterActive | FilterCompleted | FilterFailed

text \<open>The column -1 is the time of creation.\<close>

record task_table =
  tbl_all :: "task_snapshot list"
  tbl_rows :: "task_snapshot list"
  tbl_search :: string
  tbl_filter :: task_filter
  tbl_column :: int
  tbl_ascending :: bool

definition matches_filter :: "task_filter \<Rightarrow> task_snapshot \<Rightarrow> bool" where
  "matches_filter f x \<longleftrightarrow>
     (case f of
        FilterActive \<Rightarrow> snp_status x \<noteq> StatusCompleted
      | FilterCompleted \<Rightarrow> snp_status x = StatusCompleted
      | FilterFailed \<Rightarrow> snp_status x = StatusFailed
      | FilterAll \<Rightarrow> True)"

definition matches_search :: "unicode \<Rightarrow> string \<Rightarrow> task_snapshot \<Rightarrow> bool" where
  "matches_search u tx x \<longleftrightarrow> tx = [] \<or> contains_str (to_lower u (snp_title x)) tx \<or>
     contains_str (to_lower u (snp_url x)) tx \<or> contains_str (to_lower u (snp_path x)) tx"

text \<open>\<open>compareInt64\<close>, \<open>compareFloat\<close>, \<open>strings.Compare\<close> and \<open>Time.Compare\<close>.\<close>

definition compare_values :: "'a::linorder \<Rightarrow> 'a \<Rightarrow> int" where
  "compare_values a b = (if a < b then -1 else if a > b then 1 else 0)"

definition shown_size :: "task_snapshot \<Rightarrow> int" where
  "shown_size x = (if snp_file_size x \<le> 0 then snp_received x else snp_file_size x)"

definition compare_rows :: "unicode \<Rightarrow> int \<Rightarrow> task_snapshot \<Rightarrow> task_snapshot \<Rightarrow> int" where
  "compare_rows u column a b =
     (if column = 0 then compare_values (to_lower u (snp_title a)) (to_lower u (snp_title b))
      else if column = 1 then compare_values (status_text (snp_status a)) (status_text (snp_status b))
      else if column = 2 then compare_values (snp_progress a) (snp_progress b)
      else if column = 3 then compare_values (shown_size a) (shown_size b)
      else if column = 4 then compare_values (snp_speed a) (snp_speed b)
      else if column = 5 then compare_values (to_lower u (snp_path a)) (to_lower u (snp_path b))
      else compare_values (snp_created_at a) (snp_created_at b))"

definition row_before :: "unicode \<Rightarrow> int \<Rightarrow> bool \<Rightarrow> task_snapshot \<Rightarrow> task_snapshot \<Rightarrow> bool" where
  "row_before u column ascending a b \<longleftrightarrow>
     (if ascending then compare_rows u column a b < 0 else compare_rows u column a b > 0)"

text \<open>\<open>sort.SliceStable\<close>: insertion from the right keeps the order of rows of which none is before the other.\<close>

fun insert_stable :: "('a \<Rightarrow> 'a \<Rightarrow> bool) \<Rightarrow> 'a \<Rightarrow> 'a list \<Rightarrow> 'a list" where
  "insert_stable before x [] = [x]"
| "insert_stable before x (y # ys) = (if before y x then y # insert_stable before x ys else x # y # ys)"

definition stable_sort :: "('a \<Rightarrow> 'a \<Rightarrow> bool) \<Rightarrow> 'a list \<Rightarrow> 'a list" where
  "stable_sort before xs = foldr (insert_stable before) xs []"

definition sort_rows :: "unicode \<Rightarrow> task_table \<Rightarrow> task_table" where
  "sort_rows u m = m\<lparr>tbl_rows := stable_sort (row_before u (tbl_column m) (tbl_ascending m)) (tbl_rows m)\<rparr>"

definition rebuild_table :: "unicode \<Rightarrow> task_table \<Rightarrow> task_table" where
  "rebuild_table u m =
     sort_rows u (m\<lparr>tbl_rows := filter (\<lambda>x. matches_filter (tbl_filter m) x \<and> matches_search u (tbl_search m) x) (tbl_all m)\<rparr>)"

definition new_task_table :: "unicode \<Rightarrow> task_table" where
  "new_task_table u = rebuild_table u \<lparr>tbl_all = [], tbl_rows = [], tbl_search = [], tbl_filter = FilterAll,
     tbl_column = -1, tbl_ascending = False\<rparr>"

definition sort_table :: "unicode \<Rightarrow> int \<Rightarrow> bool \<Rightarrow> task_table \<Rightarrow> task_table" where
  "sort_table u column ascending m = sort_rows u (m\<lparr>tbl_column := column, tbl_ascending := ascending\<rparr>)"

definition toggle_sort :: "unicode \<Rightarrow> int \<Rightarrow> task_table \<Rightarrow> task_table" where
  "toggle_sort u column m = sort_table u column (\<not> (tbl_column m = column \<and> tbl_ascending m)) m"

definition set_tasks :: "unicode \<Rightarrow> task_snapshot list \<Rightarrow> task_table \<Rightarrow> task_table" where
  "set_tasks u tasks m = rebuild_table u (m\<lparr>tbl_all := tasks\<rparr>)"

definition set_search_text :: "unicode \<Rightarrow> string \<Rightarrow> task_table \<Rightarrow> task_table" where
  "set_search_text u tx m =
     (let tx = to_lower u (trim_space tx) in
      if tbl_search m = tx then m else rebuild_table u (m\<lparr>tbl_search := tx\<rparr>))"

definition set_filter :: "unicode \<Rightarrow> task_filter \<Rightarrow> task_table \<Rightarrow> task_table" where
  "set_filter u f m = (if tbl_filter m = f then m else rebuild_table u (m\<lparr>tbl_filter := f\<rparr>))"

definition row_task :: "task_table \<Rightarrow> int \<Rightarrow> task_snapshot option" where
  "row_task m row = (if row < 0 \<or> row \<ge> int (length (tbl_rows m)) then None else Some (tbl_rows m ! nat row))"

definition task_by_id :: "task_table \<Rightarrow> string \<Rightarrow> task_snapshot option" where
  "task_by_id m ident = find (\<lambda>x. snp_id x = ident) (tbl_all m)"

text \<open>All tasks, the active, the completed and the failed ones.\<close>

definition count_tasks :: "task_table \<Rightarrow> nat \<times> nat \<times> nat \<times> nat" where
  "count_tasks m =
     foldl (\<lambda>(n, active, completed, failed) x.
         if snp_status x = StatusCompleted then (n, active, Suc completed, failed)
         else if snp_status x = StatusFailed then (n, Suc active, completed, Suc failed)
         else (n, Suc active, completed, failed))
       (length (tbl_all m), 0, 0, 0) (tbl_all m)"

fun display_status :: "task_status \<Rightarrow> string" where
  "display_status StatusWaiting = ux_waiting"
| "display_status StatusRunning = ux_running"
| "display_status StatusSeeding = ux_seeding"
| "display_status StatusPaused = ux_paused"
| "display_status StatusCompleted = ux_completed"
| "display_status StatusFailed = ux_failed"
| "display_status StatusCanceled = ux_canceled"
| "display_status (StatusOther s) = s"

definition table_value :: "(rat \<Rightarrow> rat) \<Rightarrow> task_table \<Rightarrow> int \<Rightarrow> int \<Rightarrow> string" where
  "table_value rnd m row column =
     (case row_task m row of
        None \<Rightarrow> []
      | Some x \<Rightarrow>
          if column = 0 then snp_title x
          else if column = 1 then display_status (snp_status x)
          else if column = 2 then format_fixed 1 (snp_progress x) @ ''%''
          else if column = 3 then
            (if snp_file_size x \<le> 0 then format_bytes rnd (snp_received x)
             else format_bytes rnd (snp_received x) @ '' / '' @ format_bytes rnd (snp_file_size x))
          else if column = 4 then (if snp_speed x \<le> 0 then ''-'' else format_bytes rnd (snp_speed x) @ ''/s'')
          else if column = 5 then snp_path x
          else [])"

text \<open>\<open>refreshTaskSelection\<close>: the task that the toolbar acts on.\<close>

definition selected_task_id :: "task_table \<Rightarrow> int \<Rightarrow> string" where
  "selected_task_id m row = (case row_task m row of None \<Rightarrow> [] | Some x \<Rightarrow> snp_id x)"

definition task_summary :: "task_table \<Rightarrow> string" where
  "task_summary m =
     (case count_tasks m of (n, active, completed, failed) \<Rightarrow>
        ux_all @ itoa (int n) @ ux_active @ itoa (int active) @ ux_complete @ itoa (int completed) @
        ux_failures @ itoa (int failed))"

section \<open>Notifications\<close>

datatype task_notification = InfoNote string string | ErrorNote string string

type_synonym status_tracker = "string \<rightharpoonup> task_status"

definition new_tracker :: "task_snapshot list \<Rightarrow> status_tracker" where
  "new_tracker initial = foldl (\<lambda>t x. t(snp_id x \<mapsto> snp_status x)) Map.empty initial"

definition note_of :: "task_snapshot \<Rightarrow> task_notification list" where
  "note_of x =
     (if snp_status x = StatusCompleted then [InfoNote ux_done_title (snp_title x)]
      else if snp_status x = StatusFailed then
        [ErrorNote ux_failed_title
          (if snp_error x \<noteq> [] then snp_title x @ [CHR 0x0D, CHR 0x0A] @ snp_error x else snp_title x)]
      else [])"

definition update_tracker :: "task_snapshot list \<Rightarrow> status_tracker \<Rightarrow> task_notification list \<times> status_tracker" where
  "update_tracker tasks t =
     (concat (map (\<lambda>x. case t (snp_id x) of
          None \<Rightarrow> []
        | Some previous \<Rightarrow> if previous = snp_status x then [] else note_of x) tasks),
      new_tracker tasks)"

section \<open>The files of a torrent\<close>

record selection_row =
  srw_file :: bt_file
  srw_checked :: bool

definition new_selection_row :: "bt_file \<Rightarrow> selection_row" where
  "new_selection_row f =
     \<lparr>srw_file = (if \<not> bf_selected f then f\<lparr>bf_priority := 0\<rparr>
        else if bf_priority f < 1 \<or> bf_priority f > 3 then f\<lparr>bf_priority := 2\<rparr> else f),
      srw_checked = bf_selected f\<rparr>"

definition new_selection :: "bt_file list \<Rightarrow> selection_row list" where
  "new_selection files = map new_selection_row files"

definition row_in_range :: "selection_row list \<Rightarrow> int \<Rightarrow> bool" where
  "row_in_range rows i \<longleftrightarrow> 0 \<le> i \<and> i < int (length rows)"

definition row_error :: "int \<Rightarrow> goerr" where
  "row_error i = new_error (ux_row @ itoa i @ ux_out_of_range)"

definition check_row :: "bool \<Rightarrow> selection_row \<Rightarrow> selection_row" where
  "check_row checked r =
     (let r = r\<lparr>srw_checked := checked\<rparr> in
      if checked \<and> bf_priority (srw_file r) = 0 then r\<lparr>srw_file := (srw_file r)\<lparr>bf_priority := 2\<rparr>\<rparr>
      else if \<not> checked then r\<lparr>srw_file := (srw_file r)\<lparr>bf_priority := 0\<rparr>\<rparr> else r)"

definition set_checked :: "int \<Rightarrow> bool \<Rightarrow> selection_row list \<Rightarrow> goerr option \<times> selection_row list" where
  "set_checked i checked rows =
     (if \<not> row_in_range rows i then (Some (row_error i), rows)
      else if srw_checked (rows ! nat i) = checked then (None, rows)
      else (None, rows[nat i := check_row checked (rows ! nat i)]))"

definition set_checks :: "(bool \<Rightarrow> bool) \<Rightarrow> selection_row list \<Rightarrow> selection_row list" where
  "set_checks next_check rows =
     map (\<lambda>r. let checked = next_check (srw_checked r) in
        if srw_checked r \<noteq> checked
        then r\<lparr>srw_checked := checked, srw_file := (srw_file r)\<lparr>bf_priority := (if checked then 2 else 0)\<rparr>\<rparr>
        else r) rows"

definition select_all_files :: "selection_row list \<Rightarrow> selection_row list" where
  "select_all_files rows = set_checks (\<lambda>_. True) rows"

definition clear_files :: "selection_row list \<Rightarrow> selection_row list" where
  "clear_files rows = set_checks (\<lambda>_. False) rows"

definition invert_files :: "selection_row list \<Rightarrow> selection_row list" where
  "invert_files rows = set_checks Not rows"

definition no_file_error :: goerr where
  "no_file_error = new_error ux_no_file"

definition selected_indexes :: "selection_row list \<Rightarrow> int list result" where
  "selected_indexes rows =
     (let chosen = map (\<lambda>r. bf_index (srw_file r)) (filter srw_checked rows) in
      if chosen = [] then Inl no_file_error else Inr chosen)"

text \<open>The map from indexes to priorities, each index once.\<close>

definition selected_priorities :: "selection_row list \<Rightarrow> (int \<times> int) list result" where
  "selected_priorities rows =
     (let chosen = foldl (\<lambda>m r. if srw_checked r then AList.update (bf_index (srw_file r)) (bf_priority (srw_file r)) m else m)
        [] rows in
      if chosen = [] then Inl no_file_error else Inr chosen)"

text \<open>The rows before one that is out of range keep what was set.\<close>

fun set_priority_loop :: "int \<Rightarrow> int list \<Rightarrow> selection_row list \<Rightarrow> goerr option \<times> selection_row list" where
  "set_priority_loop priority [] rows = (None, rows)"
| "set_priority_loop priority (i # is) rows =
     (if \<not> row_in_range rows i then (Some (row_error i), rows)
      else set_priority_loop priority is (rows[nat i :=
        \<lparr>srw_file = (srw_file (rows ! nat i))\<lparr>bf_priority := priority\<rparr>, srw_checked = True\<rparr>]))"

definition set_priority :: "int list \<Rightarrow> int \<Rightarrow> selection_row list \<Rightarrow> goerr option \<times> selection_row list" where
  "set_priority chosen priority rows =
     (if priority < 1 \<or> priority > 3
      then (Some (new_error (ux_priority @ itoa priority @ ux_invalid)), rows)
      else if chosen = [] then (Some (new_error ux_no_rows), rows)
      else set_priority_loop priority chosen rows)"

definition selection_size :: "selection_row list \<Rightarrow> int" where
  "selection_size rows = foldl (\<lambda>n r. if srw_checked r then wrap64 (n + bf_size (srw_file r)) else n) 0 rows"

definition selection_count :: "selection_row list \<Rightarrow> nat" where
  "selection_count rows = length (filter srw_checked rows)"

definition selection_summary :: "(rat \<Rightarrow> rat) \<Rightarrow> selection_row list \<Rightarrow> string" where
  "selection_summary rnd rows =
     ux_selected @ itoa (int (selection_count rows)) @ ''/'' @ itoa (int (length rows)) @ ux_files @
     format_bytes rnd (selection_size rows)"

definition priority_label :: "int \<Rightarrow> bool \<Rightarrow> string" where
  "priority_label priority selected =
     (if \<not> selected then ux_not_loaded else if priority = 1 then ux_low else if priority = 3 then ux_high else ux_normal)"

definition selection_value :: "(rat \<Rightarrow> rat) \<Rightarrow> selection_row list \<Rightarrow> int \<Rightarrow> int \<Rightarrow> string" where
  "selection_value rnd rows i column =
     (if \<not> row_in_range rows i then []
      else
        (let r = rows ! nat i; f = srw_file r in
         if column = 0 then bf_path f else if column = 1 then format_bytes rnd (bf_size f)
         else if column = 2 then priority_label (bf_priority f) (srw_checked r) else []))"

text \<open>The button that ends the dialog.\<close>

definition accept_selection :: "(rat \<Rightarrow> rat) \<Rightarrow> bt_codec \<Rightarrow> task \<Rightarrow> selection_row list \<Rightarrow> task result" where
  "accept_selection rnd bc t rows =
     (case selected_priorities rows of Inl e \<Rightarrow> Inl e | Inr prios \<Rightarrow> set_file_priorities rnd bc t prios)"

end
