(* ===== verification/UiProps.thy ===== *)
theory UiProps
  imports UiModels BtClientProps "HOL-Library.Multiset"
begin

text \<open>
  What the window's models promise: the unit of a size exists, the table shows the tasks that match
  in the order of its column, and the dialog of a torrent saves what it shows.
\<close>

section \<open>Sizes\<close>

lemma byte_unit_bound:
  "n < 1024 ^ Suc k \<Longrightarrow> byte_unit n d e = (d', e') \<Longrightarrow> e' \<le> e + k \<and> d' * 1024 ^ e = d * 1024 ^ e'"
proof (induction k arbitrary: n d e)
  case 0
  then show ?case by (simp add: byte_unit.simps[of n])
next
  case (Suc k)
  show ?case
  proof (cases "n \<ge> 1024")
    case True
    with Suc.prems(2) have b: "byte_unit (n div 1024) (d * 1024) (Suc e) = (d', e')" by (subst (asm) byte_unit.simps) simp
    have "n div 1024 < 1024 ^ Suc k" using Suc.prems(1) by (simp add: div_less_iff_less_mult)
    from Suc.IH[OF this b] show ?thesis by simp
  next
    case False
    with Suc.prems(2) show ?thesis by (subst (asm) byte_unit.simps) simp
  qed
qed

lemma size_unit_exists:
  assumes "int64 v" and "byte_unit (v div 1024) 1024 0 = (d, e)"
  shows "e < length ''KMGTPE'' \<and> d = 1024 ^ Suc e"
proof -
  have "v < 1024 * 1024 ^ Suc 5" using assms(1) by (simp add: int64_def max_int64_def)
  then have "v div 1024 < 1024 ^ Suc 5" by (simp only: div_less_iff_less_mult[of 1024] mult.commute)
  from byte_unit_bound[OF this assms(2)] show ?thesis by simp
qed

section \<open>Sorting\<close>

text \<open>
  A comparison in three values is an order of its classes; sorting by it, in either direction, needs
  no more.
\<close>

locale row_order =
  fixes cmp :: "'a \<Rightarrow> 'a \<Rightarrow> int"
  assumes swap: "cmp b a = - cmp a b"
    and trans: "cmp a b \<le> 0 \<Longrightarrow> cmp b c \<le> 0 \<Longrightarrow> cmp a c \<le> 0"
begin

definition before :: "bool \<Rightarrow> 'a \<Rightarrow> 'a \<Rightarrow> bool" where
  "before ascending a b \<longleftrightarrow> (if ascending then cmp a b < 0 else cmp a b > 0)"

lemma not_before_trans:
  assumes "\<not> before asc b a" and "\<not> before asc c b"
  shows "\<not> before asc c a"
proof (cases asc)
  case True
  with assms have "cmp a b \<le> 0" "cmp b c \<le> 0" using swap[of b a] swap[of c b] by (simp_all add: before_def)
  then have "cmp a c \<le> 0" by (rule trans)
  with True show ?thesis using swap[of c a] by (simp add: before_def)
next
  case False
  with assms have "cmp b a \<le> 0" "cmp c b \<le> 0" by (simp_all add: before_def)
  then have "cmp c a \<le> 0" using trans by blast
  with False show ?thesis by (simp add: before_def)
qed

lemma before_asym: "before asc a b \<Longrightarrow> \<not> before asc b a"
  using swap[of a b] by (simp add: before_def split: if_splits)

lemma sorted_insert_stable:
  "sorted_wrt (\<lambda>a b. \<not> before asc b a) ys \<Longrightarrow> sorted_wrt (\<lambda>a b. \<not> before asc b a) (insert_stable (before asc) x ys)"
proof (induction ys)
  case (Cons y ys)
  have m: "set (insert_stable (before asc) x ys) = insert x (set ys)" for ys
    by (induction ys) auto
  show ?case
  proof (cases "before asc y x")
    case True
    with Cons before_asym show ?thesis by (auto simp: m)
  next
    case False
    with Cons.prems not_before_trans show ?thesis by (auto simp del: not_before_trans)
  qed
qed simp

lemma sorted_stable_sort: "sorted_wrt (\<lambda>a b. \<not> before asc b a) (stable_sort (before asc) xs)"
  by (induction xs) (simp_all add: stable_sort_def sorted_insert_stable)

text \<open>Rows of one class keep their order.\<close>

lemma insert_stable_class:
  "sorted_wrt (\<lambda>a b. \<not> before asc b a) ys \<Longrightarrow>
    filter (\<lambda>y. cmp y k = 0) (insert_stable (before asc) x ys) =
    (if cmp x k = 0 then x # filter (\<lambda>y. cmp y k = 0) ys else filter (\<lambda>y. cmp y k = 0) ys)"
proof (induction ys)
  case (Cons y ys)
  have "cmp y k \<noteq> 0" if "before asc y x" "cmp x k = 0"
  proof
    assume "cmp y k = 0"
    with that(2) have "cmp x y = 0"
      using trans[of x k y] trans[of y k x] swap[of y k] swap[of x k] swap[of y x] by simp
    with that(1) swap[of y x] show False by (simp add: before_def split: if_splits)
  qed
  with Cons show ?case by auto
qed simp

lemma stable_sort_class: "filter (\<lambda>y. cmp y k = 0) (stable_sort (before asc) xs) = filter (\<lambda>y. cmp y k = 0) xs"
proof (induction xs)
  case (Cons x xs)
  have "stable_sort (before asc) (x # xs) = insert_stable (before asc) x (stable_sort (before asc) xs)"
    by (simp add: stable_sort_def)
  with Cons insert_stable_class[OF sorted_stable_sort] show ?case by simp
qed (simp add: stable_sort_def)

end

lemma mset_stable_sort: "mset (stable_sort before xs) = mset xs"
proof -
  have "mset (insert_stable before x ys) = add_mset x (mset ys)" for x ys by (induction ys) auto
  then show ?thesis by (induction xs) (simp_all add: stable_sort_def)
qed

lemma compare_values_order:
  "compare_values b a = - compare_values a b"
  "compare_values a b \<le> 0 \<Longrightarrow> compare_values b c \<le> 0 \<Longrightarrow> compare_values a c \<le> 0"
  for a b c :: "'a::linorder"
  by (auto simp: compare_values_def split: if_splits)

interpretation by_column: row_order "compare_rows u column" for u column
proof unfold_locales
  show "compare_rows u column b a = - compare_rows u column a b" for a b
    unfolding compare_rows_def by simp (intro conjI impI; rule compare_values_order(1))
  show "compare_rows u column a c \<le> 0" if "compare_rows u column a b \<le> 0" "compare_rows u column b c \<le> 0" for a b c
  proof -
    consider "column = 0" | "column = 1" | "column = 2" | "column = 3" | "column = 4" | "column = 5" | "column \<notin> {0, 1, 2, 3, 4, 5}"
      by blast
    then show ?thesis using that
      by cases (simp_all add: compare_rows_def, (erule (1) compare_values_order(2))+)
  qed
qed

lemma row_before_column: "row_before u column = by_column.before u column"
  by (intro ext) (simp add: row_before_def by_column.before_def)

section \<open>The table\<close>

definition visible :: "unicode \<Rightarrow> task_table \<Rightarrow> task_snapshot list" where
  "visible u m = filter (\<lambda>x. matches_filter (tbl_filter m) x \<and> matches_search u (tbl_search m) x) (tbl_all m)"

definition table_inv :: "unicode \<Rightarrow> task_table \<Rightarrow> bool" where
  "table_inv u m \<longleftrightarrow> mset (tbl_rows m) = mset (visible u m) \<and>
     sorted_wrt (\<lambda>a b. \<not> row_before u (tbl_column m) (tbl_ascending m) b a) (tbl_rows m)"

datatype table_call = SetTasks "task_snapshot list" | SetSearch string | SetFilter task_filter | ToggleSort int

fun run_table_call :: "unicode \<Rightarrow> task_table \<Rightarrow> table_call \<Rightarrow> task_table" where
  "run_table_call u m (SetTasks tasks) = set_tasks u tasks m"
| "run_table_call u m (SetSearch tx) = set_search_text u tx m"
| "run_table_call u m (SetFilter f) = set_filter u f m"
| "run_table_call u m (ToggleSort column) = toggle_sort u column m"

lemma sort_rows_inv: "mset (tbl_rows m) = mset (visible u m) \<Longrightarrow> table_inv u (sort_rows u m)"
  by (simp add: table_inv_def sort_rows_def visible_def mset_stable_sort row_before_column by_column.sorted_stable_sort)

lemma rebuild_inv: "table_inv u (rebuild_table u m)"
  unfolding rebuild_table_def by (rule sort_rows_inv) (simp add: visible_def)

lemma run_table_call_inv: "table_inv u m \<Longrightarrow> table_inv u (run_table_call u m c)"
proof (cases c)
  case (ToggleSort column)
  assume "table_inv u m"
  then show ?thesis unfolding ToggleSort run_table_call.simps toggle_sort_def sort_table_def
    by (intro sort_rows_inv) (simp add: table_inv_def visible_def)
qed (simp_all add: set_tasks_def set_search_text_def set_filter_def rebuild_inv Let_def)

lemma counts:
  "count_tasks m = (length (tbl_all m), length (filter (matches_filter FilterActive) (tbl_all m)),
    length (filter (matches_filter FilterCompleted) (tbl_all m)), length (filter (matches_filter FilterFailed) (tbl_all m)))"
proof -
  have "foldl (\<lambda>(n, active, completed, failed) x.
         if snp_status x = StatusCompleted then (n, active, Suc completed, failed)
         else if snp_status x = StatusFailed then (n, Suc active, completed, Suc failed)
         else (n, Suc active, completed, failed)) (n, a, c, f) xs =
      (n, a + length (filter (matches_filter FilterActive) xs), c + length (filter (matches_filter FilterCompleted) xs),
       f + length (filter (matches_filter FilterFailed) xs))" for n a c f xs
    by (induction xs arbitrary: a c f) (simp_all add: matches_filter_def)
  from this[of "length (tbl_all m)" 0 0 0 "tbl_all m"] show ?thesis by (simp add: count_tasks_def)
qed

text \<open>
  The table shows what matches, in order. After any calls, the rows are the tasks that the filter
  and the search let through, each as often as it is among all tasks, in the order of the chosen
  column and direction; and with an empty search there are as many rows as the summary counts for
  the filter.
\<close>

theorem table_shows_matches:
  fixes u calls
  defines "m \<equiv> foldl (run_table_call u) (new_task_table u) calls"
  shows "mset (tbl_rows m) = mset (visible u m) \<and>
    sorted_wrt (\<lambda>a b. \<not> row_before u (tbl_column m) (tbl_ascending m) b a) (tbl_rows m) \<and>
    (tbl_search m = [] \<longrightarrow> (case count_tasks m of (n, active, completed, failed) \<Rightarrow>
      length (tbl_rows m) = (case tbl_filter m of FilterAll \<Rightarrow> n | FilterActive \<Rightarrow> active
        | FilterCompleted \<Rightarrow> completed | FilterFailed \<Rightarrow> failed)))"
proof -
  have "table_inv u m'" if "table_inv u m0" "m' = foldl (run_table_call u) m0 calls" for m0 m'
    using that by (induction calls arbitrary: m0) (simp_all add: run_table_call_inv)
  then have inv: "table_inv u m" using rebuild_inv m_def unfolding new_task_table_def by blast
  have "length (tbl_rows m) = length (visible u m)" using inv mset_eq_length by (auto simp: table_inv_def)
  moreover have "visible u m = filter (matches_filter (tbl_filter m)) (tbl_all m)" if "tbl_search m = []"
    using that by (simp add: visible_def matches_search_def)
  ultimately show ?thesis using inv
    by (auto simp: table_inv_def counts matches_filter_def split: task_filter.splits)
qed

section \<open>Notifications\<close>

lemma tracker_of: "new_tracker tasks ident = map_option snp_status (find (\<lambda>x. snp_id x = ident) (rev tasks))"
proof -
  have "foldl (\<lambda>t x. t(snp_id x \<mapsto> snp_status x)) t0 tasks ident =
      (case find (\<lambda>x. snp_id x = ident) (rev tasks) of None \<Rightarrow> t0 ident | Some x \<Rightarrow> Some (snp_status x))" for t0
    by (induction tasks rule: rev_induct) simp_all
  then show ?thesis by (auto simp: new_tracker_def split: option.splits)
qed

lemma found_member: "find P xs = Some y \<Longrightarrow> y \<in> set xs \<and> P y"
  by (induction xs) (auto split: if_splits)

text \<open>Showing the same snapshots again notifies of nothing.\<close>

lemma notified_once:
  assumes "distinct (map snp_id tasks)"
  shows "fst (update_tracker tasks (snd (update_tracker tasks t))) = []"
proof -
  have "new_tracker tasks (snp_id x) = Some (snp_status x)" if "x \<in> set tasks" for x
  proof -
    have "find (\<lambda>y. snp_id y = snp_id x) (rev tasks) \<noteq> None" using that by (auto simp: find_None_iff)
    then obtain y where y: "find (\<lambda>y. snp_id y = snp_id x) (rev tasks) = Some y" by blast
    then have "y \<in> set tasks" "snp_id y = snp_id x" using found_member by force+
    with that assms have "y = x" by (metis distinct_map inj_on_def)
    with y show ?thesis by (simp add: tracker_of)
  qed
  then show ?thesis by (simp add: update_tracker_def)
qed

section \<open>The files of a torrent\<close>

datatype selection_call = CheckFile int bool | CheckAll | CheckNone | CheckOthers | Prioritize "int list" int

fun run_selection_call :: "selection_row list \<Rightarrow> selection_call \<Rightarrow> selection_row list" where
  "run_selection_call rows (CheckFile i checked) = snd (set_checked i checked rows)"
| "run_selection_call rows CheckAll = select_all_files rows"
| "run_selection_call rows CheckNone = clear_files rows"
| "run_selection_call rows CheckOthers = invert_files rows"
| "run_selection_call rows (Prioritize chosen p) = snd (set_priority chosen p rows)"

text \<open>A row has a priority exactly when it is checked; the rest of its file never changes.\<close>

definition row_ok :: "selection_row \<Rightarrow> bool" where
  "row_ok r \<longleftrightarrow> (if srw_checked r then 1 \<le> bf_priority (srw_file r) \<and> bf_priority (srw_file r) \<le> 3
     else bf_priority (srw_file r) = 0)"

abbreviation row_key :: "selection_row \<Rightarrow> int \<times> int" where
  "row_key r \<equiv> (bf_index (srw_file r), bf_size (srw_file r))"

lemma check_row_ok: "row_ok r \<Longrightarrow> srw_checked r \<noteq> checked \<Longrightarrow> row_ok (check_row checked r) \<and> row_key (check_row checked r) = row_key r"
  by (auto simp: row_ok_def check_row_def Let_def)

lemma map_update_same: "i < length xs \<Longrightarrow> f y = f (xs ! i) \<Longrightarrow> map f (xs[i := y]) = map f xs"
  by (simp add: map_update list_update_same_conv)

lemma set_checked_ok:
  assumes "list_all row_ok rows" and "set_checked i checked rows = (e, rows')"
  shows "list_all row_ok rows' \<and> map row_key rows' = map row_key rows"
proof (cases "row_in_range rows i \<and> srw_checked (rows ! nat i) \<noteq> checked")
  case True
  then have i: "nat i < length rows" by (simp add: row_in_range_def nat_less_iff)
  with True assms have "row_ok (rows ! nat i)" "rows' = rows[nat i := check_row checked (rows ! nat i)]"
    by (auto simp: set_checked_def list_all_length)
  with True i assms(1) check_row_ok show ?thesis by (simp add: list_all_length nth_list_update map_update_same)
next
  case False
  with assms show ?thesis by (auto simp: set_checked_def split: if_splits)
qed

lemma set_checks_ok:
  "list_all row_ok rows \<Longrightarrow> list_all row_ok (set_checks f rows) \<and> map row_key (set_checks f rows) = map row_key rows"
  by (auto simp: set_checks_def list_all_iff row_ok_def Let_def)

lemma set_priority_loop_ok:
  "list_all row_ok rows \<Longrightarrow> 1 \<le> p \<Longrightarrow> p \<le> 3 \<Longrightarrow> set_priority_loop p chosen rows = (e, rows') \<Longrightarrow>
    list_all row_ok rows' \<and> map row_key rows' = map row_key rows"
proof (induction chosen arbitrary: rows)
  case (Cons i chosen)
  let ?r = "\<lparr>srw_file = (srw_file (rows ! nat i))\<lparr>bf_priority := p\<rparr>, srw_checked = True\<rparr>"
  show ?case
  proof (cases "row_in_range rows i")
    case True
    then have i: "nat i < length rows" by (simp add: row_in_range_def nat_less_iff)
    have ok: "list_all row_ok (rows[nat i := ?r])"
      using Cons.prems(1-3) i by (auto simp: list_all_length nth_list_update row_ok_def)
    have k: "map row_key (rows[nat i := ?r]) = map row_key rows" using i by (rule map_update_same) simp
    from Cons.prems(4) True have "set_priority_loop p chosen (rows[nat i := ?r]) = (e, rows')" by simp
    from Cons.IH[OF ok Cons.prems(2,3) this] k show ?thesis by simp
  qed (use Cons.prems in simp)
qed simp

lemma selection_call_ok:
  assumes "list_all row_ok rows"
  shows "list_all row_ok (run_selection_call rows c) \<and> map row_key (run_selection_call rows c) = map row_key rows"
proof (cases c)
  case (CheckFile i checked)
  then show ?thesis using set_checked_ok[OF assms] by (cases "set_checked i checked rows") simp
next
  case (Prioritize chosen p)
  then show ?thesis using set_priority_loop_ok[OF assms, of p chosen] assms
    by (cases "set_priority_loop p chosen rows") (simp add: set_priority_def)
qed (simp_all add: set_checks_ok[OF assms] select_all_files_def clear_files_def invert_files_def)

lemma selection_calls_ok:
  "list_all row_ok rows \<Longrightarrow> list_all row_ok (foldl run_selection_call rows calls) \<and>
    map row_key (foldl run_selection_call rows calls) = map row_key rows"
  by (induction calls arbitrary: rows) (simp_all add: selection_call_ok)

lemma new_selection_ok:
  "list_all row_ok (new_selection files) \<and> map row_key (new_selection files) = map (\<lambda>f. (bf_index f, bf_size f)) files"
  by (simp add: new_selection_def new_selection_row_def list_all_iff row_ok_def)

text \<open>The file of a task as the dialog shows it in a row.\<close>

definition saved_file :: "bt_file \<Rightarrow> selection_row \<Rightarrow> bt_file" where
  "saved_file f r =
     (if srw_checked r
      then f\<lparr>bf_selected := True, bf_priority := bf_priority (srw_file r),
             bf_downloaded := clamp_downloaded (bf_downloaded f) (bf_size f)\<rparr>
      else f\<lparr>bf_selected := False, bf_priority := 0, bf_downloaded := 0, bf_completed := False\<rparr>)"

lemma update_new: "k \<notin> fst ` set xs \<Longrightarrow> AList.update k v xs = xs @ [(k, v)]"
  by (induction xs) auto

lemma chosen_pairs:
  assumes "distinct (map (\<lambda>r. bf_index (srw_file r)) rows)"
  shows "foldl (\<lambda>m r. if srw_checked r then AList.update (bf_index (srw_file r)) (bf_priority (srw_file r)) m else m) [] rows
    = map (\<lambda>r. (bf_index (srw_file r), bf_priority (srw_file r))) (filter srw_checked rows)"
  using assms
proof (induction rows rule: rev_induct)
  case (snoc r rows)
  let ?g = "\<lambda>r. (bf_index (srw_file r), bf_priority (srw_file r))"
  have "bf_index (srw_file r) \<notin> fst ` set (map ?g (filter srw_checked rows))" using snoc.prems by auto
  then have "AList.update (bf_index (srw_file r)) (bf_priority (srw_file r)) (map ?g (filter srw_checked rows)) =
      map ?g (filter srw_checked rows) @ [?g r]" by (rule update_new)
  with snoc show ?case by simp
qed simp

lemma chosen_priority_of_row:
  assumes "distinct (map (\<lambda>r. bf_index (srw_file r)) rows)" and "r \<in> set rows"
  shows "map_of (map (\<lambda>r. (bf_index (srw_file r), bf_priority (srw_file r))) (filter srw_checked rows)) (bf_index (srw_file r)) =
    (if srw_checked r then Some (bf_priority (srw_file r)) else None)"
proof (cases "srw_checked r")
  case True
  have "distinct (map fst (map (\<lambda>r. (bf_index (srw_file r), bf_priority (srw_file r))) (filter srw_checked rows)))"
    using assms(1) by (simp add: comp_def distinct_map_filter)
  moreover have "(bf_index (srw_file r), bf_priority (srw_file r)) \<in>
      set (map (\<lambda>r. (bf_index (srw_file r), bf_priority (srw_file r))) (filter srw_checked rows))"
    using assms(2) True by auto
  ultimately show ?thesis using True by (simp only: map_of_is_SomeI if_True)
next
  case False
  have "bf_index (srw_file r) \<noteq> bf_index (srw_file q)" if "q \<in> set rows" "srw_checked q" for q
    using assms that False by (metis distinct_map inj_onD)
  then have "bf_index (srw_file r) \<notin> fst ` set (map (\<lambda>r. (bf_index (srw_file r), bf_priority (srw_file r))) (filter srw_checked rows))"
    by (auto, blast)
  then show ?thesis using False by (simp only: map_of_eq_None_iff[symmetric] if_False)
qed

lemma prioritize_rows:
  "list_all2 (\<lambda>f r. prioritize_file prios f = Inr (saved_file f r)) files rows \<Longrightarrow>
    prioritize_files prios files = Inr (map2 saved_file files rows)"
  by (induction rule: list_all2_induct) simp_all

lemma saved_size:
  assumes "list_all2 (\<lambda>f r. bf_size f = bf_size (srw_file r)) files rows"
  shows "selected_size (map2 saved_file files rows) = selection_size rows"
proof -
  have "foldl (\<lambda>n f. if bf_selected f then wrap64 (n + bf_size f) else n) n (map2 saved_file files rows) =
      foldl (\<lambda>n r. if srw_checked r then wrap64 (n + bf_size (srw_file r)) else n) n rows" for n
    using assms by (induction arbitrary: n rule: list_all2_induct) (simp_all add: saved_file_def)
  then show ?thesis by (simp add: selected_size_def selection_size_def)
qed

lemma saved_selected:
  "list_all2 P files rows \<Longrightarrow> list_ex bf_selected (map2 saved_file files rows) \<longleftrightarrow> list_ex srw_checked rows"
  by (induction rule: list_all2_induct) (simp_all add: saved_file_def)

text \<open>
  The dialog of a torrent saves what it shows. Whatever rows the user checked, unchecked or gave
  a priority, the dialog ends with an error exactly when no file is checked or the new state cannot
  be written; otherwise the files of the task become those of the rows, the checked ones selected
  with the priority shown, which is always a valid one, and the size of the task is the size in the
  dialog's summary.
\<close>

theorem selection_saved_as_shown:
  assumes "client_files_from_task bc t = Inr files" and "distinct (map bf_index files)"
    and "rows = foldl run_selection_call (new_selection files) calls"
  shows "list_all row_ok rows \<and> length rows = length files \<and>
    (if list_ex srw_checked rows then
       (case bc_marshal_files bc (map2 saved_file files rows) of
          Inl e \<Rightarrow> accept_selection rnd bc t rows = Inl (wrap_error ''encode BitTorrent files: '' e)
        | Inr encoded \<Rightarrow> \<exists>t'. accept_selection rnd bc t rows = Inr t' \<and>
            map_get (stg_state (tsk_stage t')) ''files'' = encoded \<and> tsk_file_size t' = selection_size rows)
     else accept_selection rnd bc t rows = Inl no_file_error)"
proof -
  let ?keys = "map (\<lambda>f. (bf_index f, bf_size f)) files"
  have ok: "list_all row_ok rows" and k: "map row_key rows = ?keys"
    using selection_calls_ok[of "new_selection files" calls] new_selection_ok[of files] by (simp_all add: assms(3))
  have l: "length rows = length files" using arg_cong[OF k, of length] by simp
  have "map fst (map row_key rows) = map fst ?keys" using k by simp
  then have idx: "map (\<lambda>r. bf_index (srw_file r)) rows = map bf_index files" by (simp add: comp_def)
  then have d: "distinct (map (\<lambda>r. bf_index (srw_file r)) rows)" using assms(2) by simp
  let ?prios = "map (\<lambda>r. (bf_index (srw_file r), bf_priority (srw_file r))) (filter srw_checked rows)"
  have pri: "selected_priorities rows = (if list_ex srw_checked rows then Inr ?prios else Inl no_file_error)"
    by (auto simp: selected_priorities_def chosen_pairs[OF d] Let_def filter_empty_conv list_ex_iff)
  have same: "bf_index (files ! i) = bf_index (srw_file (rows ! i)) \<and> bf_size (files ! i) = bf_size (srw_file (rows ! i))"
    if "i < length files" for i
    using arg_cong[OF k, of "\<lambda>xs. xs ! i"] that l by simp
  have each: "list_all2 (\<lambda>f r. prioritize_file (map_of ?prios) f = Inr (saved_file f r)) files rows"
  proof (rule list_all2_all_nthI)
    fix i assume i: "i < length files"
    then have r: "rows ! i \<in> set rows" using l by simp
    then have "row_ok (rows ! i)" using ok by (simp add: list_all_iff)
    with chosen_priority_of_row[OF d r] same[OF i]
    show "prioritize_file (map_of ?prios) (files ! i) = Inr (saved_file (files ! i) (rows ! i))"
      by (simp add: prioritize_file_def saved_file_def row_ok_def split: if_splits)
  qed (simp add: l)
  have sz: "list_all2 (\<lambda>f r. bf_size f = bf_size (srw_file r)) files rows"
    using same l by (simp add: list_all2_conv_all_nth)
  show ?thesis
  proof (cases "list_ex srw_checked rows")
    case True
    then have ne: "?prios \<noteq> []" by (auto simp: filter_empty_conv list_ex_iff)
    have "accept_selection rnd bc t rows = set_file_priorities rnd bc t ?prios"
      using True by (simp add: accept_selection_def pri)
    also have "\<dots> = (case bc_marshal_files bc (map2 saved_file files rows) of
          Inl e \<Rightarrow> Inl (wrap_error ''encode BitTorrent files: '' e)
        | Inr encoded \<Rightarrow> set_file_priorities rnd bc t ?prios)"
      using assms(1) ne prioritize_rows[OF each] saved_selected[OF each] True
      by (simp add: set_file_priorities_def Let_def split: sum.splits)
    finally have a: "accept_selection rnd bc t rows = \<dots>" .
    show ?thesis
    proof (cases "bc_marshal_files bc (map2 saved_file files rows)")
      case (Inr encoded)
      then show ?thesis using ok l True a assms(1) ne prioritize_rows[OF each] saved_selected[OF each] saved_size[OF sz]
        by (simp add: set_file_priorities_def Let_def map_get_set)
    qed (use ok l True a in simp)
  next
    case False
    then show ?thesis using ok l by (simp add: accept_selection_def pri)
  qed
qed

definition demo_files :: "bt_file list" where
  "demo_files = [\<lparr>bf_index = 4, bf_path = ''a'', bf_size = 10, bf_selected = True, bf_priority = 0, bf_downloaded = 3, bf_completed = False\<rparr>,
     \<lparr>bf_index = 7, bf_path = ''b'', bf_size = 20, bf_selected = False, bf_priority = 1, bf_downloaded = 0, bf_completed = False\<rparr>]"

definition demo_file_codec :: bt_codec where
  "demo_file_codec = \<lparr>bc_marshal_files = (\<lambda>files. Inr (concat (map (\<lambda>f. itoa (bf_priority f)) files))),
     bc_unmarshal_files = (\<lambda>_. Inr demo_files), bc_marshal_strings = (\<lambda>_. Inr []), bc_unmarshal_strings = (\<lambda>_. Inr []),
     bc_parse_float = (\<lambda>_. 0)\<rparr>"

lemma selection_saved_as_shown_witness:
  "list_all row_ok (new_selection demo_files) \<and>
    (\<exists>t'. accept_selection id demo_file_codec one_task (new_selection demo_files) = Inr t' \<and>
      map_get (stg_state (tsk_stage t')) ''files'' = ''20'' \<and> tsk_file_size t' = 10)"
proof -
  let ?rows = "new_selection demo_files"
  have f: "client_files_from_task demo_file_codec one_task = Inr demo_files" by code_simp
  have d: "distinct (map bf_index demo_files)" by (simp add: demo_files_def)
  have r: "?rows = foldl run_selection_call (new_selection demo_files) []" by simp
  have m: "bc_marshal_files demo_file_codec (map2 saved_file demo_files ?rows) = Inr ''20''" by code_simp
  have c: "list_ex srw_checked ?rows" "selection_size ?rows = 10" by code_simp+
  from selection_saved_as_shown[OF f d r, of id] m c show ?thesis by simp
qed

end
