(* ===== verification/HttpProbeProps.thy ===== *)
theory HttpProbeProps
  imports HttpProbe
begin

text \<open>
  What probing and naming promise: every file name is safe to join to a directory, ranges are only
  claimed when the server proved them, sizes are never negative, and the title chosen is the first
  free one.
\<close>

section \<open>File names\<close>

definition safe_name :: "string \<Rightarrow> bool" where
  "safe_name s \<longleftrightarrow> s \<noteq> [] \<and> (\<forall>c\<in>set s. \<not> unsafe_filename_char c) \<and>
     hd s \<notin> {CHR ''.'', CHR '' ''} \<and> last s \<notin> {CHR ''.'', CHR '' ''}"

lemma underscore_safe: "\<not> unsafe_filename_char (CHR ''_'')"
  by (simp add: unsafe_filename_char_def byte_of_def)

lemma safe_name_safe_filename [simp]: "safe_name (safe_filename name)"
proof -
  let ?m = "map (\<lambda>c. if unsafe_filename_char c then CHR ''_'' else c) (trim_space name)"
  let ?t = "trim ''. '' ?m"
  have m: "\<forall>c\<in>set ?m. \<not> unsafe_filename_char c" using underscore_safe by auto
  have cs: "set ''. '' = {CHR ''.'', CHR '' ''}" by simp
  have "safe_name ?t" if ne: "?t \<noteq> []"
    unfolding safe_name_def
  proof (intro conjI ballI)
    show "hd ?t \<notin> {CHR ''.'', CHR '' ''}" using trim_hd[OF ne] unfolding cs .
    show "last ?t \<notin> {CHR ''.'', CHR '' ''}" using trim_last[OF ne] unfolding cs .
    show "\<not> unsafe_filename_char c" if "c \<in> set ?t" for c
      using that m set_trim by blast
  qed (rule ne)
  moreover have "safe_name ''download''" by code_simp
  ultimately show ?thesis unfolding safe_filename_def Let_def by simp
qed

lemma safe_name_no_separator: "safe_name s \<Longrightarrow> slash \<notin> set s \<and> backslash \<notin> set s \<and> CHR '':'' \<notin> set s"
  by (auto simp: safe_name_def unsafe_filename_char_def slash_def backslash_def)

lemma safe_name_not_dots: "safe_name s \<Longrightarrow> s \<noteq> ''.'' \<and> s \<noteq> ''..''"
  by (auto simp: safe_name_def)

lemma filename_from_safe [simp]: "safe_name (filename_from u lib now url h)"
  by (simp add: filename_from_def Let_def split: sum.split)

section \<open>The probe\<close>

lemma content_length_nonneg [simp]: "0 \<le> content_length h"
  by (auto simp: content_length_def unknown_size_def Let_def split: option.split)

lemma range_size_nonneg [simp]: "0 \<le> range_size h"
  by (auto simp: range_size_def unknown_size_def Let_def split: option.split prod.split)

lemma fallback_size_nonneg: "0 \<le> n \<Longrightarrow> 0 \<le> fallback_size n b"
  by (simp add: fallback_size_def Let_def)

text \<open>
  A probe claims ranges only when one of its two requests was answered with status 206 and a
  \<open>Content-Range\<close> header; the size it gives is never negative, and the file name has no path
  separator, colon or control character, is not empty, and neither starts nor ends with a dot or
  a space - so it is neither dot nor dot-dot.
\<close>

theorem probe_sound:
  assumes "probe u lib now client base = Inr r"
  shows "safe_name (prb_filename r) \<and> 0 \<le> prb_file_size r \<and>
    (prb_supports_range r \<longrightarrow>
      (\<exists>a q. q \<in> {''bytes=1-1'', ''bytes=0-0''} \<and> client (probe_headers base q) = Inr a \<and>
         accepts_ranges a \<and> prb_file_size r = range_size (ans_headers a)))"
proof -
  obtain a where a: "client (probe_headers base ''bytes=1-1'') = Inr a"
    using assms by (auto simp: probe_def send_probe_def split: sum.splits)
  show ?thesis
  proof (cases "accepts_ranges a")
    case True
    then have "r = ranged_result u lib now (ans_url a) a"
      using assms a by (auto simp: probe_def send_probe_def split: if_splits)
    with a True show ?thesis by (auto simp: ranged_result_def)
  next
    case not_first: False
    show ?thesis
    proof (cases "prb_supports_range r")
      case True
      then obtain b where "client (probe_headers base ''bytes=0-0'') = Inr b" "accepts_ranges b"
        "r = ranged_result u lib now (ans_url a) b"
        using assms a not_first
        by (auto simp: probe_def send_probe_def Let_def split: if_splits sum.splits)
      then show ?thesis by (auto simp: ranged_result_def)
    next
      case False
      then show ?thesis
        using assms a not_first
        by (auto simp: probe_def send_probe_def Let_def fallback_size_nonneg ranged_result_def
            unknown_size_def split: if_splits sum.splits)
    qed
  qed
qed

definition demo_client :: "(string \<times> string) list \<Rightarrow> answer result" where
  "demo_client h = Inr \<lparr>ans_code = 206, ans_status = ''206 Partial Content'',
     ans_headers = [(''Content-Range'', [''bytes 1-1/500'']),
       (''Content-Disposition'', [''attachment; filename=../../evil.exe''])],
     ans_url = ''http://h/f''\<rparr>"

lemma probe_sound_witness:
  "\<exists>r. probe ascii_tables no_netlib 7 demo_client [] = Inr r \<and> prb_filename r = ''_.._evil.exe'' \<and>
     safe_name (prb_filename r) \<and> prb_file_size r = 500"
proof -
  have c: "(case probe ascii_tables no_netlib 7 demo_client [] of Inl _ \<Rightarrow> False
      | Inr r \<Rightarrow> prb_filename r = ''_.._evil.exe'' \<and> prb_file_size r = 500)" by code_simp
  then obtain r where r: "probe ascii_tables no_netlib 7 demo_client [] = Inr r"
    by (auto split: sum.splits)
  with c probe_sound[OF r] show ?thesis by auto
qed

section \<open>The title of a new task\<close>

definition title_candidate :: "string \<Rightarrow> nat \<Rightarrow> string" where
  "title_candidate title k = (if k = 0 then title else with_copy_suffix title (int k))"

lemma dedupe_loop_first:
  assumes "c = title_candidate title k"
  shows "dedupe_loop u fs dir existing title fuel (int k + 1) c = Some x \<longleftrightarrow>
    (\<exists>j<fuel. x = title_candidate title (k + j) \<and> title_free u fs dir existing x \<and>
       (\<forall>i<j. \<not> title_free u fs dir existing (title_candidate title (k + i))))"
  using assms
proof (induction fuel arbitrary: k c)
  case (Suc fuel)
  have next_c: "with_copy_suffix title (int k + 1) = title_candidate title (Suc k)"
    "int k + 1 + 1 = int (Suc k) + 1"
    by (simp_all add: title_candidate_def add.commute)
  show ?case
  proof (cases "title_free u fs dir existing c")
    case True
    with Suc.prems show ?thesis by (auto simp: gr0_conv_Suc) (metis add.right_neutral zero_less_Suc
      bot_nat_0.not_eq_extremum)+
  next
    case False
    have "dedupe_loop u fs dir existing title (Suc fuel) (int k + 1) c =
        dedupe_loop u fs dir existing title fuel (int (Suc k) + 1) (title_candidate title (Suc k))"
      using False unfolding dedupe_loop.simps next_c by (simp only: if_False)
    also have "(\<dots> = Some x) \<longleftrightarrow> (\<exists>j<fuel. x = title_candidate title (Suc k + j) \<and>
        title_free u fs dir existing x \<and>
        (\<forall>i<j. \<not> title_free u fs dir existing (title_candidate title (Suc k + i))))"
      by (rule Suc.IH) simp
    also have "\<dots> \<longleftrightarrow> (\<exists>j<Suc fuel. x = title_candidate title (k + j) \<and>
        title_free u fs dir existing x \<and>
        (\<forall>i<j. \<not> title_free u fs dir existing (title_candidate title (k + i))))"
      using False Suc.prems by (subst Ex_less_Suc2) (auto simp: All_less_Suc2)
    finally show ?thesis .
  qed
qed simp

text \<open>
  The title of a new task is the first in the sequence title, title (1), title (2), ... that
  no task in the list uses, compared without case, and for which neither the file nor its record
  exists; it is found whenever the sequence has one within the fuel.
\<close>

theorem deduplicate_title_first:
  "deduplicate_title u fs fuel title dir existing = Some c \<longleftrightarrow>
     (\<exists>k<fuel. c = title_candidate title k \<and> title_free u fs dir existing c \<and>
        (\<forall>j<k. \<not> title_free u fs dir existing (title_candidate title j)))"
  using dedupe_loop_first[of title title 0 u fs dir existing fuel c]
  by (simp add: deduplicate_title_def title_candidate_def)

text \<open>The title \<open>a.bin\<close> is a file already, so the second in the sequence is chosen.\<close>

definition taken_fs :: fsys where
  "taken_fs = \<lparr>fs_nodes = [''C:'' @ [backslash] @ ''dl'' @ [backslash] @ ''a.bin'' \<mapsto> NFile ''x''],
     fs_cwd = ''C:'' @ [backslash], fs_faults = (\<lambda>_. None)\<rparr>"

theorem deduplicate_title_first_witness:
  "deduplicate_title ascii_tables taken_fs 3 ''a.bin'' (''C:'' @ [backslash] @ ''dl'') [] = Some ''a (1).bin''"
  by (rule iffD2[OF deduplicate_title_first]) code_simp

end
