(* ===== verification/DedupeProps.thy ===== *)
theory DedupeProps
  imports HttpProbeProps
begin

text \<open>
  The search for a free title ends, \<open>internal/download/http/dedupe.go\<close>. The copies of a title carry
  ever longer numbers, the number stays in the last element of the path that the title is looked up
  at, whatever cleaning and making it absolute do to the rest, and a finite list of tasks and a
  finite tree of files have no path with arbitrarily many digits. When the system refuses to
  look a path up, the loop takes it for one that exists, and a directory of which no path can be
  looked up keeps it going for ever.
\<close>

section \<open>The digits of the last element\<close>

definition last_digits :: "string \<Rightarrow> nat" where
  "last_digits s = length (filter is_digit (takeWhile (\<lambda>c. \<not> is_sep c) (rev s)))"

lemma last_digits_append: "last_digits y \<le> last_digits (x @ y)"
proof (cases "\<exists>c\<in>set y. is_sep c")
  case True
  then have "takeWhile (\<lambda>c. \<not> is_sep c) (rev y @ rev x) = takeWhile (\<lambda>c. \<not> is_sep c) (rev y)"
    by (auto intro: takeWhile_append1)
  then show ?thesis by (simp add: last_digits_def)
next
  case False
  then have "takeWhile (\<lambda>c. \<not> is_sep c) (rev y @ rev x) = rev y @ takeWhile (\<lambda>c. \<not> is_sep c) (rev x)"
    by (intro takeWhile_append2) auto
  moreover have "takeWhile (\<lambda>c. \<not> is_sep c) (rev y) = rev y" using False by (auto simp: takeWhile_eq_all_conv)
  ultimately show ?thesis unfolding last_digits_def rev_append by (simp only: filter_append length_append le_add1)
qed

lemma digit_not_sep: "is_digit c \<Longrightarrow> \<not> is_sep c"
  by (auto simp: is_sep_def slash_def backslash_def is_digit_def byte_of_def)

lemma last_digits_plain: "\<forall>c\<in>set y. \<not> is_sep c \<Longrightarrow> last_digits (x @ y) = last_digits x + length (filter is_digit y)"
proof -
  assume "\<forall>c\<in>set y. \<not> is_sep c"
  then have "takeWhile (\<lambda>c. \<not> is_sep c) (rev y @ rev x) = rev y @ takeWhile (\<lambda>c. \<not> is_sep c) (rev x)"
    by (intro takeWhile_append2) auto
  then show ?thesis by (simp add: last_digits_def rev_filter[symmetric])
qed

lemma last_digits_own: "\<forall>c\<in>set y. \<not> is_sep c \<Longrightarrow> last_digits y = length (filter is_digit y)"
  using last_digits_plain[of y "[]"] by (simp add: last_digits_def)

lemma last_digits_sep: "is_sep c \<Longrightarrow> last_digits (x @ c # y) = last_digits y"
proof -
  assume c: "is_sep c"
  have "takeWhile (\<lambda>c. \<not> is_sep c) (rev y @ c # rev x) = takeWhile (\<lambda>c. \<not> is_sep c) (rev y)"
    using c by (induction "rev y") (simp_all add: takeWhile_tail)
  then show ?thesis by (simp add: last_digits_def)
qed

lemma last_digits_le: "last_digits s \<le> length (filter is_digit s)"
proof -
  have "length (filter is_digit (takeWhile (\<lambda>c. \<not> is_sep c) (rev s)))
      \<le> length (filter is_digit (takeWhile (\<lambda>c. \<not> is_sep c) (rev s) @ dropWhile (\<lambda>c. \<not> is_sep c) (rev s)))"
    by (simp only: filter_append length_append)
  then show ?thesis by (simp add: last_digits_def rev_filter[symmetric])
qed

lemma last_digits_from_slash: "last_digits (from_slash s) = last_digits s"
proof -
  have "from_slash s = map (\<lambda>c. if c = slash then backslash else c) s"
    by (simp add: from_slash_def replace_char_def)
  moreover have "filter is_digit (takeWhile (\<lambda>c. \<not> is_sep c) (map (\<lambda>c. if c = slash then backslash else c) r)) =
      filter is_digit (takeWhile (\<lambda>c. \<not> is_sep c) r)" for r
    by (induction r) (auto simp: is_sep_def)
  ultimately show ?thesis by (simp add: last_digits_def rev_map)
qed

section \<open>Cleaning keeps them\<close>

lemma clean_elems_last:
  "w \<noteq> [] \<Longrightarrow> w \<noteq> ''.'' \<Longrightarrow> w \<noteq> ''..'' \<Longrightarrow> \<exists>cs. clean_elems rooted (es @ [w]) = cs @ [w]"
  by (simp add: clean_elems_def clean_step_def)

lemma join_with_last: "\<exists>y. join_with d (es @ [w]) = y @ w \<and> (es = [] \<longrightarrow> y = [])"
  by (cases "es = []") (simp_all add: join_with_append)

lemma from_slash_append: "from_slash (x @ y) = from_slash x @ from_slash y"
  by (simp add: from_slash_def replace_char_def)

lemma volume_split: "volume_name s @ after_volume s = s"
  by (simp add: volume_name_def after_volume_def)

lemma last_digits_clean: "last_digits s \<le> last_digits (fp_clean s)"
proof (cases "after_volume s = []")
  case True
  then show ?thesis
    by (auto simp: fp_clean_def last_digits_from_slash last_digits_plain is_sep_def slash_def backslash_def)
next
  case False
  let ?v = "from_slash (volume_name s)"
  obtain es w where e: "split_on backslash (from_slash (after_volume s)) = es @ [w]"
    by (metis append_butlast_last_id split_on_not_Nil)
  have w_plain: "\<forall>c\<in>set w. \<not> is_sep c"
  proof
    fix c assume c: "c \<in> set w"
    have "w \<in> set (split_on backslash (from_slash (after_volume s)))" by (simp add: e)
    then have "backslash \<notin> set w" "set w \<subseteq> set (from_slash (after_volume s))"
      by (rule split_on_no_sep, rule split_on_subset)
    moreover have "slash \<notin> set (from_slash t)" for t
      by (auto simp: from_slash_def replace_char_def slash_def backslash_def)
    ultimately show "\<not> is_sep c" using c by (auto simp: is_sep_def)
  qed
  have after: "from_slash (after_volume s) = join_with [backslash] (es @ [w])" by (metis e join_split)
  have whole: "last_digits s = last_digits (?v @ join_with [backslash] (es @ [w]))"
    by (metis after from_slash_append last_digits_from_slash volume_split)
  have inner: "last_digits s = last_digits w" if "es \<noteq> []"
  proof -
    have "join_with [backslash] (es @ [w]) = join_with [backslash] es @ backslash # w"
      using that by (simp add: join_with_append)
    then show ?thesis using whole last_digits_sep[of backslash "?v @ join_with [backslash] es" w]
      by (simp add: is_sep_def)
  qed
  show ?thesis
  proof (cases "w = [] \<or> w = ''.'' \<or> w = ''..''")
    case dots: True
    then have none: "last_digits w = 0" by (auto simp: last_digits_def is_digit_def byte_of_def is_sep_def slash_def backslash_def)
    show ?thesis
    proof (cases "es = []")
      case True
      then have a: "from_slash (after_volume s) = w" using after by simp
      then have "w \<noteq> []" using False by (auto simp: from_slash_def replace_char_def)
      moreover have "\<not> fp_rooted s" using a dots
        by (cases "after_volume s") (auto simp: fp_rooted_def is_sep_def from_slash_def replace_char_def slash_def
          backslash_def split: if_splits)
      moreover have d: "\<forall>c\<in>set t. \<not> is_sep c" "filter is_digit t = []" if "t \<in> {''.'', ''..''}" for t
        using that by (auto simp: is_sep_def slash_def backslash_def is_digit_def byte_of_def)
      ultimately obtain t where "fp_clean s = ?v @ t" "t \<in> {''.'', ''..''}"
        using dots True False e by (auto simp: fp_clean_def fp_elems_def fp_text_def clean_elems_def clean_step_def)
      then show ?thesis using whole True dots \<open>w \<noteq> []\<close> last_digits_plain d by (auto simp del: filter.simps)
    qed (use inner none in simp)
  next
    case plain: False
    obtain cs where cs: "fp_elems s = cs @ [w]" "es = [] \<longrightarrow> cs = []"
      using plain by (auto simp: fp_elems_def e clean_elems_def clean_step_def)
    obtain y where y: "fp_text (volume_name s) (fp_rooted s) (fp_elems s) = y @ w"
      "es = [] \<and> volume_name s \<noteq> [] \<and> \<not> fp_rooted s \<longrightarrow> y = []"
    proof -
      from join_with_last[of "[backslash]" cs w] obtain z where z: "join_with [backslash] (cs @ [w]) = z @ w"
        "cs = [] \<longrightarrow> z = []" by blast
      define q where "q = (if fp_rooted s then (if volume_name s = [] \<and> prefix ''??'' (hd (cs @ [w])) then backslash # CHR ''.'' # []
        else []) @ [backslash] else if volume_name s = [] \<and> CHR '':'' \<in> set (hd (cs @ [w])) then CHR ''.'' # backslash # [] else [])"
      have "fp_text (volume_name s) (fp_rooted s) (fp_elems s) = (q @ z) @ w"
        unfolding cs(1) fp_text_def z(1) by (simp add: q_def)
      moreover have "es = [] \<and> volume_name s \<noteq> [] \<and> \<not> fp_rooted s \<longrightarrow> q @ z = []"
        using cs(2) z(2) by (simp add: q_def)
      ultimately show thesis by (rule that)
    qed
    have clean: "fp_clean s = ?v @ y @ w" using False y(1) by (simp add: fp_clean_def)
    show ?thesis
    proof (cases "es = []")
      case True
      have "\<not> fp_rooted s"
        using True after w_plain False
        by (cases "after_volume s") (auto simp: fp_rooted_def is_sep_def from_slash_def replace_char_def split: if_splits)
      then have "volume_name s = [] \<or> y = []" using True y(2) by blast
      then show ?thesis
        using whole True clean last_digits_append[of w "y"] last_digits_append[of w "?v"]
        by (auto simp: from_slash_def replace_char_def)
    next
      case False
      then show ?thesis using inner clean last_digits_append[of w "?v @ y"] by simp
    qed
  qed
qed

lemma last_digits_join: "last_digits e \<le> last_digits (fp_join [d, e])"
proof (cases "join_raw d e = []")
  case True
  then have "last_digits e = 0"
    by (auto simp: join_raw_def Let_def last_digits_def dest!: dropWhile_eq_Nil_conv[THEN iffD1] split: if_splits)
  then show ?thesis by simp
next
  case False
  have drop: "last_digits (dropWhile is_sep e) = last_digits e"
  proof (cases "takeWhile is_sep e = []")
    case True
    then have "dropWhile is_sep e = e" by (metis append_Nil takeWhile_dropWhile_id)
    then show ?thesis by simp
  next
    case f: False
    let ?t = "takeWhile is_sep e"
    have "is_sep (last ?t)" using f by (metis last_in_set set_takeWhileD)
    moreover have "e = butlast ?t @ last ?t # dropWhile is_sep e"
      using f append_butlast_last_id[OF f] by (metis append.assoc append_Cons append_Nil takeWhile_dropWhile_id)
    ultimately show ?thesis by (metis last_digits_sep)
  qed
  have "last_digits e \<le> last_digits (join_raw d e)"
  proof -
    have "\<exists>x. join_raw d e = x @ e \<or> join_raw d e = x @ dropWhile is_sep e"
    proof (cases "d = [] \<or> \<not> is_sep (last d)")
      case True
      have "d @ backslash # e = (d @ [backslash]) @ e" by simp
      then show ?thesis using True by (auto simp: join_raw_def intro: exI[of _ "[]"] exI[of _ d])
    next
      case False
      then show ?thesis unfolding join_raw_def Let_def by (metis append.assoc)
    qed
    then show ?thesis using drop last_digits_append by metis
  qed
  moreover have "fp_join [d, e] = fp_clean (join_raw d e)"
  proof -
    have "join_raw [] d = d" by (simp add: join_raw_def)
    then show ?thesis using False by (simp add: fp_join_def)
  qed
  ultimately show ?thesis using last_digits_clean[of "join_raw d e"] by simp
qed

lemma last_digits_after: "volume_len s = 2 \<Longrightarrow> last_digits s \<le> last_digits (after_volume s) + 2"
proof -
  assume v: "volume_len s = 2"
  let ?a = "after_volume s"
  have s: "s = take 2 s @ ?a" using v by (simp add: after_volume_def)
  show ?thesis
  proof (cases "\<exists>c\<in>set ?a. is_sep c")
    case True
    then have "takeWhile (\<lambda>c. \<not> is_sep c) (rev ?a @ rev (take 2 s)) = takeWhile (\<lambda>c. \<not> is_sep c) (rev ?a)"
      by (auto intro: takeWhile_append1)
    moreover have "rev s = rev ?a @ rev (take 2 s)" by (subst s) simp
    ultimately show ?thesis by (simp add: last_digits_def)
  next
    case False
    have "last_digits s = last_digits (take 2 s) + length (filter is_digit ?a)"
      by (subst s) (use False in \<open>intro last_digits_plain, auto\<close>)
    moreover have "last_digits (take 2 s) \<le> 2"
      using last_digits_le[of "take 2 s"] length_filter_le[of is_digit "take 2 s"] by simp
    moreover have "last_digits ?a = length (filter is_digit ?a)" using False by (intro last_digits_own) auto
    ultimately show ?thesis by simp
  qed
qed

text \<open>A path on another drive loses the drive, at most two characters.\<close>

lemma last_digits_abs: "last_digits s \<le> last_digits (fp_abs cwd s) + 2"
proof -
  have keep: "last_digits s \<le> last_digits (fp_clean (x @ s)) + 2" for x
    using last_digits_append[of s x] last_digits_clean[of "x @ s"] by linarith
  have sep: "last_digits s \<le> last_digits (fp_clean (x @ backslash # s)) + 2" for x
    using keep[of "x @ [backslash]"] by simp
  have after: "last_digits s \<le> last_digits (fp_clean (x @ backslash # after_volume s)) + 2" if "volume_len s = 2" for x
    using last_digits_after[OF that] last_digits_append[of "after_volume s" "x @ [backslash]"]
      last_digits_clean[of "x @ backslash # after_volume s"] by simp
  have "is_unc s \<or> volume_len s = 0 \<or> volume_len s = 2"
    by (auto simp: is_unc_def volume_len_def split: list.splits)
  then consider "is_abs s" | "volume_len s = 0" | "volume_len s = 2" by (auto simp: is_abs_def)
  then show ?thesis
    using keep[of "[]"] keep sep after by cases (auto simp: fp_abs_def)
qed

section \<open>A free copy exists\<close>

lemma digits_val_less: "list_all is_digit s \<Longrightarrow> digits_val s < 10 ^ length s"
proof (induction s rule: rev_induct)
  case (snoc c s)
  then have "digits_val s < 10 ^ length s" "byte_of c - 48 \<le> 9" by (auto simp: is_digit_def)
  then show ?case by (simp add: digits_val_snoc)
qed (simp add: digits_val_def)

lemma itoa_long: "n < length (itoa (10 ^ n))"
proof -
  have "(10::nat) ^ n < 10 ^ length (digits_of (10 ^ n))"
    using digits_val_less[OF digits_of_digits, of "10 ^ n"] by simp
  then have "n < length (digits_of (10 ^ n))" by (simp add: power_less_imp_less_exp)
  moreover have "itoa (10 ^ n) = digits_of (10 ^ n)" by (simp add: itoa_def nat_power_eq)
  ultimately show ?thesis by simp
qed

lemma candidate_digits: "n < last_digits (title_candidate title (10 ^ n))"
proof -
  let ?i = "itoa (10 ^ n)" and ?e = "fp_ext title"
  have ext: "\<forall>c\<in>set ?e. \<not> is_sep c"
    by (auto simp: fp_ext_def Let_def is_sep_def slash_def backslash_def dest: set_takeWhileD)
  have int_pow: "int (10 ^ n) = 10 ^ n" by simp
  have digits: "list_all is_digit ?i"
    using digits_of_digits[of "nat (10 ^ n)"] by (simp add: itoa_def)
  then have seps: "\<forall>c\<in>set (?i @ '')'' @ ?e). \<not> is_sep c"
    using ext by (auto simp: list_all_iff digit_not_sep) (simp add: is_sep_def slash_def backslash_def)
  have "n < length (filter is_digit ?i)" using itoa_long[of n] digits by (simp add: list_all_iff)
  also have "\<dots> \<le> last_digits (?i @ '')'' @ ?e)" using last_digits_own[OF seps] by simp
  finally have "n < last_digits (?i @ '')'' @ ?e)" .
  moreover obtain x where x: "title_candidate title (10 ^ n) = x @ ?i @ '')'' @ ?e"
  proof -
    have "(10::nat) ^ n \<noteq> 0" by simp
    then have "title_candidate title (10 ^ n) = ((if trim_suffix title ?e = [] then ''download''
        else trim_suffix title ?e) @ '' ('') @ ?i @ '')'' @ ?e"
      unfolding title_candidate_def with_copy_suffix_def Let_def int_pow by simp
    then show thesis by (rule that)
  qed
  ultimately show ?thesis unfolding x using last_digits_append[of "?i @ '')'' @ ?e" x] by linarith
qed

text \<open>Lower case keeps ASCII digits and makes none, as the tables of Unicode do.\<close>

definition lower_keeps_digits :: "unicode \<Rightarrow> bool" where
  "lower_keeps_digits u \<longleftrightarrow> (\<forall>s. filter is_digit (to_lower u s) = filter is_digit s)"

lemma bounded_digits: "finite A \<Longrightarrow> \<exists>m. \<forall>s\<in>A. length (filter is_digit s) \<le> m"
  using bdd_above_finite[of "(\<lambda>s. length (filter is_digit s)) ` A"] by (auto simp: bdd_above_def)

lemma long_available:
  assumes "\<forall>s\<in>dom (fs_nodes fs) \<union> dom (fs_faults fs). length (filter is_digit s) \<le> m" and "m + 2 < last_digits p"
  shows "path_available fs p"
proof -
  have "m < last_digits (fs_key fs p)" using last_digits_abs[of p "fs_cwd fs"] assms(2) by (simp add: fs_key_def)
  then have "m < length (filter is_digit (fs_key fs p))" using last_digits_le[of "fs_key fs p"] by linarith
  then have "fs_key fs p \<notin> dom (fs_nodes fs) \<union> dom (fs_faults fs)" using assms(1) by (metis linorder_not_le)
  then show ?thesis by (simp add: path_available_def os_lstat_def not_exist_def domIff)
qed

theorem free_copy_exists:
  assumes "finite (dom (fs_nodes fs))" and "finite (dom (fs_faults fs))" and "lower_keeps_digits u"
  shows "\<exists>k. title_free u fs dir existing (title_candidate title k)"
proof -
  let ?used = "set (map (\<lambda>t. title_key u (snp_path t) (snp_title t)) existing)"
  obtain m where m: "\<forall>s\<in>dom (fs_nodes fs) \<union> dom (fs_faults fs) \<union> ?used. length (filter is_digit s) \<le> m"
    using bounded_digits[of "dom (fs_nodes fs) \<union> dom (fs_faults fs) \<union> ?used"] assms(1,2) by auto
  let ?c = "title_candidate title (10 ^ (m + 2))" let ?p = "fp_clean (fp_join [dir, ?c])"
  have long: "m + 2 < last_digits ?p"
    using candidate_digits[of "m + 2" title] last_digits_join[of ?c dir] last_digits_clean[of "fp_join [dir, ?c]"] by linarith
  moreover have "last_digits (?p @ ''.ghd'') = last_digits ?p"
    by (subst last_digits_plain) (simp_all add: is_sep_def slash_def backslash_def is_digit_def byte_of_def)
  ultimately have "path_available fs ?p" "path_available fs (?p @ ''.ghd'')"
    using m by (auto intro!: long_available[of fs m])
  moreover have "title_key u dir ?c \<notin> ?used"
  proof
    assume "title_key u dir ?c \<in> ?used"
    then have "length (filter is_digit (to_lower u ?p)) \<le> m" using m by (auto simp: title_key_def)
    then show False using assms(3) long last_digits_le[of ?p] by (simp add: lower_keeps_digits_def)
  qed
  ultimately show ?thesis by (auto simp: title_free_def Let_def)
qed

text \<open>So the loop returns, and more fuel gives the same title.\<close>

theorem deduplicate_title_returns:
  assumes "finite (dom (fs_nodes fs))" and "finite (dom (fs_faults fs))" and "lower_keeps_digits u"
  shows "\<exists>c n. title_free u fs dir existing c \<and> (\<forall>fuel\<ge>n. deduplicate_title u fs fuel title dir existing = Some c)"
proof -
  let ?free = "\<lambda>k. title_free u fs dir existing (title_candidate title k)"
  obtain k where "?free k" using free_copy_exists[OF assms] by blast
  then have least: "?free (LEAST k. ?free k)" "\<forall>j<(LEAST k. ?free k). \<not> ?free j"
    by (rule LeastI, metis not_less_Least)
  define k0 where "k0 = (LEAST k. ?free k)"
  have "deduplicate_title u fs fuel title dir existing = Some (title_candidate title k0)" if "Suc k0 \<le> fuel" for fuel
    unfolding deduplicate_title_first k0_def[symmetric]
    using least that by (intro exI[of _ k0] conjI refl) (simp_all only: k0_def Suc_le_eq)
  then show ?thesis using least(1) unfolding k0_def[symmetric] by blast
qed

text \<open>
  When the system refuses every lookup under the directory for another reason than that the path
  does not exist, no amount of fuel is enough: the loop of the code does not end.
\<close>

theorem refused_lookups_never_return:
  assumes "\<And>p. fs_faults fs (fs_key fs (fp_clean (fp_join [dir, p]))) = Some refused" and "\<not> err_not_exist refused"
  shows "deduplicate_title u fs fuel title dir existing = None"
proof -
  have "\<not> path_available fs (fp_clean (fp_join [dir, c]))" for c
    using assms(2) by (simp add: path_available_def os_lstat_def assms(1))
  then have "\<not> title_free u fs dir existing c" for c unfolding title_free_def Let_def by blast
  then have "deduplicate_title u fs fuel title dir existing \<noteq> Some c" for c
    using deduplicate_title_first by blast
  then show ?thesis by (metis option.exhaust)
qed

end
