(* ===== verification/FileProps.thy ===== *)
theory FileProps
  imports TaskFilesProps
begin

text \<open>
  The properties of the file operations: where an owned path lies, what removing a task's files
  can touch, who may remove an FTP directory, and the choice of an FTP directory task's output.
\<close>

section \<open>Concrete tasks\<close>

definition plain_task :: task where
  "plain_task = new_task ''t1'' 5 ''http'' ''a.bin'' ''http://h/a.bin'' ''C:/dl'' 10
     (new_stage ''s1'' ''http'' ''http://h/a.bin'' 10 4 3 True None [])"

definition directory_task :: task where
  "directory_task = new_task ''t2'' 6 ''ftp'' ''pub'' ''ftp://h/pub/'' ''C:/dl'' 10
     ((new_stage ''s2'' ''ftp'' ''ftp://h/pub/'' 10 1 3 True None [])
        \<lparr>stg_state := Some (fmap_of_list [(''directory'', ''true'')])\<rparr>)"

text \<open>A directory that another task owns occupies the second task's output.\<close>

definition foreign_fs :: fsys where
  "foreign_fs = \<lparr>fs_nodes = (\<lambda>p. if p = ''C:'' @ [backslash] @ ''dl'' @ [backslash] @ ''pub'' then Some NDir
       else if p = ''C:'' @ [backslash] @ ''dl'' @ [backslash] @ ''pub'' @ [backslash] @ ''.gd3_ftp_owner''
       then Some (NFile ''t9'') else None),
     fs_cwd = ''C:/'', fs_faults = Map.empty\<rparr>"

lemma foreign_fs_output:
  "task_owned_path ascii_tables (fs_cwd foreign_fs) (tsk_path directory_task) (output_file directory_task) =
     Inr (''C:'' @ [backslash] @ ''dl'' @ [backslash] @ ''pub'')"
  by code_simp

lemma directory_task_directory: "is_ftp_directory directory_task"
  by code_simp

lemma foreign_fs_owner:
  "verify_ftp_directory_owner ascii_tables foreign_fs (''C:'' @ [backslash] @ ''dl'' @ [backslash] @ ''pub'')
     (tsk_id directory_task) \<noteq> None"
proof -
  have "(case verify_ftp_directory_owner ascii_tables foreign_fs (''C:'' @ [backslash] @ ''dl'' @ [backslash] @ ''pub'')
     (tsk_id directory_task) of Some _ \<Rightarrow> True | None \<Rightarrow> False)"
    by code_simp
  then show ?thesis by (simp split: option.splits)
qed

section \<open>Ownership of paths\<close>

text \<open>
  A path that passes the ownership check of a task's directory lies strictly below that
  directory, compared element by element, on the same drive: neither a dot-dot element nor the
  directory itself gets through.
\<close>

theorem owned_path_below:
  assumes "unicode_fold u" and "drive_path base" and "drive_path target"
    and "task_owned_path u cwd base target = Inr t"
  shows "strictly_below u base t \<and> t = drive_text (hd target) (fp_elems target)"
  using task_owned_below[OF assms] by blast

lemma owned_path_below_witness:
  "strictly_below ascii_tables ''C:/dl'' (''C:'' @ [backslash] @ ''dl'' @ [backslash] @ ''x'' @ [backslash] @ ''a.bin'')"
proof -
  have p: "drive_path ''C:/dl''" "drive_path ''C:/dl/x/a.bin''" by code_simp+
  have t: "task_owned_path ascii_tables ''C:/'' ''C:/dl'' ''C:/dl/x/a.bin'' =
      Inr (''C:'' @ [backslash] @ ''dl'' @ [backslash] @ ''x'' @ [backslash] @ ''a.bin'')"
    by code_simp
  from owned_path_below[OF ascii_fold.unicode_fold_axioms p t] show ?thesis by blast
qed

text \<open>
  C31: removing a task's files never creates or changes a file, and removes nothing but the
  task's output, its part, state and torrent files, and trees that lie strictly below the task's
  directory.
\<close>

theorem cleanup_frame:
  assumes "unicode_fold u" and "drive_path (tsk_path t)"
    and "fs_nodes (snd (cleanup_files u t fs)) q \<noteq> fs_nodes fs q"
  shows "fs_nodes (snd (cleanup_files u t fs)) q = None \<and>
    (q \<in> named_files fs t \<or> (\<exists>x. strictly_below u (tsk_path t) x \<and> in_tree x q))"
  using cleanup_touches[OF assms(1,2), of fs] assms(3) unfolding touches_def by blast

definition plain_fs :: fsys where
  "plain_fs = \<lparr>fs_nodes = [''C:'' @ [backslash] @ ''dl'' @ [backslash] @ ''a.bin'' \<mapsto> NFile ''x'',
      ''C:'' @ [backslash] @ ''dl'' @ [backslash] @ ''b.bin'' \<mapsto> NFile ''y''],
    fs_cwd = ''C:/'', fs_faults = Map.empty\<rparr>"

lemma cleanup_frame_witness:
  "''C:'' @ [backslash] @ ''dl'' @ [backslash] @ ''a.bin'' \<in> named_files plain_fs plain_task \<or>
   (\<exists>x. strictly_below ascii_tables (tsk_path plain_task) x \<and>
      in_tree x (''C:'' @ [backslash] @ ''dl'' @ [backslash] @ ''a.bin''))"
proof -
  have d: "drive_path (tsk_path plain_task)" by code_simp
  have c: "fs_nodes (snd (cleanup_files ascii_tables plain_task plain_fs))
        (''C:'' @ [backslash] @ ''dl'' @ [backslash] @ ''a.bin'') \<noteq>
      fs_nodes plain_fs (''C:'' @ [backslash] @ ''dl'' @ [backslash] @ ''a.bin'')"
    by code_simp
  from cleanup_frame[OF ascii_fold.unicode_fold_axioms d c] show ?thesis by blast
qed

text \<open>
  The directory of an FTP directory task is left alone, with everything in it, and an error
  returned, when it exists without a marker that names this task - another task's directory, a
  plain file, or a directory the user made.
\<close>

theorem foreign_directory_kept:
  assumes "is_ftp_directory t"
    and "task_owned_path u (fs_cwd fs) (tsk_path t) (output_file t) = Inr dir"
    and "os_lstat fs dir = Inr n"
    and "\<not> (n = NDir \<and> (\<exists>c. os_lstat fs (fp_join [dir, ftp_directory_owner_marker]) = Inr (NFile c) \<and>
      trim_space c = tsk_id t))"
  shows "\<exists>e. cleanup_files u t fs = (Some e, fs)"
proof -
  have "verify_ftp_directory_owner u fs dir (tsk_id t) \<noteq> None"
    using verify_owner_None[of u fs dir "tsk_id t"] assms(3,4) by auto
  then obtain e where "verify_ftp_directory_owner u fs dir (tsk_id t) = Some e" by auto
  with assms(1,2) show ?thesis by (simp add: cleanup_files_def Let_def is_ftp_directory_def)
qed

lemma foreign_directory_kept_witness:
  "\<exists>e. cleanup_files ascii_tables directory_task foreign_fs = (Some e, foreign_fs)"
proof (rule foreign_directory_kept[OF directory_task_directory foreign_fs_output])
  show "os_lstat foreign_fs (''C:'' @ [backslash] @ ''dl'' @ [backslash] @ ''pub'') = Inr NDir"
    by code_simp
  have "os_lstat foreign_fs (fp_join [''C:'' @ [backslash] @ ''dl'' @ [backslash] @ ''pub'',
      ftp_directory_owner_marker]) = Inr (NFile ''t9'')"
    by code_simp
  moreover have "trim_space ''t9'' \<noteq> tsk_id directory_task" by code_simp
  ultimately show "\<not> (NDir = NDir \<and> (\<exists>c. os_lstat foreign_fs (fp_join [''C:'' @ [backslash] @ ''dl'' @ [backslash] @ ''pub'',
      ftp_directory_owner_marker]) = Inr (NFile c) \<and> trim_space c = tsk_id directory_task))"
    by auto
qed

text \<open>
  When an output is chosen for an FTP directory task, it lies in the task's directory, no
  other task reserved it, it is free or marked as this task's own, and choosing again changes
  nothing.
\<close>

theorem prepare_output_available:
  assumes "is_ftp_directory t" and "prepare_ftp_directory_output u fs t reserved = Inr t'"
  shows "output_available u fs t' reserved \<and> is_ftp_directory t' \<and> tsk_id t' = tsk_id t \<and>
    prepare_ftp_directory_output u fs t' reserved = Inr t'"
  using prepare_available[OF assms] prepare_of_available by blast

lemma prepare_output_available_witness:
  "\<exists>t'. output_available ascii_tables foreign_fs t' [] \<and> tsk_id t' = ''t2'' \<and>
     output_file t' = ''C:'' @ [backslash] @ ''dl'' @ [backslash] @ ''ftp-t2''"
proof -
  have c: "(case prepare_ftp_directory_output ascii_tables foreign_fs directory_task [] of Inl _ \<Rightarrow> False
    | Inr t \<Rightarrow> tsk_id t = ''t2'' \<and> output_file t = ''C:'' @ [backslash] @ ''dl'' @ [backslash] @ ''ftp-t2'')"
    by code_simp
  then obtain t' where t': "prepare_ftp_directory_output ascii_tables foreign_fs directory_task [] = Inr t'"
    by (auto split: sum.splits)
  with c have "tsk_id t' = ''t2'' \<and> output_file t' = ''C:'' @ [backslash] @ ''dl'' @ [backslash] @ ''ftp-t2''"
    by simp
  with prepare_output_available[OF directory_task_directory t'] show ?thesis by blast
qed

end
