(* ===== verification/HttpProps.thy ===== *)
theory HttpProps
  imports HttpTransfer
begin

text \<open>
  What the HTTP transfer promises: the parts tile the file, the record restores them, a part that
  returns without an error holds the server's bytes and touched nothing else, and parts that
  interleave assemble the file.
\<close>

section \<open>The division into parts\<close>

text \<open>Parts that tile the bytes from \<open>a\<close> up to, and without, \<open>b\<close>.\<close>

fun tiles :: "int \<Rightarrow> int \<Rightarrow> subworker list \<Rightarrow> bool" where
  "tiles a b [] \<longleftrightarrow> a = b"
| "tiles a b (p # ps) \<longleftrightarrow>
     sub_start p = a \<and> sub_progress p = a \<and> a \<le> sub_end p \<and> sub_end p < b \<and> tiles (sub_end p + 1) b ps"

lemma tiles_append: "tiles a b ps \<Longrightarrow> tiles b c qs \<Longrightarrow> b \<le> c \<Longrightarrow> tiles a c (ps @ qs)"
  by (induction ps arbitrary: a) auto

lemma tiles_le: "tiles a b ps \<Longrightarrow> a \<le> b"
  by (induction ps arbitrary: a) fastforce+

lemma gen_blocks_tiles:
  "0 < step \<Longrightarrow> gen_blocks n a step = (ps, s) \<Longrightarrow>
   tiles a s ps \<and> s = a + int n * step \<and> length ps = n"
proof (induction n arbitrary: a ps s)
  case (Suc n)
  obtain qs t where q: "gen_blocks n (a + step) step = (qs, t)" by (cases "gen_blocks n (a + step) step")
  from Suc.IH[OF Suc.prems(1) q]
  have t: "tiles (a + step) t qs" "t = a + step + int n * step" "length qs = n" by auto
  have "0 \<le> step * int (length qs)" using Suc.prems(1) by simp
  then have pos: "0 < 1 + step * int (length qs)" by linarith
  with Suc.prems q t show ?case by (auto simp: Let_def mk_sub_def algebra_simps)
qed simp

lemma generate_tiles_lemma:
  assumes "0 < len"
  shows "tiles 0 len (generate len block_num True) \<and>
    int (length (generate len block_num True)) = min len (if block_num \<le> 0 then 8 else block_num)"
proof -
  define n where "n = min len (if block_num \<le> 0 then 8 else block_num)"
  define step where "step = len div n"
  have n: "0 < n" "n \<le> len" using assms by (auto simp: n_def)
  have step: "0 < step" "step * n \<le> len"
  proof -
    show "0 < step" using n by (simp add: step_def pos_imp_zdiv_pos_iff)
    have "len div n * n + len mod n = len" "0 \<le> len mod n" using n by simp_all
    then show "step * n \<le> len" unfolding step_def by linarith
  qed
  obtain ps s where g: "gen_blocks (nat (n - 1)) 0 step = (ps, s)" by (cases "gen_blocks (nat (n - 1)) 0 step")
  from gen_blocks_tiles[OF step(1) g] n
  have t: "tiles 0 s ps" "s = (n - 1) * step" "length ps = nat (n - 1)" by auto
  have s: "s < len" using step t(2) by (simp add: algebra_simps)
  have gen: "generate len block_num True = ps @ [mk_sub s (len - 1)]"
    using assms g by (auto simp: generate_def Let_def n_def step_def min_def split: if_splits)
  have "tiles s len [mk_sub s (len - 1)]" using s by (simp add: mk_sub_def)
  then have "tiles 0 len (generate len block_num True)"
    unfolding gen using tiles_append[OF t(1)] s by simp
  moreover have "int (length (generate len block_num True)) = n" unfolding gen using t(3) n by simp
  ultimately show ?thesis by (simp add: n_def)
qed

text \<open>
  The parts of a file of known size tile it: they start at zero, each starts right after the
  one before it ends, none is empty, the last ends at the last byte, and there are as many as
  asked for, or as many as the file has bytes.
\<close>

theorem generate_tiles:
  assumes "0 < len"
  shows "tiles 0 len (generate len block_num True) \<and>
    int (length (generate len block_num True)) = min len (if block_num \<le> 0 then 8 else block_num)"
  using generate_tiles_lemma[OF assms] .

lemma generate_tiles_witness:
  "tiles 0 10 (generate 10 3 True) \<and> length (generate 10 3 True) = 3"
  using generate_tiles[of 10 3] by simp

section \<open>The record\<close>

lemma length_le_bytes [simp]: "length (le_bytes k n) = k"
  by (induction k arbitrary: n) simp_all

lemma le_value_le_bytes: "le_value (le_bytes k n) = n mod 256 ^ k"
proof (induction k arbitrary: n)
  case (Suc k)
  then show ?case by (simp add: mod_mult2_eq byte_of_def)
qed simp

lemma length_put_uint64 [simp]: "length (put_uint64 x) = 8"
  by (simp add: put_uint64_def)

lemma get_put_uint64:
  assumes "int64 x"
  shows "get_uint64 (put_uint64 x @ rest) = x"
proof -
  let ?w = "word_of_int x :: 64 word"
  have "unat ?w < 256 ^ 8" using unsigned_less[of ?w] by simp
  then have "le_value (take 8 (put_uint64 x @ rest)) = unat ?w"
    by (simp add: put_uint64_def le_value_le_bytes)
  then have "get_uint64 (put_uint64 x @ rest) = sint ?w" by (simp add: get_uint64_def)
  also have "\<dots> = x"
    using assms unfolding int64_def min_int64_def max_int64_def
    by (simp add: sint_sbintrunc' signed_take_bit_int_eq_self_iff)
  finally show ?thesis .
qed

definition part_int64 :: "subworker \<Rightarrow> bool" where
  "part_int64 p \<longleftrightarrow> int64 (sub_start p) \<and> int64 (sub_progress p) \<and> int64 (sub_end p)"

lemma length_encode_part [simp]: "length (encode_part p) = 24"
  by (simp add: encode_part_def)

lemma read_parts_write_record:
  "\<forall>p\<in>set ps. part_int64 p \<Longrightarrow> read_parts (length ps) (write_record ps @ rest) = ps"
proof (induction ps)
  case (Cons p ps)
  let ?tail = "write_record ps @ rest"
  have d: "write_record (p # ps) @ rest =
      put_uint64 (sub_start p) @ put_uint64 (sub_progress p) @ put_uint64 (sub_end p) @ ?tail"
    by (simp add: write_record_def encode_part_def)
  have "drop 24 (write_record (p # ps) @ rest) = ?tail"
    by (simp add: write_record_def)
  moreover have "drop 8 (write_record (p # ps) @ rest) = put_uint64 (sub_progress p) @ put_uint64 (sub_end p) @ ?tail"
    "drop 16 (write_record (p # ps) @ rest) = put_uint64 (sub_end p) @ ?tail"
    unfolding d by simp_all
  ultimately show ?case
    using Cons get_put_uint64 by (simp add: part_int64_def) (simp add: d get_put_uint64)
qed simp

text \<open>
  Reading the record back gives the parts that were written, at every progress and with both
  special ends, zero and minus one.
\<close>

theorem record_roundtrip:
  assumes "\<forall>p\<in>set ps. part_int64 p"
  shows "restore (Some (write_record ps)) = (ps, ps \<noteq> [])"
proof -
  have "length (write_record ps) = length ps * 24"
    by (induction ps) (simp_all add: write_record_def)
  with read_parts_write_record[OF assms, of "[]"] show ?thesis by (simp add: restore_def Let_def)
qed

lemma record_roundtrip_witness:
  "restore (Some (write_record [\<lparr>sub_start = 0, sub_progress = 700, sub_end = 999\<rparr>, mk_sub 1000 (-1)])) =
     ([\<lparr>sub_start = 0, sub_progress = 700, sub_end = 999\<rparr>, mk_sub 1000 (-1)], True)"
  using record_roundtrip[of "[\<lparr>sub_start = 0, sub_progress = 700, sub_end = 999\<rparr>, mk_sub 1000 (-1)]"]
  by (simp add: part_int64_def int64_def min_int64_def max_int64_def mk_sub_def)

section \<open>What a part's transfer writes\<close>

text \<open>The file holds the resource's bytes from \<open>a\<close> up to, and without, \<open>b\<close>.\<close>

definition agrees :: "string \<Rightarrow> string \<Rightarrow> int \<Rightarrow> int \<Rightarrow> bool" where
  "agrees f res a b \<longleftrightarrow>
     (\<forall>k. a \<le> int k \<and> int k < b \<longrightarrow> k < length f \<and> k < length res \<and> f ! k = res ! k)"

text \<open>Nothing of \<open>f\<close> outside the bytes from \<open>a\<close> up to \<open>b\<close> was changed.\<close>

definition outside_kept :: "int \<Rightarrow> int \<Rightarrow> string \<Rightarrow> string \<Rightarrow> bool" where
  "outside_kept a b f f' \<longleftrightarrow> length f \<le> length f' \<and>
     (\<forall>k. k < length f \<and> \<not> (a \<le> int k \<and> int k < b) \<longrightarrow> f' ! k = f ! k)"

lemma outside_kept_refl [simp]: "outside_kept a b f f"
  by (simp add: outside_kept_def)

lemma outside_kept_nth:
  "outside_kept a b f f' \<Longrightarrow> k < length f \<Longrightarrow> int k < a \<or> b \<le> int k \<Longrightarrow> f' ! k = f ! k"
  "outside_kept a b f f' \<Longrightarrow> length f \<le> length f'"
  by (auto simp: outside_kept_def)

lemma outside_keptI:
  "length f \<le> length f' \<Longrightarrow> (\<And>k. k < length f \<Longrightarrow> int k < a \<or> b \<le> int k \<Longrightarrow> f' ! k = f ! k) \<Longrightarrow>
   outside_kept a b f f'"
  by (auto simp: outside_kept_def not_le)

lemma outside_kept_trans:
  assumes "outside_kept a b f f'" and "outside_kept a b f' f''"
  shows "outside_kept a b f f''"
proof (rule outside_keptI)
  show "length f \<le> length f''" using assms[THEN outside_kept_nth(2)] by simp
  fix k assume k: "k < length f" "int k < a \<or> b \<le> int k"
  then have "k < length f'" using outside_kept_nth(2)[OF assms(1)] by simp
  with k show "f'' ! k = f ! k" using outside_kept_nth(1)[OF assms(1)] outside_kept_nth(1)[OF assms(2)] by simp
qed

lemma outside_kept_mono:
  assumes "outside_kept a b f f'" and "a' \<le> a" and "b \<le> b'"
  shows "outside_kept a' b' f f'"
  by (rule outside_keptI[OF outside_kept_nth(2)[OF assms(1)]], rule outside_kept_nth(1)[OF assms(1)])
    (use assms(2,3) in auto)

lemma overwrite_kept: "0 \<le> p \<Longrightarrow> p + int (length bytes) \<le> b \<Longrightarrow>
    outside_kept p b f (overwrite (nat p) bytes f)"
  unfolding outside_kept_def by (auto simp: length_overwrite nth_overwrite)

lemma agrees_kept:
  assumes "agrees f res a b" and "outside_kept c d f f'" and "b \<le> c \<or> d \<le> a"
  shows "agrees f' res a b"
  unfolding agrees_def
proof (intro allI impI)
  fix k assume k: "a \<le> int k \<and> int k < b"
  then have f: "k < length f" "k < length res" "f ! k = res ! k" using assms(1) by (auto simp: agrees_def)
  have "f' ! k = f ! k" using outside_kept_nth(1)[OF assms(2) f(1)] k assms(3) by auto
  then show "k < length f' \<and> k < length res \<and> f' ! k = res ! k"
    using f outside_kept_nth(2)[OF assms(2)] by simp
qed

lemma agrees_join: "agrees f res a b \<Longrightarrow> agrees f res b c \<Longrightarrow> agrees f res a c"
  unfolding agrees_def by (meson not_le)

lemma agrees_overwrite:
  assumes "0 \<le> p" and "prefix bytes (drop (nat p) res)"
  shows "agrees (overwrite (nat p) bytes f) res p (p + int (length bytes))"
  unfolding agrees_def
proof (intro allI impI)
  fix k assume k: "p \<le> int k \<and> int k < p + int (length bytes)"
  obtain rest where r: "drop (nat p) res = bytes @ rest" using assms(2) by (auto simp: prefix_def)
  have "length bytes \<le> length res - nat p" using r by (metis length_append length_drop le_add1)
  then have len: "k < length res" using k assms(1) by linarith
  have "bytes ! (k - nat p) = drop (nat p) res ! (k - nat p)"
  proof -
    have "k - nat p < length bytes" using k assms(1) by linarith
    then show ?thesis by (simp add: r nth_append)
  qed
  also have "\<dots> = res ! k"
  proof -
    have "nat p + (k - nat p) = k" "nat p \<le> length res" using k assms(1) len by linarith+
    then show ?thesis by simp
  qed
  finally have "bytes ! (k - nat p) = res ! k" .
  moreover have w: "nat p \<le> k" "k < nat p + length bytes" using k assms(1) by linarith+
  from w(2) have "k < length (overwrite (nat p) bytes f)" by (simp add: length_overwrite)
  ultimately show "k < length (overwrite (nat p) bytes f) \<and> k < length res \<and>
      overwrite (nat p) bytes f ! k = res ! k"
    using w len by (simp add: nth_overwrite)
qed

text \<open>
  The state of a part whose bytes from its start are those of the resource; \<open>x0\<close> is the state it
  began with.
\<close>

definition part_ok :: "string \<Rightarrow> xfer \<Rightarrow> xfer \<Rightarrow> bool" where
  "part_ok res x0 x \<longleftrightarrow>
     sub_start (xf_part x) = sub_start (xf_part x0) \<and> sub_end (xf_part x) = sub_end (xf_part x0) \<and>
     sub_progress (xf_part x0) \<le> sub_progress (xf_part x) \<and>
     sub_progress (xf_part x) \<le> sub_end (xf_part x) + 1 \<and>
     agrees (xf_file x) res (sub_start (xf_part x)) (sub_progress (xf_part x)) \<and>
     outside_kept (sub_progress (xf_part x0)) (sub_end (xf_part x0) + 1) (xf_file x0) (xf_file x) \<and>
     xf_received x - xf_received x0 = sub_progress (xf_part x) - sub_progress (xf_part x0)"

lemma store_chunk_ok:
  assumes ok: "part_ok res x0 x" and st: "stg_supports_range st" "0 < sub_end (xf_part x)"
    and pos: "0 \<le> sub_start (xf_part x)" "sub_start (xf_part x) \<le> sub_progress (xf_part x0)"
    and more: "sub_progress (xf_part x) \<le> sub_end (xf_part x)"
    and honest: "prefix (rev_bytes ev) (drop (nat (sub_progress (xf_part x))) res)"
    and run: "store_chunk st ev x = (fl, x')"
  shows "part_ok res x0 x' \<and> fl \<noteq> Panicked \<and>
    (fl = Returned None \<longrightarrow> sub_progress (xf_part x') = sub_end (xf_part x') + 1) \<and>
    (fl = Going \<longrightarrow> sub_progress (xf_part x') \<le> sub_end (xf_part x') \<and>
       sub_progress (xf_part x') = sub_progress (xf_part x) + int (length (rev_bytes ev)))"
proof -
  define p where "p = sub_progress (xf_part x)"
  define e where "e = sub_end (xf_part x)"
  define chunk where "chunk = take (nat (e - p + 1)) (rev_bytes ev)"
  have trim: "trim_chunk st (xf_part x) (rev_bytes ev) = Some chunk"
    using st more by (auto simp: trim_chunk_def chunk_def p_def e_def Let_def)
  have p0: "0 \<le> p" using ok pos by (simp add: part_ok_def p_def)
  have len: "p + int (length chunk) \<le> e + 1" using more by (auto simp: chunk_def p_def e_def)
  have pre: "prefix chunk (drop (nat p) res)"
    unfolding chunk_def p_def by (rule prefix_order.trans[OF take_is_prefix honest])
  have whole: "chunk = rev_bytes ev" if "p + int (length chunk) \<le> e"
    using that more by (auto simp: chunk_def p_def e_def)
  have kept: "outside_kept (sub_progress (xf_part x0)) (sub_end (xf_part x0) + 1) (xf_file x)
      (overwrite (nat p) bs (xf_file x))" if "length bs \<le> length chunk" for bs
  proof (rule outside_kept_mono[OF overwrite_kept[OF p0]])
    show "p + int (length bs) \<le> e + 1" using len that by simp
    show "sub_progress (xf_part x0) \<le> p" "e + 1 \<le> sub_end (xf_part x0) + 1"
      using ok by (simp_all add: part_ok_def p_def e_def)
  qed
  have low: "agrees (overwrite (nat p) bs (xf_file x)) res (sub_start (xf_part x)) p" for bs
  proof (rule agrees_kept[OF _ overwrite_kept[OF p0 order_refl]])
    show "agrees (xf_file x) res (sub_start (xf_part x)) p" using ok unfolding part_ok_def p_def by blast
  qed simp
  note high = agrees_join[OF low agrees_overwrite[OF p0 pre]]
  note kept_all = outside_kept_trans[OF _ kept]
  obtain r l where w: "limiter_wait (int (length chunk)) (rev_waits ev) (xf_limiter x) = (r, l)"
    by (cases "limiter_wait (int (length chunk)) (rev_waits ev) (xf_limiter x)")
  consider (blocked) "r = None" | (failed) err where "r = Some (Some err)" | (granted) "r = Some None"
    by (cases r) auto
  then show ?thesis
  proof cases
    case blocked
    with run trim w ok show ?thesis by (auto simp: store_chunk_def part_ok_def)
  next
    case failed
    with run trim w ok show ?thesis by (auto simp: store_chunk_def part_ok_def)
  next
    case granted
    show ?thesis
    proof (cases "rev_write ev")
      case (Some fault)
      obtain err n where f: "fault = (err, n)" by (cases fault)
      have x': "fl = Returned (Some err)" "x' = x\<lparr>xf_limiter := l,
          xf_file := overwrite (nat p) (take n chunk) (xf_file x)\<rparr>"
        using run trim w granted Some f p0 by (auto simp: store_chunk_def write_at_def p_def)
      then show ?thesis using ok low kept_all[of _ "take n chunk"]
        by (auto simp: part_ok_def p_def)
    next
      case None
      have x': "fl = (if p + int (length chunk) > e then Returned None else Going)"
        "x' = x\<lparr>xf_limiter := l, xf_file := overwrite (nat p) chunk (xf_file x),
          xf_part := (xf_part x)\<lparr>sub_progress := p + int (length chunk)\<rparr>,
          xf_received := xf_received x + int (length chunk)\<rparr>"
        using run trim w granted None p0 st
        by (auto simp: store_chunk_def write_at_def p_def e_def Let_def)
      then show ?thesis using ok len high kept_all[of _ chunk] whole
        by (auto simp: part_ok_def p_def e_def)
    qed
  qed
qed

section \<open>A part that returns without an error\<close>

text \<open>Reads whose bytes, one after the other, are the resource's from \<open>p\<close> on.\<close>

definition honest_reads :: "string \<Rightarrow> int \<Rightarrow> read_event list \<Rightarrow> bool" where
  "honest_reads res p evs \<longleftrightarrow> prefix (concat (map rev_bytes evs)) (drop (nat p) res)"

lemma honest_reads_Cons:
  assumes "honest_reads res p (ev # evs)" and "0 \<le> p"
  shows "prefix (rev_bytes ev) (drop (nat p) res)"
    and "honest_reads res (p + int (length (rev_bytes ev))) evs"
proof -
  obtain t where t: "drop (nat p) res = rev_bytes ev @ concat (map rev_bytes evs) @ t"
    using assms(1) by (auto simp: honest_reads_def prefix_def)
  then show "prefix (rev_bytes ev) (drop (nat p) res)" by simp
  have "drop (nat (p + int (length (rev_bytes ev)))) res = drop (length (rev_bytes ev)) (drop (nat p) res)"
    using assms(2) by (simp add: nat_add_distrib add.commute)
  then show "honest_reads res (p + int (length (rev_bytes ev))) evs"
    unfolding honest_reads_def t by (simp add: t)
qed

definition range_part :: "stage \<Rightarrow> xfer \<Rightarrow> bool" where
  "range_part st x \<longleftrightarrow> stg_supports_range st \<and> 0 < sub_end (xf_part x) \<and>
     0 \<le> sub_start (xf_part x) \<and> sub_start (xf_part x) \<le> sub_progress (xf_part x)"

lemma part_ok_fields:
  "part_ok res x0 x \<Longrightarrow> sub_end (xf_part x) = sub_end (xf_part x0)"
  "part_ok res x0 x \<Longrightarrow> sub_start (xf_part x) = sub_start (xf_part x0)"
  "part_ok res x0 x \<Longrightarrow> sub_progress (xf_part x0) \<le> sub_progress (xf_part x)"
  by (simp_all add: part_ok_def)

lemma copy_step_ok:
  assumes ok: "part_ok res x0 x" and st: "range_part st x0"
    and more: "sub_progress (xf_part x) \<le> sub_end (xf_part x)"
    and honest: "honest_reads res (sub_progress (xf_part x)) (ev # evs)"
    and run: "copy_step st ev x = (fl, x')"
  shows "part_ok res x0 x' \<and> fl \<noteq> Panicked \<and>
    (fl = Returned None \<longrightarrow> sub_progress (xf_part x') = sub_end (xf_part x') + 1) \<and>
    (fl = Going \<longrightarrow> sub_progress (xf_part x') \<le> sub_end (xf_part x') \<and>
       honest_reads res (sub_progress (xf_part x')) evs)"
proof -
  let ?p = "sub_progress (xf_part x)"
  have p0: "0 \<le> ?p" using st part_ok_fields(3)[OF ok] by (simp add: range_part_def)
  note h = honest_reads_Cons[OF honest p0]
  obtain fl1 x1 where c: "(if rev_bytes ev = [] then (Going, x) else store_chunk st ev x) = (fl1, x1)"
    by (cases "if rev_bytes ev = [] then (Going, x) else store_chunk st ev x")
  have one: "part_ok res x0 x1 \<and> fl1 \<noteq> Panicked \<and>
      (fl1 = Returned None \<longrightarrow> sub_progress (xf_part x1) = sub_end (xf_part x1) + 1) \<and>
      (fl1 = Going \<longrightarrow> sub_progress (xf_part x1) \<le> sub_end (xf_part x1) \<and>
         sub_progress (xf_part x1) = ?p + int (length (rev_bytes ev)))"
  proof (cases "rev_bytes ev = []")
    case True
    with c ok more show ?thesis by auto
  next
    case False
    then have s: "store_chunk st ev x = (fl1, x1)" using c by simp
    have pre: "stg_supports_range st" "0 < sub_end (xf_part x)" "0 \<le> sub_start (xf_part x)"
      "sub_start (xf_part x) \<le> sub_progress (xf_part x0)"
      using st part_ok_fields[OF ok] by (simp_all add: range_part_def)
    from store_chunk_ok[OF ok pre more h(1) s] show ?thesis by blast
  qed
  have val: "validate_part_complete st (xf_part x1) \<noteq> None" if "sub_progress (xf_part x1) \<le> sub_end (xf_part x1)"
  proof -
    have "sub_end (xf_part x1) = sub_end (xf_part x0)" using one part_ok_fields(1) by blast
    with that st show ?thesis by (simp add: validate_part_complete_def range_part_def unknown_size_def)
  qed
  show ?thesis
  proof (cases "rev_ctx ev")
    case (Some e)
    with run ok show ?thesis by (auto simp: copy_step_def)
  next
    case None
    note ctx = this
    show ?thesis
    proof (cases fl1)
      case Going
      with run c ctx one val h(2) show ?thesis
        by (auto simp: copy_step_def split: read_end.splits)
    qed (use run c ctx one in \<open>auto simp: copy_step_def\<close>)
  qed
qed

lemma copy_loop_ok:
  assumes "part_ok res x0 x" and "range_part st x0" and "sub_progress (xf_part x) \<le> sub_end (xf_part x)"
    and "honest_reads res (sub_progress (xf_part x)) evs" and "copy_loop st evs x = (fl, x')"
  shows "part_ok res x0 x' \<and> fl \<noteq> Panicked \<and>
    (fl = Returned None \<longrightarrow> sub_progress (xf_part x') = sub_end (xf_part x') + 1)"
  using assms
proof (induction evs arbitrary: x)
  case (Cons ev evs)
  obtain fl1 x1 where c: "copy_step st ev x = (fl1, x1)" by (cases "copy_step st ev x")
  note one = copy_step_ok[OF Cons.prems(1-4) c]
  show ?case
  proof (cases fl1)
    case Going
    with one Cons.IH[of x1] Cons.prems(2,5) c show ?thesis by auto
  qed (use one Cons.prems(5) c in auto)
qed auto

text \<open>A server that answers with a range sends the resource's bytes from that range's start.\<close>

definition honest_server :: "unicode \<Rightarrow> string \<Rightarrow> (part_request \<Rightarrow> response result) \<Rightarrow> bool" where
  "honest_server u res srv \<longleftrightarrow>
     (\<forall>rq resp a b. srv rq = Inr resp \<longrightarrow> rsp_code resp = 206 \<longrightarrow>
        parse_content_range u (rsp_content_range resp) = Inr (a, b) \<longrightarrow> honest_reads res a (rsp_reads resp))"

lemma copy_part_ok:
  assumes "part_ok res x0 x" and "range_part st x0" and "sub_progress (xf_part x) \<le> sub_end (xf_part x)"
    and "honest_server u res srv" and "srv rq = Inr resp" and "copy_part u st resp x = (fl, x')"
  shows "part_ok res x0 x' \<and> fl \<noteq> Panicked \<and>
    (fl = Returned None \<longrightarrow> sub_progress (xf_part x') = sub_end (xf_part x') + 1)"
proof -
  have sr: "stg_supports_range st" using assms(2) by (simp add: range_part_def)
  show ?thesis
  proof (cases "\<exists>b. rsp_code resp = 206 \<and>
      parse_content_range u (rsp_content_range resp) = Inr (sub_progress (xf_part x), b) \<and>
      copy_part u st resp x = copy_loop st (rsp_reads resp) x")
    case True
    then obtain b where b: "rsp_code resp = 206"
      "parse_content_range u (rsp_content_range resp) = Inr (sub_progress (xf_part x), b)"
      "copy_loop st (rsp_reads resp) x = (fl, x')" using assms(6) by auto
    have "honest_reads res (sub_progress (xf_part x)) (rsp_reads resp)"
      using assms(4,5) b(1,2) unfolding honest_server_def by blast
    from copy_loop_ok[OF assms(1-3) this b(3)] show ?thesis .
  next
    case False
    then have "\<exists>e. fl = Returned (Some e) \<and> x' = x"
      using assms(6) sr by (auto simp: copy_part_def split: sum.splits if_splits)
    with assms(1) show ?thesis by auto
  qed
qed

lemma download_part_ok:
  assumes "part_ok res x0 x" and "range_part st x0"
    and "\<forall>a\<in>set as. honest_server u res (att_server a)"
    and "download_part u st failures as x = (fl, x')"
  shows "part_ok res x0 x' \<and> fl \<noteq> Panicked \<and>
    (fl = Returned None \<longrightarrow> sub_progress (xf_part x') = sub_end (xf_part x') + 1)"
  using assms
proof (induction as arbitrary: x failures)
  case (Cons a as)
  have sr: "stg_supports_range st" using assms(2) by (simp add: range_part_def)
  let ?p = "sub_progress (xf_part x)" and ?e = "sub_end (xf_part x)"
  have e: "?e \<noteq> unknown_size"
    using Cons.prems(2) part_ok_fields(1)[OF Cons.prems(1)] by (simp add: range_part_def unknown_size_def)
  show ?case
  proof (cases "?p > ?e")
    case True
    then have "fl = Returned None" "x' = x" using Cons.prems(4) sr e by (simp_all add: Let_def)
    moreover have "?p = ?e + 1" using True Cons.prems(1) by (simp add: part_ok_def)
    ultimately show ?thesis using Cons.prems(1) by simp
  next
    case False
    then have more: "?p \<le> ?e" by simp
    show ?thesis
    proof (cases "att_request a")
      case (Some err)
      then show ?thesis using Cons.prems(1,4) sr False by (auto simp: Let_def)
    next
      case None
      note rq = this
      show ?thesis
      proof (cases "att_server a (request_for st ?p ?e)")
        case (Inl err)
        then show ?thesis
          using Cons.prems sr False rq Cons.IH[of x] by (auto simp: Let_def split: sum.splits)
      next
        case (Inr resp)
        obtain fl1 x1 where c: "copy_part u st resp x = (fl1, x1)" by (cases "copy_part u st resp x")
        have "honest_server u res (att_server a)" using Cons.prems(3) by simp
        note one = copy_part_ok[OF Cons.prems(1,2) more this Inr c]
        then show ?thesis
          using Cons.prems sr False rq Inr c Cons.IH[of x1]
          by (auto simp: Let_def split: sum.splits flow.splits option.splits)
      qed
    qed
  qed
qed auto

text \<open>
  C27: when the transfer of a range part returns without an error - after any number of refused
  connections, broken reads, failed writes, rate limits and retries - the file holds the server's
  bytes on the whole part, nothing outside the part was written, and the received count grew by
  exactly what the part was missing. The slice of a read never panics.
\<close>

theorem range_part_correct:
  assumes "range_part st x" and "sub_progress (xf_part x) \<le> sub_end (xf_part x) + 1"
    and "agrees (xf_file x) res (sub_start (xf_part x)) (sub_progress (xf_part x))"
    and "\<forall>a\<in>set as. honest_server u res (att_server a)"
    and "download_part u st failures as x = (fl, x')"
  shows "fl \<noteq> Panicked \<and>
    outside_kept (sub_progress (xf_part x)) (sub_end (xf_part x) + 1) (xf_file x) (xf_file x') \<and>
    xf_received x' - xf_received x = sub_progress (xf_part x') - sub_progress (xf_part x) \<and>
    (fl = Returned None \<longrightarrow> sub_progress (xf_part x') = sub_end (xf_part x) + 1 \<and>
       agrees (xf_file x') res (sub_start (xf_part x)) (sub_end (xf_part x) + 1))"
proof -
  have "part_ok res x x" using assms(2,3) by (simp add: part_ok_def)
  from download_part_ok[OF this assms(1,4,5)]
  have ok: "part_ok res x x'" "fl \<noteq> Panicked"
    "fl = Returned None \<Longrightarrow> sub_progress (xf_part x') = sub_end (xf_part x') + 1" by blast+
  have "agrees (xf_file x') res (sub_start (xf_part x)) (sub_end (xf_part x) + 1)" if "fl = Returned None"
    using ok(1) ok(3)[OF that] part_ok_fields[OF ok(1)] unfolding part_ok_def by metis
  with ok part_ok_fields[OF ok(1)] show ?thesis by (auto simp: part_ok_def)
qed

definition demo_stage :: stage where
  "demo_stage = new_stage ''s'' ''http'' ''http://h/f'' 6 2 3 True None []"

definition demo_read :: "string \<Rightarrow> read_end \<Rightarrow> read_event" where
  "demo_read bytes fin = \<lparr>rev_ctx = None, rev_bytes = bytes, rev_end = fin, rev_waits = [], rev_write = None\<rparr>"

text \<open>A server whose connection breaks after two bytes, then one that sends the rest and more.\<close>

definition demo_attempts :: "attempt list" where
  "demo_attempts =
     [\<lparr>att_truncate = None, att_request = None,
       att_server = (\<lambda>_. Inr \<lparr>rsp_code = 206, rsp_status = ''206 Partial Content'',
         rsp_content_range = ''bytes 3-5/6'', rsp_reads = [demo_read ''de'' (ReadFail (new_error ''reset''))]\<rparr>),
       att_ctx = None, att_sleep = None\<rparr>,
      \<lparr>att_truncate = None, att_request = None,
       att_server = (\<lambda>_. Inr \<lparr>rsp_code = 206, rsp_status = ''206 Partial Content'',
         rsp_content_range = ''bytes 5-5/6'', rsp_reads = [demo_read ''f'' ReadMore]\<rparr>),
       att_ctx = None, att_sleep = None\<rparr>]"

definition demo_xfer :: xfer where
  "demo_xfer = \<lparr>xf_file = ''abc...'', xf_part = mk_sub 3 5, xf_received = 3, xf_limiter = None\<rparr>"

lemma demo_servers: "\<forall>a\<in>set demo_attempts. honest_server ascii_tables ''abcdef'' (att_server a)"
proof -
  have "parse_content_range ascii_tables ''bytes 3-5/6'' = Inr (3, 5)"
    "parse_content_range ascii_tables ''bytes 5-5/6'' = Inr (5, 5)" by code_simp+
  then show ?thesis
    by (simp add: demo_attempts_def honest_server_def honest_reads_def demo_read_def)
qed

lemma demo_download:
  "fst (download_part ascii_tables demo_stage 0 demo_attempts demo_xfer) = Returned None"
  "xf_file (snd (download_part ascii_tables demo_stage 0 demo_attempts demo_xfer)) = ''abcdef''"
  by code_simp+

lemma range_part_correct_witness:
  "agrees (xf_file (snd (download_part ascii_tables demo_stage 0 demo_attempts demo_xfer))) ''abcdef'' 3 6"
proof -
  have r: "range_part demo_stage demo_xfer" "sub_progress (xf_part demo_xfer) \<le> sub_end (xf_part demo_xfer) + 1"
    by (simp_all add: range_part_def demo_stage_def new_stage_def demo_xfer_def mk_sub_def)
  have a: "agrees (xf_file demo_xfer) ''abcdef'' (sub_start (xf_part demo_xfer)) (sub_progress (xf_part demo_xfer))"
    by (simp add: agrees_def demo_xfer_def mk_sub_def)
  obtain fl x' where d: "download_part ascii_tables demo_stage 0 demo_attempts demo_xfer = (fl, x')"
    by (cases "download_part ascii_tables demo_stage 0 demo_attempts demo_xfer")
  with demo_download(1) have "fl = Returned None" by simp
  with range_part_correct[OF r a demo_servers d]
  have "agrees (xf_file x') ''abcdef'' (sub_start (xf_part demo_xfer)) (sub_end (xf_part demo_xfer) + 1)"
    by blast
  with d show ?thesis by (simp add: demo_xfer_def mk_sub_def)
qed

section \<open>Parts that interleave\<close>

text \<open>
  The goroutines of \<open>Run\<close> share the file, the received count and the limiter; each owns its part.
  A step is one read of one part's copying loop, with a body that is honest from where the part
  is. The read, the wait and the write of one goroutine are one step here: they touch nothing the
  others read except the limiter, whose result the step takes from its own script.
\<close>

record http_state =
  hs_file :: string
  hs_parts :: "subworker list"
  hs_received :: int
  hs_limiter :: "limiter option"

definition part_view :: "nat \<Rightarrow> http_state \<Rightarrow> xfer" where
  "part_view i S = \<lparr>xf_file = hs_file S, xf_part = hs_parts S ! i, xf_received = hs_received S,
     xf_limiter = hs_limiter S\<rparr>"

definition put_view :: "nat \<Rightarrow> xfer \<Rightarrow> http_state \<Rightarrow> http_state" where
  "put_view i x S = \<lparr>hs_file = xf_file x, hs_parts = (hs_parts S)[i := xf_part x],
     hs_received = xf_received x, hs_limiter = xf_limiter x\<rparr>"

inductive http_step :: "stage \<Rightarrow> string \<Rightarrow> http_state \<Rightarrow> http_state \<Rightarrow> bool" for st res where
  "i < length (hs_parts S) \<Longrightarrow> sub_progress (hs_parts S ! i) \<le> sub_end (hs_parts S ! i) \<Longrightarrow>
   prefix (rev_bytes ev) (drop (nat (sub_progress (hs_parts S ! i))) res) \<Longrightarrow>
   copy_step st ev (part_view i S) = (fl, x') \<Longrightarrow> http_step st res S (put_view i x' S)"

inductive_cases http_stepE: "http_step st res S S'"

lemma tiles_nth:
  "tiles a b ps \<Longrightarrow> i < length ps \<Longrightarrow>
   a \<le> sub_start (ps ! i) \<and> sub_start (ps ! i) \<le> sub_end (ps ! i) \<and> sub_end (ps ! i) < b \<and>
   sub_progress (ps ! i) = sub_start (ps ! i)"
proof (induction ps arbitrary: a i)
  case (Cons p ps)
  show ?case
  proof (cases i)
    case (Suc j)
    with Cons.IH[of "sub_end p + 1" j] Cons.prems show ?thesis by auto
  qed (use Cons.prems in simp)
qed simp

lemma tiles_disjoint:
  "tiles a b ps \<Longrightarrow> i < j \<Longrightarrow> j < length ps \<Longrightarrow> sub_end (ps ! i) < sub_start (ps ! j)"
proof (induction ps arbitrary: a i j)
  case (Cons p ps)
  obtain k where k: "j = Suc k" using Cons.prems(2) by (cases j) auto
  show ?case
  proof (cases i)
    case 0
    with Cons.prems k tiles_nth[of "sub_end p + 1" b ps k] show ?thesis by simp
  next
    case (Suc m)
    with Cons.prems k Cons.IH[of "sub_end p + 1" m k] show ?thesis by simp
  qed
qed simp

definition http_inv :: "string \<Rightarrow> int \<Rightarrow> subworker list \<Rightarrow> http_state \<Rightarrow> bool" where
  "http_inv res r0 ps0 S \<longleftrightarrow> length (hs_parts S) = length ps0 \<and>
     (\<forall>i<length ps0. sub_start (hs_parts S ! i) = sub_start (ps0 ! i) \<and>
        sub_end (hs_parts S ! i) = sub_end (ps0 ! i) \<and>
        sub_start (ps0 ! i) \<le> sub_progress (hs_parts S ! i) \<and>
        sub_progress (hs_parts S ! i) \<le> sub_end (ps0 ! i) + 1 \<and>
        agrees (hs_file S) res (sub_start (ps0 ! i)) (sub_progress (hs_parts S ! i))) \<and>
     hs_received S = r0 + sum_list (map sub_progress (hs_parts S)) - sum_list (map sub_start ps0)"

lemma sum_list_update_int:
  "i < length xs \<Longrightarrow> sum_list (xs[i := (v :: int)]) = sum_list xs + v - xs ! i"
  by (induction xs arbitrary: i) (auto split: nat.split)

lemma http_step_inv:
  assumes tiles: "tiles a b ps0" and pos: "0 \<le> a" "\<forall>p\<in>set ps0. 0 < sub_end p"
    and st: "stg_supports_range st" and inv: "http_inv res r0 ps0 S" and step: "http_step st res S S'"
  shows "http_inv res r0 ps0 S'"
  using step
proof (cases rule: http_step.cases)
  case (1 i ev fl x')
  let ?x = "part_view i S" and ?p = "hs_parts S ! i"
  have i: "i < length ps0" using 1(2) inv by (simp add: http_inv_def)
  note ti = tiles_nth[OF tiles i]
  have pi: "sub_start ?p = sub_start (ps0 ! i)" "sub_end ?p = sub_end (ps0 ! i)"
    "sub_start (ps0 ! i) \<le> sub_progress ?p" "sub_progress ?p \<le> sub_end (ps0 ! i) + 1"
    "agrees (hs_file S) res (sub_start (ps0 ! i)) (sub_progress ?p)"
    using inv i by (auto simp: http_inv_def)
  have "0 < sub_end (ps0 ! i)" using pos(2) i by simp
  then have rp: "range_part st ?x" using st pi ti pos(1) by (simp add: range_part_def part_view_def)
  have ok0: "part_ok res ?x ?x" using pi by (simp add: part_ok_def part_view_def)
  have more: "sub_progress (xf_part ?x) \<le> sub_end (xf_part ?x)" using 1(3) by (simp add: part_view_def)
  have hon: "honest_reads res (sub_progress (xf_part ?x)) [ev]"
    using 1(4) by (simp add: honest_reads_def part_view_def)
  have ok: "part_ok res ?x x'" using copy_step_ok[OF ok0 rp more hon 1(5)] by blast
  have S': "hs_file S' = xf_file x'" "hs_parts S' = (hs_parts S)[i := xf_part x']"
    "hs_received S' = xf_received x'" using 1(1) by (simp_all add: put_view_def)
  have kept: "outside_kept (sub_start (ps0 ! i)) (sub_end (ps0 ! i) + 1) (hs_file S) (hs_file S')"
  proof (rule outside_kept_mono)
    show "outside_kept (sub_progress ?p) (sub_end ?p + 1) (hs_file S) (hs_file S')"
      using ok unfolding S' part_ok_def by (simp add: part_view_def)
  qed (simp_all add: pi)
  have len: "length (hs_parts S) = length ps0" using inv by (simp add: http_inv_def)
  have part: "sub_start (hs_parts S' ! j) = sub_start (ps0 ! j) \<and>
        sub_end (hs_parts S' ! j) = sub_end (ps0 ! j) \<and>
        sub_start (ps0 ! j) \<le> sub_progress (hs_parts S' ! j) \<and>
        sub_progress (hs_parts S' ! j) \<le> sub_end (ps0 ! j) + 1 \<and>
        agrees (hs_file S') res (sub_start (ps0 ! j)) (sub_progress (hs_parts S' ! j))"
    if j: "j < length ps0" for j
  proof (cases "j = i")
    case True
    with ok pi S' i len show ?thesis by (auto simp: part_ok_def part_view_def)
  next
    case False
    have old: "hs_parts S' ! j = hs_parts S ! j" using False S' by simp
    have pj: "agrees (hs_file S) res (sub_start (ps0 ! j)) (sub_progress (hs_parts S ! j))"
      "sub_progress (hs_parts S ! j) \<le> sub_end (ps0 ! j) + 1"
      using inv j by (auto simp: http_inv_def)
    have "sub_progress (hs_parts S ! j) \<le> sub_start (ps0 ! i) \<or> sub_end (ps0 ! i) + 1 \<le> sub_start (ps0 ! j)"
      using False tiles_disjoint[OF tiles, of i j] tiles_disjoint[OF tiles, of j i] i j pj(2)
      by (cases "i < j") auto
    from agrees_kept[OF pj(1) kept this] show ?thesis
      using inv j old by (simp add: http_inv_def)
  qed
  have "hs_received S' - hs_received S = sub_progress (xf_part x') - sub_progress ?p"
    using ok S' by (simp add: part_ok_def part_view_def)
  moreover have "map sub_progress (hs_parts S') = (map sub_progress (hs_parts S))[i := sub_progress (xf_part x')]"
    unfolding S' by (simp add: map_update)
  then have "sum_list (map sub_progress (hs_parts S')) =
      sum_list (map sub_progress (hs_parts S)) + sub_progress (xf_part x') - sub_progress ?p"
    using i len by (simp add: sum_list_update_int)
  ultimately have "hs_received S' = r0 + sum_list (map sub_progress (hs_parts S')) - sum_list (map sub_start ps0)"
    using inv by (simp add: http_inv_def)
  with part S' len show ?thesis by (simp add: http_inv_def)
qed

lemma tiles_sums:
  "tiles a b ps \<Longrightarrow> sum_list (map (\<lambda>p. sub_end p + 1) ps) = sum_list (map sub_start ps) + (b - a)"
  by (induction ps arbitrary: a) fastforce+

lemma tiles_agree:
  "tiles a b ps \<Longrightarrow> \<forall>p\<in>set ps. agrees f res (sub_start p) (sub_end p + 1) \<Longrightarrow> agrees f res a b"
proof (induction ps arbitrary: a)
  case Nil
  then show ?case by (auto simp: agrees_def)
next
  case (Cons p ps)
  then have "agrees f res (sub_end p + 1) b" by simp
  with Cons.prems show ?case using agrees_join[of f res a "sub_end p + 1" b] by auto
qed

lemma tiles_first_positive:
  assumes "tiles 0 b ps" and "0 < sub_end (hd ps)" and "ps \<noteq> []"
  shows "\<forall>p\<in>set ps. 0 < sub_end p"
proof (cases ps)
  case (Cons p qs)
  then have t: "tiles (sub_end p + 1) b qs" "0 < sub_end p" using assms by auto
  have "0 < sub_end q" if "q \<in> set qs" for q
  proof -
    from that obtain i where "i < length qs" "q = qs ! i" by (auto simp: in_set_conv_nth)
    with tiles_nth[OF t(1), of i] t(2) show ?thesis by auto
  qed
  with Cons t(2) show ?thesis by auto
qed (use assms in simp)

text \<open>The end of the first part, with at least two blocks.\<close>

lemma generate_first:
  assumes "0 < len" and "1 < n" and "n \<le> len"
  shows "hd (generate len n True) = mk_sub 0 (len div n - 1)"
proof -
  obtain k where k: "nat (n - 1) = Suc k" using assms(2) by (cases "nat (n - 1)") auto
  show ?thesis using assms
    by (simp add: generate_def Let_def k split: prod.split)
qed

text \<open>
  C28: whatever the order in which the parts' goroutines read and write, once every part is done
  the file is the resource, byte for byte, and the received count is its size - for files with at
  least two bytes a part.
\<close>

theorem interleaved_download:
  assumes "stg_supports_range st" and "1 < n" and "2 * n \<le> int (length res)"
    and "S0 = \<lparr>hs_file = f, hs_parts = generate (int (length res)) n True, hs_received = 0, hs_limiter = l\<rparr>"
    and "(http_step st res)\<^sup>*\<^sup>* S0 S"
    and "\<forall>p\<in>set (hs_parts S). sub_progress p > sub_end p"
  shows "take (length res) (hs_file S) = res \<and> hs_received S = int (length res)"
proof -
  let ?len = "int (length res)" and ?ps = "generate (int (length res)) n True"
  have len: "0 < ?len" using assms(2,3) by linarith
  have tiles: "tiles 0 ?len ?ps" using generate_tiles_lemma[OF len] by blast
  have ne: "?ps \<noteq> []" using tiles len by auto
  have "2 * n div n \<le> ?len div n" using assms(2,3) by (intro zdiv_mono1) simp_all
  then have "2 \<le> ?len div n" using assms(2) by simp
  then have "0 < sub_end (hd ?ps)" using generate_first[OF len assms(2)] assms(3,2) by (simp add: mk_sub_def)
  then have pos: "\<forall>p\<in>set ?ps. 0 < sub_end p" using tiles_first_positive[OF tiles _ ne] by blast
  have "map sub_progress ?ps = map sub_start ?ps"
    using tiles_nth[OF tiles] by (intro nth_equalityI) simp_all
  then have "sum_list (map sub_progress ?ps) = sum_list (map sub_start ?ps)" by (rule arg_cong)
  moreover have "sub_start (?ps ! i) \<le> sub_progress (?ps ! i) \<and>
      sub_progress (?ps ! i) \<le> sub_end (?ps ! i) + 1 \<and>
      agrees f res (sub_start (?ps ! i)) (sub_progress (?ps ! i))" if "i < length ?ps" for i
    using tiles_nth[OF tiles that] by (auto simp: agrees_def)
  ultimately have "http_inv res 0 ?ps S0" by (simp add: http_inv_def assms(4))
  with assms(5) have inv: "http_inv res 0 ?ps S"
    by (induction rule: rtranclp_induct) (auto intro: http_step_inv[OF tiles _ pos assms(1)])
  have done_at: "sub_progress (hs_parts S ! i) = sub_end (?ps ! i) + 1" if "i < length ?ps" for i
    using inv that assms(6) nth_mem[of i "hs_parts S"] by (fastforce simp: http_inv_def)
  have "agrees (hs_file S) res (sub_start p) (sub_end p + 1)" if "p \<in> set ?ps" for p
  proof -
    from that obtain i where i: "i < length ?ps" "p = ?ps ! i" by (auto simp: in_set_conv_nth)
    with inv done_at[OF i(1)] show ?thesis by (auto simp: http_inv_def)
  qed
  then have "agrees (hs_file S) res 0 ?len" using tiles_agree[OF tiles] by blast
  then have all: "k < length (hs_file S) \<and> hs_file S ! k = res ! k" if "k < length res" for k
    using that by (simp add: agrees_def)
  have "length res \<le> length (hs_file S)"
    using all[of "length res - 1"] len by (cases "length res") auto
  then have whole: "take (length res) (hs_file S) = res"
    using all by (intro nth_equalityI) simp_all
  have "map sub_progress (hs_parts S) = map (\<lambda>p. sub_end p + 1) ?ps"
    using inv done_at by (intro nth_equalityI) (auto simp: http_inv_def)
  then have "hs_received S = ?len" using inv tiles_sums[OF tiles] by (simp add: http_inv_def)
  with whole show ?thesis by blast
qed

text \<open>Two parts of a file of six bytes, the second one first.\<close>

definition two_parts :: http_state where
  "two_parts = \<lparr>hs_file = [], hs_parts = generate 6 2 True, hs_received = 0, hs_limiter = None\<rparr>"

definition one_read :: "nat \<Rightarrow> string \<Rightarrow> http_state \<Rightarrow> http_state" where
  "one_read i bytes S = put_view i (snd (copy_step demo_stage (demo_read bytes ReadMore) (part_view i S))) S"

lemma one_read_step:
  assumes "i < length (hs_parts S)" and "sub_progress (hs_parts S ! i) \<le> sub_end (hs_parts S ! i)"
    and "prefix bytes (drop (nat (sub_progress (hs_parts S ! i))) res)"
  shows "http_step demo_stage res S (one_read i bytes S)"
proof -
  obtain fl x' where c: "copy_step demo_stage (demo_read bytes ReadMore) (part_view i S) = (fl, x')"
    by (cases "copy_step demo_stage (demo_read bytes ReadMore) (part_view i S)")
  have "prefix (rev_bytes (demo_read bytes ReadMore)) (drop (nat (sub_progress (hs_parts S ! i))) res)"
    using assms(3) by (simp add: demo_read_def)
  from http_step.intros[OF assms(1,2) this c] c show ?thesis by (simp add: one_read_def)
qed

lemma two_parts_run:
  "(http_step demo_stage ''abcdef'')\<^sup>*\<^sup>* two_parts (one_read 0 ''abc'' (one_read 1 ''def'' two_parts))"
proof -
  have g: "1 < length (hs_parts two_parts)" "sub_progress (hs_parts two_parts ! 1) \<le> sub_end (hs_parts two_parts ! 1)"
    "prefix ''def'' (drop (nat (sub_progress (hs_parts two_parts ! 1))) ''abcdef'')"
    by code_simp+
  have h: "0 < length (hs_parts (one_read 1 ''def'' two_parts))"
    "sub_progress (hs_parts (one_read 1 ''def'' two_parts) ! 0) \<le> sub_end (hs_parts (one_read 1 ''def'' two_parts) ! 0)"
    "prefix ''abc'' (drop (nat (sub_progress (hs_parts (one_read 1 ''def'' two_parts) ! 0))) ''abcdef'')"
    by code_simp+
  from one_read_step[OF g] one_read_step[OF h] show ?thesis by simp
qed

lemma interleaved_download_witness:
  "take 6 (hs_file (one_read 0 ''abc'' (one_read 1 ''def'' two_parts))) = ''abcdef'' \<and>
   hs_received (one_read 0 ''abc'' (one_read 1 ''def'' two_parts)) = 6"
proof -
  have sr: "stg_supports_range demo_stage" by code_simp
  have S0: "two_parts = \<lparr>hs_file = [], hs_parts = generate (int (length ''abcdef'')) 2 True,
      hs_received = 0, hs_limiter = None\<rparr>"
    by (simp add: two_parts_def)
  have done_all: "\<forall>p\<in>set (hs_parts (one_read 0 ''abc'' (one_read 1 ''def'' two_parts))).
      sub_progress p > sub_end p" by code_simp
  have n: "(1 :: int) < 2" "2 * 2 \<le> int (length ''abcdef'')" by simp_all
  have len: "length ''abcdef'' = 6" by simp
  from interleaved_download[OF sr n S0 two_parts_run done_all, unfolded len] show ?thesis by simp
qed

section \<open>Giving up\<close>

text \<open>
  C37: a part whose server keeps refusing gives up after exactly \<open>MaxRetries\<close> retries: it goes on
  as long as there were at most that many failures in a row, and then returns the server's last
  error with the file and the counters unchanged.
\<close>

theorem refused_part_gives_up:
  assumes "stg_supports_range st" and "0 \<le> stg_max_retries st"
    and "sub_end (xf_part x) = unknown_size \<or> sub_progress (xf_part x) \<le> sub_end (xf_part x)"
    and "\<forall>a\<in>set as. att_request a = None \<and> att_ctx a = None \<and> att_sleep a = None \<and>
      (\<forall>rq. att_server a rq = Inl (e a))"
  shows "(int (length as) \<le> stg_max_retries st \<longrightarrow> download_part u st 0 as x = (Going, x)) \<and>
    (int (length as) = stg_max_retries st + 1 \<longrightarrow>
      download_part u st 0 as x = (Returned (Some (e (last as))), x))"
proof -
  have "(int (length bs) \<le> stg_max_retries st - f \<longrightarrow> download_part u st f bs x = (Going, x)) \<and>
      (int (length bs) = stg_max_retries st - f + 1 \<longrightarrow>
         download_part u st f bs x = (Returned (Some (e (last bs))), x))"
    if "0 \<le> f" "f \<le> stg_max_retries st" "set bs \<subseteq> set as" for f bs
    using that
  proof (induction bs arbitrary: f)
    case (Cons b bs)
    have b: "att_request b = None" "att_ctx b = None" "att_sleep b = None" "\<And>rq. att_server b rq = Inl (e b)"
      using assms(4) Cons.prems(3) by auto
    have go: "sub_end (xf_part x) = unknown_size \<or> \<not> sub_end (xf_part x) < sub_progress (xf_part x)"
      using assms(3) by auto
    have pass: "download_part u st f (b # bs) x =
        (case retry_or_fail b (e b) f st False of
           Inl err \<Rightarrow> (Returned (Some err), x) | Inr n \<Rightarrow> download_part u st n bs x)"
    proof (cases "sub_end (xf_part x) = unknown_size")
      case True
      then show ?thesis using assms(1) b by (simp add: Let_def)
    next
      case False
      then have "\<not> sub_end (xf_part x) < sub_progress (xf_part x)" using go by blast
      then show ?thesis using assms(1) b by (simp add: Let_def)
    qed
    show ?case
    proof (cases "f < stg_max_retries st")
      case True
      then have "download_part u st f (b # bs) x = download_part u st (f + 1) bs x"
        using assms(2) b(2,3) Cons.prems(1) unfolding pass
        by (simp add: retry_or_fail_def update_retry_count_def Let_def)
      moreover have "bs \<noteq> []" if "int (length (b # bs)) = stg_max_retries st - f + 1"
        using that True by (cases bs) auto
      ultimately show ?thesis using Cons.IH[of "f + 1"] Cons.prems True by auto
    next
      case False
      then have "download_part u st f (b # bs) x = (Returned (Some (e b)), x)"
        using assms(2) b(2,3) Cons.prems(1) unfolding pass
        by (simp add: retry_or_fail_def update_retry_count_def Let_def)
      then show ?thesis using False Cons.prems(2) by auto
    qed
  qed (auto)
  from this[of 0 as] assms(2) show ?thesis by auto
qed

definition refusal :: attempt where
  "refusal = \<lparr>att_truncate = None, att_request = None, att_server = (\<lambda>_. Inl (new_error ''refused'')),
     att_ctx = None, att_sleep = None\<rparr>"

lemma refused_part_gives_up_witness:
  "download_part ascii_tables demo_stage 0 (replicate 3 refusal) demo_xfer = (Going, demo_xfer) \<and>
   download_part ascii_tables demo_stage 0 (replicate 4 refusal) demo_xfer =
     (Returned (Some (new_error ''refused'')), demo_xfer)"
proof -
  have st: "stg_supports_range demo_stage" "0 \<le> stg_max_retries demo_stage" "stg_max_retries demo_stage = 3"
    "sub_end (xf_part demo_xfer) = unknown_size \<or> sub_progress (xf_part demo_xfer) \<le> sub_end (xf_part demo_xfer)"
    by (simp_all add: demo_stage_def new_stage_def demo_xfer_def mk_sub_def)
  have r: "\<forall>a\<in>set (replicate k refusal). att_request a = None \<and> att_ctx a = None \<and> att_sleep a = None \<and>
      (\<forall>rq. att_server a rq = Inl (new_error ''refused''))" for k
    by (simp add: refusal_def)
  have "download_part ascii_tables demo_stage 0 (replicate 3 refusal) demo_xfer = (Going, demo_xfer)"
    using refused_part_gives_up[OF st(1,2,4) r[of 3]] st(3) by simp
  moreover have "download_part ascii_tables demo_stage 0 (replicate 4 refusal) demo_xfer =
      (Returned (Some (new_error ''refused'')), demo_xfer)"
    using refused_part_gives_up[OF st(1,2,4) r[of 4]] st(3) by simp
  ultimately show ?thesis by blast
qed

section \<open>Where the transfer fails its purpose\<close>

text \<open>
  C34: a task of a server without ranges is never fetched. Its only part ends at minus one, so the
  first pass of the loop finds its progress beyond its end and returns without an error and
  without a request, whatever the server; the file is left empty, and the run reports success at
  100 percent.
\<close>

theorem non_range_never_fetched:
  assumes "\<not> stg_supports_range st" and "generate (stg_file_size st) (stg_block_num st) False = [xf_part x]"
    and "att_truncate a = None"
  shows "fst (download_part u st 0 (a # as) x) = Returned None \<and>
    xf_file (snd (download_part u st 0 (a # as) x)) = [] \<and>
    run_result st None [] (xf_received x) = (None, Some (progress_report (xf_received x) 0 100 0), False)"
proof -
  have p: "xf_part x = mk_sub 0 (-1)"
    using assms(2) by (simp add: generate_def not_supported_size_def)
  show ?thesis
    using assms(1,3) by (simp add: p mk_sub_def unknown_size_def Let_def reset_non_range_part_def run_result_def)
qed

lemma non_range_never_fetched_witness:
  "xf_file (snd (download_part ascii_tables (demo_stage\<lparr>stg_supports_range := False\<rparr>) 0 [refusal]
     (demo_xfer\<lparr>xf_part := mk_sub 0 (-1), xf_received := 0\<rparr>))) = []"
  by (rule non_range_never_fetched[THEN conjunct2, THEN conjunct1])
    (simp_all add: generate_def refusal_def not_supported_size_def)

text \<open>
  A file with fewer than two bytes a part has a first part whose end, byte zero, is the value
  that stands for an unknown end: it is requested open-ended and nothing that the server sends is
  cut off, so the part also fetches and counts the bytes of all the others.
\<close>

theorem small_file_first_part_unbounded:
  assumes "0 < len" and "1 < n" and "len < 2 * n" and "stg_supports_range st"
  shows "sub_end (hd (generate len n True)) = unknown_size \<and>
    (''Range'', ''bytes='' @ itoa 0 @ ''-'') \<in>
      set (prq_sets (request_for st 0 (sub_end (hd (generate len n True))))) \<and>
    trim_chunk st (hd (generate len n True)) bytes = Some bytes"
proof -
  have h: "hd (generate len n True) = mk_sub 0 0"
  proof (cases "n \<le> len")
    case True
    have "len div n = 1" using assms(2,3) True by (simp add: div_pos_geq)
    with generate_first[OF assms(1,2) True] show ?thesis by simp
  next
    case False
    then have "generate len n True = generate len len True" using assms(1,2) by (simp add: generate_def Let_def)
    moreover have "hd (generate len len True) = mk_sub 0 0"
    proof (cases "len = 1")
      case False
      then have "1 < len" using assms(1) by simp
      from generate_first[OF assms(1) this order_refl] show ?thesis using assms(1) by simp
    qed (simp add: generate_def Let_def)
    ultimately show ?thesis by simp
  qed
  show ?thesis unfolding h
    using assms(4) by (simp add: mk_sub_def unknown_size_def request_for_def trim_chunk_def)
qed

lemma small_file_first_part_unbounded_witness:
  "sub_end (hd (generate 10 8 True)) = unknown_size \<and>
   trim_chunk demo_stage (hd (generate 10 8 True)) ''0123456789'' = Some ''0123456789''"
  using small_file_first_part_unbounded[of 10 8 demo_stage "''0123456789''"]
  by (simp add: demo_stage_def new_stage_def)

end
