(* ===== verification/BridgeProps.thy ===== *)
theory BridgeProps
  imports Bridge
begin

text \<open>
  What a session of the browser bridge promises: its phases are those of a small automaton, and
  before a valid hello it reaches neither the scheduler nor the desktop, and tells the token to
  nobody the user did not approve.
\<close>

section \<open>The automaton of a session\<close>

datatype phase = Fresh | Trusted | Subscribed | Closed

datatype request = Hello bool | Subscribe | Privileged | Unprivileged

fun phase_step :: "phase \<Rightarrow> request \<Rightarrow> phase" where
  "phase_step Closed r = Closed"
| "phase_step p Unprivileged = p"
| "phase_step p (Hello ok) = (if \<not> ok then Closed else if p = Fresh then Trusted else p)"
| "phase_step p Subscribe = (if p = Fresh then Closed else Subscribed)"
| "phase_step p Privileged = (if p = Fresh then Closed else p)"

definition valid_hello :: "bridge_env \<Rightarrow> json_map \<Rightarrow> bool" where
  "valid_hello e msg \<longleftrightarrow>
     int_value msg ''protocolVersion'' = protocol_version \<and> string_value msg ''token'' = env_token e"

definition request_of :: "bridge_env \<Rightarrow> string \<Rightarrow> request" where
  "request_of e raw =
     (case decode_object (env_json e) raw of
        None \<Rightarrow> Unprivileged
      | Some msg \<Rightarrow>
          (let kind = string_value msg ''type'' in
           if kind = ''pair_request'' then Unprivileged
           else if kind = ''hello'' then Hello (valid_hello e msg)
           else if kind = ''subscribe_tasks'' then Subscribe else Privileged))"

fun requests :: "session_event list \<Rightarrow> request list" where
  "requests [] = []"
| "requests (Message e raw # evs) = request_of e raw # requests evs"
| "requests (Tick e # evs) = requests evs"

definition phase_of :: "session \<Rightarrow> phase" where
  "phase_of s =
     (if \<not> ses_open s then Closed else if \<not> ses_authenticated s then Fresh
      else if ses_subscribed s then Subscribed else Trusted)"

section \<open>What sending leaves alone\<close>

definition flags :: "session \<Rightarrow> bool \<times> bool \<times> bool" where
  "flags s = (ses_authenticated s, ses_subscribed s, ses_open s)"

lemmas send_defs = send_error_def send_pair_result_def send_create_task_result_def
  send_task_action_result_def

lemma set_session_simps [simp]:
  "bst_session (set_session f b) = f (bst_session b)"
  "bst_sched (set_session f b) = bst_sched b"
  "bst_commands (set_session f b) = bst_commands b"
  by (simp_all add: set_session_def)

lemma flags_send_frame [simp]: "flags (send_frame v s) = flags s"
  by (simp add: flags_def send_frame_def)

lemma flags_send [simp]: "flags (bst_session (send e p b)) = flags (bst_session b)"
  by (simp add: send_def)

lemma flags_task_snapshot [simp]:
  "flags (bst_session (send_task_snapshot e b)) = flags (bst_session b)"
  by (simp add: send_task_snapshot_def Let_def split: option.split) (simp add: flags_def)

lemma flags_bst_sched [simp]: "bst_session (b\<lparr>bst_sched := x\<rparr>) = bst_session b"
  "bst_session (b\<lparr>bst_commands := y\<rparr>) = bst_session b"
  by simp_all

lemma flags_pair_request [simp]:
  "flags (bst_session (handle_pair_request e rid msg b)) = flags (bst_session b)"
  by (simp add: handle_pair_request_def send_pair_result_def Let_def split: option.split sum.split)

lemma flags_task_action [simp]:
  "flags (bst_session (handle_task_action e rid msg b)) = flags (bst_session b)"
  by (simp add: handle_task_action_def send_task_action_result_def sched_action_def
      start_command_def Let_def split: option.split)

lemma flags_create_task [simp]:
  "flags (bst_session (handle_create_task e rid msg b)) = flags (bst_session b)"
  by (simp add: handle_create_task_def send_create_task_result_def Let_def
      split: option.split sum.split json.split)

section \<open>The session refines the automaton\<close>

definition phase_of_flags :: "bool \<times> bool \<times> bool \<Rightarrow> phase" where
  "phase_of_flags f =
     (case f of (a, s, op) \<Rightarrow>
        if \<not> op then Closed else if \<not> a then Fresh else if s then Subscribed else Trusted)"

lemma phase_of_flags: "phase_of s = phase_of_flags (flags s)"
  by (simp add: phase_of_def phase_of_flags_def flags_def)

lemma flags_close [simp]:
  "flags (bst_session (close_conn b)) =
     (case flags (bst_session b) of (a, s, op) \<Rightarrow> (a, s, False))"
  by (simp add: close_conn_def flags_def)

lemma flags_subscribe [simp]:
  "flags (subscribe s) = (case flags s of (a, _, op) \<Rightarrow> (a, True, op))"
  by (simp add: subscribe_def flags_def)

lemma flags_authenticate [simp]:
  "flags (s\<lparr>ses_authenticated := True\<rparr>) = (case flags s of (_, sub, op) \<Rightarrow> (True, sub, op))"
  by (simp add: flags_def)

lemma flags_hello:
  "flags (bst_session (handle_hello e rid msg b)) =
     (case flags (bst_session b) of (a, sub, op) \<Rightarrow>
        if valid_hello e msg then (True, sub, op) else (a, sub, False))"
  by (simp add: handle_hello_def valid_hello_def send_error_def split: prod.split)

lemma flags_required:
  assumes "\<And>b. flags (bst_session (k b)) = g (flags (bst_session b))"
  shows "flags (bst_session (require_authenticated e rid k b)) =
     (case flags (bst_session b) of (a, sub, op) \<Rightarrow> if a then g (a, sub, op) else (a, sub, False))"
  by (simp add: require_authenticated_def assms send_error_def) (simp add: flags_def)

lemmas flags_required_same = flags_required[where g = "\<lambda>f. f"]
lemmas flags_required_subscribe = flags_required[where g = "\<lambda>(a, _, op). (a, True, op)"]

fun flags_step :: "bool \<times> bool \<times> bool \<Rightarrow> request \<Rightarrow> bool \<times> bool \<times> bool" where
  "flags_step (a, sub, op) Unprivileged = (a, sub, op)"
| "flags_step (a, sub, op) (Hello ok) = (if ok then (True, sub, op) else (a, sub, False))"
| "flags_step (a, sub, op) Subscribe = (if a then (a, True, op) else (a, sub, False))"
| "flags_step (a, sub, op) Privileged = (if a then (a, sub, op) else (a, sub, False))"

lemma flags_message:
  "flags (bst_session (handle_message e raw b)) = flags_step (flags (bst_session b)) (request_of e raw)"
proof -
  obtain a sub op where f: "flags (bst_session b) = (a, sub, op)" by (cases "flags (bst_session b)")
  show ?thesis
    by (simp add: handle_message_def request_of_def Let_def send_error_def flags_hello
        flags_required_same flags_required_subscribe f split: option.split)
qed

lemma flags_step_phase:
  assumes "sub \<longrightarrow> a"
  shows "phase_of_flags (flags_step (a, sub, True) r) = phase_step (phase_of_flags (a, sub, True)) r"
    and "fst (snd (flags_step (a, sub, op) r)) \<longrightarrow> fst (flags_step (a, sub, op) r)"
  using assms by (cases r; cases a; cases sub; simp add: phase_of_flags_def)+

lemma flags_tick [simp]: "flags (bst_session (push_tick e b)) = flags (bst_session b)"
  by (simp add: push_tick_def)

lemma session_run_simps [simp]:
  "session_run [] b = b" "session_run (ev # evs) b = session_run evs (session_step ev b)"
  by (simp_all add: session_run_def)

lemma phase_step_Closed [simp]: "foldl phase_step Closed rs = Closed"
  by (induction rs) simp_all

lemma session_run_phase:
  assumes "flags (bst_session b) = (a, sub, op)" and "sub \<longrightarrow> a"
  shows "phase_of (bst_session (session_run evs b)) =
    foldl phase_step (phase_of_flags (a, sub, op)) (requests evs)"
  using assms
proof (induction evs arbitrary: b a sub op)
  case (Cons ev evs)
  note f = Cons.prems(1) and sa = Cons.prems(2)
  show ?case
  proof (cases ev)
    case (Tick e)
    with Cons.IH[of "session_step ev b"] f sa show ?thesis by simp
  next
    case (Message e raw)
    show ?thesis
    proof (cases op)
      case True
      obtain a' sub' op' where g: "flags_step (a, sub, True) (request_of e raw) = (a', sub', op')"
        by (cases "flags_step (a, sub, True) (request_of e raw)")
      have "flags (bst_session (session_step ev b)) = (a', sub', op')"
        using f True flags_message[of e raw b] g by (simp add: Message flags_def)
      moreover have "sub' \<longrightarrow> a'" using flags_step_phase(2)[OF sa, of True "request_of e raw"] g by simp
      ultimately show ?thesis
        using Cons.IH flags_step_phase(1)[OF sa, of "request_of e raw"] g True by (simp add: Message)
    next
      case False
      then have "phase_of_flags (a, sub, op) = Closed" "session_step ev b = b"
        using f by (auto simp: flags_def phase_of_flags_def Message)
      with Cons.IH[OF f sa] show ?thesis by (simp add: Message del: session_step.simps)
    qed
  qed
qed (simp add: phase_of_flags)

definition opened :: "sched option \<Rightarrow> bridge_state" where
  "opened so = \<lparr>bst_session = new_session, bst_sched = so, bst_commands = []\<rparr>"

text \<open>
  C6: whatever messages arrive and whenever the ticker fires, a session is in the phase to which
  the automaton Fresh, Trusted, Subscribed, Closed goes on the kinds of the messages: only a hello
  with the protocol version and the token leaves Fresh other than to Closed, nothing leaves
  Closed, and the ticker and the tasks never change the phase.
\<close>

theorem session_refines_automaton:
  "phase_of (bst_session (session_run evs (opened so))) = foldl phase_step Fresh (requests evs)"
  using session_run_phase[of "opened so" False False True evs]
  by (simp add: opened_def new_session_def flags_def phase_of_flags_def)

section \<open>What a session sends\<close>

definition adds :: "(json \<Rightarrow> bool) \<Rightarrow> bridge_state \<Rightarrow> bridge_state \<Rightarrow> bool" where
  "adds P b b' \<longleftrightarrow>
     (\<exists>vs. ses_sent (bst_session b') = ses_sent (bst_session b) @ vs \<and> (\<forall>v\<in>set vs. P v))"

lemma adds_refl [simp]: "adds P b b"
  by (simp add: adds_def)

lemma adds_trans: "adds P b b' \<Longrightarrow> adds P b' b'' \<Longrightarrow> adds P b b''"
  by (auto simp: adds_def)

lemma adds_mono: "adds P b b' \<Longrightarrow> (\<And>v. P v \<Longrightarrow> Q v) \<Longrightarrow> adds Q b b'"
  by (auto simp: adds_def)

lemma adds_same: "ses_sent (bst_session b1) = ses_sent (bst_session b) \<Longrightarrow> adds P b1 b' = adds P b b'"
  by (simp add: adds_def)

lemma adds_send: "P (JObj p) \<Longrightarrow> adds P b (send e p b)"
  by (simp add: adds_def send_def send_frame_def)

lemma adds_close [simp]: "adds P b (close_conn b') = adds P b b'"
  by (simp add: adds_def close_conn_def)

lemma adds_snapshot: "P (JObj (task_snapshot_payload e (bst_sched b))) \<Longrightarrow> adds P b (send_task_snapshot e b)"
  by (simp add: adds_def send_task_snapshot_def send_frame_def Let_def split: option.split)

lemma obj_get_opt_member:
  "obj_get (opt_member k v) k' = (if k' = k \<and> v \<noteq> [] then Some (JStr v) else None)"
  by (simp add: opt_member_def obj_get_Cons)

lemmas obj_simps = obj_get_append obj_get_Cons obj_get_opt_member

lemma send_effects [simp]:
  "bst_sched (send e p b) = bst_sched b" "bst_commands (send e p b) = bst_commands b"
  "bst_sched (close_conn b) = bst_sched b" "bst_commands (close_conn b) = bst_commands b"
  by (simp_all add: send_def close_conn_def)

lemma result_effects [simp]:
  "bst_sched (send_error e rid code msg b) = bst_sched b"
  "bst_commands (send_error e rid code msg b) = bst_commands b"
  "bst_sched (send_pair_result e rid ok tok msg b) = bst_sched b"
  "bst_commands (send_pair_result e rid ok tok msg b) = bst_commands b"
  by (simp_all add: send_defs)

definition harmless :: "json \<Rightarrow> bool" where
  "harmless v \<longleftrightarrow>
     (\<exists>kvs. v = JObj kvs \<and> string_value kvs ''type'' \<in> {''error'', ''pair_result''})"

lemma adds_error: "adds harmless b (send_error e rid code msg b)"
  unfolding send_error_def
  by (rule adds_send) (simp add: harmless_def string_value_def obj_simps)

lemma adds_pair_result: "adds harmless b (send_pair_result e rid ok tok msg b)"
  unfolding send_pair_result_def
  by (rule adds_send) (simp add: harmless_def string_value_def obj_simps)

definition untouched :: "bridge_state \<Rightarrow> bridge_state \<Rightarrow> bool" where
  "untouched b b' \<longleftrightarrow>
     bst_sched b' = bst_sched b \<and> bst_commands b' = bst_commands b \<and> adds harmless b b' \<and>
     \<not> ses_authenticated (bst_session b')"

lemma untouched_trans: "untouched b b' \<Longrightarrow> untouched b' b'' \<Longrightarrow> untouched b b''"
  by (auto simp: untouched_def intro: adds_trans)

lemma pair_request_untouched:
  "adds harmless b (handle_pair_request e rid msg b)"
  "bst_sched (handle_pair_request e rid msg b) = bst_sched b"
  "bst_commands (handle_pair_request e rid msg b) = bst_commands b"
  by (simp_all add: handle_pair_request_def adds_pair_result Let_def split: option.split sum.split)

lemma authenticated_flags: "ses_authenticated s = fst (flags s)"
  by (simp add: flags_def)

lemma untrusted_message:
  assumes a: "\<not> ses_authenticated (bst_session b)" and r: "request_of e raw \<noteq> Hello True"
  shows "untouched b (handle_message e raw b)"
proof -
  have "\<not> ses_authenticated (bst_session (handle_message e raw b))"
    using a r unfolding authenticated_flags flags_message
    by (cases "flags (bst_session b)"; cases "request_of e raw") (simp_all split: if_splits)
  moreover have "adds harmless b (handle_message e raw b) \<and>
      bst_sched (handle_message e raw b) = bst_sched b \<and>
      bst_commands (handle_message e raw b) = bst_commands b"
    using r a by (auto simp: handle_message_def request_of_def require_authenticated_def Let_def
        adds_error pair_request_untouched handle_hello_def valid_hello_def split: option.split)
  ultimately show ?thesis by (simp add: untouched_def)
qed

lemma untrusted_step:
  assumes "\<not> ses_authenticated (bst_session b)" and "Hello True \<notin> set (requests [ev])"
  shows "untouched b (session_step ev b)"
  using assms untrusted_message
  by (cases ev) (auto simp: push_tick_def should_push_snapshots_def untouched_def)

lemma untrusted_run:
  assumes "\<not> ses_authenticated (bst_session b)" and "Hello True \<notin> set (requests evs)"
  shows "untouched b (session_run evs b)"
  using assms
proof (induction evs arbitrary: b)
  case (Cons ev evs)
  have split: "requests (ev # evs) = requests [ev] @ requests evs" by (cases ev) simp_all
  have step: "untouched b (session_step ev b)"
    using untrusted_step Cons.prems by (simp only: split) simp
  then have "\<not> ses_authenticated (bst_session (session_step ev b))" by (simp add: untouched_def)
  with Cons.IH Cons.prems(2) step show ?case by (simp only: split) (auto intro: untouched_trans)
qed (simp add: untouched_def)

lemma opened_simps [simp]:
  "bst_session (opened so) = new_session" "bst_sched (opened so) = so" "bst_commands (opened so) = []"
  "ses_sent new_session = []" "\<not> ses_authenticated new_session"
  by (simp_all add: opened_def new_session_def)

text \<open>
  C7: a connection that never presents the pairing token in a hello of the right version leaves
  the scheduler as it was, starts no program, and is sent only errors and pairing results, never a
  task, whatever else it sends and however often the ticker fires.
\<close>

theorem untrusted_session_harmless:
  assumes "Hello True \<notin> set (requests evs)"
  shows "bst_sched (session_run evs (opened so)) = so \<and> bst_commands (session_run evs (opened so)) = [] \<and>
    (\<forall>v\<in>set (ses_sent (bst_session (session_run evs (opened so)))). harmless v)"
  using untrusted_run[of "opened so" evs] assms by (auto simp: untouched_def adds_def)

section \<open>Who is told the token\<close>

definition tokens_ok :: "(json \<Rightarrow> bool) \<Rightarrow> json \<Rightarrow> bool" where
  "tokens_ok A v \<longleftrightarrow> (\<forall>kvs x. v = JObj kvs \<longrightarrow> obj_get kvs ''token'' = Some x \<longrightarrow> A x)"

text \<open>The token, on a pairing request of the right version that the user approved.\<close>

definition approved_token :: "bridge_env \<Rightarrow> string \<Rightarrow> json \<Rightarrow> bool" where
  "approved_token e raw x \<longleftrightarrow>
     x = JStr (env_token e) \<and>
     (\<exists>msg f. decode_object (env_json e) raw = Some msg \<and>
        string_value msg ''type'' = ''pair_request'' \<and>
        int_value msg ''protocolVersion'' = protocol_version \<and>
        env_pair_approval e = Some f \<and> f (pair_request_of e msg) = Inr True)"

lemma token_error [simp]: "adds (tokens_ok A) b (send_error e rid code msg b)"
  unfolding send_error_def by (rule adds_send) (simp add: tokens_ok_def obj_simps)

lemma token_create [simp]: "adds (tokens_ok A) b (send_create_task_result e rid ok tid msg b)"
  unfolding send_create_task_result_def
  by (rule adds_send) (simp add: tokens_ok_def obj_simps)

lemma token_action [simp]: "adds (tokens_ok A) b (send_task_action_result e rid ok msg b)"
  unfolding send_task_action_result_def
  by (rule adds_send) (simp add: tokens_ok_def obj_simps)

lemma token_pair:
  "tok = [] \<or> A (JStr tok) \<Longrightarrow>
   adds (tokens_ok A) b (send_pair_result e rid ok tok msg b)"
  unfolding send_pair_result_def
  by (rule adds_send) (auto simp: tokens_ok_def obj_simps)

lemma token_snapshot [simp]: "adds (tokens_ok A) b (send_task_snapshot e b)"
  by (rule adds_snapshot) (simp add: tokens_ok_def task_snapshot_payload_def Let_def obj_simps)

lemma token_pair_request:
  assumes "decode_object (env_json e) raw = Some msg" and "string_value msg ''type'' = ''pair_request''"
  shows "adds (tokens_ok (approved_token e raw)) b (handle_pair_request e rid msg b)"
  using assms
  by (auto simp: handle_pair_request_def Let_def approved_token_def intro!: token_pair
      split: option.split sum.split)

lemma token_hello: "adds (tokens_ok A) b (handle_hello e rid msg b)"
proof -
  have "adds (tokens_ok A) b (send e hello_ack (set_session (\<lambda>s. s\<lparr>ses_authenticated := True\<rparr>) b))"
    by (subst adds_same[symmetric, of "set_session (\<lambda>s. s\<lparr>ses_authenticated := True\<rparr>) b"], simp)
      (rule adds_send, simp add: tokens_ok_def hello_ack_def obj_simps)
  then show ?thesis by (simp add: handle_hello_def)
qed

lemma token_task_action: "adds (tokens_ok A) b (handle_task_action e rid msg b)"
proof -
  have "adds (tokens_ok A) b (send_task_action_result e rid ok m (b\<lparr>bst_sched := x\<rparr>))"
    "adds (tokens_ok A) b (send_task_action_result e rid ok m (b\<lparr>bst_commands := y\<rparr>))" for ok m x y
    using token_action by (metis adds_same flags_bst_sched)+
  then show ?thesis
    by (simp add: handle_task_action_def sched_action_def start_command_def Let_def split: option.split)
qed

lemma token_create_task: "adds (tokens_ok A) b (handle_create_task e rid msg b)"
proof -
  have "adds (tokens_ok A) b
      (send_task_snapshot e (send_create_task_result e rid ok tid m (b\<lparr>bst_sched := x\<rparr>)))" for ok tid m x
    using token_snapshot token_create by (metis adds_same adds_trans flags_bst_sched(1))
  then show ?thesis
    by (simp add: handle_create_task_def Let_def split: option.split sum.split json.split)
qed

lemma token_message: "adds (tokens_ok (approved_token e raw)) b (handle_message e raw b)"
proof -
  have "adds (tokens_ok A) b (send_task_snapshot e (set_session subscribe b))" for A
    by (subst adds_same[of "set_session subscribe b", symmetric]) (simp_all add: subscribe_def)
  then show ?thesis
    by (simp add: handle_message_def require_authenticated_def Let_def token_pair_request
        token_hello token_task_action token_create_task split: option.split)
qed

lemma tokens_mono:
  "adds (tokens_ok A) b b' \<Longrightarrow> (\<And>x. A x \<Longrightarrow> B x) \<Longrightarrow> adds (tokens_ok B) b b'"
  by (erule adds_mono) (simp add: tokens_ok_def)

lemma token_run:
  "adds (tokens_ok (\<lambda>x. \<exists>e raw. Message e raw \<in> set evs \<and> approved_token e raw x)) b
    (session_run evs b)"
proof (induction evs arbitrary: b)
  case (Cons ev evs)
  let ?A = "\<lambda>evs x. \<exists>e raw. Message e raw \<in> set evs \<and> approved_token e raw x"
  have "adds (tokens_ok (?A (ev # evs))) b (session_step ev b)"
  proof (cases ev)
    case (Message e raw)
    have "adds (tokens_ok (?A (ev # evs))) b (handle_message e raw b)"
      by (rule tokens_mono[OF token_message]) (auto simp: Message)
    then show ?thesis by (simp add: Message)
  qed (simp add: push_tick_def)
  moreover have "adds (tokens_ok (?A (ev # evs))) (session_step ev b) (session_run evs (session_step ev b))"
    using Cons.IH[of "session_step ev b"] by (rule tokens_mono) auto
  ultimately show ?case by (simp only: session_run_simps adds_trans)
qed simp

text \<open>
  C8: a frame that carries a token carries the bridge's token, and was sent because some message
  of the session was a pairing request of the right version that the user's approval accepted.
\<close>

theorem token_only_after_approval:
  assumes "JObj kvs \<in> set (ses_sent (bst_session (session_run evs (opened so))))"
    and "obj_get kvs ''token'' = Some x"
  shows "\<exists>e raw. Message e raw \<in> set evs \<and> approved_token e raw x"
  using token_run[of evs "opened so"] assms by (auto simp: adds_def tokens_ok_def)

section \<open>A sample environment\<close>

text \<open>The texts \<open>''pair''\<close>, \<open>''hello''\<close>, \<open>''badhello''\<close> and \<open>''cancel''\<close> stand for four messages.\<close>

definition sample_json :: jsonlib where
  "sample_json =
     \<lparr>jl_unmarshal = map_of
       [(''pair'', JObj [(''type'', JStr ''pair_request''), (''requestId'', JStr ''r1''),
          (''protocolVersion'', JNum 1)]),
        (''hello'', JObj [(''type'', JStr ''hello''), (''protocolVersion'', JNum 1),
          (''token'', JStr ''secret'')]),
        (''badhello'', JObj [(''type'', JStr ''hello''), (''protocolVersion'', JNum 1),
          (''token'', JStr ''guess'')]),
        (''cancel'', JObj [(''type'', JStr ''task_action''), (''requestId'', JStr ''r2''),
          (''taskId'', JStr ''t''), (''action'', JStr ''cancel'')])],
      jl_marshal = (\<lambda>v. case v of JObj kvs \<Rightarrow> Some (string_value kvs ''type'') | _ \<Rightarrow> None)\<rparr>"

definition sample_env :: bridge_env where
  "sample_env =
     \<lparr>env_json = sample_json, env_unicode = ascii_tables,
      env_fs = \<lparr>fs_nodes = (\<lambda>_. None), fs_cwd = ''C:'' @ [backslash], fs_faults = (\<lambda>_. None)\<rparr>,
      env_stat = (\<lambda>_. False), env_token = ''secret'', env_pair_approval = Some (\<lambda>_. Inr True),
      env_create_task = None, env_redownload = (\<lambda>_ s. (None, s)), env_start = (\<lambda>_. None),
      env_remote_addr = ''127.0.0.1:9''\<rparr>"

theorem untrusted_session_harmless_witness:
  "map (\<lambda>v. case v of JObj kvs \<Rightarrow> string_value kvs ''type'' | _ \<Rightarrow> []) (ses_sent (bst_session
     (session_run [Message sample_env ''badhello'', Message sample_env ''cancel'', Tick sample_env]
       (opened (Some (new_scheduler [] False 1)))))) = [''error''] \<and>
   bst_sched (session_run [Message sample_env ''badhello'', Message sample_env ''cancel'', Tick sample_env]
     (opened (Some (new_scheduler [] False 1)))) = Some (new_scheduler [] False 1)"
proof
  have "Hello True \<notin> set (requests [Message sample_env ''badhello'', Message sample_env ''cancel'',
      Tick sample_env])" by code_simp
  from untrusted_session_harmless[OF this]
  show "bst_sched (session_run [Message sample_env ''badhello'', Message sample_env ''cancel'',
      Tick sample_env] (opened (Some (new_scheduler [] False 1)))) = Some (new_scheduler [] False 1)"
    by blast
qed code_simp

theorem token_only_after_approval_witness:
  "\<exists>e raw. Message e raw \<in> set [Message sample_env ''pair''] \<and> approved_token e raw (JStr ''secret'')"
  by (rule token_only_after_approval[of "[(''type'', JStr ''pair_result''), (''requestId'', JStr ''r1''),
      (''ok'', JBool True), (''token'', JStr ''secret''), (''message'', JStr ''pairing approved'')]"
      _ None]) code_simp+

section \<open>Snapshots\<close>

text \<open>Sending the snapshot again sends nothing while the tasks and the files stay as they are.\<close>

lemma send_task_snapshot_twice:
  "send_task_snapshot e (send_task_snapshot e b) = send_task_snapshot e b"
  by (simp add: send_task_snapshot_def send_frame_def set_session_def Let_def split: option.split)

text \<open>
  The file that \<open>open_file\<close> opens is the task's output unless it is an FTP directory whose output
  was renamed.
\<close>

lemma snapshot_file_output:
  "snapshot_file (snapshot_of t) = snp_output_path (snapshot_of t) \<longleftrightarrow>
     is_ftp_directory t \<longrightarrow> map_get (stg_state (tsk_stage t)) ftp_directory_output_name_key \<noteq> [] \<longrightarrow>
       fp_join [tsk_path t, map_get (stg_state (tsk_stage t)) ftp_directory_output_name_key] =
         fp_join [tsk_path t, tsk_title t]"
  by (auto simp: snapshot_file_def snapshot_of_def output_file_def Let_def)

end
