(* ===== verification/BridgeServer.thy ===== *)
theory BridgeServer
  imports BridgeProps Settings
begin

text \<open>
  The life of the bridge's server, \<open>internal/browserbridge/bridge.go\<close>: applying settings, starting,
  stopping, and the registration of the sessions. A connection is a number; \<open>brg_open\<close> are the
  connections that nobody closed. The results of \<open>net.Listen\<close> (the address) and of
  \<open>Server.Shutdown\<close> are arguments.
\<close>

section \<open>State and operations\<close>

record bridge_settings =
  bse_enabled :: bool
  bse_token :: string
  bse_port :: int

record bridge =
  brg_settings :: bridge_settings
  brg_server :: "string option"
  brg_sessions :: "nat list"
  brg_open :: "nat list"

definition new_bridge :: bridge where
  "new_bridge =
     \<lparr>brg_settings = \<lparr>bse_enabled = False, bse_token = [], bse_port = 0\<rparr>, brg_server = None,
      brg_sessions = [], brg_open = []\<rparr>"

definition settings_from_config :: "settings \<Rightarrow> bridge_settings" where
  "settings_from_config s =
     \<lparr>bse_enabled = cfg_browser_extension_enabled s, bse_token = cfg_browser_pair_token s,
      bse_port = cfg_browser_bridge_port s\<rparr>"

definition normalized_settings :: "bridge_settings \<Rightarrow> bridge_settings" where
  "normalized_settings s =
     (if bse_port s < 0 then s\<lparr>bse_port := default_browser_bridge_port\<rparr> else s)"

definition start_commit :: "bridge_settings \<Rightarrow> string \<Rightarrow> bridge \<Rightarrow> goerr option \<times> bridge" where
  "start_commit s addr b =
     (if brg_server b \<noteq> None then (Some (new_error ''browser bridge already running''), b)
      else (None, b\<lparr>brg_settings := s, brg_server := Some addr\<rparr>))"

definition start_bridge ::
  "(int \<Rightarrow> string result) \<Rightarrow> bridge_settings \<Rightarrow> bridge \<Rightarrow> goerr option \<times> bridge" where
  "start_bridge listen settings b =
     (let s = normalized_settings settings in
      if \<not> bse_enabled s then (None, b)
      else if bse_token s = [] then (Some (new_error ''browser bridge token is empty''), b)
      else case listen (bse_port s) of
        Inl e \<Rightarrow> (Some e, b)
      | Inr addr \<Rightarrow> start_commit s addr b)"

definition stop_bridge :: "goerr option \<Rightarrow> bridge \<Rightarrow> goerr option \<times> bridge" where
  "stop_bridge shutdown b =
     (let b' = b\<lparr>brg_server := None, brg_sessions := [],
                brg_open := filter (\<lambda>c. c \<notin> set (brg_sessions b)) (brg_open b)\<rparr> in
      (if brg_server b = None then None else shutdown, b'))"

definition apply_settings ::
  "(int \<Rightarrow> string result) \<Rightarrow> goerr option \<Rightarrow> bridge_settings \<Rightarrow> bridge \<Rightarrow> goerr option \<times> bridge" where
  "apply_settings listen shutdown settings b =
     (let s = normalized_settings settings in
      if brg_server b \<noteq> None \<and> brg_settings b = s then (None, b)
      else case stop_bridge shutdown b of
        (Some e, b') \<Rightarrow> (Some e, b')
      | (None, b') \<Rightarrow>
          if \<not> bse_enabled s then (None, b'\<lparr>brg_settings := s\<rparr>) else start_bridge listen s b')"

definition bridge_addr :: "bridge \<Rightarrow> string" where
  "bridge_addr b = (case brg_server b of None \<Rightarrow> [] | Some addr \<Rightarrow> addr)"

text \<open>The beginning and the end of \<open>handleWebSocket\<close>.\<close>

definition session_begin :: "nat \<Rightarrow> bridge \<Rightarrow> bridge" where
  "session_begin c b = b\<lparr>brg_sessions := List.insert c (brg_sessions b), brg_open := List.insert c (brg_open b)\<rparr>"

definition session_end :: "nat \<Rightarrow> bridge \<Rightarrow> bridge" where
  "session_end c b = b\<lparr>brg_sessions := removeAll c (brg_sessions b), brg_open := removeAll c (brg_open b)\<rparr>"

section \<open>The server's states\<close>

datatype bridge_op =
  Apply "int \<Rightarrow> string result" "goerr option" bridge_settings
| Stop "goerr option"
| Connect nat
| Disconnect nat

fun bridge_step :: "bridge_op \<Rightarrow> bridge \<Rightarrow> bridge" where
  "bridge_step (Apply listen shutdown s) b = snd (apply_settings listen shutdown s b)"
| "bridge_step (Stop shutdown) b = snd (stop_bridge shutdown b)"
| "bridge_step (Connect c) b = session_begin c b"
| "bridge_step (Disconnect c) b = session_end c b"

definition bridge_inv :: "bridge \<Rightarrow> bool" where
  "bridge_inv b \<longleftrightarrow>
     (brg_server b \<noteq> None \<longrightarrow> bse_enabled (brg_settings b) \<and> bse_token (brg_settings b) \<noteq> [] \<and>
        0 \<le> bse_port (brg_settings b)) \<and>
     set (brg_open b) = set (brg_sessions b)"

lemma normalized_settings_simps [simp]:
  "bse_enabled (normalized_settings s) = bse_enabled s"
  "bse_token (normalized_settings s) = bse_token s"
  "normalized_settings (normalized_settings s) = normalized_settings s"
  "0 \<le> bse_port (normalized_settings s)"
  by (simp_all add: normalized_settings_def default_browser_bridge_port_def)

lemma stop_bridge_simps [simp]:
  "brg_server (snd (stop_bridge x b)) = None" "brg_sessions (snd (stop_bridge x b)) = []"
  "brg_settings (snd (stop_bridge x b)) = brg_settings b"
  "set (brg_open (snd (stop_bridge x b))) = set (brg_open b) - set (brg_sessions b)"
  by (auto simp: stop_bridge_def Let_def)

text \<open>After an apply that was needed: what an error and a success leave.\<close>

lemma apply_settings_result:
  assumes "brg_server b = None \<or> brg_settings b \<noteq> normalized_settings s"
    and "apply_settings listen shutdown s b = (err, b')"
  shows "brg_sessions b' = [] \<and> set (brg_open b') = set (brg_open b) - set (brg_sessions b) \<and>
    (case err of
       None \<Rightarrow> brg_settings b' = normalized_settings s \<and> (brg_server b' \<noteq> None \<longleftrightarrow> bse_enabled s) \<and>
         (bse_enabled s \<longrightarrow> bse_token s \<noteq> [] \<and> listen (bse_port (normalized_settings s)) = Inr (bridge_addr b'))
     | Some e \<Rightarrow> brg_server b' = None \<and> brg_settings b' = brg_settings b)"
proof -
  define b1 where "b1 = snd (stop_bridge shutdown b)"
  have s1: "brg_server b1 = None" "brg_sessions b1 = []" "brg_settings b1 = brg_settings b"
    "set (brg_open b1) = set (brg_open b) - set (brg_sessions b)"
    unfolding b1_def by simp_all
  have a: "apply_settings listen shutdown s b =
      (case fst (stop_bridge shutdown b) of
         Some e \<Rightarrow> (Some e, b1)
       | None \<Rightarrow> if \<not> bse_enabled s then (None, b1\<lparr>brg_settings := normalized_settings s\<rparr>)
           else start_bridge listen (normalized_settings s) b1)"
    using assms(1) by (auto simp: apply_settings_def b1_def Let_def split: prod.split option.split)
  have st: "start_bridge listen (normalized_settings s) b1 =
      (if bse_token s = [] then (Some (new_error ''browser bridge token is empty''), b1)
       else case listen (bse_port (normalized_settings s)) of
         Inl e \<Rightarrow> (Some e, b1)
       | Inr addr \<Rightarrow> (None, b1\<lparr>brg_settings := normalized_settings s, brg_server := Some addr\<rparr>))"
    if "bse_enabled s"
    using that by (simp add: start_bridge_def start_commit_def Let_def s1(1) split: sum.split)
  have r: "(err, b') = apply_settings listen shutdown s b" using assms(2) by simp
  show ?thesis
  proof (cases "fst (stop_bridge shutdown b)")
    case (Some e)
    with r a have "err = Some e" "b' = b1" by simp_all
    with s1 show ?thesis by simp
  next
    case None
    show ?thesis
    proof (cases "bse_enabled s")
      case True
      with r a None show ?thesis unfolding st[OF True]
        by (cases "bse_token s = []"; cases "listen (bse_port (normalized_settings s))")
          (simp_all add: s1 bridge_addr_def)
    next
      case False
      with r a None have "err = None" "b' = b1\<lparr>brg_settings := normalized_settings s\<rparr>" by simp_all
      with s1 False show ?thesis by simp
    qed
  qed
qed

lemma apply_settings_same:
  "brg_server b \<noteq> None \<Longrightarrow> brg_settings b = normalized_settings s \<Longrightarrow>
   apply_settings listen shutdown s b = (None, b)"
  by (simp add: apply_settings_def)

lemma bridge_step_inv: "bridge_inv b \<Longrightarrow> bridge_inv (bridge_step op b)"
proof (cases op)
  case (Apply listen shutdown s)
  assume b: "bridge_inv b"
  obtain err b' where r: "apply_settings listen shutdown s b = (err, b')"
    by (cases "apply_settings listen shutdown s b")
  show ?thesis
  proof (cases "brg_server b = None \<or> brg_settings b \<noteq> normalized_settings s")
    case True
    from apply_settings_result[OF True r] show ?thesis
      using b r by (cases err) (auto simp: bridge_inv_def Apply)
  next
    case False
    then show ?thesis using b apply_settings_same by (simp add: Apply)
  qed
qed (auto simp: bridge_inv_def session_begin_def session_end_def)

lemma bridge_run_inv: "bridge_inv (fold bridge_step ops new_bridge)"
proof -
  have "bridge_inv b \<Longrightarrow> bridge_inv (fold bridge_step ops b)" for b
    by (induction ops arbitrary: b) (simp_all add: bridge_step_inv)
  then show ?thesis by (simp add: bridge_inv_def new_bridge_def)
qed

lemma tokenless_hello: "env_token e \<noteq> [] \<Longrightarrow> obj_get msg ''token'' = None \<Longrightarrow> \<not> valid_hello e msg"
  by (simp add: valid_hello_def string_value_def)

text \<open>
  Whatever settings are applied and whatever connections come and go, a running server is
  enabled and has a token that is not empty, so that a hello without a token is never valid, and
  applying settings succeeds with exactly those settings in force or leaves no server running; when
  anything changed, every connection that was open is closed.
\<close>

theorem bridge_serves_applied:
  assumes "b = fold bridge_step ops new_bridge" and "apply_settings listen shutdown s b = (err, b')"
  shows "(err = None \<longrightarrow> (brg_server b' \<noteq> None \<longleftrightarrow> bse_enabled s) \<and> brg_settings b' = normalized_settings s) \<and>
    (err \<noteq> None \<longrightarrow> brg_server b' = None) \<and>
    (brg_server b' \<noteq> None \<longrightarrow> bse_token (brg_settings b') \<noteq> [] \<and>
       (\<forall>e msg. env_token e = bse_token (brg_settings b') \<longrightarrow> obj_get msg ''token'' = None \<longrightarrow>
          \<not> valid_hello e msg)) \<and>
    (b' = b \<or> brg_open b' = [])"
proof -
  have b: "bridge_inv b" unfolding assms(1) by (rule bridge_run_inv)
  then have b': "bridge_inv b'" using bridge_step_inv[of b "Apply listen shutdown s"] assms(2) by simp
  show ?thesis
  proof (cases "brg_server b = None \<or> brg_settings b \<noteq> normalized_settings s")
    case True
    from apply_settings_result[OF True assms(2)] show ?thesis
      using b b' tokenless_hello by (cases err) (simp_all add: bridge_inv_def)
  next
    case False
    then have "apply_settings listen shutdown s b = (None, b)" using apply_settings_same by simp
    with assms(2) have "err = None" "b' = b" by simp_all
    moreover have "bse_enabled (brg_settings b) = bse_enabled s" using False by simp
    ultimately show ?thesis
      using False b tokenless_hello by (simp add: bridge_inv_def)
  qed
qed

definition sample_bridge_settings :: bridge_settings where
  "sample_bridge_settings = \<lparr>bse_enabled = True, bse_token = ''secret'', bse_port = - 1\<rparr>"

theorem bridge_serves_applied_witness:
  "\<exists>b'. apply_settings (\<lambda>p. if p = 14370 then Inr ''a'' else Inl not_exist) None sample_bridge_settings
      (fold bridge_step [Connect 1] new_bridge) = (None, b') \<and>
     bridge_addr b' = ''a'' \<and> brg_server b' \<noteq> None \<and> bse_token (brg_settings b') \<noteq> [] \<and> brg_open b' = []"
proof -
  let ?b = "fold bridge_step [Connect 1] new_bridge"
  let ?r = "apply_settings (\<lambda>p. if p = 14370 then Inr ''a'' else Inl not_exist) None sample_bridge_settings ?b"
  have r: "?r = (None, snd ?r)" "brg_server (snd ?r) = Some ''a''" "brg_open (snd ?r) \<noteq> brg_open ?b"
    by (simp_all add: apply_settings_def stop_bridge_def start_bridge_def start_commit_def Let_def
        normalized_settings_def new_bridge_def session_begin_def sample_bridge_settings_def
        default_browser_bridge_port_def)
  from bridge_serves_applied[OF refl r(1)] r show ?thesis
    by (intro exI[of _ "snd ?r"] conjI) (metis option.distinct(1), simp add: bridge_addr_def, simp, metis option.distinct(1), metis)
qed

end
