(* ===== verification/FtpText.thy ===== *)
theory FtpText
  imports GoUtf8
begin

text \<open>
  The texts of the errors and of the progress of \<open>internal/download/ftp/ftp.go\<close>, which are
  Chinese, in their UTF-8 bytes.
\<close>

definition tx_read_size :: string where
  "tx_read_size =
     [CHR 0xE8, CHR 0xAF, CHR 0xBB, CHR 0xE5, CHR 0x8F, CHR 0x96] @ '' FTP '' @ [CHR 0xE6,
       CHR 0x96, CHR 0x87, CHR 0xE4, CHR 0xBB, CHR 0xB6, CHR 0xE5, CHR 0xA4, CHR 0xA7,
       CHR 0xE5, CHR 0xB0, CHR 0x8F, CHR 0xEF, CHR 0xBC, CHR 0x9A]"

definition tx_no_name :: string where
  "tx_no_name =
     ''FTP '' @ [CHR 0xE5, CHR 0x9C, CHR 0xB0, CHR 0xE5, CHR 0x9D, CHR 0x80, CHR 0xE7,
       CHR 0xBC, CHR 0xBA, CHR 0xE5, CHR 0xB0, CHR 0x91, CHR 0xE6, CHR 0x96, CHR 0x87,
       CHR 0xE4, CHR 0xBB, CHR 0xB6, CHR 0xE5, CHR 0x90, CHR 0x8D]"

definition tx_read_dir :: string where
  "tx_read_dir =
     [CHR 0xE8, CHR 0xAF, CHR 0xBB, CHR 0xE5, CHR 0x8F, CHR 0x96] @ '' FTP '' @ [CHR 0xE7,
       CHR 0x9B, CHR 0xAE, CHR 0xE5, CHR 0xBD, CHR 0x95, CHR 0xEF, CHR 0xBC, CHR 0x9A]"

definition tx_save_list :: string where
  "tx_save_list =
     [CHR 0xE4, CHR 0xBF, CHR 0x9D, CHR 0xE5, CHR 0xAD, CHR 0x98] @ '' FTP '' @ [CHR 0xE7,
       CHR 0x9B, CHR 0xAE, CHR 0xE5, CHR 0xBD, CHR 0x95, CHR 0xE6, CHR 0xB8, CHR 0x85,
       CHR 0xE5, CHR 0x8D, CHR 0x95, CHR 0xEF, CHR 0xBC, CHR 0x9A]"

definition tx_outside :: string where
  "tx_outside =
     [CHR 0xE7, CHR 0x9B, CHR 0xAE, CHR 0xE5, CHR 0xBD, CHR 0x95, CHR 0xE9, CHR 0xA1, CHR 0xB9,
       CHR 0xE8, CHR 0xB6, CHR 0x85, CHR 0xE5, CHR 0x87, CHR 0xBA, CHR 0xE6, CHR 0xA0,
       CHR 0xB9, CHR 0xE7, CHR 0x9B, CHR 0xAE, CHR 0xE5, CHR 0xBD, CHR 0x95, CHR 0xEF,
       CHR 0xBC, CHR 0x9A]"

definition tx_no_relative :: string where
  "tx_no_relative =
     ''FTP '' @ [CHR 0xE7, CHR 0x9B, CHR 0xAE, CHR 0xE5, CHR 0xBD, CHR 0x95, CHR 0xE9,
       CHR 0xA1, CHR 0xB9, CHR 0xE7, CHR 0xBC, CHR 0xBA, CHR 0xE5, CHR 0xB0, CHR 0x91,
       CHR 0xE7, CHR 0x9B, CHR 0xB8, CHR 0xE5, CHR 0xAF, CHR 0xB9, CHR 0xE8, CHR 0xB7,
       CHR 0xAF, CHR 0xE5, CHR 0xBE, CHR 0x84, CHR 0xEF, CHR 0xBC, CHR 0x9A]"

definition tx_file :: string where
  "tx_file =
     ''FTP '' @ [CHR 0xE6, CHR 0x96, CHR 0x87, CHR 0xE4, CHR 0xBB, CHR 0xB6] @ '' ''"

definition tx_colon :: string where "tx_colon = [CHR 0xEF, CHR 0xBC, CHR 0x9A]"

definition tx_total_range :: string where
  "tx_total_range =
     ''FTP '' @ [CHR 0xE7, CHR 0x9B, CHR 0xAE, CHR 0xE5, CHR 0xBD, CHR 0x95, CHR 0xE6,
       CHR 0x80, CHR 0xBB, CHR 0xE5, CHR 0xA4, CHR 0xA7, CHR 0xE5, CHR 0xB0, CHR 0x8F,
       CHR 0xE8, CHR 0xB6, CHR 0x85, CHR 0xE5, CHR 0x87, CHR 0xBA, CHR 0xE6, CHR 0x94,
       CHR 0xAF, CHR 0xE6, CHR 0x8C, CHR 0x81, CHR 0xE8, CHR 0x8C, CHR 0x83, CHR 0xE5,
       CHR 0x9B, CHR 0xB4]"

definition tx_too_many :: string where
  "tx_too_many =
     ''FTP '' @ [CHR 0xE7, CHR 0x9B, CHR 0xAE, CHR 0xE5, CHR 0xBD, CHR 0x95, CHR 0xE9,
       CHR 0xA1, CHR 0xB9, CHR 0xE8, CHR 0xB6, CHR 0x85, CHR 0xE8, CHR 0xBF, CHR 0x87,
       CHR 0xE4, CHR 0xB8, CHR 0x8A, CHR 0xE9, CHR 0x99, CHR 0x90] @ '' ''"

definition tx_size_range :: string where
  "tx_size_range =
     [CHR 0xE6, CHR 0x96, CHR 0x87, CHR 0xE4, CHR 0xBB, CHR 0xB6, CHR 0xE5, CHR 0xA4, CHR 0xA7,
       CHR 0xE5, CHR 0xB0, CHR 0x8F, CHR 0xE8, CHR 0xB6, CHR 0x85, CHR 0xE5, CHR 0x87,
       CHR 0xBA, CHR 0xE6, CHR 0x94, CHR 0xAF, CHR 0xE6, CHR 0x8C, CHR 0x81, CHR 0xE8,
       CHR 0x8C, CHR 0x83, CHR 0xE5, CHR 0x9B, CHR 0xB4]"

definition tx_reserved :: string where
  "tx_reserved =
     ''FTP '' @ [CHR 0xE7, CHR 0x9B, CHR 0xAE, CHR 0xE5, CHR 0xBD, CHR 0x95, CHR 0xE9,
       CHR 0xA1, CHR 0xB9, CHR 0xE4, CHR 0xBD, CHR 0xBF, CHR 0xE7, CHR 0x94, CHR 0xA8,
       CHR 0xE4, CHR 0xBA, CHR 0x86, CHR 0xE4, CHR 0xBF, CHR 0x9D, CHR 0xE7, CHR 0x95,
       CHR 0x99, CHR 0xE5, CHR 0x90, CHR 0x8D, CHR 0xE7, CHR 0xA7, CHR 0xB0, CHR 0xEF,
       CHR 0xBC, CHR 0x9A]"

definition tx_conflict :: string where
  "tx_conflict =
     ''FTP '' @ [CHR 0xE7, CHR 0x9B, CHR 0xAE, CHR 0xE5, CHR 0xBD, CHR 0x95, CHR 0xE9,
       CHR 0xA1, CHR 0xB9, CHR 0xE6, CHR 0x9C, CHR 0xAC, CHR 0xE5, CHR 0x9C, CHR 0xB0,
       CHR 0xE8, CHR 0xB7, CHR 0xAF, CHR 0xE5, CHR 0xBE, CHR 0x84, CHR 0xE5, CHR 0x86,
       CHR 0xB2, CHR 0xE7, CHR 0xAA, CHR 0x81, CHR 0xEF, CHR 0xBC, CHR 0x9A]"

definition tx_duplicate :: string where
  "tx_duplicate =
     ''FTP '' @ [CHR 0xE7, CHR 0x9B, CHR 0xAE, CHR 0xE5, CHR 0xBD, CHR 0x95, CHR 0xE9,
       CHR 0xA1, CHR 0xB9, CHR 0xE6, CHR 0xB8, CHR 0x85, CHR 0xE7, CHR 0x90, CHR 0x86,
       CHR 0xE5, CHR 0x90, CHR 0x8E, CHR 0xE9, CHR 0x87, CHR 0x8D, CHR 0xE5, CHR 0x90,
       CHR 0x8D, CHR 0xEF, CHR 0xBC, CHR 0x9A]"

definition tx_connecting :: string where
  "tx_connecting =
     [CHR 0xE6, CHR 0xAD, CHR 0xA3, CHR 0xE5, CHR 0x9C, CHR 0xA8, CHR 0xE8, CHR 0xBF, CHR 0x9E,
       CHR 0xE6, CHR 0x8E, CHR 0xA5] @ '' FTP '' @ [CHR 0xE6, CHR 0x9C, CHR 0x8D, CHR 0xE5,
       CHR 0x8A, CHR 0xA1, CHR 0xE5, CHR 0x99, CHR 0xA8, CHR 0xE2, CHR 0x80, CHR 0xA6]"

definition tx_connecting_dir :: string where
  "tx_connecting_dir =
     [CHR 0xE6, CHR 0xAD, CHR 0xA3, CHR 0xE5, CHR 0x9C, CHR 0xA8, CHR 0xE8, CHR 0xBF, CHR 0x9E,
       CHR 0xE6, CHR 0x8E, CHR 0xA5] @ '' FTP '' @ [CHR 0xE6, CHR 0x9C, CHR 0x8D, CHR 0xE5,
       CHR 0x8A, CHR 0xA1, CHR 0xE5, CHR 0x99, CHR 0xA8]"

definition tx_mismatch :: string where
  "tx_mismatch =
     ''FTP '' @ [CHR 0xE6, CHR 0x96, CHR 0x87, CHR 0xE4, CHR 0xBB, CHR 0xB6, CHR 0xE5,
       CHR 0xA4, CHR 0xA7, CHR 0xE5, CHR 0xB0, CHR 0x8F, CHR 0xE4, CHR 0xB8, CHR 0x8D,
       CHR 0xE5, CHR 0x8C, CHR 0xB9, CHR 0xE9, CHR 0x85, CHR 0x8D, CHR 0xEF, CHR 0xBC, CHR 0x9A]"

definition tx_received :: string where
  "tx_received =
     [CHR 0xE6, CHR 0x94, CHR 0xB6, CHR 0xE5, CHR 0x88, CHR 0xB0] @ '' ''"

definition tx_expected :: string where
  "tx_expected =
     [CHR 0xEF, CHR 0xBC, CHR 0x8C, CHR 0xE9, CHR 0xA2, CHR 0x84, CHR 0xE6, CHR 0x9C,
       CHR 0x9F] @ '' ''"

definition tx_finish :: string where
  "tx_finish =
     [CHR 0xE5, CHR 0xAE, CHR 0x8C, CHR 0xE6, CHR 0x88, CHR 0x90] @ '' FTP '' @ [CHR 0xE6,
       CHR 0x96, CHR 0x87, CHR 0xE4, CHR 0xBB, CHR 0xB6, CHR 0xEF, CHR 0xBC, CHR 0x9A]"

definition tx_finish_file :: string where
  "tx_finish_file =
     [CHR 0xE5, CHR 0xAE, CHR 0x8C, CHR 0xE6, CHR 0x88, CHR 0x90] @ '' FTP '' @ [CHR 0xE6,
       CHR 0x96, CHR 0x87, CHR 0xE4, CHR 0xBB, CHR 0xB6] @ '' ''"

definition tx_done :: string where
  "tx_done =
     ''FTP '' @ [CHR 0xE4, CHR 0xB8, CHR 0x8B, CHR 0xE8, CHR 0xBD, CHR 0xBD, CHR 0xE5,
       CHR 0xAE, CHR 0x8C, CHR 0xE6, CHR 0x88, CHR 0x90]"

definition tx_read_list :: string where
  "tx_read_list =
     [CHR 0xE8, CHR 0xAF, CHR 0xBB, CHR 0xE5, CHR 0x8F, CHR 0x96] @ '' FTP '' @ [CHR 0xE7,
       CHR 0x9B, CHR 0xAE, CHR 0xE5, CHR 0xBD, CHR 0x95, CHR 0xE6, CHR 0xB8, CHR 0x85,
       CHR 0xE5, CHR 0x8D, CHR 0x95, CHR 0xEF, CHR 0xBC, CHR 0x9A]"

definition tx_bad_item :: string where
  "tx_bad_item =
     ''FTP '' @ [CHR 0xE7, CHR 0x9B, CHR 0xAE, CHR 0xE5, CHR 0xBD, CHR 0x95, CHR 0xE6,
       CHR 0xB8, CHR 0x85, CHR 0xE5, CHR 0x8D, CHR 0x95, CHR 0xE9, CHR 0xA1, CHR 0xB9,
       CHR 0xE6, CHR 0x97, CHR 0xA0, CHR 0xE6, CHR 0x95, CHR 0x88, CHR 0xEF, CHR 0xBC, CHR 0x9A]"

definition tx_outside_remote :: string where
  "tx_outside_remote =
     ''FTP '' @ [CHR 0xE7, CHR 0x9B, CHR 0xAE, CHR 0xE5, CHR 0xBD, CHR 0x95, CHR 0xE9,
       CHR 0xA1, CHR 0xB9, CHR 0xE8, CHR 0xB6, CHR 0x85, CHR 0xE5, CHR 0x87, CHR 0xBA,
       CHR 0xE8, CHR 0xBF, CHR 0x9C, CHR 0xE7, CHR 0xA8, CHR 0x8B, CHR 0xE6, CHR 0xA0,
       CHR 0xB9, CHR 0xE7, CHR 0x9B, CHR 0xAE, CHR 0xE5, CHR 0xBD, CHR 0x95, CHR 0xEF,
       CHR 0xBC, CHR 0x9A]"

definition tx_dir_done :: string where
  "tx_dir_done =
     ''FTP '' @ [CHR 0xE7, CHR 0x9B, CHR 0xAE, CHR 0xE5, CHR 0xBD, CHR 0x95, CHR 0xE4,
       CHR 0xB8, CHR 0x8B, CHR 0xE8, CHR 0xBD, CHR 0xBD, CHR 0xE5, CHR 0xAE, CHR 0x8C,
       CHR 0xE6, CHR 0x88, CHR 0x90]"

definition tx_downloading :: string where
  "tx_downloading =
     [CHR 0xE6, CHR 0xAD, CHR 0xA3, CHR 0xE5, CHR 0x9C, CHR 0xA8, CHR 0xE4, CHR 0xB8, CHR 0x8B,
       CHR 0xE8, CHR 0xBD, CHR 0xBD] @ '' FTP '' @ [CHR 0xE6, CHR 0x96, CHR 0x87, CHR 0xE4,
       CHR 0xBB, CHR 0xB6, CHR 0xE2, CHR 0x80, CHR 0xA6]"

definition tx_downloading_dir :: string where
  "tx_downloading_dir =
     [CHR 0xE6, CHR 0xAD, CHR 0xA3, CHR 0xE5, CHR 0x9C, CHR 0xA8, CHR 0xE4, CHR 0xB8, CHR 0x8B,
       CHR 0xE8, CHR 0xBD, CHR 0xBD] @ '' FTP '' @ [CHR 0xE6, CHR 0x96, CHR 0x87, CHR 0xE4,
       CHR 0xBB, CHR 0xB6]"

definition tx_marker :: string where
  "tx_marker =
     [CHR 0xE8, CHR 0xAE, CHR 0xB0, CHR 0xE5, CHR 0xBD, CHR 0x95] @ '' FTP '' @ [CHR 0xE6,
       CHR 0x96, CHR 0x87, CHR 0xE4, CHR 0xBB, CHR 0xB6, CHR 0xE5, CHR 0xAE, CHR 0x8C,
       CHR 0xE6, CHR 0x88, CHR 0x90, CHR 0xE7, CHR 0x8A, CHR 0xB6, CHR 0xE6, CHR 0x80,
       CHR 0x81] @ '' ''"

definition tx_bad_local :: string where
  "tx_bad_local =
     ''FTP '' @ [CHR 0xE7, CHR 0x9B, CHR 0xAE, CHR 0xE5, CHR 0xBD, CHR 0x95, CHR 0xE9,
       CHR 0xA1, CHR 0xB9, CHR 0xE6, CHR 0x9C, CHR 0xAC, CHR 0xE5, CHR 0x9C, CHR 0xB0,
       CHR 0xE8, CHR 0xB7, CHR 0xAF, CHR 0xE5, CHR 0xBE, CHR 0x84, CHR 0xE6, CHR 0x97,
       CHR 0xA0, CHR 0xE6, CHR 0x95, CHR 0x88, CHR 0xEF, CHR 0xBC, CHR 0x9A]"

definition tx_escape :: string where
  "tx_escape =
     ''FTP '' @ [CHR 0xE7, CHR 0x9B, CHR 0xAE, CHR 0xE5, CHR 0xBD, CHR 0x95, CHR 0xE9,
       CHR 0xA1, CHR 0xB9, CHR 0xE6, CHR 0x9C, CHR 0xAC, CHR 0xE5, CHR 0x9C, CHR 0xB0,
       CHR 0xE8, CHR 0xB7, CHR 0xAF, CHR 0xE5, CHR 0xBE, CHR 0x84, CHR 0xE8, CHR 0xB6,
       CHR 0x8A, CHR 0xE7, CHR 0x95, CHR 0x8C, CHR 0xEF, CHR 0xBC, CHR 0x9A]"

definition tx_open_stream :: string where
  "tx_open_stream =
     [CHR 0xE6, CHR 0x89, CHR 0x93, CHR 0xE5, CHR 0xBC, CHR 0x80] @ '' FTP '' @ [CHR 0xE6,
       CHR 0x95, CHR 0xB0, CHR 0xE6, CHR 0x8D, CHR 0xAE, CHR 0xE6, CHR 0xB5, CHR 0x81,
       CHR 0xEF, CHR 0xBC, CHR 0x9A]"

definition tx_unconfirmed :: string where
  "tx_unconfirmed =
     ''FTP '' @ [CHR 0xE6, CHR 0x9C, CHR 0x8D, CHR 0xE5, CHR 0x8A, CHR 0xA1, CHR 0xE5,
       CHR 0x99, CHR 0xA8, CHR 0xE6, CHR 0x9C, CHR 0xAA, CHR 0xE7, CHR 0xA1, CHR 0xAE,
       CHR 0xE8, CHR 0xAE, CHR 0xA4, CHR 0xE4, CHR 0xBC, CHR 0xA0, CHR 0xE8, CHR 0xBE,
       CHR 0x93, CHR 0xE5, CHR 0xAE, CHR 0x8C, CHR 0xE6, CHR 0x88, CHR 0x90, CHR 0xEF,
       CHR 0xBC, CHR 0x9A]"

definition tx_bad_url :: string where
  "tx_bad_url =
     ''FTP '' @ [CHR 0xE5, CHR 0x9C, CHR 0xB0, CHR 0xE5, CHR 0x9D, CHR 0x80, CHR 0xE6,
       CHR 0xA0, CHR 0xBC, CHR 0xE5, CHR 0xBC, CHR 0x8F, CHR 0xE6, CHR 0x97, CHR 0xA0,
       CHR 0xE6, CHR 0x95, CHR 0x88]"

definition tx_no_path :: string where
  "tx_no_path =
     ''FTP '' @ [CHR 0xE5, CHR 0x9C, CHR 0xB0, CHR 0xE5, CHR 0x9D, CHR 0x80, CHR 0xE5,
       CHR 0xBF, CHR 0x85, CHR 0xE9, CHR 0xA1, CHR 0xBB, CHR 0xE6, CHR 0x8C, CHR 0x87,
       CHR 0xE5, CHR 0x90, CHR 0x91, CHR 0xE6, CHR 0x96, CHR 0x87, CHR 0xE4, CHR 0xBB,
       CHR 0xB6, CHR 0xE6, CHR 0x88, CHR 0x96, CHR 0xE7, CHR 0x9B, CHR 0xAE, CHR 0xE5,
       CHR 0xBD, CHR 0x95]"

definition tx_no_info :: string where
  "tx_no_info =
     ''FTP '' @ [CHR 0xE4, CHR 0xBB, CHR 0xBB, CHR 0xE5, CHR 0x8A, CHR 0xA1, CHR 0xE7,
       CHR 0xBC, CHR 0xBA, CHR 0xE5, CHR 0xB0, CHR 0x91, CHR 0xE8, CHR 0xBF, CHR 0x9E,
       CHR 0xE6, CHR 0x8E, CHR 0xA5, CHR 0xE4, CHR 0xBF, CHR 0xA1, CHR 0xE6, CHR 0x81, CHR 0xAF]"

definition tx_proxy :: string where
  "tx_proxy =
     ''FTP '' @ [CHR 0xE5, CHR 0xBD, CHR 0x93, CHR 0xE5, CHR 0x89, CHR 0x8D, CHR 0xE4,
       CHR 0xBB, CHR 0x85, CHR 0xE6, CHR 0x94, CHR 0xAF, CHR 0xE6, CHR 0x8C, CHR 0x81,
       CHR 0xE7, CHR 0x9B, CHR 0xB4, CHR 0xE8, CHR 0xBF, CHR 0x9E, CHR 0xE6, CHR 0x88,
       CHR 0x96] @ '' SOCKS5 '' @ [CHR 0xE4, CHR 0xBB, CHR 0xA3, CHR 0xE7, CHR 0x90, CHR 0x86]"


end
