(* ===== verification/FtpTask.thy ===== *)
theory FtpTask
  imports FtpText GoNet TaskFiles "HOL-Library.List_Lexorder" "HOL-Library.Char_ord"
begin

text \<open>
  How \<open>internal/download/ftp/ftp.go\<close> makes a task from a URL: the source it names, the safe local
  names, the listing of a remote directory. The FTP library is a parameter: \<open>ftp_conn\<close> holds what
  a connection answers, a walk being the list of its entries and the error that ended it.
\<close>

section \<open>Sources\<close>

record source_info =
  src_host :: string
  src_remote_path :: string
  src_username :: string
  src_password :: string
  src_tls_mode :: string
  src_timeout :: int
  src_directory :: bool

definition is_source :: "unicode \<Rightarrow> netlib \<Rightarrow> string \<Rightarrow> bool" where
  "is_source u nl source =
     (case nl_parse_url nl (trim_space source) of
        Inl _ \<Rightarrow> False
      | Inr p \<Rightarrow> list_ex (equal_fold u (up_scheme p)) [''ftp'', ''ftps'', ''ftpes''])"

text \<open>\<open>URL.Hostname\<close>, \<open>URL.Port\<close> and \<open>net.JoinHostPort\<close>.\<close>

definition split_host_port :: "string \<Rightarrow> string \<times> string" where
  "split_host_port hp =
     (let port = rev (takeWhile (\<lambda>c. c \<noteq> CHR '':'') (rev hp));
          valid = (CHR '':'' \<in> set hp \<and> list_all is_digit port);
          host = (if valid then take (length hp - length port - 1) hp else hp);
          host = (if prefix ''['' host \<and> suffix '']'' host then butlast (tl host) else host) in
      (host, if valid then port else []))"

definition join_host_port :: "string \<Rightarrow> string \<Rightarrow> string" where
  "join_host_port host port =
     (if CHR '':'' \<in> set host then ''['' @ host @ '']:'' @ port else host @ '':'' @ port)"

text \<open>\<open>PathUnescape (u.EscapedPath ())\<close> is the decoded path of the URL and never fails.\<close>

definition parse_source :: "unicode \<Rightarrow> netlib \<Rightarrow> string \<Rightarrow> (source_info \<times> string) result" where
  "parse_source u nl source =
     (case nl_parse_url nl (trim_space source) of
        Inl _ \<Rightarrow> Inl (new_error tx_bad_url)
      | Inr p \<Rightarrow>
          (let scheme = to_lower u (up_scheme p); (hostname, port) = split_host_port (up_host p) in
           if (scheme \<noteq> ''ftp'' \<and> scheme \<noteq> ''ftps'' \<and> scheme \<noteq> ''ftpes'') \<or> hostname = []
           then Inl (new_error tx_bad_url)
           else
             let tls = (if scheme = ''ftps'' then ''implicit''
                        else if scheme = ''ftpes'' then ''explicit'' else []);
                 default_port = (if scheme = ''ftps'' then ''990'' else ''21'');
                 host = join_host_port hostname (if port \<noteq> [] then port else default_port);
                 username = (case up_user p of Some (n, _) \<Rightarrow> if n \<noteq> [] then n else ''anonymous''
                   | None \<Rightarrow> ''anonymous'');
                 password = (case up_user p of Some (_, Some w) \<Rightarrow> w | _ \<Rightarrow> ''anonymous@'');
                 remote = up_path p in
             if remote = [] then Inl (new_error tx_no_path)
             else Inr (\<lparr>src_host = host, src_remote_path = path_clean remote,
                 src_username = username, src_password = password, src_tls_mode = tls,
                 src_timeout = 30 * second, src_directory = suffix ''/'' remote\<rparr>,
               nl_url_text nl (p\<lparr>up_user := None\<rparr>))))"

definition source_from_task :: "task \<Rightarrow> source_info result" where
  "source_from_task t =
     (let s = stg_state (tsk_stage t) in
      if s = None \<or> map_get s ''host'' = [] \<or> map_get s ''remotePath'' = []
      then Inl (new_error tx_no_info)
      else let timeout = (case parse_int (map_get s ''timeoutSeconds'') of
               Some n \<Rightarrow> if n > 0 then wrap64 (n * second) else 30 * second | None \<Rightarrow> 30 * second) in
        Inr \<lparr>src_host = map_get s ''host'', src_remote_path = map_get s ''remotePath'',
          src_username = map_get s ''username'', src_password = map_get s ''password'',
          src_tls_mode = map_get s ''tlsMode'', src_timeout = timeout,
          src_directory = (map_get s ''directory'' = ''true'')\<rparr>)"

definition validate_proxy :: "netlib \<Rightarrow> string \<Rightarrow> goerr option" where
  "validate_proxy nl proxy =
     (if trim_space proxy = [] then None
      else case nl_parse_url nl proxy of
        Inl _ \<Rightarrow> Some (new_error tx_proxy)
      | Inr p \<Rightarrow> if up_scheme p \<noteq> ''socks5'' \<and> up_scheme p \<noteq> ''socks5h''
                then Some (new_error tx_proxy) else None)"

section \<open>Safe names\<close>

definition safe_char :: "char \<Rightarrow> char" where
  "safe_char c =
     (if byte_of c < 32 \<or> c \<in> set (''<>:/|?*'' @ [CHR 0x22, backslash]) then CHR ''_'' else c)"

definition reserved_name :: "unicode \<Rightarrow> string \<Rightarrow> bool" where
  "reserved_name u name \<longleftrightarrow>
     (let base = to_upper u (hd (split_on CHR ''.'' name)) in
      base \<in> {''CON'', ''PRN'', ''AUX'', ''NUL''} \<or>
      (length base = 4 \<and> (prefix ''COM'' base \<or> prefix ''LPT'' base) \<and>
       49 \<le> byte_of (base ! 3) \<and> byte_of (base ! 3) \<le> 57))"

definition safe_file_name :: "unicode \<Rightarrow> string \<Rightarrow> string" where
  "safe_file_name u name =
     (let name = trim_right ''. '' (map_ascii safe_char name) in
      if name = [] \<or> name = ''.'' then ''download''
      else if reserved_name u name then CHR ''_'' # name else name)"

type_synonym seen = "string \<Rightarrow> bool option"

fun safe_parts ::
  "unicode \<Rightarrow> string \<Rightarrow> bool \<Rightarrow> string list \<Rightarrow> string list \<Rightarrow> seen \<Rightarrow> (string \<times> seen) result" where
  "safe_parts u remote directory local [] seen = Inr (join_with ''/'' local, seen)"
| "safe_parts u remote directory local (p # ps) seen =
     (let name = safe_file_name u p; local' = local @ [name] in
      if local = [] \<and> equal_fold u name ftp_directory_owner_marker
      then Inl (new_error (tx_reserved @ quote u remote))
      else
        let key = to_lower u (join_with ''/'' local'); is_directory = (ps \<noteq> [] \<or> directory) in
        if (case seen key of Some d \<Rightarrow> d \<noteq> is_directory | None \<Rightarrow> False)
        then Inl (new_error (tx_conflict @ quote u remote))
        else if seen key \<noteq> None \<and> ps = [] then Inl (new_error (tx_duplicate @ quote u remote))
        else safe_parts u remote directory local' ps (seen(key \<mapsto> is_directory)))"

text \<open>Both callers stop at an error, so what it leaves in \<open>seen\<close> is not returned.\<close>

definition safe_relative_path :: "unicode \<Rightarrow> string \<Rightarrow> bool \<Rightarrow> seen \<Rightarrow> (string \<times> seen) result" where
  "safe_relative_path u remote directory seen =
     safe_parts u remote directory [] (split_on slash remote) seen"

section \<open>Listing a directory\<close>

datatype entry_type = EntryFile | EntryFolder | EntryLink

record walked =
  wlk_path :: string
  wlk_entry :: "(entry_type \<times> nat) option"

record ftp_conn =
  fc_walk :: "string \<Rightarrow> walked list \<times> goerr option"
  fc_file_size :: "string \<Rightarrow> (int option \<times> goerr) + int"

record directory_entry =
  den_remote_path :: string
  den_relative_path :: string
  den_size :: int
  den_directory :: bool

definition max_directory_entries :: int where "max_directory_entries = 100000"

definition validate_directory_entry_size :: "nat \<Rightarrow> goerr option" where
  "validate_directory_entry_size n = (if int n > max_int64 then Some (new_error tx_size_range) else None)"

definition remote_prefix :: "string \<Rightarrow> string" where
  "remote_prefix base = (if base = ''/'' then ''/'' else trim_suffix base ''/'' @ ''/'')"

text \<open>The size of an entry and whether it is known.\<close>

definition entry_size :: "ftp_conn \<Rightarrow> string \<Rightarrow> nat \<Rightarrow> int \<times> bool" where
  "entry_size conn remote n =
     (if n = 0 then (case fc_file_size conn remote of Inr probed \<Rightarrow> (probed, True) | Inl _ \<Rightarrow> (- 1, False))
      else (int n, True))"

record listing =
  lst_entries :: "directory_entry list"
  lst_total :: int
  lst_total_known :: bool
  lst_seen :: seen

definition empty_listing :: listing where
  "empty_listing = \<lparr>lst_entries = [], lst_total = 0, lst_total_known = True, lst_seen = Map.empty\<rparr>"

definition append_entry :: "directory_entry \<Rightarrow> listing \<Rightarrow> listing result" where
  "append_entry item l =
     (let entries = lst_entries l @ [item] in
      if int (length entries) > max_directory_entries
      then Inl (new_error (tx_too_many @ itoa max_directory_entries))
      else Inr (l\<lparr>lst_entries := entries\<rparr>))"

text \<open>One round of the walk. The total is of type \<open>int64\<close> and stays below its bound.\<close>

definition list_entry :: "unicode \<Rightarrow> ftp_conn \<Rightarrow> string \<Rightarrow> walked \<Rightarrow> listing \<Rightarrow> listing result" where
  "list_entry u conn pre w l =
     (case wlk_entry w of
        None \<Rightarrow> Inr l
      | Some (EntryLink, _) \<Rightarrow> Inr l
      | Some (kind, n) \<Rightarrow>
          (let remote = path_clean (wlk_path w) in
           if \<not> prefix pre remote then Inl (new_error (tx_outside @ quote u (wlk_path w)))
           else let relative = trim_prefix remote pre in
           if relative = [] then Inl (new_error (tx_no_relative @ quote u (wlk_path w)))
           else case safe_relative_path u relative (kind = EntryFolder) (lst_seen l) of
             Inl e \<Rightarrow> Inl e
           | Inr (local, seen) \<Rightarrow>
               (let item = \<lparr>den_remote_path = remote, den_relative_path = local, den_size = 0,
                      den_directory = (kind = EntryFolder)\<rparr>;
                    l = l\<lparr>lst_seen := seen\<rparr> in
                if kind = EntryFolder then append_entry item l
                else case validate_directory_entry_size n of
                  Some e \<Rightarrow> Inl (wrap_error (tx_file @ quote u remote @ tx_colon) e)
                | None \<Rightarrow>
                    (let (bytes, known) = entry_size conn remote n in
                     if bytes \<ge> 0 \<and> bytes > max_int64 - lst_total l
                     then Inl (new_error tx_total_range)
                     else append_entry (item\<lparr>den_size := bytes\<rparr>)
                       (l\<lparr>lst_total := lst_total l + (if bytes \<ge> 0 then bytes else 0),
                          lst_total_known := (lst_total_known l \<and> known)\<rparr>)))))"

fun list_walk :: "unicode \<Rightarrow> ftp_conn \<Rightarrow> string \<Rightarrow> walked list \<Rightarrow> listing \<Rightarrow> listing result" where
  "list_walk u conn pre [] l = Inr l"
| "list_walk u conn pre (w # ws) l =
     (case list_entry u conn pre w l of Inl e \<Rightarrow> Inl e | Inr l' \<Rightarrow> list_walk u conn pre ws l')"

definition list_directory ::
  "unicode \<Rightarrow> ftp_conn \<Rightarrow> string \<Rightarrow> (directory_entry list \<times> int) result" where
  "list_directory u conn base =
     (let (ws, err) = fc_walk conn base in
      case list_walk u conn (remote_prefix (path_clean base)) ws empty_listing of
        Inl e \<Rightarrow> Inl e
      | Inr l \<Rightarrow>
          (case err of
             Some e \<Rightarrow> Inl e
           | None \<Rightarrow> Inr (sort_key den_relative_path (lst_entries l),
               if lst_total_known l then lst_total l else 0)))"

section \<open>Making the task\<close>

text \<open>\<open>encode\<close> is \<open>json.Marshal\<close> on the entries; the identifiers and the time are arguments.\<close>

record task_ids =
  ids_task :: string
  ids_stage :: string
  ids_now :: int

definition source_state :: "source_info \<Rightarrow> strmap" where
  "source_state info =
     Some (fmap_of_list [(''host'', src_host info), (''remotePath'', src_remote_path info),
       (''username'', src_username info), (''password'', src_password info),
       (''tlsMode'', src_tls_mode info), (''timeoutSeconds'', itoa (src_timeout info div second))])"

definition make_task ::
  "task_ids \<Rightarrow> source_info \<Rightarrow> string \<Rightarrow> string \<Rightarrow> string \<Rightarrow> int \<Rightarrow> string \<Rightarrow> int \<Rightarrow> strmap \<Rightarrow> task" where
  "make_task ids info url dir proxy retries title file_size state =
     new_task (ids_task ids) (ids_now ids) ''ftp'' title url dir file_size
       ((new_stage (ids_stage ids) ''ftp'' url file_size 1 retries True None proxy)\<lparr>stg_state := state\<rparr>)"

definition new_directory_task ::
  "unicode \<Rightarrow> (directory_entry list \<Rightarrow> string result) \<Rightarrow> task_ids \<Rightarrow> ftp_conn \<Rightarrow> source_info \<Rightarrow>
   string \<Rightarrow> string \<Rightarrow> string \<Rightarrow> int \<Rightarrow> task result" where
  "new_directory_task u encode ids conn info url dir proxy retries =
     (case list_directory u conn (src_remote_path info) of
        Inl e \<Rightarrow> Inl (wrap_error tx_read_dir e)
      | Inr (entries, n) \<Rightarrow>
          (case encode entries of
             Inl e \<Rightarrow> Inl (wrap_error tx_save_list e)
           | Inr encoded \<Rightarrow>
               (let title = safe_file_name u (path_base (src_remote_path info));
                    title = (if src_remote_path info = ''/'' \<or> title = [] then ''ftp-root'' else title);
                    state = map_set (map_set (source_state info) ''directory'' ''true'') ''entries'' encoded in
                Inr (make_task ids info url dir proxy retries title n state))))"

definition size_command_unsupported :: "int option \<Rightarrow> bool" where
  "size_command_unsupported code \<longleftrightarrow> code \<in> {Some 500, Some 502, Some 504}"

definition file_task ::
  "unicode \<Rightarrow> task_ids \<Rightarrow> source_info \<Rightarrow> string \<Rightarrow> string \<Rightarrow> string \<Rightarrow> int \<Rightarrow> int \<Rightarrow> task result" where
  "file_task u ids info url dir proxy retries file_size =
     (let title = safe_file_name u (fp_base (from_slash (src_remote_path info))) in
      if title = ''.'' \<or> title = [backslash] \<or> title = [] then Inl (new_error tx_no_name)
      else Inr (make_task ids info url dir proxy retries title file_size (source_state info)))"

definition parse_ftp ::
  "unicode \<Rightarrow> netlib \<Rightarrow> (directory_entry list \<Rightarrow> string result) \<Rightarrow>
   (source_info \<Rightarrow> string \<Rightarrow> ftp_conn result) \<Rightarrow> task_ids \<Rightarrow> string \<Rightarrow> string \<Rightarrow> string \<Rightarrow> int \<Rightarrow>
   task result" where
  "parse_ftp u nl encode dial ids source dir proxy retries =
     (case parse_source u nl source of
        Inl e \<Rightarrow> Inl e
      | Inr (info, url) \<Rightarrow>
          (case validate_proxy nl proxy of
             Some e \<Rightarrow> Inl e
           | None \<Rightarrow>
               (case dial info proxy of
                  Inl e \<Rightarrow> Inl e
                | Inr conn \<Rightarrow>
                    if src_directory info
                    then new_directory_task u encode ids conn info url dir proxy retries
                    else (case fc_file_size conn (src_remote_path info) of
                        Inr file_size \<Rightarrow> file_task u ids info url dir proxy retries file_size
                      | Inl (code, e) \<Rightarrow>
                          (case new_directory_task u encode ids conn info url dir proxy retries of
                             Inr t \<Rightarrow> Inr t
                           | Inl _ \<Rightarrow>
                               if size_command_unsupported code
                               then file_task u ids info url dir proxy retries 0
                               else Inl (wrap_error tx_read_size e))))))"

section \<open>Paths of a directory's entries\<close>

definition directory_output_path :: "unicode \<Rightarrow> string \<Rightarrow> string \<Rightarrow> string \<Rightarrow> string result" where
  "directory_output_path u cwd base relative =
     (if relative = [] \<or> path_rooted relative \<or> backslash \<in> set relative
      then Inl (new_error (tx_bad_local @ quote u relative))
      else let target = fp_join [base, from_slash relative];
               clean_base = fp_abs cwd (fp_clean base); clean_target = fp_abs cwd (fp_clean target) in
        case fp_rel u clean_base clean_target of
          Inl _ \<Rightarrow> Inl (new_error (tx_escape @ quote u relative))
        | Inr rel \<Rightarrow>
            if rel = ''.'' \<or> rel = ''..'' \<or> prefix (''..'' @ [backslash]) rel
            then Inl (new_error (tx_escape @ quote u relative))
            else Inr clean_target)"

definition remote_child :: "string \<Rightarrow> string \<Rightarrow> bool" where
  "remote_child base candidate \<longleftrightarrow>
     (let base = path_clean base; candidate = path_clean candidate in
      prefix (remote_prefix base) candidate \<and> candidate \<noteq> base)"

end
