(* ===== verification/FtpNames.thy ===== *)
theory FtpNames
  imports FtpTask
begin

text \<open>
  The local names that \<open>safeFileName\<close> and \<open>safeRelativePath\<close> make: they are safe, and making
  them safe again changes nothing; and what \<open>safeRelativePath\<close> accepts, as a fold over the pairs
  of a case-insensitive path and whether it is a directory.
\<close>

section \<open>Safe names\<close>

text \<open>A law of upper-casing: the underscore is its own upper case.\<close>

definition upper_ok :: "unicode \<Rightarrow> bool" where
  "upper_ok u \<longleftrightarrow> (\<forall>s. \<exists>t. u_upper u (CHR ''_'' # s) = CHR ''_'' # t)"

lemma upper_ok_ascii: "upper_ok ascii_tables"
  by (simp add: upper_ok_def ascii_tables_def upper_char_def byte_of_def)

definition plain_char :: "char \<Rightarrow> bool" where
  "plain_char c \<longleftrightarrow> safe_char c = c"

definition safe_name :: "unicode \<Rightarrow> string \<Rightarrow> bool" where
  "safe_name u n \<longleftrightarrow>
     n \<noteq> [] \<and> list_all plain_char n \<and> last n \<noteq> CHR ''.'' \<and> last n \<noteq> CHR '' '' \<and> \<not> reserved_name u n"

lemma safe_char_idem [simp]: "safe_char (safe_char c) = safe_char c"
proof -
  have "safe_char (CHR ''_'') = CHR ''_''" by code_simp
  then show ?thesis by (simp add: safe_char_def)
qed

lemma safe_char_ascii: "byte_of c < 128 \<Longrightarrow> byte_of (safe_char c) < 128"
proof -
  have "byte_of (CHR ''_'') < 128" by code_simp
  then show "byte_of c < 128 \<Longrightarrow> byte_of (safe_char c) < 128" by (simp add: safe_char_def)
qed

lemma plain_high: "128 \<le> byte_of c \<Longrightarrow> plain_char c"
proof -
  have "list_all (\<lambda>d. byte_of d < 128) (''<>:/|?*'' @ [CHR 0x22, backslash])" by code_simp
  then show "128 \<le> byte_of c \<Longrightarrow> plain_char c"
    by (fastforce simp: plain_char_def safe_char_def list_all_iff)
qed

lemma map_ascii_plain: "list_all plain_char (map_ascii safe_char s)"
proof (induction "safe_char" s rule: map_ascii.induct)
  case (2 c cs)
  consider "rune_len (c # cs) = 0" | "rune_len (c # cs) = 1" | "2 \<le> rune_len (c # cs)" by linarith
  then show ?case
  proof cases
    case 1
    have "list_all plain_char replacement" by code_simp
    with 1 "2.hyps"(1)[OF refl 1] show ?thesis by (simp add: map_ascii_unfold)
  next
    case 2
    with "2.hyps"(2)[OF refl] show ?thesis by (simp add: map_ascii_unfold plain_char_def)
  next
    case 3
    have "plain_char d" if "d \<in> set (take (rune_len (c # cs)) (c # cs))" for d
      using that rune_len_bytes[OF refl 3] by (auto simp: in_set_conv_nth intro: plain_high)
    then have "list_all plain_char (take (rune_len (c # cs)) (c # cs))" by (simp add: list_all_iff)
    with 3 "2.hyps"(3)[OF refl] show ?thesis
      by (simp add: map_ascii_unfold list_all_append del: take_Suc_Cons)
  qed
qed simp

lemma reserved_underscore:
  assumes "upper_ok u"
  shows "\<not> reserved_name u (CHR ''_'' # n)"
proof -
  obtain w ws where "split_on CHR ''.'' (CHR ''_'' # n) = (CHR ''_'' # w) # ws"
    by (cases "split_on CHR ''.'' n") auto
  moreover have "\<exists>t. to_upper u (CHR ''_'' # w) = CHR ''_'' # t"
    using assms by (auto simp: to_upper_def upper_ok_def upper_char_def byte_of_def)
  ultimately show ?thesis by (auto simp: reserved_name_def Let_def)
qed

lemma trim_right_split:
  obtains w where "s = trim_right cs s @ w" and "set w \<subseteq> set cs"
proof
  let ?w = "rev (takeWhile (\<lambda>c. c \<in> set cs) (rev s))"
  show "s = trim_right cs s @ ?w"
    unfolding trim_right_def by (metis rev_append rev_rev_ident takeWhile_dropWhile_id)
  show "set ?w \<subseteq> set cs" using set_takeWhileD by fastforce
qed

text \<open>Safe names, with the fact that mapping their characters changes nothing.\<close>

lemma safe_file_name_props:
  assumes "upper_ok u"
  shows "safe_name u (safe_file_name u s) \<and>
    map_ascii safe_char (safe_file_name u s) = safe_file_name u s"
proof -
  define t where "t = trim_right ''. '' (map_ascii safe_char s)"
  obtain w where w: "map_ascii safe_char s = t @ w" "set w \<subseteq> set ''. ''"
    using trim_right_split unfolding t_def by blast
  have "list_all (\<lambda>c. byte_of c < 128) ''. ''" by code_simp
  then have "\<forall>c\<in>set w. byte_of c < 128" using w(2) by (auto simp: list_all_iff)
  moreover have "map_ascii safe_char (t @ w) = t @ w"
    using map_ascii_idem[OF safe_char_ascii safe_char_idem, of s] w(1) by simp
  ultimately have fixed: "map_ascii safe_char t = t" by (rule map_ascii_prefix[rotated])
  have plain: "list_all plain_char t" using map_ascii_plain[of s] w(1) by simp
  have l: "last t \<noteq> CHR ''.'' \<and> last t \<noteq> CHR '' ''" if "t \<noteq> []"
    using trim_right_last[of "''. ''" "map_ascii safe_char s"] that by (auto simp: t_def)
  have u: "byte_of (CHR ''_'') < 128" "safe_char (CHR ''_'') = CHR ''_''" by code_simp+
  note res = reserved_underscore[OF assms]
  show ?thesis
  proof (cases "t = []")
    case True
    then have "safe_file_name u s = ''download''" by (simp add: safe_file_name_def t_def[symmetric])
    moreover have "list_all plain_char ''download''" "map_ascii safe_char ''download'' = ''download''"
      by code_simp+
    moreover have "ascii ''download''" "map upper_char ''download'' = ''DOWNLOAD''" by code_simp+
    then have "to_upper u ''download'' = ''DOWNLOAD''" by (simp add: to_upper_def)
    then have "\<not> reserved_name u ''download''" by (simp add: reserved_name_def)
    ultimately show ?thesis by (simp add: safe_name_def)
  next
    case False
    then have "t \<noteq> ''.''" using l by auto
    then have "safe_file_name u s = (if reserved_name u t then CHR ''_'' # t else t)"
      using False by (simp add: safe_file_name_def t_def[symmetric])
    then show ?thesis
      using False l plain fixed res u by (simp add: safe_name_def plain_char_def map_ascii_byte)
  qed
qed

lemma safe_file_name_id:
  assumes "safe_name u n" and "map_ascii safe_char n = n"
  shows "safe_file_name u n = n"
proof -
  have "trim_right ''. '' n = n"
    using assms(1) unfolding trim_right_def safe_name_def
    by (cases "rev n") (auto simp: last_rev hd_rev[symmetric])
  then show ?thesis using assms by (auto simp: safe_file_name_def safe_name_def)
qed

lemma safe_file_name_idem: "upper_ok u \<Longrightarrow> safe_file_name u (safe_file_name u s) = safe_file_name u s"
  using safe_file_name_props safe_file_name_id by blast

lemma safe_name_no_slash: "safe_name u n \<Longrightarrow> slash \<notin> set n \<and> backslash \<notin> set n"
proof -
  have "\<not> plain_char slash" "\<not> plain_char backslash" by code_simp+
  then show "safe_name u n \<Longrightarrow> slash \<notin> set n \<and> backslash \<notin> set n"
    by (auto simp: safe_name_def list_all_iff)
qed

section \<open>What is accepted\<close>

text \<open>
  The pairs that one path adds to \<open>seen\<close>, and their acceptance: no pair may contradict an earlier
  one, and the last must be new.
\<close>

fun path_keys :: "unicode \<Rightarrow> bool \<Rightarrow> string list \<Rightarrow> string list \<Rightarrow> (string \<times> bool) list" where
  "path_keys u d local [] = []"
| "path_keys u d local (n # ns) =
     (to_lower u (join_with ''/'' (local @ [n])), ns \<noteq> [] \<or> d) # path_keys u d (local @ [n]) ns"

definition clash :: "seen \<Rightarrow> string \<Rightarrow> bool \<Rightarrow> bool \<Rightarrow> bool" where
  "clash seen k f final \<longleftrightarrow> seen k = Some (\<not> f) \<or> (seen k \<noteq> None \<and> final)"

fun accept :: "(string \<times> bool) list \<Rightarrow> seen \<Rightarrow> seen option" where
  "accept [] seen = Some seen"
| "accept ((k, f) # kfs) seen =
     (if clash seen k f (kfs = []) then None else accept kfs (seen(k \<mapsto> f)))"

definition marker_first :: "unicode \<Rightarrow> string list \<Rightarrow> bool" where
  "marker_first u names \<longleftrightarrow> names \<noteq> [] \<and> equal_fold u (hd names) ftp_directory_owner_marker"

lemma path_keys_Nil [simp]: "path_keys u d local ns = [] \<longleftrightarrow> ns = []"
  by (cases ns) simp_all

lemma safe_parts_step:
  fixes u ps d
  defines "k \<equiv> \<lambda>local p. to_lower u (join_with ''/'' (local @ [safe_file_name u p]))"
    and "f \<equiv> ps \<noteq> [] \<or> d"
  shows "clash seen (k local p) f (ps = []) \<Longrightarrow> \<exists>e. safe_parts u remote d local (p # ps) seen = Inl e"
    and "local = [] \<and> equal_fold u (safe_file_name u p) ftp_directory_owner_marker \<Longrightarrow>
      \<exists>e. safe_parts u remote d local (p # ps) seen = Inl e"
    and "\<not> clash seen (k local p) f (ps = []) \<Longrightarrow>
      \<not> (local = [] \<and> equal_fold u (safe_file_name u p) ftp_directory_owner_marker) \<Longrightarrow>
      safe_parts u remote d local (p # ps) seen =
        safe_parts u remote d (local @ [safe_file_name u p]) ps (seen(k local p \<mapsto> f))"
  unfolding k_def f_def clash_def by (auto simp: Let_def split: option.splits)

lemma safe_parts_accept:
  assumes "\<not> (local = [] \<and> marker_first u (map (safe_file_name u) ps))"
  shows "safe_parts u remote d local ps seen = Inr (p, seen') \<longleftrightarrow>
    accept (path_keys u d local (map (safe_file_name u) ps)) seen = Some seen' \<and>
    p = join_with ''/'' (local @ map (safe_file_name u) ps)"
  using assms
proof (induction ps arbitrary: local seen)
  case (Cons q ps)
  let ?n = "safe_file_name u q"
  let ?k = "to_lower u (join_with ''/'' (local @ [?n]))" and ?f = "ps \<noteq> [] \<or> d"
  have keys: "path_keys u d local (map (safe_file_name u) (q # ps)) =
      (?k, ?f) # path_keys u d (local @ [?n]) (map (safe_file_name u) ps)" by simp
  have last: "(path_keys u d (local @ [?n]) (map (safe_file_name u) ps) = []) = (ps = [])" by simp
  show ?case
  proof (cases "clash seen ?k ?f (ps = [])")
    case True
    then have "accept (path_keys u d local (map (safe_file_name u) (q # ps))) seen = None"
      unfolding keys accept.simps last by simp
    moreover obtain e where "safe_parts u remote d local (q # ps) seen = Inl e"
      using safe_parts_step(1)[OF True] by blast
    ultimately show ?thesis by simp
  next
    case False
    then have acc: "accept (path_keys u d local (map (safe_file_name u) (q # ps))) seen =
        accept (path_keys u d (local @ [?n]) (map (safe_file_name u) ps)) (seen(?k \<mapsto> ?f))"
      unfolding keys accept.simps last by simp
    have step: "safe_parts u remote d local (q # ps) seen =
        safe_parts u remote d (local @ [?n]) ps (seen(?k \<mapsto> ?f))"
      using Cons.prems by (intro safe_parts_step(3)[OF False]) (simp add: marker_first_def)
    have "safe_parts u remote d (local @ [?n]) ps (seen(?k \<mapsto> ?f)) = Inr (p, seen') \<longleftrightarrow>
        accept (path_keys u d (local @ [?n]) (map (safe_file_name u) ps)) (seen(?k \<mapsto> ?f)) = Some seen' \<and>
        p = join_with ''/'' (local @ map (safe_file_name u) (q # ps))"
      by (subst Cons.IH) (simp_all del: fun_upd_apply)
    then show ?thesis unfolding acc step .
  qed
qed auto

lemma safe_relative_path_iff:
  "safe_relative_path u remote d seen = Inr (p, seen') \<longleftrightarrow>
     \<not> marker_first u (map (safe_file_name u) (split_on slash remote)) \<and>
     accept (path_keys u d [] (map (safe_file_name u) (split_on slash remote))) seen = Some seen' \<and>
     p = join_with ''/'' (map (safe_file_name u) (split_on slash remote))"
proof (cases "marker_first u (map (safe_file_name u) (split_on slash remote))")
  case True
  then obtain q ps where q: "split_on slash remote = q # ps"
    "equal_fold u (safe_file_name u q) ftp_directory_owner_marker"
    by (cases "split_on slash remote") (auto simp: marker_first_def)
  with True safe_parts_step(2)[of "[]" u q] show ?thesis
    unfolding safe_relative_path_def by (metis Inl_Inr_False)
next
  case False
  then show ?thesis
    unfolding safe_relative_path_def by (subst safe_parts_accept) simp_all
qed

section \<open>Accepted in one order, accepted in another\<close>

definition keys_of :: "(string \<times> bool) list \<Rightarrow> string set" where
  "keys_of kfs = fst ` set kfs"

definition agree :: "(string \<times> bool) set \<Rightarrow> bool" where
  "agree P \<longleftrightarrow> (\<forall>k. \<not> ((k, True) \<in> P \<and> (k, False) \<in> P))"

lemma acceptD:
  assumes "accept kfs seen = Some seen'"
  shows "dom seen' = dom seen \<union> keys_of kfs" and "\<And>k f. seen k = Some f \<Longrightarrow> seen' k = Some f"
    and "\<And>k f. (k, f) \<in> set kfs \<Longrightarrow> seen' k = Some f"
    and "kfs \<noteq> [] \<Longrightarrow> fst (last kfs) \<notin> dom seen"
proof -
  have "dom seen' = dom seen \<union> keys_of kfs \<and> (\<forall>k f. seen k = Some f \<longrightarrow> seen' k = Some f) \<and>
      (\<forall>k f. (k, f) \<in> set kfs \<longrightarrow> seen' k = Some f) \<and> (kfs \<noteq> [] \<longrightarrow> fst (last kfs) \<notin> dom seen)"
    using assms
  proof (induction kfs seen rule: accept.induct)
    case (2 k f kfs seen)
    then have nc: "\<not> clash seen k f (kfs = [])" and a: "accept kfs (seen(k \<mapsto> f)) = Some seen'"
      by (auto split: if_splits)
    note ih = "2.IH"[OF nc a]
    have keep: "seen j = Some g \<Longrightarrow> (seen(k \<mapsto> f)) j = Some g" for j g
      using nc by (cases f; cases g) (auto simp: clash_def)
    have "\<forall>j g. seen j = Some g \<longrightarrow> seen' j = Some g" using ih keep by blast
    moreover have "seen' k = Some f" using ih by simp
    moreover have "kfs = [] \<Longrightarrow> k \<notin> dom seen" using nc by (auto simp: clash_def)
    moreover have "kfs \<noteq> [] \<Longrightarrow> fst (last kfs) \<notin> dom seen" using ih by (auto split: if_splits)
    ultimately show ?case using ih by (auto simp: keys_of_def)
  qed (simp add: keys_of_def)
  then show "dom seen' = dom seen \<union> keys_of kfs" and "\<And>k f. seen k = Some f \<Longrightarrow> seen' k = Some f"
    and "\<And>k f. (k, f) \<in> set kfs \<Longrightarrow> seen' k = Some f"
    and "kfs \<noteq> [] \<Longrightarrow> fst (last kfs) \<notin> dom seen" by blast+
qed

lemma accept_own_last: "accept kfs seen = Some s \<Longrightarrow> kfs \<noteq> [] \<Longrightarrow> fst (last kfs) \<notin> keys_of (butlast kfs)"
proof (induction kfs arbitrary: seen)
  case (Cons p kfs)
  obtain k f where p: "p = (k, f)" by (cases p)
  show ?case
  proof (cases "kfs = []")
    case False
    have a: "accept kfs (seen(k \<mapsto> f)) = Some s" using Cons.prems p by (auto split: if_splits)
    then have "fst (last kfs) \<noteq> k" using acceptD(4)[OF a False] by auto
    with Cons.IH[OF a False] False p show ?thesis by (simp add: keys_of_def)
  qed (simp add: keys_of_def)
qed simp

lemma acceptI:
  assumes "agree P" and "set kfs \<subseteq> P" and "\<And>k f. seen k = Some f \<Longrightarrow> (k, f) \<in> P"
    and "kfs \<noteq> [] \<Longrightarrow> fst (last kfs) \<notin> dom seen \<union> keys_of (butlast kfs)"
  shows "\<exists>seen'. accept kfs seen = Some seen' \<and> (\<forall>k f. seen' k = Some f \<longrightarrow> (k, f) \<in> P) \<and>
    dom seen' = dom seen \<union> keys_of kfs"
  using assms(2-)
proof (induction kfs seen rule: accept.induct)
  case (2 k f kfs seen)
  have kf: "(k, f) \<in> P" using "2.prems"(1) by simp
  have ok: "\<not> clash seen k f (kfs = [])"
    using "2.prems"(2)[of k] "2.prems"(3) kf assms(1) unfolding agree_def clash_def
    by (cases f) (auto simp: keys_of_def)
  have "\<exists>s. accept kfs (seen(k \<mapsto> f)) = Some s \<and> (\<forall>k f. s k = Some f \<longrightarrow> (k, f) \<in> P) \<and>
      dom s = dom (seen(k \<mapsto> f)) \<union> keys_of kfs"
  proof (rule "2.IH"[OF ok])
    show "set kfs \<subseteq> P" using "2.prems"(1) by simp
    show "\<And>j g. (seen(k \<mapsto> f)) j = Some g \<Longrightarrow> (j, g) \<in> P" using "2.prems"(2) kf by (auto split: if_splits)
    show "kfs \<noteq> [] \<Longrightarrow> fst (last kfs) \<notin> dom (seen(k \<mapsto> f)) \<union> keys_of (butlast kfs)"
      using "2.prems"(3) by (auto simp: keys_of_def)
  qed
  then show ?case using ok by (auto simp: keys_of_def)
qed (auto simp: keys_of_def)

end
