(* ===== verification/FtpWorker.thy ===== *)
theory FtpWorker
  imports FtpTask HttpTransfer
begin

text \<open>
  The worker of \<open>internal/download/ftp/ftp.go\<close>: one transfer, the retries around it, the download
  of a file and of a directory. The file tree is that of \<open>TaskFiles\<close>; a path of an
  \<open>os.Root\<close> is joined to the root's. What the FTP server, the context, the clock and the writes do
  is data: an \<open>attempt\<close> is one connection, and a \<open>stream_read\<close> one round of the copying loop.
  A result None of a loop means that the given attempts or reads ended before it returned.
\<close>

section \<open>One transfer\<close>

record stream_read =
  srd_ctx :: "goerr option"
  srd_bytes :: string
  srd_end :: read_end
  srd_waits :: "(int \<times> goerr option) list list"
  srd_write :: "(goerr \<times> nat) option"
  srd_now :: int

record stream =
  stm_reads :: "stream_read list"
  stm_start :: int
  stm_close :: "goerr option"
  stm_ctx :: "goerr option"
  stm_file_close :: "goerr option"

record attempt =
  att_dial :: "goerr option"
  att_resume :: "int \<Rightarrow> goerr + stream"
  att_retr :: "goerr + stream"
  att_ctx :: "goerr option"
  att_sleep :: "goerr option"

record ftp_xfer =
  fx_fs :: fsys
  fx_received :: int
  fx_limiter :: "limiter option"
  fx_last_at :: int
  fx_last_bytes :: int
  fx_reports :: "progress_update list"

definition ftp_update :: "int \<Rightarrow> int \<Rightarrow> int \<Rightarrow> string \<Rightarrow> progress_update" where
  "ftp_update received total_bytes speed detail =
     (let progress = (if total_bytes > 0 then of_int received / of_int total_bytes * 100 else 0) in
      \<lparr>upd_received = received, upd_file_size = total_bytes, upd_speed = speed,
       upd_progress = (if progress > 100 then 100 else progress), upd_detail = detail,
       upd_status = None, upd_stage_state = None, upd_uses_slot = None\<rparr>)"

fun wait_limited ::
  "(int \<times> goerr option) list list \<Rightarrow> int \<Rightarrow> limiter option \<Rightarrow> goerr option option \<times> limiter option" where
  "wait_limited [] bytes l = (if bytes \<le> 0 \<or> l = None \<or> rate (the l) \<le> 0 then (Some None, l) else (None, l))"
| "wait_limited (w # ws) bytes l =
     (if bytes \<le> 0 \<or> l = None \<or> rate (the l) \<le> 0 then (Some None, l)
      else let chunk = (if bytes > rate (the l) then rate (the l) else bytes) in
        case limiter_wait chunk w l of
          (Some None, l') \<Rightarrow> wait_limited ws (bytes - chunk) l'
        | r \<Rightarrow> r)"

text \<open>A chunk that was read is limited, written at the file's position and reported once a second.\<close>

definition store_bytes :: "string \<Rightarrow> stream_read \<Rightarrow> ftp_xfer \<Rightarrow> goerr option \<times> ftp_xfer" where
  "store_bytes partial ev x =
     (let (err, content) = write_at (fx_received x) (srd_bytes ev) (srd_write ev)
            (file_content (fx_fs x) partial);
          written = (case srd_write ev of None \<Rightarrow> length (srd_bytes ev)
            | Some (_, n) \<Rightarrow> min n (length (srd_bytes ev))) in
      (err, x\<lparr>fx_fs := put_node partial (NFile content) (fx_fs x),
              fx_received := fx_received x + int written\<rparr>))"

definition report_speed ::
  "(int \<Rightarrow> int \<Rightarrow> progress_update) \<Rightarrow> int \<Rightarrow> ftp_xfer \<Rightarrow> ftp_xfer" where
  "report_speed rep now x =
     (let elapsed = now - fx_last_at x in
      if elapsed \<ge> second
      then x\<lparr>fx_reports := fx_reports x @
               [rep (fx_received x) ((fx_received x - fx_last_bytes x) * second div elapsed)],
             fx_last_at := now, fx_last_bytes := fx_received x\<rparr>
      else x)"

definition write_chunk ::
  "string \<Rightarrow> (int \<Rightarrow> int \<Rightarrow> progress_update) \<Rightarrow> stream_read \<Rightarrow> ftp_xfer \<Rightarrow> flow \<times> ftp_xfer" where
  "write_chunk partial rep ev x =
     (case wait_limited (srd_waits ev) (int (length (srd_bytes ev))) (fx_limiter x) of
        (None, l) \<Rightarrow> (Blocked, x\<lparr>fx_limiter := l\<rparr>)
      | (Some (Some e), l) \<Rightarrow> (Returned (Some e), x\<lparr>fx_limiter := l\<rparr>)
      | (Some None, l) \<Rightarrow>
          (case store_bytes partial ev (x\<lparr>fx_limiter := l\<rparr>) of
             (Some e, x) \<Rightarrow> (Returned (Some e), x)
           | (None, x) \<Rightarrow> (Going, report_speed rep (srd_now ev) x)))"

definition read_step ::
  "string \<Rightarrow> (int \<Rightarrow> int \<Rightarrow> progress_update) \<Rightarrow> stream \<Rightarrow> stream_read \<Rightarrow> ftp_xfer \<Rightarrow> flow \<times> ftp_xfer" where
  "read_step partial rep stm ev x =
     (case srd_ctx ev of
        Some e \<Rightarrow> (Returned (Some e), x)
      | None \<Rightarrow>
          (case (if srd_bytes ev = [] then (Going, x) else write_chunk partial rep ev x) of
             (Going, x) \<Rightarrow>
               (case srd_end ev of
                  ReadMore \<Rightarrow> (Going, x)
                | ReadFail e \<Rightarrow> (Returned (Some e), x)
                | ReadEOF \<Rightarrow>
                    (case stm_close stm of
                       Some e \<Rightarrow> (Returned (Some (wrap_error tx_unconfirmed e)), x)
                     | None \<Rightarrow>
                         (case stm_ctx stm of
                            Some e \<Rightarrow> (Returned (Some e), x)
                          | None \<Rightarrow> (Returned (stm_file_close stm), x))))
           | r \<Rightarrow> r))"

fun read_loop ::
  "string \<Rightarrow> (int \<Rightarrow> int \<Rightarrow> progress_update) \<Rightarrow> stream \<Rightarrow> stream_read list \<Rightarrow> ftp_xfer \<Rightarrow> flow \<times> ftp_xfer" where
  "read_loop partial rep stm [] x = (Going, x)"
| "read_loop partial rep stm (ev # evs) x =
     (case read_step partial rep stm ev x of
        (Going, x') \<Rightarrow> read_loop partial rep stm evs x' | r \<Rightarrow> r)"

text \<open>Opening the data stream: when resuming is refused the partial file starts again.\<close>

definition open_stream :: "string \<Rightarrow> attempt \<Rightarrow> ftp_xfer \<Rightarrow> (goerr + stream) \<times> ftp_xfer" where
  "open_stream partial a x =
     (if fx_received x > 0 then
        (case att_resume a (fx_received x) of
           Inr s \<Rightarrow> (Inr s, x)
         | Inl _ \<Rightarrow>
             (case os_truncate (fx_fs x) partial of
                (Some e, fs) \<Rightarrow> (Inl e, x\<lparr>fx_received := 0, fx_fs := fs\<rparr>)
              | (None, fs) \<Rightarrow>
                  (map_sum (wrap_error tx_open_stream) id (att_retr a), x\<lparr>fx_received := 0, fx_fs := fs\<rparr>)))
      else (map_sum (wrap_error tx_open_stream) id (att_retr a), x))"

definition transfer ::
  "string \<Rightarrow> (int \<Rightarrow> int \<Rightarrow> progress_update) \<Rightarrow> attempt \<Rightarrow> ftp_xfer \<Rightarrow> flow \<times> ftp_xfer" where
  "transfer partial rep a x =
     (case att_dial a of
        Some e \<Rightarrow> (Returned (Some e), x)
      | None \<Rightarrow>
          (case open_stream partial a x of
             (Inl e, x) \<Rightarrow> (Returned (Some e), x)
           | (Inr s, x) \<Rightarrow>
               (case os_open_write (fx_fs x) partial of
                  (Some e, fs) \<Rightarrow> (Returned (Some e), x\<lparr>fx_fs := fs\<rparr>)
                | (None, fs) \<Rightarrow>
                    read_loop partial rep s (stm_reads s)
                      (x\<lparr>fx_fs := fs, fx_last_at := stm_start s, fx_last_bytes := fx_received x\<rparr>))))"

section \<open>Retries\<close>

text \<open>The loop of \<open>Run\<close> and of \<open>downloadDirectoryFile\<close>: Some is what it returns.\<close>

fun retry_loop ::
  "string \<Rightarrow> (int \<Rightarrow> int \<Rightarrow> progress_update) \<Rightarrow> int \<Rightarrow> attempt list \<Rightarrow> int \<Rightarrow> ftp_xfer \<Rightarrow>
   goerr option option \<times> ftp_xfer" where
  "retry_loop partial rep max_retries [] failures x = (None, x)"
| "retry_loop partial rep max_retries (a # as) failures x =
     (case transfer partial rep a x of
        (Returned None, x') \<Rightarrow> (Some None, x')
      | (Returned (Some e), x') \<Rightarrow>
          (case att_ctx a of
             Some c \<Rightarrow> (Some (Some c), x')
           | None \<Rightarrow>
               (let failures = (if fx_received x' > fx_received x then 0 else failures) + 1 in
                if failures > max_retries then (Some (Some e), x')
                else case att_sleep a of
                  Some c \<Rightarrow> (Some (Some c), x')
                | None \<Rightarrow> retry_loop partial rep max_retries as failures x'))
      | (_, x') \<Rightarrow> (None, x'))"

section \<open>A file\<close>

definition truncate_partial :: "string \<Rightarrow> int \<Rightarrow> bool \<Rightarrow> fsys \<Rightarrow> (goerr + int) \<times> fsys" where
  "truncate_partial partial offset needed fs =
     (if \<not> needed then (Inr offset, fs)
      else case os_truncate fs partial of (Some e, fs) \<Rightarrow> (Inl e, fs) | (None, fs) \<Rightarrow> (Inr 0, fs))"

text \<open>The size of the partial file; a missing one has none.\<close>

definition partial_size :: "fsys \<Rightarrow> string \<Rightarrow> int result" where
  "partial_size fs partial =
     (case os_stat fs partial of
        Inr n \<Rightarrow> Inr (node_size n)
      | Inl e \<Rightarrow> if err_not_exist e then Inr 0 else Inl e)"

definition start_xfer :: "limiter option \<Rightarrow> progress_update list \<Rightarrow> int \<Rightarrow> fsys \<Rightarrow> ftp_xfer" where
  "start_xfer l reports received fs =
     \<lparr>fx_fs = fs, fx_received = received, fx_limiter = l, fx_last_at = 0, fx_last_bytes = received,
      fx_reports = reports\<rparr>"

definition mismatch_text :: "int \<Rightarrow> int \<Rightarrow> string" where
  "mismatch_text received expected = tx_received @ itoa received @ tx_expected @ itoa expected"

definition completed_update :: "int \<Rightarrow> string \<Rightarrow> progress_update" where
  "completed_update received detail = (ftp_update received received 0 detail)\<lparr>upd_progress := 100\<rparr>"

definition finish_file :: "string \<Rightarrow> string \<Rightarrow> int \<Rightarrow> ftp_xfer \<Rightarrow> goerr option \<times> ftp_xfer" where
  "finish_file partial output file_size x =
     (if file_size > 0 \<and> fx_received x \<noteq> file_size
      then (Some (new_error (tx_mismatch @ mismatch_text (fx_received x) file_size)), x)
      else case remove_old (fx_fs x) output of
        (Some e, fs) \<Rightarrow> (Some e, x\<lparr>fx_fs := fs\<rparr>)
      | (None, fs) \<Rightarrow>
          (case os_rename fs partial output of
             (Some e, fs) \<Rightarrow> (Some (wrap_error tx_finish e), x\<lparr>fx_fs := fs\<rparr>)
           | (None, fs) \<Rightarrow>
               (None, x\<lparr>fx_fs := fs, fx_reports := fx_reports x @
                  [completed_update (fx_received x) tx_done]\<rparr>)))"

definition run_file :: "task \<Rightarrow> limiter option \<Rightarrow> attempt list \<Rightarrow> fsys \<Rightarrow> goerr option option \<times> ftp_xfer" where
  "run_file t l attempts fs =
     (let output = output_file t; partial = output @ ''.part''; n = tsk_file_size t in
      case partial_size fs partial of
        Inl e \<Rightarrow> (Some (Some e), start_xfer l [] 0 fs)
      | Inr offset \<Rightarrow>
          (case truncate_partial partial offset (n \<le> 0 \<and> offset > 0 \<or> n > 0 \<and> offset > n) fs of
             (Inl e, fs) \<Rightarrow> (Some (Some e), start_xfer l [] 0 fs)
           | (Inr received, fs) \<Rightarrow>
               (case retry_loop partial (\<lambda>r speed. ftp_update r n speed tx_downloading)
                   (stg_max_retries (tsk_stage t)) attempts 0
                   (start_xfer l [ftp_update received n 0 tx_connecting] received fs) of
                  (Some None, x) \<Rightarrow> (case finish_file partial output n x of (err, x) \<Rightarrow> (Some err, x))
                | r \<Rightarrow> r)))"

section \<open>A directory\<close>

definition prepare_directory_root :: "unicode \<Rightarrow> fsys \<Rightarrow> string \<Rightarrow> string \<Rightarrow> goerr option \<times> fsys" where
  "prepare_directory_root u fs base tid =
     (let marker = fp_join [base, ftp_directory_owner_marker] in
      case os_lstat fs base of
        Inl e \<Rightarrow>
          if \<not> err_not_exist e then (Some e, fs)
          else (case os_lstat (put_node base NDir fs) marker of
              Inr _ \<Rightarrow> (Some (new_error ''file exists''), put_node base NDir fs)
            | Inl e \<Rightarrow> if err_not_exist e
                then (None, put_node marker (NFile (tid @ [CHR 0x0A])) (put_node base NDir fs))
                else (Some e, put_node base NDir fs))
      | Inr NDir \<Rightarrow>
          (case os_lstat fs marker of
             Inl e \<Rightarrow> (Some (wrap_error ''FTP directory ownership marker: '' e), fs)
           | Inr (NFile owner) \<Rightarrow>
               (if trim_space owner \<noteq> tid
                then Some (new_error (''FTP directory '' @ quote u base @ '' belongs to another task''))
                else None, fs)
           | Inr _ \<Rightarrow> (Some (new_error (''FTP directory '' @ quote u base
                @ '' has an invalid ownership marker'')), fs))
      | Inr _ \<Rightarrow> (Some (new_error (''FTP directory '' @ quote u base
           @ '' is not a task-owned directory'')), fs))"

text \<open>\<open>sha\<close> is the hexadecimal SHA-256 of a file's bytes.\<close>

definition file_sha256 :: "(string \<Rightarrow> string) \<Rightarrow> fsys \<Rightarrow> string \<Rightarrow> string result" where
  "file_sha256 sha fs p =
     (case os_stat fs p of
        Inl e \<Rightarrow> Inl e | Inr (NFile c) \<Rightarrow> Inr (sha c) | Inr _ \<Rightarrow> Inl (new_error ''is a directory''))"

definition completed_file_matches ::
  "(string \<Rightarrow> string) \<Rightarrow> fsys \<Rightarrow> string \<Rightarrow> string \<Rightarrow> int \<Rightarrow> bool" where
  "completed_file_matches sha fs output completion file_size =
     (case os_stat fs output of
        Inr (NFile c) \<Rightarrow>
          if file_size \<ge> 0 \<and> int (length c) \<noteq> file_size then False
          else (case os_read_file fs completion of
              Inl _ \<Rightarrow> False
            | Inr want \<Rightarrow> file_sha256 sha fs output = Inr (trim_space want))
      | _ \<Rightarrow> False)"

definition write_completion_marker ::
  "(string \<Rightarrow> string) \<Rightarrow> fsys \<Rightarrow> string \<Rightarrow> string \<Rightarrow> goerr option \<times> fsys" where
  "write_completion_marker sha fs output completion =
     (case file_sha256 sha fs output of
        Inl e \<Rightarrow> (Some e, fs)
      | Inr digest \<Rightarrow>
          (let temporary = completion @ ''.tmp'' in
           and_then (os_mkdir_all fs (fp_dir completion)) (\<lambda>fs.
           and_then (os_write_file fs temporary (digest @ [CHR 0x0A])) (\<lambda>fs.
             case and_then (remove_old fs completion) (\<lambda>fs. os_rename fs temporary completion) of
               (err, fs) \<Rightarrow> (err, snd (os_remove fs temporary))))))"

definition finish_directory_file ::
  "unicode \<Rightarrow> (string \<Rightarrow> string) \<Rightarrow> string \<Rightarrow> string \<Rightarrow> string \<Rightarrow> string \<Rightarrow> int \<Rightarrow> ftp_xfer \<Rightarrow>
   goerr option \<times> ftp_xfer" where
  "finish_directory_file u sha remote partial output completion file_size x =
     (if file_size \<ge> 0 \<and> fx_received x \<noteq> file_size
      then (Some (new_error (tx_mismatch @ quote u remote @ '' '' @
          mismatch_text (fx_received x) file_size)), x)
      else case remove_old (fx_fs x) output of
        (Some e, fs) \<Rightarrow> (Some e, x\<lparr>fx_fs := fs\<rparr>)
      | (None, fs) \<Rightarrow>
          (case os_rename fs partial output of
             (Some e, fs) \<Rightarrow> (Some (wrap_error (tx_finish_file @ quote u remote @ tx_colon) e), x\<lparr>fx_fs := fs\<rparr>)
           | (None, fs) \<Rightarrow>
               (case write_completion_marker sha fs output completion of
                  (Some e, fs) \<Rightarrow>
                    (Some (wrap_error (tx_marker @ quote u remote @ tx_colon) e), x\<lparr>fx_fs := fs\<rparr>)
                | (None, fs) \<Rightarrow> (None, x\<lparr>fx_fs := fs\<rparr>))))"

text \<open>
  The file when it is not complete yet, and the whole function; the number of bytes it returns is
  \<open>fx_received\<close>.
\<close>

definition download_missing ::
  "unicode \<Rightarrow> (string \<Rightarrow> string) \<Rightarrow> string \<Rightarrow> string \<Rightarrow> string \<Rightarrow> int \<Rightarrow> int \<Rightarrow>
   (int \<Rightarrow> int \<Rightarrow> string \<Rightarrow> progress_update) \<Rightarrow> attempt list \<Rightarrow> ftp_xfer \<Rightarrow>
   goerr option option \<times> ftp_xfer" where
  "download_missing u sha remote output completion file_size max_retries rep attempts x =
     (let partial = output @ ''.part'' in
      case partial_size (fx_fs x) partial of
        Inl e \<Rightarrow> (Some (Some e), x)
      | Inr offset \<Rightarrow>
          (case truncate_partial partial offset
              (file_size < 0 \<and> offset > 0 \<or> file_size \<ge> 0 \<and> offset > file_size) (fx_fs x) of
             (Inl e, fs) \<Rightarrow> (Some (Some e), x\<lparr>fx_fs := fs\<rparr>)
           | (Inr received, fs) \<Rightarrow>
               (case retry_loop partial (\<lambda>r speed. rep r speed tx_downloading_dir) max_retries attempts 0
                   (start_xfer (fx_limiter x) (fx_reports x @ [rep received 0 tx_connecting_dir])
                     received fs) of
                  (Some None, x) \<Rightarrow>
                    (case finish_directory_file u sha remote partial output completion file_size x of
                       (err, x) \<Rightarrow> (Some err, x))
                | r \<Rightarrow> r)))"

definition download_directory_file ::
  "unicode \<Rightarrow> (string \<Rightarrow> string) \<Rightarrow> string \<Rightarrow> string \<Rightarrow> string \<Rightarrow> int \<Rightarrow> int \<Rightarrow>
   (int \<Rightarrow> int \<Rightarrow> string \<Rightarrow> progress_update) \<Rightarrow> attempt list \<Rightarrow> ftp_xfer \<Rightarrow>
   goerr option option \<times> ftp_xfer" where
  "download_directory_file u sha remote output completion file_size max_retries rep attempts x =
     (if completed_file_matches sha (fx_fs x) output completion file_size
      then (case os_stat (fx_fs x) output of
          Inl e \<Rightarrow> (Some (Some e), x)
        | Inr n \<Rightarrow> (Some None, x\<lparr>fx_received := node_size n\<rparr>))
      else case os_stat (fx_fs x) output of
        Inl e \<Rightarrow>
          if \<not> err_not_exist e then (Some (Some e), x)
          else download_missing u sha remote output completion file_size max_retries rep attempts x
      | Inr _ \<Rightarrow> download_missing u sha remote output completion file_size max_retries rep attempts x)"

text \<open>
  The checks on an entry of the list: its path must be one that the listing makes, lie below the
  output and, for a file, come from below the remote directory.
\<close>

definition check_entry ::
  "unicode \<Rightarrow> string \<Rightarrow> string \<Rightarrow> directory_entry \<Rightarrow> seen \<Rightarrow> seen result" where
  "check_entry u cwd base e seen =
     (case safe_relative_path u (den_relative_path e) (den_directory e) seen of
        Inl _ \<Rightarrow> Inl (new_error (tx_bad_item @ quote u (den_relative_path e)))
      | Inr (normalized, seen) \<Rightarrow>
          if normalized \<noteq> den_relative_path e \<or> den_size e < - 1
          then Inl (new_error (tx_bad_item @ quote u (den_relative_path e)))
          else (case directory_output_path u cwd base (den_relative_path e) of
              Inl err \<Rightarrow> Inl err | Inr _ \<Rightarrow> Inr seen))"

definition completion_path :: "unicode \<Rightarrow> string \<Rightarrow> task \<Rightarrow> directory_entry \<Rightarrow> string result" where
  "completion_path u cwd t e =
     (case directory_output_path u cwd (fp_join [tsk_path t, ''.gd3_ftp'', tsk_id t])
         (den_relative_path e @ ''.complete'') of
        Inl err \<Rightarrow> Inl err
      | Inr p \<Rightarrow> fp_rel u (tsk_path t) p)"

text \<open>One entry, with the bytes received before it; \<open>ctx\<close> is the context's error at its start.\<close>

definition directory_step ::
  "unicode \<Rightarrow> (string \<Rightarrow> string) \<Rightarrow> task \<Rightarrow> source_info \<Rightarrow> string \<Rightarrow> directory_entry \<Rightarrow>
   goerr option \<Rightarrow> attempt list \<Rightarrow> int \<Rightarrow> seen \<Rightarrow> ftp_xfer \<Rightarrow>
   goerr option option \<times> int \<times> seen \<times> ftp_xfer" where
  "directory_step u sha t info base e ctx attempts received seen x =
     (let stop = (\<lambda>err. (Some (Some err), received, seen, x)); cwd = fs_cwd (fx_fs x);
          local = fp_join [base, from_slash (den_relative_path e)] in
      case ctx of
        Some c \<Rightarrow> stop c
      | None \<Rightarrow>
          (case check_entry u cwd base e seen of
             Inl err \<Rightarrow> stop err
           | Inr seen \<Rightarrow>
               if den_directory e
               then (case os_mkdir_all (fx_fs x) local of
                   (err, fs) \<Rightarrow> (Some err, received, seen, x\<lparr>fx_fs := fs\<rparr>))
               else if \<not> remote_child (src_remote_path info) (den_remote_path e)
               then stop (new_error (tx_outside_remote @ quote u (den_remote_path e)))
               else (case os_mkdir_all (fx_fs x) (fp_dir local) of
                   (Some err, fs) \<Rightarrow> (Some (Some err), received, seen, x\<lparr>fx_fs := fs\<rparr>)
                 | (None, fs) \<Rightarrow>
                     (case completion_path u cwd t e of
                        Inl err \<Rightarrow> (Some (Some err), received, seen, x\<lparr>fx_fs := fs\<rparr>)
                      | Inr completion \<Rightarrow>
                          (case download_directory_file u sha (den_remote_path e) local
                              (fp_join [tsk_path t, completion]) (den_size e)
                              (stg_max_retries (tsk_stage t))
                              (\<lambda>current speed detail. ftp_update (received + current)
                                 (tsk_file_size t) speed (detail @ tx_colon @ den_relative_path e))
                              attempts (x\<lparr>fx_fs := fs\<rparr>) of
                             (r, x') \<Rightarrow> (r, if r = Some None then received + fx_received x' else received,
                               seen, x'))))))"

fun directory_loop ::
  "unicode \<Rightarrow> (string \<Rightarrow> string) \<Rightarrow> task \<Rightarrow> source_info \<Rightarrow> string \<Rightarrow>
   (directory_entry \<times> goerr option \<times> attempt list) list \<Rightarrow> int \<Rightarrow> seen \<Rightarrow> ftp_xfer \<Rightarrow>
   goerr option option \<times> int \<times> ftp_xfer" where
  "directory_loop u sha t info base [] received seen x = (Some None, received, x)"
| "directory_loop u sha t info base ((e, ctx, attempts) # es) received seen x =
     (case directory_step u sha t info base e ctx attempts received seen x of
        (Some None, received', seen', x') \<Rightarrow> directory_loop u sha t info base es received' seen' x'
      | (r, received', _, x') \<Rightarrow> (r, received', x'))"

text \<open>
  \<open>decode\<close> is \<open>json.Unmarshal\<close> on the list; the i-th entry meets the i-th element of \<open>world\<close>.
  Opening the two roots fails where a call on their paths does.
\<close>

definition run_directory ::
  "unicode \<Rightarrow> (string \<Rightarrow> string) \<Rightarrow> (string \<Rightarrow> directory_entry list result) \<Rightarrow> task \<Rightarrow> source_info \<Rightarrow>
   limiter option \<Rightarrow> (nat \<Rightarrow> goerr option \<times> attempt list) \<Rightarrow> fsys \<Rightarrow>
   goerr option option \<times> ftp_xfer" where
  "run_directory u sha decode t info l world fs =
     (case decode (map_get (stg_state (tsk_stage t)) ''entries'') of
        Inl e \<Rightarrow> (Some (Some (wrap_error tx_read_list e)), start_xfer l [] 0 fs)
      | Inr entries \<Rightarrow>
          (let base = output_file t in
           case prepare_directory_root u fs base (tsk_id t) of
             (Some e, fs) \<Rightarrow> (Some (Some e), start_xfer l [] 0 fs)
           | (None, fs) \<Rightarrow>
               (case (os_stat fs base, os_stat fs (tsk_path t)) of
                  (Inl e, _) \<Rightarrow> (Some (Some e), start_xfer l [] 0 fs)
                | (_, Inl e) \<Rightarrow> (Some (Some e), start_xfer l [] 0 fs)
                | _ \<Rightarrow>
                    (case directory_loop u sha t info base
                        (map (\<lambda>i. (entries ! i, world i)) [0..<length entries]) 0 Map.empty
                        (start_xfer l [] 0 fs) of
                       (Some None, received, x) \<Rightarrow>
                         (Some None, x\<lparr>fx_reports := fx_reports x @ [completed_update received tx_dir_done]\<rparr>)
                     | (r, _, x) \<Rightarrow> (r, x)))))"

definition run_ftp ::
  "unicode \<Rightarrow> (string \<Rightarrow> string) \<Rightarrow> (string \<Rightarrow> directory_entry list result) \<Rightarrow> task \<Rightarrow>
   limiter option \<Rightarrow> (nat \<Rightarrow> goerr option \<times> attempt list) \<Rightarrow> fsys \<Rightarrow>
   goerr option option \<times> ftp_xfer" where
  "run_ftp u sha decode t l world fs =
     (case source_from_task t of
        Inl e \<Rightarrow> (Some (Some e), start_xfer l [] 0 fs)
      | Inr info \<Rightarrow>
          (case os_mkdir_all fs (tsk_path t) of
             (Some e, fs) \<Rightarrow> (Some (Some e), start_xfer l [] 0 fs)
           | (None, fs) \<Rightarrow>
               if src_directory info then run_directory u sha decode t info l world fs
               else run_file t l (snd (world 0)) fs))"

end
