(* ===== verification/FtpListing.thy ===== *)
theory FtpListing
  imports FtpNames FtpWorker "HOL-Library.Multiset"
begin

text \<open>
  The listing of a remote directory, \<open>listDirectory\<close>, and its reading back by \<open>runDirectory\<close>:
  every entry listed is safe and comes from below the remote directory, and the sorted list is
  accepted by the checks of the run.
\<close>

section \<open>What one round of the walk adds\<close>

definition shown :: "walked \<Rightarrow> bool" where
  "shown w \<longleftrightarrow> (case wlk_entry w of Some (kind, _) \<Rightarrow> kind \<noteq> EntryLink | None \<Rightarrow> False)"

definition is_folder :: "walked \<Rightarrow> bool" where
  "is_folder w \<longleftrightarrow> (case wlk_entry w of Some (kind, _) \<Rightarrow> kind = EntryFolder | None \<Rightarrow> False)"

definition parts_of :: "string \<Rightarrow> walked \<Rightarrow> string list" where
  "parts_of pre w = split_on slash (trim_prefix (path_clean (wlk_path w)) pre)"

definition names_of :: "unicode \<Rightarrow> string \<Rightarrow> walked \<Rightarrow> string list" where
  "names_of u pre w = map (safe_file_name u) (parts_of pre w)"

definition sizes_ok :: "ftp_conn \<Rightarrow> bool" where
  "sizes_ok conn \<longleftrightarrow> (\<forall>p n. fc_file_size conn p = Inr n \<longrightarrow> - 1 \<le> n)"

definition entry_of :: "unicode \<Rightarrow> ftp_conn \<Rightarrow> string \<Rightarrow> walked \<Rightarrow> directory_entry \<Rightarrow> bool" where
  "entry_of u conn pre w e \<longleftrightarrow>
     den_remote_path e = path_clean (wlk_path w) \<and> prefix pre (den_remote_path e) \<and>
     den_remote_path e \<noteq> pre \<and>
     den_relative_path e = join_with ''/'' (names_of u pre w) \<and> \<not> marker_first u (names_of u pre w) \<and>
     den_directory e = is_folder w \<and> (sizes_ok conn \<longrightarrow> - 1 \<le> den_size e) \<and>
     (is_folder w \<longrightarrow> den_size e = 0)"

definition entry_keys :: "unicode \<Rightarrow> directory_entry \<Rightarrow> (string \<times> bool) list" where
  "entry_keys u e = path_keys u (den_directory e) [] (split_on slash (den_relative_path e))"

lemma slash_eq: "[slash] = ''/''"
  by (simp add: slash_def)

lemma names_of_split:
  assumes "upper_ok u"
  shows "split_on slash (join_with ''/'' (names_of u pre w)) = names_of u pre w"
  unfolding slash_eq[symmetric]
proof (rule split_join)
  show "names_of u pre w \<noteq> []" by (simp add: names_of_def parts_of_def)
  show "n \<in> set (names_of u pre w) \<Longrightarrow> slash \<notin> set n" for n
    using safe_file_name_props[OF assms] safe_name_no_slash by (auto simp: names_of_def)
qed

lemma entry_keys_of:
  "upper_ok u \<Longrightarrow> entry_of u conn pre w e \<Longrightarrow> entry_keys u e = path_keys u (is_folder w) [] (names_of u pre w)"
  by (simp add: entry_keys_def entry_of_def names_of_split)

lemma append_entry_Inr:
  "append_entry item l = Inr l' \<Longrightarrow> l' = l\<lparr>lst_entries := lst_entries l @ [item]\<rparr>"
  by (auto simp: append_entry_def Let_def split: if_splits)

lemma entry_size_ok: "sizes_ok conn \<Longrightarrow> entry_size conn p n = (b, known) \<Longrightarrow> - 1 \<le> b"
  by (auto simp: entry_size_def sizes_ok_def split: if_splits sum.splits)

lemma list_entry_Inr:
  assumes u: "upper_ok u" and l: "list_entry u conn pre w l = Inr l'"
  shows "\<not> shown w \<and> l' = l \<or>
    shown w \<and> (\<exists>e. entry_of u conn pre w e \<and> lst_entries l' = lst_entries l @ [e] \<and>
      accept (entry_keys u e) (lst_seen l) = Some (lst_seen l') \<and>
      lst_total l' = lst_total l + (if den_size e \<ge> 0 then den_size e else 0) \<and>
      (lst_total l \<le> max_int64 \<longrightarrow> lst_total l' \<le> max_int64))"
proof (cases "shown w")
  case False
  then have "l' = l" using l by (auto simp: list_entry_def shown_def split: option.splits prod.splits entry_type.splits)
  with False show ?thesis by simp
next
  case True
  then obtain kind n where kind: "wlk_entry w = Some (kind, n)" "kind \<noteq> EntryLink"
    by (auto simp: shown_def split: option.splits)
  have folder: "is_folder w = (kind = EntryFolder)" by (simp add: is_folder_def kind)
  let ?remote = "path_clean (wlk_path w)"
  have pre: "prefix pre ?remote" "trim_prefix ?remote pre \<noteq> []"
    using l kind by (auto simp: list_entry_def Let_def split: entry_type.splits if_splits)
  then have npre: "?remote \<noteq> pre" by (auto simp: trim_prefix_def)
  obtain local seen where s: "safe_relative_path u (trim_prefix ?remote pre) (kind = EntryFolder)
      (lst_seen l) = Inr (local, seen)"
    using l kind pre by (auto simp: list_entry_def Let_def split: entry_type.splits if_splits sum.splits)
  then have a: "\<not> marker_first u (names_of u pre w)" "local = join_with ''/'' (names_of u pre w)"
    "accept (path_keys u (is_folder w) [] (names_of u pre w)) (lst_seen l) = Some seen"
    by (auto simp: safe_relative_path_iff names_of_def parts_of_def folder)
  let ?item = "\<lparr>den_remote_path = ?remote, den_relative_path = local, den_size = 0,
      den_directory = (kind = EntryFolder)\<rparr>"
  have item: "entry_of u conn pre w (?item\<lparr>den_size := b\<rparr>)"
    if "sizes_ok conn \<longrightarrow> - 1 \<le> b" "kind = EntryFolder \<longrightarrow> b = 0" for b
    using that pre npre a folder by (simp add: entry_of_def)
  show ?thesis
  proof (cases "kind = EntryFolder")
    case True
    then have "append_entry ?item (l\<lparr>lst_seen := seen\<rparr>) = Inr l'"
      using l kind pre s by (simp add: list_entry_def Let_def)
    then have l': "l' = l\<lparr>lst_seen := seen, lst_entries := lst_entries l @ [?item]\<rparr>"
      by (auto dest!: append_entry_Inr)
    have e: "entry_of u conn pre w ?item" using item[of 0] True by simp
    show ?thesis
      using \<open>shown w\<close> e a(3) entry_keys_of[OF u e] by (intro disjI2 conjI exI[of _ ?item]) (simp_all add: l')
  next
    case False
    obtain b known where b: "entry_size conn ?remote n = (b, known)" by fastforce
    have "\<not> (b \<ge> 0 \<and> b > max_int64 - lst_total l)" and
      "append_entry (?item\<lparr>den_size := b\<rparr>) (l\<lparr>lst_seen := seen,
        lst_total := lst_total l + (if b \<ge> 0 then b else 0),
        lst_total_known := (lst_total_known l \<and> known)\<rparr>) = Inr l'"
      using l kind pre s b False
      by (auto simp: list_entry_def Let_def split: entry_type.splits option.splits if_splits)
    then have tot: "b \<ge> 0 \<longrightarrow> b \<le> max_int64 - lst_total l" and l': "l' = l\<lparr>lst_seen := seen,
        lst_total := lst_total l + (if b \<ge> 0 then b else 0),
        lst_total_known := (lst_total_known l \<and> known),
        lst_entries := lst_entries l @ [?item\<lparr>den_size := b\<rparr>]\<rparr>"
      by (auto dest!: append_entry_Inr)
    have tot': "lst_total l \<le> max_int64 \<longrightarrow> lst_total l + (if b \<ge> 0 then b else 0) \<le> max_int64"
      using tot by (cases "0 \<le> b") simp_all
    have e: "entry_of u conn pre w (?item\<lparr>den_size := b\<rparr>)"
      using item[of b] False entry_size_ok[OF _ b] by simp
    show ?thesis
      using \<open>shown w\<close> e a(3) entry_keys_of[OF u e] tot'
      by (intro disjI2 conjI exI[of _ "?item\<lparr>den_size := b\<rparr>"]) (simp_all add: l')
  qed
qed

section \<open>The whole walk\<close>

fun accept_all :: "(string \<times> bool) list list \<Rightarrow> seen \<Rightarrow> seen option" where
  "accept_all [] seen = Some seen"
| "accept_all (kfs # rest) seen =
     (case accept kfs seen of None \<Rightarrow> None | Some seen' \<Rightarrow> accept_all rest seen')"

definition known_bytes :: "directory_entry list \<Rightarrow> int" where
  "known_bytes es = sum_list (map (\<lambda>e. if den_size e \<ge> 0 then den_size e else 0) es)"

lemma list_walk_Inr:
  assumes "upper_ok u" and "list_walk u conn pre ws l = Inr l'"
  shows "\<exists>es. lst_entries l' = lst_entries l @ es \<and> list_all2 (entry_of u conn pre) (filter shown ws) es \<and>
    accept_all (map (entry_keys u) es) (lst_seen l) = Some (lst_seen l') \<and>
    lst_total l' = lst_total l + known_bytes es \<and>
    (lst_total l \<le> max_int64 \<longrightarrow> lst_total l' \<le> max_int64)"
  using assms(2)
proof (induction ws arbitrary: l)
  case (Cons w ws)
  then obtain l1 where l1: "list_entry u conn pre w l = Inr l1" "list_walk u conn pre ws l1 = Inr l'"
    by (auto split: sum.splits)
  obtain es where es: "lst_entries l' = lst_entries l1 @ es"
    "list_all2 (entry_of u conn pre) (filter shown ws) es"
    "accept_all (map (entry_keys u) es) (lst_seen l1) = Some (lst_seen l')"
    "lst_total l' = lst_total l1 + known_bytes es"
    "lst_total l1 \<le> max_int64 \<longrightarrow> lst_total l' \<le> max_int64"
    using Cons.IH[OF l1(2)] by blast
  from list_entry_Inr[OF assms(1) l1(1)] show ?case
  proof (elim disjE conjE exE)
    assume "\<not> shown w" "l1 = l"
    with es show ?thesis by auto
  next
    fix e
    assume "shown w" "entry_of u conn pre w e" "lst_entries l1 = lst_entries l @ [e]"
      "accept (entry_keys u e) (lst_seen l) = Some (lst_seen l1)"
      "lst_total l1 = lst_total l + (if den_size e \<ge> 0 then den_size e else 0)"
      "lst_total l \<le> max_int64 \<longrightarrow> lst_total l1 \<le> max_int64"
    with es show ?thesis by (intro exI[of _ "e # es"]) (simp add: known_bytes_def)
  qed
qed (simp add: known_bytes_def)

text \<open>The last key of an entry is its path in lower case.\<close>

definition leaf :: "unicode \<Rightarrow> directory_entry \<Rightarrow> string" where
  "leaf u e = to_lower u (den_relative_path e)"

lemma path_keys_last:
  "ns \<noteq> [] \<Longrightarrow> last (path_keys u d local ns) = (to_lower u (join_with ''/'' (local @ ns)), d)"
  by (induction ns arbitrary: local) auto

lemma entry_keys_last: "fst (last (entry_keys u e)) = leaf u e"
  using join_split[of slash] by (simp add: entry_keys_def path_keys_last leaf_def slash_eq)

lemma entry_keys_not_Nil [simp]: "entry_keys u e \<noteq> []"
  by (simp add: entry_keys_def)

lemma path_keys_nth:
  "map fst (path_keys u d local ns) =
     map (\<lambda>j. to_lower u (join_with ''/'' (local @ take (Suc j) ns))) [0..<length ns]"
proof (induction ns arbitrary: local)
  case (Cons n ns)
  then show ?case by (simp add: upt_conv_Cons map_Suc_upt[symmetric] comp_def del: upt_Suc)
qed simp

text \<open>The other keys are those of the paths above it.\<close>

lemma entry_keys_above:
  assumes "k \<in> keys_of (entry_keys u e)"
  shows "k = leaf u e \<or> (\<exists>j. 0 < j \<and> j < length (split_on slash (den_relative_path e)) \<and>
    k = to_lower u (join_with ''/'' (take j (split_on slash (den_relative_path e)))))"
proof -
  let ?ns = "split_on slash (den_relative_path e)"
  have "k \<in> set (map fst (entry_keys u e))" using assms by (simp add: keys_of_def)
  then obtain j where j: "j < length ?ns" "k = to_lower u (join_with ''/'' (take (Suc j) ?ns))"
    unfolding entry_keys_def path_keys_nth by auto
  show ?thesis
  proof (cases "Suc j = length ?ns")
    case True
    with j show ?thesis using join_split[of slash] by (simp add: leaf_def slash_eq)
  next
    case False
    with j show ?thesis by (intro disjI2 exI[of _ "Suc j"]) simp
  qed
qed

section \<open>The list is safe\<close>

lemma accept_all_leaves:
  assumes "accept_all (map (entry_keys u) es) seen = Some seen'"
  shows "distinct (map (leaf u) es) \<and> leaf u ` set es \<inter> dom seen = {} \<and>
    (\<forall>k f. seen k = Some f \<longrightarrow> seen' k = Some f) \<and>
    (\<forall>e\<in>set es. \<forall>(k, f)\<in>set (entry_keys u e). seen' k = Some f)"
  using assms
proof (induction es arbitrary: seen)
  case (Cons e es)
  then obtain s1 where s1: "accept (entry_keys u e) seen = Some s1"
    "accept_all (map (entry_keys u) es) s1 = Some seen'" by (auto split: option.splits)
  note a = acceptD[OF s1(1)] and ih = Cons.IH[OF s1(2)]
  have "last (entry_keys u e) \<in> set (entry_keys u e)" by simp
  then have "leaf u e \<in> keys_of (entry_keys u e)"
    unfolding keys_of_def entry_keys_last[symmetric] by (rule imageI)
  then have "leaf u e \<in> dom s1" using a(1) by blast
  moreover have "leaf u e \<notin> dom seen" using a(4) by (simp add: entry_keys_last)
  moreover have "dom seen \<subseteq> dom s1" using a(1) by blast
  ultimately show ?case using ih a(2,3) by (auto simp: disjoint_iff)
qed simp

lemma list_directory_Inr:
  assumes u: "upper_ok u" and l: "list_directory u conn base = Inr (es, n)"
  shows "\<exists>xs seen. es = sort_key den_relative_path xs \<and>
    list_all2 (entry_of u conn (remote_prefix (path_clean base))) (filter shown (fst (fc_walk conn base))) xs \<and>
    accept_all (map (entry_keys u) xs) Map.empty = Some seen \<and>
    (n = 0 \<or> n = known_bytes xs) \<and> n \<le> max_int64"
proof -
  let ?pre = "remote_prefix (path_clean base)"
  obtain ws err where w: "fc_walk conn base = (ws, err)" by fastforce
  then obtain l' where l': "list_walk u conn ?pre ws empty_listing = Inr l'"
    "es = sort_key den_relative_path (lst_entries l')"
    "n = (if lst_total_known l' then lst_total l' else 0)"
    using l by (auto simp: list_directory_def split: sum.splits option.splits)
  have "0 \<le> max_int64" by (simp add: max_int64_def)
  with list_walk_Inr[OF u l'(1)] l' w show ?thesis by (auto simp: empty_listing_def)
qed

lemma known_bytes_mset: "mset xs = mset ys \<Longrightarrow> known_bytes xs = known_bytes ys"
  unfolding known_bytes_def by (metis (no_types, lifting) mset_map sum_mset_sum_list)

lemma entry_of_child:
  assumes "entry_of u conn (remote_prefix (path_clean base)) w e"
  shows "remote_child base (den_remote_path e)"
proof -
  have c: "path_clean (den_remote_path e) = den_remote_path e"
    using assms by (simp add: entry_of_def path_clean_idem)
  have "den_remote_path e \<noteq> path_clean base"
  proof
    assume e: "den_remote_path e = path_clean base"
    then have "prefix (remote_prefix (path_clean base)) (path_clean base)"
      "path_clean base \<noteq> remote_prefix (path_clean base)"
      using assms by (auto simp: entry_of_def)
    then show False
      by (auto simp: remote_prefix_def trim_suffix_def suffix_def prefix_def split: if_splits)
  qed
  then show ?thesis using assms c by (auto simp: remote_child_def entry_of_def)
qed

text \<open>
  C29: every entry of a listed directory lies strictly below the directory on the server, its local
  path is made of names that are safe on Windows (no separator, reserved character, device name or
  trailing dot) and does not begin with the ownership marker, no two local paths are equal without
  case, the list is sorted, and the total is that of the known sizes, or 0, within \<open>int64\<close>.
\<close>

theorem listing_safe:
  assumes "upper_ok u" and "list_directory u conn base = Inr (es, n)"
  shows "(\<forall>e\<in>set es. remote_child base (den_remote_path e) \<and>
      (\<forall>c\<in>set (split_on slash (den_relative_path e)). safe_name u c) \<and>
      \<not> marker_first u (split_on slash (den_relative_path e))) \<and>
    distinct (map (\<lambda>e. to_lower u (den_relative_path e)) es) \<and>
    sorted (map den_relative_path es) \<and> (n = 0 \<or> n = known_bytes es) \<and> n \<le> max_int64"
proof -
  let ?pre = "remote_prefix (path_clean base)"
  obtain xs seen where x: "es = sort_key den_relative_path xs"
    "list_all2 (entry_of u conn ?pre) (filter shown (fst (fc_walk conn base))) xs"
    "accept_all (map (entry_keys u) xs) Map.empty = Some seen" "n = 0 \<or> n = known_bytes xs" "n \<le> max_int64"
    using list_directory_Inr[OF assms] by blast
  have made: "\<exists>w. entry_of u conn ?pre w e" if "e \<in> set es" for e
    using x(1,2) that by (auto simp: list_all2_conv_all_nth in_set_conv_nth)
  have "remote_child base (den_remote_path e) \<and>
      (\<forall>c\<in>set (split_on slash (den_relative_path e)). safe_name u c) \<and>
      \<not> marker_first u (split_on slash (den_relative_path e))" if e: "e \<in> set es" for e
  proof -
    obtain w where w: "entry_of u conn ?pre w e" using made[OF e] by blast
    then have "split_on slash (den_relative_path e) = names_of u ?pre w"
      using names_of_split[OF assms(1)] by (simp add: entry_of_def)
    then show ?thesis
      using w entry_of_child[OF w] safe_file_name_props[OF assms(1)]
      by (auto simp: entry_of_def names_of_def)
  qed
  moreover have "distinct (map (leaf u) xs)" using accept_all_leaves[OF x(3)] by simp
  then have "distinct (map (leaf u) es)"
    unfolding x(1) by (metis mset_map mset_sort mset_eq_imp_distinct_iff)
  moreover have "known_bytes es = known_bytes xs" unfolding x(1) by (rule known_bytes_mset) simp
  ultimately show ?thesis using x by (simp add: leaf_def[abs_def])
qed

section \<open>The list is read back\<close>

text \<open>The checks that the loop of \<open>runDirectory\<close> makes on the entries, in the list's order.\<close>

fun check_entries ::
  "unicode \<Rightarrow> string \<Rightarrow> string \<Rightarrow> directory_entry list \<Rightarrow> seen \<Rightarrow> seen result" where
  "check_entries u cwd base [] seen = Inr seen"
| "check_entries u cwd base (e # es) seen =
     (case check_entry u cwd base e seen of
        Inl err \<Rightarrow> Inl err | Inr seen' \<Rightarrow> check_entries u cwd base es seen')"

lemma accept_all_own:
  assumes "accept_all (map (entry_keys u) es) seen = Some seen'" and "e \<in> set es"
  shows "leaf u e \<notin> keys_of (butlast (entry_keys u e))"
  using assms
proof (induction es arbitrary: seen)
  case (Cons d es)
  then show ?case
    using accept_own_last[of "entry_keys u d" seen] entry_keys_last[of u d]
    by (auto split: option.splits)
qed simp

lemma append_greater: "(x::string) < x @ c # y"
  by (simp add: list_less_def lexord_append_rightI)

text \<open>Every directory above an entry has an entry itself.\<close>

definition closed_above :: "directory_entry list \<Rightarrow> bool" where
  "closed_above es \<longleftrightarrow>
     (\<forall>e\<in>set es. \<forall>j. 0 < j \<and> j < length (split_on slash (den_relative_path e)) \<longrightarrow>
        (\<exists>d\<in>set es. den_relative_path d = join_with ''/'' (take j (split_on slash (den_relative_path e)))))"

text \<open>In the sorted list the path of an entry is not among the paths above an earlier one.\<close>

lemma sorted_leaf_new:
  assumes sorted: "sorted (map den_relative_path (ys @ e # zs))"
    and dist: "distinct (map (leaf u) (ys @ e # zs))" and closed: "closed_above (ys @ e # zs)"
    and y: "y \<in> set ys"
  shows "leaf u e \<notin> keys_of (entry_keys u y)"
proof
  let ?ps = "split_on slash (den_relative_path y)"
  assume "leaf u e \<in> keys_of (entry_keys u y)"
  then consider "leaf u e = leaf u y"
    | j where "0 < j" "j < length ?ps" "leaf u e = to_lower u (join_with ''/'' (take j ?ps))"
    using entry_keys_above by blast
  then show False
  proof cases
    case 1
    with dist y show False by auto
  next
    case 2
    have y': "y \<in> set (ys @ e # zs)" using y by simp
    obtain d where d: "d \<in> set (ys @ e # zs)" "den_relative_path d = join_with ''/'' (take j ?ps)"
      using closed[unfolded closed_above_def, rule_format, OF y', of j] 2(1,2) by blast
    then have "leaf u d = leaf u e" using 2(3) by (simp add: leaf_def)
    moreover have "inj_on (leaf u) (set (ys @ e # zs))" using dist by (simp only: distinct_map)
    moreover have "e \<in> set (ys @ e # zs)" by simp
    ultimately have "d = e" using d(1) by (metis inj_onD)
    have "den_relative_path y = join_with ''/'' (take j ?ps @ drop j ?ps)"
      using join_split[of slash] by (simp add: slash_eq)
    also have "\<dots> = join_with ''/'' (take j ?ps) @ CHR ''/'' # join_with ''/'' (drop j ?ps)"
      using 2(1,2) by (subst join_with_append) auto
    finally have "den_relative_path e < den_relative_path y"
      using d(2) \<open>d = e\<close> append_greater by metis
    moreover have "den_relative_path y \<le> den_relative_path e"
      using sorted y by (auto simp: sorted_append)
    ultimately show False by simp
  qed
qed

lemma check_entry_accepts:
  assumes u: "upper_ok u" and w: "entry_of u conn pre w e" and s: "sizes_ok conn"
    and p: "directory_output_path u cwd base (den_relative_path e) = Inr p"
    and a: "accept (entry_keys u e) seen = Some seen'"
  shows "check_entry u cwd base e seen = Inr seen'"
proof -
  have split: "split_on slash (den_relative_path e) = names_of u pre w"
    using w names_of_split[OF u] by (simp add: entry_of_def)
  have idem: "map (safe_file_name u) (names_of u pre w) = names_of u pre w"
    using safe_file_name_idem[OF u] by (simp add: names_of_def)
  have "safe_relative_path u (den_relative_path e) (den_directory e) seen =
      Inr (den_relative_path e, seen')"
    unfolding safe_relative_path_iff split idem
    using w a entry_keys_of[OF u w] by (simp add: entry_of_def)
  moreover have "- 1 \<le> den_size e" using w s by (simp add: entry_of_def)
  ultimately show ?thesis using p by (simp add: check_entry_def)
qed

lemma check_entries_accept:
  assumes u: "upper_ok u" and s: "sizes_ok conn"
    and made: "\<And>e. e \<in> set (ys @ zs) \<Longrightarrow> \<exists>w. entry_of u conn pre w e"
    and out: "\<And>e. e \<in> set (ys @ zs) \<Longrightarrow> \<exists>p. directory_output_path u cwd base (den_relative_path e) = Inr p"
    and sorted: "sorted (map den_relative_path (ys @ zs))"
    and dist: "distinct (map (leaf u) (ys @ zs))" and closed: "closed_above (ys @ zs)"
    and own: "\<And>e. e \<in> set (ys @ zs) \<Longrightarrow> leaf u e \<notin> keys_of (butlast (entry_keys u e))"
    and P: "agree P" "\<And>e. e \<in> set (ys @ zs) \<Longrightarrow> set (entry_keys u e) \<subseteq> P"
    and seen: "\<And>k f. seen k = Some f \<Longrightarrow> (k, f) \<in> P" "dom seen = (\<Union>y\<in>set ys. keys_of (entry_keys u y))"
  shows "\<exists>seen'. check_entries u cwd base zs seen = Inr seen'"
  using made out sorted dist closed own P(2) seen
proof (induction zs arbitrary: ys seen)
  case (Cons e zs)
  have new: "fst (last (entry_keys u e)) \<notin> dom seen \<union> keys_of (butlast (entry_keys u e))"
    unfolding entry_keys_last
    using sorted_leaf_new[OF Cons.prems(3,4,5)] Cons.prems(6)[of e] Cons.prems(9) by auto
  obtain s1 where s1: "accept (entry_keys u e) seen = Some s1" "\<forall>k f. s1 k = Some f \<longrightarrow> (k, f) \<in> P"
    "dom s1 = dom seen \<union> keys_of (entry_keys u e)"
    using acceptI[OF P(1), of "entry_keys u e" seen] Cons.prems(7)[of e] Cons.prems(8) new by auto
  obtain w p where "entry_of u conn pre w e" "directory_output_path u cwd base (den_relative_path e) = Inr p"
    using Cons.prems(1,2)[of e] by auto
  then have step: "check_entry u cwd base e seen = Inr s1"
    using check_entry_accepts[OF u _ s] s1(1) by blast
  have "\<exists>seen'. check_entries u cwd base zs s1 = Inr seen'"
  proof (rule Cons.IH[of "ys @ [e]"])
    show "dom s1 = (\<Union>y\<in>set (ys @ [e]). keys_of (entry_keys u y))" using s1(3) Cons.prems(9) by auto
    show "\<And>k f. s1 k = Some f \<Longrightarrow> (k, f) \<in> P" using s1(2) by blast
  qed (use Cons.prems in simp_all)
  with step show ?case by simp
qed simp

lemma list_all2_left: "list_all2 P xs ys \<Longrightarrow> y \<in> set ys \<Longrightarrow> \<exists>x\<in>set xs. P x y"
  by (induction xs ys rule: list_all2_induct) auto

lemma list_all2_right: "list_all2 P xs ys \<Longrightarrow> x \<in> set xs \<Longrightarrow> \<exists>y\<in>set ys. P x y"
  by (induction xs ys rule: list_all2_induct) auto

text \<open>
  The documented order of a walk: it lists a directory's entry besides what is below it, here as
  the existence of the entries above.
\<close>

definition walk_closed :: "string \<Rightarrow> walked list \<Rightarrow> bool" where
  "walk_closed pre ws \<longleftrightarrow>
     list_all (\<lambda>w. shown w \<longrightarrow>
       list_all (\<lambda>j. list_ex (\<lambda>v. shown v \<and> parts_of pre v = take j (parts_of pre w)) ws)
         [1..<length (parts_of pre w)]) ws"

lemma walk_closed_above:
  assumes u: "upper_ok u" and ws: "walk_closed pre ws"
    and es: "list_all2 (entry_of u conn pre) (filter shown ws) es"
  shows "closed_above es"
  unfolding closed_above_def
proof (intro ballI allI impI)
  fix e j
  assume e: "e \<in> set es" and j: "0 < j \<and> j < length (split_on slash (den_relative_path e))"
  obtain w where w: "w \<in> set ws" "shown w" "entry_of u conn pre w e"
    using list_all2_left[OF es e] by auto
  have split: "split_on slash (den_relative_path e) = map (safe_file_name u) (parts_of pre w)"
    using w(3) names_of_split[OF u] by (simp add: entry_of_def names_of_def)
  then have "j \<in> set [1..<length (parts_of pre w)]" using j by simp
  then obtain v where v: "v \<in> set ws" "shown v" "parts_of pre v = take j (parts_of pre w)"
    using ws w(1,2) unfolding walk_closed_def list_all_iff list_ex_iff by blast
  then obtain d where d: "d \<in> set es" "entry_of u conn pre v d"
    using list_all2_right[OF es, of v] by auto
  then have "den_relative_path d = join_with ''/'' (take j (split_on slash (den_relative_path e)))"
    by (simp add: entry_of_def names_of_def split v(3) take_map)
  with d(1) show "\<exists>d\<in>set es. den_relative_path d =
      join_with ''/'' (take j (split_on slash (den_relative_path e)))" by blast
qed

text \<open>
  The list that \<open>listDirectory\<close> stores with a task passes every check that \<open>runDirectory\<close> makes
  on it later: the names are fixed points of the cleaning, and although the list is sorted in
  between and the checks start afresh, no path clashes with an earlier one.
\<close>

theorem listed_entries_accepted:
  assumes "upper_ok u" and "list_directory u conn base = Inr (es, n)" and "sizes_ok conn"
    and "walk_closed (remote_prefix (path_clean base)) (fst (fc_walk conn base))"
    and "\<forall>e\<in>set es. \<exists>p. directory_output_path u cwd out (den_relative_path e) = Inr p"
  shows "\<exists>seen. check_entries u cwd out es Map.empty = Inr seen"
proof -
  let ?pre = "remote_prefix (path_clean base)"
  obtain xs seen where x: "es = sort_key den_relative_path xs"
    "list_all2 (entry_of u conn ?pre) (filter shown (fst (fc_walk conn base))) xs"
    "accept_all (map (entry_keys u) xs) Map.empty = Some seen"
    using list_directory_Inr[OF assms(1,2)] by blast
  have set: "set es = set xs" by (simp add: x(1))
  note leaves = accept_all_leaves[OF x(3)]
  have "distinct (map (leaf u) es)"
    using leaves unfolding x(1) by (metis mset_map mset_sort mset_eq_imp_distinct_iff)
  moreover have "closed_above es"
    using walk_closed_above[OF assms(1,4) x(2)] by (simp add: closed_above_def set)
  moreover have "\<exists>w. entry_of u conn ?pre w e" if "e \<in> set es" for e
    using x(2) that set by (auto simp: list_all2_conv_all_nth in_set_conv_nth)
  moreover have "agree {(k, f). seen k = Some f}" by (simp add: agree_def)
  moreover have "set (entry_keys u e) \<subseteq> {(k, f). seen k = Some f}" if "e \<in> set es" for e
    using leaves that set by auto
  moreover have "leaf u e \<notin> keys_of (butlast (entry_keys u e))" if "e \<in> set es" for e
    using accept_all_own[OF x(3)] that set by simp
  ultimately show ?thesis
    using check_entries_accept[OF assms(1,3), of "[]" es ?pre cwd out "{(k, f). seen k = Some f}" Map.empty]
      assms(5) by (simp add: x(1))
qed

definition sample_walk :: "walked list" where
  "sample_walk =
     [\<lparr>wlk_path = ''/pub/b.'', wlk_entry = Some (EntryFile, 3)\<rparr>,
      \<lparr>wlk_path = ''/pub/a:'', wlk_entry = Some (EntryFolder, 0)\<rparr>,
      \<lparr>wlk_path = ''/pub/a:/x'', wlk_entry = Some (EntryFile, 0)\<rparr>,
      \<lparr>wlk_path = ''/pub/l'', wlk_entry = Some (EntryLink, 0)\<rparr>]"

definition sample_conn :: ftp_conn where
  "sample_conn = \<lparr>fc_walk = (\<lambda>_. (sample_walk, None)), fc_file_size = (\<lambda>_. Inr 4)\<rparr>"

definition sample_entries :: "directory_entry list" where
  "sample_entries =
     [\<lparr>den_remote_path = ''/pub/a:'', den_relative_path = ''a_'', den_size = 0, den_directory = True\<rparr>,
      \<lparr>den_remote_path = ''/pub/a:/x'', den_relative_path = ''a_/x'', den_size = 4, den_directory = False\<rparr>,
      \<lparr>den_remote_path = ''/pub/b.'', den_relative_path = ''b'', den_size = 3, den_directory = False\<rparr>]"

lemma sample_listing: "list_directory ascii_tables sample_conn ''/pub'' = Inr (sample_entries, 7)"
  by code_simp

theorem listing_safe_witness:
  "list_all (\<lambda>e. remote_child ''/pub'' (den_remote_path e)) sample_entries \<and>
   sorted (map den_relative_path sample_entries) \<and> (7::int) = known_bytes sample_entries"
  using listing_safe[OF upper_ok_ascii sample_listing] by (simp add: list_all_iff)

theorem listed_entries_accepted_witness:
  "\<exists>seen. check_entries ascii_tables (''C:'' @ [backslash]) (''C:'' @ [backslash] @ ''d'') sample_entries
     Map.empty = Inr seen"
proof (rule listed_entries_accepted[OF upper_ok_ascii sample_listing])
  show "sizes_ok sample_conn" by (simp add: sizes_ok_def sample_conn_def)
  show "walk_closed (remote_prefix (path_clean ''/pub'')) (fst (fc_walk sample_conn ''/pub''))"
    by code_simp
  have "list_all (\<lambda>e. \<not> isl (directory_output_path ascii_tables (''C:'' @ [backslash])
      (''C:'' @ [backslash] @ ''d'') (den_relative_path e))) sample_entries"
    by code_simp
  then show "\<forall>e\<in>set sample_entries. \<exists>p. directory_output_path ascii_tables (''C:'' @ [backslash])
      (''C:'' @ [backslash] @ ''d'') (den_relative_path e) = Inr p"
    by (metis (no_types, lifting) list_all_iff sum.collapse(2))
qed

end
