(* ===== verification/FtpTransfer.thy ===== *)
theory FtpTransfer
  imports FtpWorker
begin

text \<open>
  What a download of one FTP file delivers: against a server that sends the bytes of a resource
  from the offset it was asked for, a run that returns without an error leaves exactly the
  resource, however often the connection failed before.
\<close>

section \<open>An honest server\<close>

fun honest_reads :: "string \<Rightarrow> bool \<Rightarrow> nat \<Rightarrow> stream_read list \<Rightarrow> bool" where
  "honest_reads R confirmed off [] = True"
| "honest_reads R confirmed off (ev # evs) \<longleftrightarrow>
     prefix (srd_bytes ev) (drop off R) \<and>
     (srd_end ev = ReadEOF \<and> confirmed \<longrightarrow> srd_bytes ev = drop off R) \<and>
     honest_reads R confirmed (off + length (srd_bytes ev)) evs"

definition honest_stream :: "string \<Rightarrow> nat \<Rightarrow> stream \<Rightarrow> bool" where
  "honest_stream R off s \<longleftrightarrow> honest_reads R (stm_close s = None) off (stm_reads s)"

definition honest_attempt :: "string \<Rightarrow> attempt \<Rightarrow> bool" where
  "honest_attempt R a \<longleftrightarrow>
     (\<forall>off s. off \<le> length R \<longrightarrow> att_resume a (int off) = Inr s \<longrightarrow> honest_stream R off s) \<and>
     (\<forall>s. att_retr a = Inr s \<longrightarrow> honest_stream R 0 s)"

section \<open>The partial file\<close>

text \<open>
  An open partial file, and one that the retry loop has between two attempts. The file may hold
  more than was received when truncating it failed.
\<close>

definition holds :: "string \<Rightarrow> string \<Rightarrow> ftp_xfer \<Rightarrow> bool" where
  "holds R partial x \<longleftrightarrow>
     (\<exists>k j. k \<le> j \<and> j \<le> length R \<and> fx_received x = int k \<and>
        fs_nodes (fx_fs x) (fs_key (fx_fs x) partial) = Some (NFile (take j R)))"

definition resumable :: "string \<Rightarrow> string \<Rightarrow> ftp_xfer \<Rightarrow> bool" where
  "resumable R partial x \<longleftrightarrow>
     holds R partial x \<or>
     fx_received x = 0 \<and> fs_nodes (fx_fs x) (fs_key (fx_fs x) partial) = None"

lemma open_write_holds:
  assumes "os_open_write (fx_fs x) partial = (None, fs)" and "resumable R partial x"
  shows "only_changes partial (fx_fs x) fs"
    and "holds R partial (x\<lparr>fx_fs := fs, fx_last_at := n, fx_last_bytes := m\<rparr>)"
proof -
  have "fs = fx_fs x \<and> fs_nodes (fx_fs x) (fs_key (fx_fs x) partial) \<noteq> None \<or>
      fs = put_node partial (NFile []) (fx_fs x) \<and> fs_nodes (fx_fs x) (fs_key (fx_fs x) partial) = None"
    using assms(1) by (auto simp: os_open_write_def split: option.splits node.splits)
  then show "only_changes partial (fx_fs x) fs"
    and "holds R partial (x\<lparr>fx_fs := fs, fx_last_at := n, fx_last_bytes := m\<rparr>)"
    using assms(2) by (auto simp: resumable_def holds_def)
qed

lemma holds_empty: "holds R p (x\<lparr>fx_received := 0, fx_fs := put_node p (NFile []) fs\<rparr>)"
  by (auto simp: holds_def)

lemma overwrite_prefix:
  assumes "prefix b (drop k R)" and "k \<le> j" and "j \<le> length R" and "m \<le> length b"
  shows "overwrite k (take m b) (take j R) = take (max j (k + m)) R" and "k + length b \<le> length R"
proof -
  obtain z where z: "drop k R = b @ z" using assms(1) by (auto simp: prefix_def)
  then have "length (drop k R) = length b + length z" by simp
  with assms(2,3) show "k + length b \<le> length R" by simp
  have "take m b = take m (drop k R)" using assms(4) z by simp
  then have "overwrite k (take m b) (take j R) = take (k + m) R @ drop (k + m) (take j R)"
    using assms(2,3,4) by (simp add: overwrite_def take_add min_def)
  also have "\<dots> = take (max j (k + m)) R"
  proof (cases "k + m \<le> j")
    case True
    then have "take (k + m) R = take (k + m) (take j R)" by (simp add: min_absorb1)
    with True show ?thesis by (simp only: append_take_drop_id max_absorb1)
  qed (simp add: max_def)
  finally show "overwrite k (take m b) (take j R) = take (max j (k + m)) R" .
qed

lemma store_bytes_holds:
  assumes x: "holds R partial x" and p: "prefix (srd_bytes ev) (drop (nat (fx_received x)) R)"
    and s: "store_bytes partial ev x = (err, x')"
  shows "holds R partial x'" and "only_changes partial (fx_fs x) (fx_fs x')"
    and "err = None \<Longrightarrow> fx_received x' = fx_received x + int (length (srd_bytes ev))"
proof -
  obtain k j where k: "k \<le> j" "j \<le> length R" "fx_received x = int k"
    "fs_nodes (fx_fs x) (fs_key (fx_fs x) partial) = Some (NFile (take j R))"
    using x by (auto simp: holds_def)
  define m where "m = (case srd_write ev of None \<Rightarrow> length (srd_bytes ev)
    | Some (_, n) \<Rightarrow> min n (length (srd_bytes ev)))"
  have m: "m \<le> length (srd_bytes ev)" by (simp add: m_def split: option.split)
  have p': "prefix (srd_bytes ev) (drop k R)" using p k(3) by simp
  have "write_at (int k) (srd_bytes ev) (srd_write ev) (take j R) =
      (map_option fst (srd_write ev), overwrite k (take m (srd_bytes ev)) (take j R))"
    by (auto simp: write_at_def m_def min_def split: option.split)
  also have "\<dots> = (map_option fst (srd_write ev), take (max j (k + m)) R)"
    using overwrite_prefix(1)[OF p' k(1,2) m] by simp
  finally have w: "write_at (int k) (srd_bytes ev) (srd_write ev) (take j R) =
      (map_option fst (srd_write ev), take (max j (k + m)) R)" .
  have le: "k + m \<le> length R" using overwrite_prefix(2)[OF p' k(1,2) m] m by simp
  have "file_content (fx_fs x) partial = take j R" by (simp add: file_content_def k)
  with w have e: "err = map_option fst (srd_write ev)" and
    x': "x' = x\<lparr>fx_fs := put_node partial (NFile (take (max j (k + m)) R)) (fx_fs x), fx_received := int (k + m)\<rparr>"
    using s k(3) by (auto simp: store_bytes_def m_def[symmetric])
  show "holds R partial x'"
    unfolding holds_def x'
    by (rule exI[of _ "k + m"], rule exI[of _ "max j (k + m)"]) (use le k(2) in simp)
  show "only_changes partial (fx_fs x) (fx_fs x')" by (simp add: x')
  show "err = None \<Longrightarrow> fx_received x' = fx_received x + int (length (srd_bytes ev))"
    using k(3) by (simp add: x' e m_def)
qed

lemma report_speed_simps [simp]:
  "fx_fs (report_speed rep now x) = fx_fs x" "fx_received (report_speed rep now x) = fx_received x"
  by (simp_all add: report_speed_def Let_def)

lemma holds_cong: "fx_fs x = fx_fs y \<Longrightarrow> fx_received x = fx_received y \<Longrightarrow> holds R p x = holds R p y"
  by (simp add: holds_def)

lemma write_chunk_holds:
  assumes x: "holds R partial x" and p: "prefix (srd_bytes ev) (drop (nat (fx_received x)) R)"
    and w: "write_chunk partial rep ev x = (fl, x')"
  shows "holds R partial x'" and "only_changes partial (fx_fs x) (fx_fs x')" and "fl \<noteq> Returned None"
    and "fl = Going \<Longrightarrow> fx_received x' = fx_received x + int (length (srd_bytes ev))"
proof -
  obtain r l where wl: "wait_limited (srd_waits ev) (int (length (srd_bytes ev))) (fx_limiter x) = (r, l)"
    by (cases "wait_limited (srd_waits ev) (int (length (srd_bytes ev))) (fx_limiter x)")
  have xl: "holds R partial (x\<lparr>fx_limiter := l\<rparr>)" using x by (simp add: holds_def)
  obtain err y where y: "store_bytes partial ev (x\<lparr>fx_limiter := l\<rparr>) = (err, y)"
    by (cases "store_bytes partial ev (x\<lparr>fx_limiter := l\<rparr>)")
  note st = store_bytes_holds[OF xl _ y, simplified, OF p]
  have rs: "holds R partial (report_speed rep (srd_now ev) y)"
    using st(1) holds_cong[of "report_speed rep (srd_now ev) y" y R partial] by simp
  show "holds R partial x'" and "only_changes partial (fx_fs x) (fx_fs x')" and "fl \<noteq> Returned None"
    and "fl = Going \<Longrightarrow> fx_received x' = fx_received x + int (length (srd_bytes ev))"
    using w xl st rs by (auto simp: write_chunk_def wl y split: option.splits)
qed

section \<open>One transfer\<close>

text \<open>
  The postcondition of a loop: the partial file holds what was received, nothing else changed, and
  an error-free return is the whole resource.
\<close>

definition post :: "string \<Rightarrow> string \<Rightarrow> ftp_xfer \<Rightarrow> flow \<times> ftp_xfer \<Rightarrow> bool" where
  "post R partial x r \<longleftrightarrow>
     resumable R partial (snd r) \<and> only_changes partial (fx_fs x) (fx_fs (snd r)) \<and>
     (fst r = Returned None \<longrightarrow> holds R partial (snd r) \<and> fx_received (snd r) = int (length R))"

lemma holds_resumable: "holds R partial x \<Longrightarrow> resumable R partial x"
  by (simp add: resumable_def)

lemma post_error: "holds R partial y \<Longrightarrow> only_changes partial (fx_fs x) (fx_fs y) \<Longrightarrow> fl \<noteq> Returned None \<Longrightarrow>
    post R partial x (fl, y)"
  by (simp add: post_def holds_resumable)

lemma post_trans: "only_changes partial (fx_fs x) (fx_fs y) \<Longrightarrow> post R partial y r \<Longrightarrow> post R partial x r"
  by (auto simp: post_def intro: only_changes_trans)

text \<open>A round either returns within the postcondition or leaves the rest of an honest stream.\<close>

lemma read_step_holds:
  assumes x: "holds R partial x"
    and h: "honest_reads R (stm_close s = None) (nat (fx_received x)) (ev # evs)"
    and r: "read_step partial rep s ev x = (fl, x')"
  shows "fl \<noteq> Going \<Longrightarrow> post R partial x (fl, x')"
    and "fl = Going \<Longrightarrow> holds R partial x' \<and> only_changes partial (fx_fs x) (fx_fs x') \<and>
      honest_reads R (stm_close s = None) (nat (fx_received x')) evs"
proof -
  define w where "w = (if srd_bytes ev = [] then (Going, x) else write_chunk partial rep ev x)"
  obtain wf y where wy: "w = (wf, y)" by (cases w)
  have p: "prefix (srd_bytes ev) (drop (nat (fx_received x)) R)" using h by simp
  have y: "holds R partial y" "only_changes partial (fx_fs x) (fx_fs y)" "wf \<noteq> Returned None"
    "wf = Going \<Longrightarrow> fx_received y = fx_received x + int (length (srd_bytes ev))"
    using write_chunk_holds[OF x p, of rep wf y] x wy by (auto simp: w_def split: if_splits)
  have n: "0 \<le> fx_received x" using x by (auto simp: holds_def)
  have all: "fx_received y = int (length R)"
    if "wf = Going" "srd_end ev = ReadEOF" "stm_close s = None"
  proof -
    have "length (srd_bytes ev) = length R - nat (fx_received x)" using h that by simp
    moreover have "nat (fx_received x) \<le> length R" using x by (auto simp: holds_def)
    ultimately show ?thesis using y(4) that(1) n by linarith
  qed
  have rest: "honest_reads R (stm_close s = None) (nat (fx_received y)) evs" if "wf = Going"
    using h y(4)[OF that] n by (simp add: nat_add_distrib)
  note step = r[unfolded read_step_def w_def[symmetric] wy]
  show "post R partial x (fl, x')" if "fl \<noteq> Going"
  proof (cases "fl = Returned None")
    case True
    with step y(3) have "wf = Going" "x' = y" "srd_end ev = ReadEOF" "stm_close s = None"
      by (auto split: option.splits flow.splits read_end.splits)
    with True all y show ?thesis by (simp add: post_def holds_resumable)
  next
    case False
    with step that have "x' = x \<or> x' = y"
      by (auto split: option.splits flow.splits read_end.splits)
    with False x y show ?thesis by (auto intro!: post_error)
  qed
  show "holds R partial x' \<and> only_changes partial (fx_fs x) (fx_fs x') \<and>
      honest_reads R (stm_close s = None) (nat (fx_received x')) evs" if "fl = Going"
  proof -
    have "wf = Going" "x' = y" using step that by (auto split: option.splits flow.splits read_end.splits)
    with y rest show ?thesis by simp
  qed
qed

lemma read_loop_post:
  assumes "holds R partial x" and "honest_reads R (stm_close s = None) (nat (fx_received x)) evs"
  shows "post R partial x (read_loop partial rep s evs x)"
  using assms
proof (induction evs arbitrary: x)
  case Nil
  then show ?case by (simp add: post_error)
next
  case (Cons ev evs)
  obtain fl x' where r: "read_step partial rep s ev x = (fl, x')" by fastforce
  note step = read_step_holds[OF Cons.prems r]
  show ?case
  proof (cases "fl = Going")
    case True
    with step(2) Cons.IH[of x'] r show ?thesis by (auto intro: post_trans)
  next
    case False
    with step(1) r show ?thesis by (cases fl) simp_all
  qed
qed

lemma open_stream_holds:
  assumes x: "resumable R partial x" and a: "honest_attempt R a" and r: "open_stream partial a x = (o', y)"
  shows "resumable R partial y" and "only_changes partial (fx_fs x) (fx_fs y)"
    and "o' = Inr s \<Longrightarrow> honest_stream R (nat (fx_received y)) s"
proof -
  have le: "fx_received x = int (nat (fx_received x)) \<and> nat (fx_received x) \<le> length R"
    using x by (auto simp: resumable_def holds_def)
  have res: "honest_stream R (nat (fx_received x)) s" if "att_resume a (fx_received x) = Inr s" for s
    using a le that unfolding honest_attempt_def by metis
  have fresh: "map_sum (wrap_error tx_open_stream) id (att_retr a) = Inr s \<Longrightarrow> honest_stream R 0 s" for s
    using a by (cases "att_retr a") (auto simp: honest_attempt_def)
  have zero: "resumable R partial (x\<lparr>fx_received := 0\<rparr>)"
    using x by (auto simp: resumable_def holds_def)
  have empty: "resumable R partial (x\<lparr>fx_received := 0, fx_fs := put_node partial (NFile []) (fx_fs x)\<rparr>)"
    by (intro holds_resumable holds_empty)
  show "resumable R partial y" and "only_changes partial (fx_fs x) (fx_fs y)"
    and "o' = Inr s \<Longrightarrow> honest_stream R (nat (fx_received y)) s"
  proof -
    have "resumable R partial y \<and> only_changes partial (fx_fs x) (fx_fs y) \<and>
        (o' = Inr s \<longrightarrow> honest_stream R (nat (fx_received y)) s)"
    proof (cases "fx_received x > 0")
      case False
      then have z: "fx_received x = 0" using x by (auto simp: resumable_def holds_def)
      with r have "o' = map_sum (wrap_error tx_open_stream) id (att_retr a)" "y = x"
        by (simp_all add: open_stream_def)
      with x fresh z show ?thesis by simp
    next
      case True
      show ?thesis
      proof (cases "att_resume a (fx_received x)")
        case (Inr t)
        with r True res x show ?thesis by (simp add: open_stream_def)
      next
        case (Inl e)
        note resume = this
        obtain te fs where t: "os_truncate (fx_fs x) partial = (te, fs)" by fastforce
        show ?thesis
        proof (cases te)
          case None
          with t have "fs = put_node partial (NFile []) (fx_fs x)" by (simp add: truncate_result)
          with r True resume t None empty fresh show ?thesis by (auto simp add: open_stream_def)
        next
          case (Some e')
          with t have "fs = fx_fs x" by (simp add: truncate_error)
          with r True resume t Some zero show ?thesis by (auto simp add: open_stream_def)
        qed
      qed
    qed
    then show "resumable R partial y" and "only_changes partial (fx_fs x) (fx_fs y)"
      and "o' = Inr s \<Longrightarrow> honest_stream R (nat (fx_received y)) s" by blast+
  qed
qed

lemma transfer_post:
  assumes x: "resumable R partial x" and a: "honest_attempt R a"
  shows "post R partial x (transfer partial rep a x)"
proof (cases "att_dial a")
  case (Some e)
  then show ?thesis using x by (simp add: transfer_def post_def)
next
  case None
  obtain r y where r: "open_stream partial a x = (r, y)" by fastforce
  note y = open_stream_holds[OF x a r]
  show ?thesis
  proof (cases r)
    case (Inl e)
    then show ?thesis using y(1,2) None r by (simp add: transfer_def post_def)
  next
    case (Inr s)
    obtain err fs where w: "os_open_write (fx_fs y) partial = (err, fs)" by fastforce
    show ?thesis
    proof (cases err)
      case (Some e)
      with w have "fs = fx_fs y" by (simp add: open_write_error)
      then have "y\<lparr>fx_fs := fs\<rparr> = y" by simp
      then show ?thesis using y(1,2) None r Inr w Some by (simp add: transfer_def post_def)
    next
      case n: None
      let ?z = "y\<lparr>fx_fs := fs, fx_last_at := stm_start s, fx_last_bytes := fx_received y\<rparr>"
      note op = open_write_holds[OF w[unfolded n] y(1)]
      have "post R partial ?z (read_loop partial rep s (stm_reads s) ?z)"
        using op(2) y(3)[OF Inr] by (intro read_loop_post) (simp_all add: honest_stream_def)
      then have "post R partial x (read_loop partial rep s (stm_reads s) ?z)"
        using only_changes_trans[OF y(2) op(1)] by (intro post_trans[of _ x ?z]) simp_all
      then show ?thesis using None r Inr w n by (simp add: transfer_def)
    qed
  qed
qed

lemma retry_loop_post:
  assumes "resumable R partial x" and "\<forall>a\<in>set as. honest_attempt R a"
    and "retry_loop partial rep m as f x = (r, x')"
  shows "only_changes partial (fx_fs x) (fx_fs x')" and
    "r = Some None \<Longrightarrow> holds R partial x' \<and> fx_received x' = int (length R)"
proof -
  have "only_changes partial (fx_fs x) (fx_fs x') \<and>
      (r = Some None \<longrightarrow> holds R partial x' \<and> fx_received x' = int (length R))"
    using assms
  proof (induction as arbitrary: f x)
    case (Cons a as)
    obtain fl y where t: "transfer partial rep a x = (fl, y)" by fastforce
    have p: "post R partial x (fl, y)" using transfer_post[of R partial x a rep] Cons.prems t by simp
    show ?case
    proof (cases "x' = y \<and> (r = Some None \<longrightarrow> fl = Returned None)")
      case True
      with p show ?thesis by (simp add: post_def)
    next
      case False
      with Cons.prems(3) t obtain f' where "retry_loop partial rep m as f' y = (r, x')"
        by (auto simp: Let_def split: flow.splits option.splits if_splits)
      moreover have "resumable R partial y" "only_changes partial (fx_fs x) (fx_fs y)"
        using p by (simp_all add: post_def)
      ultimately show ?thesis
        using Cons.IH[of y f'] Cons.prems(2) by (auto intro: only_changes_trans)
    qed
  qed simp
  then show "only_changes partial (fx_fs x) (fx_fs x')" and
    "r = Some None \<Longrightarrow> holds R partial x' \<and> fx_received x' = int (length R)" by blast+
qed

section \<open>The run of a file\<close>

text \<open>What an earlier run may have left: nothing, or a beginning of the resource.\<close>

definition partial_ok :: "string \<Rightarrow> fsys \<Rightarrow> string \<Rightarrow> bool" where
  "partial_ok R fs p \<longleftrightarrow>
     fs_nodes fs (fs_key fs p) = None \<or>
     (\<exists>j. fs_nodes fs (fs_key fs p) = Some (NFile (take j R)))"

lemma start_xfer_simps [simp]:
  "fx_fs (start_xfer l reps n fs) = fs" "fx_received (start_xfer l reps n fs) = n"
  by (simp_all add: start_xfer_def)

lemma start_zero: "partial_ok R fs p \<Longrightarrow> resumable R p (start_xfer l reps 0 fs)"
proof -
  have "take j R = take (min j (length R)) R" for j by (simp add: min_def)
  then show "partial_ok R fs p \<Longrightarrow> resumable R p (start_xfer l reps 0 fs)"
    by (auto simp: partial_ok_def resumable_def holds_def) (metis min.cobounded2)
qed

lemma start_partial:
  assumes "partial_size fs p = Inr n" and ok: "partial_ok R fs p"
  shows "resumable R p (start_xfer l reps n fs)"
proof (cases "os_stat fs p")
  case (Inl e)
  with assms start_zero show ?thesis by (auto simp: partial_size_def split: if_splits)
next
  case (Inr node)
  then have node: "fs_nodes fs (fs_key fs p) = Some node"
    by (auto simp: os_stat_def os_lstat_def split: option.splits node.splits)
  with ok obtain j where j: "node = NFile (take j R)" by (auto simp: partial_ok_def)
  have "take j R = take (min j (length R)) R" "n = int (min j (length R))"
    using assms(1) Inr j by (auto simp: partial_size_def node_size_def min_def)
  then have "holds R p (start_xfer l reps n fs)"
    using node j unfolding holds_def by (metis min.cobounded2 order_refl start_xfer_simps)
  then show ?thesis by (rule holds_resumable)
qed

lemma truncate_partial_start:
  assumes t: "truncate_partial p n b fs = (Inr k, fs')" and s: "partial_size fs p = Inr n"
    and ok: "partial_ok R fs p"
  shows "resumable R p (start_xfer l reps k fs') \<and> only_changes p fs fs'"
proof (cases b)
  case True
  then obtain fs1 where f: "os_truncate fs p = (None, fs1)" "k = 0" "fs' = fs1"
    using t by (auto simp: truncate_partial_def split: prod.splits option.splits)
  then have "fs' = put_node p (NFile []) fs" by (simp add: truncate_result)
  then show ?thesis using f(2) by (auto simp: resumable_def holds_def)
next
  case False
  with t start_partial[OF s ok] show ?thesis by (simp add: truncate_partial_def)
qed

lemma remove_old_None:
  assumes "remove_old fs p = (None, fs')"
  shows "only_changes p fs fs' \<and> (fs_nodes fs' (fs_key fs p) = None \<or> fs' = fs)"
  using assms
  by (auto simp: remove_old_def os_remove_def only_changes_def fs_key_def split: sum.splits if_splits)

lemma rename_None:
  assumes "os_rename fs a b = (None, fs')"
  shows "\<exists>n. fs_nodes fs (fs_key fs a) = Some n \<and>
    fs_nodes fs' = (fs_nodes fs)(fs_key fs a := None, fs_key fs b \<mapsto> n) \<and> fs_cwd fs' = fs_cwd fs"
  using assms
  by (auto simp: os_rename_def os_lstat_def put_node_def fs_key_def split: sum.splits option.splits)

text \<open>Replacing the output by the partial file.\<close>

lemma replace_output:
  assumes rm: "remove_old fs output = (None, fs1)" and rn: "os_rename fs1 partial output = (None, fs2)"
    and p: "fs_nodes fs (fs_key fs partial) = Some n"
  shows "fs_nodes fs2 (fs_key fs output) = Some n \<and>
    (\<forall>q. q \<noteq> fs_key fs output \<longrightarrow> q \<noteq> fs_key fs partial \<longrightarrow> fs_nodes fs2 q = fs_nodes fs q)"
proof -
  note r = remove_old_None[OF rm]
  have key: "fs_key fs1 q = fs_key fs q" for q using r only_changes_key by blast
  obtain m where m: "fs_nodes fs1 (fs_key fs partial) = Some m"
    "fs_nodes fs2 = (fs_nodes fs1)(fs_key fs partial := None, fs_key fs output \<mapsto> m)"
    using rename_None[OF rn] key by auto
  have "m = n"
  proof (cases "fs_key fs partial = fs_key fs output")
    case True
    with m(1) r p show ?thesis by auto
  next
    case False
    with m(1) r p show ?thesis by (auto simp: only_changes_def)
  qed
  with m r show ?thesis by (auto simp: only_changes_def)
qed

lemma finish_file_None:
  assumes "finish_file partial output n x = (None, x')" and "holds R partial x"
    and "fx_received x = int (length R)"
  shows "fs_nodes (fx_fs x') (fs_key (fx_fs x) output) = Some (NFile R) \<and> fx_received x' = int (length R) \<and>
    (\<forall>q. q \<noteq> fs_key (fx_fs x) output \<longrightarrow> q \<noteq> fs_key (fx_fs x) partial \<longrightarrow>
       fs_nodes (fx_fs x') q = fs_nodes (fx_fs x) q)"
proof -
  have p: "fs_nodes (fx_fs x) (fs_key (fx_fs x) partial) = Some (NFile R)"
    using assms(2,3) by (auto simp: holds_def)
  obtain fs1 fs2 where f: "remove_old (fx_fs x) output = (None, fs1)" "os_rename fs1 partial output = (None, fs2)"
    "fx_fs x' = fs2" "fx_received x' = fx_received x"
    using assms(1) by (auto simp: finish_file_def split: if_splits prod.splits option.splits)
  with replace_output[OF f(1,2) p] assms(3) show ?thesis by simp
qed

text \<open>
  C15: a run of a file task that returns without an error has put exactly the resource at the
  task's output, whatever connections failed, were resumed or had to start again before, and
  touched no other file but the partial one.
\<close>

theorem run_file_delivers:
  assumes "run_file t l attempts fs = (Some None, x)"
    and "\<forall>a\<in>set attempts. honest_attempt R a" and "partial_ok R fs (output_file t @ ''.part'')"
  shows "fs_nodes (fx_fs x) (fs_key fs (output_file t)) = Some (NFile R) \<and>
    fx_received x = int (length R) \<and>
    (\<forall>q. q \<noteq> fs_key fs (output_file t) \<longrightarrow> q \<noteq> fs_key fs (output_file t @ ''.part'') \<longrightarrow>
       fs_nodes (fx_fs x) q = fs_nodes fs q)"
proof -
  let ?o = "output_file t" let ?p = "output_file t @ ''.part''" let ?n = "tsk_file_size t"
  let ?rep = "\<lambda>r speed. ftp_update r ?n speed tx_downloading"
  obtain n where n: "partial_size fs ?p = Inr n"
    using assms(1) by (auto simp: run_file_def Let_def split: sum.splits)
  obtain k fs1 where k: "truncate_partial ?p n (?n \<le> 0 \<and> n > 0 \<or> ?n > 0 \<and> n > ?n) fs = (Inr k, fs1)"
    using assms(1) n by (auto simp: run_file_def Let_def split: sum.splits prod.splits)
  let ?y = "start_xfer l [ftp_update k ?n 0 tx_connecting] k fs1"
  note y = truncate_partial_start[OF k n assms(3), of l "[ftp_update k ?n 0 tx_connecting]"]
  obtain r z where z: "retry_loop ?p ?rep (stg_max_retries (tsk_stage t)) attempts 0 ?y = (r, z)"
    by fastforce
  have rn: "r = Some None" and f: "finish_file ?p ?o ?n z = (None, x)"
    using assms(1) n k z by (auto simp: run_file_def Let_def split: option.splits prod.splits)
  note post = retry_loop_post[OF conjunct1[OF y] assms(2) z]
  have ch: "only_changes ?p fs (fx_fs z)" using only_changes_trans y post(1) by fastforce
  have fin: "holds R ?p z" "fx_received z = int (length R)" using post(2)[OF rn] by auto
  show ?thesis
    using finish_file_None[OF f fin] ch unfolding only_changes_key[OF ch]
    by (simp add: only_changes_def)
qed

text \<open>
  The resource \<open>''hello''\<close>: two bytes are there from an earlier run, the first connection sends
  one more and breaks, the second is refused the offset and sends all.
\<close>

definition sample_read :: "string \<Rightarrow> read_end \<Rightarrow> stream_read" where
  "sample_read bytes r = \<lparr>srd_ctx = None, srd_bytes = bytes, srd_end = r, srd_waits = [],
     srd_write = None, srd_now = 0\<rparr>"

definition sample_stream :: "stream_read list \<Rightarrow> stream" where
  "sample_stream rs = \<lparr>stm_reads = rs, stm_start = 0, stm_close = None, stm_ctx = None,
     stm_file_close = None\<rparr>"

definition sample_attempt :: "(int \<Rightarrow> goerr + stream) \<Rightarrow> (goerr + stream) \<Rightarrow> attempt" where
  "sample_attempt resume retr = \<lparr>att_dial = None, att_resume = resume, att_retr = retr,
     att_ctx = None, att_sleep = None\<rparr>"

definition hello_attempts :: "attempt list" where
  "hello_attempts =
     [sample_attempt (\<lambda>off. if off = 2 then Inr (sample_stream [sample_read ''l'' (ReadFail ctx_canceled)])
        else Inl ctx_canceled) (Inl ctx_canceled),
      sample_attempt (\<lambda>_. Inl ctx_canceled) (Inr (sample_stream
        [sample_read ''hel'' ReadMore, sample_read ''lo'' ReadEOF]))]"

definition hello_task :: task where
  "hello_task = new_task ''t'' 0 ''ftp'' ''a'' ''ftp://h/a'' (''C:'' @ [backslash] @ ''d'') 5
     (new_stage ''s'' ''ftp'' ''ftp://h/a'' 5 1 3 True None [])"

definition hello_fs :: fsys where
  "hello_fs = \<lparr>fs_nodes = [''C:'' @ [backslash] @ ''d'' @ [backslash] @ ''a.part'' \<mapsto> NFile ''he''],
     fs_cwd = ''C:'' @ [backslash], fs_faults = (\<lambda>_. None)\<rparr>"

lemma hello_honest: "\<forall>a\<in>set hello_attempts. honest_attempt ''hello'' a"
  by (auto simp: hello_attempts_def sample_attempt_def honest_attempt_def honest_stream_def
      sample_stream_def sample_read_def split: if_splits)

theorem run_file_delivers_witness:
  "fst (run_file hello_task None hello_attempts hello_fs) = Some None \<and>
   fs_nodes (fx_fs (snd (run_file hello_task None hello_attempts hello_fs)))
     (fs_key hello_fs (output_file hello_task)) = Some (NFile ''hello'')"
proof -
  have r: "fst (run_file hello_task None hello_attempts hello_fs) = Some None" by code_simp
  moreover have "fs_nodes hello_fs (fs_key hello_fs (output_file hello_task @ ''.part'')) = Some (NFile ''he'')"
    by code_simp
  then have "partial_ok ''hello'' hello_fs (output_file hello_task @ ''.part'')"
    by (auto simp: partial_ok_def intro: exI[of _ 2])
  ultimately show ?thesis
    using run_file_delivers[OF _ hello_honest, of hello_task None hello_fs] by (metis prod.collapse)
qed

end
