(* ===== verification/FtpRetry.thy ===== *)
theory FtpRetry
  imports FtpTransfer
begin

text \<open>
  The retries of an FTP transfer from a server that refuses to resume: the loop shared by \<open>Run\<close>
  and \<open>downloadDirectoryFile\<close> need not end.
\<close>

section \<open>A server that refuses offsets\<close>

text \<open>A connection that sends \<open>bytes\<close> from the start of the file and breaks.\<close>

definition broken :: "goerr \<Rightarrow> string \<Rightarrow> attempt" where
  "broken e bytes =
     \<lparr>att_dial = None, att_resume = (\<lambda>_. Inl e),
      att_retr = Inr \<lparr>stm_reads = [\<lparr>srd_ctx = None, srd_bytes = bytes, srd_end = ReadFail e,
          srd_waits = [], srd_write = None, srd_now = 0\<rparr>],
        stm_start = 0, stm_close = None, stm_ctx = None, stm_file_close = None\<rparr>,
      att_ctx = None, att_sleep = None\<rparr>"

definition quiet :: "string \<Rightarrow> ftp_xfer \<Rightarrow> bool" where
  "quiet partial x \<longleftrightarrow>
     fx_limiter x = None \<and> 0 \<le> fx_received x \<and> fs_faults (fx_fs x) (fs_key (fx_fs x) partial) = None \<and>
     (case fs_nodes (fx_fs x) (fs_key (fx_fs x) partial) of
        Some (NFile _) \<Rightarrow> True | None \<Rightarrow> fx_received x = 0 | _ \<Rightarrow> False)"

lemma quiet_open:
  assumes "quiet partial x"
  obtains y where "open_stream partial (broken e bytes) x = (att_retr (broken e bytes), y)"
    "quiet partial y" "fx_received y = 0"
proof (cases "fx_received x > 0")
  case True
  then obtain c where "fs_nodes (fx_fs x) (fs_key (fx_fs x) partial) = Some (NFile c)"
    using assms by (auto simp: quiet_def split: option.splits node.splits)
  with assms have t: "os_truncate (fx_fs x) partial = (None, put_node partial (NFile []) (fx_fs x))"
    by (simp add: os_truncate_def os_stat_def os_lstat_def quiet_def)
  show ?thesis
  proof (rule that)
    let ?y = "x\<lparr>fx_received := 0, fx_fs := put_node partial (NFile []) (fx_fs x)\<rparr>"
    show "open_stream partial (broken e bytes) x = (att_retr (broken e bytes), ?y)"
      using True t by (simp add: open_stream_def broken_def)
    show "quiet partial ?y" using assms by (simp add: quiet_def)
  qed simp
next
  case False
  show ?thesis
  proof (rule that)
    show "open_stream partial (broken e bytes) x = (att_retr (broken e bytes), x)"
      using False by (simp add: open_stream_def broken_def)
  qed (use assms False in \<open>simp_all add: quiet_def\<close>)
qed

lemma quiet_open_write:
  assumes "quiet partial y" and "fx_received y = 0"
  obtains fs where "os_open_write (fx_fs y) partial = (None, fs)"
    "quiet partial (y\<lparr>fx_fs := fs, fx_last_at := a, fx_last_bytes := b\<rparr>)"
proof (cases "fs_nodes (fx_fs y) (fs_key (fx_fs y) partial)")
  case None
  show ?thesis
    by (rule that[of "put_node partial (NFile []) (fx_fs y)"])
      (use assms None in \<open>simp_all add: quiet_def os_open_write_def\<close>)
next
  case (Some n)
  with assms obtain c where "n = NFile c" by (auto simp: quiet_def split: node.splits)
  with Some show ?thesis
    by (intro that[of "fx_fs y"]) (use assms in \<open>simp_all add: quiet_def os_open_write_def\<close>)
qed

lemma broken_transfer:
  assumes "quiet partial x" and "bytes \<noteq> []"
  obtains x' where "transfer partial rep (broken e bytes) x = (Returned (Some e), x')"
    "quiet partial x'" "fx_received x' = int (length bytes)"
proof -
  obtain y where y: "open_stream partial (broken e bytes) x = (att_retr (broken e bytes), y)"
    "quiet partial y" "fx_received y = 0" using quiet_open[OF assms(1)] by metis
  obtain fs where fs: "os_open_write (fx_fs y) partial = (None, fs)"
    "quiet partial (y\<lparr>fx_fs := fs, fx_last_at := 0, fx_last_bytes := fx_received y\<rparr>)"
    using quiet_open_write[OF y(2,3)] by metis
  let ?z = "y\<lparr>fx_fs := fs, fx_last_at := 0, fx_last_bytes := fx_received y\<rparr>"
  have z: "fx_limiter ?z = None" "fx_received ?z = 0" "quiet partial ?z"
    using fs(2) y(3) by (simp_all add: quiet_def)
  let ?ev = "\<lparr>srd_ctx = None, srd_bytes = bytes, srd_end = ReadFail e, srd_waits = [],
      srd_write = None, srd_now = 0\<rparr>"
  obtain c where c: "store_bytes partial ?ev (?z\<lparr>fx_limiter := None\<rparr>) =
      (None, ?z\<lparr>fx_limiter := None, fx_fs := put_node partial (NFile c) fs,
        fx_received := int (length bytes)\<rparr>)"
    using z(2) by (simp add: store_bytes_def write_at_def)
  let ?x' = "report_speed rep 0 (?z\<lparr>fx_limiter := None, fx_fs := put_node partial (NFile c) fs,
        fx_received := int (length bytes)\<rparr>)"
  have w: "write_chunk partial rep ?ev ?z = (Going, ?x')"
    using c z(1) by (simp add: write_chunk_def)
  show ?thesis
  proof (rule that)
    show "transfer partial rep (broken e bytes) x = (Returned (Some e), ?x')"
      using y(1) fs(1) w assms(2) by (simp add: transfer_def broken_def read_step_def)
    show "quiet partial ?x'"
      using z(3) by (simp add: quiet_def report_speed_def second_def)
  qed simp
qed

text \<open>Two connections in turn: the second gets fewer bytes, so that the first makes progress again.\<close>

lemma broken_pair:
  assumes "quiet partial x" and "q \<noteq> []" and "length q < length p" and "2 \<le> m"
    and "fx_received x < int (length p)"
  obtains y where "quiet partial y" "fx_received y = int (length q)"
    "retry_loop partial rep m (broken e p # broken e q # as) f x = retry_loop partial rep m as 2 y"
proof -
  have "p \<noteq> []" using assms(3) by (cases p) simp_all
  then obtain y where y: "transfer partial rep (broken e p) x = (Returned (Some e), y)" "quiet partial y"
    "fx_received y = int (length p)" using broken_transfer[OF assms(1)] by metis
  obtain z where z: "transfer partial rep (broken e q) y = (Returned (Some e), z)" "quiet partial z"
    "fx_received z = int (length q)" using broken_transfer[OF y(2) assms(2)] by metis
  have c: "att_ctx (broken e b) = None" "att_sleep (broken e b) = None" for b
    by (simp_all add: broken_def)
  show ?thesis
    by (rule that[OF z(2,3)]) (use y z assms(3-5) c in simp)
qed

lemma broken_pairs:
  assumes "quiet partial x" and "q \<noteq> []" and "length q < length p" and "2 \<le> m"
    and "fx_received x < int (length p)"
  shows "fst (retry_loop partial rep m (concat (replicate n [broken e p, broken e q])) f x) = None"
  using assms(1,5)
proof (induction n arbitrary: f x)
  case (Suc n)
  obtain y where y: "quiet partial y" "fx_received y = int (length q)"
    "retry_loop partial rep m (broken e p # broken e q # concat (replicate n [broken e p, broken e q])) f x =
      retry_loop partial rep m (concat (replicate n [broken e p, broken e q])) 2 y"
    using broken_pair[OF Suc.prems(1) assms(2-4) Suc.prems(2)] by metis
  with Suc.IH[OF y(1)] assms(3) show ?case by simp
qed simp

text \<open>
  C38: the limit on retries does not end the download from a server that refuses offsets: when its
  connections break after more and after fewer bytes in turn, every second one counts as progress,
  so with two or more retries allowed the loop goes on for as long as the connections do, although
  it never holds more than the first bytes of the file.
\<close>

theorem refused_resume_never_gives_up:
  assumes "q \<noteq> []" and "length q < length p" and "2 \<le> m"
    and "fs_nodes fs (fs_key fs partial) = None" and "fs_faults fs (fs_key fs partial) = None"
  shows "fst (retry_loop partial rep m (concat (replicate n [broken e p, broken e q])) 0
    (start_xfer None [] 0 fs)) = None"
proof (rule broken_pairs)
  show "quiet partial (start_xfer None [] 0 fs)"
    using assms(4,5) by (simp add: quiet_def start_xfer_def)
  show "fx_received (start_xfer None [] 0 fs) < int (length p)" using assms(2) by (cases p) simp_all
qed (use assms in simp_all)

definition empty_fs :: fsys where
  "empty_fs = \<lparr>fs_nodes = (\<lambda>_. None), fs_cwd = ''C:'' @ [backslash], fs_faults = (\<lambda>_. None)\<rparr>"

theorem refused_resume_never_gives_up_witness:
  "fst (retry_loop ''f.part'' (\<lambda>r s. ftp_update r 9 s []) 3
     (concat (replicate 500 [broken ctx_canceled ''ab'', broken ctx_canceled ''a''])) 0
     (start_xfer None [] 0 empty_fs)) = None"
  by (rule refused_resume_never_gives_up) (simp_all add: empty_fs_def)

end
