(* ===== verification/BtEngine.thy ===== *)
theory BtEngine
  imports BtResolve
begin

text \<open>
  The torrent engine of a run, \<open>internal/download/bt/worker.go\<close>: opening it, with everything that is
  acquired on the way and released again when a later step fails, closing it, the transport that
  waits for its requests, and the counter of the operations on the completion database. What the
  torrent library answers is data.
\<close>

section \<open>Proxy and headers\<close>

definition apply_torrent_proxy ::
  "unicode \<Rightarrow> netlib \<Rightarrow> (url_parts \<Rightarrow> goerr option) \<Rightarrow> string \<Rightarrow> goerr option" where
  "apply_torrent_proxy u nl socks proxy =
     (let tx = trim_space proxy in
      if tx = [] then None
      else case nl_parse_url nl tx of
        Inl e \<Rightarrow> Some (wrap_error ''invalid BitTorrent proxy URL: '' e)
      | Inr p \<Rightarrow>
          if to_lower u (up_scheme p) \<in> set [''http'', ''https''] then None
          else if to_lower u (up_scheme p) \<in> set [''socks5'', ''socks5h'']
          then map_option (wrap_error ''invalid BitTorrent SOCKS proxy: '') (socks p)
          else Some (new_error (''unsupported BitTorrent proxy scheme '' @ quote u (up_scheme p))))"

definition torrent_headers :: "strmap \<Rightarrow> (string, string) fmap" where
  "torrent_headers h =
     (case h of None \<Rightarrow> fmempty
      | Some m \<Rightarrow> fmfilter (\<lambda>k. trim_space k \<noteq> [] \<and> trim_space (map_get h k) \<noteq> []) m)"

section \<open>Closing the engine\<close>

datatype engine_resource = EngineStorage | EngineTransport | EngineClient | EngineReader

text \<open>\<open>closeTorrentClient\<close> and \<open>storageImpl.Close\<close>.\<close>

definition close_torrent_client :: "engine_resource list \<Rightarrow> engine_resource list" where
  "close_torrent_client rs = filter (\<lambda>r. r \<noteq> EngineTransport \<and> r \<noteq> EngineClient) rs"

definition close_storage :: "engine_resource list \<Rightarrow> engine_resource list" where
  "close_storage rs = filter (\<lambda>r. r \<noteq> EngineStorage) rs"

text \<open>The sequential reader: not there, ended with its error, or not ended after five seconds.\<close>

datatype reader_end = NoReader | ReaderEnded "goerr option" | ReaderTimeout

record engine_close =
  ecl_closed :: bool
  ecl_err :: "goerr option"
  ecl_order :: "engine_resource list"

definition unclosed :: engine_close where
  "unclosed = \<lparr>ecl_closed = False, ecl_err = None, ecl_order = []\<rparr>"

text \<open>
  \<open>Close\<close> runs once; \<open>ecl_order\<close> is the order in which the parts end. A reader that has not ended in
  time is given up: it goes on, and the rest is closed under it.
\<close>

definition close_transfer ::
  "reader_end \<Rightarrow> goerr option list \<Rightarrow> goerr option \<Rightarrow> goerr option \<Rightarrow> engine_close \<Rightarrow> engine_close" where
  "close_transfer reader client_errs wait_idle storage_err c =
     (if ecl_closed c then c
      else
        (let err = (case reader of
               NoReader \<Rightarrow> ecl_err c
             | ReaderEnded None \<Rightarrow> ecl_err c
             | ReaderEnded (Some e) \<Rightarrow> join_errors (ecl_err c) (Some e)
             | ReaderTimeout \<Rightarrow> join_errors (ecl_err c)
                 (Some (new_error ''timed out stopping sequential BitTorrent reader'')));
             err = foldl (\<lambda>e x. if x = None then e else join_errors e x) err client_errs;
             err = join_errors err wait_idle;
             err = join_errors err storage_err in
         c\<lparr>ecl_closed := True, ecl_err := err,
           ecl_order := (case reader of ReaderEnded _ \<Rightarrow> [EngineReader] | _ \<Rightarrow> []) @
             [EngineTransport, EngineClient, EngineStorage]\<rparr>))"

section \<open>Opening the engine\<close>

text \<open>The settings of the engine's configuration; a limiter is its rate.\<close>

record engine_config =
  ecg_data_dir :: string
  ecg_listen_port :: int
  ecg_no_dht :: bool
  ecg_no_port_forwarding :: bool
  ecg_connections :: int
  ecg_seed :: bool
  ecg_download_limiter :: "int option"
  ecg_upload_limiter :: "int option"
  ecg_headers :: "(string, string) fmap"

definition engine_config_of :: "task \<Rightarrow> runtime_options \<Rightarrow> engine_config" where
  "engine_config_of t opts =
     \<lparr>ecg_data_dir = tsk_path t, ecg_listen_port = rto_listen_port opts, ecg_no_dht = (\<not> rto_enable_dht opts),
      ecg_no_port_forwarding = (\<not> rto_enable_upnp opts \<and> \<not> rto_enable_natpmp opts),
      ecg_connections = rto_connections_limit opts, ecg_seed = True,
      ecg_download_limiter = (if rto_download_rate opts > 0 then Some (rto_download_rate opts) else None),
      ecg_upload_limiter = (if rto_upload_rate opts > 0 then Some (rto_upload_rate opts) else None),
      ecg_headers = torrent_headers (stg_headers (tsk_stage t))\<rparr>"

text \<open>
  What the library answers: opening the completion database, a client on the wanted port and four
  on a free one, the spec, and adding the torrent, which gives the number of the engine's files; and
  when a transfer is closed again, how the sequential reader ended, None when it has not after five
  seconds, and the errors of the client, of the wait for the database, and of the storage.
\<close>

record engine_lib =
  egl_bolt :: "goerr option"
  egl_bind_failure :: "goerr \<Rightarrow> bool"
  egl_client :: "unit result"
  egl_retries :: "unit result list"
  egl_spec :: "goerr option"
  egl_add :: "nat result"
  egl_encode :: "goerr option"
  egl_metainfo :: string
  egl_reader :: "goerr option option"
  egl_client_errs :: "goerr option list"
  egl_idle :: "goerr option"
  egl_storage :: "goerr option"

record open_engine =
  oen_config :: engine_config
  oen_selected :: "int list"
  oen_priority :: "int \<Rightarrow> piece_priority"
  oen_final_path :: "int \<Rightarrow> string option"
  oen_expected :: "int \<Rightarrow> int option"
  oen_trackers :: "string list"

text \<open>The final path and the size of every file that both the engine and the metainfo have.\<close>

definition final_path_of :: "string \<Rightarrow> (string \<times> string) list \<Rightarrow> meta_file list \<Rightarrow> nat \<Rightarrow> int \<Rightarrow> string option" where
  "final_path_of dir paths ms n i =
     (if 0 \<le> i \<and> i < int n \<and> i < int (length ms)
      then Some (fp_join [dir, (case map_of paths (metainfo_file_key (ms ! nat i)) of Some p \<Rightarrow> p | None \<Rightarrow> [])])
      else None)"

definition expected_size_of :: "meta_file list \<Rightarrow> nat \<Rightarrow> int \<Rightarrow> int option" where
  "expected_size_of ms n i =
     (if 0 \<le> i \<and> i < int n \<and> i < int (length ms) then Some (mf_length (ms ! nat i)) else None)"

text \<open>The part after the torrent has been added; the storage, the transport and the client are open.\<close>

definition start_transfer ::
  "engine_lib \<Rightarrow> task \<Rightarrow> bt_file list \<Rightarrow> runtime_options \<Rightarrow> meta_info \<Rightarrow> (string \<times> string) list \<Rightarrow>
   string list \<Rightarrow> nat \<Rightarrow> engine_resource list \<Rightarrow> fsys \<Rightarrow> open_engine result \<times> engine_resource list \<times> fsys" where
  "start_transfer lib t files opts info paths trackers n rs fs =
     (case select_engine_files n (rto_sequential opts) files [] (\<lambda>_. PriorityNone) of
        Inl e \<Rightarrow> (Inl e, close_storage (close_torrent_client rs), fs)
      | Inr (chosen, prio) \<Rightarrow>
          (let engine = \<lparr>oen_config = engine_config_of t opts, oen_selected = chosen, oen_priority = prio,
                 oen_final_path = final_path_of (tsk_path t) paths (mi_files info) n,
                 oen_expected = expected_size_of (mi_files info) n, oen_trackers = trackers\<rparr>;
               rs = (if rto_sequential opts then EngineReader # rs else rs) in
           if map_get (stg_state (tsk_stage t)) ''sourceType'' = ''magnet'' \<and> rto_save_magnet opts then
             (case save_metainfo (fp_join [tsk_path t, tsk_title t @ ''.torrent'']) (egl_metainfo lib)
                 (egl_encode lib) fs of
                (Some e, fs) \<Rightarrow>
                  (let reader = (if rto_sequential opts
                         then (case egl_reader lib of None \<Rightarrow> ReaderTimeout | Some err \<Rightarrow> ReaderEnded err) else NoReader);
                       closed = close_transfer reader (egl_client_errs lib) (egl_idle lib) (egl_storage lib) unclosed in
                   (Inl e, filter (\<lambda>r. r \<notin> set (ecl_order closed)) rs, fs))
              | (None, fs) \<Rightarrow> (Inr engine, rs, fs))
           else (Inr engine, rs, fs)))"

text \<open>\<open>newTorrentTransfer\<close>: the engine or an error, and what is open afterwards.\<close>

definition new_torrent_transfer ::
  "unicode \<Rightarrow> netlib \<Rightarrow> torrent_lib \<Rightarrow> bt_codec \<Rightarrow> (url_parts \<Rightarrow> goerr option) \<Rightarrow> engine_lib \<Rightarrow> task \<Rightarrow>
   bt_file list \<Rightarrow> runtime_options \<Rightarrow> fsys \<Rightarrow> open_engine result \<times> engine_resource list \<times> fsys" where
  "new_torrent_transfer u nl tlib bc socks lib t files opts fs =
     (case decode_metainfo tlib t of
        Inl e \<Rightarrow> (Inl e, [], fs)
      | Inr mi \<Rightarrow> (case tof_info mi of
        Inl e \<Rightarrow> (Inl (wrap_error ''decode torrent info: '' e), [], fs)
      | Inr info \<Rightarrow> (case storage_paths u t info files of
        Inl e \<Rightarrow> (Inl e, [], fs)
      | Inr paths \<Rightarrow> (case os_mkdir_all fs (tsk_path t) of
        (Some e, fs) \<Rightarrow> (Inl (wrap_error ''create BitTorrent output directory: '' e), [], fs)
      | (None, fs) \<Rightarrow> (case egl_bolt lib of
        Some e \<Rightarrow> (Inl (wrap_error ''open BitTorrent completion checkpoint: '' e), [], fs)
      | None \<Rightarrow>
          (let rs = [EngineStorage] in
           case apply_torrent_proxy u nl socks (stg_proxy_url (tsk_stage t)) of
             Some e \<Rightarrow> (Inl e, close_storage rs, fs)
           | None \<Rightarrow>
               (let rs = EngineTransport # rs in
                case new_client_with_port_fallback (egl_bind_failure lib) (rto_listen_port opts)
                    (egl_client lib) (egl_retries lib) of
                  Inl e \<Rightarrow> (Inl (wrap_error ''create BitTorrent client: '' e),
                    close_storage (filter (\<lambda>r. r \<noteq> EngineTransport) rs), fs)
                | Inr _ \<Rightarrow>
                    (let rs = EngineClient # rs; closed = close_storage (close_torrent_client rs) in
                     case egl_spec lib of
                       Some e \<Rightarrow> (Inl (wrap_error ''build BitTorrent spec: '' e), closed, fs)
                     | None \<Rightarrow> (case trackers_from_task bc t of
                       Inl e \<Rightarrow> (Inl e, closed, fs)
                     | Inr trackers \<Rightarrow> (case egl_add lib of
                       Inl e \<Rightarrow> (Inl (wrap_error ''add torrent: '' e), closed, fs)
                     | Inr n \<Rightarrow> start_transfer lib t files opts info paths trackers n rs fs))))))))))"

text \<open>
  The sequential reader: of each selected file, in the order of the priorities, the error of copying
  it, that of closing its reader, and that of the context; it ends with the error that it reports.
\<close>

fun download_sequentially :: "(goerr option \<times> goerr option \<times> goerr option) list \<Rightarrow> goerr option" where
  "download_sequentially [] = None"
| "download_sequentially ((err, close_err, ctx) # rs) =
     (case err of
        Some e \<Rightarrow> if \<not> err_canceled e then Some e
          else if close_err \<noteq> None then close_err
          else if ctx \<noteq> None then None else download_sequentially rs
      | None \<Rightarrow> if close_err \<noteq> None then close_err
          else if ctx \<noteq> None then None else download_sequentially rs)"

section \<open>Operations on the completion database\<close>

record piece_ops =
  pco_active :: int
  pco_last_access :: int

definition begin_op :: "int \<Rightarrow> piece_ops \<Rightarrow> piece_ops" where
  "begin_op now c = c\<lparr>pco_active := pco_active c + 1, pco_last_access := now\<rparr>"

definition end_op :: "int \<Rightarrow> piece_ops \<Rightarrow> piece_ops" where
  "end_op now c = c\<lparr>pco_active := pco_active c - 1, pco_last_access := now\<rparr>"

text \<open>
  \<open>WaitIdle\<close>: a poll sees the counter and the times of its two looks at the clock. None: the loop
  is still polling.
\<close>

fun wait_idle :: "int \<Rightarrow> int \<Rightarrow> (piece_ops \<times> int \<times> int) list \<Rightarrow> goerr option option" where
  "wait_idle quiet deadline [] = None"
| "wait_idle quiet deadline ((c, now, later) # polls) =
     (if pco_active c = 0 \<and> now - pco_last_access c \<ge> quiet then Some None
      else if later > deadline
      then Some (Some (new_error ''timed out draining BitTorrent piece checkpoint operations''))
      else wait_idle quiet deadline polls)"

section \<open>The transport\<close>

text \<open>
  A request is sent; it is answered without a body and ended, or its body is handed out and ended
  when a read fails or it is closed. \<open>finish\<close> runs once for each: it cancels the request's context
  and takes it out of the wait group.
\<close>

datatype request_phase = RequestSent | RequestBody | RequestEnded

record web_request =
  wrq_phase :: request_phase
  wrq_canceled :: bool

datatype close_phase = TransportOpen | TransportDraining | TransportClosed

record web_transport =
  wtr_close :: close_phase
  wtr_count :: int
  wtr_requests :: "web_request list"

definition wtr_closing :: "web_transport \<Rightarrow> bool" where
  "wtr_closing w \<longleftrightarrow> wtr_close w \<noteq> TransportOpen"

definition new_web_transport :: web_transport where
  "new_web_transport = \<lparr>wtr_close = TransportOpen, wtr_count = 0, wtr_requests = []\<rparr>"

text \<open>The first part of \<open>RoundTrip\<close>: a closing transport refuses.\<close>

definition admit_request :: "web_transport \<Rightarrow> goerr option \<times> web_transport" where
  "admit_request w =
     (if wtr_closing w then (Some ctx_canceled, w)
      else (None, w\<lparr>wtr_count := wtr_count w + 1,
        wtr_requests := wtr_requests w @ [\<lparr>wrq_phase = RequestSent, wrq_canceled = False\<rparr>]\<rparr>))"

definition finish_request :: "nat \<Rightarrow> web_transport \<Rightarrow> web_transport" where
  "finish_request i w =
     (if wrq_phase (wtr_requests w ! i) = RequestEnded then w
      else w\<lparr>wtr_count := wtr_count w - 1,
        wtr_requests := (wtr_requests w)[i := \<lparr>wrq_phase = RequestEnded, wrq_canceled = True\<rparr>]\<rparr>)"

text \<open>The second part: the answer of the base transport, whether an error and whether with a body.\<close>

definition answer_request :: "nat \<Rightarrow> bool \<Rightarrow> bool \<Rightarrow> web_transport \<Rightarrow> web_transport" where
  "answer_request i failed has_body w =
     (if failed \<or> \<not> has_body then finish_request i w
      else w\<lparr>wtr_requests := (wtr_requests w)[i := (wtr_requests w ! i)\<lparr>wrq_phase := RequestBody\<rparr>]\<rparr>)"

definition read_body :: "nat \<Rightarrow> bool \<Rightarrow> web_transport \<Rightarrow> web_transport" where
  "read_body i failed w = (if failed then finish_request i w else w)"

definition close_body :: "nat \<Rightarrow> web_transport \<Rightarrow> web_transport" where
  "close_body i w = finish_request i w"

text \<open>\<open>Close\<close> marks the transport, cancels every request in flight, and waits for the group.\<close>

definition begin_close :: "web_transport \<Rightarrow> web_transport" where
  "begin_close w =
     w\<lparr>wtr_close := TransportDraining, wtr_requests := map (\<lambda>r. r\<lparr>wrq_canceled := True\<rparr>) (wtr_requests w)\<rparr>"

datatype transport_event =
  AdmitRequest | AnswerRequest nat bool bool | ReadBody nat bool | CloseBody nat | BeginClose | EndClose

inductive transport_step :: "web_transport \<Rightarrow> transport_event \<Rightarrow> web_transport \<Rightarrow> bool" where
  admit: "transport_step w AdmitRequest (snd (admit_request w))"
| answer: "i < length (wtr_requests w) \<Longrightarrow> wrq_phase (wtr_requests w ! i) = RequestSent \<Longrightarrow>
    transport_step w (AnswerRequest i failed has_body) (answer_request i failed has_body w)"
| read: "i < length (wtr_requests w) \<Longrightarrow> wrq_phase (wtr_requests w ! i) \<noteq> RequestSent \<Longrightarrow>
    transport_step w (ReadBody i failed) (read_body i failed w)"
| close: "i < length (wtr_requests w) \<Longrightarrow> wrq_phase (wtr_requests w ! i) \<noteq> RequestSent \<Longrightarrow>
    transport_step w (CloseBody i) (close_body i w)"
| begin_close: "wtr_close w = TransportOpen \<Longrightarrow> transport_step w BeginClose (begin_close w)"
| end_close: "wtr_close w = TransportDraining \<Longrightarrow> wtr_count w = 0 \<Longrightarrow>
    transport_step w EndClose (w\<lparr>wtr_close := TransportClosed\<rparr>)"

inductive transport_runs :: "web_transport \<Rightarrow> transport_event list \<Rightarrow> web_transport \<Rightarrow> bool" where
  stop: "transport_runs w [] w"
| more: "transport_step w ev w' \<Longrightarrow> transport_runs w' evs w'' \<Longrightarrow> transport_runs w (ev # evs) w''"

end
