(* ===== verification/BtEngineProps.thy ===== *)
theory BtEngineProps
  imports BtEngine BtWorkerProps BtResolveProps
begin

text \<open>
  The engine of a run is released whenever opening it fails, it downloads exactly the selected files
  to the paths that the task's storage has, and a transport that is closed stays quiet.
\<close>

section \<open>Opening\<close>

text \<open>
  What is open after \<open>newTorrentTransfer\<close> has returned: on success everything, on an error nothing but
  perhaps a sequential reader, when writing the metainfo file of a magnet link failed and the reader did not end in time.
\<close>

definition released :: "engine_lib \<Rightarrow> task \<Rightarrow> runtime_options \<Rightarrow> open_engine result \<Rightarrow> engine_resource list \<Rightarrow> bool" where
  "released lib t opts r rs \<longleftrightarrow>
     (case r of
        Inl e \<Rightarrow> set rs \<subseteq> {EngineReader} \<and>
          (rs \<noteq> [] \<longrightarrow> rto_sequential opts \<and> egl_reader lib = None \<and> rto_save_magnet opts \<and>
             map_get (stg_state (tsk_stage t)) ''sourceType'' = ''magnet'')
      | Inr g \<Rightarrow> set rs = {EngineStorage, EngineTransport, EngineClient} \<union>
          (if rto_sequential opts then {EngineReader} else {}))"

lemma released_error [simp]: "released lib t opts (Inl e) []"
  by (simp add: released_def)

lemma close_transfer_order:
  "set (ecl_order (close_transfer reader errs idle storage_err unclosed)) =
    {EngineTransport, EngineClient, EngineStorage} \<union> (case reader of ReaderEnded _ \<Rightarrow> {EngineReader} | _ \<Rightarrow> {})"
  by (auto simp: close_transfer_def unclosed_def Let_def split: reader_end.splits)

lemma start_transfer_open:
  assumes "start_transfer lib t files opts info paths trackers n
    [EngineClient, EngineTransport, EngineStorage] fs = (r, rs, fs')"
  shows "released lib t opts r rs"
proof (cases "select_engine_files n (rto_sequential opts) files [] (\<lambda>_. PriorityNone)")
  case (Inl e)
  with assms show ?thesis by (auto simp: start_transfer_def close_storage_def close_torrent_client_def)
next
  case (Inr cp)
  obtain chosen prio where cp: "cp = (chosen, prio)" by (cases cp)
  obtain saved fs1 where sv: "save_metainfo (fp_join [tsk_path t, tsk_title t @ ''.torrent'']) (egl_metainfo lib)
      (egl_encode lib) fs = (saved, fs1)"
    by (cases "save_metainfo (fp_join [tsk_path t, tsk_title t @ ''.torrent'']) (egl_metainfo lib)
      (egl_encode lib) fs") auto
  show ?thesis
  proof (cases saved)
    case None
    then show ?thesis using assms
      by (auto simp: start_transfer_def Let_def Inr cp sv released_def split: if_splits)
  next
    case (Some e)
    show ?thesis
    proof (cases "map_get (stg_state (tsk_stage t)) ''sourceType'' = ''magnet'' \<and> rto_save_magnet opts")
      case True
      let ?reader = "if rto_sequential opts then (case egl_reader lib of None \<Rightarrow> ReaderTimeout | Some err \<Rightarrow> ReaderEnded err)
        else NoReader"
      let ?c = "close_transfer ?reader (egl_client_errs lib) (egl_idle lib) (egl_storage lib) unclosed"
      have r: "r = Inl e" "rs = filter (\<lambda>x. x \<notin> set (ecl_order ?c))
          (if rto_sequential opts then [EngineReader, EngineClient, EngineTransport, EngineStorage]
           else [EngineClient, EngineTransport, EngineStorage])"
        using assms True by (simp_all add: start_transfer_def Let_def Inr cp sv Some)
      show ?thesis
        using True unfolding r released_def close_transfer_order
        by (cases "egl_reader lib"; cases "rto_sequential opts") simp_all
    next
      case False
      then show ?thesis using assms
        by (auto simp: start_transfer_def Let_def Inr cp released_def split: if_splits)
    qed
  qed
qed

text \<open>
  C23: Nothing is left open when the engine cannot be opened, with one exception. On every path on
  which \<open>newTorrentTransfer\<close> returns an error, the storage, the transport and the client that it has opened so
  far are closed, and so is the sequential reader, unless the error is that of writing the metainfo file of a
  magnet link and the reader does not end within the five seconds for which \<open>Close\<close> waits: then it
  is left running while the rest is closed. On success exactly the three are open, and
  the reader in sequential mode.
\<close>

theorem engine_released:
  "case new_torrent_transfer u nl tlib bc socks lib t files opts fs of (r, rs, fs') \<Rightarrow> released lib t opts r rs"
proof -
  obtain r rs fs' where x: "new_torrent_transfer u nl tlib bc socks lib t files opts fs = (r, rs, fs')"
    by (cases "new_torrent_transfer u nl tlib bc socks lib t files opts fs") auto
  then show ?thesis
    by (auto simp: new_torrent_transfer_def Let_def close_storage_def close_torrent_client_def
        intro: start_transfer_open split: sum.split_asm prod.split_asm option.split_asm)
qed

section \<open>The selected files\<close>

lemma select_engine_files_chosen:
  "select_engine_files n sq files chosen prio = Inr (chosen', prio') \<Longrightarrow>
   set chosen' = set chosen \<union> bf_index ` {f \<in> set files. bf_selected f}"
proof (induction n sq files chosen prio rule: select_engine_files.induct)
  case (2 n sq f fs chosen prio)
  have "{g \<in> set (f # fs). bf_selected g} =
      (if bf_selected f then {f} else {}) \<union> {g \<in> set fs. bf_selected g}" by auto
  with 2 show ?case by (cases "bf_selected f") (simp_all add: fun_upd_def split: if_splits)
qed (simp split: if_splits)

lemma select_engine_files_index:
  "select_engine_files n sq files chosen prio = Inr r \<Longrightarrow> f \<in> set files \<Longrightarrow> bf_selected f \<Longrightarrow>
   0 \<le> bf_index f \<and> bf_index f < int n"
proof (induction n sq files chosen prio rule: select_engine_files.induct)
  case (2 n sq g fs chosen prio)
  then show ?case by (cases "bf_selected g") (auto simp: fun_upd_def split: if_splits)
qed simp

lemma select_engine_files_rest:
  "select_engine_files n sq files chosen prio = Inr (chosen', prio') \<Longrightarrow> i \<notin> set chosen' \<Longrightarrow> prio' i = prio i"
proof (induction n sq files chosen prio rule: select_engine_files.induct)
  case (2 n sq f fs chosen prio)
  show ?case
  proof (cases "bf_selected f")
    case True
    then have r: "select_engine_files n sq fs (List.insert (bf_index f) chosen)
        (prio(bf_index f := requested_file_priority (bf_priority f) sq)) = Inr (chosen', prio')"
      and "0 \<le> bf_index f \<and> bf_index f < int n" using 2(3) by (auto split: if_splits)
    then have "prio' i = (prio(bf_index f := requested_file_priority (bf_priority f) sq)) i"
      using 2(2) True 2(4) by blast
    moreover have "bf_index f \<in> set chosen'" unfolding select_engine_files_chosen[OF r] by simp
    ultimately show ?thesis using 2(4) by auto
  qed (use 2 in simp)
qed (simp split: if_splits)

text \<open>An open engine downloads the selected files and no other.\<close>

lemma engine_selected:
  assumes "new_torrent_transfer u nl tlib bc socks lib t files opts fs = (Inr g, rs, fs')"
  shows "set (oen_selected g) = bf_index ` {f \<in> set files. bf_selected f}"
    and "i \<notin> set (oen_selected g) \<Longrightarrow> oen_priority g i = PriorityNone"
proof -
  obtain info paths trackers n rs1 fs1 where
    "start_transfer lib t files opts info paths trackers n rs1 fs1 = (Inr g, rs, fs')"
    using assms
    by (auto simp: new_torrent_transfer_def Let_def split: sum.split_asm prod.split_asm option.split_asm)
  then have s: "select_engine_files n (rto_sequential opts) files [] (\<lambda>_. PriorityNone) =
      Inr (oen_selected g, oen_priority g)"
    by (auto simp: start_transfer_def Let_def split: sum.split_asm prod.split_asm option.split_asm if_split_asm)
  show "set (oen_selected g) = bf_index ` {f \<in> set files. bf_selected f}"
    using select_engine_files_chosen[OF s] by simp
  show "i \<notin> set (oen_selected g) \<Longrightarrow> oen_priority g i = PriorityNone"
    by (rule select_engine_files_rest[OF s])
qed

section \<open>The transport\<close>

definition in_flight :: "web_transport \<Rightarrow> nat" where
  "in_flight w = length (filter (\<lambda>r. wrq_phase r \<noteq> RequestEnded) (wtr_requests w))"

definition transport_ok :: "web_transport \<Rightarrow> bool" where
  "transport_ok w \<longleftrightarrow>
     wtr_count w = int (in_flight w) \<and>
     (wtr_closing w \<longrightarrow> list_all wrq_canceled (wtr_requests w)) \<and>
     (wtr_close w = TransportClosed \<longrightarrow> in_flight w = 0)"

lemma filter_update_out:
  "i < length xs \<Longrightarrow> P (xs ! i) \<Longrightarrow> \<not> P y \<Longrightarrow> Suc (length (filter P (xs[i := y]))) = length (filter P xs)"
proof (induction xs arbitrary: i)
  case (Cons x xs)
  then show ?case by (cases i) auto
qed simp

lemma filter_update_same:
  "i < length xs \<Longrightarrow> P (xs ! i) \<longleftrightarrow> P y \<Longrightarrow> length (filter P (xs[i := y])) = length (filter P xs)"
proof (induction xs arbitrary: i)
  case (Cons x xs)
  then show ?case by (cases i) auto
qed simp

lemma finish_request_ok:
  assumes "transport_ok w" and "i < length (wtr_requests w)"
  shows "transport_ok (finish_request i w)"
proof (cases "wrq_phase (wtr_requests w ! i) = RequestEnded")
  case False
  let ?r = "\<lparr>wrq_phase = RequestEnded, wrq_canceled = True\<rparr>"
  have "Suc (length (filter (\<lambda>r. wrq_phase r \<noteq> RequestEnded) ((wtr_requests w)[i := ?r]))) = in_flight w"
    unfolding in_flight_def by (rule filter_update_out) (use assms(2) False in simp_all)
  then show ?thesis
    using assms False
    by (auto simp: transport_ok_def finish_request_def in_flight_def wtr_closing_def list_all_iff
        dest!: subsetD[OF set_update_subset_insert])
qed (use assms(1) in \<open>simp add: finish_request_def\<close>)

lemma transport_step_ok: "transport_step w ev w' \<Longrightarrow> transport_ok w \<Longrightarrow> transport_ok w'"
proof (induction rule: transport_step.induct)
  case (admit w)
  then show ?case by (auto simp: admit_request_def transport_ok_def in_flight_def wtr_closing_def)
next
  case (answer i w failed has_body)
  have "length (filter (\<lambda>r. wrq_phase r \<noteq> RequestEnded)
      ((wtr_requests w)[i := (wtr_requests w ! i)\<lparr>wrq_phase := RequestBody\<rparr>])) = in_flight w"
    unfolding in_flight_def by (rule filter_update_same) (use answer in simp_all)
  moreover have "list_all wrq_canceled (wtr_requests w) \<Longrightarrow>
      list_all wrq_canceled ((wtr_requests w)[i := (wtr_requests w ! i)\<lparr>wrq_phase := RequestBody\<rparr>])"
    using answer(1) by (auto simp: list_all_iff dest!: subsetD[OF set_update_subset_insert])
  ultimately show ?case
    using answer finish_request_ok[of w i]
    by (auto simp: answer_request_def transport_ok_def in_flight_def wtr_closing_def)
next
  case (read i w failed)
  then show ?case using finish_request_ok[of w i] by (simp add: read_body_def)
next
  case (close i w)
  then show ?case using finish_request_ok[of w i] by (simp add: close_body_def)
next
  case (begin_close w)
  then show ?case
    by (auto simp: begin_close_def transport_ok_def in_flight_def wtr_closing_def list_all_iff filter_map comp_def)
next
  case (end_close w)
  then show ?case by (auto simp: transport_ok_def in_flight_def wtr_closing_def)
qed

lemma transport_runs_ok: "transport_runs w evs w' \<Longrightarrow> transport_ok w \<Longrightarrow> transport_ok w'"
  by (induction rule: transport_runs.induct) (auto intro: transport_step_ok)

lemma quiet_step:
  assumes "transport_step w ev w'" and "wtr_close w = TransportClosed"
    and "list_all (\<lambda>r. wrq_phase r = RequestEnded) (wtr_requests w)"
  shows "w' = w"
  using assms
  by (induction rule: transport_step.induct)
    (auto simp: admit_request_def wtr_closing_def read_body_def close_body_def finish_request_def list_all_length)

lemma quiet_runs:
  "transport_runs w evs w' \<Longrightarrow> wtr_close w = TransportClosed \<Longrightarrow>
   list_all (\<lambda>r. wrq_phase r = RequestEnded) (wtr_requests w) \<Longrightarrow> w' = w"
  by (induction rule: transport_runs.induct) (auto dest: quiet_step)

text \<open>
  A closed transport is quiet. Once \<open>Close\<close> has returned, every request that was ever admitted
  has ended, and whatever is tried afterwards changes nothing: no request is in flight again, and a
  new one is refused as cancelled. At all times the wait group counts the requests in flight, so it
  is never decremented below zero.
\<close>

theorem closed_transport_quiet:
  assumes "transport_runs new_web_transport evs w" and "wtr_close w = TransportClosed"
    and "transport_runs w later w'"
  shows "w' = w \<and> wtr_count w = 0 \<and> list_all (\<lambda>r. wrq_phase r = RequestEnded) (wtr_requests w) \<and>
    fst (admit_request w') = Some ctx_canceled"
proof -
  have "transport_ok new_web_transport"
    by (simp add: transport_ok_def in_flight_def new_web_transport_def wtr_closing_def)
  from transport_runs_ok[OF assms(1) this] have ok: "transport_ok w" .
  then have "in_flight w = 0" "wtr_count w = 0" using assms(2) by (auto simp: transport_ok_def)
  then have ended: "list_all (\<lambda>r. wrq_phase r = RequestEnded) (wtr_requests w)"
    by (auto simp: in_flight_def list_all_iff filter_empty_conv)
  have "w' = w" by (rule quiet_runs[OF assms(3,2) ended])
  with ended \<open>wtr_count w = 0\<close> assms(2) show ?thesis by (simp add: admit_request_def wtr_closing_def)
qed

definition quiet_transport :: web_transport where
  "quiet_transport = \<lparr>wtr_close = TransportClosed, wtr_count = 0,
     wtr_requests = [\<lparr>wrq_phase = RequestEnded, wrq_canceled = True\<rparr>]\<rparr>"

lemma closed_transport_quiet_witness:
  "quiet_transport = quiet_transport \<and> wtr_count quiet_transport = 0 \<and>
   list_all (\<lambda>r. wrq_phase r = RequestEnded) (wtr_requests quiet_transport) \<and>
   fst (admit_request quiet_transport) = Some ctx_canceled"
proof (rule closed_transport_quiet)
  let ?body = "\<lparr>wtr_close = TransportOpen, wtr_count = 1,
     wtr_requests = [\<lparr>wrq_phase = RequestBody, wrq_canceled = False\<rparr>]\<rparr>"
  have 1: "transport_step new_web_transport AdmitRequest (snd (admit_request new_web_transport))" by (rule admit)
  have 2: "transport_step (snd (admit_request new_web_transport)) (AnswerRequest 0 False True) ?body"
    using answer[of 0 "snd (admit_request new_web_transport)" False True]
    by (simp add: admit_request_def new_web_transport_def wtr_closing_def answer_request_def)
  have 3: "transport_step ?body BeginClose (begin_close ?body)" by (rule begin_close) simp
  have 4: "transport_step (begin_close ?body) (CloseBody 0) (close_body 0 (begin_close ?body))"
    by (rule close) (simp_all add: begin_close_def)
  have 5: "transport_step (close_body 0 (begin_close ?body)) EndClose quiet_transport"
    using end_close[of "close_body 0 (begin_close ?body)"]
    by (simp add: begin_close_def close_body_def finish_request_def quiet_transport_def)
  show "transport_runs new_web_transport
      [AdmitRequest, AnswerRequest 0 False True, BeginClose, CloseBody 0, EndClose] quiet_transport"
    by (rule more[OF 1 more[OF 2 more[OF 3 more[OF 4 more[OF 5 stop]]]]])
  show "wtr_close quiet_transport = TransportClosed" by (simp add: quiet_transport_def)
  have "transport_step quiet_transport AdmitRequest (snd (admit_request quiet_transport))" by (rule admit)
  moreover have "snd (admit_request quiet_transport) = quiet_transport"
    by (simp add: admit_request_def wtr_closing_def quiet_transport_def)
  ultimately show "transport_runs quiet_transport [AdmitRequest] quiet_transport" using more stop by metis
qed

end
