(* ===== verification/Update.thy ===== *)
theory Update
  imports OsFiles GoNet GoJson BtModel
begin

text \<open>
  The update check and the preparation of a portable update, \<open>internal/update/checker.go\<close> and
  \<open>portable.go\<close>: the comparison of versions, the choice of the assets, their download into a fresh
  directory, and the verification of the archive. SHA-256, the reading of a ZIP archive and JSON
  are functions that the definitions take; what the servers answer is data.
\<close>

section \<open>Versions\<close>

datatype version = Version (ver_major: int) (ver_minor: int) (ver_patch: int)

instantiation version :: linorder
begin

definition less_version :: "version \<Rightarrow> version \<Rightarrow> bool" where
  "less_version a b \<longleftrightarrow>
     ver_major a < ver_major b \<or> ver_major a = ver_major b \<and>
       (ver_minor a < ver_minor b \<or> ver_minor a = ver_minor b \<and> ver_patch a < ver_patch b)"

definition less_eq_version :: "version \<Rightarrow> version \<Rightarrow> bool" where
  "less_eq_version a b \<longleftrightarrow> a = b \<or> a < b"

instance
proof
  fix a b c :: version
  show "(a < b) = (a \<le> b \<and> \<not> b \<le> a)" by (auto simp: less_version_def less_eq_version_def)
  show "a \<le> a" by (simp add: less_eq_version_def)
  show "a \<le> b \<Longrightarrow> b \<le> c \<Longrightarrow> a \<le> c" by (auto simp: less_version_def less_eq_version_def)
  show "a \<le> b \<Longrightarrow> b \<le> a \<Longrightarrow> a = b" by (auto simp: less_version_def less_eq_version_def)
  show "a \<le> b \<or> b \<le> a" by (cases a; cases b) (auto simp: less_version_def less_eq_version_def)
qed

end

definition invalid_version :: "unicode \<Rightarrow> string \<Rightarrow> goerr" where
  "invalid_version u value = new_error (''invalid semantic version '' @ quote u value)"

fun version_numbers :: "unicode \<Rightarrow> string \<Rightarrow> string list \<Rightarrow> int list result" where
  "version_numbers u value [] = Inr []"
| "version_numbers u value (p # ps) =
     (case parse_int p of
        None \<Rightarrow> Inl (invalid_version u value)
      | Some n \<Rightarrow>
          if n < 0 then Inl (invalid_version u value)
          else case version_numbers u value ps of Inl e \<Rightarrow> Inl e | Inr ns \<Rightarrow> Inr (n # ns))"

definition parse_version :: "unicode \<Rightarrow> string \<Rightarrow> int list result" where
  "parse_version u value =
     (let v = trim_prefix (trim_space value) ''v'';
          v = takeWhile (\<lambda>c. c \<noteq> CHR ''+'') v;
          v = takeWhile (\<lambda>c. c \<noteq> CHR ''-'') v;
          parts = split_on CHR ''.'' v in
      if length parts \<noteq> 3 then Inl (invalid_version u v) else version_numbers u v parts)"

fun newer_numbers :: "int list \<Rightarrow> int list \<Rightarrow> bool" where
  "newer_numbers (l # ls) (r # rs) = (if r \<noteq> l then r > l else newer_numbers ls rs)"
| "newer_numbers _ _ = False"

definition is_newer :: "unicode \<Rightarrow> string \<Rightarrow> string \<Rightarrow> bool result" where
  "is_newer u current candidate =
     (case parse_version u current of
        Inl e \<Rightarrow> Inl (wrap_error ''current version: '' e)
      | Inr l \<Rightarrow>
          (case parse_version u candidate of
             Inl e \<Rightarrow> Inl (wrap_error ''release version: '' e)
           | Inr r \<Rightarrow> Inr (newer_numbers l r)))"

section \<open>The latest release\<close>

record asset =
  ast_name :: string
  ast_url :: string
  ast_size :: int

record release =
  rel_version :: string
  rel_name :: string
  rel_url :: string
  rel_notes :: string
  rel_newer :: bool
  rel_assets :: "asset list"

record release_payload =
  rpl_tag :: string
  rpl_name :: string
  rpl_html_url :: string
  rpl_body :: string
  rpl_draft :: bool
  rpl_assets :: "asset list"

record checker =
  chk_current :: string
  chk_owner :: string
  chk_repository :: string
  chk_base :: string

text \<open>\<open>url.PathEscape\<close>.\<close>

definition escape_path_byte :: "char \<Rightarrow> string" where
  "escape_path_byte c =
     (let b = byte_of c in
      if (48 \<le> b \<and> b \<le> 57) \<or> (65 \<le> b \<and> b \<le> 90) \<or> (97 \<le> b \<and> b \<le> 122) \<or> c \<in> set ''-_.~$&+=:@'' then [c]
      else [CHR ''%'', upper_char (hex_digit (b div 16)), upper_char (hex_digit (b mod 16))])"

definition path_escape :: "string \<Rightarrow> string" where
  "path_escape s = concat (map escape_path_byte s)"

definition release_endpoint :: "checker \<Rightarrow> string" where
  "release_endpoint c =
     (let base = trim_right ''/'' (chk_base c); base = (if base = [] then ''https://api.github.com'' else base) in
      base @ ''/repos/'' @ path_escape (trim_space (chk_owner c)) @ ''/'' @ path_escape (trim_space (chk_repository c))
      @ ''/releases/latest'')"

text \<open>An answer: status, its text, and the body read up to a limit, or the error of reading it.\<close>

record http_answer =
  han_status :: int
  han_status_text :: string
  han_length :: int
  han_body :: "string result"

definition max_response_bytes :: nat where
  "max_response_bytes = 2097152"

definition check_release ::
  "unicode \<Rightarrow> (string \<Rightarrow> http_answer result result) \<Rightarrow> (string \<Rightarrow> release_payload result) \<Rightarrow> checker \<Rightarrow> release result" where
  "check_release u net decode c =
     (if trim_space (chk_owner c) = [] \<or> trim_space (chk_repository c) = []
      then Inl (new_error ''update repository is not configured'')
      else case net (release_endpoint c) of
        Inl e \<Rightarrow> Inl e
      | Inr (Inl e) \<Rightarrow> Inl (wrap_error ''request latest release: '' e)
      | Inr (Inr r) \<Rightarrow>
          if han_status r \<noteq> 200
          then Inl (new_error (''latest release request returned '' @ han_status_text r))
          else case han_body r of
            Inl e \<Rightarrow> Inl (wrap_error ''read latest release: '' e)
          | Inr body \<Rightarrow>
              if length body > max_response_bytes
              then Inl (new_error (''latest release response exceeds '' @ itoa (int max_response_bytes) @ '' bytes''))
              else case decode body of
                Inl e \<Rightarrow> Inl (wrap_error ''decode latest release: '' e)
              | Inr p \<Rightarrow>
                  if rpl_draft p \<or> trim_space (rpl_tag p) = [] \<or> trim_space (rpl_html_url p) = []
                  then Inl (new_error ''latest release payload is incomplete'')
                  else case is_newer u (chk_current c) (rpl_tag p) of
                    Inl e \<Rightarrow> Inl e
                  | Inr newer \<Rightarrow>
                      Inr \<lparr>rel_version = trim_prefix (rpl_tag p) ''v'', rel_name = rpl_name p,
                        rel_url = rpl_html_url p, rel_notes = rpl_body p, rel_newer = newer,
                        rel_assets = filter (\<lambda>a. trim_space (ast_name a) \<noteq> [] \<and> trim_space (ast_url a) \<noteq> [])
                          (rpl_assets p)\<rparr>)"

section \<open>Portable assets\<close>

definition empty_asset :: asset where
  "empty_asset = \<lparr>ast_name = [], ast_url = [], ast_size = 0\<rparr>"

text \<open>The last archive of the list, and the first asset with its name and the suffix of a checksum.\<close>

definition portable_assets :: "unicode \<Rightarrow> asset list \<Rightarrow> (asset \<times> asset) result" where
  "portable_assets u assets =
     (let archive = foldl (\<lambda>found a. if suffix ''windows-x64-portable.zip'' (to_lower u (ast_name a)) then a else found)
            empty_asset assets;
          wanted = to_lower u (ast_name archive @ ''.sha256'');
          checksum = (if ast_name archive \<noteq> []
            then (case find (\<lambda>a. to_lower u (ast_name a) = wanted) assets of None \<Rightarrow> empty_asset | Some a \<Rightarrow> a)
            else empty_asset) in
      if ast_name archive = [] \<or> ast_name checksum = []
      then Inl (new_error ''release has no portable ZIP and matching SHA-256 asset'')
      else Inr (archive, checksum))"

definition has_portable_update :: "unicode \<Rightarrow> release \<Rightarrow> bool" where
  "has_portable_update u r = (case portable_assets u (rel_assets r) of Inl _ \<Rightarrow> False | Inr _ \<Rightarrow> True)"

text \<open>
  \<open>download\<close>: \<open>net\<close> gives the answer, with the body as far as it was copied under the limit and the
  error of copying and closing.
\<close>

record asset_answer =
  ans_status :: int
  ans_status_text :: string
  ans_length :: int
  ans_body :: string
  ans_err :: "goerr option"

definition os_create_excl :: "fsys \<Rightarrow> string \<Rightarrow> goerr option \<times> fsys" where
  "os_create_excl fs p =
     (case fs_faults fs (fs_key fs p) of
        Some e \<Rightarrow> (Some e, fs)
      | None \<Rightarrow> if fs_nodes fs (fs_key fs p) \<noteq> None then (Some (new_error ''file exists''), fs)
          else (None, put_node p (NFile []) fs))"

definition download_asset ::
  "unicode \<Rightarrow> netlib \<Rightarrow> (string \<Rightarrow> asset_answer result) \<Rightarrow> string \<Rightarrow> string \<Rightarrow> nat \<Rightarrow> fsys \<Rightarrow> goerr option \<times> fsys" where
  "download_asset u nl net source destination limit fs =
     (if (case nl_parse_url nl source of Inl _ \<Rightarrow> True
          | Inr p \<Rightarrow> (up_scheme p \<noteq> ''https'' \<and> up_scheme p \<noteq> ''http'') \<or> up_host p = [])
      then (Some (new_error (''invalid asset URL '' @ quote u source)), fs)
      else case net source of
        Inl e \<Rightarrow> (Some e, fs)
      | Inr a \<Rightarrow>
          if ans_status a \<noteq> 200 then (Some (new_error (''asset request returned '' @ ans_status_text a)), fs)
          else if ans_length a > int limit
          then (Some (new_error (''asset exceeds '' @ itoa (int limit) @ '' bytes'')), fs)
          else case os_create_excl fs destination of
            (Some e, fs) \<Rightarrow> (Some e, fs)
          | (None, fs) \<Rightarrow>
              (let body = take (limit + 1) (ans_body a); fs = put_node destination (NFile body) fs in
               if ans_err a \<noteq> None then (ans_err a, fs)
               else if length body > limit
               then (Some (new_error (''asset exceeds '' @ itoa (int limit) @ '' bytes'')), fs)
               else (None, fs)))"

section \<open>Verification\<close>

text \<open>\<open>hex.DecodeString\<close> and \<open>hex.EncodeToString\<close>.\<close>

fun hex_decode :: "string \<Rightarrow> string option" where
  "hex_decode [] = Some []"
| "hex_decode (a # b # s) =
     (case (hex_value a, hex_value b) of
        (Some x, Some y) \<Rightarrow> map_option (\<lambda>r. char_of (16 * x + y) # r) (hex_decode s)
      | _ \<Rightarrow> None)"
| "hex_decode _ = None"

definition hex_text :: "string \<Rightarrow> string" where
  "hex_text s = concat (map (\<lambda>c. [hex_digit (byte_of c div 16), hex_digit (byte_of c mod 16)]) s)"

definition verify_checksum :: "unicode \<Rightarrow> (string \<Rightarrow> string) \<Rightarrow> fsys \<Rightarrow> string \<Rightarrow> string \<Rightarrow> goerr option" where
  "verify_checksum u sha256 fs archive_path checksum_path =
     (case os_read_file fs checksum_path of
        Inl e \<Rightarrow> Some e
      | Inr text_bytes \<Rightarrow>
          (let fields = go_fields text_bytes; bad = Some (new_error ''portable checksum file is invalid'') in
           if fields = [] \<or> length (hd fields) \<noteq> 64 then bad
           else case hex_decode (hd fields) of
             None \<Rightarrow> bad
           | Some expected \<Rightarrow>
               (case os_read_file fs archive_path of
                  Inl e \<Rightarrow> Some e
                | Inr content \<Rightarrow>
                    if \<not> equal_fold u (hex_text (sha256 content)) (hex_text expected)
                    then Some (new_error ''portable archive SHA-256 mismatch'') else None)))"

text \<open>An entry of an archive: its name, the error of opening it and what reading it gives. A manifest, decoded.\<close>

record zip_entry =
  zen_name :: string
  zen_open :: "goerr option"
  zen_content :: "string result"

record portable_manifest =
  pmf_version :: string
  pmf_files :: "(string \<times> string) list"

definition unsafe_entry :: "string \<Rightarrow> bool" where
  "unsafe_entry name \<longleftrightarrow>
     (let clean = fp_clean name in
      is_abs clean \<or> clean = ''..'' \<or> prefix (''..'' @ [backslash]) clean)"

text \<open>The map of the entries; a later entry with the same path replaces an earlier one.\<close>

fun archive_files :: "unicode \<Rightarrow> zip_entry list \<Rightarrow> (string \<times> zip_entry) list \<Rightarrow> (string \<times> zip_entry) list result" where
  "archive_files u [] files = Inr files"
| "archive_files u (z # zs) files =
     (if unsafe_entry (zen_name z)
      then Inl (new_error (''portable archive contains unsafe path '' @ quote u (zen_name z)))
      else archive_files u zs (AList.update (to_slash (fp_clean (zen_name z))) z files))"

definition required_files :: "string list" where
  "required_files = [''gd3win.exe'', ''gd3-bt-runtime.exe'', ''update-portable.ps1'']"

fun check_manifest ::
  "unicode \<Rightarrow> (string \<Rightarrow> string) \<Rightarrow> (string \<times> zip_entry) list \<Rightarrow> (string \<times> string) list \<Rightarrow> goerr option" where
  "check_manifest u sha256 files [] = None"
| "check_manifest u sha256 files ((name, digest) # items) =
     (case map_of files (to_slash (fp_clean name)) of
        None \<Rightarrow> Some (new_error (''portable manifest file '' @ quote u name @ '' is missing''))
      | Some z \<Rightarrow>
          if zen_open z \<noteq> None then zen_open z
          else (case zen_content z of
             Inl e \<Rightarrow> Some e
           | Inr content \<Rightarrow>
               if \<not> equal_fold u (hex_text (sha256 content)) digest
               then Some (new_error (''portable manifest hash mismatch for '' @ quote u name))
               else check_manifest u sha256 files items))"

definition max_manifest_bytes :: nat where
  "max_manifest_bytes = 1048576"

definition manifest_bytes :: "zip_entry \<Rightarrow> string result" where
  "manifest_bytes z = map_sum id (take max_manifest_bytes) (zen_content z)"

text \<open>\<open>unzip\<close> reads an archive's bytes; \<open>decode\<close> is the JSON decoder on what the limited reader of the manifest gives.\<close>

definition verify_portable_archive ::
  "unicode \<Rightarrow> (string \<Rightarrow> string) \<Rightarrow> (string \<Rightarrow> zip_entry list result) \<Rightarrow>
   (string result \<Rightarrow> portable_manifest result) \<Rightarrow> fsys \<Rightarrow> string \<Rightarrow> string \<Rightarrow> goerr option" where
  "verify_portable_archive u sha256 unzip decode fs path version =
     (case (case os_read_file fs path of Inl e \<Rightarrow> Inl e | Inr content \<Rightarrow> unzip content) of
        Inl e \<Rightarrow> Some (wrap_error ''open portable archive: '' e)
      | Inr entries \<Rightarrow>
          (case archive_files u entries [] of
             Inl e \<Rightarrow> Some e
           | Inr files \<Rightarrow>
               (case map_of files ''release-manifest.json'' of
                  None \<Rightarrow> Some (new_error ''portable archive has no release-manifest.json'')
                | Some z \<Rightarrow>
                    if zen_open z \<noteq> None then zen_open z
                    else (case decode (manifest_bytes z) of
                            Inl e \<Rightarrow> Some (wrap_error ''decode portable manifest: '' e)
                          | Inr manifest \<Rightarrow>
                              if pmf_version manifest \<noteq> version
                              then Some (new_error (''portable version '' @ quote u (pmf_version manifest)
                                @ '' does not match release '' @ quote u version))
                              else case check_manifest u sha256 files (pmf_files manifest) of
                                Some e \<Rightarrow> Some e
                              | None \<Rightarrow>
                                  (case find (\<lambda>n. n \<notin> set (map fst (pmf_files manifest))) required_files of
                                     None \<Rightarrow> None
                                   | Some n \<Rightarrow> Some (new_error (''portable archive is missing required file '' @ quote u n)))))))"

section \<open>Preparing an update\<close>

definition max_portable_bytes :: nat where
  "max_portable_bytes = 268435456"

definition max_checksum_bytes :: nat where
  "max_checksum_bytes = 4096"

record prepared_update =
  ppu_version :: string
  ppu_archive :: string

text \<open>The downloads and the verification in the fresh directory.\<close>

definition fetch_and_verify ::
  "unicode \<Rightarrow> netlib \<Rightarrow> (string \<Rightarrow> asset_answer result) \<Rightarrow> (string \<Rightarrow> string) \<Rightarrow> (string \<Rightarrow> zip_entry list result) \<Rightarrow>
   (string result \<Rightarrow> portable_manifest result) \<Rightarrow> release \<Rightarrow> asset \<Rightarrow> asset \<Rightarrow> string \<Rightarrow> fsys \<Rightarrow> goerr option \<times> fsys" where
  "fetch_and_verify u nl net sha256 unzip decode r archive checksum archive_path fs =
     (case download_asset u nl net (ast_url archive) archive_path max_portable_bytes fs of
        (Some e, fs) \<Rightarrow> (Some (wrap_error ''download portable archive: '' e), fs)
      | (None, fs) \<Rightarrow>
          (case download_asset u nl net (ast_url checksum) (archive_path @ ''.sha256'') max_checksum_bytes fs of
             (Some e, fs) \<Rightarrow> (Some (wrap_error ''download portable checksum: '' e), fs)
           | (None, fs) \<Rightarrow>
               (case verify_checksum u sha256 fs archive_path (archive_path @ ''.sha256'') of
                  Some e \<Rightarrow> (Some e, fs)
                | None \<Rightarrow> (verify_portable_archive u sha256 unzip decode fs archive_path (rel_version r), fs))))"

text \<open>\<open>Prepare\<close>; \<open>temp_dir\<close> is the fresh directory that \<open>MkdirTemp\<close> makes, or its error.\<close>

definition prepare_update ::
  "unicode \<Rightarrow> netlib \<Rightarrow> (string \<Rightarrow> asset_answer result) \<Rightarrow> (string \<Rightarrow> string) \<Rightarrow> (string \<Rightarrow> zip_entry list result) \<Rightarrow>
   (string result \<Rightarrow> portable_manifest result) \<Rightarrow> release \<Rightarrow> string result \<Rightarrow> fsys \<Rightarrow> prepared_update result \<times> fsys" where
  "prepare_update u nl net sha256 unzip decode r temp_dir fs =
     (case portable_assets u (rel_assets r) of
        Inl e \<Rightarrow> (Inl e, fs)
      | Inr (archive, checksum) \<Rightarrow>
          if ast_size archive > int max_portable_bytes
          then (Inl (new_error (''portable archive exceeds '' @ itoa (int max_portable_bytes) @ '' bytes'')), fs)
          else case temp_dir of
            Inl e \<Rightarrow> (Inl (wrap_error ''create update directory: '' e), fs)
          | Inr dir \<Rightarrow>
              (let fs = put_node dir NDir fs; archive_path = fp_join [dir, fp_base (ast_name archive)] in
               case fetch_and_verify u nl net sha256 unzip decode r archive checksum archive_path fs of
                 (Some e, fs) \<Rightarrow> (Inl e, snd (os_remove_all fs dir))
               | (None, fs) \<Rightarrow> (Inr \<lparr>ppu_version = rel_version r, ppu_archive = archive_path\<rparr>, fs)))"

definition launch_portable_updater ::
  "prepared_update \<Rightarrow> string \<Rightarrow> string \<Rightarrow> int \<Rightarrow> fsys \<Rightarrow> goerr option \<Rightarrow> string list result" where
  "launch_portable_updater p dir executable pid fs start_err =
     (let script = fp_join [dir, ''update-portable.ps1''] in
      case os_stat fs script of
        Inl e \<Rightarrow> Inl (wrap_error ''portable updater helper: '' e)
      | Inr _ \<Rightarrow>
          (case start_err of
             Some e \<Rightarrow> Inl (wrap_error ''start portable updater: '' e)
           | None \<Rightarrow> Inr [''powershell.exe'', ''-NoProfile'', ''-ExecutionPolicy'', ''Bypass'', ''-File'', script,
               ''-Archive'', ppu_archive p, ''-InstallDir'', dir, ''-WaitPID'', itoa pid, ''-Relaunch'', executable]))"

end
