(* ===== verification/UpdateProps.thy ===== *)
theory UpdateProps
  imports Update BtPaths GoBase64
begin

text \<open>
  What the update promises: versions are compared as the order on them says, an update that is
  offered for installation has been verified, and a failed preparation leaves no trace.
\<close>

section \<open>Comparing versions\<close>

text \<open>The version that three numbers make.\<close>

fun version_of :: "int list \<Rightarrow> version" where
  "version_of [a, b, c] = Version a b c"
| "version_of _ = Version 0 0 0"

lemma version_numbers_length:
  "version_numbers u v ps = Inr ns \<Longrightarrow> length ns = length ps \<and> list_all (\<lambda>n. 0 \<le> n) ns"
  by (induction ps arbitrary: ns) (auto split: option.splits if_splits sum.splits)

lemma parse_version_three:
  assumes "parse_version u s = Inr ns"
  obtains a b c where "ns = [a, b, c]"
proof -
  have "length ns = 3"
    using assms version_numbers_length by (auto simp: parse_version_def Let_def split: if_splits)
  then show thesis using that by (cases ns rule: version_of.cases) auto
qed

text \<open>
  The update check orders versions as numbers. When both texts parse, the release is reported as
  newer exactly when its version is greater in the order of versions, which compares major, minor
  and patch numbers in turn.
\<close>

theorem is_newer_order:
  assumes "parse_version u current = Inr l" and "parse_version u candidate = Inr r"
  shows "is_newer u current candidate = Inr (version_of l < version_of r)"
proof -
  obtain a b c where l: "l = [a, b, c]" by (rule parse_version_three[OF assms(1)])
  obtain x y z where r: "r = [x, y, z]" by (rule parse_version_three[OF assms(2)])
  show ?thesis using assms by (auto simp: is_newer_def l r less_version_def)
qed

lemma is_newer_order_witness: "is_newer ascii_tables ''1.9.3'' '' v1.10.0-rc1+b5'' = Inr (Version 1 9 3 < Version 1 10 0)"
proof -
  have "parse_version ascii_tables ''1.9.3'' = Inr [1, 9, 3]" by code_simp
  moreover have "parse_version ascii_tables '' v1.10.0-rc1+b5'' = Inr [1, 10, 0]" by code_simp
  ultimately show ?thesis using is_newer_order by fastforce
qed

text \<open>A pre-release is not told of its release: what follows the numbers is cut off.\<close>

lemma prerelease_not_updated: "is_newer ascii_tables ''1.4.0-rc1'' ''v1.4.0'' = Inr False"
  by code_simp

text \<open>
  A rooted path and a path relative to the current directory of a drive are not absolute for
  \<open>filepath.IsAbs\<close> on Windows, and pass the check of unsafe names.
\<close>

lemma rooted_entry_accepted:
  "\<not> unsafe_entry (backslash # ''Windows'' @ backslash # ''a.dll'') \<and> \<not> unsafe_entry ''/Windows/a.dll'' \<and> \<not> unsafe_entry ''C:a.dll''"
  by code_simp

section \<open>Hexadecimal texts\<close>

lemma hex_text_inj: "hex_text s = hex_text t \<Longrightarrow> s = t"
proof (induction s arbitrary: t)
  case (Cons c s)
  then obtain d t' where t: "t = d # t'" by (cases t) (auto simp: hex_text_def)
  have lt: "byte_of x div 16 < 16" "byte_of x mod 16 < 16" for x
    using byte_bound[of x] by (simp_all add: div_less_iff_less_mult)
  have h: "hex_digit (byte_of c div 16) = hex_digit (byte_of d div 16)"
    "hex_digit (byte_of c mod 16) = hex_digit (byte_of d mod 16)" "hex_text s = hex_text t'"
    using Cons.prems by (simp_all add: hex_text_def t)
  have "byte_of c div 16 = byte_of d div 16" "byte_of c mod 16 = byte_of d mod 16"
    using hex_digit_inj[OF lt(1) lt(1) h(1)] hex_digit_inj[OF lt(2) lt(2) h(2)] by blast+
  then have "byte_of c = byte_of d" by (metis div_mult_mod_eq)
  then have "c = d" by (simp add: byte_of_def)
  with Cons.IH[OF h(3)] t show ?case by simp
qed (auto simp: hex_text_def)

lemma hex_digit_plain: "n < 16 \<Longrightarrow> lower_char (hex_digit n) = hex_digit n \<and> ascii_char (hex_digit n)"
  using byte_of_hex_digit[of n] by (simp add: lower_char_def ascii_char_def)

lemma hex_text_plain: "ascii (hex_text s) \<and> map lower_char (hex_text s) = hex_text s"
proof (induction s)
  case (Cons c s)
  have "byte_of c div 16 < 16" "byte_of c mod 16 < 16"
    using byte_bound[of c] by (simp_all add: div_less_iff_less_mult)
  with Cons hex_digit_plain show ?case by (simp add: hex_text_def ascii_def)
qed (simp add: hex_text_def ascii_def)

lemma equal_fold_hex: "equal_fold u (hex_text s) (hex_text t) \<longleftrightarrow> s = t"
  using hex_text_plain hex_text_inj by (auto simp: equal_fold_def)

section \<open>Verification\<close>

text \<open>What a verified archive has.\<close>

definition manifest_holds ::
  "unicode \<Rightarrow> (string \<Rightarrow> string) \<Rightarrow> zip_entry list \<Rightarrow> (string \<times> string) list \<Rightarrow> bool" where
  "manifest_holds u sha256 entries items \<longleftrightarrow>
     (\<forall>(name, digest)\<in>set items. \<exists>z\<in>set entries. \<exists>content.
        to_slash (fp_clean (zen_name z)) = to_slash (fp_clean name) \<and> zen_content z = Inr content \<and>
        equal_fold u (hex_text (sha256 content)) digest)"

definition archive_verified ::
  "unicode \<Rightarrow> (string \<Rightarrow> string) \<Rightarrow> (string \<Rightarrow> zip_entry list result) \<Rightarrow>
   (string result \<Rightarrow> portable_manifest result) \<Rightarrow> string \<Rightarrow> string \<Rightarrow> bool" where
  "archive_verified u sha256 unzip decode version content \<longleftrightarrow>
     (\<exists>entries manifest. \<exists>z\<in>set entries. unzip content = Inr entries \<and>
        list_all (\<lambda>z. \<not> unsafe_entry (zen_name z)) entries \<and>
        to_slash (fp_clean (zen_name z)) = ''release-manifest.json'' \<and>
        decode (manifest_bytes z) = Inr manifest \<and> pmf_version manifest = version \<and>
        manifest_holds u sha256 entries (pmf_files manifest) \<and>
        set required_files \<subseteq> fst ` set (pmf_files manifest))"

lemma archive_files_sound:
  assumes "archive_files u zs files = Inr files'"
  shows "list_all (\<lambda>z. \<not> unsafe_entry (zen_name z)) zs"
    and "map_of files' k = Some z \<Longrightarrow> map_of files k = Some z \<or> (z \<in> set zs \<and> to_slash (fp_clean (zen_name z)) = k)"
proof -
  have "list_all (\<lambda>z. \<not> unsafe_entry (zen_name z)) zs \<and>
    (map_of files' k = Some z \<longrightarrow> map_of files k = Some z \<or> (z \<in> set zs \<and> to_slash (fp_clean (zen_name z)) = k))"
    using assms
  proof (induction u zs files rule: archive_files.induct)
    case (2 u y ys files)
    then show ?case by (auto split: if_splits)
  qed simp
  then show "list_all (\<lambda>z. \<not> unsafe_entry (zen_name z)) zs"
    and "map_of files' k = Some z \<Longrightarrow> map_of files k = Some z \<or> (z \<in> set zs \<and> to_slash (fp_clean (zen_name z)) = k)"
    by blast+
qed

lemma check_manifest_sound:
  assumes "\<And>k z. map_of files k = Some z \<Longrightarrow> z \<in> set entries \<and> to_slash (fp_clean (zen_name z)) = k"
    and "check_manifest u sha256 files items = None"
  shows "manifest_holds u sha256 entries items"
  using assms
proof (induction u sha256 files items rule: check_manifest.induct)
  case (2 u sha256 files name digest items)
  obtain z where z: "map_of files (to_slash (fp_clean name)) = Some z"
    using 2(3) by (cases "map_of files (to_slash (fp_clean name))") auto
  have o: "zen_open z = None" using 2(3) z by (cases "zen_open z") auto
  obtain content where c: "zen_content z = Inr content" using 2(3) z o by (cases "zen_content z") auto
  have d: "equal_fold u (hex_text (sha256 content)) digest" and r: "check_manifest u sha256 files items = None"
    using 2(3) z o c by (auto split: if_splits)
  have "manifest_holds u sha256 entries items" by (rule 2(1)[OF z _ c _ 2(2) r]) (use d o in auto)
  then show ?case using 2(2)[OF z] c d by (auto simp: manifest_holds_def)
qed (simp add: manifest_holds_def)

lemma verify_archive_sound:
  assumes "verify_portable_archive u sha256 unzip decode fs path version = None"
  shows "\<exists>content. os_read_file fs path = Inr content \<and> archive_verified u sha256 unzip decode version content"
proof -
  note v = assms[unfolded verify_portable_archive_def]
  obtain content where c: "os_read_file fs path = Inr content" using v by (cases "os_read_file fs path") auto
  obtain entries where e: "unzip content = Inr entries" using v c by (cases "unzip content") auto
  obtain files where f: "archive_files u entries [] = Inr files" using v c e by (cases "archive_files u entries []") auto
  obtain z where z: "map_of files ''release-manifest.json'' = Some z"
    using v c e f by (cases "map_of files ''release-manifest.json''") auto
  have mt: "zen_open z = None" using v c e f z by (cases "zen_open z") auto
  obtain m where m: "decode (manifest_bytes z) = Inr m"
    using v c e f z mt by (cases "decode (manifest_bytes z)") auto
  have ver: "pmf_version m = version" and chk: "check_manifest u sha256 files (pmf_files m) = None"
    and req: "find (\<lambda>n. n \<notin> set (map fst (pmf_files m))) required_files = None"
    using v c e f z mt m by (auto split: if_splits option.splits)
  have "manifest_holds u sha256 entries (pmf_files m)"
    by (rule check_manifest_sound[OF _ chk]) (use archive_files_sound(2)[OF f] in auto)
  moreover have "set required_files \<subseteq> fst ` set (pmf_files m)" using req by (auto simp: find_None_iff)
  moreover have "z \<in> set entries" "to_slash (fp_clean (zen_name z)) = ''release-manifest.json''"
    using archive_files_sound(2)[OF f z] by auto
  ultimately show ?thesis
    using c e ver m mt archive_files_sound(1)[OF f] unfolding archive_verified_def by blast
qed

lemma verify_checksum_sound:
  assumes "verify_checksum u sha256 fs path sum_path = None"
  shows "\<exists>content sum_text. os_read_file fs path = Inr content \<and> os_read_file fs sum_path = Inr sum_text \<and>
    hex_decode (hd (go_fields sum_text)) = Some (sha256 content)"
  using assms
  by (auto simp: verify_checksum_def Let_def equal_fold_hex split: sum.splits if_splits option.splits)

text \<open>
  C24: An update that is offered for installation has been verified. When \<open>Prepare\<close> returns an update,
  the archive that it names is on the disk, its SHA-256 is the one of the checksum asset, every name
  in it passed the check of unsafe names, its manifest is of the release's version, every file of
  the manifest is in the archive with its hash, and the required programs are among them.
\<close>

theorem prepared_update_verified:
  assumes "prepare_update u nl net sha256 unzip decode r temp_dir fs = (Inr p, fs')"
  shows "ppu_version p = rel_version r \<and>
    (\<exists>content sum_text. os_read_file fs' (ppu_archive p) = Inr content \<and>
       os_read_file fs' (ppu_archive p @ ''.sha256'') = Inr sum_text \<and>
       hex_decode (hd (go_fields sum_text)) = Some (sha256 content) \<and>
       archive_verified u sha256 unzip decode (rel_version r) content)"
proof -
  obtain archive checksum where a: "portable_assets u (rel_assets r) = Inr (archive, checksum)"
    using assms by (cases "portable_assets u (rel_assets r)") (auto simp: prepare_update_def)
  obtain dir where d: "temp_dir = Inr dir"
    using assms a by (cases temp_dir) (auto simp: prepare_update_def split: if_splits)
  let ?path = "fp_join [dir, fp_base (ast_name archive)]"
  have f: "fetch_and_verify u nl net sha256 unzip decode r archive checksum ?path (put_node dir NDir fs) = (None, fs')"
    and p: "p = \<lparr>ppu_version = rel_version r, ppu_archive = ?path\<rparr>"
    using assms a d by (auto simp: prepare_update_def Let_def split: if_splits prod.splits option.splits)
  have "verify_checksum u sha256 fs' ?path (?path @ ''.sha256'') = None"
    and "verify_portable_archive u sha256 unzip decode fs' ?path (rel_version r) = None"
    using f by (auto simp: fetch_and_verify_def split: prod.splits option.splits)
  from verify_checksum_sound[OF this(1)] verify_archive_sound[OF this(2)] show ?thesis by (auto simp: p)
qed

section \<open>A failed preparation\<close>

definition plain_name :: "string \<Rightarrow> bool" where
  "plain_name b \<longleftrightarrow> b \<notin> {[], ''.'', ''..''} \<and> slash \<notin> set b \<and> backslash \<notin> set b \<and> CHR '':'' \<notin> set b"

lemma plain_name_elems:
  assumes "plain_name b"
  shows "fp_elems b = [b]" and "fp_clean b = b" and "plain_rel b"
proof -
  have r: "rel_elems [b]" and t: "fp_text [] False [b] = b"
    using assms by (auto simp: rel_elems_def plain_name_def fp_text_def)
  show "plain_rel b" using rel_text_plain[OF r] by (simp add: t)
  show e: "fp_elems b = [b]" using rel_text_elems[OF r] by (simp add: t)
  show "fp_clean b = b" using plain_rel_elems(2)[OF \<open>plain_rel b\<close>] by (simp add: e t)
qed

lemma join_snoc: "join_with d (xs @ [b]) @ s = join_with d (xs @ [b @ s])"
  by (induction d xs rule: join_with.induct) simp_all

text \<open>Where a plain name in a directory of a drive lies.\<close>

lemma file_in_dir:
  assumes "drive_path dir" and "last dir \<noteq> CHR '':''" and "fp_elems dir \<noteq> []" and "plain_name b"
  shows "in_tree (fs_key fs dir) (fs_key fs (fp_join [dir, b]))"
    and "in_tree (fs_key fs dir) (fs_key fs (fp_join [dir, b] @ ''.sha256''))"
proof -
  note n = plain_name_elems[OF assms(4)] and ne = fp_clean_drive(2,3)[OF assms(1)]
  have "\<not> is_unc b" using assms(4) by (cases b) (auto simp: plain_name_def is_unc_def is_sep_def split: list.splits)
  then have "\<not> escapes_root (fp_clean b)"
    using n(2,3) assms(4)
    by (auto simp: escapes_root_def plain_name_def plain_rel_def is_abs_def prefix_def)
  then have j: "fp_join [dir, b] = drive_text (hd dir) (fp_elems dir @ [b])"
    using drive_join_below[OF assms(1,2) n(3)] n(1,2) by simp
  have s: "fp_join [dir, b] @ ''.sha256'' = drive_text (hd dir) (fp_elems dir @ [b @ ''.sha256''])"
    using join_snoc[of "[backslash]" "fp_elems dir" b "''.sha256''"] by (simp add: j drive_text_def)
  have key: "in_tree (fs_key fs dir) (fs_key fs (drive_text (hd dir) (fp_elems dir @ [c])))" if c: "plain_name c" for c
  proof -
    have "norm_elems (fp_elems dir @ [c])"
      by (rule norm_elems_append[OF ne(1)]) (use c in \<open>auto simp: rel_elems_def plain_name_def\<close>)
    then have k: "fs_key fs (drive_text (hd dir) (fp_elems dir @ [c])) = drive_text (hd dir) (fp_elems dir @ [c])"
      using ne(2) by (simp add: fs_key_def)
    have "is_abs dir" using assms(1) by (rule drive_pathE) (simp add: is_abs_def)
    then have d: "fs_key fs dir = drive_text (hd dir) (fp_elems dir)"
      using fp_clean_drive(1)[OF assms(1)] by (simp add: fs_key_def fp_abs_def)
    have "drive_text (hd dir) (fp_elems dir @ [c]) = drive_text (hd dir) (fp_elems dir) @ backslash # c"
      using join_with_append[OF assms(3), of "[c]" "[backslash]"] by (simp add: drive_text_def)
    then have "prefix (drive_text (hd dir) (fp_elems dir) @ [backslash]) (drive_text (hd dir) (fp_elems dir @ [c]))"
      by (simp add: prefix_def)
    then show ?thesis unfolding in_tree_def k d by (rule disjI2)
  qed
  show "in_tree (fs_key fs dir) (fs_key fs (fp_join [dir, b]))" unfolding j by (rule key[OF assms(4)])
  have "plain_name (b @ ''.sha256'')" using assms(4) by (auto simp: plain_name_def slash_def backslash_def)
  then show "in_tree (fs_key fs dir) (fs_key fs (fp_join [dir, b] @ ''.sha256''))" unfolding s by (rule key)
qed

text \<open>Nothing changes outside of a directory.\<close>

definition changes_in :: "string \<Rightarrow> fsys \<Rightarrow> fsys \<Rightarrow> bool" where
  "changes_in t fs fs' \<longleftrightarrow> fs_cwd fs' = fs_cwd fs \<and> fs_faults fs' = fs_faults fs \<and>
     (\<forall>q. \<not> in_tree t q \<longrightarrow> fs_nodes fs' q = fs_nodes fs q)"

lemma changes_in_trans: "changes_in t fs fs' \<Longrightarrow> changes_in t fs' fs'' \<Longrightarrow> changes_in t fs fs''"
  by (simp add: changes_in_def)

lemma changes_in_only: "only_changes p fs fs' \<Longrightarrow> in_tree t (fs_key fs p) \<Longrightarrow> changes_in t fs fs'"
  unfolding only_changes_def changes_in_def by metis

lemma create_changes: "os_create_excl fs p = (r, fs') \<Longrightarrow> only_changes p fs fs'"
  by (auto simp: os_create_excl_def split: option.splits if_splits)

lemma download_changes:
  assumes "download_asset u nl net source p limit fs = (r, fs')"
  shows "only_changes p fs fs'"
proof -
  have put: "only_changes p fs (put_node p n fs1)" if "only_changes p fs fs1" for n fs1
    by (rule only_changes_trans[OF that]) simp
  obtain e1 fs1 where c: "os_create_excl fs p = (e1, fs1)" by (cases "os_create_excl fs p")
  note o = create_changes[OF c]
  from assms o put[OF o] show ?thesis
    by (auto simp: download_asset_def Let_def c split: sum.split_asm if_split_asm option.split_asm)
qed

lemma fetch_changes:
  assumes "fetch_and_verify u nl net sha256 unzip decode r archive checksum p fs = (e, fs')"
    and "in_tree t (fs_key fs p)" and "in_tree t (fs_key fs (p @ ''.sha256''))"
  shows "changes_in t fs fs'"
proof -
  obtain e1 fs1 where d1: "download_asset u nl net (ast_url archive) p max_portable_bytes fs = (e1, fs1)"
    by (cases "download_asset u nl net (ast_url archive) p max_portable_bytes fs")
  obtain e2 fs2 where d2: "download_asset u nl net (ast_url checksum) (p @ ''.sha256'') max_checksum_bytes fs1 = (e2, fs2)"
    by (cases "download_asset u nl net (ast_url checksum) (p @ ''.sha256'') max_checksum_bytes fs1")
  have c1: "changes_in t fs fs1" by (rule changes_in_only[OF download_changes[OF d1] assms(2)])
  have "changes_in t fs1 fs2"
    by (rule changes_in_only[OF download_changes[OF d2]])
      (use assms(3) only_changes_key[OF download_changes[OF d1]] in simp)
  then have c2: "changes_in t fs fs2" by (rule changes_in_trans[OF c1])
  show ?thesis
    using assms(1) c1 c2 d1 d2 by (auto simp: fetch_and_verify_def split: option.split_asm prod.split_asm)
qed

lemma portable_assets_mem:
  assumes "portable_assets u assets = Inr (archive, checksum)"
  shows "archive \<in> set assets"
proof -
  have "foldl (\<lambda>found a. if P a then a else found) e xs = e \<or> foldl (\<lambda>found a. if P a then a else found) e xs \<in> set xs"
    for P and e :: asset and xs
  proof (induction xs arbitrary: e)
    case (Cons x xs)
    show ?case using Cons[of "if P x then x else e"] by auto
  qed simp
  from this[of "\<lambda>a. suffix ''windows-x64-portable.zip'' (to_lower u (ast_name a))" empty_asset assets]
  show ?thesis using assms by (auto simp: portable_assets_def Let_def empty_asset_def split: if_splits)
qed

text \<open>
  C25: A preparation that fails leaves the file system as it was. Whatever goes wrong after the fresh
  directory has been made (the downloads, the checksum, the archive, the manifest), the directory
  and everything in it is gone and nothing else has changed.
\<close>

theorem failed_update_leaves_nothing:
  assumes "prepare_update u nl net sha256 unzip decode r (Inr dir) fs = (Inl e, fs')"
    and "drive_path dir" and "last dir \<noteq> CHR '':''" and "fp_elems dir \<noteq> []"
    and "fs_faults fs (fs_key fs dir) = None" and "\<forall>q. in_tree (fs_key fs dir) q \<longrightarrow> fs_nodes fs q = None"
    and "list_all (\<lambda>a. plain_name (fp_base (ast_name a))) (rel_assets r)"
  shows "fs' = fs"
proof -
  consider "fs' = fs"
    | archive checksum e1 fs1 where "portable_assets u (rel_assets r) = Inr (archive, checksum)"
      "fetch_and_verify u nl net sha256 unzip decode r archive checksum (fp_join [dir, fp_base (ast_name archive)])
        (put_node dir NDir fs) = (e1, fs1)" "fs' = snd (os_remove_all fs1 dir)"
    using assms(1) by (auto simp: prepare_update_def Let_def split: sum.splits if_splits prod.splits option.splits)
  then show ?thesis
  proof cases
    case 2
    have b: "plain_name (fp_base (ast_name archive))"
      using assms(7) portable_assets_mem[OF 2(1)] by (simp add: list_all_iff)
    let ?t = "fs_key fs dir"
    have "changes_in ?t (put_node dir NDir fs) fs1"
      by (rule fetch_changes[OF 2(2)]) (use file_in_dir[OF assms(2-4) b] in simp_all)
    moreover have "changes_in ?t fs (put_node dir NDir fs)"
      by (rule changes_in_only[where p = dir]) (simp_all add: in_tree_def)
    ultimately have c: "changes_in ?t fs fs1" using changes_in_trans by blast
    then have k: "fs_key fs1 dir = ?t" and f: "fs_faults fs1 ?t = None"
      using assms(5) by (simp_all add: changes_in_def fs_key_def)
    have n: "(if in_tree ?t q then None else fs_nodes fs1 q) = fs_nodes fs q" for q
      using c assms(6) by (auto simp: changes_in_def)
    have "fs' = fs1\<lparr>fs_nodes := \<lambda>q. if in_tree ?t q then None else fs_nodes fs1 q\<rparr>"
      using 2(3) k f by (simp add: os_remove_all_def)
    also have "\<dots> = fs" using c n by (intro fsys.equality) (auto simp: changes_in_def)
    finally show ?thesis .
  qed
qed

section \<open>Examples\<close>

text \<open>A release with a portable archive, a server for its assets, and a digest of 32 bytes.\<close>

definition demo_digest :: "string \<Rightarrow> string" where
  "demo_digest s = replicate 32 (CHR ''A'')"

definition demo_hex :: string where
  "demo_hex = concat (replicate 32 ''41'')"

lemma demo_hex_digest: "hex_text (demo_digest s) = demo_hex"
proof -
  have "byte_of CHR ''A'' = 65" by (simp add: byte_of_def)
  moreover have "hex_digit 4 = CHR ''4''" "hex_digit 1 = CHR ''1''" by code_simp+
  ultimately show ?thesis by (simp add: hex_text_def demo_digest_def demo_hex_def)
qed

lemma demo_hex_decoded: "hex_decode demo_hex = Some (demo_digest s)"
proof -
  have v: "hex_value CHR ''4'' = Some 4" "hex_value CHR ''1'' = Some 1" by code_simp+
  have c: "char_of (65::nat) = CHR ''A''" by (simp add: char_of_def bit_iff_odd)
  have "hex_decode (concat (replicate n ''41'')) = Some (replicate n CHR ''A'')" for n
    by (induction n) (simp_all add: v c)
  then show ?thesis by (simp add: demo_hex_def demo_digest_def)
qed

definition demo_release :: release where
  "demo_release = \<lparr>rel_version = ''1.4.0'', rel_name = [], rel_url = [], rel_notes = [], rel_newer = True,
     rel_assets = [\<lparr>ast_name = ''g-windows-x64-portable.zip'', ast_url = ''https://h/a'', ast_size = 1\<rparr>,
       \<lparr>ast_name = ''g-windows-x64-portable.zip.sha256'', ast_url = ''https://h/s'', ast_size = 64\<rparr>]\<rparr>"

definition demo_urls :: netlib where
  "demo_urls = no_netlib\<lparr>nl_parse_url := \<lambda>_. Inr \<lparr>up_scheme = ''https'', up_opaque = [], up_host = ''h'',
     up_path = [], up_query = [], up_fragment = [], up_user = None\<rparr>\<rparr>"

definition demo_body :: "string \<Rightarrow> string" where
  "demo_body url = (if url = ''https://h/a'' then ''Z'' else demo_hex)"

definition demo_server :: "string \<Rightarrow> asset_answer result" where
  "demo_server url = Inr \<lparr>ans_status = 200, ans_status_text = [], ans_length = 1, ans_body = demo_body url,
     ans_err = None\<rparr>"

definition demo_entry :: "string \<Rightarrow> zip_entry" where
  "demo_entry n = \<lparr>zen_name = n, zen_open = None, zen_content = Inr ''x''\<rparr>"

definition demo_entries :: "zip_entry list" where
  "demo_entries = map demo_entry (''release-manifest.json'' # required_files)"

definition demo_items :: "(string \<times> string) list" where
  "demo_items = map (\<lambda>n. (n, demo_hex)) required_files"

definition demo_unzip :: "string \<Rightarrow> zip_entry list result" where
  "demo_unzip _ = Inr demo_entries"

definition demo_manifest :: "string result \<Rightarrow> portable_manifest result" where
  "demo_manifest _ = Inr \<lparr>pmf_version = ''1.4.0'',
     pmf_files = demo_items\<rparr>"

definition demo_dir :: string where
  "demo_dir = ''C:'' @ backslash # ''t''"

definition demo_archive :: string where
  "demo_archive = demo_dir @ backslash # ''g-windows-x64-portable.zip''"

text \<open>A download without a fault.\<close>

lemma download_ok:
  assumes "nl_parse_url nl source = Inr p" and "up_scheme p = ''https''" and "up_host p \<noteq> []"
    and "net source = Inr a" and "ans_status a = 200" and "ans_length a \<le> int limit" and "ans_err a = None"
    and "length (ans_body a) \<le> limit"
    and "fs_faults fs (fs_key fs d) = None" and "fs_nodes fs (fs_key fs d) = None"
  shows "download_asset u nl net source d limit fs = (None, put_node d (NFile (ans_body a)) (put_node d (NFile []) fs))"
  using assms by (simp add: download_asset_def os_create_excl_def Let_def)

lemma download_refused:
  assumes "nl_parse_url nl source = Inr p" and "up_scheme p = ''https''" and "up_host p \<noteq> []" and "net source = Inl e"
  shows "download_asset u nl net source d limit fs = (Some e, fs)"
  using assms by (simp add: download_asset_def)

definition demo_fs1 :: fsys where
  "demo_fs1 = put_node demo_archive (NFile ''Z'') (put_node demo_archive (NFile []) (put_node demo_dir NDir sample_fs))"

definition demo_fs2 :: fsys where
  "demo_fs2 = put_node (demo_archive @ ''.sha256'') (NFile (demo_hex))
     (put_node (demo_archive @ ''.sha256'') (NFile []) demo_fs1)"

lemma demo_prepared:
  "prepare_update ascii_tables demo_urls demo_server demo_digest demo_unzip demo_manifest demo_release (Inr demo_dir)
     sample_fs = (Inr \<lparr>ppu_version = ''1.4.0'', ppu_archive = demo_archive\<rparr>, demo_fs2)"
proof -
  have p: "portable_assets ascii_tables (rel_assets demo_release) = Inr (hd (rel_assets demo_release), rel_assets demo_release ! 1)"
    by code_simp
  have a: "fp_join [demo_dir, fp_base (ast_name (hd (rel_assets demo_release)))] = demo_archive" by code_simp
  have len: "length (demo_hex) = 64" by code_simp
  have d1: "download_asset ascii_tables demo_urls demo_server ''https://h/a'' demo_archive max_portable_bytes
      (put_node demo_dir NDir sample_fs) = (None, demo_fs1)"
  proof -
    have f: "fs_faults (put_node demo_dir NDir sample_fs) (fs_key (put_node demo_dir NDir sample_fs) demo_archive) = None"
      "fs_nodes (put_node demo_dir NDir sample_fs) (fs_key (put_node demo_dir NDir sample_fs) demo_archive) = None"
      by code_simp+
    have b: "ans_body (projr (demo_server ''https://h/a'')) = ''Z''" by (simp add: demo_server_def demo_body_def)
    show ?thesis
      using download_ok[of demo_urls "''https://h/a''" "projr (nl_parse_url demo_urls [])" demo_server
          "projr (demo_server ''https://h/a'')" max_portable_bytes "put_node demo_dir NDir sample_fs" demo_archive
          ascii_tables] f b
      by (simp add: demo_fs1_def demo_server_def demo_urls_def max_portable_bytes_def)
  qed
  have d2: "download_asset ascii_tables demo_urls demo_server ''https://h/s'' (demo_archive @ ''.sha256'') max_checksum_bytes
      demo_fs1 = (None, demo_fs2)"
  proof -
    have f: "fs_faults demo_fs1 (fs_key demo_fs1 (demo_archive @ ''.sha256'')) = None"
      "fs_nodes demo_fs1 (fs_key demo_fs1 (demo_archive @ ''.sha256'')) = None" by code_simp+
    have b: "ans_body (projr (demo_server ''https://h/s'')) = demo_hex"
      by (simp add: demo_server_def demo_body_def)
    show ?thesis
      using download_ok[of demo_urls "''https://h/s''" "projr (nl_parse_url demo_urls [])" demo_server
          "projr (demo_server ''https://h/s'')" max_checksum_bytes demo_fs1 "demo_archive @ ''.sha256''"
          ascii_tables] f b len
      by (simp only: demo_fs2_def) (simp add: demo_server_def demo_urls_def max_checksum_bytes_def)
  qed
  have r: "os_read_file demo_fs2 demo_archive = Inr ''Z''" "os_read_file demo_fs2 (demo_archive @ ''.sha256'') = Inr demo_hex"
    by code_simp+
  have h: "go_fields demo_hex = [demo_hex]" by code_simp
  have digest: "equal_fold ascii_tables demo_hex demo_hex"
    using equal_fold_hex[of ascii_tables "demo_digest []" "demo_digest []"] by (simp add: demo_hex_digest)
  have c: "verify_checksum ascii_tables demo_digest demo_fs2 demo_archive (demo_archive @ ''.sha256'') = None"
    using digest by (simp add: verify_checksum_def r h len Let_def demo_hex_decoded[of "''Z''"] demo_hex_digest)
  have "(case archive_files ascii_tables demo_entries [] of
      Inr files \<Rightarrow> map (\<lambda>n. map_of files (to_slash (fp_clean n))) (''release-manifest.json'' # required_files) =
        map (\<lambda>n. Some (demo_entry n)) (''release-manifest.json'' # required_files) | Inl _ \<Rightarrow> False)" by code_simp
  then obtain files where f: "archive_files ascii_tables demo_entries [] = Inr files"
    "map (\<lambda>n. map_of files (to_slash (fp_clean n))) (''release-manifest.json'' # required_files) =
      map (\<lambda>n. Some (demo_entry n)) (''release-manifest.json'' # required_files)" by (auto split: sum.splits)
  have m: "to_slash (fp_clean ''release-manifest.json'') = ''release-manifest.json''" by code_simp
  have z: "zen_content (demo_entry n) = Inr ''x''" "zen_open (demo_entry n) = None" for n by (simp_all add: demo_entry_def)
  have k: "check_manifest ascii_tables demo_digest files demo_items = None"
    using f(2) digest by (simp add: demo_items_def required_files_def demo_hex_digest z)
  have q: "find (\<lambda>n. n \<notin> set (map fst demo_items)) required_files = None" by code_simp
  have v: "verify_portable_archive ascii_tables demo_digest demo_unzip demo_manifest demo_fs2 demo_archive ''1.4.0'' = None"
    using q f(2) m by (simp add: verify_portable_archive_def r demo_unzip_def f(1) z k demo_manifest_def)
  have "fetch_and_verify ascii_tables demo_urls demo_server demo_digest demo_unzip demo_manifest demo_release
      (hd (rel_assets demo_release)) (rel_assets demo_release ! 1) demo_archive (put_node demo_dir NDir sample_fs) =
      (None, demo_fs2)"
    using d1 d2 c v by (simp add: fetch_and_verify_def demo_release_def)
  then show ?thesis
    by (simp add: prepare_update_def p a Let_def max_portable_bytes_def) (simp add: demo_release_def)
qed

lemma prepared_update_verified_witness:
  "ppu_version \<lparr>ppu_version = ''1.4.0'', ppu_archive = demo_archive\<rparr> = rel_version demo_release \<and>
    (\<exists>content sum_text. os_read_file demo_fs2 (ppu_archive \<lparr>ppu_version = ''1.4.0'', ppu_archive = demo_archive\<rparr>) = Inr content \<and>
       os_read_file demo_fs2 (ppu_archive \<lparr>ppu_version = ''1.4.0'', ppu_archive = demo_archive\<rparr> @ ''.sha256'') = Inr sum_text \<and>
       hex_decode (hd (go_fields sum_text)) = Some (demo_digest content) \<and>
       archive_verified ascii_tables demo_digest demo_unzip demo_manifest (rel_version demo_release) content)"
  by (rule prepared_update_verified[OF demo_prepared])

lemma failed_update_leaves_nothing_witness:
  "snd (prepare_update ascii_tables demo_urls (\<lambda>_. Inl ctx_canceled) demo_digest demo_unzip demo_manifest demo_release
     (Inr demo_dir) sample_fs) = sample_fs"
proof -
  have p: "portable_assets ascii_tables (rel_assets demo_release) = Inr (hd (rel_assets demo_release), rel_assets demo_release ! 1)"
    by code_simp
  have "fetch_and_verify ascii_tables demo_urls (\<lambda>_. Inl ctx_canceled) demo_digest demo_unzip demo_manifest demo_release
      archive checksum path fs = (Some (wrap_error ''download portable archive: '' ctx_canceled), fs)" for archive checksum path fs
    using download_refused[of demo_urls "ast_url archive" "projr (nl_parse_url demo_urls [])" "\<lambda>_. Inl ctx_canceled"
        ctx_canceled ascii_tables path max_portable_bytes fs]
    by (simp add: fetch_and_verify_def demo_urls_def)
  moreover have "ast_size (hd (rel_assets demo_release)) = 1" by (simp add: demo_release_def)
  ultimately obtain fs' where e: "prepare_update ascii_tables demo_urls (\<lambda>_. Inl ctx_canceled) demo_digest demo_unzip
      demo_manifest demo_release (Inr demo_dir) sample_fs =
      (Inl (wrap_error ''download portable archive: '' ctx_canceled), fs')"
    by (simp add: prepare_update_def p Let_def max_portable_bytes_def)
  have "fs' = sample_fs"
  proof (rule failed_update_leaves_nothing[OF e])
    show "drive_path demo_dir" "last demo_dir \<noteq> CHR '':''" "fp_elems demo_dir \<noteq> []"
      "list_all (\<lambda>a. plain_name (fp_base (ast_name a))) (rel_assets demo_release)" by code_simp+
  qed (simp_all add: sample_fs_def)
  then show ?thesis by (simp add: e)
qed

end
