(* ===== verification/M3u8.thy ===== *)
theory M3u8
  imports HttpProbe Settings BtModel "HOL-Library.List_Lexorder" "HOL-Library.Char_ord"
begin

text \<open>
  The parsing side of the HLS and DASH downloader, \<open>download/m3u8\<close>: \<open>manifest.go\<close> (what is a
  manifest, its kind, the title), \<open>args.go\<close> (the command line of N_m3u8DL-RE), \<open>settings.go\<close> (the
  options of a task and of the settings), \<open>runtime.go\<close> (where the programs are) and \<open>parse.go\<close>.
\<close>

section \<open>Manifests\<close>

datatype manifest_type = ManifestHLS | ManifestDASH

definition manifest_text :: "manifest_type \<Rightarrow> string" where
  "manifest_text k = (case k of ManifestHLS \<Rightarrow> ''m3u8'' | ManifestDASH \<Rightarrow> ''mpd'')"

definition manifest_suffixes :: "string list" where
  "manifest_suffixes = [''.m3u8'', ''.m3u'', ''.mpd'']"

definition known_output_suffixes :: "string list" where
  "known_output_suffixes =
     [''.m3u8'', ''.m3u'', ''.mpd'', ''.mp4'', ''.mkv'', ''.ts'', ''.webm'', ''.m4a'', ''.m4v'', ''.vtt'', ''.srt'']"

definition is_manifest_path :: "unicode \<Rightarrow> string \<Rightarrow> bool" where
  "is_manifest_path u path \<longleftrightarrow> to_lower u (fp_ext (trim_space path)) \<in> set manifest_suffixes"

definition is_manifest_source :: "unicode \<Rightarrow> netlib \<Rightarrow> string \<Rightarrow> bool" where
  "is_manifest_source u nl source \<longleftrightarrow>
     (let s = trim_space source in
      if s = [] then False
      else if volume_name s \<noteq> [] then is_manifest_path u s
      else case nl_parse_url nl s of
        Inl _ \<Rightarrow> is_manifest_path u s
      | Inr p \<Rightarrow>
          (let scheme = to_lower u (up_scheme p) in
           if scheme = ''http'' \<or> scheme = ''https''
           then contains_str (to_lower u s) ''.m3u'' \<or> contains_str (to_lower u s) ''.mpd''
           else if scheme = ''file'' then is_manifest_path u (up_path p)
           else if up_scheme p \<noteq> [] then False
           else is_manifest_path u s))"

text \<open>The headers of a map in the order of its iteration; the value is given in lower case.\<close>

definition header_value :: "unicode \<Rightarrow> (string \<times> string) list \<Rightarrow> string \<Rightarrow> string" where
  "header_value u headers key =
     (case find (\<lambda>(name, _). equal_fold u name key) headers of
        None \<Rightarrow> [] | Some (_, v) \<Rightarrow> to_lower u (trim_space v))"

definition detect_manifest_type ::
  "unicode \<Rightarrow> string \<Rightarrow> (string \<times> string) list \<Rightarrow> string \<Rightarrow> manifest_type" where
  "detect_manifest_type u source headers body =
     (let lowered_url = to_lower u source;
          content_type = header_value u headers ''content-type'';
          sample = to_lower u (trim_space body) in
      if contains_str lowered_url ''.mpd'' \<or> contains_str content_type ''dash+xml'' \<or> prefix ''<mpd'' sample
      then ManifestDASH else ManifestHLS)"

definition dynamic_mark :: "char \<Rightarrow> string" where
  "dynamic_mark q = ''type='' @ q # ''dynamic'' @ [q]"

definition is_live_manifest :: "unicode \<Rightarrow> manifest_type \<Rightarrow> string \<Rightarrow> bool" where
  "is_live_manifest u kind body \<longleftrightarrow>
     (let lowered = to_lower u body in
      if kind = ManifestDASH
      then contains_str lowered (dynamic_mark (CHR 0x22)) \<or> contains_str lowered (dynamic_mark (CHR 0x27))
      else if \<not> contains_str lowered ''#extm3u'' then False
      else \<not> contains_str lowered ''#ext-x-endlist'')"

section \<open>Titles\<close>

definition safe_stream_name :: "string \<Rightarrow> string" where
  "safe_stream_name name =
     (let clean = trim '' ._'' (map (\<lambda>c. if unsafe_filename_char c then CHR ''_'' else c) name) in
      if clean = [] then ''stream'' else clean)"

definition strip_known_suffix :: "unicode \<Rightarrow> string \<Rightarrow> string" where
  "strip_known_suffix u name =
     (let ext = to_lower u (fp_ext name) in
      if ext \<in> set known_output_suffixes \<and> length name > length ext
      then take (length name - length ext) name else name)"

definition disposition_names :: "unicode \<Rightarrow> netlib \<Rightarrow> (string \<times> string) list \<Rightarrow> string list" where
  "disposition_names u nl headers =
     (let disposition = header_value u headers ''content-disposition'' in
      if disposition = [] then []
      else case nl_media_type nl disposition of
        None \<Rightarrow> []
      | Some (_, params) \<Rightarrow>
          filter (\<lambda>s. s \<noteq> []) (map (\<lambda>k. trim_space (params_get params k)) [''filename*'', ''filename'']))"

definition url_names :: "netlib \<Rightarrow> string \<Rightarrow> string list" where
  "url_names nl source =
     (case nl_parse_url nl source of
        Inl _ \<Rightarrow> [fp_base source]
      | Inr p \<Rightarrow>
          filter (\<lambda>s. s \<noteq> [])
            (map (\<lambda>k. trim_space (nl_query_get nl (up_query p) k)) [''filename'', ''file'', ''name'', ''title'']) @
          (if up_path p = [] then []
           else [case path_unescape (fp_base (up_path p)) of Some s \<Rightarrow> s | None \<Rightarrow> fp_base (up_path p)]))"

definition title_from :: "unicode \<Rightarrow> netlib \<Rightarrow> string \<Rightarrow> (string \<times> string) list \<Rightarrow> string \<Rightarrow> string" where
  "title_from u nl source headers ext =
     (let ext = (if ext = [] then ''mp4'' else ext);
          candidates = disposition_names u nl headers @ url_names nl source in
      case find (\<lambda>stem. stem \<noteq> []) (map (\<lambda>c. strip_known_suffix u (safe_stream_name c)) candidates) of
        Some stem \<Rightarrow> stem @ ''.'' @ ext
      | None \<Rightarrow> ''stream.'' @ ext)"

section \<open>The command line\<close>

record m3_options =
  mo_url :: string
  mo_save_dir :: string
  mo_title :: string
  mo_task_id :: string
  mo_ffmpeg :: string
  mo_headers :: strmap
  mo_proxy :: string
  mo_threads :: int
  mo_retries :: int
  mo_timeout :: int
  mo_auto_select :: bool
  mo_concurrent :: bool
  mo_append_params :: bool
  mo_binary_merge :: bool
  mo_check_segments :: bool
  mo_delete_after :: bool
  mo_output_format :: string
  mo_custom_mux :: string
  mo_subtitle_format :: string
  mo_select_video :: string
  mo_select_all :: bool
  mo_max_speed :: int
  mo_speed_unit :: string
  mo_ad_keyword :: string
  mo_no_date :: bool
  mo_engine :: string
  mo_decryption_path :: string
  mo_real_time_decryption :: bool
  mo_keys :: "string list"
  mo_key_file :: string
  mo_mux_imports :: "string list"
  mo_live :: bool
  mo_live_keep :: bool
  mo_live_pipe :: bool
  mo_live_fix_vtt :: bool
  mo_live_wait :: int
  mo_live_take :: int
  mo_live_limit :: string

text \<open>The options of Go's zero value.\<close>

definition no_options :: m3_options where
  "no_options = \<lparr>mo_url = [], mo_save_dir = [], mo_title = [], mo_task_id = [], mo_ffmpeg = [],
     mo_headers = None, mo_proxy = [], mo_threads = 0, mo_retries = 0, mo_timeout = 0, mo_auto_select = False,
     mo_concurrent = False, mo_append_params = False, mo_binary_merge = False, mo_check_segments = False,
     mo_delete_after = False, mo_output_format = [], mo_custom_mux = [], mo_subtitle_format = [],
     mo_select_video = [], mo_select_all = False, mo_max_speed = 0, mo_speed_unit = [], mo_ad_keyword = [],
     mo_no_date = False, mo_engine = [], mo_decryption_path = [], mo_real_time_decryption = False, mo_keys = [],
     mo_key_file = [], mo_mux_imports = [], mo_live = False, mo_live_keep = False, mo_live_pipe = False,
     mo_live_fix_vtt = False, mo_live_wait = 0, mo_live_take = 0, mo_live_limit = []\<rparr>"

definition normalize_m3 :: "m3_options \<Rightarrow> m3_options" where
  "normalize_m3 m =
     (let m = (if mo_threads m \<le> 0 then m\<lparr>mo_threads := 8\<rparr> else m);
          m = (if mo_retries m < 0 then m\<lparr>mo_retries := 0\<rparr> else m);
          m = (if mo_timeout m \<le> 0 then m\<lparr>mo_timeout := 100\<rparr> else m);
          m = (if mo_output_format m = [] then m\<lparr>mo_output_format := ''mp4''\<rparr> else m);
          m = (if mo_subtitle_format m = [] then m\<lparr>mo_subtitle_format := ''SRT''\<rparr> else m);
          m = (if mo_speed_unit m = [] then m\<lparr>mo_speed_unit := ''Mbps''\<rparr> else m) in
      if mo_task_id m = [] then m\<lparr>mo_task_id := ''task''\<rparr> else m)"

text \<open>
  \<open>itoa\<close> of \<open>args.go\<close>: the digits are written from the end of a buffer of 20 bytes, which the
  digits of an \<open>int\<close> and a sign fit into. The negation wraps around.
\<close>

fun m3_digits :: "nat \<Rightarrow> string \<Rightarrow> string" where
  "m3_digits v buf = (if v = 0 then buf else m3_digits (v div 10) (char_of (48 + v mod 10) # buf))"

declare m3_digits.simps [simp del]

definition m3_itoa :: "int \<Rightarrow> string" where
  "m3_itoa v =
     (if v = 0 then ''0''
      else
        (let w = (if v < 0 then wrap64 (- v) else v); ds = m3_digits (nat w) [] in
         if v < 0 then CHR ''-'' # ds else ds))"

definition normalize_m3_proxy :: "string \<Rightarrow> string" where
  "normalize_m3_proxy proxy =
     (let proxy = trim_space proxy in
      if prefix ''socks5h://'' proxy then ''socks5://'' @ trim_prefix proxy ''socks5h://'' else proxy)"

definition decryption_engine :: "string \<Rightarrow> string" where
  "decryption_engine e =
     (if e = ''MP4Decrypt'' then ''MP4DECRYPT'' else if e = ''Shaka Packager'' then ''SHAKA_PACKAGER'' else ''FFMPEG'')"

definition save_name :: "string \<Rightarrow> string" where
  "save_name title = trim_suffix title (fp_ext title)"

definition common_args :: "m3_options \<Rightarrow> string list" where
  "common_args m =
     [mo_url m,
      ''--save-dir='' @ to_slash (mo_save_dir m),
      ''--save-name='' @ save_name (mo_title m),
      ''--tmp-dir='' @ to_slash (fp_join [mo_save_dir m, ''.gd3_m3u8'', mo_task_id m]),
      ''--thread-count='' @ m3_itoa (mo_threads m),
      ''--download-retry-count='' @ m3_itoa (mo_retries m),
      ''--http-request-timeout='' @ m3_itoa (mo_timeout m),
      ''--concurrent-download='' @ format_bool (mo_concurrent m),
      ''--append-url-params='' @ format_bool (mo_append_params m),
      ''--binary-merge='' @ format_bool (mo_binary_merge m),
      ''--check-segments-count='' @ format_bool (mo_check_segments m),
      ''--del-after-done='' @ format_bool (mo_delete_after m),
      ''--sub-format='' @ mo_subtitle_format m,
      ''--write-meta-json=false'',
      ''--no-log=true'',
      ''--no-ansi-color=true'',
      ''--disable-update-check=true'']"

definition select_args :: "m3_options \<Rightarrow> string list" where
  "select_args m =
     (if mo_select_all m
      then [''--select-video='' @ (if mo_select_video m = [] then ''best'' else mo_select_video m),
            ''--select-audio=all'', ''--select-subtitle=all'']
      else if mo_select_video m \<noteq> []
      then [''--select-video='' @ mo_select_video m, ''--auto-select='' @ format_bool (mo_auto_select m)]
      else [''--auto-select='' @ format_bool (mo_auto_select m)])"

definition network_args :: "m3_options \<Rightarrow> string list" where
  "network_args m =
     (if mo_max_speed m > 0 then [''--max-speed='' @ m3_itoa (mo_max_speed m) @ mo_speed_unit m] else []) @
     (if mo_ad_keyword m \<noteq> [] then [''--ad-keyword='' @ mo_ad_keyword m] else []) @
     (if mo_no_date m then [''--no-date-info=true''] else []) @
     [''--use-system-proxy=false''] @
     (let proxy = normalize_m3_proxy (mo_proxy m) in if proxy \<noteq> [] then [''--custom-proxy='' @ proxy] else []) @
     (if mo_ffmpeg m \<noteq> [] then [''--ffmpeg-binary-path='' @ to_slash (mo_ffmpeg m)] else [])"

definition trimmed_args :: "string \<Rightarrow> string list \<Rightarrow> string list" where
  "trimmed_args name xs = map (\<lambda>s. name @ s) (filter (\<lambda>s. s \<noteq> []) (map trim_space xs))"

definition decryption_args :: "m3_options \<Rightarrow> string list" where
  "decryption_args m =
     [''--decryption-engine='' @ decryption_engine (mo_engine m),
      ''--mp4-real-time-decryption='' @ format_bool (mo_real_time_decryption m)] @
     (if mo_decryption_path m \<noteq> [] then [''--decryption-binary-path='' @ to_slash (mo_decryption_path m)] else []) @
     trimmed_args ''--key='' (mo_keys m) @
     (if mo_key_file m \<noteq> [] then [''--key-text-file='' @ to_slash (mo_key_file m)] else [])"

definition mux_args :: "m3_options \<Rightarrow> string list" where
  "mux_args m =
     (if mo_live m
      then [''--live-real-time-merge=true'', ''--live-keep-segments='' @ format_bool (mo_live_keep m),
            ''--live-pipe-mux='' @ format_bool (mo_live_pipe m)] @
        (if mo_live_fix_vtt m then [''--live-fix-vtt-by-audio=true''] else []) @
        (if mo_live_wait m > 0 then [''--live-wait-time='' @ m3_itoa (mo_live_wait m)] else []) @
        (if mo_live_take m > 0 then [''--live-take-count='' @ m3_itoa (mo_live_take m)] else []) @
        (if mo_live_limit m \<noteq> [] then [''--live-record-limit='' @ mo_live_limit m] else [])
      else if mo_custom_mux m \<noteq> [] then [''--mux-after-done='' @ mo_custom_mux m]
      else [''--mux-after-done='' @ ''format='' @ mo_output_format m @ '':muxer=ffmpeg'' @
        (if mo_ffmpeg m \<noteq> [] then '':bin_path='' @ to_slash (mo_ffmpeg m) else [])])"

text \<open>The headers in the order of their names, without those that are blank.\<close>

definition header_args :: "strmap \<Rightarrow> string list" where
  "header_args h =
     (let names = (case h of None \<Rightarrow> [] | Some m \<Rightarrow> sorted_list_of_fset (fmdom m)) in
      concat (map (\<lambda>n. let v = trim_space (map_get h n) in if v = [] then [] else [''-H'', n @ '': '' @ v]) names))"

definition build_args :: "m3_options \<Rightarrow> string list" where
  "build_args m =
     (let m = normalize_m3 m in
      common_args m @ select_args m @ network_args m @ decryption_args m @ mux_args m @
      trimmed_args ''--mux-import='' (mo_mux_imports m) @ header_args (mo_headers m))"

section \<open>The programs\<close>

definition is_executable_file :: "fsys \<Rightarrow> string \<Rightarrow> bool" where
  "is_executable_file fs p = (case os_stat fs p of Inl _ \<Rightarrow> False | Inr n \<Rightarrow> n \<noteq> NDir)"

definition find_executable :: "fsys \<Rightarrow> string \<Rightarrow> string list \<Rightarrow> string" where
  "find_executable fs dir names =
     (let dir = trim_space dir;
          candidates = (if os_stat fs dir = Inr NDir then map (\<lambda>n. fp_join [dir, n]) names else [dir]) in
      if dir = [] then []
      else case find (is_executable_file fs) candidates of None \<Rightarrow> [] | Some c \<Rightarrow> c)"

definition find_runtime_executable :: "fsys \<Rightarrow> string \<Rightarrow> string" where
  "find_runtime_executable fs dir = find_executable fs dir [''N_m3u8DL-RE.exe'', ''N_m3u8DL-RE'']"

definition tool_names :: "string \<Rightarrow> string list" where
  "tool_names tool = [fp_join [''bin'', tool @ ''.exe''], fp_join [''bin'', tool], tool @ ''.exe'', tool]"

definition find_ffmpeg_executable :: "fsys \<Rightarrow> string \<Rightarrow> string" where
  "find_ffmpeg_executable fs dir = find_executable fs dir (tool_names ''ffmpeg'')"

definition find_ffprobe_executable :: "fsys \<Rightarrow> string \<Rightarrow> string" where
  "find_ffprobe_executable fs dir = find_executable fs dir (tool_names ''ffprobe'')"

record runtime_info =
  rin_executable :: string
  rin_install_dir :: string
  rin_version :: string
  rin_available :: bool

text \<open>\<open>run\<close>: the program's output, whether it failed, and whether the five seconds were over.\<close>

definition probe_executable :: "string \<Rightarrow> string \<Rightarrow> string \<times> bool \<times> bool \<Rightarrow> runtime_info" where
  "probe_executable install_dir executable run =
     (if executable = []
      then \<lparr>rin_executable = [], rin_install_dir = install_dir, rin_version = [], rin_available = False\<rparr>
      else
        (let info = \<lparr>rin_executable = executable, rin_install_dir = fp_dir executable, rin_version = [],
               rin_available = True\<rparr>;
             (output, failed, deadline) = run in
         if failed \<and> \<not> deadline then info
         else case find (\<lambda>s. s \<noteq> []) (map trim_space (split_on (CHR 0x0A) (trim_space output))) of
           None \<Rightarrow> info | Some s \<Rightarrow> info\<lparr>rin_version := s\<rparr>))"

definition probe_runtime :: "fsys \<Rightarrow> (string \<Rightarrow> string \<Rightarrow> string \<times> bool \<times> bool) \<Rightarrow> string \<Rightarrow> runtime_info" where
  "probe_runtime fs run dir =
     (let e = find_runtime_executable fs dir in probe_executable dir e (run e ''--version''))"

definition probe_ffmpeg_runtime ::
  "fsys \<Rightarrow> (string \<Rightarrow> string \<Rightarrow> string \<times> bool \<times> bool) \<Rightarrow> string \<Rightarrow> runtime_info" where
  "probe_ffmpeg_runtime fs run dir =
     (let e = find_ffmpeg_executable fs dir in probe_executable dir e (run e ''-version''))"

section \<open>Options of the settings and of a task\<close>

definition options_from_settings ::
  "fsys \<Rightarrow> settings \<Rightarrow> string \<Rightarrow> string \<Rightarrow> string \<Rightarrow> bool \<Rightarrow> m3_options" where
  "options_from_settings fs s raw_url title task_id live =
     no_options\<lparr>mo_url := raw_url, mo_save_dir := cfg_download_dir s, mo_title := title, mo_task_id := task_id,
       mo_ffmpeg := find_ffmpeg_executable fs (cfg_ffmpeg_install_dir s), mo_headers := None,
       mo_proxy := cfg_proxy_url s, mo_threads := cfg_m3u8_thread_count s, mo_retries := cfg_m3u8_retry_count s,
       mo_timeout := cfg_m3u8_request_timeout_sec s, mo_concurrent := cfg_m3u8_concurrent_download s,
       mo_check_segments := cfg_m3u8_check_segments_count s, mo_delete_after := cfg_m3u8_delete_after_done s,
       mo_output_format := cfg_m3u8_output_format s, mo_subtitle_format := cfg_m3u8_subtitle_format s,
       mo_select_all := cfg_m3u8_select_all_audio_subtitle s,
       mo_real_time_decryption := cfg_m3u8_mp4_real_time_decryption s, mo_live := live\<rparr>"

definition m3_bool_state :: "strmap \<Rightarrow> string \<Rightarrow> bool \<Rightarrow> bool" where
  "m3_bool_state s key fallback =
     (let v = map_get s key in
      if v = [] then fallback else case parse_bool v of None \<Rightarrow> fallback | Some b \<Rightarrow> b)"

definition m3_int_state :: "strmap \<Rightarrow> string \<Rightarrow> int \<Rightarrow> int" where
  "m3_int_state s key fallback =
     (let v = map_get s key in
      if v = [] then fallback else case parse_int v of None \<Rightarrow> fallback | Some n \<Rightarrow> n)"

definition m3_string_state :: "strmap \<Rightarrow> string \<Rightarrow> string \<Rightarrow> string" where
  "m3_string_state s key fallback = (let v = map_get s key in if v = [] then fallback else v)"

definition options_from_task :: "task \<Rightarrow> m3_options" where
  "options_from_task t =
     (let g = tsk_stage t; s = stg_state g in
      no_options\<lparr>mo_url := stg_url g, mo_save_dir := tsk_path t, mo_title := tsk_title t, mo_task_id := tsk_id t,
        mo_headers := stg_headers g, mo_proxy := stg_proxy_url g, mo_threads := stg_block_num g,
        mo_retries := stg_max_retries g, mo_timeout := m3_int_state s ''requestTimeoutSec'' 100,
        mo_concurrent := m3_bool_state s ''concurrentDownload'' True,
        mo_check_segments := m3_bool_state s ''checkSegmentsCount'' True,
        mo_delete_after := m3_bool_state s ''deleteAfterDone'' True,
        mo_output_format := m3_string_state s ''outputFormat'' ''mp4'',
        mo_subtitle_format := m3_string_state s ''subtitleFormat'' ''SRT'',
        mo_select_all := m3_bool_state s ''selectAllAudioSubtitle'' True,
        mo_real_time_decryption := m3_bool_state s ''mp4RealTimeDecryption'' True,
        mo_live := m3_bool_state s ''isLive'' False\<rparr>)"

definition install_dir_from_task :: "task \<Rightarrow> string" where
  "install_dir_from_task t = m3_string_state (stg_state (tsk_stage t)) ''installDir'' []"

definition ffmpeg_install_dir_from_task :: "task \<Rightarrow> string" where
  "ffmpeg_install_dir_from_task t = m3_string_state (stg_state (tsk_stage t)) ''ffmpegInstallDir'' []"

section \<open>Fetching a manifest\<close>

definition manifest_read_limit :: nat where
  "manifest_read_limit = 8388608"

definition manifest_too_large :: goerr where
  "manifest_too_large = new_error (''manifest is larger than '' @ itoa (int manifest_read_limit) @ '' bytes'')"

definition read_local_manifest :: "fsys \<Rightarrow> string \<Rightarrow> string result" where
  "read_local_manifest fs path =
     (case os_read_file fs path of
        Inl e \<Rightarrow> Inl e
      | Inr body \<Rightarrow> if length body > manifest_read_limit then Inl manifest_too_large else Inr body)"

text \<open>The path of a file URL; its host is the server of a UNC path.\<close>

definition manifest_url_path :: "url_parts \<Rightarrow> string" where
  "manifest_url_path p =
     (let path = (if up_host p \<noteq> [] then ''//'' @ up_host p @ up_path p else up_path p);
          path = (case path_unescape path of Some s \<Rightarrow> s | None \<Rightarrow> path) in
      if volume_name path = [] \<and> length path \<ge> 3 \<and> path ! 0 = slash \<and> path ! 2 = CHR '':'' then tl path else path)"

definition local_manifest_path :: "unicode \<Rightarrow> netlib \<Rightarrow> string \<Rightarrow> string" where
  "local_manifest_path u nl source =
     (let s = trim_space source;
          by_url = (case nl_parse_url nl s of
              Inl _ \<Rightarrow> None
            | Inr p \<Rightarrow> if equal_fold u (up_scheme p) ''file'' \<and> is_manifest_path u (manifest_url_path p)
                then Some (manifest_url_path p) else None) in
      if s = [] then []
      else if volume_name s \<noteq> [] \<and> is_manifest_path u s then s
      else case by_url of
        Some path \<Rightarrow> path
      | None \<Rightarrow> if \<not> contains_str s ''://'' \<and> is_manifest_path u s then s else [])"

record manifest_reply =
  mrp_status :: int
  mrp_status_text :: string
  mrp_body :: "string result"
  mrp_url :: string
  mrp_headers :: http_header

text \<open>\<open>socks\<close> is the error of \<open>proxy.FromURL\<close>, None when it accepts the address.\<close>

definition m3_client_error ::
  "unicode \<Rightarrow> netlib \<Rightarrow> (url_parts \<Rightarrow> goerr option) \<Rightarrow> string \<Rightarrow> goerr option" where
  "m3_client_error u nl socks proxy =
     (let tx = trim_space proxy in
      if tx = [] then None
      else case nl_parse_url nl tx of
        Inl e \<Rightarrow> Some (wrap_error ''invalid proxy URL: '' e)
      | Inr p \<Rightarrow>
          (let scheme = to_lower u (up_scheme p) in
           if scheme = ''http'' \<or> scheme = ''https'' then None
           else if scheme = ''socks5'' \<or> scheme = ''socks5h''
           then map_option (wrap_error ''invalid socks proxy: '') (socks p)
           else Some (new_error (''unsupported proxy scheme '' @ quote u (up_scheme p)))))"

definition sent_headers :: "strmap \<Rightarrow> (string, string) fmap" where
  "sent_headers h =
     (case h of None \<Rightarrow> fmempty | Some m \<Rightarrow> fmfilter (\<lambda>k. trim_space (map_get h k) \<noteq> []) m)"

definition fetch_manifest ::
  "unicode \<Rightarrow> netlib \<Rightarrow> (url_parts \<Rightarrow> goerr option) \<Rightarrow>
   (string \<Rightarrow> (string, string) fmap \<Rightarrow> manifest_reply result) \<Rightarrow> fsys \<Rightarrow> string \<Rightarrow> string \<Rightarrow> strmap \<Rightarrow>
   (string \<times> string \<times> (string \<times> string) list) result" where
  "fetch_manifest u nl socks net fs source proxy headers =
     (let path = local_manifest_path u nl source in
      if path \<noteq> [] then
        (case read_local_manifest fs path of
           Inl e \<Rightarrow> Inl e
         | Inr body \<Rightarrow>
             if \<not> contains_str body ''http://'' \<and> \<not> contains_str body ''https://''
             then Inl (new_error ''local manifest only contains relative segment paths; use the original online URL instead'')
             else Inr (body, path, []))
      else case m3_client_error u nl socks proxy of
        Some e \<Rightarrow> Inl e
      | None \<Rightarrow>
          (case nl_parse_url nl source of
             Inl e \<Rightarrow> Inl e
           | Inr _ \<Rightarrow>
               (case net source (sent_headers headers) of
                  Inl e \<Rightarrow> Inl e
                | Inr r \<Rightarrow>
                    if mrp_status r < 200 \<or> mrp_status r \<ge> 300
                    then Inl (new_error (''manifest request failed: '' @ mrp_status_text r))
                    else case mrp_body r of
                      Inl e \<Rightarrow> Inl e
                    | Inr body \<Rightarrow>
                        if length body > manifest_read_limit then Inl manifest_too_large
                        else Inr (body, mrp_url r, lower_headers u (mrp_headers r)))))"

record manifest_result =
  mre_task :: task
  mre_body :: string
  mre_url :: string
  mre_headers :: "(string \<times> string) list"
  mre_type :: manifest_type
  mre_live :: bool

definition stream_state :: "settings \<Rightarrow> manifest_type \<Rightarrow> bool \<Rightarrow> strmap" where
  "stream_state s kind live = Some (fmap_of_list
     [(''manifestType'', manifest_text kind), (''isLive'', format_bool live),
      (''installDir'', cfg_m3u8_install_dir s), (''ffmpegInstallDir'', cfg_ffmpeg_install_dir s),
      (''outputFormat'', cfg_m3u8_output_format s),
      (''requestTimeoutSec'', m3_itoa (cfg_m3u8_request_timeout_sec s)),
      (''concurrentDownload'', format_bool (cfg_m3u8_concurrent_download s)),
      (''checkSegmentsCount'', format_bool (cfg_m3u8_check_segments_count s)),
      (''deleteAfterDone'', format_bool (cfg_m3u8_delete_after_done s)),
      (''selectAllAudioSubtitle'', format_bool (cfg_m3u8_select_all_audio_subtitle s)),
      (''mp4RealTimeDecryption'', format_bool (cfg_m3u8_mp4_real_time_decryption s)),
      (''subtitleFormat'', cfg_m3u8_subtitle_format s)])"

text \<open>\<open>sid\<close>, \<open>tid\<close> and \<open>now\<close> are the fresh identifiers of the stage and the task, and the clock.\<close>

definition parse_stream ::
  "unicode \<Rightarrow> netlib \<Rightarrow> (url_parts \<Rightarrow> goerr option) \<Rightarrow>
   (string \<Rightarrow> (string, string) fmap \<Rightarrow> manifest_reply result) \<Rightarrow> fsys \<Rightarrow> string \<Rightarrow> string \<Rightarrow> int \<Rightarrow>
   string \<Rightarrow> settings \<Rightarrow> strmap \<Rightarrow> manifest_result result" where
  "parse_stream u nl socks net fs sid tid now raw_source s headers =
     (let source = trim_space raw_source in
      if \<not> is_manifest_source u nl source then Inl (new_error ''not a m3u8/mpd source'')
      else case fetch_manifest u nl socks net fs source (cfg_proxy_url s) headers of
        Inl e \<Rightarrow> Inl e
      | Inr (body, final_url, response_headers) \<Rightarrow>
          (let kind = detect_manifest_type u final_url response_headers body;
               live = is_live_manifest u kind body;
               title = title_from u nl final_url response_headers (if live then ''ts'' else cfg_m3u8_output_format s);
               g = (new_stage sid ''m3u8'' final_url 1 (cfg_m3u8_thread_count s) (cfg_m3u8_retry_count s) False
                      headers (cfg_proxy_url s))\<lparr>stg_state := stream_state s kind live\<rparr> in
           Inr \<lparr>mre_task = new_task tid now ''m3u8'' title source (cfg_download_dir s) 1 g, mre_body = body,
             mre_url = final_url, mre_headers = response_headers, mre_type = kind, mre_live = live\<rparr>))"

end
