(* ===== verification/GoRegexp.thy ===== *)
theory GoRegexp
  imports GoStrings
begin

text \<open>
  The part of package \<open>regexp\<close> that \<open>progress.go\<close> uses: the leftmost match, and among the matches
  at one place the one that a backtracking search would find first. The classes that occur contain
  single bytes, or every byte but the newline at the end of a pattern, so that bytes can stand for
  characters.
\<close>

datatype regexp =
  Lit string
| One "char \<Rightarrow> bool"
| Many "char \<Rightarrow> bool"
| Then regexp regexp
| Or regexp regexp
| Maybe regexp
| Group nat regexp

type_synonym groups = "(nat \<times> string) list"

text \<open>What is left after one byte of a class or more, the longest match first.\<close>

fun many_rest :: "(char \<Rightarrow> bool) \<Rightarrow> string \<Rightarrow> string list" where
  "many_rest p [] = []"
| "many_rest p (c # s) = (if p c then many_rest p s @ [s] else [])"

text \<open>All matches at the start of a text, in the order of their preference: the rest and the groups.\<close>

primrec matches :: "regexp \<Rightarrow> string \<Rightarrow> (string \<times> groups) list" where
  "matches (Lit w) s = (if prefix w s then [(drop (length w) s, [])] else [])"
| "matches (One p) s = (case s of [] \<Rightarrow> [] | c # r \<Rightarrow> if p c then [(r, [])] else [])"
| "matches (Many p) s = map (\<lambda>r. (r, [])) (many_rest p s)"
| "matches (Then a b) s =
     concat (map (\<lambda>(r, g). map (\<lambda>(r', g'). (r', g @ g')) (matches b r)) (matches a s))"
| "matches (Or a b) s = matches a s @ matches b s"
| "matches (Maybe a) s = matches a s @ [(s, [])]"
| "matches (Group n a) s = map (\<lambda>(r, g). (r, (n, take (length s - length r) s) # g)) (matches a s)"

text \<open>\<open>FindStringSubmatch\<close>; a group that took no part is empty.\<close>

fun find_submatch :: "regexp \<Rightarrow> string \<Rightarrow> groups option" where
  "find_submatch p s =
     (case matches p s of
        (_, g) # _ \<Rightarrow> Some g
      | [] \<Rightarrow> (case s of [] \<Rightarrow> None | _ # r \<Rightarrow> find_submatch p r))"

declare find_submatch.simps [simp del]

definition group_of :: "groups \<Rightarrow> nat \<Rightarrow> string" where
  "group_of g n = (case map_of g n of Some s \<Rightarrow> s | None \<Rightarrow> [])"

text \<open>A match consumes a prefix of the text, and every group is a part of it.\<close>

lemma many_rest_suffix: "r \<in> set (many_rest p s) \<Longrightarrow> suffix r s"
  by (induction s) (auto intro: suffix_ConsI split: if_splits)

lemma matches_suffix: "(r, g) \<in> set (matches p s) \<Longrightarrow> suffix r s"
proof (induction p arbitrary: r g s)
  case (Then a b)
  then show ?case using suffix_order.order_trans by fastforce
qed (auto simp: suffix_drop many_rest_suffix intro: suffix_ConsI split: if_splits list.splits)

lemma matches_groups: "(r, g) \<in> set (matches p s) \<Longrightarrow> (n, w) \<in> set g \<Longrightarrow> sublist w s"
proof (induction p arbitrary: r g s)
  case (Then a b)
  then obtain r1 g1 g2 where m: "(r1, g1) \<in> set (matches a s)" "(r, g2) \<in> set (matches b r1)" "g = g1 @ g2"
    by auto
  from Then.prems(2) m(3) consider "(n, w) \<in> set g1" | "(n, w) \<in> set g2" by auto
  then show ?case
  proof cases
    case 1
    with Then.IH(1) m(1) show ?thesis by blast
  next
    case 2
    with Then.IH(2) m(2) have "sublist w r1" by blast
    moreover have "sublist r1 s" using matches_suffix[OF m(1)] by (rule suffix_imp_sublist)
    ultimately show ?thesis by (rule sublist_order.order_trans)
  qed
next
  case (Group k a)
  then obtain g' where m: "(r, g') \<in> set (matches a s)" "g = (k, take (length s - length r) s) # g'" by auto
  from Group.prems(2) m(2) consider "w = take (length s - length r) s" | "(n, w) \<in> set g'" by auto
  then show ?case using Group.IH m(1) by cases auto
qed (auto split: if_splits list.splits)

end
