(* ===== verification/M3u8Worker.thy ===== *)
theory M3u8Worker
  imports M3u8 GoRegexp GoJson
begin

text \<open>
  The running side of the HLS and DASH downloader, \<open>download/m3u8/worker.go\<close> and \<open>progress.go\<close>: the
  progress that the program prints, the run of the program, and the search for its output. What
  the program prints, how it ends and what it does to the files are arguments.
\<close>

section \<open>Progress\<close>

definition re_number :: "nat \<Rightarrow> regexp" where
  "re_number n = Group n (Then (Many is_digit) (Maybe (Then (Lit ''.'') (Many is_digit))))"

definition re_seq :: "regexp list \<Rightarrow> regexp" where
  "re_seq ps = foldr Then ps (Lit [])"

definition re_words :: "nat \<Rightarrow> string list \<Rightarrow> regexp" where
  "re_words n ws = Group n (foldr (\<lambda>w r. Or (Lit w) r) (butlast ws) (Lit (last ws)))"

definition not_newline :: "char \<Rightarrow> bool" where
  "not_newline c \<longleftrightarrow> c \<noteq> CHR 0x0A"

definition size_units :: "string list" where
  "size_units = [''KB'', ''MB'', ''GB'', ''B'']"

definition speed_units :: "string list" where
  "speed_units = [''GBps'', ''MBps'', ''KBps'', ''Bps'']"

definition vod_progress_pattern :: regexp where
  "vod_progress_pattern = re_seq
     [Group 1 (Many is_digit), Lit ''/'', Group 2 (Many is_digit), Many regex_space, re_number 3, Lit ''%'',
      Many regex_space, re_number 4, re_words 5 size_units, Lit ''/'', re_number 6, re_words 7 size_units,
      Many regex_space, re_number 8, re_words 9 speed_units, Many regex_space, Group 10 (Many not_newline)]"

definition re_clock :: "nat \<Rightarrow> regexp" where
  "re_clock n = Group n (re_seq [One is_digit, One is_digit, Lit ''m'', One is_digit, One is_digit, Lit ''s''])"

definition live_progress_pattern :: regexp where
  "live_progress_pattern = re_seq
     [re_clock 1, Lit ''/'', re_clock 2, Many regex_space, Many is_digit, Lit ''/'', Many is_digit,
      Many regex_space, re_words 3 [''Recording'', ''Waiting''], Many regex_space, Group 4 (Many is_digit),
      Lit ''%'', Many regex_space, Group 5 (Or (Lit ''-'') (Then (re_number 6) (re_words 7 speed_units)))]"

record m3_progress =
  mpr_matched :: bool
  mpr_progress :: rat
  mpr_received :: int
  mpr_total :: int
  mpr_speed :: int
  mpr_message :: string
  mpr_live_status :: string
  mpr_live_elapsed :: string
  mpr_live_total :: string

definition no_progress :: m3_progress where
  "no_progress = \<lparr>mpr_matched = False, mpr_progress = 0, mpr_received = 0, mpr_total = 0, mpr_speed = 0,
     mpr_message = [], mpr_live_status = [], mpr_live_elapsed = [], mpr_live_total = []\<rparr>"

text \<open>
  \<open>strconv.ParseFloat\<close> on the digits that the patterns let through; \<open>rnd\<close> rounds to a \<open>float64\<close>.
  Numbers above its range, of more than 300 digits, are taken as they are.
\<close>

definition decimal_value :: "string \<Rightarrow> rat" where
  "decimal_value s =
     (case cut_str s ''.'' of (whole, part, _) \<Rightarrow>
        of_nat (digits_val whole) + of_nat (digits_val part) / 10 ^ length part)"

definition to_bytes :: "(rat \<Rightarrow> rat) \<Rightarrow> string \<Rightarrow> string \<Rightarrow> int" where
  "to_bytes rnd number_text unit =
     (let v = rnd (decimal_value number_text); unit = map upper_char unit in
      int_of_float (if unit = ''KB'' then rnd (v * 1024)
        else if unit = ''MB'' then rnd (v * (1024 * 1024))
        else if unit = ''GB'' then rnd (v * (1024 * 1024 * 1024)) else v))"

definition parse_progress_line :: "(rat \<Rightarrow> rat) \<Rightarrow> string \<Rightarrow> m3_progress" where
  "parse_progress_line rnd line =
     (let s = trim_space line in
      if s = [] then no_progress
      else
        (let s = take 1000 s in
         case find_submatch vod_progress_pattern s of
           Some g \<Rightarrow> no_progress\<lparr>mpr_matched := True, mpr_progress := rnd (decimal_value (group_of g 3)),
             mpr_received := to_bytes rnd (group_of g 4) (group_of g 5),
             mpr_total := to_bytes rnd (group_of g 6) (group_of g 7),
             mpr_speed := to_bytes rnd (group_of g 8) (trim_suffix (group_of g 9) ''ps''), mpr_message := s\<rparr>
         | None \<Rightarrow>
             (case find_submatch live_progress_pattern s of
                Some g \<Rightarrow> no_progress\<lparr>mpr_matched := True, mpr_progress := rnd (decimal_value (group_of g 4)),
                  mpr_speed := (if group_of g 5 = ''-'' then 0
                    else to_bytes rnd (group_of g 6) (trim_suffix (group_of g 7) ''ps'')),
                  mpr_message := s, mpr_live_status := group_of g 3, mpr_live_elapsed := group_of g 1,
                  mpr_live_total := group_of g 2\<rparr>
              | None \<Rightarrow> no_progress\<lparr>mpr_message := s\<rparr>)))"

section \<open>The output\<close>

text \<open>
  \<open>ls\<close> is \<open>os.ReadDir\<close>: the names in a directory in their order, with whether each is a directory.
\<close>

type_synonym dir_lister = "fsys \<Rightarrow> string \<Rightarrow> (string \<times> bool) list result"

definition ignored_output_ext :: "string \<Rightarrow> bool" where
  "ignored_output_ext ext \<longleftrightarrow> ext \<in> set [''.json'', ''.txt'', ''.log'', ''.tmp'', ''.ghd'']"

fun find_candidate ::
  "unicode \<Rightarrow> string \<Rightarrow> string \<Rightarrow> string \<Rightarrow> string \<Rightarrow> (string \<times> bool) list \<Rightarrow> string" where
  "find_candidate u dir stem expected fallback [] = fallback"
| "find_candidate u dir stem expected fallback ((name, is_dir) # entries) =
     (if is_dir then find_candidate u dir stem expected fallback entries
      else if \<not> prefix stem (to_lower u name) then find_candidate u dir stem expected fallback entries
      else
        (let ext = to_lower u (fp_ext name) in
         if ignored_output_ext ext then find_candidate u dir stem expected fallback entries
         else if ext = expected then fp_join [dir, name]
         else find_candidate u dir stem expected
                (if fallback = [] then fp_join [dir, name] else fallback) entries))"

definition find_output_candidate ::
  "unicode \<Rightarrow> dir_lister \<Rightarrow> fsys \<Rightarrow> string \<Rightarrow> string \<Rightarrow> string \<Rightarrow> bool \<Rightarrow> string result" where
  "find_output_candidate u ls fs dir title format live =
     (case ls fs dir of
        Inl e \<Rightarrow> Inl e
      | Inr entries \<Rightarrow>
          Inr (find_candidate u dir (to_lower u (save_name title)) (if live then ''.ts'' else ''.'' @ format) [] entries))"

definition stat_size :: "fsys \<Rightarrow> string \<Rightarrow> int result" where
  "stat_size fs p = map_sum id node_size (os_stat fs p)"

definition non_empty_file :: "fsys \<Rightarrow> string \<Rightarrow> bool" where
  "non_empty_file fs p \<longleftrightarrow> (case os_stat fs p of Inl _ \<Rightarrow> False | Inr n \<Rightarrow> n \<noteq> NDir \<and> node_size n > 0)"

text \<open>The candidate is moved to the output's name.\<close>

definition take_candidate :: "fsys \<Rightarrow> string \<Rightarrow> string \<Rightarrow> int result \<times> fsys" where
  "take_candidate fs found output =
     (if fp_clean found = fp_clean output then (stat_size fs found, fs)
      else case remove_old fs output of
        (Some e, fs) \<Rightarrow> (Inl e, fs)
      | (None, fs) \<Rightarrow>
          (case os_rename fs found output of
             (Some e, fs) \<Rightarrow> (Inl e, fs)
           | (None, fs) \<Rightarrow> (stat_size fs output, fs)))"

definition finalize_output :: "unicode \<Rightarrow> dir_lister \<Rightarrow> task \<Rightarrow> m3_options \<Rightarrow> fsys \<Rightarrow> int result \<times> fsys" where
  "finalize_output u ls t m fs =
     (let output = output_file t; fs = snd (os_remove fs (output @ ''.ghd'')) in
      if non_empty_file fs output then (stat_size fs output, fs)
      else case find_output_candidate u ls fs (mo_save_dir m) (mo_title m) (mo_output_format m) (mo_live m) of
        Inl e \<Rightarrow> (Inl e, fs)
      | Inr found \<Rightarrow>
          if found = [] then (Inl (new_error ''N_m3u8DL-RE completed but output file was not found''), fs)
          else take_candidate fs found output)"

definition prepare_stream_output :: "task \<Rightarrow> m3_options \<Rightarrow> fsys \<Rightarrow> goerr option \<times> fsys" where
  "prepare_stream_output t m fs =
     and_then (os_mkdir_all fs (mo_save_dir m)) (\<lambda>fs.
       and_then (os_mkdir_all fs (fp_join [mo_save_dir m, ''.gd3_m3u8'', tsk_id t])) (\<lambda>fs.
         os_open_write fs (output_file t @ ''.ghd'')))"

section \<open>The run\<close>

text \<open>What the two scanners see, in the order in which they get the lock: lines, and their errors.\<close>

datatype scan_event = ScanLine string | ScanError goerr

definition update_last :: "string \<Rightarrow> string \<Rightarrow> string" where
  "update_last message last_message =
     (let message = trim_space message in if message = [] then last_message else take 1000 message)"

definition stream_update :: "int \<Rightarrow> int \<Rightarrow> int \<Rightarrow> rat \<Rightarrow> progress_update" where
  "stream_update received file_size speed progress =
     \<lparr>upd_received = received, upd_file_size = file_size, upd_speed = speed, upd_progress = progress, upd_detail = [],
      upd_status = None, upd_stage_state = None, upd_uses_slot = None\<rparr>"

fun scan_output ::
  "(rat \<Rightarrow> rat) \<Rightarrow> scan_event list \<Rightarrow> string \<Rightarrow> string \<times> progress_update list" where
  "scan_output rnd [] last_message = (last_message, [])"
| "scan_output rnd (ScanError e # evs) last_message =
     scan_output rnd evs (update_last (err_text e) last_message)"
| "scan_output rnd (ScanLine line # evs) last_message =
     (let p = parse_progress_line rnd line; r = scan_output rnd evs (update_last line last_message) in
      if mpr_matched p
      then (fst r, stream_update (mpr_received p) 0 (mpr_speed p) (mpr_progress p) # snd r) else r)"

text \<open>
  The run of the program: the error of starting it (its pipes included), what it prints, its effect
  on the files, and its end: the cancellation that came first, or what \<open>Wait\<close> returned.
\<close>

datatype program_end = Cancelled goerr | Exited "goerr option"

record program_run =
  prg_start :: "goerr option"
  prg_events :: "scan_event list"
  prg_effect :: "fsys \<Rightarrow> fsys"
  prg_end :: program_end

definition run_stream ::
  "unicode \<Rightarrow> (rat \<Rightarrow> rat) \<Rightarrow> dir_lister \<Rightarrow> (string \<Rightarrow> string list \<Rightarrow> program_run) \<Rightarrow> task \<Rightarrow> fsys \<Rightarrow>
   goerr option \<times> progress_update list \<times> fsys" where
  "run_stream u rnd ls program t fs =
     (let exec_path = find_runtime_executable fs (install_dir_from_task t) in
      if exec_path = []
      then (Some (new_error ''N_m3u8DL-RE runtime not found; configure the M3U8 install directory in Settings''), [], fs)
      else
        (let m = (options_from_task t)\<lparr>mo_ffmpeg := find_ffmpeg_executable fs (ffmpeg_install_dir_from_task t)\<rparr> in
         case prepare_stream_output t m fs of
           (Some e, fs) \<Rightarrow> (Some e, [], fs)
         | (None, fs) \<Rightarrow>
             (let run = program exec_path (build_args m) in
              if prg_start run \<noteq> None then (prg_start run, [], fs)
              else
                (let fs = prg_effect run fs; (last_message, reports) = scan_output rnd (prg_events run) [] in
                 case prg_end run of
                   Cancelled e \<Rightarrow>
                     (Some e, reports, if mo_live m then snd (finalize_output u ls t m fs) else fs)
                 | Exited (Some e) \<Rightarrow>
                     (Some (new_error (''N_m3u8DL-RE failed: '' @ (if last_message = [] then err_text e else last_message))),
                      reports, fs)
                 | Exited None \<Rightarrow>
                     (case finalize_output u ls t m fs of
                        (Inl e, fs) \<Rightarrow> (Some e, reports, fs)
                      | (Inr n, fs) \<Rightarrow> (None, reports @ [stream_update n n 0 100], fs))))))"

end
