(* ===== verification/M3u8Props.thy ===== *)
theory M3u8Props
  imports M3u8Worker
begin

text \<open>
  What the HLS and DASH downloader promises: the run works with the settings that were in force when
  the manifest was parsed, a title is a plain file name, and what
  the search for the output does to the other files of the directory.
\<close>

section \<open>Numbers\<close>

lemma m3_digits_of: "m3_digits v buf = (if v = 0 then buf else digits_of v @ buf)"
proof (induction v buf rule: m3_digits.induct)
  case (1 v buf)
  show ?case
    by (subst m3_digits.simps, subst digits_of.simps) (use 1 in \<open>auto simp: less_eq_iff_succ_less split: if_splits\<close>)
qed

text \<open>The hand-written \<open>itoa\<close> agrees with \<open>strconv.Itoa\<close> on every number but the least one.\<close>

lemma m3_itoa_eq: "int64 v \<Longrightarrow> v \<noteq> min_int64 \<Longrightarrow> m3_itoa v = itoa v"
proof -
  assume v: "int64 v" "v \<noteq> min_int64"
  have z: "digits_of 0 = ''0''" by code_simp
  show ?thesis
  proof (cases "v < 0")
    case True
    have "wrap64 (- v) = - v" by (rule wrap64_id) (use v in \<open>simp add: int64_def min_int64_def max_int64_def\<close>)
    with True show ?thesis by (simp add: m3_itoa_def itoa_def m3_digits_of)
  qed (simp add: m3_itoa_def itoa_def m3_digits_of z)
qed

lemma m3_itoa_least: "m3_itoa min_int64 = ''-''"
  by (simp add: m3_itoa_def wrap64_def min_int64_def m3_digits_of)

lemma m3_itoa_natural: "0 \<le> v \<Longrightarrow> m3_itoa v = digits_of (nat v)"
proof -
  have "digits_of 0 = ''0''" by code_simp
  then show "0 \<le> v \<Longrightarrow> ?thesis" by (simp add: m3_itoa_def m3_digits_of)
qed

section \<open>The settings reach the run\<close>

lemma m3_int_state_itoa: "0 \<le> v \<Longrightarrow> int64 v \<Longrightarrow> map_get s k = m3_itoa v \<Longrightarrow> m3_int_state s k d = v"
  using parse_itoa[of v] by (simp add: m3_int_state_def m3_itoa_natural itoa_def)

lemma m3_bool_state_format: "map_get s k = format_bool b \<Longrightarrow> m3_bool_state s k d = b"
  by (cases b) (simp_all add: m3_bool_state_def format_bool_def parse_bool_def)

lemma stream_state_get:
  "map_get (stream_state s kind live) ''isLive'' = format_bool live"
  "map_get (stream_state s kind live) ''installDir'' = cfg_m3u8_install_dir s"
  "map_get (stream_state s kind live) ''ffmpegInstallDir'' = cfg_ffmpeg_install_dir s"
  "map_get (stream_state s kind live) ''outputFormat'' = cfg_m3u8_output_format s"
  "map_get (stream_state s kind live) ''requestTimeoutSec'' = m3_itoa (cfg_m3u8_request_timeout_sec s)"
  "map_get (stream_state s kind live) ''concurrentDownload'' = format_bool (cfg_m3u8_concurrent_download s)"
  "map_get (stream_state s kind live) ''checkSegmentsCount'' = format_bool (cfg_m3u8_check_segments_count s)"
  "map_get (stream_state s kind live) ''deleteAfterDone'' = format_bool (cfg_m3u8_delete_after_done s)"
  "map_get (stream_state s kind live) ''selectAllAudioSubtitle'' = format_bool (cfg_m3u8_select_all_audio_subtitle s)"
  "map_get (stream_state s kind live) ''mp4RealTimeDecryption'' = format_bool (cfg_m3u8_mp4_real_time_decryption s)"
  "map_get (stream_state s kind live) ''subtitleFormat'' = cfg_m3u8_subtitle_format s"
  by (simp_all add: stream_state_def map_get_def fmap_of_list.rep_eq)

text \<open>The task that a parse returns.\<close>

lemma parsed_stream_task:
  assumes "parse_stream u nl socks net fs sid tid now raw s headers = Inr r"
  shows "mre_task r = new_task tid now ''m3u8''
      (title_from u nl (mre_url r) (mre_headers r) (if mre_live r then ''ts'' else cfg_m3u8_output_format s))
      (trim_space raw) (cfg_download_dir s) 1
      ((new_stage sid ''m3u8'' (mre_url r) 1 (cfg_m3u8_thread_count s) (cfg_m3u8_retry_count s) False
         headers (cfg_proxy_url s))\<lparr>stg_state := stream_state s (mre_type r) (mre_live r)\<rparr>)"
  using assms by (auto simp: parse_stream_def Let_def split: if_splits sum.splits)

text \<open>
  C26: The run of a parsed task works with the settings that were in force at the parse. The options
  that the worker decodes from the task, with the FFmpeg that it looks up, are the options that the
  settings give for the manifest's final URL, with the headers of the request - so the texts of the
  stage lose nothing.
\<close>

theorem stream_options_restored:
  assumes "parse_stream u nl socks net fs sid tid now raw s headers = Inr r"
    and "settings_ok s" and "int64 (cfg_m3u8_request_timeout_sec s)"
  shows "(options_from_task (mre_task r))\<lparr>mo_ffmpeg := find_ffmpeg_executable fs' (ffmpeg_install_dir_from_task (mre_task r))\<rparr> =
    (options_from_settings fs' s (mre_url r) (tsk_title (mre_task r)) tid (mre_live r))\<lparr>mo_headers := headers\<rparr>"
proof -
  have ok: "cfg_m3u8_output_format s \<noteq> []" "cfg_m3u8_subtitle_format s \<noteq> []" "0 \<le> cfg_m3u8_request_timeout_sec s"
    "\<not> cfg_m3u8_retry_count s < 0" "cfg_ffmpeg_install_dir s \<noteq> []"
    using assms(2) by (auto simp: settings_ok_def)
  let ?st = "stream_state s (mre_type r) (mre_live r)"
  have n: "m3_int_state ?st ''requestTimeoutSec'' 100 = cfg_m3u8_request_timeout_sec s"
    by (rule m3_int_state_itoa[OF ok(3) assms(3)]) (rule stream_state_get)
  note b = m3_bool_state_format[OF stream_state_get(1)] m3_bool_state_format[OF stream_state_get(6)]
    m3_bool_state_format[OF stream_state_get(7)] m3_bool_state_format[OF stream_state_get(8)]
    m3_bool_state_format[OF stream_state_get(9)] m3_bool_state_format[OF stream_state_get(10)]
  show ?thesis
    unfolding parsed_stream_task[OF assms(1)]
    using ok
    by (simp add: options_from_task_def options_from_settings_def new_task_def new_stage_def Let_def n b
        m3_string_state_def stream_state_get ffmpeg_install_dir_from_task_def)
qed

section \<open>Titles\<close>

lemma strip_known_suffix_set: "set (strip_known_suffix u name) \<subseteq> set name"
  by (auto simp: strip_known_suffix_def Let_def dest: in_set_takeD)

lemma safe_stream_name_chars: "c \<in> set (safe_stream_name name) \<Longrightarrow> \<not> unsafe_filename_char c"
proof -
  have "\<not> unsafe_filename_char c" if "c \<in> set ''stream''" using that by (auto simp: unsafe_filename_char_def byte_of_def)
  moreover have "\<not> unsafe_filename_char (CHR ''_'')" by (simp add: unsafe_filename_char_def byte_of_def)
  ultimately show "c \<in> set (safe_stream_name name) \<Longrightarrow> \<not> unsafe_filename_char c"
    using set_trim[of "'' ._''"] by (fastforce simp: safe_stream_name_def Let_def split: if_splits)
qed

lemma find_in_set: "find P xs = Some x \<Longrightarrow> x \<in> set xs"
  by (induction xs) (auto split: if_splits)

text \<open>The title of a parsed task is a plain file name: a stem, a dot and the extension.\<close>

lemma title_from_safe:
  assumes "\<And>c. c \<in> set ext \<Longrightarrow> \<not> unsafe_filename_char c" and "ext \<noteq> []" and "c \<in> set (title_from u nl source headers ext)"
  shows "\<not> unsafe_filename_char c"
proof -
  have plain: "\<not> unsafe_filename_char c" if "c \<in> set ''stream.''" for c
    using that by (auto simp: unsafe_filename_char_def byte_of_def)
  obtain stem where t: "title_from u nl source headers ext = stem @ ''.'' @ ext"
    and stem: "stem = ''stream'' \<or> (\<exists>name. stem = strip_known_suffix u (safe_stream_name name))"
  proof (cases "find (\<lambda>stem. stem \<noteq> []) (map (\<lambda>c. strip_known_suffix u (safe_stream_name c))
      (disposition_names u nl headers @ url_names nl source))")
    case None
    then show ?thesis using that[of "''stream''"] assms(2) by (simp add: title_from_def)
  next
    case (Some stem)
    then have "stem \<in> set (map (\<lambda>c. strip_known_suffix u (safe_stream_name c))
      (disposition_names u nl headers @ url_names nl source))"
      by (rule find_in_set)
    then show ?thesis using that[of stem] assms(2) Some by (auto simp: title_from_def)
  qed
  have "\<not> unsafe_filename_char d" if mem: "d \<in> set stem" for d
    using stem
  proof
    assume "stem = ''stream''"
    with mem have "d \<in> set ''stream.''" by auto
    then show ?thesis by (rule plain)
  next
    assume "\<exists>name. stem = strip_known_suffix u (safe_stream_name name)"
    then obtain name where "d \<in> set (safe_stream_name name)" using mem strip_known_suffix_set by blast
    then show ?thesis by (rule safe_stream_name_chars)
  qed
  moreover have "\<not> unsafe_filename_char (CHR ''.'')" by (rule plain) simp
  moreover consider "c \<in> set stem" | "c = CHR ''.''" | "c \<in> set ext" using assms(3) unfolding t by auto
  ultimately show ?thesis using assms(1) by cases blast+
qed

lemma stream_title_plain:
  assumes "parse_stream u nl socks net fs sid tid now raw s headers = Inr r" and "settings_ok s"
    and "c \<in> set (tsk_title (mre_task r))"
  shows "\<not> unsafe_filename_char c"
proof (rule title_from_safe)
  let ?ext = "if mre_live r then ''ts'' else cfg_m3u8_output_format s"
  show "c \<in> set (title_from u nl (mre_url r) (mre_headers r) ?ext)"
    using assms(3) by (simp add: parsed_stream_task[OF assms(1)] new_task_def)
  show "?ext \<noteq> []" using assms(2) by (auto simp: settings_ok_def)
  show "\<not> unsafe_filename_char c" if "c \<in> set ?ext" for c
    using that assms(2) by (auto simp: settings_ok_def unsafe_filename_char_def byte_of_def split: if_splits)
qed

text \<open>The name that a server suggests loses its upper case.\<close>

lemma title_loses_case:
  "title_from ascii_tables (no_netlib\<lparr>nl_media_type := \<lambda>s. Some (''attachment'', [(''filename'', drop 21 s)])\<rparr>) []
     [(''content-disposition'', ''attachment; filename=Movie.mkv'')] ''mp4'' = ''movie.mp4''"
  by code_simp

section \<open>The output and its neighbours\<close>

lemma remove_changes: "os_remove fs p = (r, fs') \<Longrightarrow> only_changes p fs fs'"
  by (auto simp: os_remove_def only_changes_def split: sum.splits)

lemma remove_old_changes: "remove_old fs p = (r, fs') \<Longrightarrow> only_changes p fs fs'"
  using remove_changes by (fastforce simp: remove_old_def split: prod.splits option.splits if_splits)

text \<open>The candidate is a listed file whose name starts with the stem, without regard to case.\<close>

lemma find_candidate_listed:
  "find_candidate u dir stem expected fallback entries = found \<Longrightarrow>
   found = fallback \<or> (\<exists>name. (name, False) \<in> set entries \<and> prefix stem (to_lower u name) \<and> found = fp_join [dir, name])"
  by (induction u dir stem expected fallback entries rule: find_candidate.induct)
    (auto simp: Let_def split: if_splits)

text \<open>What is unchanged but for the paths of a set.\<close>

definition same_but :: "string set \<Rightarrow> fsys \<Rightarrow> fsys \<Rightarrow> bool" where
  "same_but ps fs fs' \<longleftrightarrow> fs_cwd fs' = fs_cwd fs \<and> fs_faults fs' = fs_faults fs \<and>
     (\<forall>q. q \<notin> fs_key fs ` ps \<longrightarrow> fs_nodes fs' q = fs_nodes fs q)"

lemma same_but_only: "only_changes p fs fs' \<Longrightarrow> p \<in> ps \<Longrightarrow> same_but ps fs fs'"
  by (auto simp: only_changes_def same_but_def)

lemma same_but_trans: "same_but ps fs fs' \<Longrightarrow> same_but ps fs' fs'' \<Longrightarrow> same_but ps fs fs''"
  by (simp add: same_but_def fs_key_def)

lemma same_but_refl [simp]: "same_but ps fs fs"
  by (simp add: same_but_def)

lemma rename_same_but: "os_rename fs a b = (r, fs') \<Longrightarrow> same_but {a, b} fs fs'"
  by (auto simp: os_rename_def same_but_def put_node_def fs_key_def split: sum.splits option.splits)

lemma same_but_mono: "same_but ps fs fs' \<Longrightarrow> ps \<subseteq> qs \<Longrightarrow> same_but qs fs fs'"
  by (auto simp: same_but_def)

lemma take_candidate_sound:
  assumes "take_candidate fs found output = (r, fs')"
  shows "same_but {found, output} fs fs'"
    and "r = Inr n \<Longrightarrow> \<exists>p. fp_clean p = fp_clean output \<and> stat_size fs' p = Inr n"
proof -
  have *: "same_but {found, output} fs fs' \<and> (r = Inr n \<longrightarrow> (\<exists>p. fp_clean p = fp_clean output \<and> stat_size fs' p = Inr n))"
  proof (cases "fp_clean found = fp_clean output")
    case True
    then show ?thesis using assms by (auto simp: take_candidate_def)
  next
    case False
    obtain e fs1 where r: "remove_old fs output = (e, fs1)" by (cases "remove_old fs output") auto
    have s1: "same_but {found, output} fs fs1" by (rule same_but_only[OF remove_old_changes[OF r]]) simp
    obtain e2 fs2 where m: "os_rename fs1 found output = (e2, fs2)" by (cases "os_rename fs1 found output") auto
    have s2: "same_but {found, output} fs fs2" using s1 rename_same_but[OF m] by (rule same_but_trans)
    show ?thesis using assms False r m s1 s2 by (auto simp: take_candidate_def split: option.splits)
  qed
  then show "same_but {found, output} fs fs'" by blast
  show "r = Inr n \<Longrightarrow> \<exists>p. fp_clean p = fp_clean output \<and> stat_size fs' p = Inr n" using * by blast
qed

text \<open>
  What finishing a stream does to the files. When it succeeds, the reported size is that of
  what is at the task's output. Whatever happens, the only paths it changes are the output, its
  placeholder, and at most one listed file of the directory, whose name starts with the stem of the
  task's title.
\<close>

theorem finalize_sound:
  assumes "finalize_output u ls t m fs = (r, fs')"
  shows "\<exists>names. length names \<le> 1 \<and>
      same_but ({output_file t, output_file t @ ''.ghd''} \<union> (\<lambda>n. fp_join [mo_save_dir m, n]) ` set names) fs fs' \<and>
      list_all (\<lambda>n. prefix (to_lower u (save_name (mo_title m))) (to_lower u n)) names \<and>
      (\<forall>n. r = Inr n \<longrightarrow> (\<exists>p. fp_clean p = fp_clean (output_file t) \<and> stat_size fs' p = Inr n))"
proof -
  let ?out = "output_file t" and ?fs = "snd (os_remove fs (output_file t @ ''.ghd''))"
  have rm: "same_but {?out, ?out @ ''.ghd''} fs ?fs"
    by (rule same_but_only[OF remove_changes[OF surjective_pairing]]) simp
  note d = assms[unfolded finalize_output_def Let_def]
  consider (there) "non_empty_file ?fs ?out" "r = stat_size ?fs ?out" "fs' = ?fs"
    | (failed) e where "r = Inl e" "fs' = ?fs"
    | (found) found where "find_output_candidate u ls ?fs (mo_save_dir m) (mo_title m) (mo_output_format m) (mo_live m) = Inr found"
      "found \<noteq> []" "take_candidate ?fs found ?out = (r, fs')"
  proof (cases "non_empty_file ?fs ?out")
    case True
    show ?thesis by (rule there) (use d True in auto)
  next
    case False
    show ?thesis
    proof (cases "find_output_candidate u ls ?fs (mo_save_dir m) (mo_title m) (mo_output_format m) (mo_live m)")
      case (Inl e)
      show ?thesis by (rule failed[of e]) (use d False Inl in auto)
    next
      case (Inr x)
      show ?thesis
      proof (cases "x = []")
        case True
        show ?thesis by (rule failed[of "projl r"]) (use d False Inr True in auto)
      next
        case ne: False
        show ?thesis by (rule found[OF Inr ne]) (use d False Inr ne in auto)
      qed
    qed
  qed
  then show ?thesis
  proof cases
    case there
    then show ?thesis using rm by (intro exI[of _ "[]"]) auto
  next
    case failed
    then show ?thesis using rm by (intro exI[of _ "[]"]) auto
  next
    case found
    then obtain name where n: "prefix (to_lower u (save_name (mo_title m))) (to_lower u name)"
      "found = fp_join [mo_save_dir m, name]"
      using find_candidate_listed by (fastforce simp: find_output_candidate_def split: sum.splits)
    have "same_but ({?out, ?out @ ''.ghd''} \<union> {found}) fs fs'"
    proof (rule same_but_trans)
      show "same_but ({?out, ?out @ ''.ghd''} \<union> {found}) fs ?fs" using rm by (rule same_but_mono) auto
      show "same_but ({?out, ?out @ ''.ghd''} \<union> {found}) ?fs fs'"
        using take_candidate_sound(1)[OF found(3)] by (rule same_but_mono) auto
    qed
    then show ?thesis using n take_candidate_sound(2)[OF found(3)] by (intro exI[of _ "[name]"]) auto
  qed
qed

lemma find_candidate_first:
  assumes "list_all (\<lambda>(n, is_dir). is_dir \<or> \<not> prefix stem (to_lower u n)) before"
    and "prefix stem (to_lower u name)" and "to_lower u (fp_ext name) = expected" and "\<not> ignored_output_ext expected"
  shows "find_candidate u dir stem expected fallback (before @ (name, False) # after) = fp_join [dir, name]"
  using assms
proof (induction before arbitrary: fallback)
  case (Cons e before)
  then show ?case by (cases e) auto
qed (simp add: Let_def)

text \<open>
  C39: A finished file of another task can be taken. When the program ends well but leaves no file at
  the task's output, the first file of the directory with the right extension whose name starts
  with the title's stem is renamed to the output, whoever it belongs to, and the task succeeds with
  its size: \<open>ep1.mp4\<close> takes \<open>ep10.mp4\<close>.
\<close>

theorem finished_file_taken:
  assumes "fs0 = snd (os_remove fs (output_file t @ ''.ghd''))" and "\<not> mo_live m"
    and "ls fs0 (mo_save_dir m) = Inr (before @ (name, False) # after)"
    and "list_all (\<lambda>(n, is_dir). is_dir \<or> \<not> prefix (to_lower u (save_name (mo_title m))) (to_lower u n)) before"
    and "prefix (to_lower u (save_name (mo_title m))) (to_lower u name)"
    and "to_lower u (fp_ext name) = ''.'' @ mo_output_format m" and "\<not> ignored_output_ext (''.'' @ mo_output_format m)"
    and "other = fp_join [mo_save_dir m, name]" and "other \<noteq> []"
    and "fp_clean other \<noteq> fp_clean (output_file t)" and "fs_key fs other \<noteq> fs_key fs (output_file t)"
    and "fs_faults fs (fs_key fs other) = None" and "fs_faults fs (fs_key fs (output_file t)) = None"
    and "fs_nodes fs0 (fs_key fs other) = Some (NFile c)" and "fs_nodes fs0 (fs_key fs (output_file t)) = None"
  shows "\<exists>fs'. finalize_output u ls t m fs = (Inr (int (length c)), fs') \<and>
    fs_nodes fs' (fs_key fs (output_file t)) = Some (NFile c) \<and> fs_nodes fs' (fs_key fs other) = None"
proof -
  let ?out = "output_file t"
  have o: "only_changes (?out @ ''.ghd'') fs fs0"
    unfolding assms(1) by (rule remove_changes[OF surjective_pairing])
  then have k: "fs_key fs0 q = fs_key fs q" for q by (rule only_changes_key)
  have f: "fs_faults fs0 = fs_faults fs" using o by (simp add: only_changes_def)
  have no: "\<not> non_empty_file fs0 ?out"
    using assms(13,15) by (simp add: non_empty_file_def os_stat_def os_lstat_def k f)
  have found: "find_output_candidate u ls fs0 (mo_save_dir m) (mo_title m) (mo_output_format m) (mo_live m) = Inr other"
    using find_candidate_first[OF assms(4,5,6,7)] assms(2,3,8) by (simp add: find_output_candidate_def)
  have gone: "remove_old fs0 ?out = (None, fs0)"
    using assms(13,15) by (simp add: remove_old_def os_remove_def os_lstat_def k f not_exist_def)
  let ?fs = "put_node ?out (NFile c) (fs0\<lparr>fs_nodes := (fs_nodes fs0)(fs_key fs0 other := None)\<rparr>)"
  have moved: "os_rename fs0 other ?out = (None, ?fs)"
    using assms(12-14) by (simp add: os_rename_def os_lstat_def k f)
  have n: "fs_nodes ?fs (fs_key fs ?out) = Some (NFile c)" "fs_nodes ?fs (fs_key fs other) = None"
    "fs_faults ?fs = fs_faults fs" "fs_key ?fs ?out = fs_key fs ?out"
    using assms(11) k f by (simp_all add: put_node_def fs_key_def)
  have "stat_size ?fs ?out = Inr (int (length c))"
    using n assms(13) by (simp add: stat_size_def os_stat_def os_lstat_def node_size_def)
  then have "finalize_output u ls t m fs = (Inr (int (length c)), ?fs)"
    using no found gone moved assms(9,10) by (simp add: finalize_output_def Let_def take_candidate_def flip: assms(1))
  with n show ?thesis by blast
qed

section \<open>Examples\<close>

text \<open>A folder with a finished file and a task whose title is a prefix of its name.\<close>

definition folder_path :: "string \<Rightarrow> string" where
  "folder_path name = ''C:'' @ backslash # ''d'' @ backslash # name"

definition folder_root :: string where
  "folder_root = ''C:'' @ [backslash]"

definition folder_fs :: "string \<Rightarrow> fsys" where
  "folder_fs c = \<lparr>fs_nodes = [folder_path ''ep10.mp4'' \<mapsto> NFile c], fs_cwd = folder_root, fs_faults = (\<lambda>_. None)\<rparr>"

definition folder_list :: dir_lister where
  "folder_list fs dir = Inr [(''.gd3_m3u8'', True), (''ep10.mp4'', False)]"

definition folder_task :: task where
  "folder_task = new_task ''t'' 0 ''m3u8'' ''ep1.mp4'' [] (''C:'' @ backslash # ''d'') 1
     (new_stage ''s'' ''m3u8'' ''https://h/ep1.m3u8'' 1 8 3 False None [])"

lemma finished_file_taken_witness:
  "\<exists>fs'. finalize_output ascii_tables folder_list folder_task (options_from_task folder_task) (folder_fs ''xy'') =
      (Inr (int (length ''xy'')), fs') \<and>
    fs_nodes fs' (fs_key (folder_fs ''xy'') (output_file folder_task)) = Some (NFile ''xy'') \<and>
    fs_nodes fs' (fs_key (folder_fs ''xy'') (folder_path ''ep10.mp4'')) = None"
proof -
  have out: "output_file folder_task = folder_path ''ep1.mp4''" by code_simp
  have k: "fs_key (folder_fs ''xy'') p = fp_abs folder_root p" for p by (simp add: fs_key_def folder_fs_def)
  have ks: "fp_abs folder_root (folder_path ''ep1.mp4'') = folder_path ''ep1.mp4''"
    "fp_abs folder_root (folder_path ''ep10.mp4'') = folder_path ''ep10.mp4''"
    "fp_abs folder_root (folder_path ''ep1.mp4'' @ ''.ghd'') = folder_path ''ep1.mp4'' @ ''.ghd''" by code_simp+
  have ne: "folder_path ''ep1.mp4'' \<noteq> folder_path ''ep10.mp4''"
    "folder_path ''ep1.mp4'' @ ''.ghd'' \<noteq> folder_path ''ep10.mp4''" by code_simp+
  have nodes: "fs_nodes (folder_fs ''xy'') = [folder_path ''ep10.mp4'' \<mapsto> NFile ''xy'']" "fs_faults (folder_fs ''xy'') = (\<lambda>_. None)"
    by (simp_all add: folder_fs_def)
  have r: "snd (os_remove (folder_fs ''xy'') (output_file folder_task @ ''.ghd'')) = folder_fs ''xy''"
    using ne nodes by (simp add: out os_remove_def os_lstat_def k ks)
  show ?thesis
  proof (rule finished_file_taken[where before = "[(''.gd3_m3u8'', True)]" and name = "''ep10.mp4''" and after = "[]"])
    show "folder_fs ''xy'' = snd (os_remove (folder_fs ''xy'') (output_file folder_task @ ''.ghd''))" by (simp add: r)
    show "folder_list (folder_fs ''xy'') (mo_save_dir (options_from_task folder_task)) =
      Inr ([(''.gd3_m3u8'', True)] @ (''ep10.mp4'', False) # [])" by (simp add: folder_list_def)
    show "folder_path ''ep10.mp4'' = fp_join [mo_save_dir (options_from_task folder_task), ''ep10.mp4'']" by code_simp
    show "fs_key (folder_fs ''xy'') (folder_path ''ep10.mp4'') \<noteq> fs_key (folder_fs ''xy'') (output_file folder_task)"
      using ne by (simp add: k ks out)
    show "fs_nodes (folder_fs ''xy'') (fs_key (folder_fs ''xy'') (folder_path ''ep10.mp4'')) = Some (NFile ''xy'')"
      "fs_nodes (folder_fs ''xy'') (fs_key (folder_fs ''xy'') (output_file folder_task)) = None"
      using ne by (simp_all add: k ks out) (simp_all add: folder_fs_def)
    show "fs_faults (folder_fs ''xy'') (fs_key (folder_fs ''xy'') (folder_path ''ep10.mp4'')) = None"
      "fs_faults (folder_fs ''xy'') (fs_key (folder_fs ''xy'') (output_file folder_task)) = None" by (simp_all add: folder_fs_def)
  qed (code_simp; fail)+
qed

lemma finalize_sound_witness:
  "case finalize_output ascii_tables folder_list folder_task (options_from_task folder_task) (folder_fs ''xy'') of (r, fs') \<Rightarrow>
     r = Inr 2 \<and> (\<exists>names. length names \<le> 1 \<and>
       same_but ({output_file folder_task, output_file folder_task @ ''.ghd''} \<union>
         (\<lambda>n. fp_join [mo_save_dir (options_from_task folder_task), n]) ` set names) (folder_fs ''xy'') fs')"
proof -
  have r: "fst (finalize_output ascii_tables folder_list folder_task (options_from_task folder_task) (folder_fs ''xy'')) = Inr 2"
    by code_simp
  obtain r fs' where f: "finalize_output ascii_tables folder_list folder_task (options_from_task folder_task)
      (folder_fs ''xy'') = (r, fs')" by (rule prod.exhaust)
  from finalize_sound[OF f] r f show ?thesis by auto
qed

text \<open>A local playlist whose segments are remote.\<close>

definition demo_settings :: settings where
  "demo_settings = (default_settings None (resolved ''C:'' ''D:''))\<lparr>cfg_m3u8_request_timeout_sec := 45,
     cfg_m3u8_select_all_audio_subtitle := False\<rparr>"

definition playlist_fs :: fsys where
  "playlist_fs = \<lparr>fs_nodes = [folder_path ''a.m3u8'' \<mapsto> NFile ''#EXTM3U http://h/1.ts #EXT-X-ENDLIST''],
     fs_cwd = folder_root, fs_faults = (\<lambda>_. None)\<rparr>"

lemma stream_options_restored_witness:
  "\<exists>r. parse_stream ascii_tables no_netlib (\<lambda>_. None) (\<lambda>_ _. Inl ctx_canceled) playlist_fs ''s'' ''t'' 7
      (folder_path ''a.m3u8'') demo_settings None = Inr r \<and>
    (options_from_task (mre_task r))\<lparr>mo_ffmpeg := find_ffmpeg_executable playlist_fs (ffmpeg_install_dir_from_task (mre_task r))\<rparr> =
    (options_from_settings playlist_fs demo_settings (mre_url r) (tsk_title (mre_task r)) ''t'' (mre_live r))\<lparr>mo_headers := None\<rparr>"
proof -
  have p: "trim_space (folder_path ''a.m3u8'') = folder_path ''a.m3u8''"
    "is_manifest_source ascii_tables no_netlib (folder_path ''a.m3u8'')"
    "local_manifest_path ascii_tables no_netlib (folder_path ''a.m3u8'') = folder_path ''a.m3u8''"
    "folder_path ''a.m3u8'' \<noteq> []" by code_simp+
  have c: "os_read_file playlist_fs (folder_path ''a.m3u8'') = Inr ''#EXTM3U http://h/1.ts #EXT-X-ENDLIST''" by code_simp
  have h: "contains_str ''#EXTM3U http://h/1.ts #EXT-X-ENDLIST'' ''http://''" by code_simp
  have "read_local_manifest playlist_fs (folder_path ''a.m3u8'') = Inr ''#EXTM3U http://h/1.ts #EXT-X-ENDLIST''"
    by (simp add: read_local_manifest_def c manifest_read_limit_def)
  then have "fetch_manifest ascii_tables no_netlib (\<lambda>_. None) (\<lambda>_ _. Inl ctx_canceled) playlist_fs (folder_path ''a.m3u8'')
      proxy None = Inr (''#EXTM3U http://h/1.ts #EXT-X-ENDLIST'', folder_path ''a.m3u8'', [])" for proxy
    using h p(3,4) by (simp add: fetch_manifest_def Let_def)
  then have "\<exists>r. parse_stream ascii_tables no_netlib (\<lambda>_. None) (\<lambda>_ _. Inl ctx_canceled) playlist_fs ''s'' ''t'' 7
      (folder_path ''a.m3u8'') demo_settings None = Inr r"
    using p(1,2) by (simp add: parse_stream_def Let_def)
  moreover have "settings_ok demo_settings" by code_simp
  moreover have "int64 (cfg_m3u8_request_timeout_sec demo_settings)"
    by (simp add: demo_settings_def int64_def min_int64_def max_int64_def)
  ultimately show ?thesis using stream_options_restored[where fs' = playlist_fs] by blast
qed

end
