(* ===== verification/Storage.thy ===== *)
theory Storage
  imports OsFiles GoBase64 Settings
begin

text \<open>
  The stores of \<open>internal/storage\<close>: the protection of FTP passwords (\<open>secrets_windows.go\<close>), the tasks
  in a JSON file and in a SQLite table, and the settings in a table. The data protection interface
  of Windows, JSON and the faults of the database are arguments. A transaction is the table that it
  would commit; the table is changed by the commit only, which is what the database promises.
\<close>

section \<open>Secrets\<close>

record dpapi =
  dp_protect :: "string \<Rightarrow> string result"
  dp_unprotect :: "string \<Rightarrow> string result"

definition protected_secret_prefix :: string where
  "protected_secret_prefix = ''dpapi:v1:''"

definition protected_secret_state_key :: string where
  "protected_secret_state_key = ''passwordProtection''"

definition clone_state :: "strmap \<Rightarrow> strmap" where
  "clone_state s = Some (case s of None \<Rightarrow> fmempty | Some m \<Rightarrow> m)"

definition map_delete :: "strmap \<Rightarrow> string \<Rightarrow> strmap" where
  "map_delete s k = map_option (fmdrop k) s"

definition protect_secret :: "dpapi \<Rightarrow> string \<Rightarrow> string result" where
  "protect_secret d v = map_sum id (\<lambda>p. protected_secret_prefix @ b64_encode p) (dp_protect d v)"

definition unprotect_secret :: "dpapi \<Rightarrow> string \<Rightarrow> string result" where
  "unprotect_secret d encoded =
     (case b64_decode encoded of
        None \<Rightarrow> Inl (new_error ''illegal base64 data'')
      | Some bytes \<Rightarrow> dp_unprotect d bytes)"

definition set_state :: "task \<Rightarrow> strmap \<Rightarrow> task" where
  "set_state t s = t\<lparr>tsk_stage := (tsk_stage t)\<lparr>stg_state := s\<rparr>\<rparr>"

definition protect_task_secrets :: "dpapi \<Rightarrow> task \<Rightarrow> task result" where
  "protect_task_secrets d t =
     (let s = stg_state (tsk_stage t); password = map_get s ''password'' in
      if tsk_pack_id t \<noteq> ''ftp'' \<or> s = None then Inr t
      else if password = [] then Inr t
      else case protect_secret d password of
        Inl e \<Rightarrow> Inl (wrap_error ''protect FTP password: '' e)
      | Inr p \<Rightarrow>
          Inr (set_state t (map_set (map_set (clone_state s) ''password'' p) protected_secret_state_key ''dpapi:v1'')))"

text \<open>The task as it was before, and whether it has still to be protected.\<close>

definition unprotect_task_secrets :: "dpapi \<Rightarrow> task \<Rightarrow> (task \<times> bool) result" where
  "unprotect_task_secrets d t =
     (let s = stg_state (tsk_stage t); password = map_get s ''password'' in
      if tsk_pack_id t \<noteq> ''ftp'' \<or> s = None then Inr (t, False)
      else if password = [] then Inr (t, False)
      else if map_get s protected_secret_state_key \<noteq> ''dpapi:v1'' then Inr (t, True)
      else if \<not> prefix protected_secret_prefix password
      then Inl (new_error ''protected FTP password has an invalid envelope'')
      else case unprotect_secret d (trim_prefix password protected_secret_prefix) of
        Inl e \<Rightarrow> Inl (wrap_error ''unprotect FTP password: '' e)
      | Inr plain \<Rightarrow>
          Inr (set_state t (map_delete (map_set (clone_state s) ''password'' plain) protected_secret_state_key), False))"

section \<open>The JSON file\<close>

record task_codec =
  tc_marshal :: "task \<Rightarrow> string result"
  tc_unmarshal :: "string \<Rightarrow> task result"
  tc_marshal_list :: "task list \<Rightarrow> string result"
  tc_unmarshal_list :: "string \<Rightarrow> task list result"

fun protect_tasks :: "dpapi \<Rightarrow> task list \<Rightarrow> task list result" where
  "protect_tasks d [] = Inr []"
| "protect_tasks d (t # ts) =
     (case protect_task_secrets d t of
        Inl e \<Rightarrow> Inl e
      | Inr t' \<Rightarrow> (case protect_tasks d ts of Inl e \<Rightarrow> Inl e | Inr ts' \<Rightarrow> Inr (t' # ts')))"

fun unprotect_tasks :: "dpapi \<Rightarrow> task list \<Rightarrow> (task list \<times> bool) result" where
  "unprotect_tasks d [] = Inr ([], False)"
| "unprotect_tasks d (t # ts) =
     (case unprotect_task_secrets d t of
        Inl e \<Rightarrow> Inl e
      | Inr (t', migrate) \<Rightarrow>
          (case unprotect_tasks d ts of Inl e \<Rightarrow> Inl e | Inr (ts', later) \<Rightarrow> Inr (t' # ts', migrate \<or> later)))"

definition json_save :: "dpapi \<Rightarrow> task_codec \<Rightarrow> string \<Rightarrow> task list \<Rightarrow> fsys \<Rightarrow> goerr option \<times> fsys" where
  "json_save d c path tasks fs =
     (case os_mkdir_all fs (fp_dir path) of
        (Some e, fs) \<Rightarrow> (Some e, fs)
      | (None, fs) \<Rightarrow>
          (case protect_tasks d tasks of
             Inl e \<Rightarrow> (Some e, fs)
           | Inr stored \<Rightarrow>
               (case tc_marshal_list c stored of
                  Inl e \<Rightarrow> (Some e, fs)
                | Inr data \<Rightarrow>
                    (case os_write_file fs (path @ ''.tmp'') data of
                       (Some e, fs) \<Rightarrow> (Some e, fs)
                     | (None, fs) \<Rightarrow> os_rename fs (path @ ''.tmp'') path))))"

definition json_load :: "dpapi \<Rightarrow> task_codec \<Rightarrow> string \<Rightarrow> fsys \<Rightarrow> task list result \<times> fsys" where
  "json_load d c path fs =
     (case os_read_file fs path of
        Inl e \<Rightarrow> (if err_not_exist e then Inr [] else Inl e, fs)
      | Inr data \<Rightarrow>
          if data = [] then (Inr [], fs)
          else case tc_unmarshal_list c data of
            Inl e \<Rightarrow> (Inl e, fs)
          | Inr stored \<Rightarrow>
              (case unprotect_tasks d stored of
                 Inl e \<Rightarrow> (Inl e, fs)
               | Inr (tasks, migrate) \<Rightarrow>
                   if migrate then
                     (case json_save d c path tasks fs of
                        (Some e, fs) \<Rightarrow> (Inl (wrap_error ''migrate task secrets: '' e), fs)
                      | (None, fs) \<Rightarrow> (Inr tasks, fs))
                   else (Inr tasks, fs)))"

section \<open>The table of tasks\<close>

record task_row =
  row_id :: string
  row_pack :: string
  row_title :: string
  row_status :: task_status
  row_created :: int
  row_payload :: string
  row_updated :: int

text \<open>
  What the database can fail with, and the order in which it returns the rows of the query, which
  sorts by \<open>created_at\<close>.
\<close>

record db_env =
  dbe_query :: "goerr option"
  dbe_rows :: "goerr option"
  dbe_begin :: "goerr option"
  dbe_delete :: "goerr option"
  dbe_prepare :: "goerr option"
  dbe_insert :: "task_row \<Rightarrow> goerr option"
  dbe_commit :: "goerr option"
  dbe_order :: "task_row list \<Rightarrow> task_row list"

definition unix_milli :: "int \<Rightarrow> int" where
  "unix_milli ns = ns div 1000000"

definition row_of :: "int \<Rightarrow> task \<Rightarrow> string \<Rightarrow> task_row" where
  "row_of now t payload =
     \<lparr>row_id = tsk_id t, row_pack = tsk_pack_id t, row_title = tsk_title t, row_status = tsk_status t,
      row_created = unix_milli (tsk_created_at t), row_payload = payload, row_updated = now\<rparr>"

text \<open>The insertions of a transaction; \<open>id\<close> is the primary key.\<close>

fun insert_tasks ::
  "dpapi \<Rightarrow> task_codec \<Rightarrow> db_env \<Rightarrow> int \<Rightarrow> task list \<Rightarrow> task_row list \<Rightarrow> task_row list result" where
  "insert_tasks d c db now [] rows = Inr rows"
| "insert_tasks d c db now (t # ts) rows =
     (case protect_task_secrets d t of
        Inl e \<Rightarrow> Inl e
      | Inr stored \<Rightarrow>
          (case tc_marshal c stored of
             Inl e \<Rightarrow> Inl e
           | Inr payload \<Rightarrow>
               (let row = row_of now t payload in
                case dbe_insert db row of
                  Some e \<Rightarrow> Inl e
                | None \<Rightarrow>
                    if tsk_id t \<in> set (map row_id rows) then Inl (new_error ''UNIQUE constraint failed: tasks.id'')
                    else insert_tasks d c db now ts (rows @ [row]))))"

definition sqlite_save ::
  "dpapi \<Rightarrow> task_codec \<Rightarrow> db_env \<Rightarrow> int \<Rightarrow> task list \<Rightarrow> task_row list \<Rightarrow> goerr option \<times> task_row list" where
  "sqlite_save d c db now tasks table =
     (if dbe_begin db \<noteq> None then (dbe_begin db, table)
      else if dbe_delete db \<noteq> None then (dbe_delete db, table)
      else if dbe_prepare db \<noteq> None then (dbe_prepare db, table)
      else case insert_tasks d c db now tasks [] of
        Inl e \<Rightarrow> (Some e, table)
      | Inr rows \<Rightarrow> if dbe_commit db \<noteq> None then (dbe_commit db, table) else (None, rows))"

fun decode_rows :: "dpapi \<Rightarrow> task_codec \<Rightarrow> task_row list \<Rightarrow> (task list \<times> bool) result" where
  "decode_rows d c [] = Inr ([], False)"
| "decode_rows d c (r # rs) =
     (case tc_unmarshal c (row_payload r) of
        Inl e \<Rightarrow> Inl (wrap_error ''decode task payload: '' e)
      | Inr t \<Rightarrow>
          (case unprotect_task_secrets d t of
             Inl e \<Rightarrow> Inl e
           | Inr (t', migrate) \<Rightarrow>
               (case decode_rows d c rs of
                  Inl e \<Rightarrow> Inl e | Inr (ts, later) \<Rightarrow> Inr (t' # ts, migrate \<or> later))))"

definition sqlite_load ::
  "dpapi \<Rightarrow> task_codec \<Rightarrow> db_env \<Rightarrow> int \<Rightarrow> task_row list \<Rightarrow> task list result \<times> task_row list" where
  "sqlite_load d c db now table =
     (case dbe_query db of
        Some e \<Rightarrow> (Inl e, table)
      | None \<Rightarrow>
          (case decode_rows d c (dbe_order db table) of
             Inl e \<Rightarrow> (Inl e, table)
           | Inr (tasks, migrate) \<Rightarrow>
               (case dbe_rows db of
                  Some e \<Rightarrow> (Inl e, table)
                | None \<Rightarrow>
                    if migrate then
                      (case sqlite_save d c db now tasks table of
                         (Some e, table) \<Rightarrow> (Inl (wrap_error ''migrate task secrets: '' e), table)
                       | (None, table) \<Rightarrow> (Inr tasks, table))
                    else (Inr tasks, table))))"

section \<open>The table of settings\<close>

text \<open>
  \<open>sc_unmarshal\<close> decodes over given settings: members that the text does not have keep their value.
  The table maps a key to its text.
\<close>

record settings_codec =
  sc_marshal :: "settings \<Rightarrow> string result"
  sc_unmarshal :: "string \<Rightarrow> settings \<Rightarrow> settings result"

definition save_settings ::
  "settings_codec \<Rightarrow> goerr option \<Rightarrow> settings \<Rightarrow> (string \<rightharpoonup> string) \<Rightarrow> goerr option \<times> (string \<rightharpoonup> string)" where
  "save_settings c exec_err s table =
     (case sc_marshal c s of
        Inl e \<Rightarrow> (Some e, table)
      | Inr payload \<Rightarrow>
          (case exec_err of Some e \<Rightarrow> (Some e, table) | None \<Rightarrow> (None, table(''settings'' \<mapsto> payload))))"

text \<open>The settings are returned in any case, with the error.\<close>

definition load_settings ::
  "settings_codec \<Rightarrow> goerr option \<Rightarrow> settings \<Rightarrow> (string \<rightharpoonup> string) \<Rightarrow> settings \<times> goerr option" where
  "load_settings c query_err defaults table =
     (case query_err of
        Some e \<Rightarrow> (defaults, Some e)
      | None \<Rightarrow>
          (case table ''settings'' of
             None \<Rightarrow> (defaults, None)
           | Some payload \<Rightarrow>
               (case sc_unmarshal c payload defaults of Inl e \<Rightarrow> (defaults, Some e) | Inr s \<Rightarrow> (s, None))))"

end
