(* ===== verification/StorageProps.thy ===== *)
theory StorageProps
  imports Storage JsonText "HOL-Library.Multiset"
begin

text \<open>
  What the stores promise: a list that was saved loads back, no FTP password is stored in the clear,
  and a save that fails keeps the old file.
\<close>

section \<open>Secrets\<close>

text \<open>
  What the data protection interface documents, that what was protected can be read back, and what
  JSON does, that it gives back the tasks it keeps.
\<close>

definition dpapi_inverts :: "dpapi \<Rightarrow> bool" where
  "dpapi_inverts d \<longleftrightarrow> (\<forall>v p. dp_protect d v = Inr p \<longrightarrow> dp_unprotect d p = Inr v)"

definition codec_keeps :: "task_codec \<Rightarrow> bool" where
  "codec_keeps c \<longleftrightarrow> (\<forall>t s. json_keeps t \<and> tc_marshal c t = Inr s \<longrightarrow> tc_unmarshal c s = Inr t) \<and>
     (\<forall>ts s. tc_marshal_list c ts = Inr s \<longrightarrow>
        s \<noteq> [] \<and> (list_all json_keeps ts \<longrightarrow> tc_unmarshal_list c s = Inr ts))"

text \<open>The mark of protection is only on stored tasks.\<close>

definition unmarked :: "task \<Rightarrow> bool" where
  "unmarked t \<longleftrightarrow> \<not> map_has (stg_state (tsk_stage t)) protected_secret_state_key"

definition password_of :: "task \<Rightarrow> string" where
  "password_of t = map_get (stg_state (tsk_stage t)) ''password''"

text \<open>No readable password: there is none, or it is the base64 text of what the interface made of one.\<close>

definition password_protected :: "dpapi \<Rightarrow> task \<Rightarrow> bool" where
  "password_protected d t \<longleftrightarrow> tsk_pack_id t = ''ftp'' \<longrightarrow> password_of t = [] \<or>
     (\<exists>v p. dp_protect d v = Inr p \<and> password_of t = protected_secret_prefix @ b64_encode p)"

lemma state_key_other: "protected_secret_state_key \<noteq> ''password''" "''password'' \<noteq> protected_secret_state_key"
  by (simp_all add: protected_secret_state_key_def)

lemma protect_secret_Inr:
  "protect_secret d v = Inr x \<longleftrightarrow> (\<exists>p. dp_protect d v = Inr p \<and> x = protected_secret_prefix @ b64_encode p)"
  by (cases "dp_protect d v") (auto simp: protect_secret_def)

lemma protect_cases:
  assumes "protect_task_secrets d t = Inr t'"
  obtains "t' = t" "tsk_pack_id t \<noteq> ''ftp'' \<or> stg_state (tsk_stage t) = None \<or> password_of t = []"
    | m p where "tsk_pack_id t = ''ftp''" "stg_state (tsk_stage t) = Some m" "password_of t \<noteq> []"
      "dp_protect d (password_of t) = Inr p"
      "t' = set_state t (Some (fmupd protected_secret_state_key ''dpapi:v1''
        (fmupd ''password'' (protected_secret_prefix @ b64_encode p) m)))"
proof (cases "tsk_pack_id t \<noteq> ''ftp'' \<or> stg_state (tsk_stage t) = None \<or> password_of t = []")
  case True
  have "t' = t" using assms True by (auto simp: protect_task_secrets_def Let_def password_of_def split: if_splits)
  then show thesis using True by (rule that(1))
next
  case False
  then obtain m where m: "stg_state (tsk_stage t) = Some m" by auto
  obtain p where p: "dp_protect d (password_of t) = Inr p"
    using assms False by (cases "dp_protect d (password_of t)")
      (auto simp: protect_task_secrets_def protect_secret_def Let_def password_of_def)
  have "t' = set_state t (Some (fmupd protected_secret_state_key ''dpapi:v1''
      (fmupd ''password'' (protected_secret_prefix @ b64_encode p) m)))"
    using assms False m p
    by (simp add: protect_task_secrets_def protect_secret_def Let_def password_of_def clone_state_def map_set_def)
  then show thesis using False m p by (intro that(2)) auto
qed

lemma protect_protects: "protect_task_secrets d t = Inr t' \<Longrightarrow> password_protected d t'"
proof (erule protect_cases)
  fix m p
  assume p: "dp_protect d (password_of t) = Inr p" and t': "t' = set_state t (Some (fmupd protected_secret_state_key
    ''dpapi:v1'' (fmupd ''password'' (protected_secret_prefix @ b64_encode p) m)))"
  have "password_of t' = protected_secret_prefix @ b64_encode p"
    using state_key_other by (simp add: t' password_of_def set_state_def map_get_def)
  then show ?thesis using p by (auto simp: password_protected_def)
qed (auto simp: password_protected_def password_of_def map_get_def)

lemma restored_state:
  assumes "fmlookup m ''password'' = Some v" and "fmlookup m protected_secret_state_key = None"
  shows "fmdrop protected_secret_state_key (fmupd ''password'' v
    (fmupd protected_secret_state_key x (fmupd ''password'' p m))) = m"
  using assms state_key_other by (intro fmap_ext) auto

lemma unprotect_protect:
  assumes "dpapi_inverts d" and "unmarked t" and "protect_task_secrets d t = Inr t'"
  shows "unprotect_task_secrets d t' = Inr (t, False)"
  using assms(3)
proof (cases rule: protect_cases)
  case 1
  then show ?thesis by (auto simp: unprotect_task_secrets_def Let_def password_of_def)
next
  case (2 m p)
  let ?v = "password_of t" and ?p = "protected_secret_prefix @ b64_encode p"
  have u: "dp_unprotect d p = Inr ?v" using assms(1) 2(4) by (auto simp: dpapi_inverts_def)
  have v: "fmlookup m ''password'' = Some ?v"
    using 2(2,3) by (auto simp: password_of_def map_get_def split: option.splits)
  have k: "fmlookup m protected_secret_state_key = None"
    using assms(2) 2(2) by (simp add: unmarked_def map_has_def)
  have st: "stg_state (tsk_stage t') = Some (fmupd protected_secret_state_key ''dpapi:v1'' (fmupd ''password'' ?p m))"
    by (simp add: 2(5) set_state_def)
  have id: "tsk_pack_id t' = ''ftp''" using 2(1,5) by (simp add: set_state_def)
  have g: "map_get (stg_state (tsk_stage t')) ''password'' = ?p"
    "map_get (stg_state (tsk_stage t')) protected_secret_state_key = ''dpapi:v1''"
    using state_key_other by (simp_all add: st map_get_def)
  have ne: "protected_secret_prefix \<noteq> []" by (simp add: protected_secret_prefix_def)
  have undone: "set_state t' (map_delete (map_set (clone_state (stg_state (tsk_stage t'))) ''password'' ?v)
      protected_secret_state_key) = t"
    using restored_state[OF v k] 2(2)
    by (simp add: st clone_state_def map_set_def map_delete_def) (simp add: 2(5) set_state_def)
  have "unprotect_secret d (trim_prefix ?p protected_secret_prefix) = Inr ?v"
    by (simp add: unprotect_secret_def trim_prefix_def u)
  moreover have "stg_state (tsk_stage t') \<noteq> None" by (simp add: st)
  ultimately show ?thesis using id g ne undone by (auto simp: unprotect_task_secrets_def Let_def)
qed

lemma unprotect_protect_tasks:
  assumes "dpapi_inverts d"
  shows "list_all unmarked ts \<Longrightarrow> protect_tasks d ts = Inr ts' \<Longrightarrow> unprotect_tasks d ts' = Inr (ts, False)"
proof (induction ts arbitrary: ts')
  case (Cons t ts)
  then obtain t1 ts1 where "protect_task_secrets d t = Inr t1" "protect_tasks d ts = Inr ts1" "ts' = t1 # ts1"
    by (auto split: sum.splits)
  with Cons show ?case using unprotect_protect[OF assms, of t t1] by simp
qed simp

text \<open>A protected task is kept by JSON when the task is: what is added is ASCII.\<close>

lemma protect_keeps:
  assumes "protect_task_secrets d t = Inr t'" and "json_keeps t"
  shows "json_keeps t'"
  using assms(1)
proof (cases rule: protect_cases)
  case (2 m p)
  have a: "valid_utf8 ''password''" "valid_utf8 protected_secret_state_key" "valid_utf8 ''dpapi:v1''"
    by (simp_all add: valid_ascii protected_secret_state_key_def byte_of_def)
  have "valid_utf8 (protected_secret_prefix @ b64_encode p)"
    by (subst valid_ascii_append) (simp_all add: protected_secret_prefix_def byte_of_def valid_b64)
  moreover have "json_keeps_map (Some m)" using assms(2) 2(2) by (simp add: json_keeps_def)
  ultimately show ?thesis using assms(2) a by (simp add: 2(5) json_keeps_def set_state_def json_keeps_upd)
qed (use assms(2) in simp)

lemma protect_tasks_keep:
  "protect_tasks d ts = Inr ts' \<Longrightarrow> list_all json_keeps ts \<Longrightarrow> list_all json_keeps ts'"
  by (induction ts arbitrary: ts') (auto split: sum.splits dest: protect_keeps)

section \<open>The table\<close>

text \<open>A row that stands for a task: its payload is the protected task.\<close>

definition row_stores :: "dpapi \<Rightarrow> task_codec \<Rightarrow> int \<Rightarrow> task \<Rightarrow> task_row \<Rightarrow> bool" where
  "row_stores d c now t r \<longleftrightarrow> (\<exists>stored payload. protect_task_secrets d t = Inr stored \<and>
     tc_marshal c stored = Inr payload \<and> r = row_of now t payload)"

lemma insert_tasks_rows:
  assumes "insert_tasks d c db now ts rows = Inr rows'"
  shows "\<exists>new. rows' = rows @ new \<and> list_all2 (row_stores d c now) ts new \<and>
    (distinct (map row_id rows) \<longrightarrow> distinct (map row_id rows'))"
  using assms
proof (induction ts arbitrary: rows)
  case (Cons t ts)
  then obtain stored payload where p: "protect_task_secrets d t = Inr stored" "tc_marshal c stored = Inr payload"
    "tsk_id t \<notin> set (map row_id rows)" "insert_tasks d c db now ts (rows @ [row_of now t payload]) = Inr rows'"
    by (auto simp: Let_def split: sum.splits option.splits if_splits)
  from Cons.IH[OF p(4)] obtain new where new: "rows' = (rows @ [row_of now t payload]) @ new"
    "list_all2 (row_stores d c now) ts new"
    "distinct (map row_id (rows @ [row_of now t payload])) \<longrightarrow> distinct (map row_id rows')" by blast
  have "row_stores d c now t (row_of now t payload)" using p(1,2) by (auto simp: row_stores_def)
  with new p(3) show ?case by (intro exI[of _ "row_of now t payload # new"]) (auto simp: row_of_def)
qed auto

lemma saved_rows:
  assumes "sqlite_save d c db now tasks table = (None, table')"
  shows "list_all2 (row_stores d c now) tasks table'" and "distinct (map row_id table')"
proof -
  have "insert_tasks d c db now tasks [] = Inr table'"
    using assms by (auto simp: sqlite_save_def split: if_splits sum.splits)
  from insert_tasks_rows[OF this] show "list_all2 (row_stores d c now) tasks table'" "distinct (map row_id table')"
    by auto
qed

text \<open>The task that a row of saved tasks decodes to.\<close>

lemma row_decodes:
  assumes "dpapi_inverts d" and "codec_keeps c" and "row_stores d c now t r" and "unmarked t"
    and "json_keeps t"
  shows "tc_unmarshal c (row_payload r) = Inr t' \<Longrightarrow> unprotect_task_secrets d t' = Inr (t, False)"
    and "\<exists>t'. tc_unmarshal c (row_payload r) = Inr t'" and "row_created r = unix_milli (tsk_created_at t)"
proof -
  obtain stored payload where p: "protect_task_secrets d t = Inr stored" "tc_marshal c stored = Inr payload"
    "r = row_of now t payload" using assms(3) by (auto simp: row_stores_def)
  have u: "tc_unmarshal c (row_payload r) = Inr stored" 
    using assms(2) p(2,3) protect_keeps[OF p(1) assms(5)] by (simp add: codec_keeps_def row_of_def)
  then show "\<exists>t'. tc_unmarshal c (row_payload r) = Inr t'" by blast
  show "tc_unmarshal c (row_payload r) = Inr t' \<Longrightarrow> unprotect_task_secrets d t' = Inr (t, False)"
    using u unprotect_protect[OF assms(1,4) p(1)] by simp
  show "row_created r = unix_milli (tsk_created_at t)" by (simp add: p(3) row_of_def)
qed

lemma decode_rows_map:
  assumes "\<And>r. r \<in> set rs \<Longrightarrow> (\<exists>t'. tc_unmarshal c (row_payload r) = Inr t') \<and>
    (\<forall>t'. tc_unmarshal c (row_payload r) = Inr t' \<longrightarrow> unprotect_task_secrets d t' = Inr (f r, False))"
  shows "decode_rows d c rs = Inr (map f rs, False)"
  using assms
proof (induction rs)
  case (Cons r rs)
  have "\<exists>t'. tc_unmarshal c (row_payload r) = Inr t' \<and> unprotect_task_secrets d t' = Inr (f r, False)"
    using Cons.prems[of r] by auto
  moreover have "decode_rows d c rs = Inr (map f rs, False)" using Cons by simp
  ultimately show ?case by auto
qed simp

text \<open>
  C9: A list of tasks that was saved in the database loads back. When the database returns the rows
  sorted by their creation, as the query asks, loading gives the tasks that were saved, with their
  FTP passwords in the clear again, in the order of their creation, and writes nothing; tasks
  created in ascending milliseconds come back as the same list. The tasks are such as JSON keeps:
  their strings are valid UTF-8, which JSON would mend otherwise, and their maps are nil or not
  empty, since \<open>omitempty\<close> reads an empty one back as nil.
\<close>

theorem sqlite_roundtrip:
  assumes "sqlite_save d c db now tasks table = (None, table')"
    and "dpapi_inverts d" and "codec_keeps c" and "list_all unmarked tasks" and "list_all json_keeps tasks"
    and "dbe_query db' = None" and "dbe_rows db' = None"
    and "mset (dbe_order db' table') = mset table'" and "sorted (map row_created (dbe_order db' table'))"
  shows "\<exists>loaded. sqlite_load d c db' now' table' = (Inr loaded, table') \<and> mset loaded = mset tasks \<and>
    sorted (map (\<lambda>t. unix_milli (tsk_created_at t)) loaded) \<and>
    (sorted_wrt (<) (map (\<lambda>t. unix_milli (tsk_created_at t)) tasks) \<longrightarrow> loaded = tasks)"
proof -
  let ?ms = "\<lambda>t. unix_milli (tsk_created_at t)"
  have rows: "list_all2 (row_stores d c now) tasks table'" and ids: "distinct (map row_id table')"
    using saved_rows[OF assms(1)] by blast+
  have len: "length tasks = length table'" using rows by (rule list_all2_lengthD)
  have dist: "distinct table'" using ids by (simp add: distinct_map)
  let ?f = "\<lambda>r. the (map_of (zip table' tasks) r)"
  have nth: "?f (table' ! i) = tasks ! i" if "i < length table'" for i
    using that len dist by (simp add: map_of_zip_nth)
  have map_f: "map ?f table' = tasks" using len nth by (intro nth_equalityI) simp_all
  have stores: "row_stores d c now (?f r) r \<and> unmarked (?f r) \<and> json_keeps (?f r)" if mem: "r \<in> set table'" for r
  proof -
    obtain i where i: "i < length table'" "table' ! i = r" using mem by (auto simp: in_set_conv_nth)
    have "unmarked (tasks ! i)" "json_keeps (tasks ! i)" using assms(4,5) len i(1) by (simp_all add: list_all_length)
    then show ?thesis using list_all2_nthD2[OF rows i(1)] nth[OF i(1)] i(2) by auto
  qed
  let ?rs = "dbe_order db' table'" let ?loaded = "map ?f ?rs"
  have set_rs: "set ?rs = set table'" using assms(8) by (rule mset_eq_setD)
  have "decode_rows d c ?rs = Inr (?loaded, False)"
  proof (rule decode_rows_map)
    fix r assume "r \<in> set ?rs"
    with stores set_rs have r: "row_stores d c now (?f r) r" "unmarked (?f r)" "json_keeps (?f r)" by blast+
    show "(\<exists>t'. tc_unmarshal c (row_payload r) = Inr t') \<and>
      (\<forall>t'. tc_unmarshal c (row_payload r) = Inr t' \<longrightarrow> unprotect_task_secrets d t' = Inr (?f r, False))"
      using row_decodes(1,2)[OF assms(2,3) r] by blast
  qed
  then have load: "sqlite_load d c db' now' table' = (Inr ?loaded, table')"
    using assms(6,7) by (simp add: sqlite_load_def)
  have "mset ?loaded = image_mset ?f (mset table')" using assms(8) by (metis mset_map)
  also have "\<dots> = mset tasks" using map_f by (metis mset_map)
  finally have m: "mset ?loaded = mset tasks" .
  have created: "row_created r = ?ms (?f r)" if "r \<in> set ?rs" for r
    using row_decodes(3)[OF assms(2,3), of now "?f r" r] stores that set_rs by blast
  then have "map ?ms ?loaded = map row_created ?rs" by simp
  then have sorted: "sorted (map ?ms ?loaded)" using assms(9) by metis
  have "?loaded = tasks" if "sorted_wrt (<) (map ?ms tasks)"
  proof (rule map_inj_on)
    have "mset (map ?ms ?loaded) = mset (map ?ms tasks)" using m by (metis mset_map)
    then show eq: "map ?ms ?loaded = map ?ms tasks"
      using sorted that by (metis properties_for_sort strict_sorted_imp_sorted)
    have "set ?loaded = set tasks" using m by (rule mset_eq_setD)
    moreover have "inj_on ?ms (set tasks)"
      using that by (simp add: strict_sorted_iff distinct_map)
    ultimately show "inj_on ?ms (set ?loaded \<union> set tasks)" by (metis sup.idem)
  qed
  with load m sorted show ?thesis by blast
qed

text \<open>
  C10: No FTP password is stored in the clear. After a save, every payload of the table is the text of
  a task that has no password, or the encoded answer of the data protection interface in its place.
\<close>

theorem password_never_stored:
  assumes "sqlite_save d c db now tasks table = (None, table')" and "r \<in> set table'"
  shows "\<exists>t. tc_marshal c t = Inr (row_payload r) \<and> password_protected d t"
proof -
  obtain t where "row_stores d c now t r"
    using saved_rows(1)[OF assms(1)] assms(2) by (metis in_set_conv_nth list_all2_nthD2)
  then show ?thesis using protect_protects by (auto simp: row_stores_def row_of_def)
qed

section \<open>The JSON file\<close>

text \<open>The same for the JSON file, as long as the system lets the file be read.\<close>

lemma json_roundtrip:
  assumes "json_save d c path tasks fs = (None, fs')" and "dpapi_inverts d" and "codec_keeps c"
    and "list_all unmarked tasks" and "list_all json_keeps tasks" and "fs_faults fs' (fs_key fs' path) = None"
  shows "json_load d c path fs' = (Inr tasks, fs')"
proof -
  obtain fs1 stored data fs2 where p: "os_mkdir_all fs (fp_dir path) = (None, fs1)" "protect_tasks d tasks = Inr stored"
    "tc_marshal_list c stored = Inr data" "os_write_file fs1 (path @ ''.tmp'') data = (None, fs2)"
    "os_rename fs2 (path @ ''.tmp'') path = (None, fs')"
    using assms(1) by (auto simp: json_save_def split: prod.splits option.splits sum.splits)
  have "fs_nodes fs2 (fs_key fs2 (path @ ''.tmp'')) = Some (NFile data)"
    using p(4) by (auto simp: os_write_file_def fs_key_def put_node_def split: prod.splits option.splits)
  then have "fs_nodes fs' (fs_key fs' path) = Some (NFile data)"
    using p(5) by (auto simp: os_rename_def os_lstat_def put_node_def fs_key_def split: sum.splits option.splits)
  then have r: "os_read_file fs' path = Inr data" using assms(6) by (simp add: os_read_file_def os_lstat_def)
  have "data \<noteq> []" "tc_unmarshal_list c data = Inr stored" 
    using assms(3) p(3) protect_tasks_keep[OF p(2) assms(5)] by (auto simp: codec_keeps_def)
  then show ?thesis using r unprotect_protect_tasks[OF assms(2,4) p(2)] by (simp add: json_load_def)
qed

lemma mkdir_keeps_file:
  assumes "os_mkdir_all fs d = (r, fs')"
  shows "fs_key fs' q = fs_key fs q" "fs_faults fs' = fs_faults fs" "fs_nodes fs p = Some n \<Longrightarrow> fs_nodes fs' p = Some n"
  using assms by (auto simp: os_mkdir_all_def Let_def fs_key_def split: option.splits if_splits)

text \<open>
  A save of the JSON file that fails keeps the old list: whatever goes wrong, the file at the
  store's path reads as before, because only the last step, the renaming, replaces it.
\<close>

theorem failed_save_keeps_tasks:
  assumes "json_save d c path tasks fs = (Some e, fs')" and "os_read_file fs path = Inr old"
    and "fs_key fs (path @ ''.tmp'') \<noteq> fs_key fs path"
  shows "os_read_file fs' path = Inr old"
proof -
  have old: "fs_nodes fs (fs_key fs path) = Some (NFile old)" "fs_faults fs (fs_key fs path) = None"
    using assms(2) by (auto simp: os_read_file_def os_lstat_def split: option.splits sum.splits node.splits)
  obtain r1 fs1 where mk: "os_mkdir_all fs (fp_dir path) = (r1, fs1)" by (cases "os_mkdir_all fs (fp_dir path)") auto
  note mk1 = mkdir_keeps_file[OF mk]
  have kept: "os_read_file fs2 path = Inr old" if "only_changes (path @ ''.tmp'') fs1 fs2" for fs2
  proof -
    have "fs_nodes fs2 (fs_key fs path) = fs_nodes fs1 (fs_key fs path)" "fs_faults fs2 = fs_faults fs1"
      "fs_key fs2 path = fs_key fs path"
      using that assms(3) mk1(1) by (auto simp: only_changes_def fs_key_def)
    then show ?thesis using old mk1(2,3) by (simp add: os_read_file_def os_lstat_def)
  qed
  have written: "only_changes (path @ ''.tmp'') fs1 fs2" if "os_write_file fs1 (path @ ''.tmp'') data = (w, fs2)" for data w fs2
  proof -
    obtain r3 fs3 where o: "os_open_write fs1 (path @ ''.tmp'') = (r3, fs3)" by (cases "os_open_write fs1 (path @ ''.tmp'')") auto
    have "only_changes (path @ ''.tmp'') fs1 fs3" using o by (auto simp: os_open_write_def split: option.splits node.splits)
    moreover have "only_changes (path @ ''.tmp'') fs3 fs2 \<or> fs2 = fs3"
      using that o by (auto simp: os_write_file_def split: option.splits)
    ultimately show ?thesis using only_changes_trans by blast
  qed
  have renamed: "fs2' = fs2" if "os_rename fs2 a b = (Some e, fs2')" for a b fs2 fs2'
    using that by (auto simp: os_rename_def split: sum.splits option.splits)
  from assms(1) mk have "only_changes (path @ ''.tmp'') fs1 fs'"
    by (auto simp: json_save_def split: option.splits sum.splits prod.splits dest: written renamed)
  then show ?thesis by (rule kept)
qed

section \<open>Examples\<close>

text \<open>An interface that reverses, a codec that writes every task, and a database without faults.\<close>

definition demo_dpapi :: dpapi where
  "demo_dpapi = \<lparr>dp_protect = (\<lambda>v. Inr (rev v)), dp_unprotect = (\<lambda>p. Inr (rev p))\<rparr>"

definition stored_task :: "string \<Rightarrow> int \<Rightarrow> string \<Rightarrow> task" where
  "stored_task tid now password = new_task tid now ''ftp'' ''f'' ''ftp://h/f'' ''C:'' 1
     ((new_stage ''s'' ''ftp'' ''ftp://h/f'' 1 1 3 True None [])
        \<lparr>stg_state := Some (fmap_of_list [(''password'', password)])\<rparr>)"

definition demo_tasks :: "task list" where
  "demo_tasks = [stored_task ''a'' 0 ''pw'', stored_task ''b'' 5000000 []]"

definition protected_task :: "string \<Rightarrow> int \<Rightarrow> string \<Rightarrow> task" where
  "protected_task tid now password = projr (protect_task_secrets demo_dpapi (stored_task tid now password))"

definition demo_codec :: task_codec where
  "demo_codec = \<lparr>tc_marshal = Inr \<circ> write_task, tc_unmarshal = Inr \<circ> fst \<circ> read_task,
     tc_marshal_list = Inr \<circ> put_list write_task, tc_unmarshal_list = Inr \<circ> fst \<circ> get_list read_task\<rparr>"

definition sound_db :: db_env where
  "sound_db = \<lparr>dbe_query = None, dbe_rows = None, dbe_begin = None, dbe_delete = None, dbe_prepare = None,
     dbe_insert = (\<lambda>_. None), dbe_commit = None, dbe_order = sort_key row_created\<rparr>"

lemma demo_laws: "dpapi_inverts demo_dpapi" "codec_keeps demo_codec"
proof -
  have "put_list write_task ts \<noteq> []" for ts by (simp add: put_list_def put_nat_def)
  then show "codec_keeps demo_codec" by (simp add: codec_keeps_def demo_codec_def task_written tasks_written)
  show "dpapi_inverts demo_dpapi" by (simp add: dpapi_inverts_def demo_dpapi_def)
qed

definition demo_row :: "string \<Rightarrow> int \<Rightarrow> string \<Rightarrow> task_row" where
  "demo_row tid now password = row_of 9 (stored_task tid now password) (write_task (protected_task tid now password))"

lemma demo_saved: "sqlite_save demo_dpapi demo_codec sound_db 9 demo_tasks [] =
    (None, [demo_row ''a'' 0 ''pw'', demo_row ''b'' 5000000 []])"
proof -
  have r: "(case protect_task_secrets demo_dpapi (stored_task tid now pw) of Inl _ \<Rightarrow> False | Inr _ \<Rightarrow> True)" for tid now pw
    by (simp add: protect_task_secrets_def protect_secret_def demo_dpapi_def Let_def)
  then have p: "protect_task_secrets demo_dpapi (stored_task tid now pw) = Inr (protected_task tid now pw)" for tid now pw
    using r[of tid now pw] unfolding protected_task_def
    by (cases "protect_task_secrets demo_dpapi (stored_task tid now pw)") auto
  have ids: "tsk_id (stored_task ''a'' 0 ''pw'') = ''a''" "tsk_id (stored_task ''b'' 5000000 []) = ''b''"
    by (simp_all add: stored_task_def)
  show ?thesis
    by (simp add: sqlite_save_def sound_db_def demo_tasks_def p ids demo_row_def demo_codec_def row_of_def Let_def)
qed

lemma demo_tasks_kept: "list_all json_keeps demo_tasks"
  by (simp add: demo_tasks_def stored_task_def new_task_def new_stage_def json_keeps_def json_keeps_map_def
      json_keeps_status_def valid_ascii byte_of_def fmpred_upd)

lemma sqlite_roundtrip_witness:
  "fst (sqlite_load demo_dpapi demo_codec sound_db 9
     (snd (sqlite_save demo_dpapi demo_codec sound_db 9 demo_tasks []))) = Inr demo_tasks"
proof -
  let ?rows = "[demo_row ''a'' 0 ''pw'', demo_row ''b'' 5000000 []]"
  have u: "list_all unmarked demo_tasks"
    by (simp add: demo_tasks_def unmarked_def stored_task_def map_has_def protected_secret_state_key_def
        new_task_def fmap_of_list.rep_eq)
  have t: "sorted_wrt (<) (map (\<lambda>t. unix_milli (tsk_created_at t)) demo_tasks)"
    by (simp add: demo_tasks_def stored_task_def new_task_def unix_milli_def)
  have o: "mset (dbe_order sound_db ?rows) = mset ?rows" "sorted (map row_created (dbe_order sound_db ?rows))"
    by (simp_all add: sound_db_def)
  obtain loaded where "sqlite_load demo_dpapi demo_codec sound_db 9 ?rows = (Inr loaded, ?rows)" "loaded = demo_tasks"
    using sqlite_roundtrip[OF demo_saved demo_laws u demo_tasks_kept _ _ o, of 9] t by (auto simp: sound_db_def)
  then show ?thesis by (simp add: demo_saved)
qed

lemma password_never_stored_witness:
  "\<exists>t. tc_marshal demo_codec t = Inr (write_task (protected_task ''a'' 0 ''pw'')) \<and> password_protected demo_dpapi t"
  using password_never_stored[OF demo_saved, of "demo_row ''a'' 0 ''pw''"]
  by (simp add: row_of_def demo_row_def)

text \<open>A disk on which the temporary file cannot be made.\<close>

definition full_disk :: fsys where
  "full_disk = \<lparr>fs_nodes = [''C:'' @ backslash # ''t.json'' \<mapsto> NFile ''old''], fs_cwd = ''C:'' @ [backslash],
     fs_faults = [''C:'' @ backslash # ''t.json.tmp'' \<mapsto> new_error ''disk full'']\<rparr>"

lemma failed_save_keeps_tasks_witness:
  "os_read_file (snd (json_save demo_dpapi (demo_codec\<lparr>tc_marshal_list := \<lambda>_. Inr ''[]''\<rparr>) (''C:'' @ backslash # ''t.json'') []
     full_disk)) (''C:'' @ backslash # ''t.json'') = Inr ''old''"
proof -
  let ?p = "''C:'' @ backslash # ''t.json''" and ?c = "demo_codec\<lparr>tc_marshal_list := \<lambda>_. Inr ''[]''\<rparr>"
  have k: "fs_key full_disk (?p @ ''.tmp'') \<noteq> fs_key full_disk ?p" by code_simp
  have o: "os_read_file full_disk ?p = Inr ''old''" by code_simp
  have e: "fst (json_save demo_dpapi ?c ?p [] full_disk) = Some (new_error ''disk full'')" by code_simp
  obtain fs' where s: "json_save demo_dpapi ?c ?p [] full_disk = (Some (new_error ''disk full''), fs')"
    using e by (cases "json_save demo_dpapi ?c ?p [] full_disk") (simp only: fst_conv)
  from failed_save_keeps_tasks[OF s o k] show ?thesis by (simp only: s snd_conv)
qed

end
