(* ===== verification/Merge.thy ===== *)
theory Merge
  imports M3u8Worker GoUtf8 Bridge
begin

text \<open>
  The merge of two HTTP resources, \<open>download/ffmpeg\<close>: the task and its resources (\<open>merge.go\<close>), and
  the worker that downloads both and lets FFmpeg join them (\<open>worker.go\<close>). What the servers answer, what
  FFmpeg prints and what it does to the files are arguments.
\<close>

section \<open>The task\<close>

record merge_part =
  mpt_url :: string
  mpt_filename :: string
  mpt_mime :: string
  mpt_size :: int
  mpt_headers :: strmap
  mpt_supports_range :: bool
  mpt_role :: string

record merge_codec =
  mgc_marshal :: "merge_part list \<Rightarrow> string result"
  mgc_unmarshal :: "string \<Rightarrow> merge_part list result"

definition merge_state_resources :: string where
  "merge_state_resources = ''resources''"

fun assign_roles_from :: "nat \<Rightarrow> merge_part list \<Rightarrow> merge_part list" where
  "assign_roles_from i [] = []"
| "assign_roles_from i (p # ps) =
     (if mpt_role p = [] then p\<lparr>mpt_role := if i = 1 then ''audio'' else ''video''\<rparr> else p)
     # assign_roles_from (Suc i) ps"

definition assign_roles :: "merge_part list \<Rightarrow> merge_part list" where
  "assign_roles ps = assign_roles_from 0 ps"

definition title_special :: string where
  "title_special = [CHR ''<'', CHR ''>'', CHR '':'', CHR 0x22, slash, backslash, CHR ''|'', CHR ''?'', CHR ''*'']"

definition title_char :: "char \<Rightarrow> char" where
  "title_char c = (if byte_of c < 32 \<or> byte_of c = 127 then CHR ''_'' else c)"

definition safe_title :: "string \<Rightarrow> string" where
  "safe_title title =
     (let s = trim_space title in
      if s = [] then ''merged-media''
      else
        (let s = map (\<lambda>c. if c \<in> set title_special then CHR ''_'' else c) s;
             s = trim ''. '' (map_ascii title_char s) in
         if s = [] then ''merged-media'' else s))"

definition merge_count_error :: goerr where
  "merge_count_error = new_error ''resource merge requires exactly 2 resources''"

definition http_resource :: "unicode \<Rightarrow> merge_part \<Rightarrow> bool" where
  "http_resource u p \<longleftrightarrow> prefix ''http://'' (to_lower u (mpt_url p)) \<or> prefix ''https://'' (to_lower u (mpt_url p))"

definition merge_size :: "merge_part list \<Rightarrow> int" where
  "merge_size ps = foldl (\<lambda>n p. if mpt_size p > 0 then wrap64 (n + mpt_size p) else n) 0 ps"

definition new_merge_task ::
  "unicode \<Rightarrow> merge_codec \<Rightarrow> string \<Rightarrow> string \<Rightarrow> int \<Rightarrow> string \<Rightarrow> string \<Rightarrow> merge_part list \<Rightarrow> settings \<Rightarrow> task result" where
  "new_merge_task u mc sid tid now title dir ps s =
     (if length ps \<noteq> 2 then Inl merge_count_error
      else
        (let dir = (if trim_space dir = [] then cfg_download_dir s else dir);
             title = safe_title title;
             title = (if \<not> equal_fold u (fp_ext title) ''.mp4'' then title @ ''.mp4'' else title);
             ps = assign_roles ps in
         if \<not> list_all (http_resource u) ps
         then Inl (new_error ''resource merge only supports HTTP resources'')
         else case mgc_marshal mc ps of
           Inl e \<Rightarrow> Inl e
         | Inr body \<Rightarrow>
             (let file_size = merge_size ps;
                  g = (new_stage sid ''ffmpeg_merge'' (mpt_url (hd ps)) file_size 1 (cfg_retry_count s) False None
                    (cfg_proxy_url s))\<lparr>stg_state := Some (fmap_of_list
                      [(merge_state_resources, body), (''ffmpegInstallDir'', cfg_ffmpeg_install_dir s)])\<rparr> in
              Inr (new_task tid now ''ffmpeg'' title (mpt_url (hd ps)) dir file_size g))))"

definition resources_from_state :: "merge_codec \<Rightarrow> task \<Rightarrow> merge_part list result" where
  "resources_from_state mc t =
     (case mgc_unmarshal mc (map_get (stg_state (tsk_stage t)) merge_state_resources) of
        Inl e \<Rightarrow> Inl e
      | Inr ps \<Rightarrow> if length ps \<noteq> 2 then Inl merge_count_error else Inr (assign_roles ps))"

definition named_extension :: "unicode \<Rightarrow> netlib \<Rightarrow> string \<Rightarrow> string" where
  "named_extension u nl v =
     (if v = [] then []
      else
        (let target = (case nl_parse_url nl v of Inr p \<Rightarrow> if up_path p \<noteq> [] then up_path p else v | Inl _ \<Rightarrow> v) in
         trim_prefix (to_lower u (fp_ext target)) ''.''))"

definition resource_extension :: "unicode \<Rightarrow> netlib \<Rightarrow> merge_part \<Rightarrow> string" where
  "resource_extension u nl p =
     (case find (\<lambda>e. e \<noteq> []) (map (named_extension u nl) [mpt_filename p, mpt_url p]) of
        Some e \<Rightarrow> e
      | None \<Rightarrow> if contains_str (to_lower u (mpt_mime p)) ''audio'' then ''m4a'' else ''mp4'')"

section \<open>Downloading a resource\<close>

text \<open>One \<open>Read\<close> of the body: its bytes, how it ended, and the error of writing the bytes.\<close>

datatype body_end = BodyMore | BodyEOF | BodyFailed goerr

record merge_read =
  mrd_bytes :: string
  mrd_end :: body_end
  mrd_write :: "goerr option"

record resource_reply =
  rsr_status :: int
  rsr_status_text :: string
  rsr_reads :: "merge_read list"

definition os_create :: "fsys \<Rightarrow> string \<Rightarrow> goerr option \<times> fsys" where
  "os_create fs p =
     (case os_open_write fs p of (Some e, fs) \<Rightarrow> (Some e, fs) | (None, fs) \<Rightarrow> (None, put_node p (NFile []) fs))"

definition append_file :: "string \<Rightarrow> string \<Rightarrow> fsys \<Rightarrow> fsys" where
  "append_file p bytes fs = put_node p (NFile (file_content fs p @ bytes)) fs"

text \<open>
  The copying loop: its result, None while the body blocks, the sizes that were reported, and the
  files.
\<close>

fun copy_body :: "string \<Rightarrow> merge_read list \<Rightarrow> fsys \<Rightarrow> goerr option option \<times> int list \<times> fsys" where
  "copy_body p [] fs = (None, [], fs)"
| "copy_body p (r # rs) fs =
     (if mrd_bytes r \<noteq> [] \<and> mrd_write r \<noteq> None then (Some (mrd_write r), [], fs)
      else
        (let fs = (if mrd_bytes r \<noteq> [] then append_file p (mrd_bytes r) fs else fs);
             deltas = (if mrd_bytes r \<noteq> [] then [int (length (mrd_bytes r))] else []) in
         case mrd_end r of
           BodyEOF \<Rightarrow> (Some None, deltas, fs)
         | BodyFailed e \<Rightarrow> (Some (Some e), deltas, fs)
         | BodyMore \<Rightarrow> (case copy_body p rs fs of (res, ds, fs) \<Rightarrow> (res, deltas @ ds, fs))))"

definition merge_client_error :: "netlib \<Rightarrow> string \<Rightarrow> goerr option" where
  "merge_client_error nl proxy =
     (if trim_space proxy = [] then None
      else case nl_parse_url nl proxy of Inl e \<Rightarrow> Some e | Inr _ \<Rightarrow> None)"

definition download_resource ::
  "netlib \<Rightarrow> (string \<Rightarrow> (string, string) fmap \<Rightarrow> resource_reply result) \<Rightarrow> string \<Rightarrow> merge_part \<Rightarrow> string \<Rightarrow> fsys \<Rightarrow>
   goerr option option \<times> int list \<times> fsys" where
  "download_resource nl net proxy p target fs =
     (case merge_client_error nl proxy of
        Some e \<Rightarrow> (Some (Some e), [], fs)
      | None \<Rightarrow>
          (case nl_parse_url nl (mpt_url p) of
             Inl e \<Rightarrow> (Some (Some e), [], fs)
           | Inr _ \<Rightarrow>
               (case net (mpt_url p) (sent_headers (mpt_headers p)) of
                  Inl e \<Rightarrow> (Some (Some e), [], fs)
                | Inr reply \<Rightarrow>
                    if rsr_status reply < 200 \<or> rsr_status reply \<ge> 300
                    then (Some (Some (new_error (''resource request failed: '' @ rsr_status_text reply))), [], fs)
                    else case os_create fs target of
                      (Some e, fs) \<Rightarrow> (Some (Some e), [], fs)
                    | (None, fs) \<Rightarrow> copy_body target (rsr_reads reply) fs)))"

section \<open>FFmpeg\<close>

text \<open>
  A run of FFmpeg: the error of starting it, the lines of its standard output, its standard error, the
  errors of \<open>Wait\<close> and of the context, and its effect on the files. Nobody waits for the goroutine that
  reads the standard output, so the lines come in two parts: those that it reported before the
  worker's last report or return, and the later ones.
\<close>

record ffmpeg_run =
  ffr_start :: "goerr option"
  ffr_lines :: "string list"
  ffr_late :: "string list"
  ffr_stderr :: string
  ffr_wait :: "goerr option"
  ffr_ctx :: "goerr option"
  ffr_effect :: "fsys \<Rightarrow> fsys"

definition ffmpeg_args :: "string \<Rightarrow> string \<Rightarrow> string \<Rightarrow> string list" where
  "ffmpeg_args video audio output =
     [''-y'', ''-v'', ''error'', ''-nostats'', ''-progress'', ''pipe:1'', ''-i'', video, ''-i'', audio, ''-c'', ''copy'', output]"

fun drain_ffmpeg_progress :: "int \<Rightarrow> int \<Rightarrow> string list \<Rightarrow> progress_update list" where
  "drain_ffmpeg_progress received file_size [] = []"
| "drain_ffmpeg_progress received file_size (l # ls) =
     (let line = trim_space l; later = drain_ffmpeg_progress received file_size ls in
      if line = ''progress=end'' then stream_update received file_size 0 (199 / 2) # later
      else if prefix ''out_time_ms='' line \<or> prefix ''out_time_us='' line
      then (case parse_int (trim_prefix (trim_prefix line ''out_time_ms='') ''out_time_us='') of
          Some n \<Rightarrow> if n > 0 then stream_update received file_size 0 90 # later else later
        | None \<Rightarrow> later)
      else later)"

text \<open>The result, the reports of the goroutine that come before what the worker does next, and those after.\<close>

definition run_ffmpeg ::
  "(string list \<Rightarrow> fsys \<Rightarrow> ffmpeg_run) \<Rightarrow> string \<Rightarrow> string \<Rightarrow> string \<Rightarrow> int \<Rightarrow> int \<Rightarrow> fsys \<Rightarrow>
   goerr option \<times> progress_update list \<times> progress_update list \<times> fsys" where
  "run_ffmpeg ffmpeg video audio output received file_size fs =
     (let run = ffmpeg (ffmpeg_args video audio output) fs in
      if ffr_start run \<noteq> None then (ffr_start run, [], [], fs)
      else
        (let reports = drain_ffmpeg_progress received file_size (ffr_lines run);
             late = drain_ffmpeg_progress received file_size (ffr_late run); fs = ffr_effect run fs;
             stderr = trim_space (ffr_stderr run) in
         if ffr_ctx run \<noteq> None then (ffr_ctx run, reports, late, fs)
         else case ffr_wait run of
           None \<Rightarrow> (None, reports, late, fs)
         | Some e \<Rightarrow> (Some (if stderr \<noteq> [] then new_error (''ffmpeg failed: '' @ stderr) else e), reports, late, fs)))"

section \<open>The worker\<close>

definition min_float :: "rat \<Rightarrow> rat \<Rightarrow> rat" where
  "min_float a b = (if a < b then a else b)"

fun merge_reports :: "(rat \<Rightarrow> rat) \<Rightarrow> int \<Rightarrow> int \<Rightarrow> int list \<Rightarrow> progress_update list" where
  "merge_reports rnd file_size received [] = []"
| "merge_reports rnd file_size received (d # ds) =
     (let received = received + d;
          progress = (if file_size > 0
            then min_float 80 (rnd (rnd (rnd (of_int received) / rnd (of_int file_size)) * 80)) else 0) in
      stream_update received file_size 0 progress # merge_reports rnd file_size received ds)"

definition resource_target :: "unicode \<Rightarrow> netlib \<Rightarrow> string \<Rightarrow> merge_part \<Rightarrow> string" where
  "resource_target u nl dir p = fp_join [dir, mpt_role p @ ''.'' @ resource_extension u nl p]"

text \<open>The downloads: the targets and the bytes received, or the error; None while one blocks.\<close>

fun fetch_resources ::
  "unicode \<Rightarrow> (rat \<Rightarrow> rat) \<Rightarrow> netlib \<Rightarrow> (string \<Rightarrow> (string, string) fmap \<Rightarrow> resource_reply result) \<Rightarrow> task \<Rightarrow> string \<Rightarrow>
   merge_part list \<Rightarrow> string list \<Rightarrow> int \<Rightarrow> fsys \<Rightarrow> (string list \<times> int) result option \<times> progress_update list \<times> fsys" where
  "fetch_resources u rnd nl net t dir [] inputs received fs = (Some (Inr (inputs, received)), [], fs)"
| "fetch_resources u rnd nl net t dir (p # ps) inputs received fs =
     (let target = resource_target u nl dir p in
      case download_resource nl net (stg_proxy_url (tsk_stage t)) p target fs of (res, deltas, fs) \<Rightarrow>
        (let reports = merge_reports rnd (tsk_file_size t) received deltas in
         case res of
           None \<Rightarrow> (None, reports, fs)
         | Some (Some e) \<Rightarrow> (Some (Inl e), reports, fs)
         | Some None \<Rightarrow>
             (case fetch_resources u rnd nl net t dir ps (inputs @ [target]) (received + sum_list deltas) fs of
                (r, more_reports, fs) \<Rightarrow> (r, reports @ more_reports, fs))))"

text \<open>None as the result means that a download has not ended.\<close>

definition run_merge ::
  "unicode \<Rightarrow> (rat \<Rightarrow> rat) \<Rightarrow> netlib \<Rightarrow> (string \<Rightarrow> (string, string) fmap \<Rightarrow> resource_reply result) \<Rightarrow> merge_codec \<Rightarrow>
   (string \<Rightarrow> string list \<Rightarrow> fsys \<Rightarrow> ffmpeg_run) \<Rightarrow> task \<Rightarrow> fsys \<Rightarrow>
   goerr option option \<times> progress_update list \<times> fsys" where
  "run_merge u rnd nl net mc ffmpeg t fs =
     (case resources_from_state mc t of
        Inl e \<Rightarrow> (Some (Some e), [], fs)
      | Inr ps \<Rightarrow>
          (let tool = find_ffmpeg_executable fs (map_get (stg_state (tsk_stage t)) ''ffmpegInstallDir'');
               dir = fp_join [tsk_path t, ''.gd3_ffmpeg'', tsk_id t] in
           if tool = []
           then (Some (Some (new_error ''ffmpeg runtime not found; configure the FFmpeg install directory in Settings'')), [], fs)
           else case and_then (os_mkdir_all fs (tsk_path t)) (\<lambda>fs. os_mkdir_all fs dir) of
             (Some e, fs) \<Rightarrow> (Some (Some e), [], fs)
           | (None, fs) \<Rightarrow>
               (case fetch_resources u rnd nl net t dir ps [] 0 fs of
                  (None, reports, fs) \<Rightarrow> (None, reports, fs)
                | (Some (Inl e), reports, fs) \<Rightarrow> (Some (Some e), reports, fs)
                | (Some (Inr (inputs, received)), reports, fs) \<Rightarrow>
                    (case run_ffmpeg (ffmpeg tool) (inputs ! 0) (inputs ! 1) (output_file t) received (tsk_file_size t) fs of
                       (Some e, ahead, late, fs) \<Rightarrow> (Some (Some e), reports @ ahead @ late, fs)
                     | (None, ahead, late, fs) \<Rightarrow>
                         (case stat_size fs (output_file t) of
                            Inl e \<Rightarrow> (Some (Some e), reports @ ahead @ late, fs)
                          | Inr n \<Rightarrow>
                              (Some None, reports @ ahead @ [stream_update n n 0 100] @ late,
                               snd (os_remove_all fs dir)))))))"

section \<open>From the browser\<close>

definition merge_resources_from_browser :: "merge_resource_request list \<Rightarrow> merge_part list" where
  "merge_resources_from_browser rs =
     map (\<lambda>r. \<lparr>mpt_url = mrr_url r, mpt_filename = mrr_filename r, mpt_mime = mrr_mime r, mpt_size = mrr_size r,
       mpt_headers = mrr_headers r, mpt_supports_range = mrr_supports_range r, mpt_role = []\<rparr>) rs"

end
