(* ===== verification/MergeProps.thy ===== *)
theory MergeProps
  imports Merge
begin

text \<open>
  What the merge promises: the worker reads back the resources of the task, and a run that succeeds
  has given FFmpeg both resources whole.
\<close>

section \<open>The task\<close>

lemma assign_roles_from_facts:
  "length (assign_roles_from i ps) = length ps"
  "assign_roles_from i (assign_roles_from i ps) = assign_roles_from i ps"
  by (induction ps arbitrary: i) auto

lemma assign_roles_simps [simp]: "length (assign_roles ps) = length ps" "assign_roles (assign_roles ps) = assign_roles ps"
  by (simp_all add: assign_roles_def assign_roles_from_facts)

text \<open>Resources that JSON gives back are those that the worker reads.\<close>

lemma merge_task_resources:
  assumes "new_merge_task u mc sid tid now title dir ps s = Inr t"
    and "\<forall>x. mgc_marshal mc (assign_roles ps) = Inr x \<longrightarrow> mgc_unmarshal mc x = Inr (assign_roles ps)"
  shows "resources_from_state mc t = Inr (assign_roles ps)" and "length ps = 2"
  using assms
  by (auto simp: new_merge_task_def resources_from_state_def Let_def new_task_def new_stage_def
      merge_state_resources_def map_get_def fmap_of_list.rep_eq split: if_splits sum.splits)

section \<open>Downloads\<close>

text \<open>The whole body: the bytes of all reads.\<close>

definition body_of :: "merge_read list \<Rightarrow> string" where
  "body_of rs = concat (map mrd_bytes rs)"

lemma create_empty:
  assumes "os_create fs p = (None, fs')"
  shows "file_content fs' p = []" and "only_changes p fs fs'" and "fs_nodes fs' (fs_key fs p) = Some (NFile [])"
proof -
  obtain fs1 where o: "os_open_write fs p = (None, fs1)" "fs' = put_node p (NFile []) fs1"
    using assms by (auto simp: os_create_def split: prod.splits option.splits)
  have c: "only_changes p fs fs1" using o(1) by (auto simp: os_open_write_def split: option.splits node.splits)
  then show "only_changes p fs fs'" using o(2) only_changes_trans by (metis put_node_simps(3))
  have k: "fs_key fs1 p = fs_key fs p" using c by (rule only_changes_key)
  show n: "fs_nodes fs' (fs_key fs p) = Some (NFile [])" using o(2) k by (metis put_node_simps(2))
  then show "file_content fs' p = []" using o(2) k by (simp add: file_content_def)
qed

lemma append_file_simps:
  "file_content (append_file p b fs) p = file_content fs p @ b" "only_changes p fs (append_file p b fs)"
  "fs_key (append_file p b fs) q = fs_key fs q"
  by (simp_all add: append_file_def file_content_def)

text \<open>A copy that ends without an error has appended the reads up to the end of the body, in order.\<close>

lemma copy_body_sound:
  assumes "copy_body p rs fs = (res, ds, fs')"
  shows "only_changes p fs fs'"
    and "res = Some None \<Longrightarrow> \<exists>taken. prefix taken rs \<and> mrd_end (last taken) = BodyEOF \<and> taken \<noteq> [] \<and>
      list_all (\<lambda>r. mrd_end r = BodyMore) (butlast taken) \<and> file_content fs' p = file_content fs p @ body_of taken \<and>
      sum_list ds = int (length (body_of taken))"
proof -
  have "only_changes p fs fs' \<and> (res = Some None \<longrightarrow> (\<exists>taken. prefix taken rs \<and> mrd_end (last taken) = BodyEOF \<and> taken \<noteq> [] \<and>
      list_all (\<lambda>r. mrd_end r = BodyMore) (butlast taken) \<and> file_content fs' p = file_content fs p @ body_of taken \<and>
      sum_list ds = int (length (body_of taken))))"
    using assms
  proof (induction rs arbitrary: fs res ds)
    case (Cons r rs)
    let ?fs = "if mrd_bytes r \<noteq> [] then append_file p (mrd_bytes r) fs else fs"
    let ?d = "if mrd_bytes r \<noteq> [] then [int (length (mrd_bytes r))] else []"
    have o: "only_changes p fs ?fs" by (simp add: append_file_simps)
    have c: "file_content ?fs p = file_content fs p @ mrd_bytes r" by (simp add: append_file_simps)
    have d: "sum_list ?d = int (length (mrd_bytes r))" by simp
    show ?case
    proof (cases "mrd_bytes r \<noteq> [] \<and> mrd_write r \<noteq> None")
      case True
      with Cons.prems show ?thesis by auto
    next
      case False
      note e = Cons.prems[unfolded copy_body.simps Let_def if_not_P[OF False]]
      show ?thesis
      proof (cases "mrd_end r")
        case BodyEOF
        with e have "res = Some None" "ds = ?d" "fs' = ?fs" by simp_all
        with BodyEOF o c d show ?thesis by (intro conjI impI exI[of _ "[r]"]) (simp_all add: body_of_def)
      next
        case (BodyFailed x)
        with e o show ?thesis by auto
      next
        case BodyMore
        obtain res1 ds1 fs1 where k: "copy_body p rs ?fs = (res1, ds1, fs1)" by (cases "copy_body p rs ?fs") auto
        with e BodyMore have r: "res = res1" "ds = ?d @ ds1" "fs' = fs1" by simp_all
        from Cons.IH[of ?fs res ds1] k r have ih: "only_changes p ?fs fs'"
          "res = Some None \<longrightarrow> (\<exists>taken. prefix taken rs \<and> mrd_end (last taken) = BodyEOF \<and> taken \<noteq> [] \<and>
            list_all (\<lambda>r. mrd_end r = BodyMore) (butlast taken) \<and>
            file_content fs' p = file_content ?fs p @ body_of taken \<and> sum_list ds1 = int (length (body_of taken)))"
          by simp_all
        have "\<exists>taken. prefix taken (r # rs) \<and> mrd_end (last taken) = BodyEOF \<and> taken \<noteq> [] \<and>
            list_all (\<lambda>r. mrd_end r = BodyMore) (butlast taken) \<and>
            file_content fs' p = file_content fs p @ body_of taken \<and> sum_list ds = int (length (body_of taken))"
          if "res = Some None"
        proof -
          obtain taken where t: "prefix taken rs" "mrd_end (last taken) = BodyEOF" "taken \<noteq> []"
            "list_all (\<lambda>r. mrd_end r = BodyMore) (butlast taken)"
            "file_content fs' p = file_content ?fs p @ body_of taken" "sum_list ds1 = int (length (body_of taken))"
            using ih(2) \<open>res = Some None\<close> by blast
          then show ?thesis using BodyMore c r(2) d
            by (intro exI[of _ "r # taken"]) (simp add: body_of_def)
        qed
        then show ?thesis using only_changes_trans[OF o ih(1)] by blast
      qed
    qed
  qed auto
  then show "only_changes p fs fs'" and "res = Some None \<Longrightarrow> \<exists>taken. prefix taken rs \<and> mrd_end (last taken) = BodyEOF \<and>
      taken \<noteq> [] \<and> list_all (\<lambda>r. mrd_end r = BodyMore) (butlast taken) \<and>
      file_content fs' p = file_content fs p @ body_of taken \<and> sum_list ds = int (length (body_of taken))" by blast+
qed

text \<open>A body that a server gave whole: the bytes of its reads up to the end.\<close>

definition served ::
  "(string \<Rightarrow> (string, string) fmap \<Rightarrow> resource_reply result) \<Rightarrow> merge_part \<Rightarrow> string \<Rightarrow> bool" where
  "served net p body \<longleftrightarrow> (\<exists>reply taken. net (mpt_url p) (sent_headers (mpt_headers p)) = Inr reply \<and>
     200 \<le> rsr_status reply \<and> rsr_status reply < 300 \<and> prefix taken (rsr_reads reply) \<and> taken \<noteq> [] \<and>
     mrd_end (last taken) = BodyEOF \<and> list_all (\<lambda>r. mrd_end r = BodyMore) (butlast taken) \<and> body = body_of taken)"

lemma download_resource_sound:
  assumes "download_resource nl net proxy p target fs = (res, ds, fs')"
  shows "only_changes target fs fs'"
    and "res = Some None \<Longrightarrow> served net p (file_content fs' target) \<and>
      sum_list ds = int (length (file_content fs' target))"
proof -
  have "only_changes target fs fs' \<and> (res = Some None \<longrightarrow> served net p (file_content fs' target) \<and>
      sum_list ds = int (length (file_content fs' target)))"
  proof (cases "\<exists>reply fs1. net (mpt_url p) (sent_headers (mpt_headers p)) = Inr reply \<and> 200 \<le> rsr_status reply \<and>
      rsr_status reply < 300 \<and> os_create fs target = (None, fs1) \<and> copy_body target (rsr_reads reply) fs1 = (res, ds, fs')")
    case True
    then obtain reply fs1 where r: "net (mpt_url p) (sent_headers (mpt_headers p)) = Inr reply" "200 \<le> rsr_status reply"
      "rsr_status reply < 300" "os_create fs target = (None, fs1)" "copy_body target (rsr_reads reply) fs1 = (res, ds, fs')"
      by blast
    note c = create_empty[OF r(4)] and k = copy_body_sound[OF r(5)]
    have "only_changes target fs fs'" by (rule only_changes_trans[OF c(2) k(1)])
    moreover have "served net p (file_content fs' target) \<and> sum_list ds = int (length (file_content fs' target))"
      if ended: "res = Some None"
    proof -
      obtain taken where "prefix taken (rsr_reads reply)" "mrd_end (last taken) = BodyEOF" "taken \<noteq> []"
        "list_all (\<lambda>r. mrd_end r = BodyMore) (butlast taken)" "file_content fs' target = body_of taken"
        "sum_list ds = int (length (body_of taken))"
        using k(2)[OF ended] c(1) by auto
      with r show ?thesis unfolding served_def by metis
    qed
    ultimately show ?thesis by blast
  next
    case False
    have create: "only_changes target fs fs1" if "os_create fs target = (Some e, fs1)" for e fs1
      using that open_write_error by (fastforce simp: os_create_def split: prod.splits option.splits)
    from assms False show ?thesis
      by (auto simp: download_resource_def create split: option.splits sum.splits if_splits prod.splits)
  qed
  then show "only_changes target fs fs'" and "res = Some None \<Longrightarrow> served net p (file_content fs' target) \<and>
      sum_list ds = int (length (file_content fs' target))" by blast+
qed

section \<open>The run\<close>

text \<open>
  C14: FFmpeg is given both resources whole. When a run of a merge succeeds whose two temporary names
  are different files, each target held the complete body that its server had sent with a success
  status when FFmpeg was started on the two targets and the task's output; FFmpeg ended without an
  error; the worker's own last report is the size of the output, and what follows it are reports of
  lines that FFmpeg's output reader, for which nobody waits, had still to read; and removing the
  directory of the targets was attempted, an error of which is ignored.
\<close>

theorem merged_from_whole_resources:
  assumes "run_merge u rnd nl net mc ffmpeg t fs = (Some None, reports, fs')"
    and "resources_from_state mc t = Inr [p, q]"
    and "dir = fp_join [tsk_path t, ''.gd3_ffmpeg'', tsk_id t]"
    and "fs_key fs (resource_target u nl dir p) \<noteq> fs_key fs (resource_target u nl dir q)"
  shows "\<exists>fs1 tool n ahead received. served net p (file_content fs1 (resource_target u nl dir p)) \<and>
    served net q (file_content fs1 (resource_target u nl dir q)) \<and>
    (let run = ffmpeg tool (ffmpeg_args (resource_target u nl dir p) (resource_target u nl dir q) (output_file t)) fs1 in
     ffr_start run = None \<and> ffr_wait run = None \<and> stat_size (ffr_effect run fs1) (output_file t) = Inr n \<and>
     reports = ahead @ [stream_update n n 0 100] @ drain_ffmpeg_progress received (tsk_file_size t) (ffr_late run) \<and>
     fs' = snd (os_remove_all (ffr_effect run fs1) dir))"
proof -
  let ?tp = "resource_target u nl dir p" and ?tq = "resource_target u nl dir q"
  let ?tool = "find_ffmpeg_executable fs (map_get (stg_state (tsk_stage t)) ''ffmpegInstallDir'')"
  have tool: "?tool \<noteq> []" using assms(1,2) by (auto simp: run_merge_def Let_def)
  obtain e0 fs0 where mk: "and_then (os_mkdir_all fs (tsk_path t)) (\<lambda>fs. os_mkdir_all fs dir) = (e0, fs0)"
    by (cases "and_then (os_mkdir_all fs (tsk_path t)) (\<lambda>fs. os_mkdir_all fs dir)") auto
  note run = assms(1)[unfolded run_merge_def Let_def assms(2) sum.case if_not_P[OF tool] assms(3)[symmetric] mk prod.case]
  have e0: "e0 = None" using run by (cases e0) auto
  have cwd: "fs_key fs0 x = fs_key fs x" for x
  proof -
    have m: "os_mkdir_all f d = (r, f') \<Longrightarrow> fs_cwd f' = fs_cwd f" for f d r f'
      by (auto simp: os_mkdir_all_def Let_def split: option.splits if_splits)
    have "fs_cwd fs0 = fs_cwd fs" using mk m by (auto simp: and_then_def split: prod.splits option.splits dest!: m)
    then show ?thesis by (simp add: fs_key_def)
  qed
  obtain fr rep fs2 where f: "fetch_resources u rnd nl net t dir [p, q] [] 0 fs0 = (fr, rep, fs2)"
    by (cases "fetch_resources u rnd nl net t dir [p, q] [] 0 fs0") auto
  note run2 = run[unfolded e0 option.case f prod.case]
  obtain inputs received where fr: "fr = Some (Inr (inputs, received))"
    using run2 by (cases fr) (auto split: sum.splits)
  obtain r1 d1 fsa where a: "download_resource nl net (stg_proxy_url (tsk_stage t)) p ?tp fs0 = (r1, d1, fsa)"
    by (cases "download_resource nl net (stg_proxy_url (tsk_stage t)) p ?tp fs0") auto
  obtain r2 d2 fsb where b: "download_resource nl net (stg_proxy_url (tsk_stage t)) q ?tq fsa = (r2, d2, fsb)"
    by (cases "download_resource nl net (stg_proxy_url (tsk_stage t)) q ?tq fsa") auto
  have ok: "r1 = Some None" "r2 = Some None" "inputs = [?tp, ?tq]" "fs2 = fsb"
    using f fr a b by (auto simp: Let_def split: option.splits)
  note sa = download_resource_sound[OF a] and sb = download_resource_sound[OF b]
  have "fs_key fsa ?tp = fs_key fs ?tp" "fs_key fsa ?tq = fs_key fs ?tq" "fs_key fsb ?tp = fs_key fs ?tp"
    using only_changes_key[OF sa(1)] only_changes_key[OF sb(1)] cwd by simp_all
  then have keep: "file_content fsb ?tp = file_content fsa ?tp"
    using sb(1) assms(4) by (simp add: file_content_def only_changes_def)
  have body: "served net p (file_content fs2 ?tp)" "served net q (file_content fs2 ?tq)"
    using sa(2)[OF ok(1)] sb(2)[OF ok(2)] keep ok(4) by simp_all
  obtain fe ahead late fs3 where
    g: "run_ffmpeg (ffmpeg ?tool) ?tp ?tq (output_file t) received (tsk_file_size t) fs2 = (fe, ahead, late, fs3)"
    by (cases "run_ffmpeg (ffmpeg ?tool) ?tp ?tq (output_file t) received (tsk_file_size t) fs2") auto
  note run3 = run2[unfolded fr option.case sum.case prod.case ok(3) nth_Cons_0 One_nat_def nth_Cons_Suc g]
  have fe: "fe = None" using run3 by (cases fe) auto
  obtain n where n: "stat_size fs3 (output_file t) = Inr n"
    using run3 fe by (cases "stat_size fs3 (output_file t)") auto
  have fin: "reports = (rep @ ahead) @ [stream_update n n 0 100] @ late" "fs' = snd (os_remove_all fs3 dir)"
    using run3 fe n by simp_all
  let ?run = "ffmpeg ?tool (ffmpeg_args ?tp ?tq (output_file t)) fs2"
  have "ffr_start ?run = None" "ffr_wait ?run = None" "fs3 = ffr_effect ?run fs2"
    "late = drain_ffmpeg_progress received (tsk_file_size t) (ffr_late ?run)"
    using g fe by (auto simp: run_ffmpeg_def Let_def split: if_splits option.splits)
  with body n fin show ?thesis
    by (intro exI[of _ fs2] exI[of _ ?tool] exI[of _ n] exI[of _ "rep @ ahead"] exI[of _ received]) (simp add: Let_def)
qed

section \<open>An example\<close>

definition drive_file :: "string \<Rightarrow> string" where
  "drive_file name = ''C:'' @ backslash # name"

definition demo_part :: "string \<Rightarrow> string \<Rightarrow> merge_part" where
  "demo_part name role = \<lparr>mpt_url = ''http://h/'' @ name, mpt_filename = name, mpt_mime = [], mpt_size = 1,
     mpt_headers = None, mpt_supports_range = False, mpt_role = role\<rparr>"

definition demo_merge_codec :: merge_codec where
  "demo_merge_codec = \<lparr>mgc_marshal = (\<lambda>_. Inr ''[]''),
     mgc_unmarshal = (\<lambda>_. Inr [demo_part ''v.mp4'' ''video'', demo_part ''a.m4a'' ''audio''])\<rparr>"

definition demo_merge_lib :: netlib where
  "demo_merge_lib = no_netlib\<lparr>nl_parse_url := \<lambda>s. Inr \<lparr>up_scheme = ''http'', up_opaque = [], up_host = ''h'',
     up_path = s, up_query = [], up_fragment = [], up_user = None\<rparr>\<rparr>"

definition demo_merge_net :: "string \<Rightarrow> (string, string) fmap \<Rightarrow> resource_reply result" where
  "demo_merge_net url _ = Inr \<lparr>rsr_status = 200, rsr_status_text = [], rsr_reads =
     [\<lparr>mrd_bytes = drop 9 url, mrd_end = BodyMore, mrd_write = None\<rparr>, \<lparr>mrd_bytes = [], mrd_end = BodyEOF, mrd_write = None\<rparr>]\<rparr>"

definition demo_ffmpeg :: "string \<Rightarrow> string list \<Rightarrow> fsys \<Rightarrow> ffmpeg_run" where
  "demo_ffmpeg tool args fs = \<lparr>ffr_start = None, ffr_lines = [''out_time_ms=5''], ffr_late = [''progress=end''], ffr_stderr = [], ffr_wait = None,
     ffr_ctx = None, ffr_effect = put_node (last args) (NFile ''VA'')\<rparr>"

definition demo_merge_task :: task where
  "demo_merge_task = new_task ''t'' 0 ''ffmpeg'' ''m.mp4'' [] (drive_file ''d'') 2
     ((new_stage ''s'' ''ffmpeg_merge'' [] 2 1 3 False None [])\<lparr>stg_state := Some (fmap_of_list
        [(''resources'', ''[]''), (''ffmpegInstallDir'', drive_file ''f'')])\<rparr>)"

definition demo_merge_fs :: fsys where
  "demo_merge_fs = \<lparr>fs_nodes = [drive_file ''f'' \<mapsto> NDir, drive_file ''f'' @ backslash # ''ffmpeg.exe'' \<mapsto> NFile []],
     fs_cwd = drive_file [], fs_faults = (\<lambda>_. None)\<rparr>"

lemma merged_from_whole_resources_witness:
  "\<exists>reports fs' fs1 tool n ahead received. run_merge ascii_tables id demo_merge_lib demo_merge_net demo_merge_codec demo_ffmpeg
      demo_merge_task demo_merge_fs = (Some None, reports, fs') \<and>
    served demo_merge_net (demo_part ''v.mp4'' ''video'') (file_content fs1 (resource_target ascii_tables demo_merge_lib
      (fp_join [tsk_path demo_merge_task, ''.gd3_ffmpeg'', tsk_id demo_merge_task]) (demo_part ''v.mp4'' ''video''))) \<and>
    reports = ahead @ [stream_update n n 0 100, stream_update received 2 0 (199 / 2)] \<and>
    fs' = snd (os_remove_all (ffr_effect (demo_ffmpeg tool (ffmpeg_args
      (resource_target ascii_tables demo_merge_lib (fp_join [tsk_path demo_merge_task, ''.gd3_ffmpeg'', tsk_id demo_merge_task])
        (demo_part ''v.mp4'' ''video''))
      (resource_target ascii_tables demo_merge_lib (fp_join [tsk_path demo_merge_task, ''.gd3_ffmpeg'', tsk_id demo_merge_task])
        (demo_part ''a.m4a'' ''audio'')) (output_file demo_merge_task)) fs1) fs1)
      (fp_join [tsk_path demo_merge_task, ''.gd3_ffmpeg'', tsk_id demo_merge_task]))"
proof -
  let ?run = "run_merge ascii_tables id demo_merge_lib demo_merge_net demo_merge_codec demo_ffmpeg demo_merge_task demo_merge_fs"
  have e: "fst ?run = Some None" by code_simp
  obtain reports fs' where r: "?run = (Some None, reports, fs')"
    using e by (cases ?run) auto
  have p: "resources_from_state demo_merge_codec demo_merge_task =
      Inr [demo_part ''v.mp4'' ''video'', demo_part ''a.m4a'' ''audio'']" by code_simp
  have k: "fs_key demo_merge_fs (resource_target ascii_tables demo_merge_lib (fp_join [tsk_path demo_merge_task,
      ''.gd3_ffmpeg'', tsk_id demo_merge_task]) (demo_part ''v.mp4'' ''video'')) \<noteq>
    fs_key demo_merge_fs (resource_target ascii_tables demo_merge_lib (fp_join [tsk_path demo_merge_task,
      ''.gd3_ffmpeg'', tsk_id demo_merge_task]) (demo_part ''a.m4a'' ''audio''))" by code_simp
  have late: "drain_ffmpeg_progress received 2 [''progress=end''] = [stream_update received 2 0 (199 / 2)]" for received
  proof -
    have "trim_space ''progress=end'' = ''progress=end''" by code_simp
    then show ?thesis by simp
  qed
  have size: "tsk_file_size demo_merge_task = 2" by (simp add: demo_merge_task_def new_task_def)
  have lines: "ffr_late (demo_ffmpeg tool args f) = [''progress=end'']" for tool args f by (simp add: demo_ffmpeg_def)
  note m = merged_from_whole_resources[OF r p refl k, unfolded Let_def size lines late append_Cons append_Nil]
  show ?thesis using m r by (elim exE conjE) (intro exI conjI, assumption+)
qed

end
