(* ===== verification/PluginHost.thy ===== *)
theory PluginHost
  imports M3u8Worker
begin

text \<open>
  The plug-in host, \<open>internal/pluginhost\<close>: the manifests of the plug-ins (\<open>protocol.go\<close>), their
  discovery, and the calls to their processes (\<open>manager.go\<close>). A process is data: what it writes and
  how it ends; JSON is an argument.
\<close>

section \<open>Manifests\<close>

definition plugin_protocol :: int where "plugin_protocol = 1"

record plugin_manifest =
  plm_id :: string
  plm_name :: string
  plm_version :: string
  plm_protocol :: int
  plm_executable :: string
  plm_args :: "string list"
  plm_env :: "(string \<times> string) list"
  plm_timeout_ms :: int

text \<open>The regular expression of an identifier: a letter or digit, then at most 63 more characters.\<close>

definition id_start :: "char \<Rightarrow> bool" where
  "id_start c \<longleftrightarrow> (97 \<le> byte_of c \<and> byte_of c \<le> 122) \<or> is_digit c"

definition valid_plugin_id :: "string \<Rightarrow> bool" where
  "valid_plugin_id s \<longleftrightarrow>
     (case s of
        [] \<Rightarrow> False
      | c # cs \<Rightarrow> id_start c \<and> length cs \<le> 63 \<and> list_all (\<lambda>d. id_start d \<or> d \<in> set ''._-'') cs)"

definition validate_manifest :: "unicode \<Rightarrow> plugin_manifest \<Rightarrow> goerr option" where
  "validate_manifest u m =
     (if \<not> valid_plugin_id (plm_id m) then Some (new_error (''invalid plugin id '' @ quote u (plm_id m)))
      else if trim_space (plm_name m) = [] \<or> trim_space (plm_version m) = []
      then Some (new_error (''plugin '' @ quote u (plm_id m) @ '' requires name and version''))
      else if plm_protocol m \<noteq> plugin_protocol
      then Some (new_error (''plugin '' @ quote u (plm_id m) @ '' protocol version '' @ itoa (plm_protocol m) @ '' is unsupported''))
      else if trim_space (plm_executable m) = []
      then Some (new_error (''plugin '' @ quote u (plm_id m) @ '' requires executable''))
      else if plm_timeout_ms m < 0 \<or> plm_timeout_ms m > 120000
      then Some (new_error (''plugin '' @ quote u (plm_id m) @ '' timeoutMs must be between 0 and 120000''))
      else None)"

definition plugin_timeout :: "plugin_manifest \<Rightarrow> int" where
  "plugin_timeout m = (if plm_timeout_ms m = 0 then 10 * second else plm_timeout_ms m * 1000000)"

record parse_params =
  ppa_url :: string
  ppa_dir :: string
  ppa_headers :: strmap
  ppa_proxy :: string

record parse_answer =
  pan_kind :: string
  pan_url :: string
  pan_title :: string
  pan_headers :: strmap

definition validate_answer :: "unicode \<Rightarrow> parse_answer \<Rightarrow> goerr option" where
  "validate_answer u a =
     (if pan_kind a \<notin> set [''http'', ''m3u8'', ''bt'']
      then Some (new_error (''unsupported parsed kind '' @ quote u (pan_kind a)))
      else if trim_space (pan_url a) = [] then Some (new_error ''plugin parse result has empty url'')
      else None)"

section \<open>Discovery\<close>

record plugin =
  plg_manifest :: plugin_manifest
  plg_dir :: string

abbreviation plugin_id :: "plugin \<Rightarrow> string" where
  "plugin_id p \<equiv> plm_id (plg_manifest p)"

text \<open>One directory after the other: the plug-ins, the problems and the identifiers seen.\<close>

fun discover_loop ::
  "unicode \<Rightarrow> (string \<Rightarrow> plugin_manifest result) \<Rightarrow> fsys \<Rightarrow> string \<Rightarrow> (string \<times> bool) list \<Rightarrow> string list \<Rightarrow>
   plugin list \<times> goerr list" where
  "discover_loop u decode fs root_dir [] seen = ([], [])"
| "discover_loop u decode fs root_dir ((name, is_dir) # entries) seen =
     (if \<not> is_dir then discover_loop u decode fs root_dir entries seen
      else
        (let dir = fp_join [root_dir, name];
             problem = (\<lambda>e. case discover_loop u decode fs root_dir entries seen of (ps, es) \<Rightarrow> (ps, e # es)) in
         case os_read_file fs (fp_join [dir, ''manifest.json'']) of
           Inl e \<Rightarrow>
             if err_not_exist e then discover_loop u decode fs root_dir entries seen
             else problem (wrap_error (''plugin directory '' @ quote u name @ '': '') e)
         | Inr data \<Rightarrow>
             (case decode data of
                Inl e \<Rightarrow> problem (wrap_error (''plugin directory '' @ quote u name @ '' manifest: '') e)
              | Inr m \<Rightarrow>
                  (case validate_manifest u m of
                     Some e \<Rightarrow> problem e
                   | None \<Rightarrow>
                       if plm_id m \<in> set seen
                       then problem (new_error (''duplicate plugin id '' @ quote u (plm_id m)))
                       else case discover_loop u decode fs root_dir entries (plm_id m # seen) of
                         (ps, es) \<Rightarrow> (\<lparr>plg_manifest = m, plg_dir = dir\<rparr> # ps, es)))))"

definition discover_plugins ::
  "unicode \<Rightarrow> (string \<Rightarrow> plugin_manifest result) \<Rightarrow> dir_lister \<Rightarrow> fsys \<Rightarrow> string \<Rightarrow> (plugin list \<times> goerr list) result" where
  "discover_plugins u decode ls fs root_dir =
     (case ls fs root_dir of
        Inl e \<Rightarrow> if err_not_exist e then Inr ([], []) else Inl (wrap_error ''read plugin directory: '' e)
      | Inr entries \<Rightarrow>
          (case discover_loop u decode fs root_dir entries [] of (ps, es) \<Rightarrow> Inr (sort_key plugin_id ps, es)))"

section \<open>Calls\<close>

definition max_message_bytes :: nat where "max_message_bytes = 4194304"
definition max_stderr_bytes :: nat where "max_stderr_bytes = 65536"

definition plugin_executable :: "fsys \<Rightarrow> plugin \<Rightarrow> string" where
  "plugin_executable fs p =
     (let e = plm_executable (plg_manifest p); candidate = fp_join [plg_dir p, e] in
      if is_abs e then e
      else case os_stat fs candidate of
        Inr _ \<Rightarrow> candidate
      | Inl _ \<Rightarrow> if backslash \<in> set e \<or> slash \<in> set e then candidate else e)"

definition plugin_args :: "plugin \<Rightarrow> string list" where
  "plugin_args p = plm_args (plg_manifest p) @ [''--stdio'']"

text \<open>The first bytes of the standard error, as text after a colon.\<close>

definition stderr_suffix :: "string \<Rightarrow> string" where
  "stderr_suffix written =
     (let message = trim_space (take max_stderr_bytes written) in if message = [] then [] else '': '' @ message)"

definition append_text :: "goerr \<Rightarrow> string \<Rightarrow> goerr" where
  "append_text e s = GoErr (err_text e @ s) (err_canceled e) (err_not_exist e)"

text \<open>
  The process of one call: the error of making its pipes, of starting it, of writing and closing
  the request; what it writes, with the error of reading it that is not its end; what it writes to
  its standard error; the error of \<open>Wait\<close>; whether the call's context had ended by then.
\<close>

record plugin_run =
  plr_pipes :: "goerr option"
  plr_start :: "goerr option"
  plr_write :: "goerr option"
  plr_close :: "goerr option"
  plr_output :: string
  plr_read :: "goerr option"
  plr_stderr :: string
  plr_wait :: "goerr option"
  plr_expired :: bool

record rpc_response =
  rpc_version :: string
  rpc_id :: int
  rpc_result :: string
  rpc_error :: "(int \<times> string) option"

text \<open>\<open>ReadBytes\<close>: the bytes up to and with the first newline, of as many as the limit allows.\<close>

definition first_line :: "string \<Rightarrow> string" where
  "first_line out =
     (let s = take (max_message_bytes + 1) out; l = takeWhile (\<lambda>c. c \<noteq> CHR 0x0A) s in
      if length l < length s then l @ [CHR 0x0A] else l)"

text \<open>
  \<open>call\<close>: the result and the number of the last request, which is counted once the process runs.
  \<open>decode\<close> decodes the result, \<open>show_duration\<close> is the text of a duration.
\<close>

definition call_plugin ::
  "(string \<Rightarrow> rpc_response result) \<Rightarrow> (int \<Rightarrow> string) \<Rightarrow> plugin \<Rightarrow> (int \<Rightarrow> plugin_run) \<Rightarrow> int \<Rightarrow>
   (string \<Rightarrow> 'a result) \<Rightarrow> 'a result \<times> int" where
  "call_plugin decode_response show_duration p process counter decode =
     (let r = process (counter + 1); counter' = counter + 1; line = first_line (plr_output r);
          tail = stderr_suffix (plr_stderr r) in
      case plr_pipes r of Some e \<Rightarrow> (Inl e, counter) | None \<Rightarrow>
      (case plr_start r of Some e \<Rightarrow> (Inl (wrap_error ''start: '' e), counter) | None \<Rightarrow>
      (case plr_write r of Some e \<Rightarrow> (Inl (wrap_error ''write request: '' e), counter') | None \<Rightarrow>
      (case plr_close r of Some e \<Rightarrow> (Inl (wrap_error ''close request: '' e), counter') | None \<Rightarrow>
        (if plr_expired r
         then Inl (new_error (''timed out after '' @ show_duration (plugin_timeout (plg_manifest p))))
         else if plr_read r \<noteq> None then Inl (wrap_error ''read response: '' (the (plr_read r)))
         else if length line > max_message_bytes
         then Inl (new_error (''response exceeds '' @ itoa (int max_message_bytes) @ '' bytes''))
         else case plr_wait r of
           Some e \<Rightarrow> Inl (append_text (wrap_error ''process exited: '' e) tail)
         | None \<Rightarrow>
             (case decode_response (trim_space line) of
                Inl e \<Rightarrow> Inl (append_text (wrap_error ''invalid JSON response: '' e) tail)
              | Inr resp \<Rightarrow>
                  if rpc_version resp \<noteq> ''2.0'' \<or> rpc_id resp \<noteq> counter'
                  then Inl (new_error ''invalid JSON-RPC response envelope'')
                  else case rpc_error resp of
                    Some (code, message) \<Rightarrow> Inl (new_error (''rpc error '' @ itoa code @ '': '' @ message))
                  | None \<Rightarrow>
                      if rpc_result resp = [] then Inl (new_error ''JSON-RPC response has no result'')
                      else map_sum (wrap_error ''decode result: '') id (decode (rpc_result resp))),
         counter')))))"

section \<open>Resolving a source\<close>

text \<open>
  The JSON decoders and the processes that the calls \<open>matches\<close>, \<open>parse\<close> and \<open>manifest\<close> start.
\<close>

record plugin_env =
  ple_response :: "string \<Rightarrow> rpc_response result"
  ple_duration :: "int \<Rightarrow> string"
  ple_match :: "string \<Rightarrow> bool result"
  ple_answer :: "string \<Rightarrow> parse_answer result"
  ple_manifest :: "string \<Rightarrow> plugin_manifest result"
  ple_run_match :: "plugin \<Rightarrow> string \<Rightarrow> int \<Rightarrow> plugin_run"
  ple_run_parse :: "plugin \<Rightarrow> parse_params \<Rightarrow> int \<Rightarrow> plugin_run"
  ple_run_manifest :: "plugin \<Rightarrow> int \<Rightarrow> plugin_run"

definition call_match :: "plugin_env \<Rightarrow> plugin \<Rightarrow> string \<Rightarrow> int \<Rightarrow> bool result \<times> int" where
  "call_match e p url counter =
     call_plugin (ple_response e) (ple_duration e) p (ple_run_match e p url) counter (ple_match e)"

definition call_parse :: "plugin_env \<Rightarrow> plugin \<Rightarrow> parse_params \<Rightarrow> int \<Rightarrow> parse_answer result \<times> int" where
  "call_parse e p params counter =
     call_plugin (ple_response e) (ple_duration e) p (ple_run_parse e p params) counter (ple_answer e)"

definition plugin_problem :: "unicode \<Rightarrow> plugin \<Rightarrow> string \<Rightarrow> goerr \<Rightarrow> goerr" where
  "plugin_problem u p method = wrap_error (''plugin '' @ quote u (plugin_id p) @ '' '' @ method @ '': '')"

text \<open>
  The answer with whether a plug-in matched: \<open>Inr (Some a)\<close> and True, the error of the plug-in that
  matched and True, or no answer, False and the problems of the calls that failed.
\<close>

datatype resolution = Resolved parse_answer | ResolveFailed goerr | Unmatched "goerr list"

fun resolve_loop ::
  "unicode \<Rightarrow> plugin_env \<Rightarrow> parse_params \<Rightarrow> plugin list \<Rightarrow> goerr list \<Rightarrow> int \<Rightarrow> resolution \<times> int" where
  "resolve_loop u e params [] problems counter = (Unmatched problems, counter)"
| "resolve_loop u e params (p # ps) problems counter =
     (case call_match e p (ppa_url params) counter of
        (Inl err, counter) \<Rightarrow>
          resolve_loop u e params ps (problems @ [plugin_problem u p ''matches'' err]) counter
      | (Inr False, counter) \<Rightarrow> resolve_loop u e params ps problems counter
      | (Inr True, counter) \<Rightarrow>
          (case call_parse e p params counter of
             (Inl err, counter) \<Rightarrow> (ResolveFailed (plugin_problem u p ''parse'' err), counter)
           | (Inr a, counter) \<Rightarrow>
               (case validate_answer u a of
                  Some err \<Rightarrow> (ResolveFailed (plugin_problem u p ''parse'' err), counter)
                | None \<Rightarrow> (Resolved a, counter))))"

definition resolve_plugins ::
  "unicode \<Rightarrow> plugin_env \<Rightarrow> plugin list option \<Rightarrow> parse_params \<Rightarrow> int \<Rightarrow> resolution \<times> int" where
  "resolve_plugins u e manager params counter =
     (case manager of None \<Rightarrow> (Unmatched [], counter) | Some ps \<Rightarrow> resolve_loop u e params ps [] counter)"

definition plugin_manifests :: "plugin list option \<Rightarrow> plugin_manifest list" where
  "plugin_manifests manager = (case manager of None \<Rightarrow> [] | Some ps \<Rightarrow> map plg_manifest ps)"

definition check_plugin_manifest :: "unicode \<Rightarrow> plugin_env \<Rightarrow> plugin \<Rightarrow> int \<Rightarrow> plugin_manifest result \<times> int" where
  "check_plugin_manifest u e p counter =
     (case call_plugin (ple_response e) (ple_duration e) p (ple_run_manifest e p) counter (ple_manifest e) of
        (Inl err, counter) \<Rightarrow> (Inl err, counter)
      | (Inr remote, counter) \<Rightarrow>
          (case validate_manifest u remote of
             Some err \<Rightarrow> (Inl err, counter)
           | None \<Rightarrow>
               if plm_id remote \<noteq> plugin_id p
               then (Inl (new_error (''manifest id mismatch: disk='' @ quote u (plugin_id p) @ '' rpc='' @ quote u (plm_id remote))),
                 counter)
               else (Inr remote, counter)))"

end
