(* ===== verification/App.thy ===== *)
theory App
  imports PluginHost Merge BtClient FtpTask BridgeServer Storage
begin

text \<open>
  The application's own logic, \<open>internal/app/app.go\<close>: which parser takes a source, a task that a
  browser asks for, and the saving of settings. The parsers are those of the worker packages; the
  record \<open>parsers\<close> holds them as the application calls them.
\<close>

section \<open>Titles and headers\<close>

definition safe_browser_title :: "string \<Rightarrow> string" where
  "safe_browser_title title =
     trim ''. '' (map (\<lambda>c. if unsafe_filename_char c then CHR ''_'' else c) (trim_space title))"

text \<open>The headers of the second map that are not blank replace those of the first.\<close>

definition merge_headers :: "strmap \<Rightarrow> strmap \<Rightarrow> strmap" where
  "merge_headers base extra = Some ((case base of None \<Rightarrow> fmempty | Some m \<Rightarrow> m) ++\<^sub>f sent_headers extra)"

definition bt_options_from_settings :: "unicode \<Rightarrow> netlib \<Rightarrow> settings \<Rightarrow> strmap \<Rightarrow> bt_options" where
  "bt_options_from_settings u nl s headers =
     \<lparr>bto_dir = cfg_download_dir s, bto_proxy = cfg_proxy_url s, bto_headers = headers,
      bto_runtime =
        \<lparr>rto_metadata_timeout = wrap64 (cfg_bt_metadata_timeout_sec s * second), rto_listen_port = cfg_bt_listen_port s,
         rto_connections_limit = cfg_bt_connections_limit s,
         rto_download_rate = wrap64 (cfg_bt_download_rate_limit_kib s * 1024),
         rto_upload_rate = wrap64 (cfg_bt_upload_rate_limit_kib s * 1024),
         rto_enable_dht = cfg_bt_enable_dht s, rto_enable_lsd = cfg_bt_enable_lsd s,
         rto_enable_upnp = cfg_bt_enable_upnp s, rto_enable_natpmp = cfg_bt_enable_natpmp s,
         rto_sequential = cfg_bt_sequential_download s, rto_seed_ratio = cfg_bt_seed_ratio_limit_percent s,
         rto_seed_minutes = cfg_bt_seed_time_limit_minutes s, rto_save_magnet = cfg_bt_save_magnet_torrent_file s\<rparr>,
      bto_extra_trackers = client_parse_trackers u nl (cfg_bt_trackers_text s)\<rparr>"

section \<open>Tasks from sources\<close>

record parsers =
  prs_is_bt :: "string \<Rightarrow> bool"
  prs_is_ftp :: "string \<Rightarrow> bool"
  prs_is_m3u8 :: "string \<Rightarrow> bool"
  prs_bt :: "string \<Rightarrow> bt_options \<Rightarrow> task result"
  prs_ftp :: "string \<Rightarrow> string \<Rightarrow> string \<Rightarrow> int \<Rightarrow> task result"
  prs_m3u8 :: "string \<Rightarrow> settings \<Rightarrow> strmap \<Rightarrow> manifest_result result"
  prs_http :: "string \<Rightarrow> string \<Rightarrow> int \<Rightarrow> int \<Rightarrow> string \<Rightarrow> strmap \<Rightarrow> task result"

text \<open>The switch over the kind; \<open>kind\<close> is empty when no plug-in has set it.\<close>

definition parse_by_kind ::
  "unicode \<Rightarrow> netlib \<Rightarrow> parsers \<Rightarrow> string \<Rightarrow> string \<Rightarrow> settings \<Rightarrow> strmap \<Rightarrow> task result" where
  "parse_by_kind u nl ps kind source s headers =
     (if kind = ''bt'' \<or> kind = [] \<and> prs_is_bt ps source
      then prs_bt ps source (bt_options_from_settings u nl s headers)
      else if kind = ''ftp'' \<or> kind = [] \<and> prs_is_ftp ps source
      then prs_ftp ps source (cfg_download_dir s) (cfg_proxy_url s) (cfg_retry_count s)
      else if kind = ''m3u8'' \<or> kind = [] \<and> prs_is_m3u8 ps source
      then map_sum id mre_task (prs_m3u8 ps source s headers)
      else prs_http ps source (cfg_download_dir s) (cfg_block_num s) (cfg_retry_count s) (cfg_proxy_url s) headers)"

text \<open>\<open>resolution\<close> is what the plug-ins answered; failed matches are logged only.\<close>

definition create_task_from_source ::
  "unicode \<Rightarrow> netlib \<Rightarrow> parsers \<Rightarrow> (parse_params \<Rightarrow> resolution) option \<Rightarrow> string \<Rightarrow> settings \<Rightarrow> strmap \<Rightarrow> task result" where
  "create_task_from_source u nl ps plugins source s headers =
     (let params = \<lparr>ppa_url = source, ppa_dir = cfg_download_dir s, ppa_headers = headers, ppa_proxy = cfg_proxy_url s\<rparr> in
      case (case plugins of None \<Rightarrow> Unmatched [] | Some resolve \<Rightarrow> resolve params) of
        ResolveFailed e \<Rightarrow> Inl e
      | Unmatched problems \<Rightarrow> parse_by_kind u nl ps [] source s headers
      | Resolved a \<Rightarrow>
          (case parse_by_kind u nl ps (pan_kind a) (pan_url a) s (merge_headers headers (pan_headers a)) of
             Inl e \<Rightarrow> Inl e
           | Inr t \<Rightarrow>
               (let title = safe_browser_title (pan_title a) in
                Inr (if title \<noteq> [] then t\<lparr>tsk_title := title\<rparr> else t))))"

section \<open>Tasks from the browser\<close>

text \<open>
  The title is made free among the scheduler's snapshots and the files; without a scheduler it stays
  as it is. None is that the search has not ended within the fuel.
\<close>

definition free_title ::
  "unicode \<Rightarrow> fsys \<Rightarrow> nat \<Rightarrow> task_snapshot list option \<Rightarrow> task \<Rightarrow> task option" where
  "free_title u fs fuel existing t =
     (case existing of
        None \<Rightarrow> Some t
      | Some snapshots \<Rightarrow>
          map_option (\<lambda>title. t\<lparr>tsk_title := title\<rparr>) (deduplicate_title u fs fuel (tsk_title t) (tsk_path t) snapshots))"

definition browser_headers :: "unicode \<Rightarrow> settings \<Rightarrow> strmap \<Rightarrow> strmap result" where
  "browser_headers u s requested =
     (case parse_headers (cfg_headers_text s) of
        Inl e \<Rightarrow> Inl e
      | Inr h \<Rightarrow>
          Inr (merge_headers (map_option fmap_of_list (merge_cookies u (Some h) (cfg_cookies_text s))) requested))"

text \<open>\<open>mids\<close> are the identifiers and the clock of a merge task.\<close>

definition create_task_from_browser ::
  "unicode \<Rightarrow> netlib \<Rightarrow> fsys \<Rightarrow> nat \<Rightarrow> parsers \<Rightarrow> (parse_params \<Rightarrow> resolution) option \<Rightarrow> merge_codec \<Rightarrow>
   string \<times> string \<times> int \<Rightarrow> create_task_request \<Rightarrow> settings \<Rightarrow> task_snapshot list option \<Rightarrow> task result option" where
  "create_task_from_browser u nl fs fuel ps plugins mc mids r s existing =
     (if ctr_source r = ''resource_merge'' then
        (case mids of (sid, tid, now) \<Rightarrow>
           (case new_merge_task u mc sid tid now (ctr_title r) (ctr_path r)
               (merge_resources_from_browser (case ctr_resources r of None \<Rightarrow> [] | Some rs \<Rightarrow> rs)) s of
              Inl e \<Rightarrow> Some (Inl e)
            | Inr t \<Rightarrow> map_option Inr (free_title u fs fuel existing t)))
      else case browser_headers u s (ctr_headers r) of
        Inl e \<Rightarrow> Some (Inl e)
      | Inr headers \<Rightarrow>
          (let s = (if trim_space (ctr_path r) \<noteq> [] then s\<lparr>cfg_download_dir := trim_space (ctr_path r)\<rparr> else s);
               s = (if ctr_pre_block_num r > 0 then s\<lparr>cfg_block_num := ctr_pre_block_num r\<rparr> else s) in
           case create_task_from_source u nl ps plugins (ctr_url r) s headers of
             Inl e \<Rightarrow> Some (Inl e)
           | Inr t \<Rightarrow>
               (let title = trim_space (ctr_title r);
                    t = (if title \<noteq> [] \<and> safe_browser_title title \<noteq> []
                      then t\<lparr>tsk_title := safe_browser_title title\<rparr> else t) in
                map_option Inr (free_title u fs fuel existing t))))"

section \<open>Settings\<close>

record app_state =
  aps_bridge :: bridge
  aps_table :: "string \<rightharpoonup> string"
  aps_current :: settings

text \<open>At the start: the stored settings, repaired, and stored again when the repair changed them.\<close>

definition load_app_settings ::
  "settings_codec \<Rightarrow> goerr option \<Rightarrow> goerr option \<Rightarrow> nat list option \<Rightarrow> paths \<Rightarrow> (string \<rightharpoonup> string) \<Rightarrow>
   settings result \<times> (string \<rightharpoonup> string)" where
  "load_app_settings c query_err exec_err rnd p table =
     (case load_settings c query_err (default_settings rnd p) table of
        (_, Some e) \<Rightarrow> (Inl (wrap_error ''load settings: '' e), table)
      | (loaded, None) \<Rightarrow>
          (let s = normalized rnd p loaded in
           if s \<noteq> loaded then
             (case save_settings c exec_err s table of
                (Some e, table) \<Rightarrow> (Inl (wrap_error ''save normalized settings: '' e), table)
              | (None, table) \<Rightarrow> (Inr s, table))
           else (Inr s, table)))"

text \<open>
  \<open>SaveSettings\<close>: the new settings are applied to the bridge, stored and then current; when a step
  fails, the bridge gets the previous ones back. \<open>apply\<close> and \<open>reapply\<close> are what listening and
  shutting down give at the two calls.
\<close>

type_synonym apply_env = "(int \<Rightarrow> string result) \<times> goerr option"

definition apply_with :: "apply_env \<Rightarrow> settings \<Rightarrow> bridge \<Rightarrow> goerr option \<times> bridge" where
  "apply_with env s b = apply_settings (fst env) (snd env) (settings_from_config s) b"

definition save_app_settings ::
  "settings_codec \<Rightarrow> goerr option \<Rightarrow> nat list option \<Rightarrow> paths \<Rightarrow> apply_env \<Rightarrow> apply_env \<Rightarrow> settings \<Rightarrow> app_state \<Rightarrow>
   goerr option \<times> app_state" where
  "save_app_settings c exec_err rnd p env reenv s st =
     (let s = normalized rnd p s; previous = aps_current st in
      case apply_with env s (aps_bridge st) of
        (Some e, b) \<Rightarrow>
          (case apply_with reenv previous b of (restore_err, b) \<Rightarrow>
             (join_errors (Some e) restore_err, st\<lparr>aps_bridge := b\<rparr>))
      | (None, b) \<Rightarrow>
          (case save_settings c exec_err s (aps_table st) of
             (Some e, table) \<Rightarrow>
               (case apply_with reenv previous b of (restore_err, b) \<Rightarrow>
                  (join_errors (Some e) restore_err, st\<lparr>aps_bridge := b, aps_table := table\<rparr>))
           | (None, table) \<Rightarrow> (None, \<lparr>aps_bridge = b, aps_table = table, aps_current = s\<rparr>)))"

end
