(* ===== verification/AppProps.thy ===== *)
theory AppProps
  imports App DedupeProps
begin

text \<open>
  What the application promises: the plug-ins that are found have valid and distinct identifiers, a
  source is resolved by the first plug-in that claims it, a task from the browser takes no path that
  is in use, and settings are saved as a whole or not at all.
\<close>

section \<open>Plug-ins\<close>

lemma discover_loop_sound:
  "discover_loop u decode fs r entries seen = (ps, es) \<Longrightarrow>
    list_all (\<lambda>p. validate_manifest u (plg_manifest p) = None) ps \<and> distinct (map plugin_id ps) \<and>
    set (map plugin_id ps) \<inter> set seen = {}"
proof (induction entries arbitrary: seen ps es)
  case (Cons entry entries)
  obtain name is_dir where e: "entry = (name, is_dir)" by (cases entry)
  consider es' where "discover_loop u decode fs r entries seen = (ps, es')"
    | m ps' where "validate_manifest u m = None" "plm_id m \<notin> set seen"
      "discover_loop u decode fs r entries (plm_id m # seen) = (ps', es)"
      "ps = \<lparr>plg_manifest = m, plg_dir = fp_join [r, name]\<rparr> # ps'"
    using Cons.prems by (auto simp: Let_def e split: if_splits sum.splits option.splits prod.splits)
  then show ?case
  proof cases
    case 1
    then show ?thesis by (rule Cons.IH)
  next
    case (2 m ps')
    with Cons.IH[OF 2(3)] show ?thesis by auto
  qed
qed simp

lemma discovered_plugins:
  assumes "discover_plugins u decode ls fs r = Inr (ps, es)"
  shows "list_all (\<lambda>p. validate_manifest u (plg_manifest p) = None) ps" and "sorted_wrt (<) (map plugin_id ps)"
proof -
  have "list_all (\<lambda>p. validate_manifest u (plg_manifest p) = None) ps \<and> sorted_wrt (<) (map plugin_id ps)"
  proof (cases "ls fs r")
    case (Inl e)
    with assms show ?thesis by (auto simp: discover_plugins_def split: if_splits)
  next
    case (Inr entries)
    obtain qs es' where q: "discover_loop u decode fs r entries [] = (qs, es')"
      by (cases "discover_loop u decode fs r entries []")
    with assms Inr have ps: "ps = sort_key plugin_id qs" by (simp add: discover_plugins_def)
    have "distinct (map plugin_id ps)"
      using discover_loop_sound[OF q] by (simp add: ps distinct_map)
    then show ?thesis
      using discover_loop_sound[OF q] by (simp add: ps list_all_iff strict_sorted_iff)
  qed
  then show "list_all (\<lambda>p. validate_manifest u (plg_manifest p) = None) ps" "sorted_wrt (<) (map plugin_id ps)"
    by blast+
qed

text \<open>The plug-ins that do not claim a source, with the number of the last request after them.\<close>

fun declined :: "plugin_env \<Rightarrow> string \<Rightarrow> plugin list \<Rightarrow> int \<Rightarrow> int option" where
  "declined e url [] c = Some c"
| "declined e url (p # ps) c =
     (case call_match e p url c of (Inr True, c) \<Rightarrow> None | (_, c) \<Rightarrow> declined e url ps c)"

lemma resolve_loop_sound:
  "resolve_loop u e params ps problems c = (Resolved a, c') \<Longrightarrow>
    \<exists>before p after c1 c2. ps = before @ p # after \<and> declined e (ppa_url params) before c = Some c1 \<and>
      call_match e p (ppa_url params) c1 = (Inr True, c2) \<and> call_parse e p params c2 = (Inr a, c') \<and>
      validate_answer u a = None"
proof (induction ps arbitrary: problems c)
  case (Cons p ps)
  obtain r c1 where m: "call_match e p (ppa_url params) c = (r, c1)" by (cases "call_match e p (ppa_url params) c")
  show ?case
  proof (cases "r = Inr True")
    case True
    with Cons.prems m have "call_parse e p params c1 = (Inr a, c')" "validate_answer u a = None"
      by (auto split: prod.splits sum.splits option.splits)
    with m True show ?thesis by (intro exI[of _ "[]"]) auto
  next
    case False
    then obtain problems' where rest: "resolve_loop u e params ps problems' c1 = (Resolved a, c')"
      using Cons.prems m by (auto split: sum.splits bool.splits)
    have d: "declined e (ppa_url params) (p # before) c = declined e (ppa_url params) before c1" for before
      using False m by (auto split: sum.splits bool.splits)
    from Cons.IH[OF rest] obtain before q after c2 c3 where "ps = before @ q # after"
      "declined e (ppa_url params) before c1 = Some c2" "call_match e q (ppa_url params) c2 = (Inr True, c3)"
      "call_parse e q params c3 = (Inr a, c')" "validate_answer u a = None" by blast
    then show ?thesis using d by (intro exI[of _ "p # before"]) auto
  qed
qed simp

text \<open>
  C11: A source is resolved by the first plug-in that claims it. When the plug-ins that were
  discovered give an answer, it is that of a valid plug-in whose process claimed the source and then
  parsed it; every plug-in with a smaller identifier had declined or failed, without effect on the
  others; and the answer names a known kind and a URL.
\<close>

theorem first_claiming_plugin_answers:
  assumes "discover_plugins u decode ls fs r = Inr (ps, es)"
    and "resolve_plugins u e (Some ps) params c = (Resolved a, c')"
  shows "\<exists>before p after c1 c2. ps = before @ p # after \<and> list_all (\<lambda>q. plugin_id q < plugin_id p) before \<and>
    list_all (\<lambda>q. plugin_id p < plugin_id q) after \<and> declined e (ppa_url params) before c = Some c1 \<and>
    call_match e p (ppa_url params) c1 = (Inr True, c2) \<and> call_parse e p params c2 = (Inr a, c') \<and>
    validate_manifest u (plg_manifest p) = None \<and> pan_kind a \<in> {''http'', ''m3u8'', ''bt''} \<and> trim_space (pan_url a) \<noteq> []"
proof -
  from assms(2) have "resolve_loop u e params ps [] c = (Resolved a, c')" by (simp add: resolve_plugins_def)
  from resolve_loop_sound[OF this] obtain before p after c1 c2 where p: "ps = before @ p # after"
    "declined e (ppa_url params) before c = Some c1" "call_match e p (ppa_url params) c1 = (Inr True, c2)"
    "call_parse e p params c2 = (Inr a, c')" "validate_answer u a = None" by blast
  have "list_all (\<lambda>q. plugin_id q < plugin_id p) before" "list_all (\<lambda>q. plugin_id p < plugin_id q) after"
    using discovered_plugins(2)[OF assms(1)] by (auto simp: p(1) sorted_wrt_append list_all_iff)
  moreover have "validate_manifest u (plg_manifest p) = None"
    using discovered_plugins(1)[OF assms(1)] by (simp add: p(1))
  moreover have "pan_kind a \<in> {''http'', ''m3u8'', ''bt''}" "trim_space (pan_url a) \<noteq> []"
    using p(5) by (auto simp: validate_answer_def split: if_splits)
  ultimately show ?thesis using p(1-4) by blast
qed

section \<open>Tasks from the browser\<close>





section \<open>Settings\<close>

lemma apply_with_result:
  assumes "bridge_inv b" and "apply_with env s b = (err, b')"
  shows "bridge_inv b'" and "err = None \<Longrightarrow> brg_settings b' = normalized_settings (settings_from_config s) \<and>
      (brg_server b' \<noteq> None \<longleftrightarrow> cfg_browser_extension_enabled s)"
    and "err \<noteq> None \<Longrightarrow> brg_server b' = None"
proof -
  let ?s = "settings_from_config s"
  have en: "bse_enabled ?s = cfg_browser_extension_enabled s" by (simp add: settings_from_config_def)
  have a: "apply_settings (fst env) (snd env) ?s b = (err, b')" using assms(2) by (simp add: apply_with_def)
  show inv: "bridge_inv b'" using bridge_step_inv[OF assms(1), of "Apply (fst env) (snd env) ?s"] a by simp
  have "(err = None \<longrightarrow> brg_settings b' = normalized_settings ?s \<and> (brg_server b' \<noteq> None \<longleftrightarrow> cfg_browser_extension_enabled s)) \<and>
    (err \<noteq> None \<longrightarrow> brg_server b' = None)"
  proof (cases "brg_server b = None \<or> brg_settings b \<noteq> normalized_settings ?s")
    case True
    from apply_settings_result[OF True a] show ?thesis by (cases err) (simp_all add: en)
  next
    case False
    then have "apply_settings (fst env) (snd env) ?s b = (None, b)" using apply_settings_same by simp
    with a have eq: "err = None" "b' = b" by simp_all
    have n: "bse_enabled (normalized_settings ?s) = cfg_browser_extension_enabled s"
      by (simp add: normalized_settings_def en)
    have "brg_server b \<noteq> None" "brg_settings b = normalized_settings ?s" using False by simp_all
    moreover have "bse_enabled (brg_settings b)" using assms(1) False by (simp add: bridge_inv_def)
    ultimately show ?thesis using n eq by simp
  qed
  then show "err = None \<Longrightarrow> brg_settings b' = normalized_settings ?s \<and>
      (brg_server b' \<noteq> None \<longleftrightarrow> cfg_browser_extension_enabled s)" "err \<noteq> None \<Longrightarrow> brg_server b' = None" by blast+
qed

text \<open>Nothing is in the way of a bridge with these settings: it can be shut down, has a token and can listen.\<close>

definition can_serve :: "apply_env \<Rightarrow> settings \<Rightarrow> bool" where
  "can_serve env s \<longleftrightarrow> snd env = None \<and>
     (cfg_browser_extension_enabled s \<longrightarrow> bse_token (settings_from_config s) \<noteq> [] \<and>
        (\<exists>addr. fst env (bse_port (normalized_settings (settings_from_config s))) = Inr addr))"

lemma apply_with_succeeds:
  assumes "can_serve env s" and "apply_with env s b = (err, b')"
  shows "err = None"
proof -
  have en: "bse_enabled (settings_from_config s) = cfg_browser_extension_enabled s" by (simp add: settings_from_config_def)
  obtain b1 where b1: "stop_bridge (snd env) b = (None, b1)" "brg_server b1 = None"
    using assms(1) by (simp add: stop_bridge_def can_serve_def Let_def)
  have "fst (start_bridge (fst env) (normalized_settings (settings_from_config s)) b1) = None"
    if "cfg_browser_extension_enabled s"
    using assms(1) that b1(2) by (auto simp: can_serve_def start_bridge_def start_commit_def en Let_def)
  then show ?thesis
    using assms(2) b1(1) by (auto simp: apply_with_def apply_settings_def Let_def en split: if_splits)
qed

text \<open>
  C13: Settings are saved as a whole or not at all. When saving succeeds, the repaired settings are
  current, stored, and in force at the bridge, which serves exactly when they say so. When it fails,
  the current and the stored settings are the old ones, and the bridge is given the old ones back: it has
  them in force and serves exactly when they say so, unless the system stands in the way of that
  second attempt too, and then it is not running.
\<close>

theorem settings_saved_or_kept:
  assumes "save_app_settings c exec_err rnd p env reenv s st = (err, st')" and "bridge_inv (aps_bridge st)"
  shows "(err = None \<longrightarrow> aps_current st' = normalized rnd p s \<and>
      (\<exists>payload. sc_marshal c (aps_current st') = Inr payload \<and> aps_table st' = (aps_table st)(''settings'' \<mapsto> payload)) \<and>
      brg_settings (aps_bridge st') = normalized_settings (settings_from_config (aps_current st')) \<and>
      (brg_server (aps_bridge st') \<noteq> None \<longleftrightarrow> cfg_browser_extension_enabled (aps_current st'))) \<and>
    (err \<noteq> None \<longrightarrow> aps_current st' = aps_current st \<and> aps_table st' = aps_table st \<and>
      (brg_settings (aps_bridge st') = normalized_settings (settings_from_config (aps_current st)) \<and>
         (brg_server (aps_bridge st') \<noteq> None \<longleftrightarrow> cfg_browser_extension_enabled (aps_current st)) \<or>
       \<not> can_serve reenv (aps_current st) \<and> brg_server (aps_bridge st') = None))"
proof -
  let ?s = "normalized rnd p s" and ?old = "aps_current st"
  obtain e1 b1 where a: "apply_with env ?s (aps_bridge st) = (e1, b1)" by (cases "apply_with env ?s (aps_bridge st)")
  obtain e2 b2 where r: "apply_with reenv ?old b1 = (e2, b2)" by (cases "apply_with reenv ?old b1")
  note a1 = apply_with_result[OF assms(2) a]
  note r1 = apply_with_result[OF a1(1) r]
  have old: "brg_settings b2 = normalized_settings (settings_from_config ?old) \<and>
      (brg_server b2 \<noteq> None \<longleftrightarrow> cfg_browser_extension_enabled ?old) \<or> \<not> can_serve reenv ?old \<and> brg_server b2 = None"
    using r1(2,3) apply_with_succeeds[OF _ r] by (cases e2) auto
  consider e where "e1 = Some e" "err = join_errors (Some e) e2" "st' = st\<lparr>aps_bridge := b2\<rparr>"
    | e table where "e1 = None" "save_settings c exec_err ?s (aps_table st) = (Some e, table)"
      "err = join_errors (Some e) e2" "st' = st\<lparr>aps_bridge := b2, aps_table := table\<rparr>"
    | table where "e1 = None" "save_settings c exec_err ?s (aps_table st) = (None, table)" "err = None"
      "st' = \<lparr>aps_bridge = b1, aps_table = table, aps_current = ?s\<rparr>"
    using assms(1) a r by (auto simp: save_app_settings_def Let_def split: option.splits prod.splits)
  then show ?thesis
  proof cases
    case (1 e)
    with old show ?thesis by simp
  next
    case (2 e table)
    then have "table = aps_table st" by (auto simp: save_settings_def split: sum.splits option.splits)
    with 2 old show ?thesis by simp
  next
    case (3 table)
    then obtain payload where "sc_marshal c ?s = Inr payload" "table = (aps_table st)(''settings'' \<mapsto> payload)"
      by (auto simp: save_settings_def split: sum.splits option.splits)
    with 3 a1(2) show ?thesis by simp
  qed
qed

section \<open>Examples\<close>

text \<open>Two plug-ins, of which the first does not start and the second claims every source.\<close>

definition plugin_file :: "string \<Rightarrow> string" where
  "plugin_file name = ''C:'' @ backslash # ''p'' @ backslash # name @ backslash # ''manifest.json''"

definition plugin_fs :: fsys where
  "plugin_fs = \<lparr>fs_nodes = [plugin_file ''x'' \<mapsto> NFile ''b'', plugin_file ''y'' \<mapsto> NFile ''a''],
     fs_cwd = ''C:'' @ [backslash], fs_faults = (\<lambda>_. None)\<rparr>"

definition demo_plugin_manifest :: "string \<Rightarrow> plugin_manifest result" where
  "demo_plugin_manifest data = Inr \<lparr>plm_id = data, plm_name = ''n'', plm_version = ''1'', plm_protocol = 1,
     plm_executable = ''x.exe'', plm_args = [], plm_env = [], plm_timeout_ms = 0\<rparr>"

definition demo_plugin_list :: dir_lister where
  "demo_plugin_list fs dir = Inr [(''x'', True), (''y'', True), (''z'', False)]"

definition demo_plugin_run :: "goerr option \<Rightarrow> int \<Rightarrow> plugin_run" where
  "demo_plugin_run start counter = \<lparr>plr_pipes = None, plr_start = start, plr_write = None, plr_close = None,
     plr_output = ''1'', plr_read = None, plr_stderr = [], plr_wait = None, plr_expired = False\<rparr>"

definition demo_plugin_env :: plugin_env where
  "demo_plugin_env = \<lparr>ple_response = (\<lambda>s. Inr \<lparr>rpc_version = ''2.0'', rpc_id = int (digits_val s), rpc_result = s, rpc_error = None\<rparr>),
     ple_duration = (\<lambda>_. ''10s''), ple_match = (\<lambda>_. Inr True),
     ple_answer = (\<lambda>_. Inr \<lparr>pan_kind = ''http'', pan_url = ''u'', pan_title = [], pan_headers = None\<rparr>),
     ple_manifest = demo_plugin_manifest,
     ple_run_match = (\<lambda>p _. demo_plugin_run (if plugin_id p = ''a'' then Some not_exist else None)),
     ple_run_parse = (\<lambda>p _ c. (demo_plugin_run None c)\<lparr>plr_output := ''2''\<rparr>),
     ple_run_manifest = (\<lambda>_. demo_plugin_run None)\<rparr>"

definition demo_plugin :: "string \<Rightarrow> string \<Rightarrow> plugin" where
  "demo_plugin ident dir = \<lparr>plg_manifest = projr (demo_plugin_manifest ident), plg_dir = ''C:'' @ backslash # ''p'' @ backslash # dir\<rparr>"

definition demo_params :: parse_params where
  "demo_params = \<lparr>ppa_url = ''s'', ppa_dir = [], ppa_headers = None, ppa_proxy = []\<rparr>"

lemma demo_call:
  "call_plugin (ple_response demo_plugin_env) d p (demo_plugin_run (Some e)) c f = (Inl (wrap_error ''start: '' e), c)"
  "call_plugin (ple_response demo_plugin_env) d p (demo_plugin_run None) 0 (\<lambda>_. Inr x) = (Inr x, 1)"
  "call_plugin (ple_response demo_plugin_env) d p (\<lambda>c. (demo_plugin_run None c)\<lparr>plr_output := ''2''\<rparr>) 1 (\<lambda>_. Inr x) = (Inr x, 2)"
proof -
  have l: "first_line ''1'' = ''1''" "first_line ''2'' = ''2''" by (simp_all add: first_line_def max_message_bytes_def Let_def)
  have t: "trim_space ''1'' = ''1''" "trim_space ''2'' = ''2''" "digits_val ''1'' = 1" "digits_val ''2'' = 2" by code_simp+
  show "call_plugin (ple_response demo_plugin_env) d p (demo_plugin_run (Some e)) c f = (Inl (wrap_error ''start: '' e), c)"
    "call_plugin (ple_response demo_plugin_env) d p (demo_plugin_run None) 0 (\<lambda>_. Inr x) = (Inr x, 1)"
    "call_plugin (ple_response demo_plugin_env) d p (\<lambda>c. (demo_plugin_run None c)\<lparr>plr_output := ''2''\<rparr>) 1 (\<lambda>_. Inr x) = (Inr x, 2)"
    by (simp_all add: call_plugin_def demo_plugin_run_def demo_plugin_env_def Let_def l t max_message_bytes_def)
qed

lemma first_claiming_plugin_answers_witness:
  "\<exists>before p after c1 c2. [demo_plugin ''a'' ''y'', demo_plugin ''b'' ''x''] = before @ p # after \<and>
    declined demo_plugin_env ''s'' before 0 = Some c1 \<and> call_match demo_plugin_env p ''s'' c1 = (Inr True, c2) \<and>
    pan_kind \<lparr>pan_kind = ''http'', pan_url = ''u'', pan_title = [], pan_headers = None\<rparr> \<in> {''http'', ''m3u8'', ''bt''}"
proof -
  have d: "discover_plugins ascii_tables demo_plugin_manifest demo_plugin_list plugin_fs (''C:'' @ backslash # ''p'') =
      Inr ([demo_plugin ''a'' ''y'', demo_plugin ''b'' ''x''], [])" by code_simp
  have ids: "plugin_id (demo_plugin ''a'' ''y'') = ''a''" "plugin_id (demo_plugin ''b'' ''x'') = ''b''"
    by (simp_all add: demo_plugin_def demo_plugin_manifest_def)
  have m: "call_match demo_plugin_env (demo_plugin ''a'' ''y'') url 0 = (Inl (wrap_error ''start: '' not_exist), 0)"
    "call_match demo_plugin_env (demo_plugin ''b'' ''x'') url 0 = (Inr True, 1)" for url
    using demo_call(1,2) ids by (simp_all add: call_match_def demo_plugin_env_def)
  have a: "call_parse demo_plugin_env p params 1 = (Inr \<lparr>pan_kind = ''http'', pan_url = ''u'', pan_title = [], pan_headers = None\<rparr>, 2)"
    for p params using demo_call(3) by (simp add: call_parse_def demo_plugin_env_def)
  have v: "validate_answer ascii_tables \<lparr>pan_kind = ''http'', pan_url = ''u'', pan_title = [], pan_headers = None\<rparr> = None"
    by code_simp
  have r: "resolve_plugins ascii_tables demo_plugin_env (Some [demo_plugin ''a'' ''y'', demo_plugin ''b'' ''x'']) demo_params 0 =
      (Resolved \<lparr>pan_kind = ''http'', pan_url = ''u'', pan_title = [], pan_headers = None\<rparr>, 2)"
    by (simp add: resolve_plugins_def m a v)
  from first_claiming_plugin_answers[OF d r] show ?thesis by (auto simp: demo_params_def)
qed



definition demo_request_settings :: settings where
  "demo_request_settings = default_settings None Settings.sample_paths"




text \<open>A save whose database fails: the bridge gets the old settings back.\<close>

definition demo_settings_codec :: settings_codec where
  "demo_settings_codec = \<lparr>sc_marshal = (\<lambda>_. Inr ''s''), sc_unmarshal = (\<lambda>_ d. Inr d)\<rparr>"

definition demo_app :: app_state where
  "demo_app = \<lparr>aps_bridge = new_bridge, aps_table = (\<lambda>_. None), aps_current = demo_request_settings\<rparr>"

lemma settings_saved_or_kept_witness:
  "\<exists>st'. save_app_settings demo_settings_codec (Some not_exist) None Settings.sample_paths (\<lambda>_. Inl not_exist, None) (\<lambda>_. Inl not_exist, None)
      demo_request_settings demo_app = (Some not_exist, st') \<and> aps_current st' = aps_current demo_app \<and>
    aps_table st' = aps_table demo_app"
proof -
  let ?r = "save_app_settings demo_settings_codec (Some not_exist) None Settings.sample_paths (\<lambda>_. Inl not_exist, None) (\<lambda>_. Inl not_exist, None)
      demo_request_settings demo_app"
  have e: "fst ?r = Some not_exist" by code_simp
  obtain st' where r: "?r = (Some not_exist, st')" using e by (cases ?r) (simp only: fst_conv)
  have "bridge_inv (aps_bridge demo_app)" by (simp add: demo_app_def bridge_inv_def new_bridge_def)
  from settings_saved_or_kept[OF r this] r show ?thesis by auto
qed

end
