(* ===== verification/Spec2Isabelle.thy ===== *)
theory Spec2Isabelle
  imports SchedulerRaces SchedulerIdle Dispatcher DialogProps UiProps JsonText DedupeProps FileProps HttpProps HttpProbeProps BridgeServer FtpListing FtpRetry BtClientProps BtEngineProps UpdateProps M3u8Props StorageProps MergeProps AppProps
begin

text \<open>
  Ghost Downloader 3 is a download manager for Windows written in Go. Its core, under
  \<open>src/internal\<close>, is a scheduler of download tasks (\<open>core\<close>), workers that run one task each over
  HTTP, FTP, BitTorrent, HLS or as a merge of two resources (\<open>download/*\<close>), a store of the tasks
  and the settings (\<open>storage\<close>, \<open>config\<close>), and a websocket server through which a browser extension
  adds and steers tasks (\<open>browserbridge\<close>). The window, the tray and the update check sit on top (\<open>ui\<close>, \<open>update\<close>).
  A task is created by a worker package's parser, handed to the scheduler, saved, and run by the
  package's worker in a goroutine of its own; the worker reports its progress to the scheduler,
  which publishes snapshots to the window and the bridge.

  \<^bold>\<open>How the model is built.\<close> Every operation of the program is a function on explicit states, with
  the branches, the order of the calls and the error texts of the source. A Go struct is a record
  with the same fields, an error is a value of \<open>goerr\<close>, \<open>(T, error)\<close> is \<open>T result\<close>, a Go string is
  a list of bytes, an integer is an \<open>int\<close> with the wrap-around written out where an operation can
  overflow. Locked sections are atomic; what several goroutines do is the step relation of their
  locked sections. The clock, random bytes, the network, the operating system's faults and
  third-party code are arguments of the definitions that use them.

  \<^bold>\<open>The standard library.\<close> \<open>GoBase\<close>, \<open>GoStrings\<close> and \<open>GoUtf8\<close> are the parts of \<open>strings\<close>,
  \<open>strconv\<close> and \<open>unicode/utf8\<close> that the code uses, byte for byte; what Go looks up in its Unicode
  tables is the argument \<open>unicode\<close>. \<open>GoPath\<close> and \<open>GoFilepath\<close> are \<open>path\<close> and \<open>path/filepath\<close> as they
  work on Windows. \<open>GoNet\<close> is the part of \<open>net/url\<close>, \<open>mime\<close> and \<open>net/http\<close>'s headers that is used,
  with the parsers as arguments, \<open>GoJson\<close> the values of \<open>encoding/json\<close>, whose text is an
  argument, \<open>JsonText\<close> what is known of that text: a string that is not valid UTF-8 comes back with
  U+FFFD for its bad bytes, an empty map behind \<open>omitempty\<close> comes back nil, and everything else comes back
  as it was (\<open>json_text\<close>, \<open>json_keeps\<close>; an example writer and reader show that this can be had for every
  task), and \<open>GoBase64\<close> is \<open>encoding/base64\<close>. \<open>OsFiles\<close> has the calls of package \<open>os\<close> on the file
  tree of \<open>TaskFiles\<close>.

  \<^bold>\<open>Tasks and files\<close> (\<open>core/model.go\<close>). \<open>CoreModel\<close> has the statuses, tasks, stages, snapshots,
  progress updates and the registry of workers; \<open>TaskFiles\<close> has the file tree (a map from absolute
  paths to nodes, with faults) and the operations on a task's files: ownership of a path, the
  choice of an FTP directory's output, the removal of a task's files. \<open>TaskFilesProps\<close> and
  \<open>FileProps\<close> show that an owned path lies strictly below the task's directory, that removing a
  task's files touches nothing else, that a directory without the task's marker is never removed,
  and that a chosen output is free or its own.

  \<^bold>\<open>The scheduler\<close> (\<open>core/scheduler.go\<close>). The record \<open>sched\<close> holds the tasks in order, the table of
  running runs, the slots, the timers and the two channels. \<open>Scheduler\<close> has the helpers that run
  with the lock held, \<open>SchedulerOps\<close> the user's operations and the sections of a run, and
  \<open>SchedulerSystem\<close> the relation \<open>sys_step\<close> of all interleavings of these sections.
  \<open>SchedulerInv\<close>, \<open>SchedulerKeep\<close> and \<open>SchedulerKeep2\<close> prove the invariant \<open>core_inv\<close> for every
  operation; \<open>SchedulerFacts\<close> and \<open>SchedulerProps\<close> derive the properties: the slot bound, one live
  run for an active task, nothing started after \<open>StopAll\<close>, the saved list loads back (active tasks
  paused), edits commit on the task they were computed from, late reports do not revive a task,
  and the newest event is current. \<open>SchedulerIdle\<close> shows over all interleavings that no waiting task which
  could run is left behind, \<open>SchedulerRaces\<close> what the interleavings still allow: a redownload that is
  overtaken by the start of its task. The step \<open>st_report\<close> lets a working run report anything at
  any time, which is more than the workers do: what holds in every reachable state holds all the
  more with the workers' own reports, and the run of \<open>SchedulerRaces\<close> makes no report.

  \<^bold>\<open>Downloads.\<close> \<open>RateLimit\<close> is the token bucket of \<open>ratelimit/limiter.go\<close> over exact rationals, with
  the bound on what it lets through and the waits that end, or do not. \<open>HttpTransfer\<close> is
  \<open>download/http/worker.go\<close>: the parts and their record, the copying loop and the retries of one
  part, with the server's answers as data; \<open>HttpProps\<close> shows that parts tile the file, the record
  reads back, a part that ends holds the server's bytes, and parts that interleave assemble the
  file. \<open>HttpProbe\<close> and \<open>HttpProbeProps\<close> are \<open>probe.go\<close>, \<open>headers.go\<close>, \<open>dedupe.go\<close> and
  \<open>errors.go\<close>; \<open>DedupeProps\<close> shows that the search for a free title ends when the tree and the refused
  look-ups are finite, and that it does not end when every look-up is refused. \<open>FtpText\<close>, \<open>FtpTask\<close> and \<open>FtpWorker\<close> are \<open>download/ftp/ftp.go\<close>: names and listing,
  the task's creation, and the worker for a file and a directory; \<open>FtpNames\<close> and \<open>FtpListing\<close> show
  that listed paths are safe and accepted again at the run, \<open>FtpTransfer\<close> that a finished run has
  delivered the resource, \<open>FtpRetry\<close> that the retries need not end.

  \<^bold>\<open>BitTorrent\<close> (\<open>download/bt\<close>, \<open>btruntime\<close>, \<open>cmd/gd3-bt-runtime\<close>). The engine is a third-party
  library that runs in a child process; what it answers is data. \<open>BtModel\<close> is \<open>model.go\<close> and
  \<open>trackers.go\<close>: safe names, the files of a torrent, the options and the checkpoint that a stage
  keeps as texts. \<open>BtStorage\<close> is \<open>resume_storage.go\<close> with \<open>storagePaths\<close>: the pieces of a torrent as one
  address space over files. \<open>BtStorageProps\<close> and \<open>BtStorageClaims\<close> show, inside the locale \<open>byte_space\<close>
  that the storage interprets, that what was written is read back and that a piece reported as
  complete can be read; \<open>BtPaths\<close> that every file lies below the task's directory. \<open>BtWorker\<close> is the
  loop of \<open>worker.go\<close> that samples the transfer, and \<open>BtWorkerProps\<close> shows what the
  report that is made of a sample says of the files at the moment of that sample.
  \<open>BtResolve\<close> is \<open>parse.go\<close>, with \<open>BtResolveProps\<close> on what the worker reads of a resolved task,
  where JSON mends the strings that are not valid UTF-8.
  \<open>BtEngine\<close> opens and closes the engine, with the transport and the completion counter, and
  \<open>BtEngineProps\<close> shows that nothing leaks but a sequential reader for which \<open>Close\<close> has waited in vain.
  \<open>BtClient\<close> is the client in the main program and the messages of the child, with the JSON of the
  pipe (\<open>pipe_codec\<close>, whose errors the child discards), and \<open>BtClientProps\<close> compares both sides. Of the
  torrent library \<open>meta_laid_out\<close> assumes that the files of an info dictionary follow each other in
  the address space, with lengths that are not negative, and that no two of them agree in offset, length and path, which only repeated empty files do.

  \<^bold>\<open>HLS and DASH\<close> (\<open>download/m3u8\<close>). \<open>M3u8\<close> is what happens before the run: what is a manifest, its title,
  the command line of the program N_m3u8DL-RE, the options of the settings and of a task, and the
  parse. \<open>M3u8Worker\<close> is the run: the progress lines, read with the regular expressions of \<open>GoRegexp\<close>,
  and the search for the output. \<open>M3u8Props\<close> shows that a task keeps the settings of its parse,
  and what the search may do to other files. How N_m3u8DL-RE reads its command line is not modelled.

  \<^bold>\<open>Merging\<close> (\<open>download/ffmpeg\<close>). \<open>Merge\<close> is the task for a video and an audio resource and its
  worker, which downloads both into a directory of the task and starts FFmpeg on them. \<open>MergeProps\<close>
  shows that FFmpeg is given both bodies whole, when their temporary names differ. The goroutine that
  reads FFmpeg's progress is not waited for, so the lines it reads are split, by data, into those
  before the worker's last report and those after it.

  \<^bold>\<open>Settings and the browser bridge.\<close> \<open>Settings\<close> is \<open>config/settings.go\<close> and \<open>config/paths.go\<close>.
  \<open>Bridge\<close> is one session of \<open>browserbridge/bridge.go\<close>, message by message, \<open>BridgeServer\<close> the life of
  its server. \<open>BridgeProps\<close> shows that a session's phases are those of an abstract automaton, that
  an untrusted session changes nothing, and that the token is sent only after an approval.

  \<^bold>\<open>The stores\<close> (\<open>storage\<close>). \<open>Storage\<close> has the protection of FTP passwords and the stores of the tasks
  and the settings, with the database, JSON and the data protection interface as arguments.
  \<open>StorageProps\<close> shows that what was saved loads back, for tasks that JSON keeps, and that no password is
  stored in the clear.

  \<^bold>\<open>The update\<close> (\<open>update\<close>). \<open>Update\<close> is \<open>checker.go\<close> and \<open>portable.go\<close>: versions, the latest release, its
  portable assets, their download into a fresh directory and the verification of the archive.
  \<open>UpdateProps\<close> shows that versions are compared in the order that \<open>version\<close> instantiates, that an
  update which is offered has passed every check, and that a failed one leaves no trace.

  \<^bold>\<open>Plug-ins and the application\<close> (\<open>pluginhost\<close>, \<open>app\<close>). \<open>PluginHost\<close> is the manifests, the discovery and
  the calls of plug-ins, whose processes are data. \<open>App\<close> is the logic of \<open>app.go\<close>: the switch over the
  parsers, the tasks that the browser asks for, and the settings at the start and when they are
  saved. \<open>AppProps\<close> shows which plug-in answers, that a browser's task is made and takes no folder and title in
  use, and that settings are saved with all their effects or the old ones are put back.

  \<^bold>\<open>Behind the window\<close> (\<open>ui\<close>). \<open>Dispatcher\<close> is the executor through which the window runs slow
  operations, as a step relation of the locked sections of its goroutine and its callers; closing it
  drains it. \<open>SettingsDialog\<close> is what the fields of the settings dialog show and how their texts are
  parsed, and \<open>DialogProps\<close> shows that settings which the dialog has saved come out of it unchanged.
  \<open>UiModels\<close> is the table of tasks, the notifications and the files of a torrent in the selection
  dialog; \<open>UiProps\<close> shows that the table shows the matching tasks in order, that a change of status is
  notified once, and that the selection that is accepted is the one shown. \<open>UiText\<close> has the Chinese texts.

  \<^bold>\<open>Bounds and fuel.\<close> Loops over a server's answers recurse on the list of these answers; a loop
  whose list ends first returns None, which no theorem counts as a return. The retry loops of HTTP
  and FTP and the waiting loop of the limiter are of this kind, and the theorems on them say how
  long a list is enough. The search for a free title has fuel, and \<open>AppProps\<close> shows that there is
  enough fuel under stated conditions. All other recursions are structural or proved to terminate.

  \<^bold>\<open>Not modelled.\<close> Configuration of third-party clients (dialers, proxies, TLS), the opening of the
  databases, the widgets and their drawing, the tray and the other uses of the Win32 interface, the wiring in \<open>app.Run\<close>,
  the main functions, process start and logging: they are calls of libraries and of the operating
  system. The file tree of \<open>TaskFiles\<close> compares absolute paths with their case (\<open>fs_key\<close>), where Windows does
  not regard it; opening a file for writing does not ask for its directory, and \<open>os_remove\<close> takes
  away a directory that is not empty, which Windows refuses and which the model has as a fault. Symbolic links are not followed, and the scheduling of goroutines within a locked section
  is not visible.
\<close>

end
